(* ===== verification/Prelude.thy ===== *)
theory Prelude
  imports Main "HOL-Library.Word" "HOL-Library.Sublist" "HOL-Library.Char_ord"
    "HOL-Library.List_Lexorder"
begin

text \<open>
  Shared vocabulary of the development: the machine integers of Go, the error values of the
  broker and of the provider agent, the results of fallible functions, and the parts of Go's
  \<^verbatim>\<open>strings\<close>, \<^verbatim>\<open>math/big\<close> and \<^verbatim>\<open>strconv\<close> packages that the source calls.
  A Go string is a list of bytes, hence \<^typ>\<open>string\<close> (one \<^typ>\<open>char\<close> per byte).
\<close>

section \<open>Types\<close>

type_synonym u64 = "64 word"
type_synonym u32 = "32 word"
type_synonym u16 = "16 word"
type_synonym u8 = "8 word"

text \<open>
  Go error values. The sentinel errors of the source keep their names; errors built with
  \<^verbatim>\<open>errors.New\<close> or \<^verbatim>\<open>fmt.Errorf\<close> carry their text; \<open>ErrNoRows\<close> is
  \<^verbatim>\<open>sql.ErrNoRows\<close>, \<open>ErrConstraint\<close> a violated table constraint, and
  \<open>ErrFault\<close> a failure of the database, the network or the operating system and
  \<open>ErrPanic\<close> a run-time panic.
\<close>

datatype go_error =
    ErrInvalidMessage | ErrMessageTooLarge | ErrUnsupportedVersion | ErrChunkSequence
  | ErrOverflow | ErrMaximumExceeded | ErrInvalidReceipt
  | ErrNoEligibleProvider | ErrInsufficientBudget
  | ErrUnauthorized | ErrDisconnected | ErrBackpressure
  | ErrInvalidTransition | ErrNoOutboxEvents
  | ErrInsufficientBalance | ErrIneligibleRoute | ErrUsageLimitExceeded
  | ErrNoSignedReceipts | ErrTransactionReverted
  | ErrAuthorizationPending | ErrAuthorizationExpired | ErrAuthorizationConsumed
  | ErrInvalidCredential | ErrScopeDenied | ErrOriginDenied
  | ErrLeaseAlreadyAccepted | ErrRequestTerminal
  | ErrNoRows | ErrConstraint | ErrFault nat | ErrPanic | ErrText string

type_synonym 'a result = "go_error + 'a"

text \<open>
  \<^verbatim>\<open>x, err := f(); if err != nil { return err }\<close> is \<open>and_then f (\<lambda>x. ...)\<close>, and
  \<^verbatim>\<open>if cond { return err }\<close> is \<open>reject_if cond err rest\<close>.
\<close>

fun and_then :: "'a result \<Rightarrow> ('a \<Rightarrow> 'b result) \<Rightarrow> 'b result" where
  "and_then (Inl e) k = Inl e"
| "and_then (Inr x) k = k x"

definition reject_if :: "bool \<Rightarrow> go_error \<Rightarrow> 'a result \<Rightarrow> 'a result" where
  "reject_if c e r = (if c then Inl e else r)"

fun is_ok :: "'a result \<Rightarrow> bool" where
  "is_ok (Inl e) = False"
| "is_ok (Inr x) = True"

section \<open>Strings\<close>

text \<open>
  \<^verbatim>\<open>strings.TrimSpace\<close> removes leading and trailing runes for which
  \<^verbatim>\<open>unicode.IsSpace\<close> holds; the list gives the UTF-8 encoding of each of them.
\<close>

definition space_runes :: "string list" where
  "space_runes =
     [[CHR 0x09], [CHR 0x0A], [CHR 0x0B], [CHR 0x0C], [CHR 0x0D], [CHR 0x20],
      [CHR 0xC2, CHR 0x85], [CHR 0xC2, CHR 0xA0], [CHR 0xE1, CHR 0x9A, CHR 0x80],
      [CHR 0xE2, CHR 0x80, CHR 0x80], [CHR 0xE2, CHR 0x80, CHR 0x81],
      [CHR 0xE2, CHR 0x80, CHR 0x82], [CHR 0xE2, CHR 0x80, CHR 0x83],
      [CHR 0xE2, CHR 0x80, CHR 0x84], [CHR 0xE2, CHR 0x80, CHR 0x85],
      [CHR 0xE2, CHR 0x80, CHR 0x86], [CHR 0xE2, CHR 0x80, CHR 0x87],
      [CHR 0xE2, CHR 0x80, CHR 0x88], [CHR 0xE2, CHR 0x80, CHR 0x89],
      [CHR 0xE2, CHR 0x80, CHR 0x8A], [CHR 0xE2, CHR 0x80, CHR 0xA8],
      [CHR 0xE2, CHR 0x80, CHR 0xA9], [CHR 0xE2, CHR 0x80, CHR 0xAF],
      [CHR 0xE2, CHR 0x81, CHR 0x9F], [CHR 0xE3, CHR 0x80, CHR 0x80]]"

text \<open>Drops leading runes of the list \<open>rs\<close>, as often as one of them is a prefix.\<close>

function trim_left :: "string list \<Rightarrow> string \<Rightarrow> string" where
  "trim_left rs s =
     (case find (\<lambda>r. r \<noteq> [] \<and> prefix r s) rs of
        None \<Rightarrow> s
      | Some r \<Rightarrow> trim_left rs (drop (length r) s))"
  by pat_completeness auto
termination
  by (relation "measure (\<lambda>(rs, s). length s)")
     (auto simp: find_Some_iff prefix_def)

declare trim_left.simps [simp del]

definition trim_space :: "string \<Rightarrow> string" where
  "trim_space s = rev (trim_left (map rev space_runes) (rev (trim_left space_runes s)))"

text \<open>\<^verbatim>\<open>strings.TrimSpace(s) == ""\<close>\<close>

definition blank :: "string \<Rightarrow> bool" where
  "blank s \<longleftrightarrow> trim_space s = []"

text \<open>
  \<^verbatim>\<open>strings.ToLower\<close>, \<^verbatim>\<open>strings.EqualFold\<close> and SQL's \<^verbatim>\<open>lower\<close> on the
  ASCII range: the source applies them to hexadecimal addresses and to HTTP tokens.
\<close>

definition lower_char :: "char \<Rightarrow> char" where
  "lower_char c = (if CHR ''A'' \<le> c \<and> c \<le> CHR ''Z'' then char_of (of_char c + 32 :: nat) else c)"

definition to_lower :: "string \<Rightarrow> string" where
  "to_lower = map lower_char"

definition upper_char :: "char \<Rightarrow> char" where
  "upper_char c = (if CHR ''a'' \<le> c \<and> c \<le> CHR ''z'' then char_of (of_char c - 32 :: nat) else c)"

definition to_upper :: "string \<Rightarrow> string" where
  "to_upper = map upper_char"

definition equal_fold :: "string \<Rightarrow> string \<Rightarrow> bool" where
  "equal_fold s t \<longleftrightarrow> to_lower s = to_lower t"

definition trim_prefix :: "string \<Rightarrow> string \<Rightarrow> string" where
  "trim_prefix p s = (if prefix p s then drop (length p) s else s)"

section \<open>Decimal numbers\<close>

definition is_digit :: "char \<Rightarrow> bool" where
  "is_digit c \<longleftrightarrow> CHR ''0'' \<le> c \<and> c \<le> CHR ''9''"

definition digit_val :: "char \<Rightarrow> nat" where
  "digit_val c = of_char c - 48"

definition digits_val :: "string \<Rightarrow> nat" where
  "digits_val s = foldl (\<lambda>n c. 10 * n + digit_val c) 0 s"

text \<open>
  \<^verbatim>\<open>new(big.Int).SetString(s, 10)\<close>: an optional sign and at least one digit.
\<close>

definition big_set_string :: "string \<Rightarrow> int option" where
  "big_set_string s =
     (let body = (case s of [] \<Rightarrow> [] | c # cs \<Rightarrow> if c = CHR ''+'' \<or> c = CHR ''-'' then cs else s)
      in if body = [] \<or> \<not> list_all is_digit body then None
         else if hd s = CHR ''-'' then Some (- int (digits_val body))
         else Some (int (digits_val body)))"

text \<open>\<^verbatim>\<open>strconv.FormatUint(n, 10)\<close> and \<^verbatim>\<open>(*big.Int).String\<close>.\<close>

fun nat_string :: "nat \<Rightarrow> string" where
  "nat_string n =
     (if n < 10 then [char_of (n + 48)] else nat_string (n div 10) @ [char_of (n mod 10 + 48)])"

declare nat_string.simps [simp del]

definition int_string :: "int \<Rightarrow> string" where
  "int_string i = (if i < 0 then CHR ''-'' # nat_string (nat (- i)) else nat_string (nat i))"

definition max_u64 :: int where
  "max_u64 = 2 ^ 64 - 1"

text \<open>\<^verbatim>\<open>(*big.Int).IsUint64\<close> and \<^verbatim>\<open>(*big.Int).Uint64\<close> on a value in range.\<close>

definition is_uint64 :: "int \<Rightarrow> bool" where
  "is_uint64 i \<longleftrightarrow> 0 \<le> i \<and> i \<le> max_u64"

text \<open>\<^verbatim>\<open>strconv.ParseUint(s, 10, 64)\<close>\<close>

definition parse_uint64 :: "string \<Rightarrow> u64 option" where
  "parse_uint64 s = (if s = [] \<or> \<not> list_all is_digit s \<or> \<not> is_uint64 (int (digits_val s)) then None
     else Some (of_nat (digits_val s)))"

definition ceil_div :: "int \<Rightarrow> int \<Rightarrow> int" where
  "ceil_div a d = (a + (d - 1)) div d"

section \<open>Collections of facts\<close>

named_theorems validate_defs "definitions of the Validate methods"
named_theorems db_defs "definitions of the database statements"

section \<open>Facts about results\<close>

lemma and_then_Inr [simp]: "and_then r k = Inr y \<longleftrightarrow> (\<exists>x. r = Inr x \<and> k x = Inr y)"
  by (cases r) auto

lemma and_then_Inl: "and_then r k = Inl e \<longleftrightarrow> r = Inl e \<or> (\<exists>x. r = Inr x \<and> k x = Inl e)"
  by (cases r) auto

lemma reject_if_Inr [simp]: "reject_if c e r = Inr y \<longleftrightarrow> \<not> c \<and> r = Inr y"
  by (simp add: reject_if_def)

lemma reject_if_Inl: "reject_if c e r = Inl e' \<longleftrightarrow> (c \<and> e' = e) \<or> (\<not> c \<and> r = Inl e')"
  by (auto simp: reject_if_def)

lemma is_ok_iff: "is_ok r \<longleftrightarrow> (\<exists>x. r = Inr x)"
  by (cases r) auto

section \<open>Facts about decimal numbers\<close>

lemma of_char_digit: "n < 10 \<Longrightarrow> of_char (char_of (n + 48) :: char) = n + (48 :: nat)"
  by simp

lemma is_digit_char_of [simp]: "n < 10 \<Longrightarrow> is_digit (char_of (n + 48 :: nat))"
  by (simp add: is_digit_def less_eq_char_def)

lemma digit_val_char_of [simp]: "n < 10 \<Longrightarrow> digit_val (char_of (n + 48 :: nat)) = n"
  by (simp add: digit_val_def)

lemma digits_val_snoc [simp]: "digits_val (s @ [c]) = 10 * digits_val s + digit_val c"
  by (simp add: digits_val_def)

lemma nat_string_digits: "list_all is_digit (nat_string n)"
proof (induction n rule: nat_string.induct)
  case (1 n)
  then show ?case by (subst nat_string.simps) simp
qed

lemma nat_string_nonempty [simp]: "nat_string n \<noteq> []"
  by (subst nat_string.simps) simp

lemma digits_val_nat_string [simp]: "digits_val (nat_string n) = n"
proof (induction n rule: nat_string.induct)
  case (1 n)
  show ?case
  proof (cases "n < 10")
    case True
    then show ?thesis by (subst nat_string.simps) (simp add: digits_val_def)
  next
    case False
    with "1.IH" show ?thesis by (subst nat_string.simps) simp
  qed
qed

lemma not_digit_signs: "\<not> is_digit CHR ''+''" "\<not> is_digit CHR ''-''"
  by (simp_all add: is_digit_def less_eq_char_def)

lemma nat_string_Cons: "\<exists>c cs. nat_string n = c # cs \<and> is_digit c \<and> list_all is_digit cs"
  using nat_string_digits [of n] by (cases "nat_string n") auto

lemma big_set_string_int_string [simp]: "big_set_string (int_string i) = Some i"
proof -
  obtain c cs where n: "nat_string (nat i) = c # cs" "is_digit c" "list_all is_digit cs"
    using nat_string_Cons by blast
  then have d: "c \<noteq> CHR ''+''" "c \<noteq> CHR ''-''"
    using not_digit_signs by auto
  have v: "digits_val (c # cs) = nat i"
    using n(1) digits_val_nat_string [of "nat i"] by simp
  show ?thesis
  proof (cases "i < 0")
    case True
    then show ?thesis
      using nat_string_digits [of "nat (- i)"]
      by (simp add: big_set_string_def int_string_def)
  next
    case False
    with n d v show ?thesis
      by (simp add: big_set_string_def int_string_def)
  qed
qed

section \<open>Facts about rounding up\<close>

lemma ceil_div_ge: "0 < d \<Longrightarrow> a \<le> d * ceil_div a d"
  unfolding ceil_div_def
  by (smt (verit) mod_div_mult_eq pos_mod_bound mult.commute)

lemma ceil_div_lt: "0 < d \<Longrightarrow> d * ceil_div a d < a + d"
  unfolding ceil_div_def
  by (smt (verit) mod_div_mult_eq pos_mod_sign mult.commute)

lemma ceil_div_nonneg: "0 \<le> a \<Longrightarrow> 0 < d \<Longrightarrow> 0 \<le> ceil_div a d"
  by (simp add: ceil_div_def pos_imp_zdiv_nonneg_iff)

lemma ceil_div_mono: "a \<le> b \<Longrightarrow> 0 < d \<Longrightarrow> ceil_div a d \<le> ceil_div b d"
  by (simp add: ceil_div_def zdiv_mono1)

lemma ceil_div_0 [simp]: "0 < d \<Longrightarrow> ceil_div 0 d = 0"
  by (simp add: ceil_div_def)

lemma uint_le_max_u64 [simp]: "uint (w :: u64) \<le> max_u64"
  using uint_lt2p [of w] by (simp add: max_u64_def)

lemma is_uint64_uint [simp]: "is_uint64 (uint (w :: u64))"
  by (simp add: is_uint64_def)

lemma uint_of_int_u64: "is_uint64 i \<Longrightarrow> uint (of_int i :: u64) = i"
  by (simp add: is_uint64_def max_u64_def unsigned_of_int take_bit_int_eq_self)

lemma unat_plus_u64: "unat (a :: u64) + unat b < 2 ^ 64 \<Longrightarrow> unat (a + b) = unat a + unat b"
  using unat_word_ariths(1) [of a b] by simp

lemma unat_Suc_u64: "unat (a :: u64) + 1 < 2 ^ 64 \<Longrightarrow> unat (a + 1) = unat a + 1"
  using unat_plus_u64 [of a 1] by simp

lemma unat_less_u64: "unat (a :: u64) < 2 ^ 64"
  using unsigned_less [of a, where ?'a = nat] by simp

lemma unat_of_nat_u64: "n < 2 ^ 64 \<Longrightarrow> unat (of_nat n :: u64) = n"
  by (simp add: unsigned_of_nat take_bit_nat_eq_self)

section \<open>Facts about trimming\<close>

lemma trim_left_prefix: "suffix (trim_left rs s) s"
proof (induction rs s rule: trim_left.induct)
  case (1 rs s)
  show ?case
  proof (cases "find (\<lambda>r. r \<noteq> [] \<and> prefix r s) rs")
    case None
    then show ?thesis by (subst trim_left.simps) simp
  next
    case (Some r)
    with "1.IH" have "suffix (trim_left rs (drop (length r) s)) (drop (length r) s)" by simp
    then show ?thesis
      using Some by (subst trim_left.simps) (simp add: suffix_drop suffix_order.trans)
  qed
qed

lemma trim_left_Nil [simp]: "trim_left rs [] = []"
  by (subst trim_left.simps) (auto split: option.split simp: find_Some_iff)

lemma blank_Nil [simp]: "blank []"
  by (simp add: blank_def trim_space_def)

lemma not_blank_nonempty: "\<not> blank s \<Longrightarrow> s \<noteq> []"
  by auto

end
