(* ===== verification/Price.thy ===== *)
theory Price
  imports Prelude
begin

text \<open>
  The on-chain price arithmetic of \<^verbatim>\<open>protocol/v1/price.go\<close> on 64-bit words, with the
  double-word primitives of Go's \<^verbatim>\<open>math/bits\<close> written out, and its equivalence with
  exact integer arithmetic rounded up per component.
\<close>

section \<open>Double-word primitives\<close>

text \<open>\<^verbatim>\<open>bits.Mul64\<close>: the high and the low word of the 128-bit product.\<close>

definition mul64 :: "u64 \<Rightarrow> u64 \<Rightarrow> u64 \<times> u64" where
  "mul64 x y = (of_nat (unat x * unat y div 2 ^ 64), x * y)"

text \<open>
  \<^verbatim>\<open>bits.Div64\<close>: quotient and remainder of a double word; it panics when the divisor
  is zero or not larger than the high word.
\<close>

definition div64 :: "u64 \<Rightarrow> u64 \<Rightarrow> u64 \<Rightarrow> (u64 \<times> u64) result" where
  "div64 hi lo y =
     (if y \<le> hi then Inl ErrPanic
      else let n = unat hi * 2 ^ 64 + unat lo
           in Inr (of_nat (n div unat y), of_nat (n mod unat y)))"

text \<open>\<^verbatim>\<open>bits.Add64\<close>: sum and carry.\<close>

definition add64 :: "u64 \<Rightarrow> u64 \<Rightarrow> u64 \<Rightarrow> u64 \<times> u64" where
  "add64 x y carry = (x + y + carry, if unat x + unat y + unat carry < 2 ^ 64 then 0 else 1)"

section \<open>Price\<close>

record price =
  InputPerMillion :: u64
  OutputPerMillion :: u64
  ComputePerSecond :: u64

definition tokensPerMillion :: u64 where
  "tokensPerMillion = 1000000"

definition millisPerSecond :: u64 where
  "millisPerSecond = 1000"

definition multiplyDivideCeil :: "u64 \<Rightarrow> u64 \<Rightarrow> u64 \<Rightarrow> u64 result" where
  "multiplyDivideCeil units rate denominator =
     (if units = 0 \<or> rate = 0 then Inr 0
      else let (hi, lo) = mul64 units rate
           in if denominator \<le> hi then Inl ErrOverflow
              else and_then (div64 hi lo denominator) (\<lambda>(quotient, remainder).
                if remainder = 0 then Inr quotient
                else let (quotient', carry) = add64 quotient 1 0
                     in if carry \<noteq> 0 then Inl ErrOverflow else Inr quotient'))"

definition Charge :: "price \<Rightarrow> u64 \<Rightarrow> u64 \<Rightarrow> u64 \<Rightarrow> u64 \<Rightarrow> u64 result" where
  "Charge p inputTokens outputTokens computeMillis maxWei =
     and_then (multiplyDivideCeil inputTokens (InputPerMillion p) tokensPerMillion) (\<lambda>input.
     and_then (multiplyDivideCeil outputTokens (OutputPerMillion p) tokensPerMillion) (\<lambda>output.
     and_then (multiplyDivideCeil computeMillis (ComputePerSecond p) millisPerSecond) (\<lambda>compute.
       let (total, carry) = add64 input output 0
       in if carry \<noteq> 0 then Inl ErrOverflow
          else let (total', carry') = add64 total compute 0
               in if carry' \<noteq> 0 then Inl ErrOverflow
                  else if maxWei < total' then Inl ErrMaximumExceeded
                  else Inr total')))"

section \<open>Exact arithmetic\<close>

text \<open>
  The reference: usage times rate, rounded up to whole wei per component, summed without bound.
\<close>

definition metered_total :: "int \<times> int \<times> int \<Rightarrow> u64 \<Rightarrow> u64 \<Rightarrow> u64 \<Rightarrow> int" where
  "metered_total rates a b m =
     (case rates of (i, out, c) \<Rightarrow>
        ceil_div (uint a * i) 1000000 + ceil_div (uint b * out) 1000000 + ceil_div (uint m * c) 1000)"

definition price_rates :: "price \<Rightarrow> int \<times> int \<times> int" where
  "price_rates p = (uint (InputPerMillion p), uint (OutputPerMillion p), uint (ComputePerSecond p))"

lemma mul64_hi: "unat (fst (mul64 x y)) = unat x * unat y div 2 ^ 64"
proof -
  have "unat x * unat y < 2 ^ 64 * 2 ^ 64"
    by (rule mult_strict_mono) (use unsigned_less [of x] unsigned_less [of y] in simp_all)
  then have "unat x * unat y div 2 ^ 64 < 2 ^ 64"
    by (simp add: less_mult_imp_div_less)
  then show ?thesis
    by (simp add: mul64_def unat_of_nat)
qed

lemma mul64_combine:
  "unat (fst (mul64 x y)) * 2 ^ 64 + unat (snd (mul64 x y)) = unat x * unat y"
proof -
  have "unat (snd (mul64 x y)) = unat x * unat y mod 2 ^ 64"
    by (simp add: mul64_def unat_word_ariths)
  then show ?thesis
    by (simp only: mul64_hi div_mult_mod_eq)
qed

lemma nat_ceil_div:
  assumes "0 < (d :: nat)"
  shows "ceil_div (int n) (int d) = int (n div d + (if n mod d = 0 then 0 else 1))"
proof -
  have q: "int n = int d * int (n div d) + int (n mod d)"
    by (metis div_mult_mod_eq mult.commute of_nat_add of_nat_mult)
  have b: "n mod d < d"
    using assms by simp
  have "(int n + (int d - 1)) div int d = int (n div d + (if n mod d = 0 then 0 else 1))"
  proof (cases "n mod d = 0")
    case True
    then have "int n + (int d - 1) = (int d - 1) + int d * int (n div d)"
      using q by simp
    then show ?thesis
      using assms True by simp
  next
    case False
    then have "int n + (int d - 1) = (int (n mod d) - 1) + int d * int (n div d + 1)"
      using q by (simp add: algebra_simps)
    moreover have "((int (n mod d) - 1) + int d * int (n div d + 1)) div int d
        = int (n div d + 1) + (int (n mod d) - 1) div int d"
      using assms by (intro div_mult_self2) simp
    moreover have "(int (n mod d) - 1) div int d = 0"
      using False b by (intro div_pos_pos_trivial) auto
    ultimately show ?thesis
      using False by (simp only: if_False add_0_right)
  qed
  then show ?thesis
    by (simp add: ceil_div_def)
qed

lemma of_nat_u64_eq_0: "k < 2 ^ 64 \<Longrightarrow> (of_nat k :: u64) = 0 \<longleftrightarrow> k = 0"
  by (auto simp: word_of_nat_eq_0_iff dest: dvd_imp_le)

lemma multiplyDivideCeil_exact:
  assumes "d \<noteq> 0"
  shows "multiplyDivideCeil u r d =
    (let v = ceil_div (uint u * uint r) (uint d)
     in if is_uint64 v then Inr (of_int v) else Inl ErrOverflow)"
proof (cases "u = 0 \<or> r = 0")
  case True
  have "uint d \<noteq> 0" using assms by (simp add: uint_0_iff)
  then have "0 < uint d" using uint_ge_0 [of d] by linarith
  then have "ceil_div (uint u * uint r) (uint d) = 0"
    using True by (elim disjE) simp_all
  then show ?thesis
    using True by (simp add: multiplyDivideCeil_def is_uint64_def max_u64_def)
next
  case False
  define n where "n = unat u * unat r"
  define q where "q = n div unat d"
  have d0: "0 < unat d" using assms by (simp add: unat_gt_0)
  have v: "ceil_div (uint u * uint r) (uint d) = int (q + (if n mod unat d = 0 then 0 else 1))"
    using nat_ceil_div [OF d0, of n] by (simp only: n_def q_def uint_nat of_nat_mult)
  obtain hi lo where hl: "mul64 u r = (hi, lo)" by fastforce
  have comb: "unat hi * 2 ^ 64 + unat lo = n"
    using mul64_combine [of u r] hl by (simp add: n_def)
  have hi: "unat hi = n div 2 ^ 64"
    using mul64_hi [of u r] hl by (simp add: n_def)
  have over: "d \<le> hi \<longleftrightarrow> 2 ^ 64 \<le> q"
  proof -
    have "d \<le> hi \<longleftrightarrow> unat d * 2 ^ 64 \<le> n"
      by (simp add: word_le_nat_alt hi less_eq_div_iff_mult_less_eq)
    also have "\<dots> \<longleftrightarrow> 2 ^ 64 \<le> q"
      using d0 by (simp add: q_def less_eq_div_iff_mult_less_eq mult.commute)
    finally show ?thesis .
  qed
  have rem: "(of_nat (n mod unat d) :: u64) = 0 \<longleftrightarrow> n mod unat d = 0"
  proof -
    have "n mod unat d < 2 ^ 64"
      using less_trans [OF mod_less_divisor [OF d0, of n], of "2 ^ 64"] unsigned_less [of d] by simp
    then show ?thesis by (rule of_nat_u64_eq_0)
  qed
  show ?thesis
  proof (cases "2 ^ 64 \<le> q")
    case True
    then have "\<not> is_uint64 (ceil_div (uint u * uint r) (uint d))"
      by (auto simp: v is_uint64_def max_u64_def)
    with True False over show ?thesis
      by (simp add: multiplyDivideCeil_def hl)
  next
    case small: False
    then have uq: "unat (of_nat q :: u64) = q"
      by (simp add: unat_of_nat)
    have "\<not> d \<le> hi" using small over by simp
    then have dv: "div64 hi lo d = Inr (of_nat q, of_nat (n mod unat d))"
      by (simp only: div64_def comb Let_def q_def if_False)
    have step: "multiplyDivideCeil u r d =
      (if n mod unat d = 0 then Inr (of_nat q)
       else if q + 1 < 2 ^ 64 then Inr (of_nat q + 1) else Inl ErrOverflow)"
      using small False over uq by (simp add: multiplyDivideCeil_def hl dv rem add64_def)
    show ?thesis
      using small by (auto simp: step v is_uint64_def max_u64_def)
  qed
qed

lemma multiplyDivideCeil_millions:
  "multiplyDivideCeil u r tokensPerMillion =
    (let v = ceil_div (uint u * uint r) 1000000 in if is_uint64 v then Inr (of_int v) else Inl ErrOverflow)"
  by (simp add: multiplyDivideCeil_exact tokensPerMillion_def)

lemma multiplyDivideCeil_thousands:
  "multiplyDivideCeil u r millisPerSecond =
    (let v = ceil_div (uint u * uint r) 1000 in if is_uint64 v then Inr (of_int v) else Inl ErrOverflow)"
  by (simp add: multiplyDivideCeil_exact millisPerSecond_def)

lemma unat_of_int_u64: "is_uint64 i \<Longrightarrow> unat (of_int i :: u64) = nat i"
  by (simp add: unat_eq_nat_uint uint_of_int_u64)

text \<open>A sum of in-range values carries exactly when the integer sum leaves the range.\<close>

lemma add64_exact:
  assumes "is_uint64 x" "is_uint64 y"
  shows "add64 (of_int x) (of_int y) 0 = (of_int x + of_int y, if is_uint64 (x + y) then 0 else 1)"
proof -
  have "nat x + nat y < 2 ^ 64 \<longleftrightarrow> is_uint64 (x + y)"
    using assms by (auto simp: is_uint64_def max_u64_def)
  then show ?thesis
    using assms by (simp add: add64_def unat_of_int_u64)
qed

lemmas add64_exact_sum = add64_exact [of "x + y" for x y, unfolded of_int_add]

lemma metered_parts_nonneg:
  "0 \<le> ceil_div (uint (a :: u64) * uint (i :: u64)) 1000000"
  "0 \<le> ceil_div (uint (a :: u64) * uint (i :: u64)) 1000"
  by (simp_all add: ceil_div_nonneg)

lemma Charge_exact:
  "Charge p a b m maxWei =
    (let total = metered_total (price_rates p) a b m
     in if \<not> is_uint64 total then Inl ErrOverflow
        else if uint maxWei < total then Inl ErrMaximumExceeded
        else Inr (of_int total))"
proof -
  define x where "x = ceil_div (uint a * uint (InputPerMillion p)) 1000000"
  define y where "y = ceil_div (uint b * uint (OutputPerMillion p)) 1000000"
  define z where "z = ceil_div (uint m * uint (ComputePerSecond p)) 1000"
  have nn: "0 \<le> x" "0 \<le> y" "0 \<le> z"
    by (simp_all add: x_def y_def z_def metered_parts_nonneg)
  have t: "metered_total (price_rates p) a b m = x + y + z"
    by (simp add: metered_total_def price_rates_def x_def y_def z_def)
  have lt: "maxWei < of_int (x + y + z) \<longleftrightarrow> uint maxWei < x + y + z" if "is_uint64 (x + y + z)"
    using that by (simp only: word_less_def uint_of_int_u64)
  note parts = multiplyDivideCeil_millions multiplyDivideCeil_thousands
    x_def [symmetric] y_def [symmetric] z_def [symmetric]
  consider (over) "\<not> is_uint64 (x + y)" | (xy) "is_uint64 (x + y)" "\<not> is_uint64 z"
    | (all) "is_uint64 (x + y)" "is_uint64 z" by blast
  then show ?thesis
  proof cases
    case over
    then have "\<not> is_uint64 (x + y + z)" using nn by (simp add: is_uint64_def)
    with over show ?thesis
      by (simp add: Charge_def parts t add64_exact Let_def)
  next
    case xy
    then have "is_uint64 x" "is_uint64 y" "\<not> is_uint64 (x + y + z)"
      using nn by (auto simp: is_uint64_def)
    with xy show ?thesis
      by (simp add: Charge_def parts t Let_def)
  next
    case all
    then have "is_uint64 x" "is_uint64 y" using nn by (auto simp: is_uint64_def)
    with all lt show ?thesis
      by (simp add: Charge_def parts t add64_exact add64_exact_sum Let_def)
  qed
qed

text \<open>C5: A charge is exact: the 64-bit arithmetic, its 128-bit intermediate products and its overflow
  checks compute the sum of the three usage parts, each rounded up, over unbounded integers; the call
  fails with an overflow exactly when that sum does not fit 64 bits, and with a refusal exactly when it
  fits but exceeds the maximum.\<close>

theorem Charge_meters_exactly:
  "Charge p a b m maxWei =
    (let total = metered_total (price_rates p) a b m
     in if \<not> is_uint64 total then Inl ErrOverflow
        else if uint maxWei < total then Inl ErrMaximumExceeded
        else Inr (of_int total))"
  by (rule Charge_exact)

end
