(* ===== verification/Rates.thy ===== *)
theory Rates
  imports Price
begin

text \<open>
  The two exact pricing routines of the broker: the worst-case cost that a reservation locks
  (\<^verbatim>\<open>server/internal/router/router.go\<close>) and the charge of a receipt
  (\<^verbatim>\<open>server/internal/store/receipt.go\<close>). Both read decimal rates. The locale
  \<open>metered_pricing\<close> states the contract they share with \<open>Charge\<close> of theory
  \<open>Price\<close>, and its lemmas give what the reservation logic relies on: less usage never
  costs more, and two routines that read the same rates agree.
\<close>

section \<open>Rates as decimal strings\<close>

definition parseRate :: "string \<Rightarrow> int option" where
  "parseRate value =
     (if value = [] \<or> length value > 1 \<and> hd value = CHR ''0'' then None
      else if \<not> list_all is_digit value then None
      else case big_set_string value of
             None \<Rightarrow> None
           | Some rate \<Rightarrow> if 2 ^ 256 \<le> rate then None else Some rate)"

definition ValidRate :: "string \<Rightarrow> bool" where
  "ValidRate value \<longleftrightarrow> parseRate value \<noteq> None"

fun hasPricing_loop :: "string list \<Rightarrow> bool" where
  "hasPricing_loop [] = False"
| "hasPricing_loop (value # values) =
     (case parseRate value of
        None \<Rightarrow> False
      | Some rate \<Rightarrow> if rate \<noteq> 0 then True else hasPricing_loop values)"

fun sumRates_loop :: "string list \<Rightarrow> int \<Rightarrow> int result" where
  "sumRates_loop [] tot = Inr tot"
| "sumRates_loop (value # values) tot =
     (case parseRate value of
        None \<Rightarrow> Inl ErrNoEligibleProvider
      | Some rate \<Rightarrow> sumRates_loop values (tot + rate))"

definition SumRates :: "string \<Rightarrow> string \<Rightarrow> string \<Rightarrow> string result" where
  "SumRates input output compute =
     and_then (sumRates_loop [input, output, compute] 0) (\<lambda>tot. Inr (int_string tot))"

section \<open>Worst-case cost\<close>

text \<open>The rates of a candidate, as the router reads them.\<close>

type_synonym rates3 = "string \<times> string \<times> string"

fun worstCase_loop :: "(u64 \<times> string \<times> u64) list \<Rightarrow> int \<Rightarrow> int result" where
  "worstCase_loop [] tot = Inr tot"
| "worstCase_loop ((units, rate, divisor) # items) tot =
     (case parseRate rate of
        None \<Rightarrow> Inl ErrNoEligibleProvider
      | Some r \<Rightarrow>
          worstCase_loop items (tot + (uint units * r + uint (divisor - 1)) div uint divisor))"

definition WorstCaseCost :: "rates3 \<Rightarrow> u64 \<Rightarrow> u64 \<Rightarrow> u64 \<Rightarrow> u64 result" where
  "WorstCaseCost rates maximumInputTokens maximumOutputTokens maximumComputeMilliseconds =
     (case rates of (input, output, compute) \<Rightarrow>
       and_then (worstCase_loop [(maximumInputTokens, input, 1000000),
                                 (maximumOutputTokens, output, 1000000),
                                 (maximumComputeMilliseconds, compute, 1000)] 0) (\<lambda>tot.
         if \<not> is_uint64 tot then Inl ErrNoEligibleProvider else Inr (of_int tot)))"

section \<open>Charge of a receipt\<close>

fun exactCharge_loop :: "(u64 \<times> string \<times> u64) list \<Rightarrow> int \<Rightarrow> int result" where
  "exactCharge_loop [] tot = Inr tot"
| "exactCharge_loop ((units, rate, denominator) # items) tot =
     (case big_set_string rate of
        None \<Rightarrow> Inl ErrInvalidReceipt
      | Some r \<Rightarrow>
          if r < 0 then Inl ErrInvalidReceipt
          else let part = uint units * r;
                   part' = (if part > 0 then part + uint (denominator - 1) else part)
               in exactCharge_loop items (tot + part' div uint denominator))"

definition exactCharge :: "rates3 \<Rightarrow> u64 \<Rightarrow> u64 \<Rightarrow> u64 \<Rightarrow> u64 result" where
  "exactCharge rates inputTokens outputTokens milliseconds =
     (case rates of (inputRate, outputRate, computeRate) \<Rightarrow>
       and_then (exactCharge_loop [(inputTokens, inputRate, 1000000),
                                   (outputTokens, outputRate, 1000000),
                                   (milliseconds, computeRate, 1000)] 0) (\<lambda>tot.
         if \<not> is_uint64 tot then Inl ErrInvalidReceipt else Inr (of_int tot)))"

section \<open>The contract of a pricing routine\<close>

locale metered_pricing =
  fixes cost :: "'r \<Rightarrow> u64 \<Rightarrow> u64 \<Rightarrow> u64 \<Rightarrow> u64 result"
    and rates :: "'r \<Rightarrow> (int \<times> int \<times> int) option"
  assumes cost_Inr_iff:
      "cost r a b m = Inr t \<longleftrightarrow> (\<exists>rs. rates r = Some rs \<and> metered_total rs a b m = uint t)"
    and rates_nonneg: "rates r = Some (i, out, c) \<Longrightarrow> 0 \<le> i \<and> 0 \<le> out \<and> 0 \<le> c"
begin

lemma total_mono:
  assumes "rates r = Some rs" "a' \<le> a" "b' \<le> b" "m' \<le> m"
  shows "metered_total rs a' b' m' \<le> metered_total rs a b m"
proof -
  obtain i out c where rs: "rs = (i, out, c)" by (cases rs)
  with assms(1) have "0 \<le> i" "0 \<le> out" "0 \<le> c" using rates_nonneg by blast+
  then show ?thesis
    using assms(2-4)
    by (auto simp: rs metered_total_def word_le_def intro!: add_mono ceil_div_mono mult_right_mono)
qed

lemma total_nonneg: "rates r = Some rs \<Longrightarrow> 0 \<le> metered_total rs a b m"
  by (cases rs) (auto simp: metered_total_def ceil_div_nonneg dest: rates_nonneg)

lemma cost_mono:
  assumes "cost r a b m = Inr t" "a' \<le> a" "b' \<le> b" "m' \<le> m"
  shows "\<exists>t'. cost r a' b' m' = Inr t' \<and> t' \<le> t"
proof -
  obtain rs where rs: "rates r = Some rs" "metered_total rs a b m = uint t"
    using assms(1) by (auto simp: cost_Inr_iff)
  define v where "v = metered_total rs a' b' m'"
  have "0 \<le> v" "v \<le> uint t"
    using total_nonneg [OF rs(1)] total_mono [OF rs(1) assms(2-4)] rs(2) by (simp_all add: v_def)
  then have "is_uint64 v"
    using order_trans [OF _ uint_le_max_u64] by (simp add: is_uint64_def)
  then have "uint (of_int v :: u64) = v" by (rule uint_of_int_u64)
  with rs(1) \<open>v \<le> uint t\<close> have "cost r a' b' m' = Inr (of_int v) \<and> (of_int v :: u64) \<le> t"
    by (auto simp: cost_Inr_iff v_def word_le_def)
  then show ?thesis by blast
qed

lemma cost_zero_usage: "rates r = Some rs \<Longrightarrow> cost r 0 0 0 = Inr 0"
  by (cases rs) (auto simp: cost_Inr_iff metered_total_def)

end

section \<open>The three routines meet the contract\<close>

definition rates3_opt :: "(string \<Rightarrow> int option) \<Rightarrow> rates3 \<Rightarrow> (int \<times> int \<times> int) option" where
  "rates3_opt rd rs =
     (case rs of (i, out, c) \<Rightarrow>
        (case (rd i, rd out, rd c) of
           (Some x, Some y, Some z) \<Rightarrow> Some (x, y, z)
         | _ \<Rightarrow> None))"

text \<open>The non-negative reading of a rate by the receipt code.\<close>

definition readRate :: "string \<Rightarrow> int option" where
  "readRate s = (case big_set_string s of Some r \<Rightarrow> if r < 0 then None else Some r | None \<Rightarrow> None)"

lemma rates3_opt_Some:
  "rates3_opt rd (i, out, c) = Some (x, y, z) \<longleftrightarrow> rd i = Some x \<and> rd out = Some y \<and> rd c = Some z"
  by (auto simp: rates3_opt_def split: option.splits)

lemma big_set_string_digits:
  "list_all is_digit s \<Longrightarrow> s \<noteq> [] \<Longrightarrow> big_set_string s = Some (int (digits_val s))"
  using not_digit_signs by (cases s) (auto simp: big_set_string_def)

lemma parseRate_Some:
  "parseRate s = Some r \<Longrightarrow> 0 \<le> r \<and> r < 2 ^ 256 \<and> big_set_string s = Some r"
  by (auto simp: parseRate_def big_set_string_digits split: if_splits)

lemma readRate_parseRate: "parseRate s = Some r \<Longrightarrow> readRate s = Some r"
  using parseRate_Some [of s r] by (simp add: readRate_def)

lemma uint_divisors [simp]:
  "uint (1000000 - 1 :: u64) = 999999" "uint (1000 - 1 :: u64) = 999"
  by simp_all

lemma worstCase_loop_exact:
  "worstCase_loop [(a, i, 1000000), (b, out, 1000000), (m, c, 1000)] 0 = Inr tot \<longleftrightarrow>
     (\<exists>rs. rates3_opt parseRate (i, out, c) = Some rs \<and> tot = metered_total rs a b m)"
  by (auto simp: rates3_opt_def metered_total_def ceil_div_def split: option.splits)

lemma uint_max_u64: "uint (- 1 :: u64) = max_u64"
  by (simp add: max_u64_def unsigned_minus_1_eq_mask mask_eq_exp_minus_1)

lemma exact_part:
  assumes "0 \<le> r" "0 < d"
  shows "(if 0 < uint (u :: u64) * r then uint u * r + (d - 1) else uint u * r) div d = ceil_div (uint u * r) d"
proof (cases "uint u * r = 0")
  case True
  then show ?thesis using assms by auto
next
  case False
  moreover have "0 \<le> uint u * r" using assms by simp
  ultimately show ?thesis by (simp add: ceil_div_def)
qed

lemma exactCharge_step:
  assumes "0 < uint d" "uint (d - 1) = uint d - 1"
  shows "exactCharge_loop ((u, s, d) # items) acc =
    (case readRate s of
       None \<Rightarrow> Inl ErrInvalidReceipt
     | Some r \<Rightarrow> exactCharge_loop items (acc + ceil_div (uint u * r) (uint d)))"
proof (cases "big_set_string s")
  case None
  then show ?thesis by (simp add: readRate_def)
next
  case (Some r)
  show ?thesis
  proof (cases "r < 0")
    case True
    with Some show ?thesis by (simp add: readRate_def)
  next
    case False
    then have "(if 0 < uint u * r then uint u * r + uint (d - 1) else uint u * r) div uint d
        = ceil_div (uint u * r) (uint d)"
      using exact_part [OF _ assms(1), of r u] by (simp only: assms(2) not_less)
    with Some False show ?thesis
      by (simp only: exactCharge_loop.simps readRate_def Let_def option.case if_False)
  qed
qed

lemma exactCharge_loop_exact:
  "exactCharge_loop [(a, i, 1000000), (b, out, 1000000), (m, c, 1000)] 0 = Inr tot \<longleftrightarrow>
     (\<exists>rs. rates3_opt readRate (i, out, c) = Some rs \<and> tot = metered_total rs a b m)"
  by (auto simp: exactCharge_step rates3_opt_def metered_total_def
      simp del: exactCharge_loop.simps(2) split: option.splits)

interpretation worst: metered_pricing WorstCaseCost "rates3_opt parseRate"
proof
  fix r a b m t
  show "WorstCaseCost r a b m = Inr t \<longleftrightarrow>
      (\<exists>rs. rates3_opt parseRate r = Some rs \<and> metered_total rs a b m = uint t)"
    by (cases r) (auto simp: WorstCaseCost_def worstCase_loop_exact uint_of_int_u64
        simp del: worstCase_loop.simps intro: exI [of _ "uint t"])
next
  fix r i out c
  assume "rates3_opt parseRate r = Some (i, out, c)"
  then show "0 \<le> i \<and> 0 \<le> out \<and> 0 \<le> c"
    by (cases r) (auto simp: rates3_opt_Some dest: parseRate_Some)
qed

interpretation receipt: metered_pricing exactCharge "rates3_opt readRate"
proof
  fix r a b m t
  show "exactCharge r a b m = Inr t \<longleftrightarrow>
      (\<exists>rs. rates3_opt readRate r = Some rs \<and> metered_total rs a b m = uint t)"
    by (cases r) (auto simp: exactCharge_def exactCharge_loop_exact uint_of_int_u64
        simp del: exactCharge_loop.simps intro: exI [of _ "uint t"])
next
  fix r i out c
  assume "rates3_opt readRate r = Some (i, out, c)"
  then show "0 \<le> i \<and> 0 \<le> out \<and> 0 \<le> c"
    by (cases r) (auto simp: rates3_opt_Some readRate_def split: option.splits if_splits)
qed

interpretation onchain: metered_pricing
  "\<lambda>p a b m. Charge p a b m (- 1)" "\<lambda>p. Some (price_rates p)"
proof
  fix p :: price and a b m t
  note uint_max_u64
  then show "Charge p a b m (- 1) = Inr t \<longleftrightarrow>
      (\<exists>rs. Some (price_rates p) = Some rs \<and> metered_total rs a b m = uint t)"
    by (auto simp: Charge_exact Let_def uint_of_int_u64 is_uint64_def)
qed (auto simp: price_rates_def)

section \<open>Agreement of the routines\<close>

lemma rates3_opt_mono:
  "(\<And>s r. rd s = Some r \<Longrightarrow> rd' s = Some r) \<Longrightarrow> rates3_opt rd rs = Some x \<Longrightarrow> rates3_opt rd' rs = Some x"
  by (cases rs; cases x) (auto simp: rates3_opt_Some)

lemma worst_reads_receipt_rates:
  "rates3_opt parseRate rs = Some x \<Longrightarrow> rates3_opt readRate rs = Some x"
  by (rule rates3_opt_mono [where rd = parseRate]) (auto intro: readRate_parseRate)

lemma WorstCaseCost_exactCharge:
  "WorstCaseCost rs a b m = Inr t \<Longrightarrow> exactCharge rs a b m = Inr t"
  by (auto simp: worst.cost_Inr_iff receipt.cost_Inr_iff dest: worst_reads_receipt_rates)

text \<open>C4: A receipt never costs more than its reservation. When the worst-case cost of the token
  and time limits was computed for a candidate, the charge for any usage within those limits at
  the same rates is computed too and is at most that cost.\<close>

theorem charge_within_reservation:
  assumes "WorstCaseCost rs maxIn maxOut maxMs = Inr reserved"
    and "usedIn \<le> maxIn" "usedOut \<le> maxOut" "usedMs \<le> maxMs"
  shows "\<exists>charge. exactCharge rs usedIn usedOut usedMs = Inr charge \<and> charge \<le> reserved"
  by (rule receipt.cost_mono [OF WorstCaseCost_exactCharge [OF assms(1)] assms(2-4)])

theorem charge_within_reservation_witness:
  "\<exists>charge. exactCharge (''300000'', ''7'', ''0'') 10 20 5000 = Inr charge \<and> charge \<le> 31"
  by (rule charge_within_reservation [of _ 100 4096 120000])
     (simp_all add: WorstCaseCost_def parseRate_def big_set_string_def digits_val_def digit_val_def
       is_digit_def is_uint64_def max_u64_def less_eq_char_def)

lemma parse_nat_string_u64: "readRate (int_string (uint (w :: u64))) = Some (uint w)"
  by (simp add: readRate_def)

text \<open>The receipt arithmetic on unbounded integers and the 64-bit arithmetic of the protocol
  package agree. For rates that fit a word, both give the same charge, and where the 64-bit code
  reports an overflow the receipt code rejects the receipt.\<close>

lemma exactCharge_agrees_with_Charge:
  "exactCharge (int_string (uint (InputPerMillion p)), int_string (uint (OutputPerMillion p)),
       int_string (uint (ComputePerSecond p))) a b m =
     (case Charge p a b m (- 1) of Inl _ \<Rightarrow> Inl ErrInvalidReceipt | Inr t \<Rightarrow> Inr t)"
  (is "exactCharge ?rs a b m = _")
proof -
  have rates: "rates3_opt readRate ?rs = Some (price_rates p)"
    by (simp add: rates3_opt_def parse_nat_string_u64 price_rates_def)
  have loop: "exactCharge_loop [(a, fst ?rs, 1000000), (b, fst (snd ?rs), 1000000), (m, snd (snd ?rs), 1000)] 0
      = Inr (metered_total (price_rates p) a b m)"
    using rates by (simp add: exactCharge_loop_exact del: exactCharge_loop.simps)
  note uint_max_u64
  with loop show ?thesis
    by (simp add: exactCharge_def Charge_exact Let_def is_uint64_def del: exactCharge_loop.simps)
qed

end
