(* ===== verification/Router.thy ===== *)
theory Router
  imports Rates "HOL-Library.Multiset" "HOL-Library.Product_Lexorder"
begin

text \<open>
  Provider selection of \<^verbatim>\<open>server/internal/router/router.go\<close>. Go's \<^verbatim>\<open>sort.Slice\<close> is
  not stable, so the sorter is an argument of \<open>Select\<close>; the locale \<open>slice_sorter\<close>
  states what its documentation promises and is interpreted on the insertion sort that the
  standard library runs on short slices.
\<close>

section \<open>Requests and candidates\<close>

record route_request =
  rq_Model :: string
  rq_Capabilities :: "string list"
  rq_MaximumSpend :: u64
  rq_SessionBalance :: u64
  rq_PinMachineID :: string

record candidate =
  cd_MachineID :: string
  cd_OfferID :: string
  cd_Model :: string
  cd_Capabilities :: "string list"
  cd_ConfirmedBond :: bool
  cd_Healthy :: bool
  cd_Capacity :: u32
  cd_MaximumCost :: u64
  cd_PriceVersion :: u64
  cd_LatencyMilliseconds :: u64
  cd_SuccessBasisPoints :: u16
  cd_Reputation :: u64
  cd_InputPerMillion :: string
  cd_OutputPerMillion :: string
  cd_ComputePerSecond :: string

definition candidate_rates :: "candidate \<Rightarrow> rates3" where
  "candidate_rates c = (cd_InputPerMillion c, cd_OutputPerMillion c, cd_ComputePerSecond c)"

definition HasPricing :: "candidate \<Rightarrow> bool" where
  "HasPricing c = hasPricing_loop [cd_InputPerMillion c, cd_OutputPerMillion c, cd_ComputePerSecond c]"

fun capability_found :: "string list \<Rightarrow> string \<Rightarrow> bool" where
  "capability_found [] wanted = False"
| "capability_found (capability # have) wanted =
     (if capability = wanted then True else capability_found have wanted)"

fun containsAll :: "string list \<Rightarrow> string list \<Rightarrow> bool" where
  "containsAll have [] = True"
| "containsAll have (wanted # required) =
     (if \<not> capability_found have wanted then False else containsAll have required)"

definition CanRetry :: "bool \<Rightarrow> bool" where
  "CanRetry outputStarted = (\<not> outputStarted)"

section \<open>Selection\<close>

text \<open>The comparison function given to \<^verbatim>\<open>sort.Slice\<close>.\<close>

definition better :: "candidate \<Rightarrow> candidate \<Rightarrow> bool" where
  "better left right =
     (if cd_MaximumCost left \<noteq> cd_MaximumCost right then cd_MaximumCost left < cd_MaximumCost right
      else if cd_LatencyMilliseconds left \<noteq> cd_LatencyMilliseconds right
        then cd_LatencyMilliseconds left < cd_LatencyMilliseconds right
      else if cd_SuccessBasisPoints left \<noteq> cd_SuccessBasisPoints right
        then cd_SuccessBasisPoints left > cd_SuccessBasisPoints right
      else if cd_Reputation left \<noteq> cd_Reputation right
        then cd_Reputation left > cd_Reputation right
      else cd_MachineID left < cd_MachineID right)"

text \<open>The filtering loop: eligible candidates so far, and whether a budget blocked one.\<close>

fun select_loop :: "route_request \<Rightarrow> candidate list \<Rightarrow> candidate list \<Rightarrow> bool \<Rightarrow> candidate list \<times> bool"
where
  "select_loop request [] eligible budgetBlocked = (eligible, budgetBlocked)"
| "select_loop request (c # cs) eligible budgetBlocked =
     (if rq_PinMachineID request \<noteq> [] \<and> cd_MachineID c \<noteq> rq_PinMachineID request
        then select_loop request cs eligible budgetBlocked
      else if cd_MachineID c = [] \<or> cd_OfferID c = [] \<or> cd_Model c \<noteq> rq_Model request
          \<or> \<not> cd_ConfirmedBond c \<or> \<not> cd_Healthy c \<or> cd_Capacity c = 0 \<or> cd_MaximumCost c = 0
          \<or> \<not> containsAll (cd_Capabilities c) (rq_Capabilities request)
        then select_loop request cs eligible budgetBlocked
      else if cd_MaximumCost c > rq_MaximumSpend request \<or> cd_MaximumCost c > rq_SessionBalance request
        then select_loop request cs eligible True
      else select_loop request cs (eligible @ [c]) budgetBlocked)"

definition Select ::
  "((candidate \<Rightarrow> candidate \<Rightarrow> bool) \<Rightarrow> candidate list \<Rightarrow> candidate list)
    \<Rightarrow> route_request \<Rightarrow> candidate list \<Rightarrow> candidate result" where
  "Select sortSlice request candidates =
     (if blank (rq_Model request) \<or> rq_MaximumSpend request = 0 then Inl ErrNoEligibleProvider
      else let (eligible, budgetBlocked) = select_loop request candidates [] False
           in if eligible = []
              then (if budgetBlocked then Inl ErrInsufficientBudget else Inl ErrNoEligibleProvider)
              else (case sortSlice better eligible of
                      [] \<Rightarrow> Inl ErrPanic
                    | c # _ \<Rightarrow> Inr c))"

section \<open>What a sorter promises\<close>

definition strict_weak :: "('a \<Rightarrow> 'a \<Rightarrow> bool) \<Rightarrow> bool" where
  "strict_weak lt \<longleftrightarrow>
     (\<forall>x y. lt x y \<longrightarrow> \<not> lt y x) \<and> (\<forall>x y z. \<not> lt y x \<longrightarrow> \<not> lt z y \<longrightarrow> \<not> lt z x)"

lemma strict_weak_asym: "strict_weak lt \<Longrightarrow> lt x y \<Longrightarrow> \<not> lt y x"
  unfolding strict_weak_def by blast

lemma strict_weak_irrefl: "strict_weak lt \<Longrightarrow> \<not> lt x x"
  unfolding strict_weak_def by blast

lemma strict_weak_trans: "strict_weak lt \<Longrightarrow> \<not> lt y x \<Longrightarrow> \<not> lt z y \<Longrightarrow> \<not> lt z x"
  unfolding strict_weak_def by blast

locale slice_sorter =
  fixes sortSlice :: "('a \<Rightarrow> 'a \<Rightarrow> bool) \<Rightarrow> 'a list \<Rightarrow> 'a list"
  assumes sort_perm: "mset (sortSlice lt xs) = mset xs"
    and sort_sorted: "strict_weak lt \<Longrightarrow> sorted_wrt (\<lambda>x y. \<not> lt y x) (sortSlice lt xs)"
begin

lemma sort_set: "set (sortSlice lt xs) = set xs"
  using sort_perm [of lt xs] by (metis set_mset_mset)

lemma sort_nonempty: "xs \<noteq> [] \<Longrightarrow> sortSlice lt xs \<noteq> []"
  using sort_set [of lt xs] by (cases xs) auto

lemma sort_head_least:
  assumes "strict_weak lt" "sortSlice lt xs = c # rest" "x \<in> set xs"
  shows "\<not> lt x c"
proof -
  have "x \<in> set (c # rest)" using assms(2,3) sort_set [of lt xs] by simp
  moreover have "\<not> lt c c" by (rule strict_weak_irrefl [OF assms(1)])
  moreover have "\<forall>y \<in> set rest. \<not> lt y c"
    using sort_sorted [OF assms(1), of xs] assms(2) by simp
  ultimately show ?thesis by (cases "x = c") simp_all
qed

end

text \<open>The insertion sort of Go's \<^verbatim>\<open>sort\<close> package for slices of at most twelve elements.\<close>

fun insert_by :: "('a \<Rightarrow> 'a \<Rightarrow> bool) \<Rightarrow> 'a \<Rightarrow> 'a list \<Rightarrow> 'a list" where
  "insert_by lt x [] = [x]"
| "insert_by lt x (y # ys) = (if lt y x then y # insert_by lt x ys else x # y # ys)"

definition insertionSort :: "('a \<Rightarrow> 'a \<Rightarrow> bool) \<Rightarrow> 'a list \<Rightarrow> 'a list" where
  "insertionSort lt xs = foldr (insert_by lt) xs []"

lemma mset_insert_by: "mset (insert_by lt x ys) = add_mset x (mset ys)"
  by (induction ys) auto

lemma insert_by_set: "set (insert_by lt x ys) = insert x (set ys)"
  by (induction ys) auto

lemma insert_by_sorted:
  assumes "strict_weak lt" "sorted_wrt (\<lambda>x y. \<not> lt y x) ys"
  shows "sorted_wrt (\<lambda>x y. \<not> lt y x) (insert_by lt x ys)"
  using assms(2)
proof (induction ys)
  case Nil
  then show ?case by simp
next
  case (Cons y ys)
  show ?case
  proof (cases "lt y x")
    case True
    then have "\<not> lt x y" by (rule strict_weak_asym [OF assms(1)])
    with True Cons show ?thesis by (simp add: insert_by_set)
  next
    case False
    then have "\<forall>z \<in> set ys. \<not> lt z x"
      using Cons.prems strict_weak_trans [OF assms(1) False] by simp
    with False Cons.prems show ?thesis by simp
  qed
qed

interpretation go_sort: slice_sorter insertionSort
proof
  fix lt :: "'a \<Rightarrow> 'a \<Rightarrow> bool" and xs
  show "mset (insertionSort lt xs) = mset xs"
    by (induction xs) (simp_all add: insertionSort_def mset_insert_by)
  show "sorted_wrt (\<lambda>x y. \<not> lt y x) (insertionSort lt xs)" if "strict_weak lt"
    by (induction xs) (simp_all add: insertionSort_def insert_by_sorted that)
qed

section \<open>Facts about selection\<close>

lemma capability_found_iff: "capability_found have wanted \<longleftrightarrow> wanted \<in> set have"
  by (induction "have") auto

lemma containsAll_iff: "containsAll have required \<longleftrightarrow> set required \<subseteq> set have"
  by (induction required) (auto simp: capability_found_iff)

text \<open>Serving the request at all, and within the budget.\<close>

definition matches :: "route_request \<Rightarrow> candidate \<Rightarrow> bool" where
  "matches request c \<longleftrightarrow>
     (rq_PinMachineID request = [] \<or> cd_MachineID c = rq_PinMachineID request)
     \<and> cd_MachineID c \<noteq> [] \<and> cd_OfferID c \<noteq> [] \<and> cd_Model c = rq_Model request
     \<and> cd_ConfirmedBond c \<and> cd_Healthy c \<and> cd_Capacity c \<noteq> 0 \<and> cd_MaximumCost c \<noteq> 0
     \<and> set (rq_Capabilities request) \<subseteq> set (cd_Capabilities c)"

definition affordable :: "route_request \<Rightarrow> candidate \<Rightarrow> bool" where
  "affordable request c \<longleftrightarrow>
     cd_MaximumCost c \<le> rq_MaximumSpend request \<and> cd_MaximumCost c \<le> rq_SessionBalance request"

lemma matches_guards:
  "matches request c \<longleftrightarrow>
     \<not> (rq_PinMachineID request \<noteq> [] \<and> cd_MachineID c \<noteq> rq_PinMachineID request)
     \<and> \<not> (cd_MachineID c = [] \<or> cd_OfferID c = [] \<or> cd_Model c \<noteq> rq_Model request
          \<or> \<not> cd_ConfirmedBond c \<or> \<not> cd_Healthy c \<or> cd_Capacity c = 0 \<or> cd_MaximumCost c = 0
          \<or> \<not> containsAll (cd_Capabilities c) (rq_Capabilities request))"
  unfolding matches_def containsAll_iff by blast

lemma affordable_guards:
  "affordable request c \<longleftrightarrow>
     \<not> (cd_MaximumCost c > rq_MaximumSpend request \<or> cd_MaximumCost c > rq_SessionBalance request)"
  unfolding affordable_def not_less [symmetric] by blast

lemma if_guards: "(if \<not> (\<not> P \<and> \<not> Q) then a else b) = (if P then a else if Q then a else b)"
  by simp

lemma select_loop_Cons:
  "select_loop request (c # cs) eligible blocked =
     (if \<not> matches request c then select_loop request cs eligible blocked
      else if \<not> affordable request c then select_loop request cs eligible True
      else select_loop request cs (eligible @ [c]) blocked)"
  by (simp only: select_loop.simps matches_guards affordable_guards if_guards not_not)

lemma select_loop_eq:
  "select_loop request cs eligible blocked =
     (eligible @ filter (\<lambda>c. matches request c \<and> affordable request c) cs,
      blocked \<or> (\<exists>c \<in> set cs. matches request c \<and> \<not> affordable request c))"
proof (induction cs arbitrary: eligible blocked)
  case Nil
  then show ?case by simp
next
  case (Cons c cs)
  show ?case
    by (cases "matches request c"; cases "affordable request c")
       (simp_all add: select_loop_Cons Cons.IH del: select_loop.simps)
qed

text \<open>The comparison is the strict order of a key, hence a strict weak order.\<close>

definition route_key :: "candidate \<Rightarrow> u64 \<times> u64 \<times> int \<times> int \<times> string" where
  "route_key c = (cd_MaximumCost c, cd_LatencyMilliseconds c, - uint (cd_SuccessBasisPoints c),
     - uint (cd_Reputation c), cd_MachineID c)"

lemma prod_less_if:
  "((a :: 'a :: linorder), (b :: 'b :: linorder)) < (c, d) \<longleftrightarrow> (if a \<noteq> c then a < c else b < d)"
  by auto

lemma neg_uint_less: "- uint x < - uint y \<longleftrightarrow> y < (x :: 'a :: len word)"
  by (simp add: word_less_def)

lemma neg_uint_eq: "- uint x = - uint y \<longleftrightarrow> x = (y :: 'a :: len word)"
  by (simp add: word_uint_eq_iff)

lemma better_key: "better l r \<longleftrightarrow> route_key l < route_key r"
  by (simp only: better_def route_key_def prod_less_if neg_uint_less neg_uint_eq)

lemma strict_weak_key: "(\<And>x y. lt x y \<longleftrightarrow> (f x :: 'b :: linorder) < f y) \<Longrightarrow> strict_weak lt"
  by (fastforce simp: strict_weak_def not_less)

lemma strict_weak_better: "strict_weak better"
  by (rule strict_weak_key [of _ route_key]) (rule better_key)

lemma Select_sound:
  assumes "slice_sorter sortSlice" and "Select sortSlice request cs = Inr c"
  shows "c \<in> set cs \<and> matches request c \<and> affordable request c
    \<and> (\<forall>d \<in> set cs. matches request d \<and> affordable request d \<longrightarrow> \<not> better d c)"
proof -
  let ?ok = "\<lambda>d. matches request d \<and> affordable request d"
  obtain rest where srt: "sortSlice better (filter ?ok cs) = c # rest"
    using assms(2) by (auto simp: Select_def select_loop_eq split: if_splits list.splits)
  then have "c \<in> set (filter ?ok cs)"
    using slice_sorter.sort_set [OF assms(1), of better "filter ?ok cs"]
    by (metis list.set_intros(1))
  moreover have "\<not> better d c" if "d \<in> set cs" "?ok d" for d
    using slice_sorter.sort_head_least [OF assms(1) strict_weak_better srt] that by simp
  ultimately show ?thesis by auto
qed

text \<open>C6: The router returns a candidate that serves the request within the per-request and the
  session budget, and no other such candidate is better (cheaper, then lower latency, higher
  success rate, higher reputation, smaller machine identifier), whatever sorter is used.\<close>

theorem Select_optimal:
  assumes "slice_sorter sortSlice" and "Select sortSlice request cs = Inr c"
  shows "c \<in> set cs \<and> matches request c \<and> affordable request c
    \<and> (\<forall>d \<in> set cs. matches request d \<and> affordable request d \<longrightarrow> \<not> better d c)"
  using Select_sound [OF assms] .

definition demo_request :: route_request where
  "demo_request = \<lparr>rq_Model = ''m'', rq_Capabilities = [''text''], rq_MaximumSpend = 9,
     rq_SessionBalance = 8, rq_PinMachineID = []\<rparr>"

definition demo_candidate :: candidate where
  "demo_candidate = \<lparr>cd_MachineID = ''a'', cd_OfferID = ''o'', cd_Model = ''m'',
     cd_Capabilities = [''stream'', ''text''], cd_ConfirmedBond = True, cd_Healthy = True,
     cd_Capacity = 1, cd_MaximumCost = 7, cd_PriceVersion = 1, cd_LatencyMilliseconds = 5,
     cd_SuccessBasisPoints = 9000, cd_Reputation = 1, cd_InputPerMillion = ''1'',
     cd_OutputPerMillion = ''2'', cd_ComputePerSecond = ''3''\<rparr>"

lemma not_blank_m: "\<not> blank ''m''"
  by (simp add: blank_def trim_space_def trim_left.simps space_runes_def)

theorem Select_optimal_witness:
  "\<not> better (demo_candidate\<lparr>cd_MaximumCost := 8\<rparr>) demo_candidate"
proof -
  have "Select insertionSort demo_request [demo_candidate\<lparr>cd_MaximumCost := 8\<rparr>, demo_candidate]
      = Inr demo_candidate"
    using not_blank_m
    by (simp add: Select_def demo_request_def demo_candidate_def insertionSort_def better_def)
  from Select_optimal [OF go_sort.slice_sorter_axioms this] show ?thesis
    by (auto simp: matches_def affordable_def demo_request_def demo_candidate_def)
qed

text \<open>C7: Selection is complete and its errors are exact. A well-formed request gets a provider
  whenever one is eligible and affordable; otherwise the error says whether a budget, and only a
  budget, stood in the way.\<close>

theorem Select_outcomes:
  assumes "slice_sorter sortSlice"
  shows "Select sortSlice request cs =
    (if blank (rq_Model request) \<or> rq_MaximumSpend request = 0 then Inl ErrNoEligibleProvider
     else if \<exists>c \<in> set cs. matches request c \<and> affordable request c
       then Inr (hd (sortSlice better (filter (\<lambda>c. matches request c \<and> affordable request c) cs)))
     else if \<exists>c \<in> set cs. matches request c then Inl ErrInsufficientBudget
     else Inl ErrNoEligibleProvider)"
proof -
  let ?es = "filter (\<lambda>c. matches request c \<and> affordable request c) cs"
  have "sortSlice better ?es \<noteq> []" if "?es \<noteq> []"
    using slice_sorter.sort_nonempty [OF assms that] .
  then show ?thesis
    by (auto simp: Select_def select_loop_eq filter_empty_conv split: list.splits)
qed

theorem Select_outcomes_witness:
  "Select insertionSort demo_request [demo_candidate\<lparr>cd_MaximumCost := 10\<rparr>] = Inl ErrInsufficientBudget"
  using Select_outcomes [OF go_sort.slice_sorter_axioms] not_blank_m
  by (simp add: matches_def affordable_def demo_request_def demo_candidate_def)

end
