(* ===== verification/Receipt.thy ===== *)
theory Receipt
  imports Price
begin

text \<open>
  Usage receipts of \<^verbatim>\<open>protocol/v1/receipt.go\<close> and their EIP-712 signatures of
  \<^verbatim>\<open>protocol/v1/signing.go\<close>. A 32-byte array is a 256-bit word and a 20-byte array a
  160-bit word, read in big-endian order. The ABI packer, Keccak-256 and the ECDSA operations
  belong to go-ethereum and are fields of the parameter record \<open>evm\<close>.
\<close>

type_synonym hash = "256 word"
type_synonym address = "160 word"
type_synonym bytes = "u8 list"

section \<open>Receipts\<close>

definition Hash_IsZero :: "hash \<Rightarrow> bool" where
  "Hash_IsZero h \<longleftrightarrow> h = 0"

definition Address_IsZero :: "address \<Rightarrow> bool" where
  "Address_IsZero a \<longleftrightarrow> a = 0"

definition MaximumFeeBasisPoints :: u16 where
  "MaximumFeeBasisPoints = 1500"

definition ReceiptStatusCompleted :: u8 where
  "ReceiptStatusCompleted = 1"

record receipt =
  rc_RequestID :: hash
  rc_SessionID :: hash
  rc_Customer :: address
  rc_Provider :: address
  rc_SettlementSigner :: address
  rc_OfferID :: hash
  rc_PriceVersion :: u64
  rc_ModelHash :: hash
  rc_CapabilityHash :: hash
  rc_InputTokens :: u64
  rc_OutputTokens :: u64
  rc_ComputeMilliseconds :: u64
  rc_MaximumCharge :: u64
  rc_TotalCharge :: u64
  rc_FeeBasisPoints :: u16
  rc_FeeVersion :: u64
  rc_Status :: u8
  rc_CompletedAt :: u64
  rc_InputHash :: hash
  rc_OutputHash :: hash
  rc_Nonce :: u64

definition Receipt_Validate :: "receipt \<Rightarrow> unit result" where
  "Receipt_Validate r =
     (if Hash_IsZero (rc_RequestID r) \<or> Hash_IsZero (rc_SessionID r) \<or> Address_IsZero (rc_Customer r)
         \<or> Address_IsZero (rc_Provider r) \<or> Address_IsZero (rc_SettlementSigner r)
         \<or> Hash_IsZero (rc_OfferID r) \<or> Hash_IsZero (rc_ModelHash r) \<or> Hash_IsZero (rc_CapabilityHash r)
         \<or> Hash_IsZero (rc_InputHash r) \<or> Hash_IsZero (rc_OutputHash r)
        then Inl ErrInvalidReceipt
      else if rc_PriceVersion r = 0 \<or> rc_FeeVersion r = 0 \<or> rc_Status r \<noteq> ReceiptStatusCompleted
         \<or> rc_CompletedAt r = 0 \<or> rc_Nonce r = 0 \<or> rc_FeeBasisPoints r > MaximumFeeBasisPoints
        then Inl ErrInvalidReceipt
      else if rc_TotalCharge r > rc_MaximumCharge r then Inl ErrMaximumExceeded
      else Inr ())"

section \<open>Signatures\<close>

datatype abi_value = ABytes32 hash | AAddress address | AUint nat int

text \<open>The ABI type of a value; an unsigned type is named by its width.\<close>

fun abi_type :: "abi_value \<Rightarrow> string \<times> nat" where
  "abi_type (ABytes32 _) = (''bytes'', 32)"
| "abi_type (AAddress _) = (''address'', 0)"
| "abi_type (AUint w _) = (''uint'', w)"

text \<open>go-ethereum: \<^verbatim>\<open>abi.Arguments.Pack\<close>, \<^verbatim>\<open>crypto.Keccak256Hash\<close>, \<^verbatim>\<open>crypto.Sign\<close>,
  \<^verbatim>\<open>crypto.SigToPub\<close> followed by \<^verbatim>\<open>crypto.PubkeyToAddress\<close>, and the address of a key.\<close>

record 'k evm =
  ev_pack :: "abi_value list \<Rightarrow> bytes result"
  ev_keccak :: "bytes \<Rightarrow> hash"
  ev_sign :: "hash \<Rightarrow> 'k \<Rightarrow> bytes result"
  ev_recover :: "hash \<Rightarrow> bytes \<Rightarrow> address result"
  ev_address :: "'k \<Rightarrow> address"

definition text_bytes :: "string \<Rightarrow> bytes" where
  "text_bytes = map of_char"

definition hash_bytes :: "hash \<Rightarrow> bytes" where
  "hash_bytes h = map (\<lambda>i. ucast (drop_bit (248 - 8 * i) h)) [0..<32]"

definition receiptTypeHash :: "'k evm \<Rightarrow> hash" where
  "receiptTypeHash E = ev_keccak E (text_bytes (''Receipt(bytes32 requestId,bytes32 sessionId,address customer,address provider,address settlementSigner,bytes32 offerId,uint64 priceVersion,bytes32 modelHash,bytes32 capabilityHash,uint64 inputTokens,uint64 outputTokens,uint64 computeMilliseconds,uint64 maximumCharge,uint64 totalCharge,uint16 feeBasisPoints,uint64 feeVersion,uint8 status,uint64 completedAt,bytes32 inputHash,bytes32 outputHash,uint64 nonce)''))"

definition domainTypeHash :: "'k evm \<Rightarrow> hash" where
  "domainTypeHash E = ev_keccak E (text_bytes ''EIP712Domain(string name,string version,uint256 chainId,address verifyingContract)'')"

text \<open>The packed arguments of the domain and of the receipt struct.\<close>

definition domain_args :: "'k evm \<Rightarrow> u64 \<Rightarrow> address \<Rightarrow> abi_value list" where
  "domain_args E chainID contract =
     [ABytes32 (domainTypeHash E), ABytes32 (ev_keccak E (text_bytes ''MyferenceMarket'')),
      ABytes32 (ev_keccak E (text_bytes ''1'')), AUint 256 (uint chainID), AAddress contract]"

definition receipt_args :: "'k evm \<Rightarrow> receipt \<Rightarrow> abi_value list" where
  "receipt_args E r =
     [ABytes32 (receiptTypeHash E), ABytes32 (rc_RequestID r), ABytes32 (rc_SessionID r),
      AAddress (rc_Customer r), AAddress (rc_Provider r), AAddress (rc_SettlementSigner r),
      ABytes32 (rc_OfferID r), AUint 64 (uint (rc_PriceVersion r)), ABytes32 (rc_ModelHash r),
      ABytes32 (rc_CapabilityHash r), AUint 64 (uint (rc_InputTokens r)),
      AUint 64 (uint (rc_OutputTokens r)), AUint 64 (uint (rc_ComputeMilliseconds r)),
      AUint 64 (uint (rc_MaximumCharge r)), AUint 64 (uint (rc_TotalCharge r)),
      AUint 16 (uint (rc_FeeBasisPoints r)), AUint 64 (uint (rc_FeeVersion r)),
      AUint 8 (uint (rc_Status r)), AUint 64 (uint (rc_CompletedAt r)), ABytes32 (rc_InputHash r),
      ABytes32 (rc_OutputHash r), AUint 64 (uint (rc_Nonce r))]"

definition ReceiptDigest :: "'k evm \<Rightarrow> receipt \<Rightarrow> u64 \<Rightarrow> address \<Rightarrow> hash result" where
  "ReceiptDigest E r chainID contract =
     (if \<not> is_ok (Receipt_Validate r) \<or> chainID = 0 \<or> Address_IsZero contract then Inl ErrInvalidReceipt
      else and_then (ev_pack E (domain_args E chainID contract)) (\<lambda>domainEncoded.
           let domain = ev_keccak E domainEncoded
           in and_then (ev_pack E (receipt_args E r)) (\<lambda>encoded.
              let structHash = ev_keccak E encoded
              in Inr (ev_keccak E ([0x19, 0x01] @ hash_bytes domain @ hash_bytes structHash)))))"

text \<open>\<^verbatim>\<open>signature[64] += 27\<close> and \<^verbatim>\<open>normalized[64] -= 27\<close> on a 65-byte signature.\<close>

definition SignReceipt :: "'k evm \<Rightarrow> receipt \<Rightarrow> u64 \<Rightarrow> address \<Rightarrow> 'k option \<Rightarrow> bytes result" where
  "SignReceipt E r chainID contract key =
     (case key of
        None \<Rightarrow> Inl (ErrText ''receipt signer key is required'')
      | Some k \<Rightarrow>
          and_then (ReceiptDigest E r chainID contract) (\<lambda>digest.
          and_then (ev_sign E digest k) (\<lambda>signature.
            if length signature \<le> 64 then Inl ErrPanic
            else Inr (signature[64 := signature ! 64 + 27]))))"

definition RecoverReceiptSigner :: "'k evm \<Rightarrow> receipt \<Rightarrow> u64 \<Rightarrow> address \<Rightarrow> bytes \<Rightarrow> address result" where
  "RecoverReceiptSigner E r chainID contract signature =
     (if length signature \<noteq> 65 then Inl ErrInvalidReceipt
      else and_then (ReceiptDigest E r chainID contract) (\<lambda>digest.
           let normalized = (if signature ! 64 \<ge> 27 then signature[64 := signature ! 64 - 27] else signature)
           in ev_recover E digest normalized))"

section \<open>Facts\<close>

lemmas receipt_validate_defs [validate_defs] =
  Receipt_Validate_def Hash_IsZero_def Address_IsZero_def

lemma Receipt_Validate_ok:
  assumes "Receipt_Validate r = Inr ()"
  shows "rc_TotalCharge r \<le> rc_MaximumCharge r" "rc_FeeBasisPoints r \<le> MaximumFeeBasisPoints"
    "rc_Status r = ReceiptStatusCompleted" "rc_Nonce r \<noteq> 0" "rc_PriceVersion r \<noteq> 0"
  using assms by (auto simp: validate_defs not_less split: if_splits)

text \<open>A signed receipt names its signer. Whatever the receipt, the chain and the contract, the
  signer recovered from the signature that \<open>SignReceipt\<close> produced is the address of the
  signing key: the recovery byte shift on one side undoes the shift on the other.\<close>

lemma recover_signed:
  assumes sign65: "\<And>d k s. ev_sign E d k = Inr s \<Longrightarrow> length s = 65 \<and> s ! 64 < 27"
    and recover: "\<And>d k s. ev_sign E d k = Inr s \<Longrightarrow> ev_recover E d s = Inr (ev_address E k)"
    and signed: "SignReceipt E r chainID contract (Some k) = Inr sig"
  shows "RecoverReceiptSigner E r chainID contract sig = Inr (ev_address E k)"
proof -
  obtain d s where d: "ReceiptDigest E r chainID contract = Inr d" and s: "ev_sign E d k = Inr s"
    and sig: "sig = s[64 := s ! 64 + 27]"
    using signed by (auto simp: SignReceipt_def split: if_splits)
  have len: "length s = 65" and small: "s ! 64 < 27"
    using sign65 [OF s] by auto
  have ge: "27 \<le> s ! 64 + 27"
    using small by (simp add: word_le_nat_alt word_less_nat_alt unat_word_ariths)
  then have "(if sig ! 64 \<ge> 27 then sig[64 := sig ! 64 - 27] else sig) = s"
    using len by (simp add: sig)
  with recover [OF s] d len ge show ?thesis
    by (simp add: RecoverReceiptSigner_def sig Let_def)
qed

subsection \<open>The ABI encoding of static types\<close>

text \<open>An instance of the packer: every static value is one big-endian 32-byte word.\<close>

fun abi_word :: "abi_value \<Rightarrow> hash" where
  "abi_word (ABytes32 h) = h"
| "abi_word (AAddress a) = ucast a"
| "abi_word (AUint _ i) = of_int i"

fun abi_fits :: "abi_value \<Rightarrow> bool" where
  "abi_fits (AUint w i) \<longleftrightarrow> w \<le> 256 \<and> 0 \<le> i \<and> i < 2 ^ w"
| "abi_fits _ \<longleftrightarrow> True"

definition abi_pack :: "abi_value list \<Rightarrow> bytes result" where
  "abi_pack vs =
     (if list_all abi_fits vs then Inr (concat (map (\<lambda>v. hash_bytes (abi_word v)) vs))
      else Inl (ErrText ''abi: value out of range''))"

lemma hash_bytes_length [simp]: "length (hash_bytes h) = 32"
  by (simp add: hash_bytes_def)

lemma hash_bytes_inj:
  assumes "hash_bytes h = hash_bytes h'"
  shows "h = h'"
proof (rule bit_word_eqI)
  fix n assume n: "n < LENGTH(256)"
  define i where "i = 31 - n div 8"
  have "n = 8 * (n div 8) + n mod 8" "n div 8 \<le> 31" "n mod 8 < 8"
    using n by simp_all
  then have i: "i < 32" "248 - 8 * i + n mod 8 = n" "n mod 8 < 8"
    unfolding i_def by linarith+
  have b: "bit (hash_bytes x ! i) (n mod 8) = bit x n" for x :: hash
    using i by (simp add: hash_bytes_def bit_ucast_iff bit_drop_bit_eq del: upt_Suc)
  show "bit h n = bit h' n"
    using b [of h] b [of h'] assms by simp
qed

lemma ucast_address_inj: "(ucast (a :: address) :: hash) = ucast b \<Longrightarrow> a = b"
  using uint_up_ucast [of a, where 'b = 256] uint_up_ucast [of b, where 'b = 256]
  by (simp add: is_up word_uint_eq_iff)

lemma abi_word_inj:
  assumes "abi_type x = abi_type y" "abi_fits x" "abi_fits y" "abi_word x = abi_word y"
  shows "x = y"
proof (cases x; cases y)
  fix w i w' i' assume x: "x = AUint w i" and y: "y = AUint w' i'"
  have "(2 :: int) ^ w \<le> 2 ^ 256" "(2 :: int) ^ w' \<le> 2 ^ 256"
    using assms(2,3) x y by (auto intro!: power_increasing simp del: power_numeral)
  then have "uint (of_int i :: hash) = i" "uint (of_int i' :: hash) = i'"
    using assms(2,3) x y by (simp_all add: unsigned_of_int take_bit_int_eq_self)
  with assms x y show "x = y" by (metis abi_type.simps(3) abi_word.simps(3) prod.inject)
qed (use assms in \<open>auto dest: ucast_address_inj\<close>)

lemma abi_pack_inj:
  assumes "map abi_type xs = map abi_type ys" "abi_pack xs = Inr b" "abi_pack ys = Inr b"
  shows "xs = ys"
  using assms
proof (induction xs arbitrary: ys b)
  case Nil
  then show ?case by simp
next
  case (Cons x xs)
  then obtain y ys' where ys: "ys = y # ys'" and ty: "abi_type x = abi_type y"
      "map abi_type xs = map abi_type ys'"
    by (cases ys) auto
  from Cons.prems(2,3) have fits: "abi_fits x" "abi_fits y" "list_all abi_fits xs" "list_all abi_fits ys'"
    and eq: "hash_bytes (abi_word x) = hash_bytes (abi_word y)"
      "concat (map (\<lambda>v. hash_bytes (abi_word v)) xs) = concat (map (\<lambda>v. hash_bytes (abi_word v)) ys')"
    by (auto simp: abi_pack_def ys split: if_splits)
  have "x = y" by (rule abi_word_inj [OF ty(1) fits(1,2) hash_bytes_inj [OF eq(1)]])
  moreover have "xs = ys'"
    using Cons.IH [OF ty(2)] fits eq(2) by (simp add: abi_pack_def)
  ultimately show ?case by (simp add: ys)
qed

text \<open>A concrete instance of the parameters, with the length and the last byte of the input as its hash and
  the key repeated as its signature.\<close>

definition toy_evm :: "u8 evm" where
  "toy_evm = \<lparr>ev_pack = abi_pack, ev_keccak = (\<lambda>bs. of_nat (length bs) * 2 ^ 64 + ucast (last bs)),
     ev_sign = (\<lambda>d k. Inr (replicate 64 k @ [1])),
     ev_recover = (\<lambda>d s. Inr (ucast (hd s))), ev_address = ucast\<rparr>"

definition demo_receipt :: receipt where
  "demo_receipt = \<lparr>rc_RequestID = 1, rc_SessionID = 2, rc_Customer = 3, rc_Provider = 4,
     rc_SettlementSigner = 5, rc_OfferID = 6, rc_PriceVersion = 1, rc_ModelHash = 7,
     rc_CapabilityHash = 8, rc_InputTokens = 10, rc_OutputTokens = 20, rc_ComputeMilliseconds = 30,
     rc_MaximumCharge = 100, rc_TotalCharge = 60, rc_FeeBasisPoints = 500, rc_FeeVersion = 1,
     rc_Status = 1, rc_CompletedAt = 1700000000, rc_InputHash = 9, rc_OutputHash = 10, rc_Nonce = 1\<rparr>"

lemma demo_receipt_valid: "Receipt_Validate demo_receipt = Inr ()"
  by (simp add: validate_defs demo_receipt_def MaximumFeeBasisPoints_def ReceiptStatusCompleted_def)

lemma demo_digest:
  "abi_pack (domain_args toy_evm 1 9) = Inr (concat (map (\<lambda>v. hash_bytes (abi_word v)) (domain_args toy_evm 1 9)))"
  "abi_pack (receipt_args toy_evm demo_receipt) =
     Inr (concat (map (\<lambda>v. hash_bytes (abi_word v)) (receipt_args toy_evm demo_receipt)))"
  by (simp_all add: abi_pack_def domain_args_def receipt_args_def demo_receipt_def)

lemma recover_signed_witness:
  "RecoverReceiptSigner toy_evm demo_receipt 1 9 (replicate 64 5 @ [28]) = Inr 5"
proof -
  have p: "ev_pack toy_evm = abi_pack" by (simp add: toy_evm_def)
  obtain d where "ReceiptDigest toy_evm demo_receipt 1 9 = Inr d"
    by (simp add: ReceiptDigest_def demo_receipt_valid Address_IsZero_def p demo_digest Let_def)
  then have "SignReceipt toy_evm demo_receipt 1 9 (Some 5) = Inr (replicate 64 5 @ [28])"
    by (simp add: SignReceipt_def toy_evm_def nth_append list_update_append)
  from recover_signed [OF _ _ this] show ?thesis
    by (simp add: toy_evm_def nth_append)
qed

subsection \<open>What a digest commits to\<close>

lemma uint_inj: "uint a = uint b \<Longrightarrow> a = (b :: 'a :: len word)"
  by (simp add: word_uint_eq_iff)

lemma receipt_args_inj: "receipt_args E r = receipt_args E r' \<Longrightarrow> r = r'"
  by (simp add: receipt_args_def uint_inj)

lemma domain_args_inj: "domain_args E c a = domain_args E c' a' \<Longrightarrow> c = c' \<and> a = a'"
  by (simp add: domain_args_def uint_inj)

lemma arg_types:
  "map abi_type (receipt_args E r) = map abi_type (receipt_args E r')"
  "map abi_type (domain_args E c a) = map abi_type (domain_args E c' a')"
  by (simp_all add: receipt_args_def domain_args_def)

text \<open>The byte strings hashed on the way to one digest.\<close>

definition digest_preimages :: "'k evm \<Rightarrow> receipt \<Rightarrow> u64 \<Rightarrow> address \<Rightarrow> bytes set" where
  "digest_preimages E r c a =
     (case (ev_pack E (domain_args E c a), ev_pack E (receipt_args E r)) of
        (Inr de, Inr se) \<Rightarrow>
          {de, se, [0x19, 0x01] @ hash_bytes (ev_keccak E de) @ hash_bytes (ev_keccak E se)}
      | _ \<Rightarrow> {})"

text \<open>A digest commits to the receipt, the chain and the contract. If Keccak-256 has no
  collision among the byte strings hashed for two digests and the ABI packer is injective on
  arguments of the same types, equal digests come from the same receipt, chain and contract, so
  a signature cannot be replayed for another receipt or another deployment.\<close>

lemma digest_binds:
  assumes pack: "\<And>xs ys b. map abi_type xs = map abi_type ys \<Longrightarrow>
      ev_pack E xs = Inr b \<Longrightarrow> ev_pack E ys = Inr b \<Longrightarrow> xs = ys"
    and coll: "inj_on (ev_keccak E) (digest_preimages E r c a \<union> digest_preimages E r' c' a')"
    and "ReceiptDigest E r c a = Inr d" "ReceiptDigest E r' c' a' = Inr d"
  shows "r = r' \<and> c = c' \<and> a = a'"
proof -
  obtain de se where p: "ev_pack E (domain_args E c a) = Inr de" "ev_pack E (receipt_args E r) = Inr se"
    and d: "d = ev_keccak E ([0x19, 0x01] @ hash_bytes (ev_keccak E de) @ hash_bytes (ev_keccak E se))"
    using assms(3) by (auto simp: ReceiptDigest_def Let_def split: if_splits)
  obtain de' se' where p': "ev_pack E (domain_args E c' a') = Inr de'" "ev_pack E (receipt_args E r') = Inr se'"
    and d': "d = ev_keccak E ([0x19, 0x01] @ hash_bytes (ev_keccak E de') @ hash_bytes (ev_keccak E se'))"
    using assms(4) by (auto simp: ReceiptDigest_def Let_def split: if_splits)
  have eq: "ev_keccak E x = ev_keccak E y \<Longrightarrow> x = y"
    if "x \<in> digest_preimages E r c a" "y \<in> digest_preimages E r' c' a'" for x y
    using that coll by (auto dest: inj_onD)
  have "hash_bytes (ev_keccak E de) @ hash_bytes (ev_keccak E se)
      = hash_bytes (ev_keccak E de') @ hash_bytes (ev_keccak E se')"
    using eq [OF _ _ trans [OF d [symmetric] d']] p p' by (simp add: digest_preimages_def)
  then have "ev_keccak E de = ev_keccak E de'" "ev_keccak E se = ev_keccak E se'"
    by (auto dest: hash_bytes_inj)
  then have "de = de'" "se = se'"
    using eq [of de de'] eq [of se se'] by (simp_all add: digest_preimages_def p p')
  with p p' have "domain_args E c a = domain_args E c' a'" "receipt_args E r = receipt_args E r'"
    using pack arg_types by blast+
  then show ?thesis using domain_args_inj receipt_args_inj by blast
qed

lemma hash_bytes_nonempty [simp]: "hash_bytes h \<noteq> []"
  by (simp add: hash_bytes_def)

lemma last_hash_bytes: "last (hash_bytes h) = ucast h"
  by (simp add: hash_bytes_def last_map)

lemma digest_binds_witness:
  "ReceiptDigest toy_evm demo_receipt 1 9 \<noteq> ReceiptDigest toy_evm (demo_receipt\<lparr>rc_Nonce := 2\<rparr>) 1 9"
proof
  let ?r = "demo_receipt\<lparr>rc_Nonce := 2\<rparr>"
  let ?enc = "\<lambda>args. concat (map (\<lambda>v. hash_bytes (abi_word v)) args)"
  assume same: "ReceiptDigest toy_evm demo_receipt 1 9 = ReceiptDigest toy_evm ?r 1 9"
  have p: "ev_pack toy_evm = abi_pack" by (simp add: toy_evm_def)
  have r: "abi_pack (receipt_args toy_evm ?r) = Inr (?enc (receipt_args toy_evm ?r))"
    by (simp add: abi_pack_def receipt_args_def demo_receipt_def)
  obtain d where d: "ReceiptDigest toy_evm demo_receipt 1 9 = Inr d"
    by (simp add: ReceiptDigest_def demo_receipt_valid Address_IsZero_def p demo_digest Let_def)
  have len: "length (?enc (domain_args toy_evm 1 9)) = 160"
      "length (?enc (receipt_args toy_evm demo_receipt)) = 704" "length (?enc (receipt_args toy_evm ?r)) = 704"
    by (simp_all add: domain_args_def receipt_args_def)
  have lst: "last (?enc (domain_args toy_evm 1 9)) = 9"
      "last (?enc (receipt_args toy_evm demo_receipt)) = 1" "last (?enc (receipt_args toy_evm ?r)) = 2"
    by (simp_all add: domain_args_def receipt_args_def last_hash_bytes last_append demo_receipt_def)
  have k: "ev_keccak toy_evm bs = of_nat (length bs) * 2 ^ 64 + ucast (last bs)" for bs
    by (simp add: toy_evm_def)
  have ks: "ev_keccak toy_evm (?enc (domain_args toy_evm 1 9)) = 160 * 2 ^ 64 + 9"
      "ev_keccak toy_evm (?enc (receipt_args toy_evm demo_receipt)) = 704 * 2 ^ 64 + 1"
      "ev_keccak toy_evm (?enc (receipt_args toy_evm ?r)) = 704 * 2 ^ 64 + 2"
    unfolding k len lst by simp_all
  have kf: "ev_keccak toy_evm ([x, y] @ hash_bytes h @ hash_bytes h') = 66 * 2 ^ 64 + ucast (ucast h' :: u8)"
    for x y h h'
    by (simp add: k last_hash_bytes)
  have "inj_on (ev_keccak toy_evm) (digest_preimages toy_evm demo_receipt 1 9 \<union> digest_preimages toy_evm ?r 1 9)"
    unfolding digest_preimages_def p demo_digest r prod.case sum.case
    unfolding ks by (auto simp: inj_on_def ks kf [simplified])
  moreover have "ReceiptDigest toy_evm ?r 1 9 = Inr d" using same d by simp
  ultimately have "demo_receipt = ?r \<and> (1 :: u64) = 1 \<and> (9 :: address) = 9"
    using digest_binds [of toy_evm, OF _ _ d] abi_pack_inj unfolding p by blast
  then show False by (simp add: demo_receipt_def)
qed

end
