(* ===== verification/Messages.thy ===== *)
theory Messages
  imports Receipt
begin

text \<open>
  The relay messages of \<^verbatim>\<open>protocol/v1/messages.go\<close>: their fields, their \<^verbatim>\<open>Validate\<close>
  methods and the envelope around them. The JSON body of an envelope is
  decoded by Go's \<^verbatim>\<open>encoding/json\<close>, a parameter \<open>decodeStrict\<close> here, which is given the
  message type whose Go struct is the decoding target.
\<close>

section \<open>Paths and base64\<close>

fun split_on :: "char \<Rightarrow> string \<Rightarrow> string list" where
  "split_on c [] = [[]]"
| "split_on c (x # xs) =
     (if x = c then [] # split_on c xs
      else case split_on c xs of [] \<Rightarrow> [[x]] | w # ws \<Rightarrow> (x # w) # ws)"

fun join_with :: "char \<Rightarrow> string list \<Rightarrow> string" where
  "join_with c [] = []"
| "join_with c [w] = w"
| "join_with c (w # ws) = w @ c # join_with c ws"

text \<open>\<^verbatim>\<open>path.Clean\<close>: the output elements are kept in reverse on the stack \<open>out\<close>.\<close>

fun clean_elems :: "bool \<Rightarrow> string list \<Rightarrow> string list \<Rightarrow> string list" where
  "clean_elems rooted out [] = rev out"
| "clean_elems rooted out (e # es) =
     (if e = [] \<or> e = ''.'' then clean_elems rooted out es
      else if e = ''..'' then
        (case out of
           [] \<Rightarrow> if rooted then clean_elems rooted [] es else clean_elems rooted [''..''] es
         | w # ws \<Rightarrow> if w = ''..'' then clean_elems rooted (''..'' # out) es
                    else clean_elems rooted ws es)
      else clean_elems rooted (e # out) es)"

definition path_Clean :: "string \<Rightarrow> string" where
  "path_Clean p =
     (if p = [] then ''.''
      else if hd p = CHR ''/'' then CHR ''/'' # join_with CHR ''/'' (clean_elems True [] (split_on CHR ''/'' p))
      else case clean_elems False [] (split_on CHR ''/'' p) of
             [] \<Rightarrow> ''.''
           | w # ws \<Rightarrow> join_with CHR ''/'' (w # ws))"

text \<open>\<^verbatim>\<open>base64.StdEncoding.DecodeString\<close>: line breaks are skipped, padding ends the input.\<close>

definition b64_val :: "char \<Rightarrow> nat option" where
  "b64_val c =
     (if CHR ''A'' \<le> c \<and> c \<le> CHR ''Z'' then Some (of_char c - 65)
      else if CHR ''a'' \<le> c \<and> c \<le> CHR ''z'' then Some (of_char c - 71)
      else if is_digit c then Some (of_char c + 4)
      else if c = CHR ''+'' then Some 62
      else if c = CHR ''/'' then Some 63 else None)"

fun b64_quads :: "string \<Rightarrow> bytes option" where
  "b64_quads [] = Some []"
| "b64_quads [a, b, c, d] =
     (case (b64_val a, b64_val b, b64_val c, b64_val d) of
        (Some w, Some x, Some y, Some z) \<Rightarrow>
          Some [of_nat (w * 4 + x div 16), of_nat (x mod 16 * 16 + y div 4), of_nat (y mod 4 * 64 + z)]
      | (Some w, Some x, Some y, None) \<Rightarrow>
          if d = CHR ''='' then Some [of_nat (w * 4 + x div 16), of_nat (x mod 16 * 16 + y div 4)] else None
      | (Some w, Some x, None, None) \<Rightarrow>
          if c = CHR ''='' \<and> d = CHR ''='' then Some [of_nat (w * 4 + x div 16)] else None
      | _ \<Rightarrow> None)"
| "b64_quads (a # b # c # d # rest) =
     (case (b64_val a, b64_val b, b64_val c, b64_val d, b64_quads rest) of
        (Some w, Some x, Some y, Some z, Some out) \<Rightarrow>
          Some (of_nat (w * 4 + x div 16) # of_nat (x mod 16 * 16 + y div 4) # of_nat (y mod 4 * 64 + z) # out)
      | _ \<Rightarrow> None)"
| "b64_quads _ = None"

definition base64_DecodeString :: "string \<Rightarrow> bytes option" where
  "base64_DecodeString s = b64_quads (filter (\<lambda>c. c \<noteq> CHR 0x0A \<and> c \<noteq> CHR 0x0D) s)"

section \<open>Messages\<close>

definition MaximumWorkspaceFiles :: nat where
  "MaximumWorkspaceFiles = 64"

definition MaximumWorkspaceBytes :: nat where
  "MaximumWorkspaceBytes = 512 * 1024"

definition ProtocolVersion :: u16 where
  "ProtocolVersion = 1"

record hello =
  he_MachineID :: string

definition Hello_Validate :: "hello \<Rightarrow> unit result" where
  "Hello_Validate m = (if blank (he_MachineID m) then Inl ErrInvalidMessage else Inr ())"

record offerCapacity =
  oc_OfferID :: string
  oc_Model :: string
  oc_PriceVersion :: u64
  oc_BackendKind :: string
  oc_OfferHash :: string
  oc_ModelHash :: string
  oc_CapabilityHash :: string
  oc_Capabilities :: "string list"
  oc_EvidenceKind :: string
  oc_EvidenceDigest :: string
  oc_MeteringMode :: string

text \<open>The loop over the three hashes counts the provided ones.\<close>

fun hashes_loop :: "string list \<Rightarrow> nat \<Rightarrow> nat result" where
  "hashes_loop [] provided = Inr provided"
| "hashes_loop (h # hs) provided =
     (if h \<noteq> [] then (if length h \<noteq> 66 \<or> \<not> prefix ''0x'' h then Inl ErrInvalidMessage
                       else hashes_loop hs (provided + 1))
      else hashes_loop hs provided)"

fun capabilities_loop :: "string list \<Rightarrow> string \<Rightarrow> unit result" where
  "capabilities_loop [] previous = Inr ()"
| "capabilities_loop (capability # cs) previous =
     (if (capability \<noteq> ''stream'' \<and> capability \<noteq> ''text'' \<and> capability \<noteq> ''workspace'')
         \<or> capability \<le> previous
      then Inl ErrInvalidMessage else capabilities_loop cs capability)"

definition OfferCapacity_Validate :: "offerCapacity \<Rightarrow> unit result" where
  "OfferCapacity_Validate c =
     (if blank (oc_OfferID c) \<or> blank (oc_Model c) \<or> oc_PriceVersion c = 0 then Inl ErrInvalidMessage
      else and_then (hashes_loop [oc_OfferHash c, oc_ModelHash c, oc_CapabilityHash c] 0) (\<lambda>provided.
        reject_if (provided \<noteq> 0 \<and> (provided \<noteq> 3 \<or> blank (oc_BackendKind c))) ErrInvalidMessage (
        and_then (capabilities_loop (oc_Capabilities c) []) (\<lambda>_.
        reject_if (provided \<noteq> 0 \<and> oc_Capabilities c = []) ErrInvalidMessage (
          if oc_EvidenceKind c \<noteq> [] \<or> oc_EvidenceDigest c \<noteq> [] \<or> oc_MeteringMode c \<noteq> [] then
            (if oc_EvidenceDigest c = []
                \<or> (oc_EvidenceKind c \<noteq> ''provider_claimed'' \<and> oc_EvidenceKind c \<noteq> ''ollama_digest''
                   \<and> oc_EvidenceKind c \<noteq> ''upstream_model'' \<and> oc_EvidenceKind c \<noteq> ''runtime_image'')
               then Inl ErrInvalidMessage
             else if oc_MeteringMode c \<noteq> ''tokens_and_compute'' \<and> oc_MeteringMode c \<noteq> ''compute_only''
               then Inl ErrInvalidMessage
             else Inr ())
          else Inr ())))))"

record capacity =
  ca_Available :: u32
  ca_Offers :: "offerCapacity list"

fun offers_loop :: "offerCapacity list \<Rightarrow> unit result" where
  "offers_loop [] = Inr ()"
| "offers_loop (c # cs) = and_then (OfferCapacity_Validate c) (\<lambda>_. offers_loop cs)"

definition Capacity_Validate :: "capacity \<Rightarrow> unit result" where
  "Capacity_Validate m = offers_loop (ca_Offers m)"

record workspaceFile =
  wf_Path :: string
  wf_ContentBase64 :: string

record jobOffer =
  jo_RequestID :: string
  jo_Model :: string
  jo_OfferID :: string
  jo_Prompt :: string
  jo_PriceVersion :: u64
  jo_MaximumSpend :: u64
  jo_MaximumOutputTokens :: u64
  jo_LeaseExpiresAt :: int
  jo_Workspace :: "workspaceFile list"

definition is_letter :: "char \<Rightarrow> bool" where
  "is_letter c \<longleftrightarrow> CHR ''A'' \<le> c \<and> c \<le> CHR ''Z'' \<or> CHR ''a'' \<le> c \<and> c \<le> CHR ''z''"

text \<open>The regular expression \<^verbatim>\<open>^[A-Za-z]:[\\/]\<close>.\<close>

definition windowsAbsolutePath :: "string \<Rightarrow> bool" where
  "windowsAbsolutePath s =
     (case s of a # b # c # _ \<Rightarrow> is_letter a \<and> b = CHR '':'' \<and> (c = CHR 0x5C \<or> c = CHR ''/'') | _ \<Rightarrow> False)"

definition path_rejected :: "string \<Rightarrow> string \<Rightarrow> bool" where
  "path_rejected name clean \<longleftrightarrow>
     name = [] \<or> CHR 0x5C \<in> set name \<or> clean = ''.'' \<or> clean = ''..'' \<or> prefix ''../'' clean
     \<or> prefix ''/'' clean \<or> windowsAbsolutePath name \<or> clean \<noteq> name"

text \<open>The loop over the workspace files: decoded bytes so far and the accepted paths in order,
  which also are the keys of the Go map \<^verbatim>\<open>seen\<close>.\<close>

fun workspace_loop :: "workspaceFile list \<Rightarrow> nat \<Rightarrow> string list \<Rightarrow> (nat \<times> string list) result" where
  "workspace_loop [] tot paths = Inr (tot, paths)"
| "workspace_loop (f # fs) tot paths =
     (let name = trim_space (wf_Path f);
          clean = path_Clean (map (\<lambda>c. if c = CHR 0x5C then CHR ''/'' else c) name)
      in if path_rejected name clean then Inl ErrInvalidMessage
         else if clean \<in> set paths then Inl ErrInvalidMessage
         else case base64_DecodeString (wf_ContentBase64 f) of
                None \<Rightarrow> Inl ErrInvalidMessage
              | Some decoded \<Rightarrow>
                  if int (length decoded) > int MaximumWorkspaceBytes - int tot then Inl ErrInvalidMessage
                  else workspace_loop fs (tot + length decoded) (paths @ [clean]))"

text \<open>The check of neighbours in the sorted list of paths.\<close>

fun nested_neighbours :: "string list \<Rightarrow> bool" where
  "nested_neighbours (p # q # ps) = (prefix (p @ ''/'') q \<or> nested_neighbours (q # ps))"
| "nested_neighbours _ = False"

definition JobOffer_Validate :: "int \<Rightarrow> jobOffer \<Rightarrow> unit result" where
  "JobOffer_Validate now m =
     (if blank (jo_RequestID m) \<or> blank (jo_Model m) \<or> blank (jo_OfferID m) \<or> blank (jo_Prompt m)
         \<or> jo_PriceVersion m = 0 \<or> jo_MaximumSpend m = 0 \<or> jo_MaximumOutputTokens m = 0
         \<or> \<not> jo_LeaseExpiresAt m > now
        then Inl ErrInvalidMessage
      else if length (jo_Workspace m) > MaximumWorkspaceFiles then Inl ErrInvalidMessage
      else and_then (workspace_loop (jo_Workspace m) 0 []) (\<lambda>(tot, paths).
             if nested_neighbours (sort paths) then Inl ErrInvalidMessage else Inr ()))"

record jobAccept =
  ja_RequestID :: string

definition JobAccept_Validate :: "jobAccept \<Rightarrow> unit result" where
  "JobAccept_Validate m = (if blank (ja_RequestID m) then Inl ErrInvalidMessage else Inr ())"

record outputChunk =
  ch_RequestID :: string
  ch_Sequence :: u64
  ch_Data :: string
  ch_Done :: bool
  ch_InputTokens :: u64
  ch_OutputTokens :: u64
  ch_ComputeMilliseconds :: u64
  ch_ErrorCode :: string

definition OutputChunk_Validate :: "outputChunk \<Rightarrow> unit result" where
  "OutputChunk_Validate m =
     (if blank (ch_RequestID m) \<or> ch_Sequence m = 0 \<or> (ch_Data m = [] \<and> \<not> ch_Done m)
         \<or> (ch_ErrorCode m \<noteq> [] \<and> (\<not> ch_Done m \<or> ch_Data m \<noteq> [] \<or> ch_InputTokens m \<noteq> 0
              \<or> ch_OutputTokens m \<noteq> 0 \<or> ch_ComputeMilliseconds m \<noteq> 0))
        then Inl ErrInvalidMessage
      else if ch_ErrorCode m \<noteq> [] \<and> ch_ErrorCode m \<noteq> ''backend_failed'' \<and> ch_ErrorCode m \<noteq> ''cancelled''
        then Inl ErrInvalidMessage
      else Inr ())"

record cancel =
  cn_RequestID :: string
  cn_Reason :: string

definition Cancel_Validate :: "cancel \<Rightarrow> unit result" where
  "Cancel_Validate m =
     (if blank (cn_RequestID m) \<or> blank (cn_Reason m) then Inl ErrInvalidMessage else Inr ())"

record receiptProposal =
  rp_RequestID :: string
  rp_ChainID :: u64
  rp_Contract :: address
  rp_Receipt :: receipt

definition ReceiptProposal_Validate :: "receiptProposal \<Rightarrow> unit result" where
  "ReceiptProposal_Validate m =
     (if blank (rp_RequestID m) \<or> rp_ChainID m = 0 \<or> Address_IsZero (rp_Contract m)
        then Inl ErrInvalidMessage else Receipt_Validate (rp_Receipt m))"

record receiptSignature =
  rs_RequestID :: string
  rs_Signer :: address
  rs_Signature :: bytes

definition ReceiptSignature_Validate :: "receiptSignature \<Rightarrow> unit result" where
  "ReceiptSignature_Validate m =
     (if blank (rs_RequestID m) \<or> Address_IsZero (rs_Signer m) \<or> length (rs_Signature m) \<noteq> 65
        then Inl ErrInvalidMessage else Inr ())"

section \<open>Envelopes\<close>

datatype message =
    MHello hello | MCapacity capacity | MJobOffer jobOffer | MJobAccept jobAccept
  | MOutputChunk outputChunk | MCancel cancel | MReceiptProposal receiptProposal
  | MReceiptSignature receiptSignature

fun Validate :: "int \<Rightarrow> message \<Rightarrow> unit result" where
  "Validate now (MHello m) = Hello_Validate m"
| "Validate now (MCapacity m) = Capacity_Validate m"
| "Validate now (MJobOffer m) = JobOffer_Validate now m"
| "Validate now (MJobAccept m) = JobAccept_Validate m"
| "Validate now (MOutputChunk m) = OutputChunk_Validate m"
| "Validate now (MCancel m) = Cancel_Validate m"
| "Validate now (MReceiptProposal m) = ReceiptProposal_Validate m"
| "Validate now (MReceiptSignature m) = ReceiptSignature_Validate m"

definition knownMessageType :: "string \<Rightarrow> bool" where
  "knownMessageType t \<longleftrightarrow>
     t \<in> {''hello'', ''capacity'', ''job_offer'', ''job_accept'', ''output_chunk'', ''cancel'',
          ''receipt_proposal'', ''receipt_signature''}"

record 'b envelope =
  en_Version :: u16
  en_Type :: string
  en_ID :: string
  en_Body :: 'b

text \<open>The message argument is \<open>None\<close> for a nil interface value.\<close>

definition NewEnvelope ::
  "(message \<Rightarrow> 'b result) \<Rightarrow> int \<Rightarrow> string \<Rightarrow> string \<Rightarrow> message option \<Rightarrow> 'b envelope result" where
  "NewEnvelope marshal now envID messageType message =
     (case message of
        None \<Rightarrow> Inl ErrInvalidMessage
      | Some m \<Rightarrow>
          if blank envID \<or> \<not> knownMessageType messageType then Inl ErrInvalidMessage
          else and_then (Validate now m) (\<lambda>_.
               and_then (marshal m) (\<lambda>body.
                 Inr \<lparr>en_Version = ProtocolVersion, en_Type = messageType, en_ID = envID, en_Body = body\<rparr>)))"

text \<open>\<open>read\<close> is the outcome of reading at most \<open>maximumBytes + 1\<close> bytes from the reader, and
  \<open>decodeEnvelope\<close> the strict JSON decoding of the envelope itself.\<close>

definition DecodeEnvelope ::
  "(string \<Rightarrow> 'b envelope result) \<Rightarrow> ('b \<Rightarrow> nat) \<Rightarrow> string result \<Rightarrow> int \<Rightarrow> 'b envelope result" where
  "DecodeEnvelope decodeEnvelope bodyLen read maximumBytes =
     (if maximumBytes \<le> 0 then Inl ErrInvalidMessage
      else and_then read (\<lambda>data.
        let taken = take (nat (maximumBytes + 1)) data
        in if int (length taken) > maximumBytes then Inl ErrMessageTooLarge
           else case decodeEnvelope taken of
                  Inl _ \<Rightarrow> Inl ErrInvalidMessage
                | Inr e \<Rightarrow>
                    if en_Version e \<noteq> ProtocolVersion then Inl ErrUnsupportedVersion
                    else if blank (en_ID e) \<or> \<not> knownMessageType (en_Type e) \<or> bodyLen (en_Body e) = 0
                      then Inl ErrInvalidMessage
                    else Inr e))"

definition DecodeBody ::
  "(string \<Rightarrow> 'b \<Rightarrow> message result) \<Rightarrow> int \<Rightarrow> string \<Rightarrow> 'b envelope \<Rightarrow> message result" where
  "DecodeBody decodeStrict now target e =
     (case decodeStrict target (en_Body e) of
        Inl _ \<Rightarrow> Inl ErrInvalidMessage
      | Inr m \<Rightarrow> and_then (Validate now m) (\<lambda>_. Inr m))"

section \<open>Facts about paths\<close>

lemma split_on_nonempty [simp]: "split_on c s \<noteq> []"
  by (induction s) (auto split: list.splits)

lemma split_on_no_sep: "w \<in> set (split_on c s) \<Longrightarrow> c \<notin> set w"
  by (induction s arbitrary: w) (auto split: if_splits list.splits)

lemma split_on_id: "c \<notin> set w \<Longrightarrow> split_on c w = [w]"
  by (induction w) auto

lemma split_on_append: "c \<notin> set w \<Longrightarrow> split_on c (w @ c # s) = w # split_on c s"
  by (induction w) auto

lemma split_join:
  "ws \<noteq> [] \<Longrightarrow> (\<And>w. w \<in> set ws \<Longrightarrow> c \<notin> set w) \<Longrightarrow> split_on c (join_with c ws) = ws"
proof (induction c ws rule: join_with.induct)
  case (3 c w v vs)
  then show ?case by (simp add: split_on_append)
qed (simp_all add: split_on_id)

text \<open>The output of the cleaning loop: plain elements after a run of leading parent references.\<close>

definition plain_elem :: "string \<Rightarrow> bool" where
  "plain_elem e \<longleftrightarrow> e \<noteq> [] \<and> e \<noteq> ''.'' \<and> e \<noteq> ''..'' \<and> CHR ''/'' \<notin> set e"

lemma clean_elems_shape:
  assumes "\<And>e. e \<in> set es \<Longrightarrow> CHR ''/'' \<notin> set e"
    and "\<exists>k ps. out = ps @ replicate k ''..'' \<and> list_all plain_elem ps"
  shows "\<exists>k ps. clean_elems False out es = replicate k ''..'' @ ps \<and> list_all plain_elem ps"
  using assms
proof (induction es arbitrary: out)
  case Nil
  then obtain k ps where "out = ps @ replicate k ''..''" "list_all plain_elem ps" by blast
  then have "clean_elems False out [] = replicate k ''..'' @ rev ps \<and> list_all plain_elem (rev ps)" by simp
  then show ?case by blast
next
  case (Cons e es)
  obtain k ps where out: "out = ps @ replicate k ''..''" "list_all plain_elem ps"
    using Cons.prems(2) by blast
  note IH = Cons.IH [OF Cons.prems(1)]
  consider "e = [] \<or> e = ''.''" | "e = ''..''" | "plain_elem e"
    using Cons.prems(1) [of e] by (auto simp: plain_elem_def)
  then show ?case
  proof cases
    case 1
    then show ?thesis using IH [of out] out by auto
  next
    case up: 2
    show ?thesis
    proof (cases ps)
      case Nil
      have "\<exists>k' ps'. ''..'' # out = ps' @ replicate k' ''..'' \<and> list_all plain_elem ps'"
        using out Nil by (auto intro: exI [of _ "Suc k"] exI [of _ "[]"])
      with up Nil out show ?thesis using IH [of "''..'' # out"] by (cases k) auto
    next
      case (Cons w ws)
      then have "w \<noteq> ''..''" "list_all plain_elem ws" using out by (auto simp: plain_elem_def)
      with up Cons out show ?thesis using IH [of "ws @ replicate k ''..''"] by auto
    qed
  next
    case 3
    then have "\<exists>k' ps'. e # out = ps' @ replicate k' ''..'' \<and> list_all plain_elem ps'"
      using out by (auto intro!: exI [of _ k] exI [of _ "e # ps"])
    from IH [OF _ this] 3 show ?thesis by (simp add: plain_elem_def)
  qed
qed

lemma join_prefix: "prefix (w @ [c]) (join_with c (w # v # vs))"
  by simp

text \<open>A cleaned path that is relative and does not lead out has only plain elements.\<close>

lemma clean_path_plain:
  assumes "path_Clean p = q" "q \<noteq> ''.''" "q \<noteq> ''..''" "\<not> prefix ''../'' q" "\<not> prefix ''/'' q"
  shows "list_all plain_elem (split_on CHR ''/'' q)"
proof -
  define out where "out = clean_elems False [] (split_on CHR ''/'' p)"
  have "\<exists>k ps. out = replicate k ''..'' @ ps \<and> list_all plain_elem ps"
    unfolding out_def
    by (rule clean_elems_shape) (auto dest: split_on_no_sep intro: exI [of _ "[]"])
  then obtain k ps where out: "out = replicate k ''..'' @ ps" "list_all plain_elem ps" by blast
  have join: "q = join_with CHR ''/'' out" "out \<noteq> []"
    using assms by (auto simp: path_Clean_def out_def [symmetric] split: list.splits if_splits)
  have "k = 0"
  proof (rule ccontr)
    assume "k \<noteq> 0"
    then obtain k' where "out = ''..'' # replicate k' ''..'' @ ps"
      using out by (cases k) auto
    then show False
      using join assms(3,4) join_prefix [of "''..''" "CHR ''/''"]
      by (cases "replicate k' ''..'' @ ps") auto
  qed
  with out join have "list_all plain_elem out" by simp
  then have "\<And>w. w \<in> set out \<Longrightarrow> CHR ''/'' \<notin> set w"
    by (auto simp: list_all_iff plain_elem_def)
  with join have "split_on CHR ''/'' q = out" using split_join by metis
  with \<open>list_all plain_elem out\<close> show ?thesis by simp
qed

text \<open>A path that survives the checks has only plain elements.\<close>

lemma accepted_path_plain:
  assumes "\<not> path_rejected name (path_Clean (map (\<lambda>c. if c = CHR 0x5C then CHR ''/'' else c) name))"
  shows "list_all plain_elem (split_on CHR ''/'' name)"
proof -
  have "CHR 0x5C \<notin> set name" using assms by (simp add: path_rejected_def)
  then have "map (\<lambda>c. if c = CHR 0x5C then CHR ''/'' else c) name = name"
    by (auto intro: map_idI)
  with assms show ?thesis by (intro clean_path_plain) (auto simp: path_rejected_def)
qed

section \<open>Accepted workspaces\<close>

definition decoded_size :: "workspaceFile \<Rightarrow> nat" where
  "decoded_size f = (case base64_DecodeString (wf_ContentBase64 f) of None \<Rightarrow> 0 | Some d \<Rightarrow> length d)"

lemma workspace_loop_accepts:
  assumes "workspace_loop fs tot paths = Inr (tot', paths')" "tot \<le> MaximumWorkspaceBytes" "distinct paths"
  shows "tot' = tot + sum_list (map decoded_size fs) \<and> tot' \<le> MaximumWorkspaceBytes
    \<and> paths' = paths @ map (\<lambda>f. trim_space (wf_Path f)) fs \<and> distinct paths'
    \<and> (\<forall>f \<in> set fs. list_all plain_elem (split_on CHR ''/'' (trim_space (wf_Path f))))"
  using assms
proof (induction fs arbitrary: tot paths)
  case Nil
  then show ?case by simp
next
  case (Cons f fs)
  let ?name = "trim_space (wf_Path f)"
  let ?clean = "path_Clean (map (\<lambda>c. if c = CHR 0x5C then CHR ''/'' else c) ?name)"
  obtain d where ok: "\<not> path_rejected ?name ?clean" "?clean \<notin> set paths"
      "base64_DecodeString (wf_ContentBase64 f) = Some d" "tot + length d \<le> MaximumWorkspaceBytes"
      "workspace_loop fs (tot + length d) (paths @ [?clean]) = Inr (tot', paths')"
    using Cons.prems(1,2) by (auto simp: Let_def split: if_splits option.splits)
  have size: "decoded_size f = length d" using ok(3) by (simp add: decoded_size_def)
  have "?clean = ?name" using ok(1) by (auto simp: path_rejected_def)
  moreover have "distinct (paths @ [?clean])" using ok(2) Cons.prems(3) by simp
  moreover have "list_all plain_elem (split_on CHR ''/'' ?name)"
    using ok(1) by (rule accepted_path_plain)
  ultimately show ?case
    using Cons.IH [OF ok(5) ok(4)] size by (auto simp del: distinct_append)
qed

text \<open>An accepted job offer carries a workspace that stays inside its directory and inside its
  limits: at most 64 files and 512 KiB decoded, pairwise different paths, and no path with an
  empty, current-directory or parent-directory element, so none is absolute and none escapes.\<close>

lemma accepted_workspace_confined:
  assumes "JobOffer_Validate now m = Inr ()"
  shows "length (jo_Workspace m) \<le> 64 \<and> sum_list (map decoded_size (jo_Workspace m)) \<le> 524288
    \<and> distinct (map (\<lambda>f. trim_space (wf_Path f)) (jo_Workspace m))
    \<and> (\<forall>f \<in> set (jo_Workspace m). list_all plain_elem (split_on CHR ''/'' (trim_space (wf_Path f))))"
proof -
  obtain tot paths where "workspace_loop (jo_Workspace m) 0 [] = Inr (tot, paths)"
    and "length (jo_Workspace m) \<le> MaximumWorkspaceFiles"
    using assms by (auto simp: JobOffer_Validate_def split: if_splits)
  then show ?thesis
    using workspace_loop_accepts [of "jo_Workspace m" 0 "[]" tot paths]
    by (auto simp: MaximumWorkspaceFiles_def MaximumWorkspaceBytes_def)
qed

definition demo_job :: jobOffer where
  "demo_job = \<lparr>jo_RequestID = ''r'', jo_Model = ''m'', jo_OfferID = ''o'', jo_Prompt = ''p'',
     jo_PriceVersion = 1, jo_MaximumSpend = 1, jo_MaximumOutputTokens = 1, jo_LeaseExpiresAt = 1,
     jo_Workspace = [\<lparr>wf_Path = ''a'', wf_ContentBase64 = ''QQ==''\<rparr>,
       \<lparr>wf_Path = ''a-b'', wf_ContentBase64 = []\<rparr>, \<lparr>wf_Path = ''a/c'', wf_ContentBase64 = []\<rparr>]\<rparr>"

lemma demo_job_accepted: "JobOffer_Validate 0 demo_job = Inr ()"
proof -
  have "workspace_loop (jo_Workspace demo_job) 0 [] = Inr (1, [''a'', ''a-b'', ''a/c''])"
    by (simp add: demo_job_def Let_def trim_space_def trim_left.simps space_runes_def path_Clean_def path_rejected_def
        base64_DecodeString_def b64_val_def is_digit_def MaximumWorkspaceBytes_def windowsAbsolutePath_def)
  then show ?thesis
    by (simp add: JobOffer_Validate_def MaximumWorkspaceFiles_def)
       (simp add: demo_job_def blank_def trim_space_def trim_left.simps space_runes_def)
qed

text \<open>The check for a file that is also a directory of another file looks at neighbours of the
  byte-sorted path list only, and a path between the two hides the conflict: a workspace with the
  files a, a-b and a/c is accepted although a cannot be both a file and a directory.\<close>

lemma nested_workspace_accepted:
  "JobOffer_Validate 0 demo_job = Inr ()
    \<and> (\<exists>f \<in> set (jo_Workspace demo_job). \<exists>g \<in> set (jo_Workspace demo_job). prefix (wf_Path f @ ''/'') (wf_Path g))"
proof
  show "JobOffer_Validate 0 demo_job = Inr ()" by (rule demo_job_accepted)
  show "\<exists>f \<in> set (jo_Workspace demo_job). \<exists>g \<in> set (jo_Workspace demo_job). prefix (wf_Path f @ ''/'') (wf_Path g)"
    by (simp add: demo_job_def)
qed

lemma accepted_workspace_confined_witness:
  "distinct (map (\<lambda>f. trim_space (wf_Path f)) (jo_Workspace demo_job))"
  using accepted_workspace_confined [OF demo_job_accepted] by blast

end
