(* ===== verification/Chunks.thy ===== *)
theory Chunks
  imports Messages
begin

text \<open>
  Ordering of streamed output. Broker (\<^verbatim>\<open>ChunkTracker\<close> of
  \<^verbatim>\<open>protocol/v1/messages.go\<close>) and provider (\<^verbatim>\<open>RequestState\<close> of
  \<^verbatim>\<open>cli/internal/provider/daemon.go\<close>) each keep a gate that admits the chunks of a
  request in sequence and none after the final one. The locale \<open>chunk_gate\<close> is the contract
  of such a gate; its lemmas hold for any interleaving of the requests.
\<close>

section \<open>The chunk tracker\<close>

text \<open>Go maps with a zero value for absent keys: \<^verbatim>\<open>last[id]\<close> is 0 and \<^verbatim>\<open>closed[id]\<close> is false.\<close>

record chunkTracker =
  ct_last :: "string \<rightharpoonup> u64"
  ct_closed :: "string \<rightharpoonup> bool"

definition NewChunkTracker :: chunkTracker where
  "NewChunkTracker = \<lparr>ct_last = Map.empty, ct_closed = Map.empty\<rparr>"

definition go_map_get :: "('k \<rightharpoonup> 'v) \<Rightarrow> 'v \<Rightarrow> 'k \<Rightarrow> 'v" where
  "go_map_get m zero k = (case m k of None \<Rightarrow> zero | Some v \<Rightarrow> v)"

definition ChunkTracker_Accept :: "chunkTracker \<Rightarrow> outputChunk \<Rightarrow> unit result \<times> chunkTracker" where
  "ChunkTracker_Accept t chunk =
     (case OutputChunk_Validate chunk of
        Inl e \<Rightarrow> (Inl e, t)
      | Inr _ \<Rightarrow>
          if go_map_get (ct_closed t) False (ch_RequestID chunk)
             \<or> ch_Sequence chunk \<noteq> go_map_get (ct_last t) 0 (ch_RequestID chunk) + 1
          then (Inl ErrChunkSequence, t)
          else (Inr (),
                t\<lparr>ct_last := (ct_last t)(ch_RequestID chunk \<mapsto> ch_Sequence chunk),
                  ct_closed := (if ch_Done chunk then (ct_closed t)(ch_RequestID chunk \<mapsto> True)
                                else ct_closed t)\<rparr>))"

section \<open>Streams\<close>

text \<open>The chunks that a gate admits out of a sequence of arrivals.\<close>

fun accepted_by :: "('s \<Rightarrow> outputChunk \<Rightarrow> unit result \<times> 's) \<Rightarrow> 's \<Rightarrow> outputChunk list \<Rightarrow> outputChunk list" where
  "accepted_by accept s [] = []"
| "accepted_by accept s (c # cs) =
     (case accept s c of
        (Inl e, s') \<Rightarrow> accepted_by accept s' cs
      | (Inr _, s') \<Rightarrow> c # accepted_by accept s' cs)"

definition of_request :: "string \<Rightarrow> outputChunk list \<Rightarrow> outputChunk list" where
  "of_request r = filter (\<lambda>c. ch_RequestID c = r)"

text \<open>The stream of one request that continues after chunk number \<open>pos\<close>.\<close>

fun stream_ok :: "bool \<Rightarrow> u64 \<Rightarrow> outputChunk list \<Rightarrow> bool" where
  "stream_ok closed pos [] = True"
| "stream_ok closed pos (c # cs) =
     (\<not> closed \<and> OutputChunk_Validate c = Inr () \<and> ch_Sequence c = pos + 1
      \<and> stream_ok (ch_Done c) (ch_Sequence c) cs)"

lemma of_request_simps [simp]:
  "of_request r [] = []"
  "of_request r (c # cs) = (if ch_RequestID c = r then c # of_request r cs else of_request r cs)"
  by (simp_all add: of_request_def)

lemma valid_chunk_sequence: "OutputChunk_Validate c = Inr () \<Longrightarrow> ch_Sequence c \<noteq> 0"
  by (auto simp: OutputChunk_Validate_def split: if_splits)

text \<open>
  A valid chunk never carries sequence number 0, so the counter does not wrap around.
\<close>

lemma stream_ok_numbers:
  "stream_ok closed pos cs \<Longrightarrow>
     map (\<lambda>c. unat (ch_Sequence c)) cs = [unat pos + 1..<unat pos + 1 + length cs]"
proof (induction cs arbitrary: closed pos)
  case (Cons c cs)
  then have "ch_Sequence c = pos + 1" "ch_Sequence c \<noteq> 0" and tl: "stream_ok (ch_Done c) (ch_Sequence c) cs"
    by (auto dest: valid_chunk_sequence)
  then have "unat (ch_Sequence c) = unat pos + 1"
    by (metis Suc_eq_plus1 add.commute unatSuc)
  with Cons.IH [OF tl] show ?case by (simp add: upt_conv_Cons del: upt_Suc)
qed simp

lemma stream_ok_done_last: "stream_ok closed pos cs \<Longrightarrow> list_all (\<lambda>c. \<not> ch_Done c) (butlast cs)"
proof (induction cs arbitrary: closed pos)
  case (Cons c cs)
  then show ?case by (cases cs) auto
qed simp

section \<open>The contract of a gate\<close>

locale chunk_gate =
  fixes accept :: "'s \<Rightarrow> outputChunk \<Rightarrow> unit result \<times> 's"
    and pos :: "'s \<Rightarrow> string \<Rightarrow> u64"
    and shut :: "'s \<Rightarrow> string \<Rightarrow> bool"
  assumes refused: "accept s c = (Inl e, s') \<Longrightarrow> s' = s"
    and admitted: "accept s c = (Inr u, s') \<Longrightarrow>
      OutputChunk_Validate c = Inr () \<and> \<not> shut s (ch_RequestID c)
      \<and> ch_Sequence c = pos s (ch_RequestID c) + 1
      \<and> pos s' = (pos s)(ch_RequestID c := ch_Sequence c)
      \<and> shut s' = (shut s)(ch_RequestID c := ch_Done c)"
    and admits: "OutputChunk_Validate c = Inr () \<Longrightarrow> \<not> shut s (ch_RequestID c)
      \<Longrightarrow> ch_Sequence c = pos s (ch_RequestID c) + 1 \<Longrightarrow> \<exists>s'. accept s c = (Inr (), s')"
begin

lemma admitted_stream:
  "stream_ok (shut s r) (pos s r) (of_request r (accepted_by accept s cs))"
proof (induction cs arbitrary: s)
  case (Cons c cs)
  show ?case
  proof (cases "accept s c")
    case (Pair res s')
    show ?thesis
    proof (cases res)
      case (Inl e)
      with Pair refused [of s c e s'] Cons.IH [of s] show ?thesis by simp
    next
      case (Inr u)
      with Pair admitted [of s c u s'] Cons.IH [of s'] show ?thesis by (auto split: if_splits)
    qed
  qed
qed simp

lemma stream_admitted:
  assumes "\<And>r. stream_ok (shut s r) (pos s r) (of_request r cs)"
  shows "accepted_by accept s cs = cs"
  using assms
proof (induction cs arbitrary: s)
  case (Cons c cs)
  let ?r = "ch_RequestID c"
  have c: "OutputChunk_Validate c = Inr ()" "\<not> shut s ?r" "ch_Sequence c = pos s ?r + 1"
    and tl: "stream_ok (ch_Done c) (ch_Sequence c) (of_request ?r cs)"
    using Cons.prems [of ?r] by auto
  then obtain s' where acc: "accept s c = (Inr (), s')" using admits by blast
  have "stream_ok (shut s' r) (pos s' r) (of_request r cs)" for r
    using admitted [OF acc] tl Cons.prems [of r] by (cases "r = ?r") auto
  then show ?case using acc Cons.IH [of s'] by simp
qed simp

text \<open>A gate admits a sequence of arrivals as it is when the stream of every request is in order.\<close>

lemma all_admitted_iff:
  "accepted_by accept s cs = cs \<longleftrightarrow> (\<forall>r. stream_ok (shut s r) (pos s r) (of_request r cs))"
  using admitted_stream [of s _ cs] stream_admitted [of s cs] by metis

end

interpretation tracker: chunk_gate ChunkTracker_Accept
  "\<lambda>t. go_map_get (ct_last t) 0" "\<lambda>t. go_map_get (ct_closed t) False"
proof
qed (auto simp: ChunkTracker_Accept_def go_map_get_def fun_eq_iff split: sum.splits if_splits option.splits)

section \<open>Properties of the tracker\<close>

text \<open>Whatever chunks arrive at a new tracker, in whatever interleaving of requests, those it
  accepts of one request are numbered 1, 2, 3, and so on without gap, repetition or wrap-around of
  the 64-bit counter, and only the last of them can be the final chunk.\<close>

lemma tracker_in_order:
  "let cs' = of_request r (accepted_by ChunkTracker_Accept NewChunkTracker cs)
   in map (\<lambda>c. unat (ch_Sequence c)) cs' = [1..<1 + length cs'] \<and> list_all (\<lambda>c. \<not> ch_Done c) (butlast cs')"
proof -
  have "stream_ok False 0 (of_request r (accepted_by ChunkTracker_Accept NewChunkTracker cs))"
    using tracker.admitted_stream [of NewChunkTracker r cs] by (simp add: NewChunkTracker_def go_map_get_def)
  from stream_ok_numbers [OF this] stream_ok_done_last [OF this] show ?thesis by (simp add: Let_def)
qed

text \<open>A new tracker accepts every chunk of an interleaving of requests exactly when the chunks
  of each request are valid, numbered consecutively from 1 and end at the first final chunk.\<close>

lemma tracker_complete:
  "accepted_by ChunkTracker_Accept NewChunkTracker cs = cs
    \<longleftrightarrow> (\<forall>r. stream_ok False 0 (of_request r cs))"
  using tracker.all_admitted_iff [of NewChunkTracker cs]
  by (simp add: NewChunkTracker_def go_map_get_def)

end
