(* ===== verification/Sql.thy ===== *)
theory Sql
  imports Prelude
begin

text \<open>
  The fragment of SQL that the broker uses, on tables that are lists of rows, and its
  transactions. A statement can also fail for reasons outside the model: every operation takes
  a fault oracle \<open>flt\<close>, and its \<open>k\<close>-th statement, the begin and the commit of the transaction
  included, fails with the error \<open>flt k\<close> when that is one. A failed commit leaves the tables
  as they were. A transaction holds its row and advisory locks to its end, so operations are atomic steps and
  an interleaving of callers is a sequence of operations.
\<close>

section \<open>Statements\<close>

type_synonym faults = "nat \<Rightarrow> go_error option"

definition no_faults :: faults where
  "no_faults = (\<lambda>_. None)"

definition stmt :: "faults \<Rightarrow> nat \<Rightarrow> 'a result \<Rightarrow> 'a result" where
  "stmt flt k r = (case flt k of Some e \<Rightarrow> Inl e | None \<Rightarrow> r)"

text \<open>
  \<^verbatim>\<open>defer tx.Rollback()\<close>: an operation that returns an error leaves the tables as they were.
\<close>

definition transact :: "'d \<Rightarrow> ('a \<times> 'd) result \<Rightarrow> 'a result \<times> 'd" where
  "transact db r = (case r of Inl e \<Rightarrow> (Inl e, db) | Inr (x, db') \<Rightarrow> (Inr x, db'))"

definition select_one :: "('r \<Rightarrow> bool) \<Rightarrow> 'r list \<Rightarrow> 'r result" where
  "select_one P tbl = (case find P tbl of None \<Rightarrow> Inl ErrNoRows | Some r \<Rightarrow> Inr r)"

definition exists_row :: "('r \<Rightarrow> bool) \<Rightarrow> 'r list \<Rightarrow> bool" where
  "exists_row P tbl = list_ex P tbl"

definition count_rows :: "('r \<Rightarrow> bool) \<Rightarrow> 'r list \<Rightarrow> nat" where
  "count_rows P tbl = length (filter P tbl)"

definition sum_rows :: "('r \<Rightarrow> int) \<Rightarrow> ('r \<Rightarrow> bool) \<Rightarrow> 'r list \<Rightarrow> int" where
  "sum_rows f P tbl = sum_list (map f (filter P tbl))"

definition update_rows :: "('r \<Rightarrow> bool) \<Rightarrow> ('r \<Rightarrow> 'r) \<Rightarrow> 'r list \<Rightarrow> 'r list" where
  "update_rows P f tbl = map (\<lambda>r. if P r then f r else r) tbl"

text \<open>An \<^verbatim>\<open>UPDATE\<close> of a table with the row constraint \<open>chk\<close>.\<close>

definition update_checked :: "('r \<Rightarrow> bool) \<Rightarrow> ('r \<Rightarrow> bool) \<Rightarrow> ('r \<Rightarrow> 'r) \<Rightarrow> 'r list \<Rightarrow> 'r list result" where
  "update_checked chk P f tbl =
     (if list_all (\<lambda>r. P r \<longrightarrow> chk (f r)) tbl then Inr (update_rows P f tbl) else Inl ErrConstraint)"

definition delete_rows :: "('r \<Rightarrow> bool) \<Rightarrow> 'r list \<Rightarrow> 'r list" where
  "delete_rows P tbl = filter (\<lambda>r. \<not> P r) tbl"

definition has_key :: "('r \<Rightarrow> 'k) \<Rightarrow> 'k \<Rightarrow> 'r list \<Rightarrow> bool" where
  "has_key key k tbl = list_ex (\<lambda>r. key r = k) tbl"

text \<open>\<^verbatim>\<open>INSERT\<close>: \<open>ok\<close> is the row constraint with its foreign keys, \<open>key\<close> the primary key.\<close>

definition insert_row :: "bool \<Rightarrow> ('r \<Rightarrow> 'k) \<Rightarrow> 'r \<Rightarrow> 'r list \<Rightarrow> 'r list result" where
  "insert_row ok key r tbl =
     (if \<not> ok \<or> has_key key (key r) tbl then Inl ErrConstraint else Inr (tbl @ [r]))"

text \<open>\<^verbatim>\<open>ON CONFLICT DO NOTHING\<close>, with the number of rows affected.\<close>

definition insert_or_nothing :: "bool \<Rightarrow> ('r \<Rightarrow> 'k) \<Rightarrow> 'r \<Rightarrow> 'r list \<Rightarrow> (nat \<times> 'r list) result" where
  "insert_or_nothing ok key r tbl =
     (if \<not> ok then Inl ErrConstraint
      else if has_key key (key r) tbl then Inr (0, tbl) else Inr (1, tbl @ [r]))"

text \<open>\<^verbatim>\<open>ON CONFLICT DO UPDATE\<close>: \<open>merge\<close> computes the new row from the old one.\<close>

definition insert_or_update :: "bool \<Rightarrow> ('r \<Rightarrow> bool) \<Rightarrow> ('r \<Rightarrow> 'k) \<Rightarrow> 'r \<Rightarrow> ('r \<Rightarrow> 'r) \<Rightarrow> 'r list \<Rightarrow> 'r list result" where
  "insert_or_update ok chk key r merge tbl =
     (if \<not> ok then Inl ErrConstraint
      else if has_key key (key r) tbl then update_checked chk (\<lambda>old. key old = key r) merge tbl
      else Inr (tbl @ [r]))"

text \<open>
  Values: a \<^verbatim>\<open>uint64\<close> argument of type \<^verbatim>\<open>bigint\<close> must fit 63 bits, a
  \<^verbatim>\<open>NULL\<close> cannot be scanned into a Go string, and a \<^verbatim>\<open>numeric(78,0)\<close> column is
  written from a decimal string and read back with \<^verbatim>\<open>::text\<close>.
\<close>

definition int8_arg :: "u64 \<Rightarrow> int result" where
  "int8_arg w = (if uint w < 2 ^ 63 then Inr (uint w) else Inl (ErrText ''value out of range for bigint''))"

definition scan_text :: "string option \<Rightarrow> string result" where
  "scan_text v = (case v of None \<Rightarrow> Inl (ErrText ''converting NULL to string is unsupported'') | Some s \<Rightarrow> Inr s)"

definition numeric_fits :: "int \<Rightarrow> bool" where
  "numeric_fits i \<longleftrightarrow> \<bar>i\<bar> < 10 ^ 78"

definition numeric_arg :: "string \<Rightarrow> int result" where
  "numeric_arg s = (case big_set_string s of None \<Rightarrow> Inl ErrConstraint
      | Some i \<Rightarrow> if numeric_fits i then Inr i else Inl ErrConstraint)"

definition opt_ge :: "int option \<Rightarrow> int \<Rightarrow> bool" where
  "opt_ge v x \<longleftrightarrow> (case v of None \<Rightarrow> False | Some y \<Rightarrow> x \<le> y)"

definition opt_less :: "int option \<Rightarrow> int \<Rightarrow> bool" where
  "opt_less v x \<longleftrightarrow> (case v of None \<Rightarrow> False | Some y \<Rightarrow> y < x)"

text \<open>\<^verbatim>\<open>strconv.FormatUint(value, 10)\<close>\<close>

definition decimal :: "u64 \<Rightarrow> string" where
  "decimal w = int_string (uint w)"

section \<open>Facts\<close>

lemma stmt_Inr [simp]: "stmt flt k r = Inr x \<longleftrightarrow> flt k = None \<and> r = Inr x"
  by (simp add: stmt_def split: option.splits)

lemma stmt_no_faults [simp]: "stmt no_faults k r = r"
  by (simp add: stmt_def no_faults_def)

lemma case_sum_Inr [simp]:
  "(case r of Inl e \<Rightarrow> Inl (g e) | Inr x \<Rightarrow> k x) = Inr y \<longleftrightarrow> (\<exists>x. r = Inr x \<and> k x = Inr y)"
  by (cases r) auto

lemma case_option_Inr [simp]:
  "(case r of None \<Rightarrow> Inl e | Some x \<Rightarrow> k x) = Inr y \<longleftrightarrow> (\<exists>x. r = Some x \<and> k x = Inr y)"
  by (cases r) auto

lemma transact_ok: "transact db r = (Inr x, db') \<longleftrightarrow> r = Inr (x, db')"
  by (auto simp: transact_def split: sum.splits)

lemma transact_error: "transact db r = (Inl e, db') \<longleftrightarrow> r = Inl e \<and> db' = db"
  by (auto simp: transact_def split: sum.splits)

lemma transact_cases:
  obtains (failed) e where "transact db r = (Inl e, db)" "r = Inl e"
  | (committed) x db' where "transact db r = (Inr x, db')" "r = Inr (x, db')"
  by (cases r) (auto simp: transact_def)

lemma select_one_Inr: "select_one P tbl = Inr r \<Longrightarrow> r \<in> set tbl \<and> P r"
  by (auto simp: select_one_def find_Some_iff split: option.splits)

lemma select_one_Inl: "select_one P tbl = Inl e \<longleftrightarrow> e = ErrNoRows \<and> (\<forall>r \<in> set tbl. \<not> P r)"
  unfolding select_one_def by (induction tbl) auto

lemma exists_row_iff [simp]: "exists_row P tbl \<longleftrightarrow> (\<exists>r \<in> set tbl. P r)"
  by (simp add: exists_row_def list_ex_iff)

lemma has_key_iff [simp]: "has_key key k tbl \<longleftrightarrow> k \<in> key ` set tbl"
  by (auto simp: has_key_def list_ex_iff)

lemma insert_row_Inr [simp]:
  "insert_row ok key r tbl = Inr tbl' \<longleftrightarrow> ok \<and> key r \<notin> key ` set tbl \<and> tbl' = tbl @ [r]"
  by (auto simp: insert_row_def)

lemma update_checked_Inr [simp]:
  "update_checked chk P f tbl = Inr tbl' \<longleftrightarrow>
     (\<forall>r \<in> set tbl. P r \<longrightarrow> chk (f r)) \<and> tbl' = update_rows P f tbl"
  by (auto simp: update_checked_def list_all_iff)

lemma int8_arg_Inr [simp]: "int8_arg w = Inr i \<longleftrightarrow> uint w < 2 ^ 63 \<and> i = uint w"
  by (auto simp: int8_arg_def)

lemma scan_text_Inr [simp]: "scan_text v = Inr s \<longleftrightarrow> v = Some s"
  by (auto simp: scan_text_def split: option.splits)

lemma numeric_arg_decimal [simp]: "numeric_arg (decimal w) = Inr (uint w)"
proof -
  have "uint w < 10 ^ 78" using uint_lt2p [of w] by simp
  then show ?thesis by (simp add: numeric_arg_def decimal_def numeric_fits_def)
qed

text \<open>Keys: a table whose rows have pairwise different keys keeps this under every statement.\<close>

lemma key_unique:
  "distinct (map key tbl) \<Longrightarrow> x \<in> set tbl \<Longrightarrow> y \<in> set tbl \<Longrightarrow> key x = key y \<Longrightarrow> x = y"
  by (auto simp: distinct_map dest: inj_onD)

lemma map_key_update_rows:
  "(\<And>r. P r \<Longrightarrow> key (f r) = key r) \<Longrightarrow> map key (update_rows P f tbl) = map key tbl"
  by (simp add: update_rows_def)

lemma set_update_rows: "set (update_rows P f tbl) = (\<lambda>r. if P r then f r else r) ` set tbl"
  by (simp add: update_rows_def)

lemma ball_update_rows:
  "(\<forall>x \<in> set (update_rows P f tbl). Q x) \<longleftrightarrow> (\<forall>x \<in> set tbl. Q (if P x then f x else x))"
  by (induction tbl) (auto simp: update_rows_def)

lemma update_rows_append [simp]: "update_rows P f (xs @ ys) = update_rows P f xs @ update_rows P f ys"
  by (simp add: update_rows_def)

lemma update_rows_Nil [simp]: "update_rows P f [] = []"
  by (simp add: update_rows_def)

lemma update_rows_Cons [simp]:
  "update_rows P f (r # tbl) = (if P r then f r else r) # update_rows P f tbl"
  by (simp add: update_rows_def)

lemma update_rows_id: "(\<And>r. r \<in> set tbl \<Longrightarrow> \<not> P r) \<Longrightarrow> update_rows P f tbl = tbl"
  by (induction tbl) auto

lemma count_rows_update:
  "count_rows P (update_rows Q f tbl) = count_rows (\<lambda>x. P (if Q x then f x else x)) tbl"
  by (induction tbl) (auto simp: count_rows_def)

lemma count_rows_key:
  assumes "distinct (map key tbl)" "r \<in> set tbl"
  shows "count_rows (\<lambda>x. key x = key r) tbl = 1"
  using assms
proof (induction tbl)
  case (Cons x tbl)
  show ?case
  proof (cases "x = r")
    case True
    with Cons.prems have "filter (\<lambda>y. key y = key r) tbl = []"
      by (auto simp: filter_empty_conv image_iff)
    with True show ?thesis by (simp add: count_rows_def)
  next
    case False
    with Cons.prems have "r \<in> set tbl" "key x \<noteq> key r" by (auto simp: image_iff)
    with Cons show ?thesis by (simp add: count_rows_def)
  qed
qed simp

text \<open>Sums: an update that touches one row of a keyed table changes a sum by that row's share.\<close>

lemma sum_rows_append [simp]: "sum_rows f P (xs @ ys) = sum_rows f P xs + sum_rows f P ys"
  by (simp add: sum_rows_def)

lemma sum_rows_simps [simp]:
  "sum_rows f P [] = 0"
  "sum_rows f P (r # tbl) = (if P r then f r else 0) + sum_rows f P tbl"
  by (simp_all add: sum_rows_def)

lemma sum_rows_nonneg: "(\<And>r. r \<in> set tbl \<Longrightarrow> 0 \<le> f r) \<Longrightarrow> 0 \<le> sum_rows f P tbl"
  by (induction tbl) auto

lemma sum_rows_update_mono:
  assumes "\<And>r. r \<in> set tbl \<Longrightarrow> P r \<Longrightarrow>
    (if Q (g r) then f (g r) else 0) \<le> (if Q r then f r else (0 :: int))"
  shows "sum_rows f Q (update_rows P g tbl) \<le> sum_rows f Q tbl"
  using assms
proof (induction tbl)
  case (Cons r tbl)
  then have "sum_rows f Q (update_rows P g tbl) \<le> sum_rows f Q tbl" by simp
  with Cons.prems [of r] show ?case by (cases "P r") (simp_all add: add_mono)
qed simp

lemma sum_rows_member_le:
  assumes "\<And>r. r \<in> set tbl \<Longrightarrow> 0 \<le> f r" "r \<in> set tbl" "P r"
  shows "f r \<le> sum_rows f P tbl"
  using assms
proof (induction tbl)
  case (Cons x tbl)
  then show ?case using sum_rows_nonneg [of tbl f P] by (cases "x = r") fastforce+
qed simp

lemma sum_rows_update_key:
  assumes "distinct (map key tbl)" "r \<in> set tbl" "\<And>x. x \<in> set tbl \<Longrightarrow> P x \<longleftrightarrow> key x = key r"
  shows "sum_rows f Q (update_rows P g tbl)
    = sum_rows f Q tbl - (if Q r then f r else 0) + (if Q (g r) then f (g r) else 0)"
  using assms
proof (induction tbl)
  case (Cons x tbl)
  show ?case
  proof (cases "x = r")
    case True
    have "\<not> P y" if "y \<in> set tbl" for y
      using that True Cons.prems(1) Cons.prems(3) [of y] by (auto simp: image_iff)
    then have "update_rows P g tbl = tbl" by (rule update_rows_id)
    with True Cons.prems show ?thesis by simp
  next
    case False
    then have "r \<in> set tbl" "\<not> P x" using Cons.prems by force+
    then show ?thesis using Cons by simp
  qed
qed simp

lemmas sql_defs = stmt_def transact_def select_one_def count_rows_def update_checked_def
  insert_row_def insert_or_nothing_def insert_or_update_def int8_arg_def scan_text_def

end
