(* ===== verification/Schema.thy ===== *)
theory Schema
  imports Sql Receipt
begin

text \<open>
  The tables of the broker as the migrations define them, one record per table, and the
  insertions with their constraints: primary and unique keys, \<^verbatim>\<open>CHECK\<close> clauses and
  foreign keys. Columns of type \<^verbatim>\<open>bigint\<close>, \<^verbatim>\<open>integer\<close> and
  \<^verbatim>\<open>numeric(78,0)\<close> are integers, nullable columns are options, timestamps are seconds,
  and a \<^verbatim>\<open>jsonb\<close> document is kept as the value it encodes.
\<close>

section \<open>Rows of the control plane\<close>

record account_row =
  ac_id :: string
  ac_wallet_address :: string

record machine_row =
  ma_id :: string
  ma_account_id :: string
  ma_name :: string
  ma_revoked_at :: "int option"
  ma_signer_address :: "string option"

record backend_row =
  be_id :: string
  be_machine_id :: string
  be_kind :: string
  be_model :: string
  be_enabled :: bool

record offer_row =
  of_id :: string
  of_backend_id :: string
  of_version :: int
  of_input_per_million :: int
  of_output_per_million :: int
  of_compute_per_second :: int

record session_row =
  se_id :: string
  se_account_id :: string
  se_state :: string
  se_confirmed_balance_wei :: int
  se_created_at :: int

record request_row =
  re_id :: string
  re_session_id :: string
  re_state :: string
  re_machine_id :: "string option"
  re_offer_id :: "string option"
  re_price_version :: "int option"
  re_maximum_spend :: "int option"
  re_maximum_input_tokens :: "int option"
  re_maximum_output_tokens :: "int option"
  re_maximum_compute_milliseconds :: "int option"
  re_offer_hash :: "string option"
  re_model_hash :: "string option"
  re_capability_hash :: "string option"
  re_updated_at :: int

record nonce_row =
  rn_provider_address :: string
  rn_nonce :: int
  rn_request_id :: string

record outbox_row =
  ob_id :: int
  ob_aggregate_type :: string
  ob_aggregate_id :: string
  ob_event_type :: string
  ob_payload :: "(string \<times> string) list"
  ob_published_at :: "int option"

record routing_row =
  ro_machine_id :: string
  ro_offer_id :: string
  ro_model :: string
  ro_backend_kind :: "string option"
  ro_capabilities :: "string list"
  ro_offer_hash :: "string option"
  ro_model_hash :: "string option"
  ro_capability_hash :: "string option"
  ro_evidence_kind :: string
  ro_evidence_digest :: string
  ro_metering_mode :: string
  ro_price_version :: int
  ro_confirmed_bond :: bool
  ro_healthy :: bool
  ro_capacity :: int
  ro_maximum_cost :: int
  ro_input_per_million :: int
  ro_output_per_million :: int
  ro_compute_per_second :: int
  ro_latency_milliseconds :: int
  ro_success_basis_points :: int
  ro_reputation :: int
  ro_updated_at :: int

record reservation_row =
  ir_request_id :: string
  ir_session_id :: string
  ir_amount :: int
  ir_released_at :: "int option"

record proposal_row =
  pp_request_id :: string
  pp_session_id :: string
  pp_machine_id :: string
  pp_offer_id :: string
  pp_model :: string
  pp_price_version :: int
  pp_input_tokens :: int
  pp_output_tokens :: int
  pp_compute_milliseconds :: int
  pp_input_hash :: bytes
  pp_output_hash :: bytes
  pp_completed_at :: int

section \<open>Rows of the chain index and of the settlement queue\<close>

text \<open>The rows that the indexer owns carry the chain and the contract they were read from.\<close>

type_synonym deployment = "string \<times> string"

record block_row =
  cb_deployment :: deployment
  cb_block_number :: int
  cb_block_hash :: string
  cb_parent_hash :: string

record cursor_row =
  cc_deployment :: deployment
  cc_next_block :: int
  cc_last_block :: "int option"
  cc_last_block_hash :: "string option"

record log_row =
  cl_deployment :: deployment
  cl_block_number :: int
  cl_block_hash :: string
  cl_transaction_hash :: string
  cl_log_index :: int

record chain_account_row =
  ca_deployment :: deployment
  ca_address :: string
  ca_customer_balance :: int
  ca_provider_bond :: int
  ca_claimable :: int
  ca_bond_exit_available_at :: int

record chain_offer_row =
  co_deployment :: deployment
  co_provider :: string
  co_offer_id :: string
  co_version :: int
  co_model_hash :: string
  co_capability_hash :: string
  co_input_per_million :: int
  co_output_per_million :: int
  co_compute_per_second :: int

record chain_session_row =
  cs_deployment :: deployment
  cs_session_id :: string
  cs_customer :: string
  cs_allowance :: int
  cs_spent :: int
  cs_expires_at :: int
  cs_close_available_at :: int
  cs_finalized :: bool

record chain_settlement_row =
  ct_deployment :: deployment
  ct_request_id :: string
  ct_session_id :: string
  ct_provider :: string
  ct_provider_amount :: int
  ct_fee_amount :: int
  ct_transaction_hash :: string
  ct_block_number :: int

record chain_slash_row =
  cx_deployment :: deployment
  cx_request_id :: string
  cx_provider :: string
  cx_amount :: int
  cx_block_number :: int
  cx_transaction_hash :: string

record chain_signer_row =
  cp_deployment :: deployment
  cp_provider :: string
  cp_signer :: string
  cp_allowed :: bool

record queue_row =
  sq_request_id :: string
  sq_receipt :: receipt
  sq_provider_signature :: bytes
  sq_settlement_signature :: bytes
  sq_state :: string
  sq_transaction_hash :: "string option"
  sq_raw_transaction :: "bytes option"
  sq_created_at :: int
  sq_updated_at :: int

section \<open>The database\<close>

record db =
  accounts :: "account_row list"
  machines :: "machine_row list"
  backends :: "backend_row list"
  offers :: "offer_row list"
  sessions :: "session_row list"
  requests :: "request_row list"
  receipt_nonces :: "nonce_row list"
  outbox :: "outbox_row list"
  routing :: "routing_row list"
  reservations :: "reservation_row list"
  proposals :: "proposal_row list"
  settlement_queue :: "queue_row list"
  chain_blocks :: "block_row list"
  chain_cursors :: "cursor_row list"
  chain_logs :: "log_row list"
  chain_accounts :: "chain_account_row list"
  chain_offers :: "chain_offer_row list"
  chain_sessions :: "chain_session_row list"
  chain_settlements :: "chain_settlement_row list"
  chain_slashes :: "chain_slash_row list"
  chain_provider_signers :: "chain_signer_row list"

definition empty_db :: db where
  "empty_db = \<lparr>accounts = [], machines = [], backends = [], offers = [], sessions = [], requests = [],
     receipt_nonces = [], outbox = [], routing = [], reservations = [], proposals = [],
     settlement_queue = [], chain_blocks = [], chain_cursors = [], chain_logs = [], chain_accounts = [],
     chain_offers = [], chain_sessions = [], chain_settlements = [], chain_slashes = [],
     chain_provider_signers = []\<rparr>"

section \<open>Constraints and insertions\<close>

definition session_states :: "string list" where
  "session_states = [''open'', ''closing'', ''closed'']"

definition request_states :: "string list" where
  "request_states = [''created'', ''reserved'', ''offered'', ''accepted'', ''streaming'', ''completed'',
     ''signed'', ''submitted'', ''settled'', ''rejected'', ''expired'', ''cancelled'', ''failed'']"

definition positive_or_null :: "int option \<Rightarrow> bool" where
  "positive_or_null v \<longleftrightarrow> (case v of None \<Rightarrow> True | Some i \<Rightarrow> 0 < i)"

definition request_check :: "request_row \<Rightarrow> bool" where
  "request_check r \<longleftrightarrow> re_state r \<in> set request_states
     \<and> positive_or_null (re_price_version r) \<and> positive_or_null (re_maximum_spend r)
     \<and> positive_or_null (re_maximum_input_tokens r) \<and> positive_or_null (re_maximum_output_tokens r)
     \<and> positive_or_null (re_maximum_compute_milliseconds r)"

definition session_check :: "session_row \<Rightarrow> bool" where
  "session_check s \<longleftrightarrow> se_state s \<in> set session_states
     \<and> 0 \<le> se_confirmed_balance_wei s \<and> numeric_fits (se_confirmed_balance_wei s)"

definition offer_check :: "offer_row \<Rightarrow> bool" where
  "offer_check f \<longleftrightarrow> 0 < of_version f \<and> 0 \<le> of_input_per_million f \<and> 0 \<le> of_output_per_million f
     \<and> 0 \<le> of_compute_per_second f"

text \<open>
  The column \<^verbatim>\<open>capacity\<close> has type \<^verbatim>\<open>integer\<close>, the version, latency and reputation
  have type \<^verbatim>\<open>bigint\<close>.
\<close>

definition routing_check :: "routing_row \<Rightarrow> bool" where
  "routing_check r \<longleftrightarrow> 0 < ro_price_version r \<and> ro_price_version r < 2 ^ 63
     \<and> ro_latency_milliseconds r < 2 ^ 63 \<and> ro_reputation r < 2 ^ 63 \<and> 0 \<le> ro_capacity r \<and> ro_capacity r < 2 ^ 31
     \<and> 0 \<le> ro_maximum_cost r \<and> 0 \<le> ro_input_per_million r
     \<and> 0 \<le> ro_output_per_million r \<and> 0 \<le> ro_compute_per_second r \<and> 0 \<le> ro_latency_milliseconds r
     \<and> 0 \<le> ro_success_basis_points r \<and> ro_success_basis_points r \<le> 10000 \<and> 0 \<le> ro_reputation r
     \<and> ro_evidence_kind r \<in> {''provider_claimed'', ''ollama_digest'', ''upstream_model'', ''runtime_image''}
     \<and> ro_metering_mode r \<in> {''tokens_and_compute'', ''compute_only''}"

definition reservation_check :: "reservation_row \<Rightarrow> bool" where
  "reservation_check r \<longleftrightarrow> 0 \<le> ir_amount r"

definition proposal_check :: "proposal_row \<Rightarrow> bool" where
  "proposal_check p \<longleftrightarrow> 0 < pp_price_version p \<and> 0 \<le> pp_input_tokens p \<and> 0 \<le> pp_output_tokens p
     \<and> 0 \<le> pp_compute_milliseconds p \<and> length (pp_input_hash p) = 32 \<and> length (pp_output_hash p) = 32"

definition offer_key :: "offer_row \<Rightarrow> string \<times> int" where
  "offer_key f = (of_id f, of_version f)"

definition routing_key :: "routing_row \<Rightarrow> string \<times> string" where
  "routing_key r = (ro_machine_id r, ro_offer_id r)"

definition nonce_key :: "nonce_row \<Rightarrow> string \<times> int" where
  "nonce_key n = (rn_provider_address n, rn_nonce n)"

definition insert_account :: "account_row \<Rightarrow> db \<Rightarrow> db result" where
  "insert_account a db =
     and_then (insert_row (\<not> has_key ac_wallet_address (ac_wallet_address a) (accounts db)) ac_id a (accounts db))
       (\<lambda>t. Inr (db\<lparr>accounts := t\<rparr>))"

text \<open>
  The partial unique index on signers ignores letter case and revoked machines.
\<close>

definition signer_taken :: "string option \<Rightarrow> machine_row list \<Rightarrow> bool" where
  "signer_taken signer tbl =
     (case signer of None \<Rightarrow> False
      | Some s \<Rightarrow> exists_row (\<lambda>m. ma_revoked_at m = None
          \<and> (case ma_signer_address m of None \<Rightarrow> False | Some s' \<Rightarrow> to_lower s' = to_lower s)) tbl)"

definition insert_machine :: "machine_row \<Rightarrow> db \<Rightarrow> db result" where
  "insert_machine m db =
     and_then (insert_row
         (has_key ac_id (ma_account_id m) (accounts db)
          \<and> \<not> exists_row (\<lambda>m'. ma_account_id m' = ma_account_id m \<and> ma_name m' = ma_name m) (machines db)
          \<and> \<not> signer_taken (ma_signer_address m) (machines db)) ma_id m (machines db))
       (\<lambda>t. Inr (db\<lparr>machines := t\<rparr>))"

definition backend_unique :: "backend_row \<Rightarrow> string \<times> string \<times> string" where
  "backend_unique b = (be_machine_id b, be_kind b, be_model b)"

definition insert_backend :: "backend_row \<Rightarrow> db \<Rightarrow> db result" where
  "insert_backend b db =
     and_then (insert_row
         (has_key ma_id (be_machine_id b) (machines db)
          \<and> \<not> has_key backend_unique (backend_unique b) (backends db)) be_id b (backends db))
       (\<lambda>t. Inr (db\<lparr>backends := t\<rparr>))"

definition insert_offer :: "offer_row \<Rightarrow> db \<Rightarrow> db result" where
  "insert_offer f db =
     and_then (insert_row (offer_check f \<and> has_key be_id (of_backend_id f) (backends db))
         offer_key f (offers db))
       (\<lambda>t. Inr (db\<lparr>offers := t\<rparr>))"

definition insert_session :: "session_row \<Rightarrow> db \<Rightarrow> db result" where
  "insert_session s db =
     and_then (insert_row (session_check s \<and> has_key ac_id (se_account_id s) (accounts db))
         se_id s (sessions db))
       (\<lambda>t. Inr (db\<lparr>sessions := t\<rparr>))"

definition insert_request :: "request_row \<Rightarrow> db \<Rightarrow> db result" where
  "insert_request r db =
     and_then (insert_row
         (request_check r \<and> has_key se_id (re_session_id r) (sessions db)
          \<and> (case re_machine_id r of None \<Rightarrow> True | Some m \<Rightarrow> has_key ma_id m (machines db)))
         re_id r (requests db))
       (\<lambda>t. Inr (db\<lparr>requests := t\<rparr>))"

definition insert_reservation :: "reservation_row \<Rightarrow> db \<Rightarrow> db result" where
  "insert_reservation r db =
     and_then (insert_row
         (reservation_check r \<and> has_key re_id (ir_request_id r) (requests db)
          \<and> has_key se_id (ir_session_id r) (sessions db)) ir_request_id r (reservations db))
       (\<lambda>t. Inr (db\<lparr>reservations := t\<rparr>))"

definition insert_proposal :: "proposal_row \<Rightarrow> db \<Rightarrow> db result" where
  "insert_proposal p db =
     and_then (insert_row
         (proposal_check p \<and> has_key re_id (pp_request_id p) (requests db)
          \<and> has_key se_id (pp_session_id p) (sessions db) \<and> has_key ma_id (pp_machine_id p) (machines db)
          \<and> has_key offer_key (pp_offer_id p, pp_price_version p) (offers db))
         pp_request_id p (proposals db))
       (\<lambda>t. Inr (db\<lparr>proposals := t\<rparr>))"

definition insert_nonce :: "nonce_row \<Rightarrow> db \<Rightarrow> db result" where
  "insert_nonce n db =
     and_then (insert_row
         (0 < rn_nonce n \<and> rn_nonce n < 2 ^ 63 \<and> has_key re_id (rn_request_id n) (requests db)
          \<and> \<not> has_key rn_request_id (rn_request_id n) (receipt_nonces db)) nonce_key n (receipt_nonces db))
       (\<lambda>t. Inr (db\<lparr>receipt_nonces := t\<rparr>))"

text \<open>\<^verbatim>\<open>outbox.id\<close> is a \<^verbatim>\<open>bigserial\<close>: each event gets the next number.\<close>

definition next_outbox_id :: "outbox_row list \<Rightarrow> int" where
  "next_outbox_id tbl = foldr (\<lambda>ev m. max (ob_id ev) m) tbl 0 + 1"

definition insert_outbox :: "string \<Rightarrow> string \<Rightarrow> string \<Rightarrow> string \<Rightarrow> db \<Rightarrow> db" where
  "insert_outbox request event from_state to_state db =
     db\<lparr>outbox := outbox db @ [\<lparr>ob_id = next_outbox_id (outbox db), ob_aggregate_type = ''request'',
          ob_aggregate_id = request, ob_event_type = event,
          ob_payload = [(''from'', from_state), (''to'', to_state)], ob_published_at = None\<rparr>]\<rparr>"

lemmas insert_defs [db_defs] =
  insert_account_def insert_machine_def insert_backend_def insert_offer_def insert_session_def
  insert_request_def insert_reservation_def insert_proposal_def insert_nonce_def insert_outbox_def

lemma next_outbox_id_greater: "x \<in> set tbl \<Longrightarrow> ob_id x < next_outbox_id tbl"
  by (induction tbl) (auto simp: next_outbox_id_def)

end
