(* ===== verification/Ledger.thy ===== *)
theory Ledger
  imports Schema Rates
begin

text \<open>
  The request ledger of the broker: \<^verbatim>\<open>server/internal/store/store.go\<close> and the
  reservation operations of \<^verbatim>\<open>server/internal/store/inference.go\<close>. A reservation holds
  part of a session's confirmed balance while a request moves through its states; every change of
  state leaves an event in the outbox.
\<close>

section \<open>Arguments\<close>

record account =
  a_ID :: string
  a_WalletAddress :: string

record machine =
  m_ID :: string
  m_AccountID :: string
  m_Name :: string

record backend =
  b_ID :: string
  b_MachineID :: string
  b_Kind :: string
  b_Model :: string

text \<open>\<^verbatim>\<open>Version\<close> is an \<^verbatim>\<open>int64\<close>, the rates are \<^verbatim>\<open>uint64\<close>.\<close>

record offer =
  o_ID :: string
  o_BackendID :: string
  o_Version :: int
  o_InputPerMillion :: u64
  o_OutputPerMillion :: u64
  o_ComputePerSecond :: u64

record session =
  s_ID :: string
  s_AccountID :: string
  s_State :: string

record request =
  r_ID :: string
  r_SessionID :: string
  r_State :: string

record outboxEvent =
  e_ID :: int
  e_AggregateType :: string
  e_AggregateID :: string
  e_EventType :: string
  e_Payload :: "(string \<times> string) list"

record inferenceReservation =
  iv_RequestID :: string
  iv_SessionID :: string
  iv_AccountID :: string
  iv_MachineID :: string
  iv_OfferID :: string
  iv_PriceVersion :: u64
  iv_MaximumSpend :: u64
  iv_MaximumInputTokens :: u64
  iv_MaximumOutputTokens :: u64
  iv_MaximumComputeMilliseconds :: u64

record completedInference =
  cp_RequestID :: string
  cp_SessionID :: string
  cp_MachineID :: string
  cp_OfferID :: string
  cp_Model :: string
  cp_PriceVersion :: u64
  cp_InputTokens :: u64
  cp_OutputTokens :: u64
  cp_ComputeMilliseconds :: u64
  cp_InputHash :: hash
  cp_OutputHash :: hash
  cp_CompletedAt :: int

section \<open>Creation\<close>

text \<open>A single statement outside a transaction commits on its own.\<close>

definition exec_insert :: "faults \<Rightarrow> db \<Rightarrow> db result \<Rightarrow> unit result \<times> db" where
  "exec_insert flt db r = transact db (and_then (stmt flt 0 r) (\<lambda>db'. Inr ((), db')))"

definition CreateAccount :: "faults \<Rightarrow> db \<Rightarrow> account \<Rightarrow> unit result \<times> db" where
  "CreateAccount flt db a =
     exec_insert flt db (insert_account \<lparr>ac_id = a_ID a, ac_wallet_address = a_WalletAddress a\<rparr> db)"

definition CreateMachine :: "faults \<Rightarrow> db \<Rightarrow> machine \<Rightarrow> unit result \<times> db" where
  "CreateMachine flt db m =
     exec_insert flt db (insert_machine \<lparr>ma_id = m_ID m, ma_account_id = m_AccountID m, ma_name = m_Name m,
       ma_revoked_at = None, ma_signer_address = None\<rparr> db)"

definition CreateBackend :: "faults \<Rightarrow> db \<Rightarrow> backend \<Rightarrow> unit result \<times> db" where
  "CreateBackend flt db b =
     exec_insert flt db (insert_backend \<lparr>be_id = b_ID b, be_machine_id = b_MachineID b, be_kind = b_Kind b,
       be_model = b_Model b, be_enabled = True\<rparr> db)"

definition CreateOffer :: "faults \<Rightarrow> db \<Rightarrow> offer \<Rightarrow> unit result \<times> db" where
  "CreateOffer flt db f =
     exec_insert flt db (insert_offer \<lparr>of_id = o_ID f, of_backend_id = o_BackendID f, of_version = o_Version f,
       of_input_per_million = uint (o_InputPerMillion f), of_output_per_million = uint (o_OutputPerMillion f),
       of_compute_per_second = uint (o_ComputePerSecond f)\<rparr> db)"

definition CreateSession :: "faults \<Rightarrow> int \<Rightarrow> db \<Rightarrow> session \<Rightarrow> unit result \<times> db" where
  "CreateSession flt now db s =
     exec_insert flt db (insert_session \<lparr>se_id = s_ID s, se_account_id = s_AccountID s, se_state = s_State s,
       se_confirmed_balance_wei = 0, se_created_at = now\<rparr> db)"

definition CreateRequest :: "faults \<Rightarrow> int \<Rightarrow> db \<Rightarrow> request \<Rightarrow> unit result \<times> db" where
  "CreateRequest flt now db r =
     exec_insert flt db (insert_request \<lparr>re_id = r_ID r, re_session_id = r_SessionID r, re_state = r_State r,
       re_machine_id = None, re_offer_id = None, re_price_version = None, re_maximum_spend = None,
       re_maximum_input_tokens = None, re_maximum_output_tokens = None,
       re_maximum_compute_milliseconds = None, re_offer_hash = None, re_model_hash = None,
       re_capability_hash = None, re_updated_at = now\<rparr> db)"

section \<open>The request state machine\<close>

definition transitions :: "(string \<times> string list) list" where
  "transitions =
     [(''created'', [''reserved'', ''cancelled'', ''failed'']),
      (''reserved'', [''offered'', ''cancelled'', ''expired'', ''failed'']),
      (''offered'', [''accepted'', ''rejected'', ''expired'', ''cancelled'']),
      (''accepted'', [''streaming'', ''cancelled'', ''failed'']),
      (''streaming'', [''completed'', ''cancelled'', ''failed'']),
      (''completed'', [''signed'', ''failed'']),
      (''signed'', [''submitted'']),
      (''submitted'', [''settled''])]"

text \<open>\<^verbatim>\<open>transitions[current][next]\<close> is false for keys that are absent.\<close>

definition transition_allowed :: "string \<Rightarrow> string \<Rightarrow> bool" where
  "transition_allowed current nxt \<longleftrightarrow>
     (case map_of transitions current of None \<Rightarrow> False | Some ns \<Rightarrow> nxt \<in> set ns)"

definition set_request_state :: "int \<Rightarrow> (request_row \<Rightarrow> bool) \<Rightarrow> string \<Rightarrow> db \<Rightarrow> db result" where
  "set_request_state now P nxt db =
     and_then (update_checked request_check P (\<lambda>r. r\<lparr>re_state := nxt, re_updated_at := now\<rparr>) (requests db))
       (\<lambda>t. Inr (db\<lparr>requests := t\<rparr>))"

definition TransitionRequest :: "faults \<Rightarrow> int \<Rightarrow> db \<Rightarrow> string \<Rightarrow> string \<Rightarrow> unit result \<times> db" where
  "TransitionRequest flt now db requestID nxt = transact db (
     and_then (stmt flt 0 (Inr ())) (\<lambda>_.
     and_then (stmt flt 1 (Inr ())) (\<lambda>_.
     and_then (stmt flt 2 (select_one (\<lambda>r. re_id r = requestID) (requests db))) (\<lambda>row.
     reject_if (\<not> transition_allowed (re_state row) nxt) ErrInvalidTransition (
     and_then (stmt flt 3 (set_request_state now (\<lambda>r. re_id r = requestID) nxt db)) (\<lambda>db1.
     and_then (stmt flt 4 (Inr (insert_outbox requestID (''request.'' @ nxt) (re_state row) nxt db1))) (\<lambda>db2.
     stmt flt 5 (Inr ((), db2)))))))))"

definition oldest_unpublished :: "outbox_row list \<Rightarrow> outbox_row result" where
  "oldest_unpublished tbl =
     (case sort_key ob_id (filter (\<lambda>ev. ob_published_at ev = None) tbl) of
        [] \<Rightarrow> Inl ErrNoRows | ev # _ \<Rightarrow> Inr ev)"

definition ClaimOutbox :: "faults \<Rightarrow> int \<Rightarrow> db \<Rightarrow> outboxEvent result \<times> db" where
  "ClaimOutbox flt now db = transact db (
     and_then (stmt flt 0 (Inr ())) (\<lambda>_.
     case stmt flt 1 (oldest_unpublished (outbox db)) of
       Inl e \<Rightarrow> Inl (if e = ErrNoRows then ErrNoOutboxEvents else e)
     | Inr ev \<Rightarrow>
         and_then (stmt flt 2 (Inr (db\<lparr>outbox := update_rows (\<lambda>x. ob_id x = ob_id ev)
             (\<lambda>x. x\<lparr>ob_published_at := Some now\<rparr>) (outbox db)\<rparr>))) (\<lambda>db1.
         stmt flt 3 (Inr (\<lparr>e_ID = ob_id ev, e_AggregateType = ob_aggregate_type ev,
             e_AggregateID = ob_aggregate_id ev, e_EventType = ob_event_type ev,
             e_Payload = ob_payload ev\<rparr>, db1)))))"

section \<open>Reservations\<close>

text \<open>The sum of the amounts that a session has locked.\<close>

definition is_active :: "string \<Rightarrow> reservation_row \<Rightarrow> bool" where
  "is_active sessionID r \<longleftrightarrow> ir_session_id r = sessionID \<and> ir_released_at r = None"

definition locked_amount :: "string \<Rightarrow> reservation_row list \<Rightarrow> int" where
  "locked_amount sessionID tbl = sum_rows ir_amount (is_active sessionID) tbl"

definition OpenSession :: "faults \<Rightarrow> db \<Rightarrow> string \<Rightarrow> (string \<times> u64) result" where
  "OpenSession flt db accountID =
     and_then (stmt flt 0
       (case sort_key se_created_at (filter (\<lambda>s. se_account_id s = accountID \<and> se_state s = ''open'') (sessions db)) of
          [] \<Rightarrow> Inl ErrNoRows | s # _ \<Rightarrow> Inr (se_id s, int_string (se_confirmed_balance_wei s))))
     (\<lambda>(sid, balance).
       case big_set_string balance of
         None \<Rightarrow> Inl (ErrText ''invalid confirmed session balance'')
       | Some value \<Rightarrow>
           if value < 0 then Inl (ErrText ''invalid confirmed session balance'')
           else if \<not> is_uint64 value then Inr (sid, - 1)
           else Inr (sid, of_int value))"

definition set_capacity :: "int \<Rightarrow> string \<Rightarrow> string \<Rightarrow> (int \<Rightarrow> int) \<Rightarrow> db \<Rightarrow> db result" where
  "set_capacity now machineID offerID f db =
     and_then (update_checked routing_check (\<lambda>r. ro_machine_id r = machineID \<and> ro_offer_id r = offerID)
         (\<lambda>r. r\<lparr>ro_capacity := f (ro_capacity r), ro_updated_at := now\<rparr>) (routing db))
       (\<lambda>t. Inr (db\<lparr>routing := t\<rparr>))"

text \<open>The row of \<^verbatim>\<open>provider_routing_state\<close> that a reservation may use.\<close>

definition reservable_route :: "inferenceReservation \<Rightarrow> int \<Rightarrow> routing_row \<Rightarrow> bool" where
  "reservable_route v version r \<longleftrightarrow> ro_machine_id r = iv_MachineID v \<and> ro_offer_id r = iv_OfferID v
     \<and> ro_price_version r = version \<and> ro_confirmed_bond r \<and> ro_healthy r \<and> 0 < ro_capacity r"

definition routing_rates :: "routing_row \<Rightarrow> rates3" where
  "routing_rates r = (int_string (ro_input_per_million r), int_string (ro_output_per_million r),
     int_string (ro_compute_per_second r))"

definition scan_route :: "routing_row \<Rightarrow> (string \<times> string \<times> string \<times> rates3) result" where
  "scan_route r =
     and_then (scan_text (ro_offer_hash r)) (\<lambda>offerHash.
     and_then (scan_text (ro_model_hash r)) (\<lambda>modelHash.
     and_then (scan_text (ro_capability_hash r)) (\<lambda>capabilityHash.
       Inr (offerHash, modelHash, capabilityHash, routing_rates r))))"

text \<open>\<^verbatim>\<open>sql.ErrNoRows\<close> becomes \<^verbatim>\<open>ErrIneligibleRoute\<close>.\<close>

definition no_rows_as :: "go_error \<Rightarrow> 'a result \<Rightarrow> 'a result" where
  "no_rows_as e r = (case r of Inl e' \<Rightarrow> Inl (if e' = ErrNoRows then e else e') | Inr x \<Rightarrow> Inr x)"

definition balance_covers :: "string \<Rightarrow> string \<Rightarrow> (int \<times> int) option" where
  "balance_covers balance reserved =
     (case (big_set_string balance, big_set_string reserved) of
        (Some confirmed, Some locked) \<Rightarrow>
          if confirmed < 0 \<or> locked < 0 \<or> confirmed < locked then None else Some (confirmed, locked)
      | _ \<Rightarrow> None)"

definition created_request :: "int \<Rightarrow> inferenceReservation \<Rightarrow> u64 \<Rightarrow> string \<Rightarrow> string \<Rightarrow> string \<Rightarrow> request_row result" where
  "created_request now v worstCase offerHash modelHash capabilityHash =
     and_then (int8_arg (iv_PriceVersion v)) (\<lambda>version.
     and_then (numeric_arg (decimal worstCase)) (\<lambda>spend.
     and_then (int8_arg (iv_MaximumInputTokens v)) (\<lambda>inputs.
     and_then (int8_arg (iv_MaximumOutputTokens v)) (\<lambda>outputs.
     and_then (int8_arg (iv_MaximumComputeMilliseconds v)) (\<lambda>milliseconds.
       Inr \<lparr>re_id = iv_RequestID v, re_session_id = iv_SessionID v, re_state = ''created'',
         re_machine_id = Some (iv_MachineID v), re_offer_id = Some (iv_OfferID v),
         re_price_version = Some version, re_maximum_spend = Some spend,
         re_maximum_input_tokens = Some inputs, re_maximum_output_tokens = Some outputs,
         re_maximum_compute_milliseconds = Some milliseconds, re_offer_hash = Some offerHash,
         re_model_hash = Some modelHash, re_capability_hash = Some capabilityHash, re_updated_at = now\<rparr>)))))"

text \<open>The statements of \<^verbatim>\<open>ReserveInference\<close> that change the tables.\<close>

definition write_reservation ::
  "faults \<Rightarrow> int \<Rightarrow> inferenceReservation \<Rightarrow> u64 \<Rightarrow> string \<Rightarrow> string \<Rightarrow> string \<Rightarrow> db \<Rightarrow> (unit \<times> db) result" where
  "write_reservation flt now v worstCase offerHash modelHash capabilityHash db =
     and_then (stmt flt 5 (set_capacity now (iv_MachineID v) (iv_OfferID v) (\<lambda>c. c - 1) db)) (\<lambda>db1.
     reject_if (offerHash = [] \<or> modelHash = [] \<or> capabilityHash = []) ErrIneligibleRoute (
     and_then (stmt flt 6 (and_then (created_request now v worstCase offerHash modelHash capabilityHash)
       (\<lambda>row. insert_request row db1))) (\<lambda>db2.
     and_then (stmt flt 7 (and_then (numeric_arg (decimal worstCase)) (\<lambda>amount.
       insert_reservation \<lparr>ir_request_id = iv_RequestID v, ir_session_id = iv_SessionID v,
         ir_amount = amount, ir_released_at = None\<rparr> db2))) (\<lambda>db3.
     and_then (stmt flt 8 (set_request_state now (\<lambda>r. re_id r = iv_RequestID v) ''reserved'' db3)) (\<lambda>db4.
     and_then (stmt flt 9 (Inr (insert_outbox (iv_RequestID v) ''request.reserved'' ''created'' ''reserved'' db4))) (\<lambda>db5.
     and_then (stmt flt 10 (set_request_state now (\<lambda>r. re_id r = iv_RequestID v) ''offered'' db5)) (\<lambda>db6.
     and_then (stmt flt 11 (Inr (insert_outbox (iv_RequestID v) ''request.offered'' ''reserved'' ''offered'' db6))) (\<lambda>db7.
     stmt flt 12 (Inr ((), db7))))))))))"

definition ReserveInference :: "faults \<Rightarrow> int \<Rightarrow> db \<Rightarrow> inferenceReservation \<Rightarrow> unit result \<times> db" where
  "ReserveInference flt now db v =
     (if iv_MaximumInputTokens v = 0 \<or> iv_MaximumOutputTokens v = 0 \<or> iv_MaximumComputeMilliseconds v = 0
      then (Inl ErrIneligibleRoute, db)
      else transact db (
     and_then (stmt flt 0 (Inr ())) (\<lambda>_.
     and_then (stmt flt 1 (Inr ())) (\<lambda>_.
     and_then (stmt flt 2 (select_one (\<lambda>s. se_id s = iv_SessionID v) (sessions db))) (\<lambda>s.
     reject_if (se_account_id s \<noteq> iv_AccountID v \<or> se_state s \<noteq> ''open'') ErrInsufficientBalance (
     and_then (stmt flt 3 (Inr (int_string (locked_amount (iv_SessionID v) (reservations db))))) (\<lambda>reserved.
     case balance_covers (int_string (se_confirmed_balance_wei s)) reserved of
       None \<Rightarrow> Inl ErrInsufficientBalance
     | Some (confirmed, locked) \<Rightarrow>
     and_then (no_rows_as ErrIneligibleRoute (stmt flt 4 (
       and_then (int8_arg (iv_PriceVersion v)) (\<lambda>version.
       and_then (select_one (reservable_route v version) (routing db)) scan_route))))
       (\<lambda>(offerHash, modelHash, capabilityHash, rates).
     case WorstCaseCost rates (iv_MaximumInputTokens v) (iv_MaximumOutputTokens v) (iv_MaximumComputeMilliseconds v) of
       Inl _ \<Rightarrow> Inl ErrIneligibleRoute
     | Inr worstCase \<Rightarrow>
     reject_if (worstCase = 0 \<or> worstCase > iv_MaximumSpend v) ErrIneligibleRoute (
     reject_if (uint worstCase > confirmed - locked) ErrInsufficientBalance (
     write_reservation flt now v worstCase offerHash modelHash capabilityHash db))))))))))"

section \<open>Completion and abort\<close>

definition within_limits :: "int \<Rightarrow> int \<Rightarrow> int \<Rightarrow> request_row \<Rightarrow> bool" where
  "within_limits inputs outputs milliseconds r \<longleftrightarrow> opt_ge (re_maximum_input_tokens r) inputs
     \<and> opt_ge (re_maximum_output_tokens r) outputs \<and> opt_ge (re_maximum_compute_milliseconds r) milliseconds"

definition beyond_limits :: "int \<Rightarrow> int \<Rightarrow> int \<Rightarrow> request_row \<Rightarrow> bool" where
  "beyond_limits inputs outputs milliseconds r \<longleftrightarrow> opt_less (re_maximum_input_tokens r) inputs
     \<or> opt_less (re_maximum_output_tokens r) outputs \<or> opt_less (re_maximum_compute_milliseconds r) milliseconds"

definition proposal_of :: "completedInference \<Rightarrow> proposal_row result" where
  "proposal_of p =
     and_then (int8_arg (cp_PriceVersion p)) (\<lambda>version.
     and_then (int8_arg (cp_InputTokens p)) (\<lambda>inputs.
     and_then (int8_arg (cp_OutputTokens p)) (\<lambda>outputs.
     and_then (int8_arg (cp_ComputeMilliseconds p)) (\<lambda>milliseconds.
       Inr \<lparr>pp_request_id = cp_RequestID p, pp_session_id = cp_SessionID p, pp_machine_id = cp_MachineID p,
         pp_offer_id = cp_OfferID p, pp_model = cp_Model p, pp_price_version = version,
         pp_input_tokens = inputs, pp_output_tokens = outputs, pp_compute_milliseconds = milliseconds,
         pp_input_hash = hash_bytes (cp_InputHash p), pp_output_hash = hash_bytes (cp_OutputHash p),
         pp_completed_at = cp_CompletedAt p\<rparr>))))"

text \<open>
  The final \<^verbatim>\<open>return nil\<close> of a request that already has a proposal does not commit; the two
  lookups of that branch ignore their errors, and a failed one aborts the transaction.
\<close>

definition CompleteInference :: "faults \<Rightarrow> int \<Rightarrow> db \<Rightarrow> completedInference \<Rightarrow> unit result \<times> db" where
  "CompleteInference flt now db p = transact db (
     and_then (stmt flt 0 (Inr ())) (\<lambda>_.
     and_then (stmt flt 1 (
       and_then (int8_arg (cp_InputTokens p)) (\<lambda>inputs.
       and_then (int8_arg (cp_OutputTokens p)) (\<lambda>outputs.
       and_then (int8_arg (cp_ComputeMilliseconds p)) (\<lambda>milliseconds.
       let P = (\<lambda>r. re_id r = cp_RequestID p \<and> re_session_id r = cp_SessionID p \<and> re_state r = ''streaming''
                  \<and> within_limits inputs outputs milliseconds r)
       in and_then (set_request_state now P ''completed'' db) (\<lambda>db'.
          Inr (count_rows P (requests db), inputs, outputs, milliseconds, db')))))))
       (\<lambda>(rows, inputs, outputs, milliseconds, db1).
     if rows \<noteq> 1 then
       (if flt 2 = None \<and> exists_row (\<lambda>x. pp_request_id x = cp_RequestID p) (proposals db1) then Inr ((), db)
        else if flt 2 = None \<and> flt 3 = None \<and> exists_row (\<lambda>r. re_id r = cp_RequestID p \<and> re_state r = ''streaming''
             \<and> beyond_limits inputs outputs milliseconds r) (requests db1) then Inl ErrUsageLimitExceeded
        else Inl ErrInvalidTransition)
     else
     and_then (stmt flt 4 (and_then (proposal_of p) (\<lambda>row. insert_proposal row db1))) (\<lambda>db2.
     and_then (stmt flt 5 (set_capacity now (cp_MachineID p) (cp_OfferID p) (\<lambda>c. c + 1) db2)) (\<lambda>db3.
     and_then (stmt flt 6 (Inr (insert_outbox (cp_RequestID p) ''request.completed'' ''streaming'' ''completed'' db3))) (\<lambda>db4.
     stmt flt 7 (Inr ((), db4))))))))"

definition release_reservation :: "int \<Rightarrow> string \<Rightarrow> db \<Rightarrow> db" where
  "release_reservation now requestID db =
     db\<lparr>reservations := update_rows (\<lambda>r. ir_request_id r = requestID \<and> ir_released_at r = None)
        (\<lambda>r. r\<lparr>ir_released_at := Some now\<rparr>) (reservations db)\<rparr>"

text \<open>The statements of \<^verbatim>\<open>AbortInference\<close> that change the tables.\<close>

definition write_abort ::
  "faults \<Rightarrow> int \<Rightarrow> string \<Rightarrow> string \<Rightarrow> string \<Rightarrow> string \<Rightarrow> string \<Rightarrow> db \<Rightarrow> (unit \<times> db) result" where
  "write_abort flt now requestID terminalState machineID offerID state db =
     and_then (stmt flt 2 (set_request_state now (\<lambda>r. re_id r = requestID) terminalState db)) (\<lambda>db1.
     and_then (stmt flt 3 (Inr (count_rows (\<lambda>r. ir_request_id r = requestID \<and> ir_released_at r = None) (reservations db1),
         release_reservation now requestID db1))) (\<lambda>(rows, db2).
     and_then (if rows = 1 \<and> state \<in> {''reserved'', ''offered'', ''accepted'', ''streaming''}
               then stmt flt 4 (set_capacity now machineID offerID (\<lambda>c. c + 1) db2) else Inr db2) (\<lambda>db3.
     and_then (stmt flt 5 (Inr (insert_outbox requestID (''request.'' @ terminalState) state terminalState db3))) (\<lambda>db4.
     stmt flt 6 (Inr ((), db4))))))"

definition AbortInference :: "faults \<Rightarrow> int \<Rightarrow> db \<Rightarrow> string \<Rightarrow> string \<Rightarrow> unit result \<times> db" where
  "AbortInference flt now db requestID terminalState =
     (if terminalState \<noteq> ''failed'' \<and> terminalState \<noteq> ''cancelled'' then (Inl ErrInvalidTransition, db)
      else transact db (
     and_then (stmt flt 0 (Inr ())) (\<lambda>_.
     and_then (stmt flt 1 (
       and_then (select_one (\<lambda>r. re_id r = requestID) (requests db)) (\<lambda>row.
       and_then (scan_text (re_machine_id row)) (\<lambda>machineID.
       and_then (scan_text (re_offer_id row)) (\<lambda>offerID. Inr (machineID, offerID, re_state row))))))
       (\<lambda>(machineID, offerID, state).
     if state = terminalState then Inr ((), db)
     else reject_if (\<not> transition_allowed state terminalState) ErrInvalidTransition (
     write_abort flt now requestID terminalState machineID offerID state db)))))"

end
