(* ===== verification/LedgerInv.thy ===== *)
theory LedgerInv
  imports Ledger
begin

text \<open>
  Correctness of the request ledger: what each operation does when it succeeds, the integrity
  invariant of the tables, solvency of the sessions, and the request state machine over arbitrary
  sequences of operations with arbitrary faults.
\<close>

section \<open>Effects of the statements\<close>

lemma set_request_state_Inr [simp]:
  "set_request_state now P nxt db = Inr db' \<longleftrightarrow>
     (\<forall>r \<in> set (requests db). P r \<longrightarrow> request_check (r\<lparr>re_state := nxt, re_updated_at := now\<rparr>))
     \<and> db' = db\<lparr>requests := update_rows P (\<lambda>r. r\<lparr>re_state := nxt, re_updated_at := now\<rparr>) (requests db)\<rparr>"
  by (auto simp: set_request_state_def)

lemma set_capacity_Inr [simp]:
  "set_capacity now m k f db = Inr db' \<longleftrightarrow>
     (\<forall>r \<in> set (routing db). ro_machine_id r = m \<and> ro_offer_id r = k
        \<longrightarrow> routing_check (r\<lparr>ro_capacity := f (ro_capacity r), ro_updated_at := now\<rparr>))
     \<and> db' = db\<lparr>routing := update_rows (\<lambda>r. ro_machine_id r = m \<and> ro_offer_id r = k)
          (\<lambda>r. r\<lparr>ro_capacity := f (ro_capacity r), ro_updated_at := now\<rparr>) (routing db)\<rparr>"
  by (auto simp: set_capacity_def)

lemma balance_covers_Some [simp]:
  "balance_covers (int_string b) (int_string l) = Some (c, k) \<longleftrightarrow> c = b \<and> k = l \<and> 0 \<le> l \<and> l \<le> b"
  by (auto simp: balance_covers_def)

lemma balance_covers_split:
  "P (balance_covers (int_string b) (int_string l)) \<longleftrightarrow>
     (0 \<le> l \<and> l \<le> b \<longrightarrow> P (Some (b, l))) \<and> (\<not> (0 \<le> l \<and> l \<le> b) \<longrightarrow> P None)"
  by (auto simp: balance_covers_def)

lemma no_rows_as_Inr [simp]: "no_rows_as e r = Inr x \<longleftrightarrow> r = Inr x"
  by (auto simp: no_rows_as_def split: sum.splits)

lemma scan_route_Inr [simp]:
  "scan_route r = Inr (a, b, c, rates) \<longleftrightarrow> ro_offer_hash r = Some a \<and> ro_model_hash r = Some b
     \<and> ro_capability_hash r = Some c \<and> rates = routing_rates r"
  by (auto simp: scan_route_def)

lemma transition_allowed_states:
  "transition_allowed s t \<Longrightarrow> s \<in> set request_states \<and> t \<in> set request_states"
  by (auto simp: transition_allowed_def transitions_def request_states_def split: if_splits option.splits)

section \<open>Effects of the operations\<close>

definition reserved_request :: "int \<Rightarrow> inferenceReservation \<Rightarrow> u64 \<Rightarrow> routing_row \<Rightarrow> request_row" where
  "reserved_request now v w ro =
     \<lparr>re_id = iv_RequestID v, re_session_id = iv_SessionID v, re_state = ''offered'',
      re_machine_id = Some (iv_MachineID v), re_offer_id = Some (iv_OfferID v),
      re_price_version = Some (uint (iv_PriceVersion v)), re_maximum_spend = Some (uint w),
      re_maximum_input_tokens = Some (uint (iv_MaximumInputTokens v)),
      re_maximum_output_tokens = Some (uint (iv_MaximumOutputTokens v)),
      re_maximum_compute_milliseconds = Some (uint (iv_MaximumComputeMilliseconds v)),
      re_offer_hash = ro_offer_hash ro, re_model_hash = ro_model_hash ro,
      re_capability_hash = ro_capability_hash ro, re_updated_at = now\<rparr>"

definition reserved_hold :: "inferenceReservation \<Rightarrow> u64 \<Rightarrow> reservation_row" where
  "reserved_hold v w = \<lparr>ir_request_id = iv_RequestID v, ir_session_id = iv_SessionID v,
     ir_amount = uint w, ir_released_at = None\<rparr>"

text \<open>What a successful reservation found: the session can pay and the route is eligible.\<close>

definition reservation_backed :: "db \<Rightarrow> inferenceReservation \<Rightarrow> session_row \<Rightarrow> routing_row \<Rightarrow> u64 \<Rightarrow> bool" where
  "reservation_backed db v s ro w \<longleftrightarrow>
     s \<in> set (sessions db) \<and> se_id s = iv_SessionID v \<and> se_account_id s = iv_AccountID v \<and> se_state s = ''open''
     \<and> 0 \<le> locked_amount (iv_SessionID v) (reservations db)
     \<and> locked_amount (iv_SessionID v) (reservations db) + uint w \<le> se_confirmed_balance_wei s
     \<and> ro \<in> set (routing db) \<and> reservable_route v (uint (iv_PriceVersion v)) ro
     \<and> WorstCaseCost (routing_rates ro) (iv_MaximumInputTokens v) (iv_MaximumOutputTokens v)
         (iv_MaximumComputeMilliseconds v) = Inr w
     \<and> w \<noteq> 0 \<and> w \<le> iv_MaximumSpend v"

definition offered_events :: "string \<Rightarrow> outbox_row list \<Rightarrow> outbox_row list" where
  "offered_events requestID tbl = (let n = next_outbox_id tbl in
     [\<lparr>ob_id = n, ob_aggregate_type = ''request'', ob_aggregate_id = requestID,
       ob_event_type = ''request.reserved'', ob_payload = [(''from'', ''created''), (''to'', ''reserved'')],
       ob_published_at = None\<rparr>,
      \<lparr>ob_id = n + 1, ob_aggregate_type = ''request'', ob_aggregate_id = requestID,
       ob_event_type = ''request.offered'', ob_payload = [(''from'', ''reserved''), (''to'', ''offered'')],
       ob_published_at = None\<rparr>])"

lemma next_outbox_id_snoc: "ob_id x = next_outbox_id tbl \<Longrightarrow> next_outbox_id (tbl @ [x]) = next_outbox_id tbl + 1"
proof -
  have "0 < next_outbox_id tbl" by (induction tbl) (auto simp: next_outbox_id_def)
  moreover have "foldr (\<lambda>ev m. max (ob_id ev) m) (tbl @ [x]) 0
      = max (foldr (\<lambda>ev m. max (ob_id ev) m) tbl 0) (max (ob_id x) 0)"
    by (induction tbl) auto
  moreover assume "ob_id x = next_outbox_id tbl"
  ultimately show ?thesis by (simp add: next_outbox_id_def)
qed

text \<open>The database after a reservation.\<close>

definition reserved_db :: "int \<Rightarrow> inferenceReservation \<Rightarrow> u64 \<Rightarrow> routing_row \<Rightarrow> db \<Rightarrow> db" where
  "reserved_db now v w ro db =
     db\<lparr>requests := requests db @ [reserved_request now v w ro],
        reservations := reservations db @ [reserved_hold v w],
        routing := update_rows (\<lambda>r. ro_machine_id r = iv_MachineID v \<and> ro_offer_id r = iv_OfferID v)
          (\<lambda>r. r\<lparr>ro_capacity := ro_capacity r - 1, ro_updated_at := now\<rparr>) (routing db),
        outbox := outbox db @ offered_events (iv_RequestID v) (outbox db)\<rparr>"

lemma write_reservation_ok:
  assumes "write_reservation flt now v w a b c db = Inr ((), db')"
    and ro: "ro_offer_hash ro = Some a" "ro_model_hash ro = Some b" "ro_capability_hash ro = Some c"
  shows "iv_RequestID v \<notin> re_id ` set (requests db) \<and> iv_RequestID v \<notin> ir_request_id ` set (reservations db)
    \<and> iv_SessionID v \<in> se_id ` set (sessions db)
    \<and> request_check (reserved_request now v w ro) \<and> db' = reserved_db now v w ro db"
proof -
  have fresh: "iv_RequestID v \<notin> re_id ` set (requests db) \<and> iv_RequestID v \<notin> ir_request_id ` set (reservations db)
     \<and> iv_SessionID v \<in> se_id ` set (sessions db)"
    using assms(1) by (auto simp: write_reservation_def created_request_def insert_request_def insert_reservation_def)
  then have id: "update_rows (\<lambda>r. re_id r = iv_RequestID v) f (requests db) = requests db" for f
    by (intro update_rows_id) (metis imageI)
  have "request_check (reserved_request now v w ro) \<and> db' = reserved_db now v w ro db"
    using assms fresh
    by (auto simp: write_reservation_def created_request_def insert_request_def insert_reservation_def
        insert_outbox_def reserved_db_def reserved_request_def reserved_hold_def request_check_def id
        offered_events_def Let_def next_outbox_id_snoc)
  with fresh show ?thesis by blast
qed

lemma ReserveInference_ok:
  assumes "ReserveInference flt now db v = (Inr (), db')"
  shows "\<exists>s ro w. reservation_backed db v s ro w
    \<and> iv_RequestID v \<notin> re_id ` set (requests db) \<and> iv_RequestID v \<notin> ir_request_id ` set (reservations db)
    \<and> request_check (reserved_request now v w ro) \<and> db' = reserved_db now v w ro db"
proof -
  obtain s ro w a b c where "select_one (\<lambda>s. se_id s = iv_SessionID v) (sessions db) = Inr s"
      "se_account_id s = iv_AccountID v" "se_state s = ''open''"
      "0 \<le> locked_amount (iv_SessionID v) (reservations db)"
      "uint w \<le> se_confirmed_balance_wei s - locked_amount (iv_SessionID v) (reservations db)"
      "select_one (reservable_route v (uint (iv_PriceVersion v))) (routing db) = Inr ro"
      "WorstCaseCost (routing_rates ro) (iv_MaximumInputTokens v) (iv_MaximumOutputTokens v)
         (iv_MaximumComputeMilliseconds v) = Inr w" "w \<noteq> 0" "w \<le> iv_MaximumSpend v"
    and wr: "write_reservation flt now v w a b c db = Inr ((), db')"
    and ro: "ro_offer_hash ro = Some a" "ro_model_hash ro = Some b" "ro_capability_hash ro = Some c"
    using assms
    by (auto simp: ReserveInference_def transact_ok not_less not_le split: if_splits)
  then have "reservation_backed db v s ro w"
    by (auto simp: reservation_backed_def dest: select_one_Inr)
  with write_reservation_ok [OF wr ro] show ?thesis by blast
qed

text \<open>The database after a change of one request's state.\<close>

definition moved_db :: "int \<Rightarrow> string \<Rightarrow> string \<Rightarrow> string \<Rightarrow> db \<Rightarrow> db" where
  "moved_db now requestID from_state to_state db =
     insert_outbox requestID (''request.'' @ to_state) from_state to_state
       (db\<lparr>requests := update_rows (\<lambda>r. re_id r = requestID)
          (\<lambda>r. r\<lparr>re_state := to_state, re_updated_at := now\<rparr>) (requests db)\<rparr>)"

lemma TransitionRequest_ok:
  assumes "TransitionRequest flt now db requestID nxt = (Inr (), db')"
  shows "\<exists>row \<in> set (requests db). re_id row = requestID \<and> transition_allowed (re_state row) nxt
    \<and> db' = moved_db now requestID (re_state row) nxt db"
  using assms by (auto simp: TransitionRequest_def transact_ok moved_db_def dest!: select_one_Inr)

lemma count_rows_one: "count_rows P tbl = 1 \<Longrightarrow> \<exists>r \<in> set tbl. P r"
  by (metis count_rows_def filter_empty_conv length_0_conv zero_neq_one)

text \<open>A keyed table has at most one row with a key, so a guarded update by key is an update by key.\<close>

lemma update_rows_by_key:
  assumes "distinct (map key tbl)" "x \<in> set tbl" "key x = k" "Q x"
  shows "update_rows (\<lambda>r. key r = k \<and> Q r) f tbl = update_rows (\<lambda>r. key r = k) f tbl"
proof -
  have "r = x" if "r \<in> set tbl" "key r = k" for r
    using assms that by (metis distinct_map inj_onD)
  with assms(4) show ?thesis by (auto simp: update_rows_def)
qed

definition returned_capacity :: "int \<Rightarrow> string \<Rightarrow> string \<Rightarrow> db \<Rightarrow> db" where
  "returned_capacity now machineID offerID db =
     db\<lparr>routing := update_rows (\<lambda>r. ro_machine_id r = machineID \<and> ro_offer_id r = offerID)
        (\<lambda>r. r\<lparr>ro_capacity := ro_capacity r + 1, ro_updated_at := now\<rparr>) (routing db)\<rparr>"

lemma CompleteInference_ok:
  assumes "CompleteInference flt now db p = (Inr (), db')" "distinct (map re_id (requests db))"
  shows "(db' = db \<and> cp_RequestID p \<in> pp_request_id ` set (proposals db)) \<or>
    (\<exists>q \<in> set (requests db). \<exists>row. re_id q = cp_RequestID p \<and> re_session_id q = cp_SessionID p \<and> re_state q = ''streaming''
      \<and> within_limits (uint (cp_InputTokens p)) (uint (cp_OutputTokens p)) (uint (cp_ComputeMilliseconds p)) q
      \<and> proposal_of p = Inr row \<and> cp_RequestID p \<notin> pp_request_id ` set (proposals db)
      \<and> db' = moved_db now (cp_RequestID p) ''streaming'' ''completed''
          (returned_capacity now (cp_MachineID p) (cp_OfferID p) (db\<lparr>proposals := proposals db @ [row]\<rparr>)))"
proof -
  let ?P = "\<lambda>r. re_id r = cp_RequestID p \<and> re_session_id r = cp_SessionID p \<and> re_state r = ''streaming''
     \<and> within_limits (uint (cp_InputTokens p)) (uint (cp_OutputTokens p)) (uint (cp_ComputeMilliseconds p)) r"
  let ?f = "\<lambda>r. r\<lparr>re_state := ''completed'', re_updated_at := now\<rparr>"
  show ?thesis
  proof (cases "count_rows ?P (requests db) = 1")
    case False
    then have "db' = db \<and> (\<exists>x \<in> set (proposals db). pp_request_id x = cp_RequestID p)"
      using assms by (auto simp: CompleteInference_def transact_ok Let_def split: if_splits)
    then show ?thesis by force
  next
    case True
    then obtain q where q: "q \<in> set (requests db)" "?P q" using count_rows_one by blast
    then have upd: "update_rows ?P ?f (requests db) = update_rows (\<lambda>r. re_id r = cp_RequestID p) ?f (requests db)"
      using assms(2) by (intro update_rows_by_key) auto
    obtain row where "proposal_of p = Inr row" "pp_request_id row \<notin> pp_request_id ` set (proposals db)"
        "db' = insert_outbox (cp_RequestID p) ''request.completed'' ''streaming'' ''completed''
           (returned_capacity now (cp_MachineID p) (cp_OfferID p)
             (db\<lparr>requests := update_rows ?P ?f (requests db), proposals := proposals db @ [row]\<rparr>))"
      using assms(1) True
      by (auto simp: CompleteInference_def transact_ok Let_def insert_proposal_def returned_capacity_def split: if_splits)
    moreover from this have "pp_request_id row = cp_RequestID p"
      by (auto simp: proposal_of_def)
    moreover from calculation have "db' = moved_db now (cp_RequestID p) ''streaming'' ''completed''
        (returned_capacity now (cp_MachineID p) (cp_OfferID p) (db\<lparr>proposals := proposals db @ [row]\<rparr>))"
      by (simp add: upd moved_db_def returned_capacity_def insert_outbox_def)
    ultimately show ?thesis using q by (intro disjI2 bexI [of _ q] exI [of _ row] conjI) simp_all
  qed
qed

lemma write_abort_ok:
  assumes "write_abort flt now requestID terminal m k state db = Inr ((), db')"
  shows "\<exists>db1 \<in> {release_reservation now requestID db, returned_capacity now m k (release_reservation now requestID db)}.
    db' = moved_db now requestID state terminal db1"
proof -
  let ?upd = "\<lambda>db. db\<lparr>requests := update_rows (\<lambda>r. re_id r = requestID)
      (\<lambda>r. r\<lparr>re_state := terminal, re_updated_at := now\<rparr>) (requests db)\<rparr>"
  have "release_reservation now requestID (?upd db) = ?upd (release_reservation now requestID db)"
    "returned_capacity now m k (?upd db) = ?upd (returned_capacity now m k db)" for db
    by (simp_all add: release_reservation_def returned_capacity_def)
  moreover have "\<exists>db1 \<in> {release_reservation now requestID (?upd db), returned_capacity now m k (release_reservation now requestID (?upd db))}.
      db' = insert_outbox requestID (''request.'' @ terminal) state terminal db1"
    using assms by (auto simp: write_abort_def returned_capacity_def split: if_splits)
  ultimately show ?thesis by (auto simp: moved_db_def)
qed

lemma AbortInference_ok:
  assumes "AbortInference flt now db requestID terminal = (Inr (), db')"
  shows "\<exists>q \<in> set (requests db). re_id q = requestID \<and> terminal \<in> {''failed'', ''cancelled''} \<and>
    (db' = db \<and> re_state q = terminal
     \<or> transition_allowed (re_state q) terminal
       \<and> (\<exists>m k. re_machine_id q = Some m \<and> re_offer_id q = Some k
          \<and> (\<exists>db1 \<in> {release_reservation now requestID db, returned_capacity now m k (release_reservation now requestID db)}.
              db' = moved_db now requestID (re_state q) terminal db1)))"
proof -
  have terminal: "terminal \<in> {''failed'', ''cancelled''}"
    using assms by (auto simp: AbortInference_def split: if_splits)
  obtain q m k where q: "q \<in> set (requests db) \<and> re_id q = requestID"
      "re_machine_id q = Some m" "re_offer_id q = Some k"
    and cases: "db' = db \<and> re_state q = terminal \<or> transition_allowed (re_state q) terminal
       \<and> write_abort flt now requestID terminal m k (re_state q) db = Inr ((), db')"
    using assms terminal
    by (auto simp: AbortInference_def transact_ok dest!: select_one_Inr split: if_splits)
  then show ?thesis using terminal write_abort_ok by blast
qed

section \<open>Integrity and solvency\<close>

definition hold_backed :: "db \<Rightarrow> reservation_row \<Rightarrow> bool" where
  "hold_backed db r \<longleftrightarrow> ir_session_id r \<in> se_id ` set (sessions db)
     \<and> (\<exists>q \<in> set (requests db). re_id q = ir_request_id r \<and> re_session_id q = ir_session_id r
          \<and> (\<exists>m. re_maximum_spend q = Some m \<and> ir_amount r \<le> m))"

definition ledger_ok :: "db \<Rightarrow> bool" where
  "ledger_ok db \<longleftrightarrow> distinct (map se_id (sessions db)) \<and> distinct (map re_id (requests db))
     \<and> distinct (map ir_request_id (reservations db))
     \<and> (\<forall>s \<in> set (sessions db). session_check s) \<and> (\<forall>q \<in> set (requests db). request_check q)
     \<and> (\<forall>r \<in> set (reservations db). 0 \<le> ir_amount r \<and> hold_backed db r)"

text \<open>
  A session that is not closed never has more locked than the chain has confirmed.
\<close>

definition solvent :: "db \<Rightarrow> bool" where
  "solvent db \<longleftrightarrow> (\<forall>s \<in> set (sessions db). se_state s \<noteq> ''closed''
     \<longrightarrow> locked_amount (se_id s) (reservations db) \<le> se_confirmed_balance_wei s)"

lemma ledger_ok_frame:
  assumes "sessions db' = sessions db" "requests db' = requests db" "reservations db' = reservations db"
  shows "ledger_ok db' = ledger_ok db \<and> solvent db' = solvent db"
  using assms by (simp add: ledger_ok_def solvent_def hold_backed_def)

lemma insert_outbox_tables [simp]:
  "sessions (insert_outbox r e a b db) = sessions db" "requests (insert_outbox r e a b db) = requests db"
  "reservations (insert_outbox r e a b db) = reservations db" "routing (insert_outbox r e a b db) = routing db"
  by (simp_all add: insert_outbox_def)

lemma locked_amount_nonneg: "ledger_ok db \<Longrightarrow> 0 \<le> locked_amount x (reservations db)"
  by (auto simp: locked_amount_def ledger_ok_def intro: sum_rows_nonneg)

text \<open>Changing the state of requests keeps the tables intact.\<close>

lemma ledger_ok_move:
  assumes "ledger_ok db" "t \<in> set request_states"
  shows "ledger_ok (db\<lparr>requests := update_rows P (\<lambda>r. r\<lparr>re_state := t, re_updated_at := now\<rparr>) (requests db)\<rparr>)"
proof -
  let ?f = "\<lambda>r. r\<lparr>re_state := t, re_updated_at := now\<rparr>"
  have "map re_id (update_rows P ?f (requests db)) = map re_id (requests db)"
    by (rule map_key_update_rows) simp
  moreover have "hold_backed (db\<lparr>requests := update_rows P ?f (requests db)\<rparr>) r" if "hold_backed db r" for r
  proof -
    from that obtain q m where q: "q \<in> set (requests db)" "re_id q = ir_request_id r"
        "re_session_id q = ir_session_id r" "re_maximum_spend q = Some m" "ir_amount r \<le> m"
      "ir_session_id r \<in> se_id ` set (sessions db)"
      by (auto simp: hold_backed_def)
    then have "(if P q then ?f q else q) \<in> set (update_rows P ?f (requests db))"
      by (auto simp: set_update_rows)
    with q show ?thesis by (auto simp: hold_backed_def split: if_splits intro!: bexI [of _ "if P q then ?f q else q"])
  qed
  ultimately show ?thesis
    using assms by (auto simp: ledger_ok_def set_update_rows request_check_def)
qed

lemma moved_db_ok:
  assumes "ledger_ok db" "t \<in> set request_states"
  shows "ledger_ok (moved_db now r s t db)"
proof -
  let ?m = "db\<lparr>requests := update_rows (\<lambda>x. re_id x = r) (\<lambda>x. x\<lparr>re_state := t, re_updated_at := now\<rparr>) (requests db)\<rparr>"
  have "ledger_ok (moved_db now r s t db) = ledger_ok ?m"
    by (rule ledger_ok_frame [THEN conjunct1]) (simp_all add: moved_db_def)
  then show ?thesis using ledger_ok_move [OF assms] by blast
qed

lemma solvent_moved_db [simp]: "solvent (moved_db now r s t db) = solvent db"
  by (simp add: solvent_def moved_db_def)

lemma released_ok:
  assumes "ledger_ok db"
  shows "ledger_ok (release_reservation now r db) \<and> (solvent db \<longrightarrow> solvent (release_reservation now r db))"
proof -
  let ?P = "\<lambda>x. ir_request_id x = r \<and> ir_released_at x = None"
  let ?f = "\<lambda>x :: reservation_row. x\<lparr>ir_released_at := Some now\<rparr>"
  have "map ir_request_id (update_rows ?P ?f (reservations db)) = map ir_request_id (reservations db)"
    by (rule map_key_update_rows) simp
  moreover have "locked_amount x (update_rows ?P ?f (reservations db)) \<le> locked_amount x (reservations db)" for x
    unfolding locked_amount_def
    using assms by (intro sum_rows_update_mono) (auto simp: is_active_def ledger_ok_def)
  ultimately show ?thesis
    using assms
    by (auto simp: ledger_ok_def solvent_def release_reservation_def set_update_rows hold_backed_def)
      (meson order_trans)
qed

lemma returned_capacity_ok [simp]:
  "ledger_ok (returned_capacity now m k db) = ledger_ok db" "solvent (returned_capacity now m k db) = solvent db"
  using ledger_ok_frame [of "returned_capacity now m k db" db] by (simp_all add: returned_capacity_def)

lemma hold_backed_mono:
  "hold_backed db r \<Longrightarrow> set (sessions db) \<subseteq> set (sessions db') \<Longrightarrow> set (requests db) \<subseteq> set (requests db')
    \<Longrightarrow> hold_backed db' r"
  by (fastforce simp: hold_backed_def)

text \<open>A reservation keeps the tables intact and locks no more than the confirmed balance.\<close>

lemma reserved_db_ok:
  assumes "ledger_ok db" "reservation_backed db v s ro w" "iv_RequestID v \<notin> re_id ` set (requests db)"
    "iv_RequestID v \<notin> ir_request_id ` set (reservations db)" "request_check (reserved_request now v w ro)"
  shows "ledger_ok (reserved_db now v w ro db)"
proof -
  have "hold_backed (reserved_db now v w ro db) r" if "r \<in> set (reservations db)" for r
    using that assms(1) hold_backed_mono [of db r "reserved_db now v w ro db"]
    by (auto simp: ledger_ok_def reserved_db_def)
  moreover have "hold_backed (reserved_db now v w ro db) (reserved_hold v w)"
    using assms(2) by (force simp: hold_backed_def reserved_db_def reserved_hold_def reserved_request_def reservation_backed_def)
  ultimately show ?thesis
    using assms by (auto simp: ledger_ok_def reserved_db_def reserved_request_def reserved_hold_def)
qed

lemma reserved_db_locked:
  "locked_amount x (reservations (reserved_db now v w ro db))
     = locked_amount x (reservations db) + (if x = iv_SessionID v then uint w else 0)"
  by (auto simp: locked_amount_def reserved_db_def reserved_hold_def is_active_def)

lemma session_unique:
  "ledger_ok db \<Longrightarrow> s \<in> set (sessions db) \<Longrightarrow> s' \<in> set (sessions db) \<Longrightarrow> se_id s = se_id s' \<Longrightarrow> s = s'"
  by (auto simp: ledger_ok_def distinct_map dest: inj_onD)

lemma request_unique:
  "ledger_ok db \<Longrightarrow> q \<in> set (requests db) \<Longrightarrow> q' \<in> set (requests db) \<Longrightarrow> re_id q = re_id q' \<Longrightarrow> q = q'"
  by (auto simp: ledger_ok_def distinct_map dest: inj_onD)

lemma reserved_db_solvent:
  assumes "ledger_ok db" "solvent db" "reservation_backed db v s ro w"
  shows "solvent (reserved_db now v w ro db)"
  unfolding solvent_def
proof (intro ballI impI)
  fix s' assume s': "s' \<in> set (sessions (reserved_db now v w ro db))" "se_state s' \<noteq> ''closed''"
  then have mem: "s' \<in> set (sessions db)" by (simp add: reserved_db_def)
  show "locked_amount (se_id s') (reservations (reserved_db now v w ro db)) \<le> se_confirmed_balance_wei s'"
  proof (cases "se_id s' = iv_SessionID v")
    case True
    then have "s' = s" using assms(1,3) mem session_unique by (auto simp: reservation_backed_def)
    then show ?thesis using assms(3) True by (simp add: reserved_db_locked reservation_backed_def)
  next
    case False
    then show ?thesis using assms(2) mem s'(2) by (simp add: reserved_db_locked solvent_def)
  qed
qed

lemma created_session_ok:
  assumes "ledger_ok db" "insert_session s db = Inr db'"
  shows "ledger_ok db' \<and> (solvent db \<longrightarrow> solvent db')"
proof -
  have s: "session_check s" "se_id s \<notin> se_id ` set (sessions db)" "db' = db\<lparr>sessions := sessions db @ [s]\<rparr>"
    using assms(2) by (auto simp: insert_session_def)
  have "\<not> is_active (se_id s) r" if "r \<in> set (reservations db)" for r
  proof -
    have "ir_session_id r \<in> se_id ` set (sessions db)"
      using that assms(1) by (auto simp: ledger_ok_def hold_backed_def)
    with s(2) show ?thesis by (auto simp: is_active_def)
  qed
  then have "locked_amount (se_id s) (reservations db) = 0"
    by (simp add: locked_amount_def sum_rows_def)
  moreover have "hold_backed db' r" if "r \<in> set (reservations db)" for r
    using that assms(1) s(3) by (auto simp: ledger_ok_def intro: hold_backed_mono)
  ultimately show ?thesis
    using assms(1) s by (auto simp: ledger_ok_def solvent_def session_check_def)
qed

lemma created_request_ok:
  assumes "ledger_ok db" "insert_request q db = Inr db'"
  shows "ledger_ok db' \<and> (solvent db \<longrightarrow> solvent db')"
proof -
  have q: "request_check q" "re_id q \<notin> re_id ` set (requests db)" "db' = db\<lparr>requests := requests db @ [q]\<rparr>"
    using assms(2) by (auto simp: insert_request_def)
  moreover have "hold_backed db' r" if "r \<in> set (reservations db)" for r
    using that assms(1) q(3) by (auto simp: ledger_ok_def intro: hold_backed_mono)
  ultimately show ?thesis
    using assms(1) by (auto simp: ledger_ok_def solvent_def)
qed

section \<open>Sequences of operations\<close>

text \<open>One operation of the ledger, by any caller, at any time, with any faults and any outcome.\<close>

inductive ledger_step :: "db \<Rightarrow> db \<Rightarrow> bool" where
  create_account: "CreateAccount flt db a = (res, db') \<Longrightarrow> ledger_step db db'"
| create_machine: "CreateMachine flt db m = (res, db') \<Longrightarrow> ledger_step db db'"
| create_backend: "CreateBackend flt db b = (res, db') \<Longrightarrow> ledger_step db db'"
| create_offer: "CreateOffer flt db f = (res, db') \<Longrightarrow> ledger_step db db'"
| create_session: "CreateSession flt now db s = (res, db') \<Longrightarrow> ledger_step db db'"
| create_request: "CreateRequest flt now db q = (res, db') \<Longrightarrow> ledger_step db db'"
| transition_request: "TransitionRequest flt now db requestID nxt = (res, db') \<Longrightarrow> ledger_step db db'"
| claim_outbox: "ClaimOutbox flt now db = (evres, db') \<Longrightarrow> ledger_step db db'"
| reserve_inference: "ReserveInference flt now db v = (res, db') \<Longrightarrow> ledger_step db db'"
| complete_inference: "CompleteInference flt now db p = (res, db') \<Longrightarrow> ledger_step db db'"
| abort_inference: "AbortInference flt now db requestID terminal = (res, db') \<Longrightarrow> ledger_step db db'"

abbreviation ledger_steps :: "db \<Rightarrow> db \<Rightarrow> bool" where
  "ledger_steps \<equiv> ledger_step\<^sup>*\<^sup>*"

text \<open>An operation that returns an error has changed nothing.\<close>

lemma ledger_errors:
  "exec_insert flt db r = (Inl e, db') \<Longrightarrow> db' = db"
  "TransitionRequest flt now db requestID nxt = (Inl e, db') \<Longrightarrow> db' = db"
  "ClaimOutbox flt now db = (Inl e, db') \<Longrightarrow> db' = db"
  "ReserveInference flt now db v = (Inl e, db') \<Longrightarrow> db' = db"
  "CompleteInference flt now db p = (Inl e, db') \<Longrightarrow> db' = db"
  "AbortInference flt now db requestID terminal = (Inl e, db') \<Longrightarrow> db' = db"
  by (auto simp: exec_insert_def TransitionRequest_def ClaimOutbox_def ReserveInference_def
      CompleteInference_def AbortInference_def transact_error split: if_splits)

lemma exec_insert_ok: "exec_insert flt db r = (Inr (), db') \<Longrightarrow> r = Inr db'"
  by (auto simp: exec_insert_def transact_ok)

lemmas create_defs = CreateAccount_def CreateMachine_def CreateBackend_def CreateOffer_def
  CreateSession_def CreateRequest_def

text \<open>The tables that the invariants of the ledger read, before and after an operation.\<close>

definition same_ledger :: "db \<Rightarrow> db \<Rightarrow> bool" where
  "same_ledger db db' \<longleftrightarrow> sessions db' = sessions db \<and> requests db' = requests db
     \<and> reservations db' = reservations db"

lemma ClaimOutbox_ok:
  assumes "ClaimOutbox flt now db = (Inr ev, db')"
  shows "\<exists>x. oldest_unpublished (outbox db) = Inr x
    \<and> ev = \<lparr>e_ID = ob_id x, e_AggregateType = ob_aggregate_type x, e_AggregateID = ob_aggregate_id x,
        e_EventType = ob_event_type x, e_Payload = ob_payload x\<rparr>
    \<and> db' = db\<lparr>outbox := update_rows (\<lambda>y. ob_id y = ob_id x) (\<lambda>y. y\<lparr>ob_published_at := Some now\<rparr>) (outbox db)\<rparr>"
  using assms by (auto simp: ClaimOutbox_def transact_ok)

text \<open>The cases of a step: nothing, another table, a creation, a reservation, or a move.\<close>

inductive ledger_effect :: "db \<Rightarrow> db \<Rightarrow> bool" where
  none: "ledger_effect db db"
| other: "same_ledger db db' \<Longrightarrow> outbox db' = outbox db \<Longrightarrow> ledger_effect db db'"
| claimed: "ledger_effect db (db\<lparr>outbox := update_rows P (\<lambda>y. y\<lparr>ob_published_at := Some now\<rparr>) (outbox db)\<rparr>)"
| session: "insert_session s db = Inr db' \<Longrightarrow> ledger_effect db db'"
| request: "insert_request q db = Inr db' \<Longrightarrow> ledger_effect db db'"
| reserved: "reservation_backed db v s ro w \<Longrightarrow> iv_RequestID v \<notin> re_id ` set (requests db)
    \<Longrightarrow> iv_RequestID v \<notin> ir_request_id ` set (reservations db)
    \<Longrightarrow> request_check (reserved_request now v w ro) \<Longrightarrow> ledger_effect db (reserved_db now v w ro db)"
| moved: "q \<in> set (requests db) \<Longrightarrow> transition_allowed (re_state q) t
    \<Longrightarrow> same_ledger db db1 \<or> t \<in> {''failed'', ''cancelled''} \<and> same_ledger (release_reservation now (re_id q) db) db1
    \<Longrightarrow> outbox db1 = outbox db
    \<Longrightarrow> ledger_effect db (moved_db now (re_id q) (re_state q) t db1)"

lemma same_ledger_refl [simp]: "same_ledger db db"
  by (simp add: same_ledger_def)

lemma insert_effect:
  assumes "exec_insert flt db r = (res, db')" "r = Inr db' \<Longrightarrow> ledger_effect db db'"
  shows "ledger_effect db db'"
  using assms by (cases res) (auto dest: ledger_errors exec_insert_ok intro: ledger_effect.none)

lemma other_effects:
  "insert_account a db = Inr db' \<Longrightarrow> ledger_effect db db'"
  "insert_machine m db = Inr db' \<Longrightarrow> ledger_effect db db'"
  "insert_backend b db = Inr db' \<Longrightarrow> ledger_effect db db'"
  "insert_offer f db = Inr db' \<Longrightarrow> ledger_effect db db'"
  by (auto simp: same_ledger_def insert_account_def insert_machine_def insert_backend_def insert_offer_def
      intro!: ledger_effect.other)

lemma create_effects:
  "CreateAccount flt db a = (res, db') \<Longrightarrow> ledger_effect db db'"
  "CreateMachine flt db m = (res, db') \<Longrightarrow> ledger_effect db db'"
  "CreateBackend flt db b = (res, db') \<Longrightarrow> ledger_effect db db'"
  "CreateOffer flt db f = (res, db') \<Longrightarrow> ledger_effect db db'"
  "CreateSession flt now db s = (res, db') \<Longrightarrow> ledger_effect db db'"
  "CreateRequest flt now db q = (res, db') \<Longrightarrow> ledger_effect db db'"
  unfolding create_defs
  by (auto elim!: insert_effect intro: other_effects ledger_effect.session ledger_effect.request)

lemma transition_effect: "TransitionRequest flt now db requestID nxt = (res, db') \<Longrightarrow> ledger_effect db db'"
proof (cases res)
  case (Inr u)
  assume "TransitionRequest flt now db requestID nxt = (res, db')"
  with Inr TransitionRequest_ok [of flt now db requestID nxt db'] ledger_effect.moved [of _ db nxt db now]
  show ?thesis by auto
qed (auto dest: ledger_errors intro: ledger_effect.none)

lemma claim_effect: "ClaimOutbox flt now db = (res, db') \<Longrightarrow> ledger_effect db db'"
proof (cases res)
  case (Inr ev)
  assume "ClaimOutbox flt now db = (res, db')"
  with Inr ClaimOutbox_ok [of flt now db ev db'] show ?thesis by (auto intro: ledger_effect.claimed)
qed (auto dest: ledger_errors intro: ledger_effect.none)

lemma reserve_effect: "ReserveInference flt now db v = (res, db') \<Longrightarrow> ledger_effect db db'"
proof (cases res)
  case (Inr u)
  assume "ReserveInference flt now db v = (res, db')"
  with Inr ReserveInference_ok [of flt now db v db'] show ?thesis by (auto intro: ledger_effect.reserved)
qed (auto dest: ledger_errors intro: ledger_effect.none)

lemma streaming_completed: "transition_allowed ''streaming'' ''completed''"
  by (simp add: transition_allowed_def transitions_def)

lemma complete_effect:
  assumes "CompleteInference flt now db p = (res, db')" "ledger_ok db"
  shows "ledger_effect db db'"
proof (cases res)
  case (Inl e)
  then show ?thesis using assms by (auto dest: ledger_errors intro: ledger_effect.none)
next
  case (Inr u)
  have "distinct (map re_id (requests db))" using assms(2) by (simp add: ledger_ok_def)
  then consider "db' = db"
    | q row where "q \<in> set (requests db)" "re_id q = cp_RequestID p" "re_state q = ''streaming''"
        "db' = moved_db now (cp_RequestID p) ''streaming'' ''completed''
          (returned_capacity now (cp_MachineID p) (cp_OfferID p) (db\<lparr>proposals := proposals db @ [row]\<rparr>))"
    using CompleteInference_ok [of flt now db p db'] assms(1) Inr by auto
  then show ?thesis
  proof cases
    case 1
    then show ?thesis by (simp add: ledger_effect.none)
  next
    case 2
    let ?db1 = "returned_capacity now (cp_MachineID p) (cp_OfferID p) (db\<lparr>proposals := proposals db @ [row]\<rparr>)"
    have "same_ledger db ?db1" "outbox ?db1 = outbox db"
      by (simp_all add: same_ledger_def returned_capacity_def)
    with 2 ledger_effect.moved [of q db "''completed''" ?db1 now] streaming_completed show ?thesis by simp
  qed
qed

lemma abort_effect:
  assumes "AbortInference flt now db requestID terminal = (res, db')"
  shows "ledger_effect db db'"
proof (cases res)
  case (Inl e)
  then show ?thesis using assms by (auto dest: ledger_errors intro: ledger_effect.none)
next
  case (Inr u)
  then obtain q where q: "q \<in> set (requests db)" "re_id q = requestID" "terminal \<in> {''failed'', ''cancelled''}"
    and cases: "db' = db \<or> transition_allowed (re_state q) terminal \<and> (\<exists>m k db1. db' = moved_db now requestID (re_state q) terminal db1
          \<and> (db1 = release_reservation now requestID db \<or> db1 = returned_capacity now m k (release_reservation now requestID db)))"
    using AbortInference_ok [of flt now db requestID terminal db'] assms by auto
  from cases show ?thesis
  proof (elim disjE conjE exE)
    fix m k db1
    assume a: "transition_allowed (re_state q) terminal" "db' = moved_db now requestID (re_state q) terminal db1"
      "db1 = returned_capacity now m k (release_reservation now requestID db)"
    then have "same_ledger (release_reservation now requestID db) db1" "outbox db1 = outbox db"
      by (simp_all add: same_ledger_def returned_capacity_def release_reservation_def)
    then show ?thesis using a q ledger_effect.moved [of q db terminal db1 now] by simp
  next
    fix m k db1
    assume a: "transition_allowed (re_state q) terminal" "db' = moved_db now requestID (re_state q) terminal db1"
      "db1 = release_reservation now requestID db"
    then have "same_ledger (release_reservation now requestID db) db1" "outbox db1 = outbox db"
      by (simp_all add: same_ledger_def release_reservation_def)
    then show ?thesis using a q ledger_effect.moved [of q db terminal db1 now] by simp
  qed (simp add: ledger_effect.none)
qed

lemma ledger_step_effect: "ledger_step db db' \<Longrightarrow> ledger_ok db \<Longrightarrow> ledger_effect db db'"
proof (induction rule: ledger_step.induct)
  case (complete_inference flt now db p res db')
  then show ?case by (blast intro: complete_effect)
qed (blast intro: transition_effect claim_effect reserve_effect abort_effect create_effects)+

lemma ledger_effect_ok:
  assumes "ledger_effect db db'" "ledger_ok db"
  shows "ledger_ok db' \<and> (solvent db \<longrightarrow> solvent db')"
  using assms
proof (induction rule: ledger_effect.induct)
  case (other db db')
  then show ?case using ledger_ok_frame [of db' db] by (simp add: same_ledger_def)
next
  case (claimed db P now)
  let ?db' = "db\<lparr>outbox := update_rows P (\<lambda>y. y\<lparr>ob_published_at := Some now\<rparr>) (outbox db)\<rparr>"
  show ?case using claimed ledger_ok_frame [of ?db' db] by simp
next
  case (session s db db')
  then show ?case using created_session_ok by blast
next
  case (request q db db')
  then show ?case using created_request_ok by blast
next
  case (reserved db v s ro w now)
  then show ?case using reserved_db_ok reserved_db_solvent by blast
next
  case (moved q db t db1 now)
  have "ledger_ok db1 \<and> (solvent db \<longrightarrow> solvent db1)"
    using moved.hyps(3) released_ok [OF moved.prems] moved.prems
      ledger_ok_frame [of db1 db] ledger_ok_frame [of db1 "release_reservation now (re_id q) db"]
    by (auto simp: same_ledger_def)
  then show ?case using moved_db_ok transition_allowed_states [OF moved.hyps(2)] by simp
qed simp

lemma ledger_steps_ok:
  "ledger_steps db db' \<Longrightarrow> ledger_ok db \<Longrightarrow> ledger_ok db' \<and> (solvent db \<longrightarrow> solvent db')"
proof (induction rule: rtranclp_induct)
  case (step y z)
  then show ?case using ledger_step_effect ledger_effect_ok by blast
qed simp

section \<open>Live holds\<close>

text \<open>
  A hold that has been released and is not empty belongs to a request that has ended. The states that
  end a request have no way out.
\<close>

definition ended_states :: "string list" where
  "ended_states = [''cancelled'', ''failed'', ''settled'']"

definition holds_live :: "db \<Rightarrow> bool" where
  "holds_live db \<longleftrightarrow> (\<forall>r \<in> set (reservations db). \<forall>q \<in> set (requests db).
     re_id q = ir_request_id r \<longrightarrow> ir_released_at r \<noteq> None \<longrightarrow> ir_amount r = 0 \<or> re_state q \<in> set ended_states)"

lemma ended_no_transition: "s \<in> set ended_states \<Longrightarrow> \<not> transition_allowed s t"
  by (auto simp: ended_states_def transition_allowed_def transitions_def)

lemma holds_live_moved:
  assumes "holds_live db" "q \<in> set (requests db)" "transition_allowed (re_state q) t" "ledger_ok db"
    and db1: "same_ledger db db1 \<or> t \<in> {''failed'', ''cancelled''} \<and> same_ledger (release_reservation now (re_id q) db) db1"
  shows "holds_live (moved_db now (re_id q) (re_state q) t db1)"
  unfolding holds_live_def
proof (intro ballI impI)
  fix r x
  assume r: "r \<in> set (reservations (moved_db now (re_id q) (re_state q) t db1))" "ir_released_at r \<noteq> None"
    and x: "x \<in> set (requests (moved_db now (re_id q) (re_state q) t db1))" "re_id x = ir_request_id r"
  obtain x0 where x0: "x0 \<in> set (requests db)" "re_id x0 = re_id x"
      "re_state x = (if re_id x0 = re_id q then t else re_state x0)"
    using x(1) db1 by (fastforce simp: moved_db_def same_ledger_def release_reservation_def set_update_rows split: if_splits)
  obtain r0 where r0: "r0 \<in> set (reservations db)" "ir_request_id r0 = ir_request_id r" "ir_amount r0 = ir_amount r"
      "ir_released_at r0 \<noteq> None \<or> ir_request_id r0 = re_id q \<and> t \<in> {''failed'', ''cancelled''}"
    using r db1 by (fastforce simp: moved_db_def same_ledger_def release_reservation_def set_update_rows split: if_splits)
  show "ir_amount r = 0 \<or> re_state x \<in> set ended_states"
  proof (cases "ir_released_at r0 = None")
    case True
    then show ?thesis using r0 x0 x(2) by (auto simp: ended_states_def)
  next
    case False
    then have old: "ir_amount r0 = 0 \<or> re_state x0 \<in> set ended_states"
      using assms(1) r0(1,2) x0(1,2) x(2) by (simp add: holds_live_def)
    have "x0 = q" if "re_id x0 = re_id q"
      using request_unique [OF assms(4) x0(1) assms(2) that] .
    then show ?thesis using old r0(3) x0(3) assms(3) ended_no_transition by auto
  qed
qed

lemma ledger_effect_live:
  assumes "ledger_effect db db'" "ledger_ok db" "holds_live db"
  shows "holds_live db'"
  using assms
proof (induction rule: ledger_effect.induct)
  case (request q db db')
  have q: "re_id q \<notin> re_id ` set (requests db)" "db' = db\<lparr>requests := requests db @ [q]\<rparr>"
    using request.hyps by (auto simp: insert_request_def)
  have "ir_request_id r \<noteq> re_id q" if "r \<in> set (reservations db)" for r
  proof -
    have "hold_backed db r" using that request.prems(1) by (simp add: ledger_ok_def)
    then have "ir_request_id r \<in> re_id ` set (requests db)"
      unfolding hold_backed_def by (metis imageI)
    with q(1) show ?thesis by metis
  qed
  then have "\<forall>r \<in> set (reservations db). ir_request_id r \<noteq> re_id q" by blast
  with q(2) request.prems(2) show ?case by (auto simp: holds_live_def)
next
  case (reserved db v s ro w now)
  have "ir_request_id r \<noteq> iv_RequestID v" if "r \<in> set (reservations db)" for r
    using that reserved.hyps(3) by (metis imageI)
  then have "\<forall>r \<in> set (reservations db). ir_request_id r \<noteq> iv_RequestID v" by blast
  then show ?case
    using reserved.prems by (auto simp: holds_live_def reserved_db_def reserved_hold_def reserved_request_def)
next
  case (moved q db t db1 now)
  then show ?case by (blast intro: holds_live_moved)
qed (auto simp: holds_live_def same_ledger_def insert_session_def)

section \<open>The audit trail\<close>

text \<open>The outbox read as a log: the moves of one request, oldest first.\<close>

definition event_move :: "outbox_row \<Rightarrow> string \<times> string" where
  "event_move ev = (case (map_of (ob_payload ev) ''from'', map_of (ob_payload ev) ''to'') of
     (Some a, Some b) \<Rightarrow> (a, b) | _ \<Rightarrow> ([], []))"

definition request_moves :: "string \<Rightarrow> outbox_row list \<Rightarrow> (string \<times> string) list" where
  "request_moves requestID tbl = map event_move (filter (\<lambda>ev. ob_aggregate_id ev = requestID) tbl)"

definition trail :: "(string \<times> string) list \<Rightarrow> string \<Rightarrow> bool" where
  "trail ms s \<longleftrightarrow> (\<forall>m \<in> set ms. transition_allowed (fst m) (snd m))
     \<and> successively (\<lambda>m n. snd m = fst n) ms \<and> (ms \<noteq> [] \<longrightarrow> snd (last ms) = s)"

definition audited :: "db \<Rightarrow> bool" where
  "audited db \<longleftrightarrow> (\<forall>ev \<in> set (outbox db). ob_aggregate_id ev \<in> re_id ` set (requests db))
     \<and> (\<forall>q \<in> set (requests db). trail (request_moves (re_id q) (outbox db)) (re_state q))"

lemma trail_snoc: "trail ms s \<Longrightarrow> transition_allowed s t \<Longrightarrow> trail (ms @ [(s, t)]) t"
  by (auto simp: trail_def successively_append_iff)

lemma request_moves_append [simp]:
  "request_moves r (xs @ ys) = request_moves r xs @ request_moves r ys"
  by (simp add: request_moves_def)

lemma request_moves_none:
  "(\<And>ev. ev \<in> set tbl \<Longrightarrow> ob_aggregate_id ev \<noteq> r) \<Longrightarrow> request_moves r tbl = []"
  by (simp add: request_moves_def)

lemma fresh_no_moves:
  assumes "audited db" "r \<notin> re_id ` set (requests db)"
  shows "request_moves r (outbox db) = []"
  using assms by (intro request_moves_none) (metis audited_def)

lemma request_moves_claimed:
  "request_moves r (update_rows P (\<lambda>y. y\<lparr>ob_published_at := x\<rparr>) tbl) = request_moves r tbl"
  by (induction tbl) (auto simp: request_moves_def event_move_def split: option.splits)

lemma request_moves_offered:
  "request_moves r (offered_events r' tbl)
     = (if r = r' then [(''created'', ''reserved''), (''reserved'', ''offered'')] else [])"
  by (simp add: request_moves_def offered_events_def Let_def event_move_def)

lemma offered_events_id: "ev \<in> set (offered_events r tbl) \<Longrightarrow> ob_aggregate_id ev = r"
  by (auto simp: offered_events_def Let_def)

lemma outbox_moved_db:
  "outbox (moved_db now r s t db) = outbox db @ [\<lparr>ob_id = next_outbox_id (outbox db), ob_aggregate_type = ''request'',
     ob_aggregate_id = r, ob_event_type = ''request.'' @ t, ob_payload = [(''from'', s), (''to'', t)], ob_published_at = None\<rparr>]"
  by (simp add: moved_db_def insert_outbox_def)

lemma audited_moved_db:
  assumes "ledger_ok db" "audited db" "q \<in> set (requests db)" "transition_allowed (re_state q) t"
    "requests db1 = requests db" "outbox db1 = outbox db"
  shows "audited (moved_db now (re_id q) (re_state q) t db1)"
proof -
  let ?db' = "moved_db now (re_id q) (re_state q) t db1"
  have req: "requests ?db' = update_rows (\<lambda>r. re_id r = re_id q)
      (\<lambda>r. r\<lparr>re_state := t, re_updated_at := now\<rparr>) (requests db)"
    using assms(5) by (simp add: moved_db_def)
  have ids: "re_id ` set (requests ?db') = re_id ` set (requests db)"
  proof -
    have "map re_id (requests ?db') = map re_id (requests db)"
      unfolding req by (rule map_key_update_rows) simp
    then show ?thesis by (metis list.set_map)
  qed
  have moves: "request_moves x (outbox ?db') = request_moves x (outbox db)
      @ (if x = re_id q then [(re_state q, t)] else [])" for x
    using assms(6) by (simp add: outbox_moved_db) (simp add: request_moves_def event_move_def)
  have "trail (request_moves (re_id r) (outbox ?db')) (re_state r)" if r: "r \<in> set (requests ?db')" for r
  proof -
    obtain r0 where r0: "r0 \<in> set (requests db)"
        "r = (if re_id r0 = re_id q then r0\<lparr>re_state := t, re_updated_at := now\<rparr> else r0)"
      using r unfolding req set_update_rows by blast
    have "trail (request_moves (re_id r0) (outbox db)) (re_state r0)"
      using assms(2) r0(1) by (simp add: audited_def)
    then show ?thesis
      using r0 assms(4) request_unique [OF assms(1) r0(1) assms(3)] trail_snoc by (auto simp: moves split: if_splits)
  qed
  moreover have "\<forall>ev \<in> set (outbox ?db'). ob_aggregate_id ev \<in> re_id ` set (requests ?db')"
    unfolding ids using assms(2,3,6) by (auto simp: audited_def outbox_moved_db)
  ultimately show ?thesis by (simp add: audited_def)
qed

lemma audited_reserved_db:
  assumes "audited db" "iv_RequestID v \<notin> re_id ` set (requests db)"
  shows "audited (reserved_db now v w ro db)"
proof -
  have none: "request_moves (iv_RequestID v) (outbox db) = []"
    using assms by (rule fresh_no_moves)
  have "trail [(''created'', ''reserved''), (''reserved'', ''offered'')] ''offered''"
    by (simp add: trail_def transition_allowed_def transitions_def)
  moreover have "re_id r \<noteq> iv_RequestID v" if "r \<in> set (requests db)" for r
    using assms(2) that by (metis imageI)
  ultimately show ?thesis
    using assms(1) none
    by (auto simp: audited_def reserved_db_def request_moves_offered reserved_request_def dest: offered_events_id)
qed

lemma ledger_effect_audited:
  assumes "ledger_effect db db'" "ledger_ok db" "audited db"
  shows "audited db'"
  using assms
proof (induction rule: ledger_effect.induct)
  case (other db db')
  then show ?case by (simp add: audited_def same_ledger_def)
next
  case (claimed db P now)
  then show ?case by (auto simp: audited_def request_moves_claimed set_update_rows)
next
  case (session s db db')
  then show ?case by (auto simp: audited_def insert_session_def)
next
  case (request q db db')
  have "re_id q \<notin> re_id ` set (requests db)" "db' = db\<lparr>requests := requests db @ [q]\<rparr>"
    using request.hyps by (auto simp: insert_request_def)
  moreover from this request.prems have "request_moves (re_id q) (outbox db) = []"
    by (blast intro: fresh_no_moves)
  ultimately show ?case using request.prems by (auto simp: audited_def trail_def)
next
  case (reserved db v s ro w now)
  then show ?case by (blast intro: audited_reserved_db)
next
  case (moved q db t db1 now)
  then show ?case
    by (intro audited_moved_db) (auto simp: same_ledger_def release_reservation_def)
qed simp

lemma ledger_steps_audited:
  assumes "ledger_steps db db'" "ledger_ok db" "audited db"
  shows "ledger_ok db' \<and> audited db'"
  using assms
proof (induction rule: rtranclp_induct)
  case (step y z)
  then show ?case using ledger_step_effect ledger_effect_ok ledger_effect_audited by blast
qed simp

text \<open>The invariants together, and that any chain of effects keeps them.\<close>

definition ledger_safe :: "db \<Rightarrow> bool" where
  "ledger_safe db \<longleftrightarrow> ledger_ok db \<and> solvent db \<and> holds_live db \<and> audited db"

lemma ledger_effects_safe: "ledger_effect\<^sup>*\<^sup>* db db' \<Longrightarrow> ledger_safe db \<Longrightarrow> ledger_safe db'"
proof (induction rule: rtranclp_induct)
  case (step y z)
  then show ?case
    using ledger_effect_ok ledger_effect_live ledger_effect_audited by (simp add: ledger_safe_def)
qed simp

section \<open>Properties of the ledger\<close>

definition demo_route :: routing_row where
  "demo_route = \<lparr>ro_machine_id = ''m'', ro_offer_id = ''o'', ro_model = ''x'', ro_backend_kind = Some ''k'',
     ro_capabilities = [''text''], ro_offer_hash = Some ''h'', ro_model_hash = Some ''h'',
     ro_capability_hash = Some ''h'', ro_evidence_kind = ''provider_claimed'', ro_evidence_digest = ''x'',
     ro_metering_mode = ''tokens_and_compute'', ro_price_version = 1, ro_confirmed_bond = True,
     ro_healthy = True, ro_capacity = 1, ro_maximum_cost = 9, ro_input_per_million = 5,
     ro_output_per_million = 5, ro_compute_per_second = 5, ro_latency_milliseconds = 0,
     ro_success_basis_points = 0, ro_reputation = 0, ro_updated_at = 0\<rparr>"

definition demo_db :: db where
  "demo_db = empty_db\<lparr>accounts := [\<lparr>ac_id = ''a'', ac_wallet_address = ''w''\<rparr>],
     machines := [\<lparr>ma_id = ''m'', ma_account_id = ''a'', ma_name = ''n'', ma_revoked_at = None, ma_signer_address = None\<rparr>],
     sessions := [\<lparr>se_id = ''s'', se_account_id = ''a'', se_state = ''open'', se_confirmed_balance_wei = 4, se_created_at = 0\<rparr>],
     routing := [demo_route]\<rparr>"

definition demo_reservation :: inferenceReservation where
  "demo_reservation = \<lparr>iv_RequestID = ''r'', iv_SessionID = ''s'', iv_AccountID = ''a'', iv_MachineID = ''m'',
     iv_OfferID = ''o'', iv_PriceVersion = 1, iv_MaximumSpend = 3, iv_MaximumInputTokens = 1,
     iv_MaximumOutputTokens = 1, iv_MaximumComputeMilliseconds = 1\<rparr>"

lemma demo_reserve: "fst (ReserveInference no_faults 7 demo_db demo_reservation) = Inr ()"
  by code_simp

lemma demo_step: "ledger_steps demo_db (snd (ReserveInference no_faults 7 demo_db demo_reservation))"
  by (metis r_into_rtranclp ledger_step.reserve_inference prod.collapse)

lemma demo_ok: "ledger_ok demo_db" "solvent demo_db" "audited demo_db"
  by (simp_all add: ledger_ok_def solvent_def audited_def demo_db_def empty_db_def session_check_def
      session_states_def numeric_fits_def locked_amount_def)





lemma routing_rates_parse:
  assumes "rates3_opt parseRate (routing_rates ro) = Some rs"
  shows "rs = (ro_input_per_million ro, ro_output_per_million ro, ro_compute_per_second ro)"
proof -
  have "readRate (int_string i) = Some r \<Longrightarrow> r = i" for i r
    by (simp add: readRate_def split: if_splits)
  then have "parseRate (int_string i) = Some r \<Longrightarrow> r = i" for i r
    using readRate_parseRate by blast
  with assms show ?thesis by (cases rs) (auto simp: routing_rates_def rates3_opt_Some)
qed

text \<open>C2: A successful reservation locks exactly the worst-case price of the request at the rates of
  the route, which the caller's maximum and the balance not yet locked both cover, takes one unit of
  the route's capacity, and leaves the request offered to the provider.\<close>

theorem reserve_locks_worst_case:
  assumes "ReserveInference flt now db v = (Inr (), db')"
  shows "\<exists>s \<in> set (sessions db). \<exists>ro \<in> set (routing db). \<exists>w.
      se_id s = iv_SessionID v \<and> se_account_id s = iv_AccountID v \<and> se_state s = ''open''
      \<and> reservable_route v (uint (iv_PriceVersion v)) ro
      \<and> uint w = metered_total (ro_input_per_million ro, ro_output_per_million ro, ro_compute_per_second ro)
          (iv_MaximumInputTokens v) (iv_MaximumOutputTokens v) (iv_MaximumComputeMilliseconds v)
      \<and> 0 < w \<and> w \<le> iv_MaximumSpend v
      \<and> locked_amount (iv_SessionID v) (reservations db') = locked_amount (iv_SessionID v) (reservations db) + uint w
      \<and> locked_amount (iv_SessionID v) (reservations db') \<le> se_confirmed_balance_wei s
      \<and> requests db' = requests db @ [reserved_request now v w ro]"
proof -
  obtain s ro w where b: "reservation_backed db v s ro w" and db': "db' = reserved_db now v w ro db"
    using ReserveInference_ok [OF assms] by blast
  then have "metered_total (ro_input_per_million ro, ro_output_per_million ro, ro_compute_per_second ro)
      (iv_MaximumInputTokens v) (iv_MaximumOutputTokens v) (iv_MaximumComputeMilliseconds v) = uint w"
    by (auto simp: reservation_backed_def worst.cost_Inr_iff dest: routing_rates_parse)
  moreover have "requests db' = requests db @ [reserved_request now v w ro]"
    by (simp add: db' reserved_db_def)
  ultimately show ?thesis
    using b unfolding reservation_backed_def db' reserved_db_locked
    by (intro bexI [of _ s] bexI [of _ ro] exI [of _ w]) (simp_all add: word_neq_0_conv)
qed

theorem reserve_locks_worst_case_witness:
  "\<exists>w. requests (snd (ReserveInference no_faults 7 demo_db demo_reservation))
     = [reserved_request 7 demo_reservation w demo_route] \<and> uint w = 3"
proof -
  have "ReserveInference no_faults 7 demo_db demo_reservation
      = (Inr (), snd (ReserveInference no_faults 7 demo_db demo_reservation))"
    using demo_reserve by (metis prod.collapse)
  from reserve_locks_worst_case [OF this] obtain ro w where
      "ro \<in> set (routing demo_db)" "uint w = metered_total (ro_input_per_million ro, ro_output_per_million ro, ro_compute_per_second ro) 1 1 1"
      "requests (snd (ReserveInference no_faults 7 demo_db demo_reservation))
         = requests demo_db @ [reserved_request 7 demo_reservation w ro]"
    by (auto simp: demo_reservation_def)
  moreover have "routing demo_db = [demo_route]" "requests demo_db = []"
    by (simp_all add: demo_db_def empty_db_def)
  ultimately show ?thesis
    by (intro exI [of _ w]) (simp add: demo_route_def metered_total_def ceil_div_def)
qed

text \<open>An abort that moves a request returns all of its hold: the request is in the terminal state,
  none of its reservations is active any more, and what its session has locked goes down by exactly
  the amount that was held.\<close>

lemma abort_returns_hold:
  assumes "ledger_ok db" "AbortInference flt now db requestID terminal = (Inr (), db')"
    and q: "q \<in> set (requests db)" "re_id q = requestID" "re_state q \<noteq> terminal"
    and r: "r \<in> set (reservations db)" "ir_request_id r = requestID" "ir_released_at r = None"
  shows "locked_amount (ir_session_id r) (reservations db')
      = locked_amount (ir_session_id r) (reservations db) - ir_amount r
    \<and> (\<forall>x \<in> set (reservations db'). ir_request_id x = requestID \<longrightarrow> ir_released_at x \<noteq> None)
    \<and> (\<forall>x \<in> set (requests db'). re_id x = requestID \<longrightarrow> re_state x = terminal)"
proof -
  let ?P = "\<lambda>x. ir_request_id x = requestID \<and> ir_released_at x = None"
  let ?f = "\<lambda>x :: reservation_row. x\<lparr>ir_released_at := Some now\<rparr>"
  obtain q' where q': "q' \<in> set (requests db)" "re_id q' = requestID"
    and cases: "db' = db \<and> re_state q' = terminal \<or> (\<exists>m k db1. db' = moved_db now requestID (re_state q') terminal db1
        \<and> db1 \<in> {release_reservation now requestID db, returned_capacity now m k (release_reservation now requestID db)})"
    using AbortInference_ok [OF assms(2)] by auto
  then have "q' = q" using q request_unique [OF assms(1)] by metis
  with cases q(3) have res: "reservations db' = update_rows ?P ?f (reservations db)"
    and req: "requests db' = update_rows (\<lambda>x. re_id x = requestID) (\<lambda>x. x\<lparr>re_state := terminal, re_updated_at := now\<rparr>) (requests db)"
    by (auto simp: moved_db_def release_reservation_def returned_capacity_def)
  have "distinct (map ir_request_id (reservations db))" using assms(1) by (simp add: ledger_ok_def)
  moreover have "?P x \<longleftrightarrow> ir_request_id x = ir_request_id r" if "x \<in> set (reservations db)" for x
    using key_unique [OF calculation that r(1)] r by auto
  ultimately have "locked_amount (ir_session_id r) (reservations db')
      = locked_amount (ir_session_id r) (reservations db) - ir_amount r"
    unfolding res locked_amount_def using sum_rows_update_key [OF _ r(1), of ir_request_id ?P] r
    by (simp add: is_active_def)
  moreover have "\<forall>x \<in> set (reservations db'). ir_request_id x = requestID \<longrightarrow> ir_released_at x \<noteq> None"
    by (simp add: res ball_update_rows)
  moreover have "\<forall>x \<in> set (requests db'). re_id x = requestID \<longrightarrow> re_state x = terminal"
    by (simp add: req ball_update_rows)
  ultimately show ?thesis by blast
qed

text \<open>A completion is recorded only for a streaming request of the session and within the usage
  limits that were priced when it was reserved; usage beyond a limit is refused with its own error
  and changes nothing.\<close>

lemma complete_respects_limits:
  assumes "ledger_ok db" "q \<in> set (requests db)" "re_id q = cp_RequestID p"
    "cp_RequestID p \<notin> pp_request_id ` set (proposals db)" "CompleteInference flt now db p = (Inr (), db')"
  shows "re_state q = ''streaming'' \<and> re_session_id q = cp_SessionID p
    \<and> within_limits (uint (cp_InputTokens p)) (uint (cp_OutputTokens p)) (uint (cp_ComputeMilliseconds p)) q
    \<and> (\<exists>row. proposal_of p = Inr row \<and> proposals db' = proposals db @ [row])
    \<and> (\<forall>x \<in> set (requests db'). re_id x = cp_RequestID p \<longrightarrow> re_state x = ''completed'')"
proof -
  have "distinct (map re_id (requests db))" using assms(1) by (simp add: ledger_ok_def)
  then obtain q' row where q': "q' \<in> set (requests db)" "re_id q' = cp_RequestID p"
      "re_session_id q' = cp_SessionID p" "re_state q' = ''streaming''"
      "within_limits (uint (cp_InputTokens p)) (uint (cp_OutputTokens p)) (uint (cp_ComputeMilliseconds p)) q'"
    and db': "proposal_of p = Inr row" "db' = moved_db now (cp_RequestID p) ''streaming'' ''completed''
          (returned_capacity now (cp_MachineID p) (cp_OfferID p) (db\<lparr>proposals := proposals db @ [row]\<rparr>))"
    using CompleteInference_ok [OF assms(5)] assms(4) by blast
  have "q' = q" using request_unique [OF assms(1) q'(1) assms(2)] q'(2) assms(3) by simp
  with q' db' show ?thesis
    by (auto simp: moved_db_def returned_capacity_def insert_outbox_def set_update_rows)
qed

text \<open>Usage beyond a limit that was priced at the reservation is refused with the error that says
  so, and the streaming request, its hold and the route stay as they are.\<close>

lemma excess_usage_refused:
  assumes "ledger_ok db" "q \<in> set (requests db)" "re_id q = cp_RequestID p" "re_state q = ''streaming''"
    "cp_RequestID p \<notin> pp_request_id ` set (proposals db)"
    "beyond_limits (uint (cp_InputTokens p)) (uint (cp_OutputTokens p)) (uint (cp_ComputeMilliseconds p)) q"
    "uint (cp_InputTokens p) < 2 ^ 63" "uint (cp_OutputTokens p) < 2 ^ 63" "uint (cp_ComputeMilliseconds p) < 2 ^ 63"
  shows "CompleteInference no_faults now db p = (Inl ErrUsageLimitExceeded, db)"
proof -
  let ?P = "\<lambda>r. re_id r = cp_RequestID p \<and> re_session_id r = cp_SessionID p \<and> re_state r = ''streaming''
     \<and> within_limits (uint (cp_InputTokens p)) (uint (cp_OutputTokens p)) (uint (cp_ComputeMilliseconds p)) r"
  have "\<not> within_limits (uint (cp_InputTokens p)) (uint (cp_OutputTokens p)) (uint (cp_ComputeMilliseconds p)) q"
    using assms(6) by (auto simp: within_limits_def beyond_limits_def opt_less_def opt_ge_def split: option.splits)
  then have none: "\<not> ?P r" if "r \<in> set (requests db)" for r
    using request_unique [OF assms(1) that assms(2)] assms(3) by auto
  then have "set_request_state now ?P ''completed'' db = Inr db" "count_rows ?P (requests db) = 0"
    by (auto simp: update_rows_id count_rows_def)
  moreover have "\<exists>r \<in> set (requests db). re_id r = cp_RequestID p \<and> re_state r = ''streaming''
      \<and> beyond_limits (uint (cp_InputTokens p)) (uint (cp_OutputTokens p)) (uint (cp_ComputeMilliseconds p)) r"
    using assms(2-4,6) by blast
  moreover have "\<not> (\<exists>x \<in> set (proposals db). pp_request_id x = cp_RequestID p)"
    using assms(5) by (metis imageI)
  ultimately show ?thesis
    using assms(7-9) by (simp add: CompleteInference_def transact_def stmt_def int8_arg_def Let_def no_faults_def
        del: set_request_state_Inr)
qed

definition demo_streaming :: db where
  "demo_streaming = demo_db
     \<lparr>backends := [\<lparr>be_id = ''b'', be_machine_id = ''m'', be_kind = ''k'', be_model = ''x'', be_enabled = True\<rparr>],
      offers := [\<lparr>of_id = ''o'', of_backend_id = ''b'', of_version = 1, of_input_per_million = 5,
        of_output_per_million = 5, of_compute_per_second = 5\<rparr>],
      requests := [(reserved_request 7 demo_reservation 3 demo_route)\<lparr>re_state := ''streaming''\<rparr>],
      reservations := [reserved_hold demo_reservation 3]\<rparr>"

definition demo_completion :: "u64 \<Rightarrow> completedInference" where
  "demo_completion n = \<lparr>cp_RequestID = ''r'', cp_SessionID = ''s'', cp_MachineID = ''m'', cp_OfferID = ''o'',
     cp_Model = ''x'', cp_PriceVersion = 1, cp_InputTokens = n, cp_OutputTokens = 1, cp_ComputeMilliseconds = 1,
     cp_InputHash = 1, cp_OutputHash = 1, cp_CompletedAt = 9\<rparr>"

lemmas demo_defs = demo_streaming_def demo_db_def empty_db_def reserved_request_def reserved_hold_def
  demo_reservation_def demo_route_def demo_completion_def

lemma demo_streaming_ok: "ledger_ok demo_streaming"
  by (simp add: ledger_ok_def hold_backed_def demo_defs session_check_def session_states_def
      numeric_fits_def request_check_def request_states_def positive_or_null_def)

lemma abort_returns_hold_witness:
  "locked_amount ''s'' (reservations (snd (AbortInference no_faults 9 demo_streaming ''r'' ''failed''))) = 0"
proof -
  have "fst (AbortInference no_faults 9 demo_streaming ''r'' ''failed'') = Inr ()" by code_simp
  then have "AbortInference no_faults 9 demo_streaming ''r'' ''failed''
      = (Inr (), snd (AbortInference no_faults 9 demo_streaming ''r'' ''failed''))"
    by (metis prod.collapse)
  note abort_returns_hold [OF demo_streaming_ok this, of "hd (requests demo_streaming)" "reserved_hold demo_reservation 3"]
  moreover have "locked_amount ''s'' (reservations demo_streaming) = 3"
    by (simp add: demo_defs locked_amount_def is_active_def)
  ultimately show ?thesis by (simp add: demo_defs)
qed

lemma complete_respects_limits_witness:
  "\<exists>row. proposals (snd (CompleteInference no_faults 9 demo_streaming (demo_completion 1))) = [row]"
proof -
  have "fst (CompleteInference no_faults 9 demo_streaming (demo_completion 1)) = Inr ()" by code_simp
  then have "CompleteInference no_faults 9 demo_streaming (demo_completion 1)
      = (Inr (), snd (CompleteInference no_faults 9 demo_streaming (demo_completion 1)))"
    by (metis prod.collapse)
  from complete_respects_limits [OF demo_streaming_ok _ _ _ this, of "hd (requests demo_streaming)"]
  have "\<exists>row. proposals (snd (CompleteInference no_faults 9 demo_streaming (demo_completion 1))) = proposals demo_streaming @ [row]"
    by (simp add: demo_defs) blast
  then show ?thesis by (simp add: demo_streaming_def demo_db_def empty_db_def)
qed

theorem excess_usage_refused_witness:
  "CompleteInference no_faults 9 demo_streaming (demo_completion 2) = (Inl ErrUsageLimitExceeded, demo_streaming)"
  by (rule excess_usage_refused [OF demo_streaming_ok, of "hd (requests demo_streaming)"])
     (simp_all add: demo_defs beyond_limits_def opt_less_def)

section \<open>Delivery of events\<close>

definition outbox_ordered :: "db \<Rightarrow> bool" where
  "outbox_ordered db \<longleftrightarrow> sorted_wrt (<) (map ob_id (outbox db))"

definition unpublished :: "outbox_row list \<Rightarrow> outbox_row list" where
  "unpublished tbl = filter (\<lambda>ev. ob_published_at ev = None) tbl"

lemma outbox_ordered_snoc:
  "sorted_wrt (<) (map ob_id tbl) \<Longrightarrow> ob_id x = next_outbox_id tbl \<Longrightarrow> sorted_wrt (<) (map ob_id (tbl @ [x]))"
  by (auto simp: sorted_wrt_append dest: next_outbox_id_greater)

lemma ledger_effect_ordered:
  assumes "ledger_effect db db'" "outbox_ordered db"
  shows "outbox_ordered db'"
  using assms
proof (induction rule: ledger_effect.induct)
  case (claimed db P now)
  have "map ob_id (update_rows P (\<lambda>y. y\<lparr>ob_published_at := Some now\<rparr>) (outbox db)) = map ob_id (outbox db)"
    by (rule map_key_update_rows) simp
  with claimed show ?case by (simp add: outbox_ordered_def)
next
  case (reserved db v s ro w now)
  have "sorted_wrt (<) (map ob_id (outbox db @ offered_events (iv_RequestID v) (outbox db)))"
    using reserved.prems
    by (auto simp: outbox_ordered_def offered_events_def Let_def sorted_wrt_append dest: next_outbox_id_greater)
  then show ?case by (simp add: outbox_ordered_def reserved_db_def)
next
  case (moved q db t db1 now)
  then show ?case
    unfolding outbox_ordered_def outbox_moved_db by (intro outbox_ordered_snoc) simp_all
qed (auto simp: outbox_ordered_def insert_session_def insert_request_def)

lemma sort_key_ordered:
  assumes "sorted_wrt (<) (map ob_id tbl)"
  shows "sort_key ob_id (filter P tbl) = filter P tbl"
proof (rule sort_key_id_if_sorted)
  have "sorted_wrt (\<lambda>x y. ob_id x < ob_id y) (filter P tbl)"
    using assms by (simp add: sorted_wrt_map sorted_wrt_filter)
  then have "sorted_wrt (\<lambda>x y. ob_id x \<le> ob_id y) (filter P tbl)"
    by (rule sorted_wrt_mono_rel [rotated]) simp
  then show "sorted (map ob_id (filter P tbl))" by (simp add: sorted_map)
qed

lemma unpublished_claimed:
  "unpublished (update_rows (\<lambda>y. ob_id y = n) (\<lambda>y. y\<lparr>ob_published_at := Some now\<rparr>) tbl)
     = filter (\<lambda>y. ob_id y \<noteq> n) (unpublished tbl)"
  by (induction tbl) (auto simp: unpublished_def)

lemma unpublished_rest:
  assumes "sorted_wrt (<) (map ob_id tbl)" "unpublished tbl = ev # evs"
  shows "filter (\<lambda>y. ob_id y \<noteq> ob_id ev) evs = evs"
proof -
  have "sorted_wrt (\<lambda>x y. ob_id x < ob_id y) (unpublished tbl)"
    using assms(1) by (simp add: unpublished_def sorted_wrt_map sorted_wrt_filter)
  then have "\<forall>y \<in> set evs. ob_id ev < ob_id y" by (simp add: assms(2))
  then show ?thesis by (intro filter_True) auto
qed

text \<open>Claiming takes the unpublished events in the order they were written and each of them once:
  a claim without database faults returns the first unpublished event and leaves exactly the others
  to be claimed, and reports an empty outbox only when there is none.\<close>

lemma claim_takes_oldest:
  assumes "outbox_ordered db"
  shows "(unpublished (outbox db) = [] \<longrightarrow> ClaimOutbox no_faults now db = (Inl ErrNoOutboxEvents, db)) \<and>
    (\<forall>ev evs. unpublished (outbox db) = ev # evs \<longrightarrow>
      (\<exists>db'. ClaimOutbox no_faults now db = (Inr \<lparr>e_ID = ob_id ev, e_AggregateType = ob_aggregate_type ev,
          e_AggregateID = ob_aggregate_id ev, e_EventType = ob_event_type ev, e_Payload = ob_payload ev\<rparr>, db')
        \<and> unpublished (outbox db') = evs \<and> outbox_ordered db'))"
proof -
  have ids: "sorted_wrt (<) (map ob_id (outbox db))" using assms by (simp add: outbox_ordered_def)
  then have old: "oldest_unpublished (outbox db)
      = (case unpublished (outbox db) of [] \<Rightarrow> Inl ErrNoRows | ev # _ \<Rightarrow> Inr ev)"
    by (simp add: oldest_unpublished_def unpublished_def sort_key_ordered)
  have "outbox_ordered (db\<lparr>outbox := update_rows P (\<lambda>y. y\<lparr>ob_published_at := Some now\<rparr>) (outbox db)\<rparr>)" for P
    using ledger_effect_ordered [OF ledger_effect.claimed assms] .
  then show ?thesis
    by (auto simp: ClaimOutbox_def transact_def old unpublished_claimed unpublished_rest [OF ids])
qed

theorem claim_takes_oldest_witness:
  "fst (ClaimOutbox no_faults 9 (demo_db\<lparr>outbox := offered_events ''r'' []\<rparr>))
     = Inr \<lparr>e_ID = 1, e_AggregateType = ''request'', e_AggregateID = ''r'', e_EventType = ''request.reserved'',
         e_Payload = [(''from'', ''created''), (''to'', ''reserved'')]\<rparr>"
proof -
  have "outbox_ordered (demo_db\<lparr>outbox := offered_events ''r'' []\<rparr>)"
    by (simp add: outbox_ordered_def offered_events_def Let_def)
  from claim_takes_oldest [OF this, of 9] show ?thesis
    by (auto simp: offered_events_def Let_def unpublished_def next_outbox_id_def)
qed

end
