(* ===== verification/Hex.thy ===== *)
theory Hex
  imports Receipt
begin

text \<open>
  Hexadecimal text of hashes and addresses: \<^verbatim>\<open>hashHex\<close> of
  \<^verbatim>\<open>server/internal/chain/settlement.go\<close>, \<^verbatim>\<open>addressHex\<close> of
  \<^verbatim>\<open>server/internal/store/signers.go\<close> and the reader \<^verbatim>\<open>parseHash\<close> of
  \<^verbatim>\<open>server/internal/store/receipt.go\<close> with Go's \<^verbatim>\<open>hex.DecodeString\<close>.
\<close>

unbundle bit_operations_syntax

section \<open>Printing and reading\<close>

definition hex_digits :: string where
  "hex_digits = ''0123456789abcdef''"

text \<open>\<^verbatim>\<open>digits[item>>4], digits[item&15]\<close>\<close>

definition byte_hex :: "u8 \<Rightarrow> string" where
  "byte_hex item = [hex_digits ! unat (drop_bit 4 item), hex_digits ! unat (item AND 15)]"

definition hashHex :: "hash \<Rightarrow> string" where
  "hashHex value = ''0x'' @ concat (map byte_hex (hash_bytes value))"

definition address_bytes :: "address \<Rightarrow> bytes" where
  "address_bytes a = map (\<lambda>i. ucast (drop_bit (152 - 8 * i) a)) [0..<20]"

definition addressHex :: "address \<Rightarrow> string" where
  "addressHex value = ''0x'' @ concat (map byte_hex (address_bytes value))"

text \<open>\<^verbatim>\<open>hex.DecodeString\<close> accepts both letter cases and an even number of digits.\<close>

definition from_hex_char :: "char \<Rightarrow> nat option" where
  "from_hex_char c =
     (if is_digit c then Some (of_char c - 48)
      else if CHR ''a'' \<le> c \<and> c \<le> CHR ''f'' then Some (of_char c - 87)
      else if CHR ''A'' \<le> c \<and> c \<le> CHR ''F'' then Some (of_char c - 55)
      else None)"

fun hex_DecodeString :: "string \<Rightarrow> bytes option" where
  "hex_DecodeString [] = Some []"
| "hex_DecodeString [_] = None"
| "hex_DecodeString (c # d # s) =
     (case (from_hex_char c, from_hex_char d, hex_DecodeString s) of
        (Some x, Some y, Some bs) \<Rightarrow> Some (of_nat (16 * x + y) # bs)
      | _ \<Rightarrow> None)"

text \<open>\<^verbatim>\<open>common.BytesToHash\<close>: big endian, the last 32 bytes count.\<close>

definition BytesToHash :: "bytes \<Rightarrow> hash" where
  "BytesToHash bs = of_int (horner_sum uint (2 ^ 8) (rev bs))"

definition parseHash :: "string \<Rightarrow> hash option" where
  "parseHash value =
     (if length value \<noteq> 66 \<or> \<not> prefix ''0x'' value then None
      else case hex_DecodeString (drop 2 value) of
             None \<Rightarrow> None
           | Some decoded \<Rightarrow> if length decoded = 32 then Some (BytesToHash decoded) else None)"

text \<open>
  The functions of go-ethereum that the broker calls on text: \<^verbatim>\<open>crypto.Keccak256Hash\<close>,
  \<^verbatim>\<open>Hash.Hex\<close>, \<^verbatim>\<open>Address.Hex\<close> (with the mixed-case checksum),
  \<^verbatim>\<open>IsHexAddress\<close>, \<^verbatim>\<open>HexToHash\<close> and \<^verbatim>\<open>HexToAddress\<close>.
\<close>

record eth =
  eth_keccak :: "bytes \<Rightarrow> hash"
  eth_HashHex :: "hash \<Rightarrow> string"
  eth_AddressHex :: "address \<Rightarrow> string"
  eth_IsHexAddress :: "string \<Rightarrow> bool"
  eth_HexToHash :: "string \<Rightarrow> hash"
  eth_HexToAddress :: "string \<Rightarrow> address"

section \<open>Round trips\<close>

lemma nibbles: "unat (drop_bit 4 b) < 16" "unat (b AND 15) < 16"
  "16 * unat (drop_bit 4 b) + unat (b AND 15) = unat (b :: u8)"
proof -
  have lt: "unat b < 256" using unsigned_less [of b, where ?'a = nat] by simp
  have hi: "unat (drop_bit 4 b) = unat b div 16"
    by (simp add: drop_bit_eq_div unat_div)
  have "b AND 15 = take_bit 4 b" by (simp add: take_bit_eq_mask mask_eq_exp_minus_1)
  then have lo: "unat (b AND 15) = unat b mod 16"
    by (simp only: unsigned_take_bit_eq) (simp add: take_bit_eq_mod)
  from hi lt show "unat (drop_bit 4 b) < 16" by simp
  from lo show "unat (b AND 15) < 16" by simp
  from hi lo show "16 * unat (drop_bit 4 b) + unat (b AND 15) = unat b" by simp
qed

lemma from_hex_char_digit: "n < 16 \<Longrightarrow> from_hex_char (hex_digits ! n) = Some n"
proof -
  have "list_all (\<lambda>n. from_hex_char (hex_digits ! n) = Some n) [0..<16]" by code_simp
  then show "n < 16 \<Longrightarrow> from_hex_char (hex_digits ! n) = Some n" by (simp add: list_all_iff)
qed

lemma hex_decode_encode: "hex_DecodeString (concat (map byte_hex bs)) = Some bs"
  by (induction bs) (simp_all add: byte_hex_def from_hex_char_digit nibbles)

lemma BytesToHash_bytes: "BytesToHash (hash_bytes h) = h"
proof (rule bit_word_eqI)
  fix n assume n: "n < LENGTH(256)"
  have "bit (horner_sum uint (2 ^ LENGTH(8)) (rev (hash_bytes h))) n
      \<longleftrightarrow> n div 8 < 32 \<and> bit (rev (hash_bytes h) ! (n div 8)) (n mod 8)"
    using bit_horner_sum_uint_exp_iff [of "rev (hash_bytes h)" n] by simp
  moreover have "bit (rev (hash_bytes h) ! (n div 8)) (n mod 8) = bit h n"
  proof -
    have "n div 8 < 32" "n mod 8 < 8" "8 * (n div 8) + n mod 8 = n" using n by simp_all
    then have "rev (hash_bytes h) ! (n div 8) = ucast (drop_bit (8 * (n div 8)) h)"
      by (simp add: rev_nth hash_bytes_def del: upt_Suc) (simp add: diff_mult_distrib2)
    then show ?thesis using \<open>n mod 8 < 8\<close> \<open>8 * (n div 8) + n mod 8 = n\<close>
      by (simp add: bit_ucast_iff bit_drop_bit_eq)
  qed
  moreover have "n div 8 < 32" using n by simp
  ultimately show "bit (BytesToHash (hash_bytes h)) n = bit h n"
    using n by (simp add: BytesToHash_def bit_of_int_iff del: horner_sum_simps)
qed

lemma length_byte_hex: "length (concat (map byte_hex bs)) = 2 * length bs"
  by (induction bs) (simp_all add: byte_hex_def)

lemma hashHex_read: "parseHash (hashHex h) = Some h"
  by (simp add: parseHash_def hashHex_def length_byte_hex hex_decode_encode BytesToHash_bytes)

text \<open>The text that the settlement queue writes for a request identifier or a hash is read back
  by the receipt code as the same 32 bytes.\<close>

lemma parseHash_hashHex: "parseHash (hashHex h) = Some h"
  by (rule hashHex_read)

lemma hashHex_inj: "hashHex a = hashHex b \<longleftrightarrow> a = b"
  by (metis hashHex_read option.inject)

section \<open>Addresses\<close>

lemma address_bytes_inj:
  assumes "address_bytes a = address_bytes b"
  shows "a = b"
proof (rule bit_word_eqI)
  fix n assume n: "n < LENGTH(160)"
  define i where "i = 19 - n div 8"
  have "n = 8 * (n div 8) + n mod 8" "n div 8 \<le> 19" "n mod 8 < 8"
    using n by simp_all
  then have i: "i < 20" "152 - 8 * i + n mod 8 = n" "n mod 8 < 8"
    unfolding i_def by linarith+
  have "bit (address_bytes x ! i) (n mod 8) = bit x n" for x :: address
    using i by (simp add: address_bytes_def bit_ucast_iff bit_drop_bit_eq del: upt_Suc)
  with assms show "bit a n = bit b n" by metis
qed

lemma lower_hex_digit: "n < 16 \<Longrightarrow> lower_char (hex_digits ! n) = hex_digits ! n"
proof -
  have "list_all (\<lambda>n. lower_char (hex_digits ! n) = hex_digits ! n) [0..<16]" by code_simp
  then show "n < 16 \<Longrightarrow> lower_char (hex_digits ! n) = hex_digits ! n" by (simp add: list_all_iff)
qed

lemma to_lower_hex: "to_lower (concat (map byte_hex bs)) = concat (map byte_hex bs)"
  by (induction bs) (simp_all add: to_lower_def byte_hex_def lower_hex_digit nibbles)

lemma addressHex_lower: "to_lower (addressHex a) = addressHex a"
proof -
  have "to_lower ''0x'' = ''0x''" by code_simp
  moreover have "to_lower (s @ t) = to_lower s @ to_lower t" for s t by (simp add: to_lower_def)
  ultimately show ?thesis by (simp only: addressHex_def to_lower_hex)
qed

lemma addressHex_inj: "addressHex a = addressHex b \<longleftrightarrow> a = b"
  by (metis addressHex_def append_same_eq hex_decode_encode option.inject address_bytes_inj same_append_eq)

lemma equal_fold_addressHex: "equal_fold (addressHex a) (addressHex b) \<longleftrightarrow> a = b"
  by (simp add: equal_fold_def addressHex_lower addressHex_inj)

text \<open>A concrete instance of the library, for the examples of later theories.\<close>

definition toy_hex :: string where
  "toy_hex = ''0x'' @ replicate 64 CHR ''1''"

definition toy_eth :: eth where
  "toy_eth = \<lparr>eth_keccak = (\<lambda>_. 1), eth_HashHex = (\<lambda>_. toy_hex), eth_AddressHex = addressHex,
     eth_IsHexAddress = (\<lambda>_. True), eth_HexToHash = (\<lambda>_. 1), eth_HexToAddress = (\<lambda>_. 1)\<rparr>"

end
