(* ===== verification/RoutingStore.thy ===== *)
theory RoutingStore
  imports LedgerInv Router Messages Hex
begin

text \<open>
  The provider side of the store (\<^verbatim>\<open>server/internal/store/inference.go\<close> and
  \<^verbatim>\<open>signers.go\<close>): how a provider's announced capacity becomes rows of
  \<^verbatim>\<open>provider_routing_state\<close>, and how these rows become the router's candidates.
\<close>

section \<open>Evidence and rates\<close>

definition normalizedEvidence :: "string \<Rightarrow> string \<Rightarrow> string \<Rightarrow> string \<Rightarrow> string \<times> string \<times> string" where
  "normalizedEvidence kind digest metering model =
     (let (kind, digest) = (if kind = [] \<or> digest = [] then (''provider_claimed'', model) else (kind, digest));
          metering = (if metering = [] then ''tokens_and_compute'' else metering)
      in (kind, digest, metering))"

definition runtimeEvidenceEligible :: "string \<Rightarrow> u64 \<Rightarrow> offerCapacity \<Rightarrow> bool" where
  "runtimeEvidenceEligible previousDigest previousVersion offered \<longleftrightarrow>
     previousDigest = [] \<or> previousDigest = oc_Model offered \<or> previousDigest = oc_EvidenceDigest offered
     \<or> oc_PriceVersion offered > previousVersion"

definition meteringRatesEligible :: "string \<Rightarrow> string \<Rightarrow> string \<Rightarrow> bool" where
  "meteringRatesEligible mode input output \<longleftrightarrow> mode \<noteq> ''compute_only'' \<or> input = ''0'' \<and> output = ''0''"

definition routingRates :: "string \<Rightarrow> string \<Rightarrow> string \<Rightarrow> string \<Rightarrow> string option" where
  "routingRates mode input output compute =
     (if \<not> ValidRate input \<or> \<not> ValidRate output \<or> \<not> ValidRate compute \<or> \<not> meteringRatesEligible mode input output
      then None
      else case SumRates input output compute of Inl _ \<Rightarrow> None | Inr maximum \<Rightarrow> Some maximum)"

section \<open>Routing state\<close>

record routingState =
  rt_MachineID :: string
  rt_OfferID :: string
  rt_Model :: string
  rt_BackendKind :: string
  rt_EvidenceKind :: string
  rt_EvidenceDigest :: string
  rt_MeteringMode :: string
  rt_Capabilities :: "string list"
  rt_PriceVersion :: u64
  rt_MaximumCost :: u64
  rt_LatencyMilliseconds :: u64
  rt_ConfirmedBond :: bool
  rt_Healthy :: bool
  rt_Capacity :: u32
  rt_SuccessBasisPoints :: u16
  rt_Reputation :: u64
  rt_InputPerMillion :: u64
  rt_OutputPerMillion :: u64
  rt_ComputePerSecond :: u64

text \<open>\<^verbatim>\<open>crypto.Keccak256Hash([]byte(s)).Hex()\<close>\<close>

definition keccak_hex :: "eth \<Rightarrow> string \<Rightarrow> string" where
  "keccak_hex G s = eth_HashHex G (eth_keccak G (text_bytes s))"

definition int4_arg :: "u32 \<Rightarrow> int result" where
  "int4_arg w = (if uint w < 2 ^ 31 then Inr (uint w) else Inl (ErrText ''value out of range for integer''))"

definition upsert_routing :: "routing_row \<Rightarrow> (routing_row \<Rightarrow> routing_row) \<Rightarrow> db \<Rightarrow> db result" where
  "upsert_routing row merge db =
     and_then (insert_or_update
         (routing_check row \<and> has_key ma_id (ro_machine_id row) (machines db)
          \<and> has_key offer_key (ro_offer_id row, ro_price_version row) (offers db))
         routing_check routing_key row merge (routing db))
       (\<lambda>t. Inr (db\<lparr>routing := t\<rparr>))"

definition routing_row_of :: "eth \<Rightarrow> int \<Rightarrow> routingState \<Rightarrow> routing_row result" where
  "routing_row_of G now st =
     (let capabilities = sort (rt_Capabilities st);
          (kind, digest, metering) =
            normalizedEvidence (rt_EvidenceKind st) (rt_EvidenceDigest st) (rt_MeteringMode st) (rt_Model st)
      in
     and_then (int8_arg (rt_PriceVersion st)) (\<lambda>version.
     and_then (int4_arg (rt_Capacity st)) (\<lambda>cap.
     and_then (numeric_arg (decimal (rt_MaximumCost st))) (\<lambda>cost.
     and_then (numeric_arg (decimal (rt_InputPerMillion st))) (\<lambda>input.
     and_then (numeric_arg (decimal (rt_OutputPerMillion st))) (\<lambda>output.
     and_then (numeric_arg (decimal (rt_ComputePerSecond st))) (\<lambda>compute.
     and_then (int8_arg (rt_LatencyMilliseconds st)) (\<lambda>latency.
     and_then (int8_arg (rt_Reputation st)) (\<lambda>reputation.
       Inr \<lparr>ro_machine_id = rt_MachineID st, ro_offer_id = rt_OfferID st, ro_model = rt_Model st,
         ro_backend_kind = Some (rt_BackendKind st), ro_capabilities = capabilities,
         ro_offer_hash = Some (keccak_hex G (rt_OfferID st)), ro_model_hash = Some (keccak_hex G (rt_Model st)),
         ro_capability_hash = Some (keccak_hex G (join_with CHR '','' capabilities)),
         ro_evidence_kind = kind, ro_evidence_digest = digest, ro_metering_mode = metering,
         ro_price_version = version, ro_confirmed_bond = rt_ConfirmedBond st, ro_healthy = rt_Healthy st,
         ro_capacity = cap, ro_maximum_cost = cost, ro_input_per_million = input,
         ro_output_per_million = output, ro_compute_per_second = compute, ro_latency_milliseconds = latency,
         ro_success_basis_points = uint (rt_SuccessBasisPoints st), ro_reputation = reputation,
         ro_updated_at = now\<rparr>)))))))))"

definition UpsertRoutingState :: "eth \<Rightarrow> faults \<Rightarrow> int \<Rightarrow> db \<Rightarrow> routingState \<Rightarrow> unit result \<times> db" where
  "UpsertRoutingState G flt now db st =
     exec_insert flt db (and_then (routing_row_of G now st) (\<lambda>row. upsert_routing row (\<lambda>_. row) db))"

section \<open>Candidates\<close>

text \<open>One row of the result set; costs beyond 64 bits saturate.\<close>

definition scan_candidate :: "routing_row \<Rightarrow> candidate result" where
  "scan_candidate r =
     (let maximum = int_string (ro_maximum_cost r);
          inputRate = int_string (ro_input_per_million r);
          outputRate = int_string (ro_output_per_million r);
          computeRate = int_string (ro_compute_per_second r)
      in case big_set_string maximum of
           None \<Rightarrow> Inl (ErrText ''invalid routing cost'')
         | Some maximumValue \<Rightarrow>
             if maximumValue < 0 then Inl (ErrText ''invalid routing cost'')
             else if \<not> ValidRate inputRate \<or> \<not> ValidRate outputRate \<or> \<not> ValidRate computeRate
               then Inl (ErrText ''invalid routing rate'')
             else Inr \<lparr>cd_MachineID = ro_machine_id r, cd_OfferID = ro_offer_id r, cd_Model = ro_model r,
               cd_Capabilities = ro_capabilities r, cd_ConfirmedBond = ro_confirmed_bond r,
               cd_Healthy = ro_healthy r, cd_Capacity = of_int (ro_capacity r),
               cd_MaximumCost = (if is_uint64 maximumValue then of_int maximumValue else - 1),
               cd_PriceVersion = of_int (ro_price_version r),
               cd_LatencyMilliseconds = of_int (ro_latency_milliseconds r),
               cd_SuccessBasisPoints = of_int (ro_success_basis_points r),
               cd_Reputation = of_int (ro_reputation r), cd_InputPerMillion = inputRate,
               cd_OutputPerMillion = outputRate, cd_ComputePerSecond = computeRate\<rparr>)"

fun candidates_loop :: "faults \<Rightarrow> nat \<Rightarrow> routing_row list \<Rightarrow> candidate list \<Rightarrow> candidate list result" where
  "candidates_loop flt k [] acc = stmt flt k (Inr acc)"
| "candidates_loop flt k (r # rs) acc =
     and_then (stmt flt k (scan_candidate r)) (\<lambda>c. candidates_loop flt (k + 1) rs (acc @ [c]))"

definition RoutingCandidates :: "faults \<Rightarrow> db \<Rightarrow> string \<Rightarrow> candidate list result" where
  "RoutingCandidates flt db model =
     and_then (stmt flt 0 (Inr (filter (\<lambda>r. ro_model r = model) (routing db)))) (\<lambda>rows.
       candidates_loop flt 1 rows [])"

section \<open>Announced capacity\<close>

definition executing :: "db \<Rightarrow> string \<Rightarrow> string \<Rightarrow> nat" where
  "executing db machineID offerID =
     count_rows (\<lambda>r. ir_released_at r = None \<and> exists_row (\<lambda>q. re_id q = ir_request_id r
         \<and> re_machine_id q = Some machineID \<and> re_offer_id q = Some offerID
         \<and> re_state q \<in> {''reserved'', ''offered'', ''accepted'', ''streaming''}) (requests db)) (reservations db)"

definition clear_capacity :: "int \<Rightarrow> string \<Rightarrow> db \<Rightarrow> db" where
  "clear_capacity now machineID db =
     db\<lparr>routing := update_rows (\<lambda>r. ro_machine_id r = machineID)
        (\<lambda>r. r\<lparr>ro_capacity := 0, ro_updated_at := now\<rparr>) (routing db)\<rparr>"

definition announce_offer :: "int \<Rightarrow> string \<Rightarrow> u32 \<Rightarrow> offerCapacity \<Rightarrow> db \<Rightarrow> db result" where
  "announce_offer now machineID available f db =
     and_then (int8_arg (oc_PriceVersion f)) (\<lambda>version.
     let free = max 0 ((if available = 0 then 0 else 1) - int (executing db machineID (oc_OfferID f)))
     in and_then (update_checked routing_check
          (\<lambda>r. ro_machine_id r = machineID \<and> ro_offer_id r = oc_OfferID f \<and> ro_price_version r = version)
          (\<lambda>r. r\<lparr>ro_capacity := free, ro_healthy := True, ro_updated_at := now\<rparr>) (routing db))
        (\<lambda>t. Inr (db\<lparr>routing := t\<rparr>)))"

fun update_offers :: "faults \<Rightarrow> nat \<Rightarrow> int \<Rightarrow> string \<Rightarrow> u32 \<Rightarrow> offerCapacity list \<Rightarrow> db \<Rightarrow> db result" where
  "update_offers flt k now machineID available [] db = Inr db"
| "update_offers flt k now machineID available (f # fs) db =
     and_then (stmt flt k (announce_offer now machineID available f db)) (\<lambda>db'.
       update_offers flt (k + 1) now machineID available fs db')"

definition UpdateProviderCapacity :: "faults \<Rightarrow> int \<Rightarrow> db \<Rightarrow> string \<Rightarrow> capacity \<Rightarrow> unit result \<times> db" where
  "UpdateProviderCapacity flt now db machineID cap = transact db (
     and_then (stmt flt 0 (Inr ())) (\<lambda>_.
     and_then (stmt flt 1 (Inr (clear_capacity now machineID db))) (\<lambda>db1.
     and_then (update_offers flt 3 now machineID (ca_Available cap) (ca_Offers cap) db1) (\<lambda>db2.
     stmt flt 2 (Inr ((), db2))))))"

section \<open>Reconciliation with the chain\<close>

definition signer_authorized :: "db \<Rightarrow> string \<Rightarrow> string \<Rightarrow> string \<Rightarrow> string \<Rightarrow> bool" where
  "signer_authorized db chain contract provider signer =
     exists_row (\<lambda>x. fst (cp_deployment x) = chain \<and> to_lower (snd (cp_deployment x)) = to_lower contract
       \<and> to_lower (cp_provider x) = to_lower provider \<and> to_lower (cp_signer x) = to_lower signer
       \<and> cp_allowed x) (chain_provider_signers db)"

definition ProviderSignerAllowed :: "faults \<Rightarrow> db \<Rightarrow> u64 \<Rightarrow> string \<Rightarrow> address \<Rightarrow> address \<Rightarrow> bool result" where
  "ProviderSignerAllowed flt db chainID contract provider signer =
     (let providerAddress = addressHex provider; signerAddress = addressHex signer
      in if equal_fold providerAddress signerAddress then Inr True
         else stmt flt 0 (and_then (int8_arg chainID) (\<lambda>_.
           Inr (signer_authorized db (decimal chainID) contract providerAddress signerAddress))))"

text \<open>The machine's wallet and signer, if the machine is active and has a signer.\<close>

definition machine_signer :: "db \<Rightarrow> string \<Rightarrow> (string \<times> string) result" where
  "machine_signer db machineID =
     and_then (select_one (\<lambda>m. ma_id m = machineID \<and> ma_revoked_at m = None \<and> ma_signer_address m \<noteq> None) (machines db)) (\<lambda>m.
     and_then (select_one (\<lambda>a. ac_id a = ma_account_id m) (accounts db)) (\<lambda>a.
     and_then (scan_text (ma_signer_address m)) (\<lambda>signer. Inr (ac_wallet_address a, signer))))"

text \<open>\<^verbatim>\<open>INSERT INTO backends ... ON CONFLICT (machine_id,kind,model) DO UPDATE SET enabled=true RETURNING id\<close>\<close>

definition enable_backend :: "backend_row \<Rightarrow> db \<Rightarrow> (string \<times> db) result" where
  "enable_backend b db =
     (case find (\<lambda>x. backend_unique x = backend_unique b) (backends db) of
        Some x \<Rightarrow> Inr (be_id x, db\<lparr>backends := update_rows (\<lambda>y. be_id y = be_id x) (\<lambda>y. y\<lparr>be_enabled := True\<rparr>) (backends db)\<rparr>)
      | None \<Rightarrow> and_then (insert_backend b db) (\<lambda>db'. Inr (be_id b, db')))"

text \<open>The on-chain offer with the bond of its provider, as decimal texts.\<close>

definition offer_matches :: "string \<Rightarrow> string \<Rightarrow> string \<Rightarrow> offerCapacity \<Rightarrow> int \<Rightarrow> chain_offer_row \<Rightarrow> chain_account_row \<Rightarrow> bool" where
  "offer_matches chain contract wallet offered version f a \<longleftrightarrow>
     ca_deployment a = co_deployment f \<and> to_lower (ca_address a) = to_lower (co_provider f)
     \<and> fst (co_deployment f) = chain \<and> to_lower (snd (co_deployment f)) = to_lower contract
     \<and> to_lower (co_provider f) = to_lower wallet \<and> co_offer_id f = oc_OfferHash offered
     \<and> co_version f = version \<and> co_model_hash f = oc_ModelHash offered
     \<and> co_capability_hash f = oc_CapabilityHash offered"

definition chain_offer :: "db \<Rightarrow> string \<Rightarrow> string \<Rightarrow> string \<Rightarrow> offerCapacity \<Rightarrow> int \<Rightarrow> (string \<times> string \<times> string \<times> string \<times> int) result" where
  "chain_offer db chain contract wallet offered version =
     and_then (select_one (\<lambda>(f, a). offer_matches chain contract wallet offered version f a)
         (List.product (chain_offers db) (chain_accounts db)))
       (\<lambda>(f, a). Inr (int_string (co_input_per_million f), int_string (co_output_per_million f),
          int_string (co_compute_per_second f), int_string (ca_provider_bond a), ca_bond_exit_available_at a))"

text \<open>The rates of an offer whose provider has a bond and is not leaving; otherwise the offer is skipped.\<close>

definition bonded_rates :: "(string \<times> string \<times> string \<times> string \<times> int) result \<Rightarrow> (string \<times> string \<times> string) option result" where
  "bonded_rates row =
     (case row of
        Inl e \<Rightarrow> if e = ErrNoRows then Inr None else Inl e
      | Inr (input, output, compute, bond, exit) \<Rightarrow>
          if bond = ''0'' \<or> exit \<noteq> 0 then Inr None else Inr (Some (input, output, compute)))"

definition insert_offer_once :: "offer_row \<Rightarrow> db \<Rightarrow> db result" where
  "insert_offer_once f db =
     and_then (insert_or_nothing (offer_check f \<and> has_key be_id (of_backend_id f) (backends db)) offer_key f (offers db))
       (\<lambda>(_, t). Inr (db\<lparr>offers := t\<rparr>))"

definition announced_hashes_ok :: "eth \<Rightarrow> offerCapacity \<Rightarrow> bool" where
  "announced_hashes_ok G offered \<longleftrightarrow> keccak_hex G (oc_OfferID offered) = oc_OfferHash offered
     \<and> keccak_hex G (oc_Model offered) = oc_ModelHash offered
     \<and> keccak_hex G (join_with CHR '','' (sort (oc_Capabilities offered))) = oc_CapabilityHash offered"

text \<open>The digest and version of the previous announcement; \<^verbatim>\<open>sql.ErrNoRows\<close> leaves them empty.\<close>

definition previous_evidence :: "db \<Rightarrow> string \<Rightarrow> string \<Rightarrow> (string \<times> u64) result" where
  "previous_evidence db machineID offerID =
     (case select_one (\<lambda>r. ro_machine_id r = machineID \<and> ro_offer_id r = offerID) (routing db) of
        Inl e \<Rightarrow> if e = ErrNoRows then Inr ([], 0) else Inl e
      | Inr r \<Rightarrow> Inr (ro_evidence_digest r, of_int (ro_price_version r)))"

definition reconciled_row ::
  "int \<Rightarrow> string \<Rightarrow> offerCapacity \<Rightarrow> int \<Rightarrow> int \<Rightarrow> int \<Rightarrow> int \<Rightarrow> int \<Rightarrow> int \<Rightarrow> routing_row" where
  "reconciled_row now machineID offered version available cost input output compute =
     (let (kind, digest, metering) = normalizedEvidence (oc_EvidenceKind offered) (oc_EvidenceDigest offered)
            (oc_MeteringMode offered) (oc_Model offered)
      in \<lparr>ro_machine_id = machineID, ro_offer_id = oc_OfferID offered, ro_model = oc_Model offered,
          ro_backend_kind = Some (oc_BackendKind offered), ro_capabilities = sort (oc_Capabilities offered),
          ro_offer_hash = Some (oc_OfferHash offered), ro_model_hash = Some (oc_ModelHash offered),
          ro_capability_hash = Some (oc_CapabilityHash offered), ro_evidence_kind = kind,
          ro_evidence_digest = digest, ro_metering_mode = metering, ro_price_version = version,
          ro_confirmed_bond = True, ro_healthy = True, ro_capacity = available, ro_maximum_cost = cost,
          ro_input_per_million = input, ro_output_per_million = output, ro_compute_per_second = compute,
          ro_latency_milliseconds = 0, ro_success_basis_points = 0, ro_reputation = 0, ro_updated_at = now\<rparr>)"

text \<open>On conflict the latency, success rate and reputation of the row stay.\<close>

definition merge_reconciled :: "routing_row \<Rightarrow> routing_row \<Rightarrow> routing_row" where
  "merge_reconciled row old = row\<lparr>ro_latency_milliseconds := ro_latency_milliseconds old,
     ro_success_basis_points := ro_success_basis_points old, ro_reputation := ro_reputation old\<rparr>"

text \<open>The statements that publish an eligible offer, from the insertion into \<^verbatim>\<open>offers\<close> on.\<close>

definition write_route ::
  "faults \<Rightarrow> nat \<Rightarrow> int \<Rightarrow> string \<Rightarrow> string \<Rightarrow> u32 \<Rightarrow> offerCapacity \<Rightarrow> string \<Rightarrow> rates3 \<Rightarrow> db \<Rightarrow> db result" where
  "write_route flt k now machineID backendID available offered maximumCost rates db1 =
     (case rates of (input, output, compute) \<Rightarrow>
     and_then (int8_arg (oc_PriceVersion offered)) (\<lambda>version.
     and_then (numeric_arg input) (\<lambda>i.
     and_then (numeric_arg output) (\<lambda>out.
     and_then (numeric_arg compute) (\<lambda>c.
     and_then (stmt flt (k) (insert_offer_once \<lparr>of_id = oc_OfferID offered, of_backend_id = backendID,
         of_version = version, of_input_per_million = i, of_output_per_million = out, of_compute_per_second = c\<rparr> db1)) (\<lambda>db2.
     and_then (if available > 0
               then stmt flt (k + 1) (Inr (if executing db2 machineID (oc_OfferID offered) > 0 then 0 else 1))
               else Inr 0) (\<lambda>free.
     and_then (numeric_arg maximumCost) (\<lambda>cost.
     let row = reconciled_row now machineID offered version free cost i out c
     in stmt flt (k + 2) (upsert_routing row (merge_reconciled row) db2)))))))))"

definition publish_offer ::
  "faults \<Rightarrow> nat \<Rightarrow> int \<Rightarrow> string \<Rightarrow> string \<Rightarrow> u32 \<Rightarrow> offerCapacity \<Rightarrow> rates3 option \<Rightarrow> db \<Rightarrow> db result" where
  "publish_offer flt k now machineID backendID available offered rates db1 =
     (case rates of
       None \<Rightarrow> Inr db1
     | Some (input, output, compute) \<Rightarrow>
        (case routingRates (snd (snd (normalizedEvidence (oc_EvidenceKind offered) (oc_EvidenceDigest offered)
              (oc_MeteringMode offered) (oc_Model offered)))) input output compute of
           None \<Rightarrow> Inr db1
         | Some maximumCost \<Rightarrow>
             write_route flt k now machineID backendID available offered maximumCost (input, output, compute) db1))"

definition reconcile_offer ::
  "eth \<Rightarrow> faults \<Rightarrow> nat \<Rightarrow> int \<Rightarrow> string \<Rightarrow> string \<Rightarrow> string \<Rightarrow> string \<Rightarrow> u32 \<Rightarrow> offerCapacity \<Rightarrow> db \<Rightarrow> db result" where
  "reconcile_offer G flt k now chain contract machineID wallet available offered db =
     (if oc_OfferHash offered = [] then Inr db
      else reject_if (\<not> announced_hashes_ok G offered) ErrIneligibleRoute (
     and_then (stmt flt k (previous_evidence db machineID (oc_OfferID offered))) (\<lambda>(previousDigest, previousVersion).
     if \<not> runtimeEvidenceEligible previousDigest previousVersion offered then Inr db
     else
     and_then (stmt flt (k + 1) (enable_backend \<lparr>be_id = ''backend:'' @ machineID @ '':'' @ oc_OfferID offered,
         be_machine_id = machineID, be_kind = oc_BackendKind offered, be_model = oc_Model offered, be_enabled = True\<rparr> db))
       (\<lambda>(backendID, db1).
     and_then (bonded_rates (stmt flt (k + 2) (and_then (int8_arg (oc_PriceVersion offered)) (\<lambda>version.
         chain_offer db1 chain contract wallet offered version)))) (\<lambda>rates.
     publish_offer flt (k + 3) now machineID backendID available offered rates db1)))))"

fun reconcile_offers ::
  "eth \<Rightarrow> faults \<Rightarrow> nat \<Rightarrow> int \<Rightarrow> string \<Rightarrow> string \<Rightarrow> string \<Rightarrow> string \<Rightarrow> u32 \<Rightarrow> offerCapacity list \<Rightarrow> db \<Rightarrow> db result" where
  "reconcile_offers G flt k now chain contract machineID wallet available [] db = Inr db"
| "reconcile_offers G flt k now chain contract machineID wallet available (f # fs) db =
     and_then (reconcile_offer G flt k now chain contract machineID wallet available f db) (\<lambda>db'.
       reconcile_offers G flt (k + 6) now chain contract machineID wallet available fs db')"

definition ReconcileProviderCapacity ::
  "eth \<Rightarrow> faults \<Rightarrow> int \<Rightarrow> db \<Rightarrow> string \<Rightarrow> capacity \<Rightarrow> u64 \<Rightarrow> string \<Rightarrow> unit result \<times> db" where
  "ReconcileProviderCapacity G flt now db machineID cap chainID contractAddress =
     (if \<not> is_ok (Capacity_Validate cap) then (Inl ErrIneligibleRoute, db)
      else transact db (
     and_then (stmt flt 0 (Inr ())) (\<lambda>_.
     and_then (stmt flt 1 (Inr (clear_capacity now machineID db))) (\<lambda>db1.
     and_then (stmt flt 2 (machine_signer db1 machineID)) (\<lambda>(wallet, signer).
     reject_if (\<not> equal_fold wallet signer
         \<and> stmt flt 3 (and_then (int8_arg chainID) (\<lambda>_.
             Inr (signer_authorized db1 (decimal chainID) contractAddress wallet signer))) \<noteq> Inr True)
       ErrIneligibleRoute (
     and_then (reconcile_offers G flt 5 now (decimal chainID) contractAddress machineID wallet
         (ca_Available cap) (ca_Offers cap) db1) (\<lambda>db2.
     stmt flt 4 (Inr ((), db2)))))))))"

section \<open>From rows to candidates\<close>

lemma candidates_loop_ok:
  "candidates_loop flt k rows acc = Inr cs \<Longrightarrow> c \<in> set cs \<Longrightarrow>
     c \<in> set acc \<or> (\<exists>r \<in> set rows. scan_candidate r = Inr c)"
  by (induction rows arbitrary: k acc) fastforce+

lemma scan_candidate_ok:
  "scan_candidate r = Inr c \<Longrightarrow> cd_MachineID c = ro_machine_id r \<and> cd_OfferID c = ro_offer_id r
     \<and> cd_Model c = ro_model r \<and> cd_ConfirmedBond c = ro_confirmed_bond r \<and> cd_Healthy c = ro_healthy r
     \<and> cd_Capacity c = of_int (ro_capacity r) \<and> cd_PriceVersion c = of_int (ro_price_version r)
     \<and> candidate_rates c = routing_rates r"
  by (auto simp: scan_candidate_def candidate_rates_def routing_rates_def Let_def split: if_splits)

lemma RoutingCandidates_ok:
  "RoutingCandidates flt db model = Inr cs \<Longrightarrow> c \<in> set cs \<Longrightarrow>
     \<exists>r \<in> set (routing db). ro_model r = model \<and> scan_candidate r = Inr c"
  using candidates_loop_ok [of flt 1 "filter (\<lambda>r. ro_model r = model) (routing db)" "[]" cs c]
  by (auto simp: RoutingCandidates_def)

lemma uint_of_int_range:
  "0 \<le> i \<Longrightarrow> i < 2 ^ LENGTH('a) \<Longrightarrow> uint (of_int i :: 'a :: len word) = i"
  by (simp add: unsigned_of_int take_bit_int_eq_self)


definition demo_route_candidate :: candidate where
  "demo_route_candidate = \<lparr>cd_MachineID = ''m'', cd_OfferID = ''o'', cd_Model = ''x'',
     cd_Capabilities = [''text''], cd_ConfirmedBond = True, cd_Healthy = True, cd_Capacity = 1,
     cd_MaximumCost = 9, cd_PriceVersion = 1, cd_LatencyMilliseconds = 0, cd_SuccessBasisPoints = 0,
     cd_Reputation = 0, cd_InputPerMillion = ''5'', cd_OutputPerMillion = ''5'', cd_ComputePerSecond = ''5''\<rparr>"

definition demo_route_request :: route_request where
  "demo_route_request = \<lparr>rq_Model = ''x'', rq_Capabilities = [''text''], rq_MaximumSpend = 9,
     rq_SessionBalance = 9, rq_PinMachineID = []\<rparr>"


section \<open>Announcements are backed by the chain\<close>

text \<open>
  A route is backed when an offer of the announcement describes it and the chain has that offer at
  the same version and rates, from a provider with a bond who has not asked to leave.
\<close>

definition backed_on_chain ::
  "eth \<Rightarrow> string \<Rightarrow> string \<Rightarrow> string \<Rightarrow> offerCapacity list \<Rightarrow> db \<Rightarrow> routing_row \<Rightarrow> bool" where
  "backed_on_chain G chain contract wallet announced db r \<longleftrightarrow>
     (\<exists>offered \<in> set announced. \<exists>f \<in> set (chain_offers db). \<exists>a \<in> set (chain_accounts db).
        ro_offer_id r = oc_OfferID offered \<and> announced_hashes_ok G offered
        \<and> offer_matches chain contract wallet offered (ro_price_version r) f a
        \<and> ro_input_per_million r = co_input_per_million f \<and> ro_output_per_million r = co_output_per_million f
        \<and> ro_compute_per_second r = co_compute_per_second f
        \<and> ca_provider_bond a \<noteq> 0 \<and> ca_bond_exit_available_at a = 0)"

text \<open>The loop keeps the chain tables and the backing of every route of the machine that has capacity.\<close>

definition reconcile_inv ::
  "eth \<Rightarrow> string \<Rightarrow> string \<Rightarrow> string \<Rightarrow> string \<Rightarrow> offerCapacity list \<Rightarrow> db \<Rightarrow> db \<Rightarrow> bool" where
  "reconcile_inv G chain contract machineID wallet announced db0 db \<longleftrightarrow>
     chain_offers db = chain_offers db0 \<and> chain_accounts db = chain_accounts db0
     \<and> (\<forall>r \<in> set (routing db). ro_machine_id r = machineID \<longrightarrow> 0 < ro_capacity r
          \<longrightarrow> backed_on_chain G chain contract wallet announced db0 r)"

lemma enable_backend_tables:
  "enable_backend b db = Inr (x, db') \<Longrightarrow>
     chain_offers db' = chain_offers db \<and> chain_accounts db' = chain_accounts db \<and> routing db' = routing db"
  by (auto simp: enable_backend_def insert_backend_def split: option.splits)

lemma insert_offer_once_tables:
  "insert_offer_once f db = Inr db' \<Longrightarrow>
     chain_offers db' = chain_offers db \<and> chain_accounts db' = chain_accounts db \<and> routing db' = routing db"
  by (auto simp: insert_offer_once_def)

lemma chain_offer_ok:
  assumes "chain_offer db chain contract wallet offered version = Inr (i, out, c, bond, exit)"
  shows "\<exists>f \<in> set (chain_offers db). \<exists>a \<in> set (chain_accounts db).
    offer_matches chain contract wallet offered version f a
    \<and> i = int_string (co_input_per_million f) \<and> out = int_string (co_output_per_million f)
    \<and> c = int_string (co_compute_per_second f) \<and> bond = int_string (ca_provider_bond a)
    \<and> exit = ca_bond_exit_available_at a"
  using assms by (auto simp: chain_offer_def dest!: select_one_Inr) blast

lemma bonded_rates_Some:
  "bonded_rates row = Inr (Some (i, out, c)) \<longleftrightarrow> (\<exists>bond. row = Inr (i, out, c, bond, 0) \<and> bond \<noteq> ''0'')"
  by (auto simp: bonded_rates_def split: sum.splits if_splits)

lemma numeric_arg_int_string: "numeric_arg (int_string i) = Inr j \<Longrightarrow> j = i"
  by (auto simp: numeric_arg_def split: if_splits)

lemma int_string_0: "int_string 0 = ''0''"
  by code_simp

lemma upsert_routing_ok:
  "upsert_routing row (merge_reconciled row) db = Inr db' \<Longrightarrow>
     chain_offers db' = chain_offers db \<and> chain_accounts db' = chain_accounts db
     \<and> (\<forall>r \<in> set (routing db'). r \<in> set (routing db) \<or> r = row \<or> (\<exists>old. r = merge_reconciled row old))"
  by (auto simp: upsert_routing_def insert_or_update_def set_update_rows split: if_splits)

lemma backed_on_chain_merge:
  "backed_on_chain G chain contract wallet announced db (merge_reconciled row old)
     = backed_on_chain G chain contract wallet announced db row"
  by (simp add: backed_on_chain_def merge_reconciled_def)

lemma reconciled_row_backed:
  assumes "offered \<in> set announced" "announced_hashes_ok G offered"
    "f \<in> set (chain_offers db)" "a \<in> set (chain_accounts db)"
    "offer_matches chain contract wallet offered version f a"
    "ca_provider_bond a \<noteq> 0" "ca_bond_exit_available_at a = 0"
  shows "backed_on_chain G chain contract wallet announced db
    (reconciled_row now machineID offered version free cost (co_input_per_million f)
      (co_output_per_million f) (co_compute_per_second f))"
  using assms by (auto simp: backed_on_chain_def reconciled_row_def split: prod.splits)

lemma write_route_ok:
  assumes "write_route flt k now machineID backendID available offered maximumCost (input, output, compute) db = Inr db'"
  shows "\<exists>i out c free cost. numeric_arg input = Inr i \<and> numeric_arg output = Inr out \<and> numeric_arg compute = Inr c
    \<and> chain_offers db' = chain_offers db \<and> chain_accounts db' = chain_accounts db
    \<and> (\<forall>r \<in> set (routing db'). r \<in> set (routing db) \<or> (\<exists>old.
         r \<in> {reconciled_row now machineID offered (uint (oc_PriceVersion offered)) free cost i out c,
               merge_reconciled (reconciled_row now machineID offered (uint (oc_PriceVersion offered)) free cost i out c) old}))"
proof -
  obtain i out c f db2 free cost where n: "numeric_arg input = Inr i" "numeric_arg output = Inr out" "numeric_arg compute = Inr c"
    and db2: "insert_offer_once f db = Inr db2"
    and up: "upsert_routing (reconciled_row now machineID offered (uint (oc_PriceVersion offered)) free cost i out c)
      (merge_reconciled (reconciled_row now machineID offered (uint (oc_PriceVersion offered)) free cost i out c)) db2 = Inr db'"
    using assms unfolding write_route_def by (auto simp: Let_def)
  let ?row = "reconciled_row now machineID offered (uint (oc_PriceVersion offered)) free cost i out c"
  have "chain_offers db' = chain_offers db \<and> chain_accounts db' = chain_accounts db"
    using upsert_routing_ok [OF up] insert_offer_once_tables [OF db2] by simp
  moreover have "\<forall>r \<in> set (routing db'). r \<in> set (routing db) \<or> (\<exists>old. r \<in> {?row, merge_reconciled ?row old})"
    using upsert_routing_ok [OF up] insert_offer_once_tables [OF db2] by simp
  ultimately show ?thesis using n by blast
qed

lemma publish_offer_cases:
  "publish_offer flt k now machineID backendID available offered rates db1 = Inr db' \<Longrightarrow>
     db' = db1 \<or> (\<exists>i out c m. rates = Some (i, out, c)
       \<and> write_route flt k now machineID backendID available offered m (i, out, c) db1 = Inr db')"
  by (cases rates) (auto simp: publish_offer_def split: option.splits)

lemma reconcile_offer_cases:
  assumes "reconcile_offer G flt k now chain contract machineID wallet available offered db = Inr db'"
  shows "db' = db \<or> (\<exists>backendID db1. enable_backend \<lparr>be_id = ''backend:'' @ machineID @ '':'' @ oc_OfferID offered,
         be_machine_id = machineID, be_kind = oc_BackendKind offered, be_model = oc_Model offered, be_enabled = True\<rparr> db = Inr (backendID, db1)
    \<and> (db' = db1 \<or> announced_hashes_ok G offered \<and> (\<exists>input output compute maximumCost bond.
         chain_offer db1 chain contract wallet offered (uint (oc_PriceVersion offered)) = Inr (input, output, compute, bond, 0)
         \<and> bond \<noteq> ''0''
         \<and> write_route flt (k + 3) now machineID backendID available offered maximumCost (input, output, compute) db1 = Inr db')))"
  using assms unfolding reconcile_offer_def
  by (auto simp: bonded_rates_Some split: if_splits dest!: publish_offer_cases)

lemma reconcile_offer_inv:
  assumes "reconcile_offer G flt k now chain contract machineID wallet available offered db = Inr db'"
    and inv: "reconcile_inv G chain contract machineID wallet announced db0 db" and "offered \<in> set announced"
  shows "reconcile_inv G chain contract machineID wallet announced db0 db'"
proof -
  have same: "reconcile_inv G chain contract machineID wallet announced db0 x"
    if "enable_backend b db = Inr (y, x)" for b y x
    using inv enable_backend_tables [OF that] by (simp add: reconcile_inv_def)
  from reconcile_offer_cases [OF assms(1)] show ?thesis
  proof (elim disjE exE conjE)
    fix y x input outp compute maximumCost bond
    assume en: "enable_backend \<lparr>be_id = ''backend:'' @ machineID @ '':'' @ oc_OfferID offered,
         be_machine_id = machineID, be_kind = oc_BackendKind offered, be_model = oc_Model offered, be_enabled = True\<rparr> db = Inr (y, x)"
      and ok: "announced_hashes_ok G offered"
      and co: "chain_offer x chain contract wallet offered (uint (oc_PriceVersion offered)) = Inr (input, outp, compute, bond, 0)"
      and bond: "bond \<noteq> ''0''"
      and wr: "write_route flt (k + 3) now machineID y available offered maximumCost (input, outp, compute) x = Inr db'"
    have x: "chain_offers x = chain_offers db0" "chain_accounts x = chain_accounts db0"
      using same [OF en] by (simp_all add: reconcile_inv_def)
    obtain f a where fa: "f \<in> set (chain_offers db0)" "a \<in> set (chain_accounts db0)"
        "offer_matches chain contract wallet offered (uint (oc_PriceVersion offered)) f a"
        "input = int_string (co_input_per_million f)" "outp = int_string (co_output_per_million f)"
        "compute = int_string (co_compute_per_second f)" "bond = int_string (ca_provider_bond a)"
        "ca_bond_exit_available_at a = 0"
      using chain_offer_ok [OF co] x by force
    obtain free cost where rows: "chain_offers db' = chain_offers x" "chain_accounts db' = chain_accounts x"
        "\<forall>r \<in> set (routing db'). r \<in> set (routing x) \<or> (\<exists>old.
           r \<in> {reconciled_row now machineID offered (uint (oc_PriceVersion offered)) free cost
                  (co_input_per_million f) (co_output_per_million f) (co_compute_per_second f),
                merge_reconciled (reconciled_row now machineID offered (uint (oc_PriceVersion offered)) free cost
                  (co_input_per_million f) (co_output_per_million f) (co_compute_per_second f)) old})"
      using write_route_ok [OF wr] fa(4-6) numeric_arg_int_string by metis
    have "ca_provider_bond a \<noteq> 0" using bond fa(7) int_string_0 by auto
    note backed = reconciled_row_backed [OF assms(3) ok fa(1-3) this fa(8), of now machineID]
    have "backed_on_chain G chain contract wallet announced db0 r"
      if r: "r \<in> set (routing db')" "ro_machine_id r = machineID" "0 < ro_capacity r" for r
    proof (cases "r \<in> set (routing x)")
      case True
      then show ?thesis using r(2,3) same [OF en] by (simp add: reconcile_inv_def)
    next
      case False
      then show ?thesis using rows(3) r(1) backed backed_on_chain_merge by blast
    qed
    with rows x show ?thesis by (simp add: reconcile_inv_def)
  qed (use inv same in auto)
qed

lemma reconcile_offers_inv:
  assumes "reconcile_offers G flt k now chain contract machineID wallet available gs db = Inr db'"
    "reconcile_inv G chain contract machineID wallet announced db0 db" "set gs \<subseteq> set announced"
  shows "reconcile_inv G chain contract machineID wallet announced db0 db'"
  using assms
proof (induction gs arbitrary: k db)
  case (Cons f fs)
  then obtain db1 where "reconcile_offer G flt k now chain contract machineID wallet available f db = Inr db1"
      "reconcile_offers G flt (k + 6) now chain contract machineID wallet available fs db1 = Inr db'"
    by auto
  moreover from this Cons.prems have "reconcile_inv G chain contract machineID wallet announced db0 db1"
    by (auto intro: reconcile_offer_inv)
  ultimately show ?case using Cons.IH Cons.prems(3) by auto
qed simp

text \<open>After a provider's capacity has been reconciled, a route of its machine that still has
  capacity is one the provider just announced with the right hashes, and the chain has the offer at
  the same version and the same rates, published by the machine's wallet, whose bond is not zero and
  not being withdrawn; every other route of the machine is closed.\<close>

lemma reconciled_routes_backed:
  assumes "ReconcileProviderCapacity G flt now db machineID cap chainID contract = (Inr (), db')"
    "machine_signer db machineID = Inr (wallet, signer)"
    "r \<in> set (routing db')" "ro_machine_id r = machineID" "0 < ro_capacity r"
  shows "backed_on_chain G (decimal chainID) contract wallet (ca_Offers cap) db r"
proof -
  let ?db1 = "clear_capacity now machineID db"
  have "machine_signer ?db1 machineID = machine_signer db machineID"
    by (simp add: machine_signer_def clear_capacity_def)
  then have "reconcile_offers G flt 5 now (decimal chainID) contract machineID wallet
      (ca_Available cap) (ca_Offers cap) ?db1 = Inr db'"
    using assms(1,2) by (auto simp: ReconcileProviderCapacity_def transact_ok split: if_splits)
  moreover have "reconcile_inv G (decimal chainID) contract machineID wallet (ca_Offers cap) db ?db1"
    by (auto simp: reconcile_inv_def clear_capacity_def ball_update_rows)
  ultimately have "reconcile_inv G (decimal chainID) contract machineID wallet (ca_Offers cap) db db'"
    by (rule reconcile_offers_inv) simp
  with assms(3-5) show ?thesis by (simp add: reconcile_inv_def)
qed

definition demo_chain_db :: db where
  "demo_chain_db = demo_db\<lparr>
     machines := [\<lparr>ma_id = ''m'', ma_account_id = ''a'', ma_name = ''n'', ma_revoked_at = None, ma_signer_address = Some ''w''\<rparr>],
     chain_offers := [\<lparr>co_deployment = (''1'', ''c''), co_provider = ''w'', co_offer_id = toy_hex, co_version = 1,
       co_model_hash = toy_hex, co_capability_hash = toy_hex, co_input_per_million = 5,
       co_output_per_million = 5, co_compute_per_second = 5\<rparr>],
     chain_accounts := [\<lparr>ca_deployment = (''1'', ''c''), ca_address = ''w'', ca_customer_balance = 0,
       ca_provider_bond = 2, ca_claimable = 0, ca_bond_exit_available_at = 0\<rparr>]\<rparr>"

definition demo_capacity :: capacity where
  "demo_capacity = \<lparr>ca_Available = 1, ca_Offers = [\<lparr>oc_OfferID = ''o'', oc_Model = ''x'', oc_PriceVersion = 1,
     oc_BackendKind = ''k'', oc_OfferHash = toy_hex, oc_ModelHash = toy_hex, oc_CapabilityHash = toy_hex,
     oc_Capabilities = [''text''], oc_EvidenceKind = [], oc_EvidenceDigest = [], oc_MeteringMode = []\<rparr>]\<rparr>"

lemma reconciled_routes_backed_witness:
  "\<exists>r \<in> set (routing (snd (ReconcileProviderCapacity toy_eth no_faults 7 demo_chain_db ''m'' demo_capacity 1 ''c''))).
     0 < ro_capacity r \<and> backed_on_chain toy_eth (decimal 1) ''c'' ''w'' (ca_Offers demo_capacity) demo_chain_db r"
proof -
  let ?out = "ReconcileProviderCapacity toy_eth no_faults 7 demo_chain_db ''m'' demo_capacity 1 ''c''"
  have "fst ?out = Inr ()" by code_simp
  then have run: "?out = (Inr (), snd ?out)" by (metis prod.collapse)
  have "machine_signer demo_chain_db ''m'' = Inr (''w'', ''w'')" by code_simp
  note backed = reconciled_routes_backed [OF run this]
  have "list_ex (\<lambda>r. ro_machine_id r = ''m'' \<and> 0 < ro_capacity r) (routing (snd ?out))" by code_simp
  with backed show ?thesis by (auto simp: list_ex_iff)
qed

text \<open>The broker accepts a receipt signer when it is the provider itself, compared as addresses and
  not as text, or when the chain index has the pair as allowed.\<close>

lemma signer_allowed_iff:
  "ProviderSignerAllowed no_faults db chainID contract provider signer =
     (if provider = signer then Inr True
      else if uint chainID < 2 ^ 63
        then Inr (signer_authorized db (decimal chainID) contract (addressHex provider) (addressHex signer))
      else Inl (ErrText ''value out of range for bigint''))"
  by (simp add: ProviderSignerAllowed_def Let_def equal_fold_addressHex int8_arg_def)

end
