(* ===== verification/ReceiptStore.thy ===== *)
theory ReceiptStore
  imports LedgerInv Hex
begin

text \<open>
  Receipts: \<^verbatim>\<open>PrepareReceipt\<close> of \<^verbatim>\<open>server/internal/store/receipt.go\<close>. It prices the
  recorded usage at the rates of the on-chain offer, narrows the hold to that charge and gives the
  receipt the next nonce of the provider.
\<close>

section \<open>The operation\<close>

record receiptDomain =
  rd_ChainID :: u64
  rd_ContractAddress :: string
  rd_SettlementSigner :: string
  rd_FeeBasisPoints :: u16
  rd_FeeVersion :: u64

text \<open>The joined row that the receipt is made from.\<close>

record prepared =
  pr_proposal :: proposal_row
  pr_customer :: string
  pr_provider :: string
  pr_signer :: string
  pr_maximum :: string

definition joined_proposal :: "db \<Rightarrow> string \<Rightarrow> prepared result" where
  "joined_proposal db requestID =
     and_then (select_one (\<lambda>x. pp_request_id x = requestID) (proposals db)) (\<lambda>rp.
     and_then (select_one (\<lambda>x. re_id x = pp_request_id rp \<and> re_state x = ''completed'') (requests db)) (\<lambda>r.
     and_then (select_one (\<lambda>x. se_id x = pp_session_id rp) (sessions db)) (\<lambda>se.
     and_then (select_one (\<lambda>x. ac_id x = se_account_id se) (accounts db)) (\<lambda>c.
     and_then (select_one (\<lambda>x. ma_id x = pp_machine_id rp \<and> ma_revoked_at x = None) (machines db)) (\<lambda>m.
     and_then (select_one (\<lambda>x. ac_id x = ma_account_id m) (accounts db)) (\<lambda>p.
     and_then (scan_text (ma_signer_address m)) (\<lambda>signer.
     and_then (scan_text (map_option int_string (re_maximum_spend r))) (\<lambda>maximum.
       Inr \<lparr>pr_proposal = rp, pr_customer = ac_wallet_address c, pr_provider = ac_wallet_address p,
         pr_signer = signer, pr_maximum = maximum\<rparr>))))))))"

definition request_hashes :: "db \<Rightarrow> string \<Rightarrow> (string \<times> string \<times> string) result" where
  "request_hashes db requestID =
     and_then (select_one (\<lambda>x. re_id x = requestID) (requests db)) (\<lambda>r.
     and_then (scan_text (re_offer_hash r)) (\<lambda>offerHash.
     and_then (scan_text (re_model_hash r)) (\<lambda>modelHash.
     and_then (scan_text (re_capability_hash r)) (\<lambda>capabilityHash. Inr (offerHash, modelHash, capabilityHash)))))"

definition onchain_rates :: "eth \<Rightarrow> db \<Rightarrow> receiptDomain \<Rightarrow> string \<Rightarrow> hash \<Rightarrow> int \<Rightarrow> hash \<Rightarrow> hash \<Rightarrow> rates3 result" where
  "onchain_rates G db domain provider offerID version modelHash capabilityHash =
     and_then (int8_arg (rd_ChainID domain)) (\<lambda>_.
     and_then (select_one (\<lambda>f. fst (co_deployment f) = decimal (rd_ChainID domain)
         \<and> to_lower (snd (co_deployment f)) = to_lower (rd_ContractAddress domain)
         \<and> to_lower (co_provider f) = to_lower provider \<and> co_offer_id f = eth_HashHex G offerID
         \<and> co_version f = version \<and> co_model_hash f = eth_HashHex G modelHash
         \<and> co_capability_hash f = eth_HashHex G capabilityHash) (chain_offers db)) (\<lambda>f.
       Inr (int_string (co_input_per_million f), int_string (co_output_per_million f),
         int_string (co_compute_per_second f))))"

text \<open>
  The update narrows the hold to \<open>amount\<close>; a hold of nothing is released. The statement reports how many rows
  it changed.
\<close>

definition narrow_hold :: "int \<Rightarrow> string \<Rightarrow> int \<Rightarrow> db \<Rightarrow> (nat \<times> db) result" where
  "narrow_hold now requestID amount db =
     (let P = (\<lambda>r. ir_request_id r = requestID \<and> amount \<le> ir_amount r)
      in and_then (update_checked reservation_check P
           (\<lambda>r. r\<lparr>ir_amount := amount,
              ir_released_at := (if amount = 0 then (case ir_released_at r of None \<Rightarrow> Some now | Some t \<Rightarrow> Some t) else None)\<rparr>)
           (reservations db)) (\<lambda>t. Inr (count_rows P (reservations db), db\<lparr>reservations := t\<rparr>)))"

definition max_nonce :: "string \<Rightarrow> nonce_row list \<Rightarrow> int" where
  "max_nonce provider tbl =
     foldr (\<lambda>n m. max (rn_nonce n) m) (filter (\<lambda>n. to_lower (rn_provider_address n) = to_lower provider) tbl) 0"

text \<open>The nonce of the request, or the next one of the provider.\<close>

definition take_nonce :: "faults \<Rightarrow> string \<Rightarrow> string \<Rightarrow> db \<Rightarrow> (int \<times> db) result" where
  "take_nonce flt provider requestID db =
     (case stmt flt 8 (select_one (\<lambda>n. rn_request_id n = requestID) (receipt_nonces db)) of
        Inr n \<Rightarrow> Inr (rn_nonce n, db)
      | Inl e \<Rightarrow>
          if e \<noteq> ErrNoRows then Inl e
          else and_then (stmt flt 9 (Inr (max_nonce provider (receipt_nonces db) + 1))) (\<lambda>nonce.
               and_then (stmt flt 10 (insert_nonce
                   \<lparr>rn_provider_address = provider, rn_nonce = nonce, rn_request_id = requestID\<rparr> db)) (\<lambda>db'.
               Inr (nonce, db'))))"

definition receipt_of ::
  "eth \<Rightarrow> receiptDomain \<Rightarrow> string \<Rightarrow> prepared \<Rightarrow> hash \<Rightarrow> hash \<Rightarrow> hash \<Rightarrow> u64 \<Rightarrow> u64 \<Rightarrow> u64 \<Rightarrow> receipt" where
  "receipt_of G domain requestID p offerID modelHash capabilityHash maximum charge nonce =
     \<lparr>rc_RequestID = eth_HexToHash G requestID, rc_SessionID = eth_HexToHash G (pp_session_id (pr_proposal p)),
      rc_Customer = eth_HexToAddress G (pr_customer p), rc_Provider = eth_HexToAddress G (pr_provider p),
      rc_SettlementSigner = eth_HexToAddress G (rd_SettlementSigner domain), rc_OfferID = offerID,
      rc_PriceVersion = of_int (pp_price_version (pr_proposal p)), rc_ModelHash = modelHash,
      rc_CapabilityHash = capabilityHash, rc_InputTokens = of_int (pp_input_tokens (pr_proposal p)),
      rc_OutputTokens = of_int (pp_output_tokens (pr_proposal p)),
      rc_ComputeMilliseconds = of_int (pp_compute_milliseconds (pr_proposal p)),
      rc_MaximumCharge = maximum, rc_TotalCharge = charge, rc_FeeBasisPoints = rd_FeeBasisPoints domain,
      rc_FeeVersion = rd_FeeVersion domain, rc_Status = ReceiptStatusCompleted,
      rc_CompletedAt = of_int (pp_completed_at (pr_proposal p)),
      rc_InputHash = BytesToHash (pp_input_hash (pr_proposal p)),
      rc_OutputHash = BytesToHash (pp_output_hash (pr_proposal p)), rc_Nonce = nonce\<rparr>"

text \<open>The part of the operation that only reads: the charge, its maximum and the parts of the receipt.\<close>

definition priced_proposal ::
  "eth \<Rightarrow> faults \<Rightarrow> db \<Rightarrow> string \<Rightarrow> receiptDomain \<Rightarrow> (prepared \<times> hash \<times> hash \<times> hash \<times> u64 \<times> u64) result" where
  "priced_proposal G flt db requestID domain =
     and_then (stmt flt 1 (joined_proposal db requestID)) (\<lambda>p.
     and_then (stmt flt 2 (request_hashes db requestID)) (\<lambda>(offerHashText, modelHashText, capabilityHashText).
     case (parseHash offerHashText, parseHash modelHashText, parseHash capabilityHashText) of
       (Some offerID, Some modelHash, Some capabilityHash) \<Rightarrow>
     and_then (stmt flt 3 (onchain_rates G db domain (pr_provider p) offerID (pp_price_version (pr_proposal p))
         modelHash capabilityHash)) (\<lambda>rates.
     and_then (exactCharge rates (of_int (pp_input_tokens (pr_proposal p))) (of_int (pp_output_tokens (pr_proposal p)))
         (of_int (pp_compute_milliseconds (pr_proposal p)))) (\<lambda>charge.
     (case big_set_string (pr_maximum p) of
        None \<Rightarrow> Inl ErrMaximumExceeded
      | Some maximumValue \<Rightarrow>
          if \<not> is_uint64 maximumValue \<or> charge > of_int maximumValue then Inl ErrMaximumExceeded
          else Inr (p, offerID, modelHash, capabilityHash, of_int maximumValue, charge))))
     | _ \<Rightarrow> Inl ErrInvalidReceipt))"

definition PrepareReceipt ::
  "eth \<Rightarrow> faults \<Rightarrow> int \<Rightarrow> db \<Rightarrow> string \<Rightarrow> receiptDomain \<Rightarrow> (receipt \<times> string \<times> string) result \<times> db" where
  "PrepareReceipt G flt now db requestID domain =
     (if rd_ChainID domain = 0 \<or> \<not> eth_IsHexAddress G (rd_ContractAddress domain)
         \<or> \<not> eth_IsHexAddress G (rd_SettlementSigner domain) \<or> rd_FeeVersion domain = 0
         \<or> rd_FeeBasisPoints domain > MaximumFeeBasisPoints
      then (Inl ErrInvalidReceipt, db)
      else transact db (
     and_then (stmt flt 0 (Inr ())) (\<lambda>_.
     and_then (priced_proposal G flt db requestID domain) (\<lambda>(p, offerID, modelHash, capabilityHash, maximum, charge).
     and_then (stmt flt 4 (Inr ())) (\<lambda>_.
     and_then (stmt flt 5 (and_then (numeric_arg (decimal charge)) (\<lambda>amount. narrow_hold now requestID amount db))) (\<lambda>(changed, db1).
     reject_if (changed \<noteq> 1) ErrMaximumExceeded (
     and_then (stmt flt 6 (Inr ())) (\<lambda>_.
     and_then (take_nonce flt (pr_provider p) requestID db1) (\<lambda>(nonce, db2).
     reject_if (Hash_IsZero (eth_HexToHash G requestID) \<or> Hash_IsZero (eth_HexToHash G (pp_session_id (pr_proposal p)))
         \<or> length (pp_input_hash (pr_proposal p)) \<noteq> 32 \<or> length (pp_output_hash (pr_proposal p)) \<noteq> 32) ErrInvalidReceipt (
     let receipt = receipt_of G domain requestID p offerID modelHash capabilityHash maximum charge (of_int nonce)
     in and_then (Receipt_Validate receipt) (\<lambda>_.
     stmt flt 7 (Inr ((receipt, pp_machine_id (pr_proposal p), pr_signer p), db2)))))))))))))"

section \<open>Effects\<close>

lemma PrepareReceipt_ok:
  assumes "PrepareReceipt G flt now db requestID domain = (Inr (rc, m, signer), db')"
  shows "\<exists>p offerID modelHash capabilityHash maximum charge nonce db1.
    priced_proposal G flt db requestID domain = Inr (p, offerID, modelHash, capabilityHash, maximum, charge)
    \<and> narrow_hold now requestID (uint charge) db = Inr (1, db1)
    \<and> take_nonce flt (pr_provider p) requestID db1 = Inr (nonce, db')
    \<and> rc = receipt_of G domain requestID p offerID modelHash capabilityHash maximum charge (of_int nonce)
    \<and> Receipt_Validate rc = Inr () \<and> m = pp_machine_id (pr_proposal p) \<and> signer = pr_signer p"
  using assms by (auto simp: PrepareReceipt_def transact_ok Let_def split: if_splits)

lemma priced_proposal_ok:
  assumes "priced_proposal G flt db requestID domain = Inr (p, offerID, modelHash, capabilityHash, maximum, charge)"
  shows "joined_proposal db requestID = Inr p \<and> charge \<le> maximum \<and> pr_maximum p = int_string (uint maximum)
    \<and> (\<exists>rates. onchain_rates G db domain (pr_provider p) offerID (pp_price_version (pr_proposal p)) modelHash capabilityHash = Inr rates
        \<and> exactCharge rates (of_int (pp_input_tokens (pr_proposal p))) (of_int (pp_output_tokens (pr_proposal p)))
            (of_int (pp_compute_milliseconds (pr_proposal p))) = Inr charge)"
proof -
  obtain maximumValue where "big_set_string (pr_maximum p) = Some maximumValue" "is_uint64 maximumValue"
      "\<not> charge > of_int maximumValue" "maximum = of_int maximumValue" "joined_proposal db requestID = Inr p"
      "\<exists>rates. onchain_rates G db domain (pr_provider p) offerID (pp_price_version (pr_proposal p)) modelHash capabilityHash = Inr rates
        \<and> exactCharge rates (of_int (pp_input_tokens (pr_proposal p))) (of_int (pp_output_tokens (pr_proposal p)))
            (of_int (pp_compute_milliseconds (pr_proposal p))) = Inr charge"
    using assms by (auto simp: priced_proposal_def split: option.splits if_splits)
  moreover from calculation(5) obtain i where "pr_maximum p = int_string i"
    by (auto simp: joined_proposal_def)
  ultimately show ?thesis by (auto simp: uint_of_int_u64 not_less)
qed

definition narrowed :: "int \<Rightarrow> int \<Rightarrow> reservation_row \<Rightarrow> reservation_row" where
  "narrowed now amount r = r\<lparr>ir_amount := amount,
     ir_released_at := (if amount = 0 then (case ir_released_at r of None \<Rightarrow> Some now | Some t \<Rightarrow> Some t) else None)\<rparr>"

lemma narrow_hold_ok:
  assumes "narrow_hold now requestID amount db = Inr (1, db1)" "distinct (map ir_request_id (reservations db))"
  shows "\<exists>r \<in> set (reservations db). ir_request_id r = requestID \<and> amount \<le> ir_amount r \<and> 0 \<le> amount
    \<and> db1 = db\<lparr>reservations := update_rows (\<lambda>x. ir_request_id x = requestID) (narrowed now amount) (reservations db)\<rparr>"
proof -
  let ?P = "\<lambda>r. ir_request_id r = requestID \<and> amount \<le> ir_amount r"
  have c: "count_rows ?P (reservations db) = 1"
    and chk: "\<forall>r \<in> set (reservations db). ?P r \<longrightarrow> 0 \<le> amount"
    and db1: "db1 = db\<lparr>reservations := update_rows ?P (narrowed now amount) (reservations db)\<rparr>"
    using assms(1) by (auto simp: narrow_hold_def narrowed_def [abs_def] reservation_check_def Let_def)
  from c obtain r where r: "r \<in> set (reservations db)" "?P r" using count_rows_one by blast
  then have "update_rows ?P (narrowed now amount) (reservations db)
      = update_rows (\<lambda>x. ir_request_id x = requestID) (narrowed now amount) (reservations db)"
    using assms(2) by (intro update_rows_by_key) auto
  with r chk db1 show ?thesis by auto
qed

lemma take_nonce_ok:
  assumes "take_nonce flt provider requestID db = Inr (nonce, db')"
  shows "(db' = db \<and> (\<exists>n \<in> set (receipt_nonces db). rn_request_id n = requestID \<and> rn_nonce n = nonce))
    \<or> (nonce = max_nonce provider (receipt_nonces db) + 1
       \<and> insert_nonce \<lparr>rn_provider_address = provider, rn_nonce = nonce, rn_request_id = requestID\<rparr> db = Inr db')"
  using assms
  by (auto simp: take_nonce_def dest!: select_one_Inr split: sum.splits if_splits)

section \<open>The hold after preparation\<close>

lemma take_nonce_tables:
  "take_nonce flt provider requestID db = Inr (nonce, db') \<Longrightarrow>
     sessions db' = sessions db \<and> requests db' = requests db \<and> reservations db' = reservations db
     \<and> proposals db' = proposals db \<and> accounts db' = accounts db \<and> machines db' = machines db
     \<and> chain_offers db' = chain_offers db \<and> outbox db' = outbox db"
  by (auto dest!: take_nonce_ok simp: insert_nonce_def)

lemma narrowed_simps [simp]:
  "ir_request_id (narrowed now a r) = ir_request_id r" "ir_session_id (narrowed now a r) = ir_session_id r"
  "ir_amount (narrowed now a r) = a"
  "ir_released_at (narrowed now a r) = None \<longleftrightarrow> a \<noteq> 0"
  by (auto simp: narrowed_def split: option.splits)

lemma narrowed_released: "ir_released_at (narrowed now a r) = Some t \<Longrightarrow> a = 0"
  by (auto simp: narrowed_def split: if_splits)

lemma joined_proposal_ok:
  "joined_proposal db requestID = Inr p \<Longrightarrow> pr_proposal p \<in> set (proposals db) \<and> pp_request_id (pr_proposal p) = requestID
     \<and> (\<exists>q \<in> set (requests db). re_id q = requestID \<and> re_state q = ''completed''
          \<and> (\<exists>m. re_maximum_spend q = Some m \<and> pr_maximum p = int_string m))"
  by (auto simp: joined_proposal_def dest!: select_one_Inr)

definition narrowed_db :: "int \<Rightarrow> string \<Rightarrow> int \<Rightarrow> db \<Rightarrow> db" where
  "narrowed_db now requestID amount db =
     db\<lparr>reservations := update_rows (\<lambda>x. ir_request_id x = requestID) (narrowed now amount) (reservations db)\<rparr>"

lemma narrowed_db_ok:
  assumes "ledger_ok db" "r \<in> set (reservations db)" "ir_request_id r = requestID" "amount \<le> ir_amount r" "0 \<le> amount"
  shows "ledger_ok (narrowed_db now requestID amount db)"
proof -
  let ?t = "update_rows (\<lambda>x. ir_request_id x = requestID) (narrowed now amount) (reservations db)"
  have keys: "map ir_request_id ?t = map ir_request_id (reservations db)"
    by (rule map_key_update_rows) simp
  have uniq: "x = r" if "x \<in> set (reservations db)" "ir_request_id x = requestID" for x
    using key_unique [of ir_request_id "reservations db" x r] that assms by (simp add: ledger_ok_def)
  have "\<forall>x \<in> set ?t. 0 \<le> ir_amount x \<and> hold_backed (narrowed_db now requestID amount db) x"
    unfolding ball_update_rows
  proof
    fix x assume x: "x \<in> set (reservations db)"
    then have "hold_backed db x" "0 \<le> ir_amount x" using assms(1) by (simp_all add: ledger_ok_def)
    then show "0 \<le> ir_amount (if ir_request_id x = requestID then narrowed now amount x else x)
        \<and> hold_backed (narrowed_db now requestID amount db) (if ir_request_id x = requestID then narrowed now amount x else x)"
      using assms(4,5) uniq [OF x]
      by (auto simp: hold_backed_def narrowed_db_def intro: order_trans)
  qed
  with keys assms(1) show ?thesis by (simp add: ledger_ok_def narrowed_db_def)
qed

text \<open>The hold of a completed request is active or empty, so narrowing it never locks more.\<close>

lemma narrowed_db_locked:
  assumes "ledger_ok db" "holds_live db" "r \<in> set (reservations db)" "ir_request_id r = requestID"
    "amount \<le> ir_amount r" "0 \<le> amount" "q \<in> set (requests db)" "re_id q = requestID" "re_state q = ''completed''"
  shows "locked_amount x (reservations (narrowed_db now requestID amount db)) \<le> locked_amount x (reservations db)"
proof -
  have "ir_released_at r \<noteq> None \<longrightarrow> ir_amount r = 0"
  proof -
    have "re_state q \<notin> set ended_states" using assms(9) by (simp add: ended_states_def)
    with assms(2-4,7,8) show ?thesis unfolding holds_live_def by metis
  qed
  then have "(if is_active x (narrowed now amount r) then ir_amount (narrowed now amount r) else 0)
      \<le> (if is_active x r then ir_amount r else 0)"
    using assms(5,6) by (auto simp: is_active_def)
  moreover have "y = r" if "y \<in> set (reservations db)" "ir_request_id y = requestID" for y
    using key_unique [of ir_request_id "reservations db" y r] that assms by (simp add: ledger_ok_def)
  ultimately show ?thesis
    unfolding locked_amount_def narrowed_db_def by (simp, intro sum_rows_update_mono) auto
qed

lemma int_string_inj: "int_string a = int_string b \<longleftrightarrow> a = b"
  by (metis big_set_string_int_string option.inject)

lemma prepare_effect:
  assumes "PrepareReceipt G flt now db requestID domain = (Inr (rc, m, signer), db')" "ledger_ok db"
  obtains r q where "r \<in> set (reservations db)" "ir_request_id r = requestID" "uint (rc_TotalCharge rc) \<le> ir_amount r"
    "q \<in> set (requests db)" "re_id q = requestID" "re_state q = ''completed''"
    "re_maximum_spend q = Some (uint (rc_MaximumCharge rc))"
    "same_ledger (narrowed_db now requestID (uint (rc_TotalCharge rc)) db) db'"
proof -
  obtain p offerID modelHash capabilityHash maximum charge nonce db1 where
      pr: "priced_proposal G flt db requestID domain = Inr (p, offerID, modelHash, capabilityHash, maximum, charge)"
    and hold: "narrow_hold now requestID (uint charge) db = Inr (1, db1)"
    and nonce: "take_nonce flt (pr_provider p) requestID db1 = Inr (nonce, db')"
    and rc: "rc = receipt_of G domain requestID p offerID modelHash capabilityHash maximum charge (of_int nonce)"
    using PrepareReceipt_ok [OF assms(1)] by blast
  have keys: "distinct (map ir_request_id (reservations db))" using assms(2) by (simp add: ledger_ok_def)
  obtain r where r: "r \<in> set (reservations db)" "ir_request_id r = requestID" "uint charge \<le> ir_amount r"
    and db1: "db1 = narrowed_db now requestID (uint charge) db"
    using narrow_hold_ok [OF hold keys] by (auto simp: narrowed_db_def)
  obtain q where q: "q \<in> set (requests db)" "re_id q = requestID" "re_state q = ''completed''"
      "re_maximum_spend q = Some (uint maximum)"
    using priced_proposal_ok [OF pr] joined_proposal_ok [of db requestID p] by (auto simp: int_string_inj)
  have "same_ledger db1 db'" using take_nonce_tables [OF nonce] by (simp add: same_ledger_def)
  moreover have "rc_TotalCharge rc = charge" "rc_MaximumCharge rc = maximum" by (simp_all add: rc receipt_of_def)
  ultimately show ?thesis using that [OF r(1,2) _ q(1-3)] r(3) q(4) db1 by simp
qed

section \<open>Properties\<close>

text \<open>C3: A prepared receipt is valid, charges exactly the price of the recorded usage at the rates of
  the on-chain offer it names, never more than the maximum the customer agreed to, and the hold of its
  request is then exactly that charge, active unless it is zero.\<close>

theorem prepared_receipt_exact:
  assumes "ledger_ok db" "PrepareReceipt G flt now db requestID domain = (Inr (rc, m, signer), db')"
  shows "Receipt_Validate rc = Inr () \<and> rc_TotalCharge rc \<le> rc_MaximumCharge rc
    \<and> (\<exists>f \<in> set (chain_offers db). co_offer_id f = eth_HashHex G (rc_OfferID rc)
         \<and> co_model_hash f = eth_HashHex G (rc_ModelHash rc) \<and> co_capability_hash f = eth_HashHex G (rc_CapabilityHash rc)
         \<and> uint (rc_TotalCharge rc) = metered_total (co_input_per_million f, co_output_per_million f, co_compute_per_second f)
             (rc_InputTokens rc) (rc_OutputTokens rc) (rc_ComputeMilliseconds rc))
    \<and> (\<exists>q \<in> set (requests db). re_id q = requestID \<and> re_maximum_spend q = Some (uint (rc_MaximumCharge rc)))
    \<and> (\<forall>r \<in> set (reservations db'). ir_request_id r = requestID \<longrightarrow>
         ir_amount r = uint (rc_TotalCharge rc) \<and> (ir_released_at r = None \<longleftrightarrow> rc_TotalCharge rc \<noteq> 0))"
proof -
  obtain p offerID modelHash capabilityHash maximum charge nonce where
      pr: "priced_proposal G flt db requestID domain = Inr (p, offerID, modelHash, capabilityHash, maximum, charge)"
    and rc: "rc = receipt_of G domain requestID p offerID modelHash capabilityHash maximum charge (of_int nonce)"
    and valid: "Receipt_Validate rc = Inr ()"
    using PrepareReceipt_ok [OF assms(2)] by blast
  obtain rates where rates: "onchain_rates G db domain (pr_provider p) offerID (pp_price_version (pr_proposal p)) modelHash capabilityHash = Inr rates"
      "exactCharge rates (of_int (pp_input_tokens (pr_proposal p))) (of_int (pp_output_tokens (pr_proposal p)))
         (of_int (pp_compute_milliseconds (pr_proposal p))) = Inr charge" "charge \<le> maximum"
    using priced_proposal_ok [OF pr] by blast
  then obtain f where f: "f \<in> set (chain_offers db)" "co_offer_id f = eth_HashHex G offerID"
      "co_model_hash f = eth_HashHex G modelHash" "co_capability_hash f = eth_HashHex G capabilityHash"
      "rates = (int_string (co_input_per_million f), int_string (co_output_per_million f), int_string (co_compute_per_second f))"
    by (auto simp: onchain_rates_def dest!: select_one_Inr)
  have rd: "readRate (int_string i) = Some j \<Longrightarrow> j = i" for i j
    by (simp add: readRate_def split: if_splits)
  have "uint charge = metered_total (co_input_per_million f, co_output_per_million f, co_compute_per_second f)
      (of_int (pp_input_tokens (pr_proposal p))) (of_int (pp_output_tokens (pr_proposal p))) (of_int (pp_compute_milliseconds (pr_proposal p)))"
    using rates(2) f(5) by (auto simp: receipt.cost_Inr_iff rates3_opt_Some dest!: rd)
  moreover obtain r q where "q \<in> set (requests db)" "re_id q = requestID"
      "re_maximum_spend q = Some (uint (rc_MaximumCharge rc))"
    and led: "same_ledger (narrowed_db now requestID (uint (rc_TotalCharge rc)) db) db'"
    using prepare_effect [OF assms(2,1)] by metis
  moreover have "\<forall>r \<in> set (reservations db'). ir_request_id r = requestID \<longrightarrow>
         ir_amount r = uint (rc_TotalCharge rc) \<and> (ir_released_at r = None \<longleftrightarrow> rc_TotalCharge rc \<noteq> 0)"
    using led by (simp add: same_ledger_def narrowed_db_def ball_update_rows uint_0_iff)
  ultimately show ?thesis
    using valid rates(3) f(1-4) by (auto simp: rc receipt_of_def)
qed

text \<open>Preparing a receipt, however often and with whatever faults, keeps the ledger intact and the
  sessions solvent: the hold it leaves is no larger than the one it found.\<close>

lemma prepare_keeps_solvency:
  assumes "ledger_ok db" "solvent db" "holds_live db" "PrepareReceipt G flt now db requestID domain = (res, db')"
  shows "ledger_ok db' \<and> solvent db' \<and> holds_live db'"
proof (cases res)
  case (Inl e)
  then have "db' = db" using assms(4) by (auto simp: PrepareReceipt_def transact_error split: if_splits)
  then show ?thesis using assms by simp
next
  case (Inr x)
  obtain rc m signer where x: "x = (rc, m, signer)" by (cases x)
  define a where "a = uint (rc_TotalCharge rc)"
  obtain r q where r: "r \<in> set (reservations db)" "ir_request_id r = requestID" "a \<le> ir_amount r" "0 \<le> a"
    and q: "q \<in> set (requests db)" "re_id q = requestID" "re_state q = ''completed''"
    and led: "same_ledger (narrowed_db now requestID a db) db'"
    using prepare_effect [OF assms(4) [unfolded Inr x] assms(1)] by (metis a_def unsigned_greater_eq)
  have same: "ledger_ok db' = ledger_ok (narrowed_db now requestID a db) \<and> solvent db' = solvent (narrowed_db now requestID a db)"
    using led by (intro ledger_ok_frame) (simp_all add: same_ledger_def)
  have "solvent (narrowed_db now requestID a db)"
    using assms(2) narrowed_db_locked [OF assms(1,3) r q]
    unfolding solvent_def by (fastforce simp: narrowed_db_def intro: order_trans)
  moreover have "holds_live (narrowed_db now requestID a db)"
    using assms(3) by (auto simp: holds_live_def narrowed_db_def set_update_rows dest: narrowed_released)
  moreover have "holds_live db' = holds_live (narrowed_db now requestID a db)"
    using led by (simp add: holds_live_def same_ledger_def)
  ultimately show ?thesis using same narrowed_db_ok [OF assms(1) r] by blast
qed

section \<open>Nonces\<close>

text \<open>No request has two nonces and no provider, whatever the spelling of its address, uses one twice.\<close>

definition nonces_ok :: "db \<Rightarrow> bool" where
  "nonces_ok db \<longleftrightarrow> distinct (map rn_request_id (receipt_nonces db))
     \<and> distinct (map (\<lambda>n. (to_lower (rn_provider_address n), rn_nonce n)) (receipt_nonces db))"

lemma max_nonce_ge:
  "n \<in> set tbl \<Longrightarrow> to_lower (rn_provider_address n) = to_lower provider \<Longrightarrow> rn_nonce n \<le> max_nonce provider tbl"
  unfolding max_nonce_def by (induction tbl) auto

lemma take_nonce_unique:
  assumes "take_nonce flt provider requestID db = Inr (nonce, db')" "nonces_ok db"
  shows "nonces_ok db' \<and> (\<exists>n \<in> set (receipt_nonces db'). rn_request_id n = requestID \<and> rn_nonce n = nonce)"
  using take_nonce_ok [OF assms(1)]
proof (elim disjE conjE)
  assume new: "nonce = max_nonce provider (receipt_nonces db) + 1"
    and ins: "insert_nonce \<lparr>rn_provider_address = provider, rn_nonce = nonce, rn_request_id = requestID\<rparr> db = Inr db'"
  have "(to_lower provider, nonce) \<notin> (\<lambda>n. (to_lower (rn_provider_address n), rn_nonce n)) ` set (receipt_nonces db)"
  proof
    assume "(to_lower provider, nonce) \<in> (\<lambda>n. (to_lower (rn_provider_address n), rn_nonce n)) ` set (receipt_nonces db)"
    then obtain n where "n \<in> set (receipt_nonces db)" "to_lower (rn_provider_address n) = to_lower provider" "rn_nonce n = nonce"
      by auto
    with max_nonce_ge [of n "receipt_nonces db" provider] new show False by simp
  qed
  moreover have "requestID \<notin> rn_request_id ` set (receipt_nonces db)" "receipt_nonces db' = receipt_nonces db
      @ [\<lparr>rn_provider_address = provider, rn_nonce = nonce, rn_request_id = requestID\<rparr>]"
    using ins by (auto simp: insert_nonce_def)
  ultimately show ?thesis using assms(2) by (simp add: nonces_ok_def)
qed (use assms(2) in auto)


section \<open>Retries\<close>

lemma find_cong_tables:
  "joined_proposal (db\<lparr>reservations := t, receipt_nonces := u\<rparr>) r = joined_proposal db r"
  "request_hashes (db\<lparr>reservations := t, receipt_nonces := u\<rparr>) r = request_hashes db r"
  "onchain_rates G (db\<lparr>reservations := t, receipt_nonces := u\<rparr>) d pr h v mh ch = onchain_rates G db d pr h v mh ch"
  by (simp_all add: joined_proposal_def request_hashes_def onchain_rates_def)

lemma priced_proposal_again:
  assumes "priced_proposal G flt db requestID domain = Inr x"
  shows "priced_proposal G no_faults (db\<lparr>reservations := t, receipt_nonces := u\<rparr>) requestID domain = Inr x"
  using assms unfolding priced_proposal_def find_cong_tables
  by (auto split: option.splits if_splits)

lemma narrow_hold_again:
  assumes "distinct (map ir_request_id tbl)" "r \<in> set tbl" "ir_request_id r = requestID" "0 \<le> a"
    "reservations db = update_rows (\<lambda>x. ir_request_id x = requestID) (narrowed now a) tbl"
  shows "\<exists>db'. narrow_hold now' requestID a db = Inr (1, db') \<and> receipt_nonces db' = receipt_nonces db"
proof -
  let ?P = "\<lambda>r. ir_request_id r = requestID \<and> a \<le> ir_amount r"
  have "?P (if ir_request_id x = requestID then narrowed now a x else x) \<longleftrightarrow> ir_request_id x = ir_request_id r" for x
    using assms(3) by auto
  then have "count_rows ?P (reservations db) = 1"
    unfolding assms(5) count_rows_update using count_rows_key [OF assms(1,2)] by simp
  then show ?thesis
    using assms(4) by (simp add: narrow_hold_def Let_def reservation_check_def update_checked_def list_all_iff)
qed

lemma take_nonce_again:
  assumes "nonces_ok db" "n \<in> set (receipt_nonces db)" "rn_request_id n = requestID"
  shows "take_nonce no_faults provider requestID db = Inr (rn_nonce n, db)"
proof (cases "select_one (\<lambda>n. rn_request_id n = requestID) (receipt_nonces db)")
  case (Inl e)
  then show ?thesis using assms(2,3) by (auto simp: select_one_Inl)
next
  case (Inr n')
  then have "n' \<in> set (receipt_nonces db)" "rn_request_id n' = requestID"
    using select_one_Inr [OF Inr] by simp_all
  moreover have "distinct (map rn_request_id (receipt_nonces db))" using assms(1) by (simp add: nonces_ok_def)
  ultimately have "n' = n" using assms(2,3) key_unique by metis
  with Inr show ?thesis by (simp add: take_nonce_def)
qed

text \<open>What the operation checked besides the price.\<close>

definition receipt_guards :: "eth \<Rightarrow> receiptDomain \<Rightarrow> string \<Rightarrow> prepared \<Rightarrow> bool" where
  "receipt_guards G domain requestID p \<longleftrightarrow>
     \<not> (rd_ChainID domain = 0 \<or> \<not> eth_IsHexAddress G (rd_ContractAddress domain)
         \<or> \<not> eth_IsHexAddress G (rd_SettlementSigner domain) \<or> rd_FeeVersion domain = 0
         \<or> rd_FeeBasisPoints domain > MaximumFeeBasisPoints)
     \<and> \<not> (Hash_IsZero (eth_HexToHash G requestID) \<or> Hash_IsZero (eth_HexToHash G (pp_session_id (pr_proposal p)))
         \<or> length (pp_input_hash (pr_proposal p)) \<noteq> 32 \<or> length (pp_output_hash (pr_proposal p)) \<noteq> 32)"

lemma PrepareReceipt_guards:
  assumes "PrepareReceipt G flt now db requestID domain = (Inr y, db')"
    "priced_proposal G flt db requestID domain = Inr (p, x)"
  shows "receipt_guards G domain requestID p"
  using assms by (cases x) (auto simp: PrepareReceipt_def transact_ok Let_def receipt_guards_def split: if_splits)

lemma PrepareReceipt_intro:
  assumes "priced_proposal G no_faults db requestID domain = Inr (p, offerID, modelHash, capabilityHash, maximum, charge)"
    "narrow_hold now requestID (uint charge) db = Inr (1, db1)"
    "take_nonce no_faults (pr_provider p) requestID db1 = Inr (nonce, db2)"
    "receipt_guards G domain requestID p"
    "Receipt_Validate (receipt_of G domain requestID p offerID modelHash capabilityHash maximum charge (of_int nonce)) = Inr ()"
  shows "PrepareReceipt G no_faults now db requestID domain =
    (Inr (receipt_of G domain requestID p offerID modelHash capabilityHash maximum charge (of_int nonce),
       pp_machine_id (pr_proposal p), pr_signer p), db2)"
  using assms(4) unfolding receipt_guards_def
  by (simp add: PrepareReceipt_def assms(1-3,5) transact_def reject_if_def)

text \<open>Preparing a receipt can be retried: once it has succeeded, doing it again gives the same
  receipt, machine and signer, with the same nonce and charge, whatever the time of the retry.\<close>

lemma prepare_idempotent:
  assumes "ledger_ok db" "nonces_ok db" "PrepareReceipt G flt now db requestID domain = (Inr (rc, m, signer), db')"
  shows "fst (PrepareReceipt G no_faults now' db' requestID domain) = Inr (rc, m, signer)"
proof -
  obtain p offerID modelHash capabilityHash maximum charge nonce db1 where
      pr: "priced_proposal G flt db requestID domain = Inr (p, offerID, modelHash, capabilityHash, maximum, charge)"
    and hold: "narrow_hold now requestID (uint charge) db = Inr (1, db1)"
    and nonce: "take_nonce flt (pr_provider p) requestID db1 = Inr (nonce, db')"
    and rc: "rc = receipt_of G domain requestID p offerID modelHash capabilityHash maximum charge (of_int nonce)"
      "Receipt_Validate rc = Inr ()" "m = pp_machine_id (pr_proposal p)" "signer = pr_signer p"
    using PrepareReceipt_ok [OF assms(3)] by blast
  have keys: "distinct (map ir_request_id (reservations db))" using assms(1) by (simp add: ledger_ok_def)
  let ?t = "update_rows (\<lambda>x. ir_request_id x = requestID) (narrowed now (uint charge)) (reservations db)"
  obtain r where r: "r \<in> set (reservations db)" "ir_request_id r = requestID" and db1: "db1 = db\<lparr>reservations := ?t\<rparr>"
    using narrow_hold_ok [OF hold keys] by blast
  have "nonces_ok db1" using assms(2) by (simp add: db1 nonces_ok_def)
  then obtain n where n: "nonces_ok db'" "n \<in> set (receipt_nonces db')" "rn_request_id n = requestID" "rn_nonce n = nonce"
    using take_nonce_unique [OF nonce] by blast
  have "\<exists>u. db' = db\<lparr>reservations := ?t, receipt_nonces := u\<rparr>"
    using take_nonce_ok [OF nonce] by (auto simp: db1 insert_nonce_def intro: exI [of _ "receipt_nonces db"])
  then obtain u where db': "db' = db\<lparr>reservations := ?t, receipt_nonces := u\<rparr>" by blast
  have "0 \<le> uint charge" by simp
  from narrow_hold_again [OF keys r this, of db' now now'] obtain db2 where
      again: "narrow_hold now' requestID (uint charge) db' = Inr (1, db2)" "receipt_nonces db2 = receipt_nonces db'"
    by (auto simp: db')
  have "take_nonce no_faults (pr_provider p) requestID db2 = Inr (nonce, db2)"
    using take_nonce_again [of db2 n requestID "pr_provider p"] n again(2) by (simp add: nonces_ok_def)
  from PrepareReceipt_intro [OF _ again(1) this PrepareReceipt_guards [OF assms(3) pr]] priced_proposal_again [OF pr]
  show ?thesis using rc by (simp add: db')
qed

section \<open>Examples\<close>

definition demo_completed :: db where
  "demo_completed = demo_streaming\<lparr>
     machines := [\<lparr>ma_id = ''m'', ma_account_id = ''a'', ma_name = ''n'', ma_revoked_at = None, ma_signer_address = Some ''w''\<rparr>],
     requests := [(reserved_request 7 demo_reservation 3 demo_route)\<lparr>re_state := ''completed'',
       re_offer_hash := Some toy_hex, re_model_hash := Some toy_hex, re_capability_hash := Some toy_hex\<rparr>],
     proposals := [\<lparr>pp_request_id = ''r'', pp_session_id = ''s'', pp_machine_id = ''m'', pp_offer_id = ''o'',
       pp_model = ''x'', pp_price_version = 1, pp_input_tokens = 1, pp_output_tokens = 1, pp_compute_milliseconds = 0,
       pp_input_hash = replicate 32 1, pp_output_hash = replicate 32 1, pp_completed_at = 9\<rparr>],
     chain_offers := [\<lparr>co_deployment = (''1'', ''c''), co_provider = ''w'', co_offer_id = toy_hex, co_version = 1,
       co_model_hash = toy_hex, co_capability_hash = toy_hex, co_input_per_million = 5,
       co_output_per_million = 5, co_compute_per_second = 5\<rparr>]\<rparr>"

definition demo_domain :: receiptDomain where
  "demo_domain = \<lparr>rd_ChainID = 1, rd_ContractAddress = ''c'', rd_SettlementSigner = ''d'',
     rd_FeeBasisPoints = 100, rd_FeeVersion = 1\<rparr>"

definition demo_prepared :: "(receipt \<times> string \<times> string) result \<times> db" where
  "demo_prepared = PrepareReceipt toy_eth no_faults 9 demo_completed ''r'' demo_domain"

lemma demo_prepared_ok: "is_ok (fst demo_prepared)"
  by code_simp

lemma demo_run:
  "\<exists>rc m signer. PrepareReceipt toy_eth no_faults 9 demo_completed ''r'' demo_domain = (Inr (rc, m, signer), snd demo_prepared)"
  using demo_prepared_ok unfolding demo_prepared_def is_ok_iff by (metis prod.collapse)

lemma demo_completed_ok: "ledger_ok demo_completed" "solvent demo_completed" "holds_live demo_completed" "nonces_ok demo_completed"
  by (simp_all add: ledger_ok_def solvent_def holds_live_def nonces_ok_def hold_backed_def demo_completed_def demo_defs
      session_check_def session_states_def numeric_fits_def request_check_def request_states_def
      positive_or_null_def locked_amount_def is_active_def)

theorem prepared_receipt_exact_witness:
  "\<exists>rc m signer. fst demo_prepared = Inr (rc, m, signer) \<and> Receipt_Validate rc = Inr ()
     \<and> (\<forall>r \<in> set (reservations (snd demo_prepared)). ir_request_id r = ''r'' \<longrightarrow> ir_amount r = uint (rc_TotalCharge rc))"
proof -
  obtain rc m signer where
      run: "PrepareReceipt toy_eth no_faults 9 demo_completed ''r'' demo_domain = (Inr (rc, m, signer), snd demo_prepared)"
    using demo_run by blast
  then have "fst demo_prepared = Inr (rc, m, signer)" by (metis demo_prepared_def fst_conv)
  with prepared_receipt_exact [OF demo_completed_ok(1) run] show ?thesis by blast
qed


lemma prepare_idempotent_witness:
  "is_ok (fst demo_prepared)
    \<and> fst (PrepareReceipt toy_eth no_faults 77 (snd demo_prepared) ''r'' demo_domain) = fst demo_prepared"
proof -
  obtain rc m signer where
      run: "PrepareReceipt toy_eth no_faults 9 demo_completed ''r'' demo_domain = (Inr (rc, m, signer), snd demo_prepared)"
    using demo_run by blast
  then have "fst demo_prepared = Inr (rc, m, signer)" by (metis demo_prepared_def fst_conv)
  with prepare_idempotent [OF demo_completed_ok(1,4) run] demo_prepared_ok show ?thesis by simp
qed

end
