(* ===== verification/Settlement.thy ===== *)
theory Settlement
  imports LedgerInv Hex
begin

text \<open>
  Settlement: the client operations that the broker uses (\<^verbatim>\<open>server/internal/chain/client.go\<close>)
  and the queue of co-signed receipts (\<^verbatim>\<open>server/internal/chain/settlement.go\<close>). The Ethereum
  node, the contract bindings and the signing key are the record \<open>chainClient\<close>, whose functions stand
  for go-ethereum and for the deployed contract. Transactions are an abstract type.
\<close>

section \<open>The chain client\<close>

record ('k, 'tx) chainClient =
  cl_bound :: bool
  cl_chainID :: int
  cl_contractAddress :: address
  cl_SettlementSigner :: "address result"
  cl_FeeBasisPoints :: "u16 result"
  cl_FeeVersion :: "u64 result"
  cl_MinimumBond :: "int result"
  cl_HashReceipt :: "receipt \<Rightarrow> hash result"
  cl_key :: 'k
  cl_Sign :: "hash \<Rightarrow> 'k \<Rightarrow> bytes result"
  cl_options :: "unit result"
  cl_SettleReceipts :: "receipt list \<Rightarrow> bytes list \<Rightarrow> bytes list \<Rightarrow> 'tx result"
  cl_SendTransaction :: "'tx \<Rightarrow> unit result"
  cl_TransactionReceipt :: "'tx \<Rightarrow> unit result"
  cl_WaitMined :: "'tx \<Rightarrow> u64 result"
  cl_TxHash :: "'tx \<Rightarrow> string"
  cl_MarshalBinary :: "'tx \<Rightarrow> bytes result"
  cl_UnmarshalBinary :: "bytes \<Rightarrow> 'tx result"
  cl_ErrorText :: "go_error \<Rightarrow> string"

record receiptTerms =
  tm_ChainID :: u64
  tm_Contract :: address
  tm_SettlementSigner :: address
  tm_MinimumBond :: int
  tm_FeeBasisPoints :: u16
  tm_FeeVersion :: u64

definition ReceiptTerms :: "('k, 'tx) chainClient \<Rightarrow> receiptTerms result" where
  "ReceiptTerms c =
     (if \<not> cl_bound c \<or> \<not> is_uint64 (cl_chainID c)
      then Inl (ErrText ''contract is not bound to a supported chain'')
      else
     and_then (cl_SettlementSigner c) (\<lambda>settlementSigner.
     and_then (cl_FeeBasisPoints c) (\<lambda>feeBasisPoints.
     and_then (cl_FeeVersion c) (\<lambda>feeVersion.
     and_then (cl_MinimumBond c) (\<lambda>minimumBond.
       Inr \<lparr>tm_ChainID = of_int (cl_chainID c), tm_Contract = cl_contractAddress c,
         tm_SettlementSigner = settlementSigner, tm_MinimumBond = minimumBond,
         tm_FeeBasisPoints = feeBasisPoints, tm_FeeVersion = feeVersion\<rparr>)))))"

definition Client_SignReceipt :: "('k, 'tx) chainClient \<Rightarrow> receipt \<Rightarrow> bytes result" where
  "Client_SignReceipt c receipt =
     (if \<not> cl_bound c then Inl (ErrText ''contract is not bound'')
      else
     and_then (cl_HashReceipt c receipt) (\<lambda>digest.
     and_then (cl_Sign c digest (cl_key c)) (\<lambda>signature.
       if length signature \<le> 64 then Inl ErrPanic else Inr (signature[64 := signature ! 64 + 27]))))"

definition PrepareSettlement :: "('k, 'tx) chainClient \<Rightarrow> receipt list \<Rightarrow> bytes list \<Rightarrow> bytes list \<Rightarrow> 'tx result" where
  "PrepareSettlement c receipts providerSignatures settlementSignatures =
     (if \<not> cl_bound c then Inl (ErrText ''contract is not bound'')
      else and_then (cl_options c) (\<lambda>_. cl_SettleReceipts c receipts providerSignatures settlementSignatures))"

definition Client_wait :: "('k, 'tx) chainClient \<Rightarrow> 'tx \<Rightarrow> unit result" where
  "Client_wait c transaction =
     and_then (cl_WaitMined c transaction) (\<lambda>status.
       if status \<noteq> 1 then Inl ErrTransactionReverted else Inr ())"

text \<open>\<^verbatim>\<open>strings.Contains(strings.ToLower(err.Error()), "already known")\<close>\<close>

definition already_known :: "('k, 'tx) chainClient \<Rightarrow> go_error \<Rightarrow> bool" where
  "already_known c e \<longleftrightarrow> sublist ''already known'' (to_lower (cl_ErrorText c e))"

definition Broadcast :: "('k, 'tx) chainClient \<Rightarrow> 'tx \<Rightarrow> unit result" where
  "Broadcast c transaction =
     (case cl_SendTransaction c transaction of
        Inl e \<Rightarrow> if \<not> is_ok (cl_TransactionReceipt c transaction) \<and> \<not> already_known c e then Inl e
                else Client_wait c transaction
      | Inr _ \<Rightarrow> Client_wait c transaction)"

section \<open>The queue\<close>

record signedReceipt =
  sr_Receipt :: receipt
  sr_ProviderSignature :: bytes
  sr_SettlementSignature :: bytes

definition transitionSettlementRequest ::
  "faults \<Rightarrow> nat \<Rightarrow> int \<Rightarrow> string \<Rightarrow> string \<Rightarrow> string \<Rightarrow> db \<Rightarrow> db result" where
  "transitionSettlementRequest flt k now requestID from_state to_state db =
     (let P = (\<lambda>r. re_id r = requestID \<and> re_state r = from_state)
      in
     and_then (stmt flt k (set_request_state now P to_state db)) (\<lambda>db1.
     if count_rows P (requests db) = 1
     then stmt flt (k + 1) (Inr (insert_outbox requestID (''request.'' @ to_state) from_state to_state db1))
     else Inr db1))"

definition queue_check :: "queue_row \<Rightarrow> bool" where
  "queue_check r \<longleftrightarrow> sq_state r \<in> {''cosigned'', ''broadcasting'', ''settled'', ''failed''}"

definition Enqueue :: "faults \<Rightarrow> int \<Rightarrow> db \<Rightarrow> signedReceipt \<Rightarrow> unit result \<times> db" where
  "Enqueue flt now db sr =
     (let requestID = hashHex (rc_RequestID (sr_Receipt sr));
          row = \<lparr>sq_request_id = requestID, sq_receipt = sr_Receipt sr,
            sq_provider_signature = sr_ProviderSignature sr,
            sq_settlement_signature = sr_SettlementSignature sr, sq_state = ''cosigned'',
            sq_transaction_hash = None, sq_raw_transaction = None, sq_created_at = now, sq_updated_at = now\<rparr>
      in transact db (
     and_then (stmt flt 0 (Inr ())) (\<lambda>_.
     and_then (stmt flt 1 (insert_or_nothing (queue_check row) sq_request_id row (settlement_queue db))) (\<lambda>(inserted, q).
     let db1 = db\<lparr>settlement_queue := q\<rparr> in
     and_then (if inserted = 1 then transitionSettlementRequest flt 2 now requestID ''completed'' ''signed'' db1
               else Inr db1) (\<lambda>db2.
     stmt flt 4 (Inr ((), db2)))))))"

definition pendingBroadcast :: "('k, 'tx) chainClient \<Rightarrow> faults \<Rightarrow> db \<Rightarrow> (string \<times> 'tx option) result" where
  "pendingBroadcast c flt db =
     (case sort_key sq_updated_at (filter (\<lambda>r. sq_state r = ''broadcasting'' \<and> sq_raw_transaction r \<noteq> None) (settlement_queue db)) of
        [] \<Rightarrow> stmt flt 0 (Inr ([], None))
      | r # _ \<Rightarrow>
          and_then (stmt flt 0 (scan_text (sq_transaction_hash r))) (\<lambda>hash.
          case sq_raw_transaction r of
            None \<Rightarrow> Inl ErrPanic
          | Some raw \<Rightarrow> and_then (cl_UnmarshalBinary c raw) (\<lambda>transaction. Inr (hash, Some transaction))))"

definition cosigned_batch :: "nat \<Rightarrow> queue_row list \<Rightarrow> queue_row list" where
  "cosigned_batch limit tbl = take limit (sort_key sq_created_at (filter (\<lambda>r. sq_state r = ''cosigned'') tbl))"

definition mark_broadcasting :: "int \<Rightarrow> string \<Rightarrow> string \<Rightarrow> bytes \<Rightarrow> db \<Rightarrow> db" where
  "mark_broadcasting now requestID hash raw db =
     db\<lparr>settlement_queue := update_rows (\<lambda>r. sq_request_id r = requestID)
        (\<lambda>r. r\<lparr>sq_state := ''broadcasting'', sq_transaction_hash := Some hash,
           sq_raw_transaction := Some raw, sq_updated_at := now\<rparr>) (settlement_queue db)\<rparr>"

fun submit_loop :: "faults \<Rightarrow> nat \<Rightarrow> int \<Rightarrow> string \<Rightarrow> bytes \<Rightarrow> string list \<Rightarrow> db \<Rightarrow> db result" where
  "submit_loop flt k now hash raw [] db = Inr db"
| "submit_loop flt k now hash raw (requestID # ids) db =
     and_then (stmt flt k (Inr (mark_broadcasting now requestID hash raw db))) (\<lambda>db1.
     and_then (transitionSettlementRequest flt (k + 1) now requestID ''signed'' ''submitted'' db1) (\<lambda>db2.
     submit_loop flt (k + 3) now hash raw ids db2))"

text \<open>The transaction of \<^verbatim>\<open>SettleBatch\<close>: it ends with the batch committed and the transaction to send.\<close>

definition settle_transaction ::
  "('k, 'tx) chainClient \<Rightarrow> faults \<Rightarrow> int \<Rightarrow> nat \<Rightarrow> db \<Rightarrow> (string \<times> 'tx) result \<times> db" where
  "settle_transaction c flt now limit db = transact db (
     and_then (stmt flt 1 (Inr ())) (\<lambda>_.
     and_then (stmt flt 2 (Inr (cosigned_batch limit (settlement_queue db)))) (\<lambda>rows.
     reject_if (rows = []) ErrNoSignedReceipts (
     and_then (PrepareSettlement c (map sq_receipt rows) (map sq_provider_signature rows)
         (map sq_settlement_signature rows)) (\<lambda>transaction.
     let hash = cl_TxHash c transaction in
     and_then (cl_MarshalBinary c transaction) (\<lambda>raw.
     and_then (submit_loop flt 4 now hash raw (map sq_request_id rows) db) (\<lambda>db1.
     stmt flt 3 (Inr ((hash, transaction), db1)))))))))"

text \<open>
  The result is the hash with the error, if any, and the transactions handed to the node.
\<close>

definition SettleBatch ::
  "('k, 'tx) chainClient \<Rightarrow> faults \<Rightarrow> int \<Rightarrow> int \<Rightarrow> db \<Rightarrow> (string \<times> go_error option) \<times> db \<times> 'tx list" where
  "SettleBatch c flt now limit db =
     (if limit \<le> 0 then (([], Some ErrNoSignedReceipts), db, [])
      else case pendingBroadcast c flt db of
        Inl e \<Rightarrow> (([], Some e), db, [])
      | Inr (hash, Some transaction) \<Rightarrow>
          ((hash, case Broadcast c transaction of Inl e \<Rightarrow> Some e | Inr _ \<Rightarrow> None), db, [transaction])
      | Inr (_, None) \<Rightarrow>
          (case settle_transaction c flt now (nat limit) db of
             (Inl e, db') \<Rightarrow> (([], Some e), db', [])
           | (Inr (hash, transaction), db') \<Rightarrow>
               ((hash, case Broadcast c transaction of Inl e \<Rightarrow> Some e | Inr _ \<Rightarrow> None), db', [transaction])))"

section \<open>Effects\<close>

lemma transitionSettlementRequest_ok:
  assumes "transitionSettlementRequest flt k now requestID a b db = Inr db'" "distinct (map re_id (requests db))"
  shows "db' = (if \<exists>q \<in> set (requests db). re_id q = requestID \<and> re_state q = a
    then moved_db now requestID a b db else db)"
proof -
  let ?P = "\<lambda>r. re_id r = requestID \<and> re_state r = a"
  let ?f = "\<lambda>r. r\<lparr>re_state := b, re_updated_at := now\<rparr>"
  show ?thesis
  proof (cases "\<exists>q \<in> set (requests db). ?P q")
    case True
    then obtain q where q: "q \<in> set (requests db)" "?P q" by blast
    then have upd: "update_rows ?P ?f (requests db) = update_rows (\<lambda>r. re_id r = requestID) ?f (requests db)"
      using assms(2) by (intro update_rows_by_key) auto
    have "count_rows ?P (requests db) = count_rows (\<lambda>r. re_id r = re_id q) (requests db)"
      unfolding count_rows_def using q key_unique [OF assms(2)] by (intro arg_cong [of _ _ length] filter_cong) auto
    then have "count_rows ?P (requests db) = 1" using count_rows_key [OF assms(2) q(1)] by simp
    then have "db' = moved_db now requestID a b db"
      using assms(1) by (auto simp: transitionSettlementRequest_def Let_def moved_db_def upd)
    then show ?thesis using True by (simp only: if_True)
  next
    case False
    then have "count_rows ?P (requests db) = 0" "update_rows ?P ?f (requests db) = requests db"
      by (auto simp: count_rows_def filter_empty_conv intro: update_rows_id)
    then have "db' = db" using assms(1) by (auto simp: transitionSettlementRequest_def Let_def)
    then show ?thesis by (simp only: if_not_P [OF False])
  qed
qed

lemma settlement_moves:
  "transition_allowed ''completed'' ''signed''" "transition_allowed ''signed'' ''submitted''"
  "transition_allowed ''submitted'' ''settled''"
  by (simp_all add: transition_allowed_def transitions_def)

lemma transitionSettlementRequest_effect:
  assumes "transitionSettlementRequest flt k now requestID a b db = Inr db'" "ledger_ok db" "transition_allowed a b"
  shows "ledger_effect db db'"
proof -
  have "distinct (map re_id (requests db))" using assms(2) by (simp add: ledger_ok_def)
  note moved = transitionSettlementRequest_ok [OF assms(1) this]
  show ?thesis
  proof (cases "\<exists>q \<in> set (requests db). re_id q = requestID \<and> re_state q = a")
    case True
    then obtain q where "q \<in> set (requests db)" "re_id q = requestID" "re_state q = a" by blast
    then show ?thesis using ledger_effect.moved [of q db b db now] assms(3) moved True by simp
  next
    case False
    from moved [unfolded if_not_P [OF False]] show ?thesis by (simp add: ledger_effect.none)
  qed
qed

lemma queue_effect: "ledger_effect db (db\<lparr>settlement_queue := q\<rparr>)"
  by (rule ledger_effect.other) (simp_all add: same_ledger_def)

lemma Enqueue_effects:
  assumes "Enqueue flt now db sr = (res, db')" "ledger_ok db"
  shows "ledger_effect\<^sup>*\<^sup>* db db'"
proof (cases res)
  case (Inl e)
  then show ?thesis using assms(1) by (simp add: Enqueue_def Let_def transact_error)
next
  case (Inr u)
  let ?r = "hashHex (rc_RequestID (sr_Receipt sr))"
  obtain q where q: "db' = db\<lparr>settlement_queue := q\<rparr>
      \<or> transitionSettlementRequest flt 2 now ?r ''completed'' ''signed'' (db\<lparr>settlement_queue := q\<rparr>) = Inr db'"
    using assms(1) Inr by (auto simp: Enqueue_def Let_def transact_ok split: if_splits)
  have "ledger_ok (db\<lparr>settlement_queue := q\<rparr>)" using assms(2) ledger_effect_ok [OF queue_effect] by blast
  with q have "ledger_effect (db\<lparr>settlement_queue := q\<rparr>) db'"
    using transitionSettlementRequest_effect settlement_moves(1) ledger_effect.none by blast
  with queue_effect [of db q] show ?thesis by (meson converse_rtranclp_into_rtranclp r_into_rtranclp)
qed

lemma submit_loop_effects:
  "submit_loop flt k now hash raw ids db = Inr db' \<Longrightarrow> ledger_ok db \<Longrightarrow> ledger_effect\<^sup>*\<^sup>* db db'"
proof (induction ids arbitrary: k db)
  case (Cons requestID ids)
  let ?db1 = "mark_broadcasting now requestID hash raw db"
  obtain db2 where tr: "transitionSettlementRequest flt (k + 1) now requestID ''signed'' ''submitted'' ?db1 = Inr db2"
      "submit_loop flt (k + 3) now hash raw ids db2 = Inr db'"
    using Cons.prems(1) by auto
  have e1: "ledger_effect db ?db1" unfolding mark_broadcasting_def by (rule queue_effect)
  then have "ledger_ok ?db1" using Cons.prems(2) ledger_effect_ok by blast
  then have e2: "ledger_effect ?db1 db2" using transitionSettlementRequest_effect [OF tr(1)] settlement_moves(2) by blast
  then have "ledger_ok db2" using \<open>ledger_ok ?db1\<close> ledger_effect_ok by blast
  from Cons.IH [OF tr(2) this] e1 e2 show ?case by (meson converse_rtranclp_into_rtranclp)
qed simp

lemma settle_transaction_ok:
  assumes "settle_transaction c flt now limit db = (Inr (hash, tx), db')"
  shows "\<exists>raw. cl_MarshalBinary c tx = Inr raw \<and> hash = cl_TxHash c tx \<and> cosigned_batch limit (settlement_queue db) \<noteq> []
    \<and> PrepareSettlement c (map sq_receipt (cosigned_batch limit (settlement_queue db)))
        (map sq_provider_signature (cosigned_batch limit (settlement_queue db)))
        (map sq_settlement_signature (cosigned_batch limit (settlement_queue db))) = Inr tx
    \<and> submit_loop flt 4 now hash raw (map sq_request_id (cosigned_batch limit (settlement_queue db))) db = Inr db'"
  using assms by (auto simp: settle_transaction_def transact_ok Let_def)

lemma settle_transaction_error: "settle_transaction c flt now limit db = (Inl e, db') \<Longrightarrow> db' = db"
  by (simp add: settle_transaction_def transact_error)

lemma SettleBatch_cases:
  assumes "SettleBatch c flt now limit db = (out, db', txs)"
  shows "txs = [] \<and> db' = db
    \<or> (\<exists>hash tx. pendingBroadcast c flt db = Inr (hash, Some tx) \<and> db' = db \<and> txs = [tx])
    \<or> (\<exists>hash tx. settle_transaction c flt now (nat limit) db = (Inr (hash, tx), db') \<and> txs = [tx])"
proof (cases "limit \<le> 0")
  case False
  note run = assms [unfolded SettleBatch_def if_not_P [OF False]]
  show ?thesis
  proof (cases "pendingBroadcast c flt db")
    case (Inl e)
    with run show ?thesis by simp
  next
    case (Inr p)
    obtain hash t where p: "p = (hash, t)" by (cases p)
    show ?thesis
    proof (cases t)
      case (Some tx)
      with run Inr p show ?thesis by simp
    next
      case None
      obtain r db1 where st: "settle_transaction c flt now (nat limit) db = (r, db1)" by fastforce
      then show ?thesis
        using run Inr p None settle_transaction_error [of c flt now "nat limit" db] by (cases r) auto
    qed
  qed
qed (use assms in \<open>simp add: SettleBatch_def\<close>)

lemma SettleBatch_effects:
  assumes "SettleBatch c flt now limit db = (res, db', txs)" "ledger_ok db"
  shows "ledger_effect\<^sup>*\<^sup>* db db'"
proof (cases "db' = db")
  case False
  then obtain hash tx where "settle_transaction c flt now (nat limit) db = (Inr (hash, tx), db')"
    using SettleBatch_cases [OF assms(1)] by blast
  from settle_transaction_ok [OF this] submit_loop_effects [OF _ assms(2)] show ?thesis by blast
qed simp

text \<open>What submitting a batch does to the queue: every row of the batch, and no other.\<close>

lemma transition_queue:
  "transitionSettlementRequest flt k now requestID a b db = Inr db' \<Longrightarrow> settlement_queue db' = settlement_queue db"
  by (auto simp: transitionSettlementRequest_def Let_def insert_outbox_def split: if_splits)

definition broadcast_row :: "int \<Rightarrow> string \<Rightarrow> bytes \<Rightarrow> queue_row \<Rightarrow> queue_row" where
  "broadcast_row now hash raw r = r\<lparr>sq_state := ''broadcasting'', sq_transaction_hash := Some hash,
     sq_raw_transaction := Some raw, sq_updated_at := now\<rparr>"

lemma submit_loop_queue:
  "submit_loop flt k now hash raw ids db = Inr db' \<Longrightarrow>
     settlement_queue db' = update_rows (\<lambda>r. sq_request_id r \<in> set ids) (broadcast_row now hash raw) (settlement_queue db)"
proof (induction ids arbitrary: k db)
  case Nil
  then show ?case by (simp add: update_rows_def)
next
  case (Cons requestID ids)
  let ?db1 = "mark_broadcasting now requestID hash raw db"
  obtain db2 where tr: "transitionSettlementRequest flt (k + 1) now requestID ''signed'' ''submitted'' ?db1 = Inr db2"
      "submit_loop flt (k + 3) now hash raw ids db2 = Inr db'"
    using Cons.prems(1) by auto
  have "settlement_queue db2 = update_rows (\<lambda>r. sq_request_id r = requestID) (broadcast_row now hash raw) (settlement_queue db)"
    using transition_queue [OF tr(1)] by (simp add: mark_broadcasting_def broadcast_row_def [abs_def])
  then show ?case
    using Cons.IH [OF tr(2)] by (auto simp: update_rows_def broadcast_row_def)
qed

section \<open>Properties\<close>

text \<open>Queueing a signed receipt and submitting batches keep the ledger intact, the sessions solvent
  and the audit trail complete, whatever the chain client answers and whichever statements fail.\<close>

lemma settlement_keeps_ledger:
  assumes "ledger_safe db"
    "Enqueue flt now db sr = (res, db') \<or> (\<exists>txs. SettleBatch c flt now limit db = (out, db', txs))"
  shows "ledger_safe db'"
proof -
  have "ledger_ok db" using assms(1) by (simp add: ledger_safe_def)
  then have "ledger_effect\<^sup>*\<^sup>* db db'"
    using assms(2) Enqueue_effects SettleBatch_effects by metis
  from ledger_effects_safe [OF this assms(1)] show ?thesis .
qed

text \<open>C22: A settlement transaction reaches the node only after it is on record: every transaction that
  a call hands to the node is stored, in a form that decodes to it again, in a queue row marked as
  broadcasting, so a crash after the broadcast cannot lose or duplicate it.\<close>

theorem settlement_write_ahead:
  assumes "SettleBatch c flt now limit db = (out, db', txs)" "tx \<in> set txs"
    and "\<forall>tx raw. cl_MarshalBinary c tx = Inr raw \<longrightarrow> cl_UnmarshalBinary c raw = Inr tx"
  shows "\<exists>r \<in> set (settlement_queue db'). sq_state r = ''broadcasting''
    \<and> (\<exists>raw. sq_raw_transaction r = Some raw \<and> cl_UnmarshalBinary c raw = Inr tx)"
proof -
  consider (pending) hash where "pendingBroadcast c flt db = Inr (hash, Some tx)" "db' = db"
    | (fresh) hash where "settle_transaction c flt now (nat limit) db = (Inr (hash, tx), db')"
    using SettleBatch_cases [OF assms(1)] assms(2) by auto
  then show ?thesis
  proof cases
    case pending
    let ?rows = "filter (\<lambda>r. sq_state r = ''broadcasting'' \<and> sq_raw_transaction r \<noteq> None) (settlement_queue db)"
    obtain r rs where rs: "sort_key sq_updated_at ?rows = r # rs"
      using pending(1) by (cases "sort_key sq_updated_at ?rows") (auto simp: pendingBroadcast_def)
    from arg_cong [OF rs, of set] have "r \<in> set ?rows" by (simp only: set_sort) simp
    moreover have "\<exists>raw. sq_raw_transaction r = Some raw \<and> cl_UnmarshalBinary c raw = Inr tx"
      using pending(1) unfolding pendingBroadcast_def rs list.case by (cases "sq_raw_transaction r") auto
    ultimately show ?thesis using pending(2) by auto
  next
    case fresh
    let ?batch = "cosigned_batch (nat limit) (settlement_queue db)"
    obtain raw where raw: "cl_MarshalBinary c tx = Inr raw" "?batch \<noteq> []"
        "submit_loop flt 4 now hash raw (map sq_request_id ?batch) db = Inr db'"
      using settle_transaction_ok [OF fresh] by blast
    then obtain r where "r \<in> set ?batch" by (meson last_in_set)
    then have "r \<in> set (settlement_queue db)" by (auto simp: cosigned_batch_def dest!: in_set_takeD)
    then have "broadcast_row now hash raw r \<in> set (settlement_queue db')"
      using \<open>r \<in> set ?batch\<close> by (auto simp: submit_loop_queue [OF raw(3)] set_update_rows)
    with raw(1) assms(3) show ?thesis by (auto simp: broadcast_row_def intro!: bexI [of _ "broadcast_row now hash raw r"])
  qed
qed

text \<open>A batch takes receipts that wait for submission and only those: at most the limit, oldest
  first, each of them is marked with the one transaction that carries it, and every other row of the
  queue stays as it was, so no receipt is put into a second transaction.\<close>

lemma batch_takes_waiting_once:
  assumes "distinct (map sq_request_id (settlement_queue db))"
    "settle_transaction c flt now limit db = (Inr (hash, tx), db')"
  shows "\<exists>batch raw. batch = cosigned_batch limit (settlement_queue db) \<and> batch \<noteq> [] \<and> length batch \<le> limit
    \<and> (\<forall>r \<in> set batch. sq_state r = ''cosigned'') \<and> sorted (map sq_created_at batch)
    \<and> PrepareSettlement c (map sq_receipt batch) (map sq_provider_signature batch) (map sq_settlement_signature batch) = Inr tx
    \<and> settlement_queue db' = map (\<lambda>r. if r \<in> set batch then broadcast_row now hash raw r else r) (settlement_queue db)"
proof -
  let ?batch = "cosigned_batch limit (settlement_queue db)"
  obtain raw where raw: "?batch \<noteq> []"
      "PrepareSettlement c (map sq_receipt ?batch) (map sq_provider_signature ?batch) (map sq_settlement_signature ?batch) = Inr tx"
      "submit_loop flt 4 now hash raw (map sq_request_id ?batch) db = Inr db'"
    using settle_transaction_ok [OF assms(2)] by blast
  have sub: "set ?batch \<subseteq> set (settlement_queue db) \<inter> {r. sq_state r = ''cosigned''}"
    by (auto simp: cosigned_batch_def dest!: in_set_takeD)
  have "sq_request_id r \<in> set (map sq_request_id ?batch) \<longleftrightarrow> r \<in> set ?batch" if "r \<in> set (settlement_queue db)" for r
  proof
    assume "sq_request_id r \<in> set (map sq_request_id ?batch)"
    then obtain r' where "r' \<in> set ?batch" "sq_request_id r' = sq_request_id r" by auto
    moreover from this have "r' = r" using sub that key_unique [OF assms(1), of r' r] by blast
    ultimately show "r \<in> set ?batch" by simp
  qed simp
  then have "settlement_queue db' = map (\<lambda>r. if r \<in> set ?batch then broadcast_row now hash raw r else r) (settlement_queue db)"
    unfolding submit_loop_queue [OF raw(3)] update_rows_def by (intro map_cong) auto
  moreover have "length ?batch \<le> limit" "sorted (map sq_created_at ?batch)"
    by (simp_all add: cosigned_batch_def take_map [symmetric] sorted_wrt_take)
  ultimately show ?thesis using raw sub by blast
qed

text \<open>A settlement transaction that the chain rejects blocks the queue: while it is the one in
  flight, every call sends the same transaction again, returns the same error and changes nothing, so
  the receipts waiting behind it are never submitted, however many calls are made.\<close>

lemma reverted_settlement_blocks_queue:
  assumes "filter (\<lambda>r. sq_state r = ''broadcasting'' \<and> sq_raw_transaction r \<noteq> None) (settlement_queue db) = [r]"
    "sq_transaction_hash r = Some hash" "sq_raw_transaction r = Some raw" "cl_UnmarshalBinary c raw = Inr tx"
    "Broadcast c tx = Inl ErrTransactionReverted" "0 < limit"
  shows "SettleBatch c no_faults now limit db = ((hash, Some ErrTransactionReverted), db, [tx])"
  using assms by (simp add: SettleBatch_def pendingBroadcast_def scan_text_def)

text \<open>Queueing is idempotent: a receipt that is queued again, with whatever signatures, leaves the
  first entry, the request and its events as they are.\<close>

lemma enqueue_idempotent:
  assumes "Enqueue flt now db sr = (Inr (), db')" "rc_RequestID (sr_Receipt sr') = rc_RequestID (sr_Receipt sr)"
  shows "Enqueue no_faults now' db' sr' = (Inr (), db')"
proof -
  let ?r = "hashHex (rc_RequestID (sr_Receipt sr))"
  have "(?r \<in> sq_request_id ` set (settlement_queue db) \<and> db' = db) \<or>
      (\<exists>row. sq_request_id row = ?r \<and> transitionSettlementRequest flt 2 now ?r ''completed'' ''signed''
        (db\<lparr>settlement_queue := settlement_queue db @ [row]\<rparr>) = Inr db')"
    using assms(1) by (auto simp: Enqueue_def Let_def transact_ok insert_or_nothing_def split: if_splits)
  then have "?r \<in> sq_request_id ` set (settlement_queue db')"
    by (elim disjE exE conjE) (auto dest!: transition_queue)
  then show ?thesis
    using assms(2) by (simp add: Enqueue_def Let_def transact_def insert_or_nothing_def queue_check_def)
qed

section \<open>Witnesses\<close>

text \<open>A node that prepares one transaction per batch, numbered by its length, and mines or rejects it.\<close>

definition demo_client :: "u64 \<Rightarrow> (unit, nat) chainClient" where
  "demo_client status = \<lparr>cl_bound = True, cl_chainID = 1, cl_contractAddress = 1,
     cl_SettlementSigner = Inr 2, cl_FeeBasisPoints = Inr 100, cl_FeeVersion = Inr 1,
     cl_MinimumBond = Inr 5, cl_HashReceipt = (\<lambda>_. Inr 7), cl_key = (),
     cl_Sign = (\<lambda>_ _. Inr (replicate 65 0)), cl_options = Inr (),
     cl_SettleReceipts = (\<lambda>rs _ _. Inr (length rs)), cl_SendTransaction = (\<lambda>_. Inr ()),
     cl_TransactionReceipt = (\<lambda>_. Inr ()), cl_WaitMined = (\<lambda>_. Inr status),
     cl_TxHash = (\<lambda>_. ''h''), cl_MarshalBinary = (\<lambda>tx. Inr (replicate tx 1)),
     cl_UnmarshalBinary = (\<lambda>raw. Inr (length raw)), cl_ErrorText = (\<lambda>_. ''e'')\<rparr>"

definition demo_signed :: signedReceipt where
  "demo_signed = \<lparr>sr_Receipt = \<lparr>rc_RequestID = 1, rc_SessionID = 2, rc_Customer = 3, rc_Provider = 4,
     rc_SettlementSigner = 5, rc_OfferID = 6, rc_PriceVersion = 1, rc_ModelHash = 7, rc_CapabilityHash = 8,
     rc_InputTokens = 1, rc_OutputTokens = 1, rc_ComputeMilliseconds = 1, rc_MaximumCharge = 3,
     rc_TotalCharge = 2, rc_FeeBasisPoints = 100, rc_FeeVersion = 1, rc_Status = 1, rc_CompletedAt = 9,
     rc_InputHash = 9, rc_OutputHash = 10, rc_Nonce = 1\<rparr>, sr_ProviderSignature = [1], sr_SettlementSignature = [2]\<rparr>"

definition demo_queued :: db where
  "demo_queued = snd (Enqueue no_faults 1 demo_db demo_signed)"

definition demo_sent :: db where
  "demo_sent = fst (snd (SettleBatch (demo_client 1) no_faults 2 5 demo_queued))"

lemma demo_enqueue: "Enqueue no_faults 1 demo_db demo_signed = (Inr (), demo_queued)"
proof -
  have "fst (Enqueue no_faults 1 demo_db demo_signed) = Inr ()" by code_simp
  then show ?thesis unfolding demo_queued_def by (metis prod.collapse)
qed

lemma demo_batch: "SettleBatch (demo_client 1) no_faults 2 5 demo_queued = ((''h'', None), demo_sent, [1])"
proof -
  have "fst (SettleBatch (demo_client 1) no_faults 2 5 demo_queued) = (''h'', None)"
    "snd (snd (SettleBatch (demo_client 1) no_faults 2 5 demo_queued)) = [1]" by code_simp+
  then show ?thesis unfolding demo_sent_def by (metis prod.collapse)
qed

lemma settlement_keeps_ledger_witness: "settlement_queue demo_queued \<noteq> [] \<and> ledger_safe demo_queued"
proof -
  have "ledger_safe demo_db"
    using demo_ok by (simp add: ledger_safe_def holds_live_def demo_db_def empty_db_def)
  moreover have "settlement_queue demo_queued \<noteq> []" by code_simp
  ultimately show ?thesis using settlement_keeps_ledger demo_enqueue by blast
qed

theorem settlement_write_ahead_witness:
  "\<exists>r \<in> set (settlement_queue demo_sent). sq_state r = ''broadcasting''
    \<and> (\<exists>raw. sq_raw_transaction r = Some raw \<and> cl_UnmarshalBinary (demo_client 1) raw = Inr 1)"
  by (rule settlement_write_ahead [OF demo_batch]) (auto simp: demo_client_def)

lemma batch_takes_waiting_once_witness:
  "\<exists>db'. settle_transaction (demo_client 1) no_faults 2 5 demo_queued = (Inr (''h'', 1), db')
    \<and> map sq_state (settlement_queue db') = [''broadcasting'']"
proof -
  let ?db' = "snd (settle_transaction (demo_client 1) no_faults 2 5 demo_queued)"
  have "fst (settle_transaction (demo_client 1) no_faults 2 5 demo_queued) = Inr (''h'', 1)" by code_simp
  then have run: "settle_transaction (demo_client 1) no_faults 2 5 demo_queued = (Inr (''h'', 1), ?db')"
    by (metis prod.collapse)
  have q: "length (settlement_queue demo_queued) = 1" "cosigned_batch 5 (settlement_queue demo_queued) = settlement_queue demo_queued"
    by code_simp+
  then obtain r where r: "settlement_queue demo_queued = [r]" by (auto simp: length_Suc_conv)
  from batch_takes_waiting_once [OF _ run] r q(2) show ?thesis
    using run by (auto simp: broadcast_row_def)
qed

theorem reverted_settlement_blocks_queue_witness:
  "SettleBatch (demo_client 0) no_faults 3 5 demo_sent = ((''h'', Some ErrTransactionReverted), demo_sent, [1])"
proof -
  let ?rows = "filter (\<lambda>r. sq_state r = ''broadcasting'' \<and> sq_raw_transaction r \<noteq> None) (settlement_queue demo_sent)"
  have "length ?rows = 1" "map sq_transaction_hash ?rows = [Some ''h'']" "map sq_raw_transaction ?rows = [Some [1]]"
    by code_simp+
  then obtain r where "?rows = [r]" "sq_transaction_hash r = Some ''h''" "sq_raw_transaction r = Some [1]"
    by (auto simp: length_Suc_conv)
  then show ?thesis
    by (rule reverted_settlement_blocks_queue) (simp_all add: demo_client_def Broadcast_def Client_wait_def)
qed

theorem enqueue_idempotent_witness:
  "Enqueue no_faults 5 demo_queued (demo_signed\<lparr>sr_ProviderSignature := [3]\<rparr>) = (Inr (), demo_queued)"
  by (rule enqueue_idempotent [OF demo_enqueue]) (simp add: demo_signed_def)

end
