(* ===== verification/Indexer.thy ===== *)
theory Indexer
  imports Settlement
begin

text \<open>
  The chain indexer (\<^verbatim>\<open>server/internal/chain/indexer.go\<close>): it reads the confirmed logs of the market
  contract in batches, projects every event into the tables and rewinds the projection when the chain
  it followed is no longer canonical. The node and the generated decoding of logs are the record
  \<open>node\<close>: its answers may differ from call to call, so they carry the number of the call within one
  run. \<^verbatim>\<open>common.Hash.Hex\<close> and \<^verbatim>\<open>common.Address.Hex\<close> come from the record \<open>eth\<close>.
\<close>

section \<open>Events and the node\<close>

text \<open>The generated event structs, by the name of the event; an event without a case is \<open>OtherEvent\<close>.\<close>

datatype market_event =
    Deposited address int
  | WithdrawalRequested address int
  | Claimed address int
  | BondDeposited address int int
  | ProviderSignerSet address address bool
  | BondExitRequested address u64
  | BondExitFinalized address int
  | OfferPublished address hash u64 hash hash int int int
  | SessionOpened hash address int u64
  | SessionCloseRequested hash u64
  | SessionClosed hash int
  | ReceiptSettled hash hash address int int
  | ProviderSlashed address hash int
  | OtherEvent

record eth_log =
  lg_Topics :: "hash list"
  lg_Data :: bytes
  lg_BlockNumber :: u64
  lg_BlockHash :: hash
  lg_TxHash :: hash
  lg_Index :: u64

record header =
  hd_Number :: u64
  hd_Hash :: hash
  hd_ParentHash :: hash

record node =
  nd_HeaderByNumber :: "nat \<Rightarrow> u64 option \<Rightarrow> header result"
  nd_FilterLogs :: "nat \<Rightarrow> u64 \<Rightarrow> u64 \<Rightarrow> eth_log list result"
  nd_CodeAt :: "u64 \<Rightarrow> bytes result"
  nd_Parse :: "eth_log \<Rightarrow> market_event result"

record indexer =
  ix_chainID :: int
  ix_contract :: address
  ix_startBlock :: u64
  ix_confirmations :: u64
  ix_feeRecipient :: address

definition deployment_of :: "eth \<Rightarrow> indexer \<Rightarrow> deployment" where
  "deployment_of G ix = (int_string (ix_chainID ix), eth_AddressHex G (ix_contract ix))"

definition indexBatchSize :: u64 where
  "indexBatchSize = 100"

definition maximumInitialHistory :: u64 where
  "maximumInitialHistory = 10000"

section \<open>Block ranges\<close>

function code_search :: "(u64 \<Rightarrow> bytes result) \<Rightarrow> u64 \<Rightarrow> u64 \<Rightarrow> u64 result" where
  "code_search codeAt low high =
     (if low < high then
        let mid = low + (high - low) div 2
        in case codeAt mid of
             Inl e \<Rightarrow> Inl e
           | Inr code \<Rightarrow> if code = [] then code_search codeAt (mid + 1) high else code_search codeAt low mid
      else Inr low)"
  by pat_completeness auto

text \<open>The midpoint of a non-empty interval lies in it, without overflow.\<close>

lemma midpoint:
  assumes "low < (high :: u64)"
  shows "unat low \<le> unat (low + (high - low) div 2)" "unat (low + (high - low) div 2) < unat high"
    "unat (low + (high - low) div 2 + 1) = unat (low + (high - low) div 2) + 1"
proof -
  let ?m = "low + (high - low) div 2"
  have lt: "unat low < unat high" using assms by (simp add: word_less_nat_alt)
  have "unat (high - low) = unat high - unat low"
    using assms by (simp add: unat_sub order_less_imp_le)
  then have h: "unat ((high - low) div 2) = (unat high - unat low) div 2" by (simp add: unat_div)
  have "unat low + (unat high - unat low) div 2 < unat high" using lt by linarith
  then have m: "unat ?m = unat low + (unat high - unat low) div 2"
    using unat_plus_u64 [of low "(high - low) div 2"] unat_less_u64 [of high] h by simp
  then show "unat low \<le> unat ?m" by simp
  show m2: "unat ?m < unat high" using m lt by linarith
  show "unat (?m + 1) = unat ?m + 1" using m2 unat_less_u64 [of high] by (intro unat_Suc_u64) linarith
qed

termination code_search
proof (relation "measure (\<lambda>(c, low, high). unat high - unat low)", goal_cases)
  case (2 codeAt low high mid code)
  then show ?case using midpoint [of low high] by simp
next
  case (3 codeAt low high mid code)
  then show ?case using midpoint [of low high] by simp
qed simp

declare code_search.simps [simp del]

definition firstCodeBlock :: "(u64 \<Rightarrow> bytes result) \<Rightarrow> u64 \<Rightarrow> u64 \<Rightarrow> u64 result" where
  "firstCodeBlock codeAt configured head =
     and_then (codeAt configured) (\<lambda>code.
     if code \<noteq> [] then Inr configured
     else and_then (codeAt head) (\<lambda>code.
     if code = [] then Inl (ErrText ''contract bytecode is unavailable at the confirmed chain head'')
     else code_search codeAt configured head))"

definition batchEnd :: "u64 \<Rightarrow> u64 \<Rightarrow> u64 \<Rightarrow> u64" where
  "batchEnd nxt target batch =
     (if batch = 0 \<or> target - nxt < batch - 1 then target else nxt + batch - 1)"

section \<open>Projection of events\<close>

definition account_fits :: "chain_account_row \<Rightarrow> bool" where
  "account_fits r \<longleftrightarrow> numeric_fits (ca_customer_balance r) \<and> numeric_fits (ca_provider_bond r)
     \<and> numeric_fits (ca_claimable r)"

definition account_key :: "chain_account_row \<Rightarrow> deployment \<times> string" where
  "account_key r = (ca_deployment r, ca_address r)"

definition new_account :: "deployment \<Rightarrow> string \<Rightarrow> chain_account_row" where
  "new_account d addr = \<lparr>ca_deployment = d, ca_address = addr, ca_customer_balance = 0, ca_provider_bond = 0,
     ca_claimable = 0, ca_bond_exit_available_at = 0\<rparr>"

definition upsert_account :: "chain_account_row \<Rightarrow> (chain_account_row \<Rightarrow> chain_account_row) \<Rightarrow> db \<Rightarrow> db result" where
  "upsert_account row merge db =
     and_then (insert_or_update (account_fits row) account_fits account_key row merge (chain_accounts db))
       (\<lambda>t. Inr (db\<lparr>chain_accounts := t\<rparr>))"

definition update_account ::
  "deployment \<Rightarrow> string \<Rightarrow> (chain_account_row \<Rightarrow> chain_account_row) \<Rightarrow> db \<Rightarrow> db result" where
  "update_account d addr f db =
     and_then (update_checked account_fits (\<lambda>r. account_key r = (d, addr)) f (chain_accounts db))
       (\<lambda>t. Inr (db\<lparr>chain_accounts := t\<rparr>))"

text \<open>\<^verbatim>\<open>ON CONFLICT ... DO UPDATE SET claimable=chain_accounts.claimable+EXCLUDED.claimable\<close>\<close>

definition credit_claimable :: "deployment \<Rightarrow> string \<Rightarrow> int \<Rightarrow> db \<Rightarrow> db result" where
  "credit_claimable d addr amount db =
     upsert_account ((new_account d addr)\<lparr>ca_claimable := amount\<rparr>)
       (\<lambda>r. r\<lparr>ca_claimable := ca_claimable r + amount\<rparr>) db"

definition apply_Deposited :: "deployment \<Rightarrow> string \<Rightarrow> int \<Rightarrow> db \<Rightarrow> db result" where
  "apply_Deposited d customer amount db =
     upsert_account ((new_account d customer)\<lparr>ca_customer_balance := amount\<rparr>)
       (\<lambda>r. r\<lparr>ca_customer_balance := ca_customer_balance r + amount\<rparr>) db"

definition apply_WithdrawalRequested :: "deployment \<Rightarrow> string \<Rightarrow> int \<Rightarrow> db \<Rightarrow> db result" where
  "apply_WithdrawalRequested d account amount db =
     update_account d account (\<lambda>r. r\<lparr>ca_customer_balance := ca_customer_balance r - amount,
       ca_claimable := ca_claimable r + amount\<rparr>) db"

definition apply_Claimed :: "deployment \<Rightarrow> string \<Rightarrow> int \<Rightarrow> db \<Rightarrow> db result" where
  "apply_Claimed d account amount db =
     update_account d account (\<lambda>r. r\<lparr>ca_claimable := ca_claimable r - amount\<rparr>) db"

definition apply_BondDeposited :: "deployment \<Rightarrow> string \<Rightarrow> int \<Rightarrow> db \<Rightarrow> db result" where
  "apply_BondDeposited d provider totalBond db =
     upsert_account ((new_account d provider)\<lparr>ca_provider_bond := totalBond\<rparr>)
       (\<lambda>r. r\<lparr>ca_provider_bond := totalBond\<rparr>) db"

definition signer_key :: "chain_signer_row \<Rightarrow> deployment \<times> string \<times> string" where
  "signer_key r = (cp_deployment r, cp_provider r, cp_signer r)"

definition apply_ProviderSignerSet :: "deployment \<Rightarrow> string \<Rightarrow> string \<Rightarrow> bool \<Rightarrow> db \<Rightarrow> db result" where
  "apply_ProviderSignerSet d provider signer permitted db =
     and_then (insert_or_update True (\<lambda>_. True) signer_key
         \<lparr>cp_deployment = d, cp_provider = provider, cp_signer = signer, cp_allowed = permitted\<rparr>
         (\<lambda>r. r\<lparr>cp_allowed := permitted\<rparr>) (chain_provider_signers db))
       (\<lambda>t. Inr (db\<lparr>chain_provider_signers := t\<rparr>))"

definition apply_BondExitRequested :: "deployment \<Rightarrow> string \<Rightarrow> u64 \<Rightarrow> db \<Rightarrow> db result" where
  "apply_BondExitRequested d provider availableAt db =
     and_then (int8_arg availableAt) (\<lambda>t.
     update_account d provider (\<lambda>r. r\<lparr>ca_bond_exit_available_at := t\<rparr>) db)"

definition apply_BondExitFinalized :: "deployment \<Rightarrow> string \<Rightarrow> int \<Rightarrow> db \<Rightarrow> db result" where
  "apply_BondExitFinalized d provider amount db =
     update_account d provider (\<lambda>r. r\<lparr>ca_provider_bond := 0, ca_bond_exit_available_at := 0,
       ca_claimable := ca_claimable r + amount\<rparr>) db"

definition chain_offer_key :: "chain_offer_row \<Rightarrow> deployment \<times> string \<times> string \<times> int" where
  "chain_offer_key r = (co_deployment r, co_provider r, co_offer_id r, co_version r)"

definition apply_OfferPublished ::
  "deployment \<Rightarrow> string \<Rightarrow> string \<Rightarrow> u64 \<Rightarrow> string \<Rightarrow> string \<Rightarrow> int \<Rightarrow> int \<Rightarrow> int \<Rightarrow> db \<Rightarrow> db result" where
  "apply_OfferPublished d provider offerID version modelHash capabilityHash input outputRate compute db =
     and_then (int8_arg version) (\<lambda>v.
     and_then (insert_or_nothing (numeric_fits input \<and> numeric_fits outputRate \<and> numeric_fits compute) chain_offer_key
         \<lparr>co_deployment = d, co_provider = provider, co_offer_id = offerID, co_version = v,
          co_model_hash = modelHash, co_capability_hash = capabilityHash, co_input_per_million = input,
          co_output_per_million = outputRate, co_compute_per_second = compute\<rparr> (chain_offers db))
       (\<lambda>(_, t). Inr (db\<lparr>chain_offers := t\<rparr>)))"

definition chain_session_key :: "chain_session_row \<Rightarrow> deployment \<times> string" where
  "chain_session_key r = (cs_deployment r, cs_session_id r)"

text \<open>
  The session of every account whose wallet is the customer, ignoring letter case; one statement cannot
  write the same session twice.
\<close>

definition upsert_session :: "int \<Rightarrow> string \<Rightarrow> string \<Rightarrow> int \<Rightarrow> db \<Rightarrow> db result" where
  "upsert_session now sessionID customer allowance db =
     (case filter (\<lambda>a. to_lower (ac_wallet_address a) = to_lower customer) (accounts db) of
        [] \<Rightarrow> Inr db
      | [a] \<Rightarrow>
          let row = \<lparr>se_id = sessionID, se_account_id = ac_id a, se_state = ''open'',
                se_confirmed_balance_wei = allowance, se_created_at = now\<rparr>
          in and_then (insert_or_update (session_check row) session_check se_id row
               (\<lambda>old. old\<lparr>se_account_id := ac_id a, se_state := ''open'', se_confirmed_balance_wei := allowance\<rparr>)
               (sessions db)) (\<lambda>t. Inr (db\<lparr>sessions := t\<rparr>))
      | _ \<Rightarrow> Inl ErrConstraint)"

definition apply_SessionOpened ::
  "faults \<Rightarrow> nat \<Rightarrow> int \<Rightarrow> deployment \<Rightarrow> string \<Rightarrow> string \<Rightarrow> int \<Rightarrow> u64 \<Rightarrow> db \<Rightarrow> db result" where
  "apply_SessionOpened flt k now d sessionID customer allowance expiresAt db =
     and_then (stmt flt k (and_then (int8_arg expiresAt) (\<lambda>t.
       insert_or_nothing (numeric_fits allowance) chain_session_key
         \<lparr>cs_deployment = d, cs_session_id = sessionID, cs_customer = customer, cs_allowance = allowance,
          cs_spent = 0, cs_expires_at = t, cs_close_available_at = 0, cs_finalized = False\<rparr> (chain_sessions db)))) (\<lambda>(_, cs).
     and_then (stmt flt (k + 1) (update_account d customer
         (\<lambda>r. r\<lparr>ca_customer_balance := ca_customer_balance r - allowance\<rparr>) (db\<lparr>chain_sessions := cs\<rparr>))) (\<lambda>db1.
     stmt flt (k + 2) (upsert_session now sessionID customer allowance db1)))"

definition apply_SessionCloseRequested ::
  "faults \<Rightarrow> nat \<Rightarrow> deployment \<Rightarrow> string \<Rightarrow> u64 \<Rightarrow> db \<Rightarrow> db result" where
  "apply_SessionCloseRequested flt k d sessionID availableAt db =
     and_then (stmt flt k (int8_arg availableAt)) (\<lambda>t.
     stmt flt (k + 1) (Inr (db\<lparr>
       chain_sessions := update_rows (\<lambda>r. chain_session_key r = (d, sessionID))
         (\<lambda>r. r\<lparr>cs_close_available_at := t\<rparr>) (chain_sessions db),
       sessions := update_rows (\<lambda>r. se_id r = sessionID \<and> se_state r = ''open'')
         (\<lambda>r. r\<lparr>se_state := ''closing''\<rparr>) (sessions db)\<rparr>)))"

definition apply_SessionClosed ::
  "faults \<Rightarrow> nat \<Rightarrow> deployment \<Rightarrow> string \<Rightarrow> int \<Rightarrow> db \<Rightarrow> db result" where
  "apply_SessionClosed flt k d sessionID returnedAmount db =
     and_then (stmt flt k (select_one (\<lambda>r. chain_session_key r = (d, sessionID)) (chain_sessions db))) (\<lambda>row.
     let db1 = db\<lparr>chain_sessions := update_rows (\<lambda>r. chain_session_key r = (d, sessionID))
           (\<lambda>r. r\<lparr>cs_finalized := True\<rparr>) (chain_sessions db)\<rparr> in
     and_then (stmt flt (k + 1) (update_account d (cs_customer row)
         (\<lambda>r. r\<lparr>ca_customer_balance := ca_customer_balance r + returnedAmount\<rparr>) db1)) (\<lambda>db2.
     stmt flt (k + 2) (Inr (db2\<lparr>sessions := update_rows (\<lambda>r. se_id r = sessionID)
         (\<lambda>r. r\<lparr>se_state := ''closed'', se_confirmed_balance_wei := 0\<rparr>) (sessions db2)\<rparr>))))"

section \<open>Settled receipts\<close>

definition settlement_key :: "chain_settlement_row \<Rightarrow> deployment \<times> string" where
  "settlement_key r = (ct_deployment r, ct_request_id r)"

text \<open>The local hold, when there is one, must be the settled charge to the wei.\<close>

definition hold_matches :: "string \<Rightarrow> int \<Rightarrow> db \<Rightarrow> unit result" where
  "hold_matches requestID settledCharge db =
     (case select_one (\<lambda>r. ir_request_id r = requestID) (reservations db) of
        Inl e \<Rightarrow> if e = ErrNoRows then Inr () else Inl e
      | Inr r \<Rightarrow> (case big_set_string (int_string (ir_amount r)) of
            None \<Rightarrow> Inl (ErrText ''settled charge does not match local reservation'')
          | Some heldAmount \<Rightarrow>
              if heldAmount \<noteq> settledCharge then Inl (ErrText ''settled charge does not match local reservation'')
              else Inr ()))"

definition spend_session :: "deployment \<Rightarrow> string \<Rightarrow> int \<Rightarrow> db \<Rightarrow> db result" where
  "spend_session d sessionID charge db =
     and_then (update_checked (\<lambda>r. numeric_fits (cs_spent r)) (\<lambda>r. chain_session_key r = (d, sessionID))
         (\<lambda>r. r\<lparr>cs_spent := cs_spent r + charge\<rparr>) (chain_sessions db))
       (\<lambda>t. Inr (db\<lparr>chain_sessions := t\<rparr>))"

definition debit_session :: "string \<Rightarrow> int \<Rightarrow> db \<Rightarrow> db result" where
  "debit_session sessionID charge db =
     and_then (update_checked session_check (\<lambda>r. se_id r = sessionID)
         (\<lambda>r. r\<lparr>se_confirmed_balance_wei := max 0 (se_confirmed_balance_wei r - charge)\<rparr>) (sessions db))
       (\<lambda>t. Inr (db\<lparr>sessions := t\<rparr>))"

definition finish_queue_row :: "int \<Rightarrow> string \<Rightarrow> db \<Rightarrow> db" where
  "finish_queue_row now requestID db = db\<lparr>settlement_queue :=
     update_rows (\<lambda>r. sq_request_id r = requestID \<and> sq_state r = ''broadcasting'')
       (\<lambda>r. r\<lparr>sq_state := ''settled'', sq_updated_at := now\<rparr>) (settlement_queue db)\<rparr>"

definition finish_hold :: "int \<Rightarrow> string \<Rightarrow> db \<Rightarrow> db" where
  "finish_hold now requestID db = db\<lparr>reservations :=
     update_rows (\<lambda>r. ir_request_id r = requestID)
       (\<lambda>r. r\<lparr>ir_released_at := (case ir_released_at r of None \<Rightarrow> Some now | Some t \<Rightarrow> Some t)\<rparr>) (reservations db)\<rparr>"

text \<open>What a settlement that is new to the index writes.\<close>

definition write_settlement ::
  "faults \<Rightarrow> nat \<Rightarrow> int \<Rightarrow> deployment \<Rightarrow> string \<Rightarrow> string \<Rightarrow> string \<Rightarrow> string \<Rightarrow> int \<Rightarrow> int \<Rightarrow> db \<Rightarrow> db result" where
  "write_settlement flt k now d feeRecipient requestID sessionID provider providerAmount feeAmount db =
     and_then (stmt flt k (spend_session d sessionID (providerAmount + feeAmount) db)) (\<lambda>db1.
     and_then (stmt flt (k + 1) (debit_session sessionID (providerAmount + feeAmount) db1)) (\<lambda>db2.
     and_then (stmt flt (k + 2) (credit_claimable d provider providerAmount db2)) (\<lambda>db3.
     and_then (stmt flt (k + 3) (credit_claimable d feeRecipient feeAmount db3)) (\<lambda>db4.
     and_then (stmt flt (k + 4) (Inr (finish_queue_row now requestID db4))) (\<lambda>db5.
     and_then (stmt flt (k + 5) (Inr (finish_hold now requestID db5))) (\<lambda>db6.
     transitionSettlementRequest flt (k + 6) now requestID ''submitted'' ''settled'' db6))))))"

definition apply_ReceiptSettled ::
  "faults \<Rightarrow> nat \<Rightarrow> int \<Rightarrow> deployment \<Rightarrow> string \<Rightarrow> string \<Rightarrow> string \<Rightarrow> string \<Rightarrow> int \<Rightarrow> int \<Rightarrow> string \<Rightarrow> u64 \<Rightarrow> db \<Rightarrow> db result" where
  "apply_ReceiptSettled flt k now d feeRecipient requestID sessionID provider providerAmount feeAmount txHash block db =
     and_then (stmt flt k (hold_matches requestID (providerAmount + feeAmount) db)) (\<lambda>_.
     and_then (stmt flt (k + 1) (and_then (int8_arg block) (\<lambda>number.
       insert_or_nothing (numeric_fits providerAmount \<and> numeric_fits feeAmount) settlement_key
         \<lparr>ct_deployment = d, ct_request_id = requestID, ct_session_id = sessionID, ct_provider = provider,
          ct_provider_amount = providerAmount, ct_fee_amount = feeAmount, ct_transaction_hash = txHash,
          ct_block_number = number\<rparr> (chain_settlements db)))) (\<lambda>(inserted, t).
     if inserted = 0 then Inr db
     else write_settlement flt (k + 2) now d feeRecipient requestID sessionID provider providerAmount feeAmount
       (db\<lparr>chain_settlements := t\<rparr>)))"

section \<open>Slashing\<close>

definition slash_key :: "chain_slash_row \<Rightarrow> deployment \<times> string \<times> string \<times> string" where
  "slash_key r = (cx_deployment r, cx_request_id r, cx_provider r, cx_transaction_hash r)"

definition apply_ProviderSlashed ::
  "faults \<Rightarrow> nat \<Rightarrow> deployment \<Rightarrow> string \<Rightarrow> string \<Rightarrow> string \<Rightarrow> int \<Rightarrow> string \<Rightarrow> u64 \<Rightarrow> db \<Rightarrow> db result" where
  "apply_ProviderSlashed flt k d feeRecipient requestID provider amount txHash block db =
     and_then (stmt flt k (and_then (int8_arg block) (\<lambda>number.
       insert_or_nothing (0 < amount \<and> numeric_fits amount) slash_key
         \<lparr>cx_deployment = d, cx_request_id = requestID, cx_provider = provider, cx_amount = amount,
          cx_block_number = number, cx_transaction_hash = txHash\<rparr> (chain_slashes db)))) (\<lambda>(_, t).
     and_then (stmt flt (k + 1) (update_account d provider
         (\<lambda>r. r\<lparr>ca_provider_bond := ca_provider_bond r - amount,
           ca_bond_exit_available_at := (if ca_provider_bond r - amount = 0 then 0 else ca_bond_exit_available_at r)\<rparr>)
         (db\<lparr>chain_slashes := t\<rparr>))) (\<lambda>db1.
     stmt flt (k + 2) (credit_claimable d feeRecipient amount db1)))"

section \<open>Logs\<close>

definition applyLog :: "eth \<Rightarrow> node \<Rightarrow> indexer \<Rightarrow> faults \<Rightarrow> nat \<Rightarrow> int \<Rightarrow> eth_log \<Rightarrow> db \<Rightarrow> db result" where
  "applyLog G nd ix flt k now eventLog db =
     (let d = deployment_of G ix; addr = eth_AddressHex G; hash = eth_HashHex G
      in if lg_Topics eventLog = [] then Inl (ErrText ''contract log has no topic'')
      else and_then (nd_Parse nd eventLog) (\<lambda>event.
      case event of
        Deposited customer amount \<Rightarrow> stmt flt k (apply_Deposited d (addr customer) amount db)
      | WithdrawalRequested account amount \<Rightarrow> stmt flt k (apply_WithdrawalRequested d (addr account) amount db)
      | Claimed account amount \<Rightarrow> stmt flt k (apply_Claimed d (addr account) amount db)
      | BondDeposited provider _ totalBond \<Rightarrow> stmt flt k (apply_BondDeposited d (addr provider) totalBond db)
      | ProviderSignerSet provider signer permitted \<Rightarrow>
          stmt flt k (apply_ProviderSignerSet d (addr provider) (addr signer) permitted db)
      | BondExitRequested provider availableAt \<Rightarrow> stmt flt k (apply_BondExitRequested d (addr provider) availableAt db)
      | BondExitFinalized provider amount \<Rightarrow> stmt flt k (apply_BondExitFinalized d (addr provider) amount db)
      | OfferPublished provider offerID version modelHash capabilityHash input outputRate compute \<Rightarrow>
          stmt flt k (apply_OfferPublished d (addr provider) (hash offerID) version (hash modelHash)
            (hash capabilityHash) input outputRate compute db)
      | SessionOpened sessionID customer allowance expiresAt \<Rightarrow>
          apply_SessionOpened flt k now d (hash sessionID) (addr customer) allowance expiresAt db
      | SessionCloseRequested sessionID availableAt \<Rightarrow>
          apply_SessionCloseRequested flt k d (hash sessionID) availableAt db
      | SessionClosed sessionID returnedAmount \<Rightarrow> apply_SessionClosed flt k d (hash sessionID) returnedAmount db
      | ReceiptSettled requestID sessionID provider providerAmount feeAmount \<Rightarrow>
          apply_ReceiptSettled flt k now d (addr (ix_feeRecipient ix)) (hash requestID) (hash sessionID)
            (addr provider) providerAmount feeAmount (hash (lg_TxHash eventLog)) (lg_BlockNumber eventLog) db
      | ProviderSlashed provider requestID amount \<Rightarrow>
          apply_ProviderSlashed flt k d (addr (ix_feeRecipient ix)) (hash requestID) (addr provider) amount
            (hash (lg_TxHash eventLog)) (lg_BlockNumber eventLog) db
      | OtherEvent \<Rightarrow> Inr db))"

definition log_key :: "log_row \<Rightarrow> deployment \<times> string \<times> int" where
  "log_key r = (cl_deployment r, cl_transaction_hash r, cl_log_index r)"

text \<open>The column \<^verbatim>\<open>log_index\<close> has type \<^verbatim>\<open>integer\<close>.\<close>

definition log_row_of :: "eth \<Rightarrow> indexer \<Rightarrow> eth_log \<Rightarrow> log_row result" where
  "log_row_of G ix eventLog =
     and_then (int8_arg (lg_BlockNumber eventLog)) (\<lambda>number.
     if uint (lg_Index eventLog) < 2 ^ 31
     then Inr \<lparr>cl_deployment = deployment_of G ix, cl_block_number = number,
       cl_block_hash = eth_HashHex G (lg_BlockHash eventLog), cl_transaction_hash = eth_HashHex G (lg_TxHash eventLog),
       cl_log_index = uint (lg_Index eventLog)\<rparr>
     else Inl (ErrText ''value out of range for integer''))"

definition insertLog :: "eth \<Rightarrow> indexer \<Rightarrow> faults \<Rightarrow> nat \<Rightarrow> eth_log \<Rightarrow> db \<Rightarrow> (bool \<times> db) result" where
  "insertLog G ix flt k eventLog db =
     and_then (stmt flt k (and_then (log_row_of G ix eventLog) (\<lambda>row.
       insert_or_nothing True log_key row (chain_logs db)))) (\<lambda>(rows, t).
     Inr (rows = 1, db\<lparr>chain_logs := t\<rparr>))"

text \<open>Each log has sixteen statement numbers: its insertion and the statements of its projection.\<close>

fun index_logs :: "eth \<Rightarrow> node \<Rightarrow> indexer \<Rightarrow> faults \<Rightarrow> nat \<Rightarrow> int \<Rightarrow> eth_log list \<Rightarrow> db \<Rightarrow> db result" where
  "index_logs G nd ix flt k now [] db = Inr db"
| "index_logs G nd ix flt k now (eventLog # logs) db =
     and_then (insertLog G ix flt k eventLog db) (\<lambda>(inserted, db1).
     and_then (if inserted then applyLog G nd ix flt (k + 1) now eventLog db1 else Inr db1) (\<lambda>db2.
     index_logs G nd ix flt (k + 16) now logs db2))"

definition block_key :: "block_row \<Rightarrow> deployment \<times> int" where
  "block_key r = (cb_deployment r, cb_block_number r)"

definition record_block :: "eth \<Rightarrow> indexer \<Rightarrow> u64 \<Rightarrow> header \<Rightarrow> db \<Rightarrow> db result" where
  "record_block G ix to_block header db =
     and_then (int8_arg to_block) (\<lambda>number.
     and_then (insert_or_update True (\<lambda>_. True) block_key
         \<lparr>cb_deployment = deployment_of G ix, cb_block_number = number,
          cb_block_hash = eth_HashHex G (hd_Hash header), cb_parent_hash = eth_HashHex G (hd_ParentHash header)\<rparr>
         (\<lambda>r. r\<lparr>cb_block_hash := eth_HashHex G (hd_Hash header),
           cb_parent_hash := eth_HashHex G (hd_ParentHash header)\<rparr>) (chain_blocks db))
       (\<lambda>t. Inr (db\<lparr>chain_blocks := t\<rparr>)))"

definition record_cursor :: "eth \<Rightarrow> indexer \<Rightarrow> u64 \<Rightarrow> header \<Rightarrow> db \<Rightarrow> db result" where
  "record_cursor G ix to_block header db =
     and_then (int8_arg (to_block + 1)) (\<lambda>nxt.
     and_then (int8_arg to_block) (\<lambda>last.
     and_then (insert_or_update True (\<lambda>_. True) cc_deployment
         \<lparr>cc_deployment = deployment_of G ix, cc_next_block = nxt, cc_last_block = Some last,
          cc_last_block_hash = Some (eth_HashHex G (hd_Hash header))\<rparr>
         (\<lambda>r. r\<lparr>cc_next_block := nxt, cc_last_block := Some last,
           cc_last_block_hash := Some (eth_HashHex G (hd_Hash header))\<rparr>) (chain_cursors db))
       (\<lambda>t. Inr (db\<lparr>chain_cursors := t\<rparr>))))"

definition indexRange :: "eth \<Rightarrow> node \<Rightarrow> indexer \<Rightarrow> faults \<Rightarrow> nat \<Rightarrow> int \<Rightarrow> u64 \<Rightarrow> u64 \<Rightarrow> db \<Rightarrow> unit result \<times> db" where
  "indexRange G nd ix flt call now from_block to_block db =
     (case nd_HeaderByNumber nd call (Some to_block) of
        Inl e \<Rightarrow> (Inl e, db)
      | Inr header \<Rightarrow>
          (case nd_FilterLogs nd call from_block to_block of
             Inl e \<Rightarrow> (Inl e, db)
           | Inr logs \<Rightarrow> transact db (
               and_then (stmt flt 0 (Inr ())) (\<lambda>_.
               and_then (stmt flt 1 (record_block G ix to_block header db)) (\<lambda>db1.
               and_then (index_logs G nd ix flt 4 now logs db1) (\<lambda>db2.
               and_then (stmt flt 2 (record_cursor G ix to_block header db2)) (\<lambda>db3.
               stmt flt 3 (Inr ((), db3)))))))))"

section \<open>Rewinding\<close>

fun revert_loop :: "faults \<Rightarrow> nat \<Rightarrow> int \<Rightarrow> string list \<Rightarrow> db \<Rightarrow> db result" where
  "revert_loop flt k now [] db = Inr db"
| "revert_loop flt k now (requestID # ids) db =
     and_then (stmt flt k (Inr (db\<lparr>reservations :=
         update_rows (\<lambda>r. ir_request_id r = requestID \<and> 0 < ir_amount r)
           (\<lambda>r. r\<lparr>ir_released_at := None\<rparr>) (reservations db)\<rparr>))) (\<lambda>db1.
     and_then (stmt flt (k + 1) (Inr (db1\<lparr>settlement_queue :=
         update_rows (\<lambda>r. sq_request_id r = requestID \<and> sq_state r = ''settled'')
           (\<lambda>r. r\<lparr>sq_state := ''broadcasting'', sq_updated_at := now\<rparr>) (settlement_queue db1)\<rparr>))) (\<lambda>db2.
     and_then (transitionSettlementRequest flt (k + 2) now requestID ''settled'' ''submitted'' db2) (\<lambda>db3.
     revert_loop flt (k + 4) now ids db3)))"

text \<open>The deletions, one statement per table.\<close>

definition deletions :: "deployment \<Rightarrow> (db \<Rightarrow> db) list" where
  "deletions d =
     [\<lambda>db. db\<lparr>chain_slashes := delete_rows (\<lambda>r. cx_deployment r = d) (chain_slashes db)\<rparr>,
      \<lambda>db. db\<lparr>chain_settlements := delete_rows (\<lambda>r. ct_deployment r = d) (chain_settlements db)\<rparr>,
      \<lambda>db. db\<lparr>chain_sessions := delete_rows (\<lambda>r. cs_deployment r = d) (chain_sessions db)\<rparr>,
      \<lambda>db. db\<lparr>chain_offers := delete_rows (\<lambda>r. co_deployment r = d) (chain_offers db)\<rparr>,
      \<lambda>db. db\<lparr>chain_provider_signers := delete_rows (\<lambda>r. cp_deployment r = d) (chain_provider_signers db)\<rparr>,
      \<lambda>db. db\<lparr>chain_accounts := delete_rows (\<lambda>r. ca_deployment r = d) (chain_accounts db)\<rparr>,
      \<lambda>db. db\<lparr>chain_blocks := delete_rows (\<lambda>r. cb_deployment r = d) (chain_blocks db)\<rparr>,
      \<lambda>db. db\<lparr>chain_cursors := delete_rows (\<lambda>r. cc_deployment r = d) (chain_cursors db)\<rparr>,
      \<lambda>db. db\<lparr>chain_logs := delete_rows (\<lambda>r. cl_deployment r = d) (chain_logs db)\<rparr>]"

fun delete_loop :: "faults \<Rightarrow> nat \<Rightarrow> (db \<Rightarrow> db) list \<Rightarrow> db \<Rightarrow> db result" where
  "delete_loop flt k [] db = Inr db"
| "delete_loop flt k (f # fs) db = and_then (stmt flt k (Inr (f db))) (\<lambda>db1. delete_loop flt (k + 1) fs db1)"

definition rewind :: "eth \<Rightarrow> indexer \<Rightarrow> faults \<Rightarrow> int \<Rightarrow> db \<Rightarrow> unit result \<times> db" where
  "rewind G ix flt now db =
     (let d = deployment_of G ix;
          reverted = map ct_request_id (filter (\<lambda>r. ct_deployment r = d) (chain_settlements db))
      in transact db (
     and_then (stmt flt 0 (Inr ())) (\<lambda>_.
     and_then (stmt flt 1 (Inr ())) (\<lambda>_.
     and_then (revert_loop flt 16 now reverted db) (\<lambda>db1.
     and_then (delete_loop flt 2 (deletions d) db1) (\<lambda>db2.
     stmt flt 11 (Inr ((), db2))))))))"

section \<open>Synchronization\<close>

definition cursor :: "eth \<Rightarrow> indexer \<Rightarrow> faults \<Rightarrow> db \<Rightarrow> (u64 \<times> u64 option \<times> string) result" where
  "cursor G ix flt db =
     (case stmt flt 0 (select_one (\<lambda>r. cc_deployment r = deployment_of G ix) (chain_cursors db)) of
        Inl e \<Rightarrow> if e = ErrNoRows then Inr (ix_startBlock ix, None, []) else Inl e
      | Inr r \<Rightarrow>
          if cc_next_block r < 0 then Inl (ErrText ''converting driver.Value type int64 to a uint64'')
          else (case cc_last_block r of
              None \<Rightarrow> Inr (of_int (cc_next_block r), None, [])
            | Some lastBlock \<Rightarrow> Inr (of_int (cc_next_block r), Some (of_int lastBlock),
                (case cc_last_block_hash r of None \<Rightarrow> [] | Some h \<Rightarrow> h))))"

text \<open>A batch ends in its range and has at most one hundred blocks.\<close>

lemma batchEnd_bounds:
  assumes "nxt \<le> target"
  shows "unat nxt \<le> unat (batchEnd nxt target indexBatchSize)"
    "unat (batchEnd nxt target indexBatchSize) \<le> unat target"
    "unat (batchEnd nxt target indexBatchSize) < unat nxt + 100"
proof -
  have d: "unat (target - nxt) = unat target - unat nxt" using assms by (simp add: unat_sub)
  have le: "unat nxt \<le> unat target" using assms by (simp add: word_le_nat_alt)
  have full: "unat (nxt + 100 - 1) = unat nxt + 99" if "\<not> target - nxt < (99 :: u64)"
  proof -
    have "99 \<le> unat target - unat nxt" using that d by (simp add: word_less_nat_alt)
    moreover have c: "unat (99 :: u64) = 99" by simp
    ultimately have "unat nxt + unat (99 :: u64) < 2 ^ 64" using unat_less_u64 [of target] le by linarith
    from unat_plus_u64 [OF this] c have "unat (nxt + 99) = unat nxt + 99" by linarith
    then show ?thesis by (simp add: add.commute)
  qed
  show "unat nxt \<le> unat (batchEnd nxt target indexBatchSize)"
    "unat (batchEnd nxt target indexBatchSize) \<le> unat target"
    "unat (batchEnd nxt target indexBatchSize) < unat nxt + 100"
    using le d full by (auto simp: batchEnd_def indexBatchSize_def word_less_nat_alt not_less)
qed

lemma next_batch:
  assumes "nxt \<le> target" "batchEnd nxt target indexBatchSize \<noteq> - 1"
  shows "unat (batchEnd nxt target indexBatchSize + 1) = unat (batchEnd nxt target indexBatchSize) + 1"
proof -
  let ?e = "batchEnd nxt target indexBatchSize"
  have "unat (- 1 :: u64) = 2 ^ 64 - 1" by (simp add: unsigned_minus_1_eq_mask mask_eq_exp_minus_1)
  with assms(2) have "unat ?e \<noteq> 2 ^ 64 - 1" by (metis word_unat_eq_iff)
  then show ?thesis using unat_less_u64 [of ?e] by (intro unat_Suc_u64) linarith
qed

function sync_loop ::
  "eth \<Rightarrow> node \<Rightarrow> indexer \<Rightarrow> (nat \<Rightarrow> faults) \<Rightarrow> nat \<Rightarrow> int \<Rightarrow> u64 \<Rightarrow> u64 \<Rightarrow> db \<Rightarrow> unit result \<times> db" where
  "sync_loop G nd ix flt call now nxt target db =
     (if nxt \<le> target then
        let end_block = batchEnd nxt target indexBatchSize
        in case indexRange G nd ix (flt call) call now nxt end_block db of
             (Inl e, db') \<Rightarrow> (Inl e, db')
           | (Inr _, db') \<Rightarrow>
               if end_block = - 1 then (Inr (), db')
               else sync_loop G nd ix flt (call + 1) now (end_block + 1) target db'
      else (Inr (), db))"
  by pat_completeness auto

termination sync_loop
proof (relation "measure (\<lambda>(G, nd, ix, flt, call, now, nxt, target, db). unat target + 1 - unat nxt)", goal_cases)
  case (2 G nd ix flt call now nxt target db end_block p res db')
  then have "unat (end_block + 1) = unat end_block + 1" "unat nxt \<le> unat end_block" "unat end_block \<le> unat target"
    using next_batch batchEnd_bounds by simp_all
  then show ?case by simp
qed simp

declare sync_loop.simps [simp del]

text \<open>
  One run. The result carries the indexer, whose start block the run may move. The header of the head is
  the answer to call 0, that of the last indexed block to call 1, and the batches start at call 2.
\<close>

definition sync_start :: "node \<Rightarrow> indexer \<Rightarrow> u64 \<Rightarrow> u64 \<Rightarrow> u64 option \<Rightarrow> (u64 \<times> indexer) result" where
  "sync_start nd ix target nxt lastBlock =
     (if target > nxt \<and> target - nxt > maximumInitialHistory
      then and_then (firstCodeBlock (nd_CodeAt nd) nxt target) (\<lambda>found.
        Inr (found, if lastBlock = None \<or> found > nxt then ix\<lparr>ix_startBlock := found\<rparr> else ix))
      else Inr (nxt, ix))"

definition canonical :: "eth \<Rightarrow> node \<Rightarrow> u64 \<Rightarrow> string \<Rightarrow> bool" where
  "canonical G nd lastBlock lastHash =
     (case nd_HeaderByNumber nd 1 (Some lastBlock) of Inl _ \<Rightarrow> False | Inr h \<Rightarrow> eth_HashHex G (hd_Hash h) = lastHash)"

definition Sync :: "eth \<Rightarrow> node \<Rightarrow> indexer \<Rightarrow> (nat \<Rightarrow> faults) \<Rightarrow> int \<Rightarrow> db \<Rightarrow> unit result \<times> indexer \<times> db" where
  "Sync G nd ix flt now db =
     (case nd_HeaderByNumber nd 0 None of
        Inl e \<Rightarrow> (Inl e, ix, db)
      | Inr head \<Rightarrow>
          if hd_Number head < ix_confirmations ix then (Inr (), ix, db)
          else let target = hd_Number head - ix_confirmations ix in
          case cursor G ix (flt 0) db of
            Inl e \<Rightarrow> (Inl e, ix, db)
          | Inr (nxt, lastBlock, lastHash) \<Rightarrow>
              (case sync_start nd ix target nxt lastBlock of
                 Inl e \<Rightarrow> (Inl e, ix, db)
               | Inr (nxt, ix') \<Rightarrow>
                   (case lastBlock of
                      Some b \<Rightarrow>
                        if canonical G nd b lastHash
                        then let (r, db') = sync_loop G nd ix' flt 2 now nxt target db in (r, ix', db')
                        else (case rewind G ix' (flt 1) now db of
                            (Inl e, db') \<Rightarrow> (Inl e, ix', db')
                          | (Inr _, db1) \<Rightarrow>
                              let (r, db') = sync_loop G nd ix' flt 2 now (ix_startBlock ix') target db1 in (r, ix', db'))
                    | None \<Rightarrow> let (r, db') = sync_loop G nd ix' flt 2 now nxt target db in (r, ix', db'))))"

definition LogCount :: "eth \<Rightarrow> indexer \<Rightarrow> faults \<Rightarrow> db \<Rightarrow> nat" where
  "LogCount G ix flt db =
     (case stmt flt 0 (Inr (count_rows (\<lambda>r. cl_deployment r = deployment_of G ix) (chain_logs db))) of
        Inl _ \<Rightarrow> 0 | Inr n \<Rightarrow> n)"

end
