(* ===== verification/IndexerInv.thy ===== *)
theory IndexerInv
  imports Indexer
begin

text \<open>
  Properties of the chain indexer: the search for the first block of the contract, the batches of a run,
  the effect of a settled receipt on the ledger, the repetition of a range and the rewind.
\<close>

section \<open>The first block with code\<close>

definition has_code :: "(u64 \<Rightarrow> bytes result) \<Rightarrow> u64 \<Rightarrow> bool" where
  "has_code codeAt b \<longleftrightarrow> (\<exists>code. codeAt b = Inr code \<and> code \<noteq> [])"

lemma code_search_least:
  assumes "low \<le> high" "has_code codeAt high" "\<forall>b. is_ok (codeAt b)"
    "\<forall>a b. a \<le> b \<longrightarrow> has_code codeAt a \<longrightarrow> has_code codeAt b"
  shows "\<exists>b. code_search codeAt low high = Inr b \<and> low \<le> b \<and> b \<le> high \<and> has_code codeAt b
    \<and> (\<forall>a. low \<le> a \<longrightarrow> a < b \<longrightarrow> \<not> has_code codeAt a)"
  using assms
proof (induction codeAt low high rule: code_search.induct)
  case (1 codeAt low high)
  show ?case
  proof (cases "low < high")
    case False
    with "1.prems" show ?thesis by (subst code_search.simps) auto
  next
    case True
    define mid where "mid = low + (high - low) div 2"
    have mid: "low \<le> mid" "mid < high" "mid < mid + 1" "mid + 1 \<le> high"
      using midpoint [OF True] by (simp_all add: mid_def word_le_nat_alt word_less_nat_alt)
    obtain code where code: "codeAt mid = Inr code" using "1.prems"(3) by (auto simp: is_ok_iff)
    show ?thesis
    proof (cases "code = []")
      case empty: True
      have none: "\<not> has_code codeAt a" if "a \<le> mid" for a
      proof
        assume "has_code codeAt a"
        with "1.prems"(4) that have "has_code codeAt mid" by blast
        with code empty show False by (simp add: has_code_def)
      qed
      from "1.IH"(1) [OF True mid_def code empty] mid "1.prems" obtain b
        where "code_search codeAt (mid + 1) high = Inr b" "mid + 1 \<le> b" "b \<le> high" "has_code codeAt b"
          "\<forall>a. mid + 1 \<le> a \<longrightarrow> a < b \<longrightarrow> \<not> has_code codeAt a" by blast
      moreover have "code_search codeAt low high = code_search codeAt (mid + 1) high"
        using True code empty by (subst code_search.simps) (simp add: mid_def [symmetric])
      moreover have "\<not> has_code codeAt a" if "a < b" "\<not> mid + 1 \<le> a" for a
        using none [of a] that(2) mid(3) inc_le by (metis linorder_not_le)
      ultimately show ?thesis using mid(1,3) by (intro exI [of _ b]) auto
    next
      case full: False
      then have "has_code codeAt mid" using code by (simp add: has_code_def)
      with "1.IH"(2) [OF True mid_def code full] mid(1) "1.prems" obtain b
        where "code_search codeAt low mid = Inr b" "low \<le> b" "b \<le> mid" "has_code codeAt b"
          "\<forall>a. low \<le> a \<longrightarrow> a < b \<longrightarrow> \<not> has_code codeAt a" by blast
      moreover have "code_search codeAt low high = code_search codeAt low mid"
        using True code full by (subst code_search.simps) (simp add: mid_def [symmetric])
      ultimately show ?thesis using mid(2) by (intro exI [of _ b]) auto
    qed
  qed
qed

text \<open>The indexer finds where the contract begins: on a node that answers and on which code, once
  deployed, stays, the binary search ends, without overflow for any pair of 64-bit block numbers, with the
  first block from the configured one on that has code.\<close>

lemma firstCodeBlock_least:
  assumes "configured \<le> head" "has_code codeAt head" "\<forall>b. is_ok (codeAt b)"
    "\<forall>a b. a \<le> b \<longrightarrow> has_code codeAt a \<longrightarrow> has_code codeAt b"
  shows "\<exists>b. firstCodeBlock codeAt configured head = Inr b \<and> configured \<le> b \<and> b \<le> head \<and> has_code codeAt b
    \<and> (\<forall>a. configured \<le> a \<longrightarrow> a < b \<longrightarrow> \<not> has_code codeAt a)"
proof -
  obtain code where code: "codeAt configured = Inr code" using assms(3) by (auto simp: is_ok_iff)
  obtain hcode where hcode: "codeAt head = Inr hcode" "hcode \<noteq> []" using assms(2) by (auto simp: has_code_def)
  show ?thesis
  proof (cases "code = []")
    case True
    then have "firstCodeBlock codeAt configured head = code_search codeAt configured head"
      using code hcode by (simp add: firstCodeBlock_def)
    then show ?thesis using code_search_least [OF assms] by simp
  next
    case False
    then have "firstCodeBlock codeAt configured head = Inr configured" "has_code codeAt configured"
      using code by (auto simp: firstCodeBlock_def has_code_def)
    then show ?thesis using assms(1) by auto
  qed
qed

lemma firstCodeBlock_least_witness:
  "firstCodeBlock (\<lambda>b. Inr (if 7 \<le> b then [1] else [])) 2 1000 = Inr 7"
proof -
  let ?c = "\<lambda>b :: u64. Inr (if 7 \<le> b then [1 :: u8] else []) :: bytes result"
  have h: "has_code ?c b \<longleftrightarrow> 7 \<le> b" for b by (simp add: has_code_def)
  have mono: "\<forall>a b. a \<le> b \<longrightarrow> has_code ?c a \<longrightarrow> has_code ?c b" unfolding h by auto
  from firstCodeBlock_least [of 2 1000 ?c] mono obtain b where b: "firstCodeBlock ?c 2 1000 = Inr b" "7 \<le> b"
      "\<forall>a. 2 \<le> a \<longrightarrow> a < b \<longrightarrow> \<not> 7 \<le> a"
    unfolding h by auto
  from b(3) [rule_format, of 7] b(2) have "b = 7" by (cases "b = 7") (auto simp: order_less_le)
  with b(1) show ?thesis by simp
qed

section \<open>Batches\<close>

text \<open>A run over a list of ranges, one call of the node each.\<close>

fun index_ranges ::
  "eth \<Rightarrow> node \<Rightarrow> indexer \<Rightarrow> (nat \<Rightarrow> faults) \<Rightarrow> nat \<Rightarrow> int \<Rightarrow> (u64 \<times> u64) list \<Rightarrow> db \<Rightarrow> unit result \<times> db" where
  "index_ranges G nd ix flt call now [] db = (Inr (), db)"
| "index_ranges G nd ix flt call now ((a, b) # rs) db =
     (case indexRange G nd ix (flt call) call now a b db of
        (Inl e, db') \<Rightarrow> (Inl e, db')
      | (Inr _, db') \<Rightarrow> index_ranges G nd ix flt (call + 1) now rs db')"

definition blocks_of :: "(u64 \<times> u64) list \<Rightarrow> nat list" where
  "blocks_of rs = concat (map (\<lambda>(a, b). [unat a..<unat b + 1]) rs)"

definition batches :: "(u64 \<times> u64) list \<Rightarrow> u64 \<Rightarrow> u64 \<Rightarrow> bool" where
  "batches rs nxt target \<longleftrightarrow> blocks_of rs = [unat nxt..<unat target + 1]
     \<and> (\<forall>(a, b) \<in> set rs. unat b < unat a + 100) \<and> rs \<noteq> [] \<and> snd (last rs) = target"

lemma sync_loop_ranges:
  assumes "nxt \<le> target"
  shows "\<exists>rs. batches rs nxt target
    \<and> (\<forall>call db. sync_loop G nd ix flt call now nxt target db = index_ranges G nd ix flt call now rs db)"
  using assms
proof (induction "unat target - unat nxt" arbitrary: nxt rule: less_induct)
  case less
  let ?e = "batchEnd nxt target indexBatchSize"
  note bounds = batchEnd_bounds [OF less.prems]
  have step: "sync_loop G nd ix flt call now nxt target db =
      (case indexRange G nd ix (flt call) call now nxt ?e db of
         (Inl e, db') \<Rightarrow> (Inl e, db')
       | (Inr _, db') \<Rightarrow> if ?e = - 1 then (Inr (), db')
           else sync_loop G nd ix flt (call + 1) now (?e + 1) target db')" for call db
    using less.prems by (subst sync_loop.simps) (simp add: Let_def)
  show ?case
  proof (cases "?e = target")
    case True
    have "sync_loop G nd ix flt (call + 1) now (?e + 1) target db = (Inr (), db)" if "?e \<noteq> - 1" for call db
      using next_batch [OF less.prems that] True by (subst sync_loop.simps) (simp add: word_le_nat_alt)
    then have "sync_loop G nd ix flt call now nxt target db = index_ranges G nd ix flt call now [(nxt, target)] db" for call db
      unfolding step using True by (auto split: prod.splits sum.splits)
    moreover have "batches [(nxt, target)] nxt target"
      using bounds True by (simp add: batches_def blocks_of_def)
    ultimately show ?thesis by blast
  next
    case False
    then have lt: "unat ?e < unat target" using bounds(2) by (metis le_neq_implies_less word_unat_eq_iff)
    then have nm: "?e \<noteq> - 1" using unat_less_u64 [of target]
      by (auto simp: unsigned_minus_1_eq_mask mask_eq_exp_minus_1)
    note nb = next_batch [OF less.prems nm]
    have "unat target - unat (?e + 1) < unat target - unat nxt" "?e + 1 \<le> target"
      using nb lt bounds(1) by (simp_all add: word_le_nat_alt)
    then obtain rs where rs: "batches rs (?e + 1) target"
        "\<forall>call db. sync_loop G nd ix flt call now (?e + 1) target db = index_ranges G nd ix flt call now rs db"
      using less.hyps by blast
    have "sync_loop G nd ix flt call now nxt target db = index_ranges G nd ix flt call now ((nxt, ?e) # rs) db" for call db
      unfolding step using nm rs(2) by (auto split: prod.splits sum.splits)
    moreover have "[unat nxt..<unat ?e + 1] @ [unat ?e + 1..<unat target + 1] = [unat nxt..<unat target + 1]"
      using upt_add_eq_append [of "unat nxt" "unat ?e + 1" "unat target - unat ?e"] bounds(1) lt by simp
    then have "batches ((nxt, ?e) # rs) nxt target"
      using rs(1) bounds(3) nb by (auto simp: batches_def blocks_of_def)
    ultimately show ?thesis by blast
  qed
qed

section \<open>Upserts\<close>

text \<open>An upsert that determines the whole row leaves it as the row of its key, and repeating it changes nothing.\<close>

lemma upsert_settles:
  assumes "insert_or_update True (\<lambda>_. True) key row merge tbl = Inr t" "\<forall>r. key r = key row \<longrightarrow> merge r = row"
  shows "insert_or_update True (\<lambda>_. True) key row merge t = Inr t" "select_one (\<lambda>r. key r = key row) t = Inr row"
proof -
  have all: "\<forall>r \<in> set t. key r = key row \<longrightarrow> r = row" and ex: "row \<in> set t"
    using assms by (fastforce simp: insert_or_update_def set_update_rows image_iff split: if_splits)+
  have "update_rows (\<lambda>old. key old = key row) merge t = t"
    unfolding update_rows_def using all assms(2) by (intro map_idI) auto
  then show "insert_or_update True (\<lambda>_. True) key row merge t = Inr t"
    using ex by (auto simp: insert_or_update_def update_checked_def list_all_iff)
  show "select_one (\<lambda>r. key r = key row) t = Inr row"
  proof (cases "select_one (\<lambda>r. key r = key row) t")
    case (Inl e)
    then show ?thesis using ex by (auto simp: select_one_Inl)
  next
    case (Inr r)
    then show ?thesis using all by (auto dest: select_one_Inr)
  qed
qed

section \<open>What the projection leaves alone\<close>

definition same_index :: "db \<Rightarrow> db \<Rightarrow> bool" where
  "same_index db db' \<longleftrightarrow> chain_logs db' = chain_logs db \<and> chain_blocks db' = chain_blocks db
     \<and> chain_cursors db' = chain_cursors db"

lemma same_index_trans: "same_index a b \<Longrightarrow> same_index b c \<Longrightarrow> same_index a c"
  by (simp add: same_index_def)

lemma account_same_index:
  "upsert_account row merge db = Inr db' \<Longrightarrow> same_index db db'"
  "update_account d addr f db = Inr db' \<Longrightarrow> same_index db db'"
  "credit_claimable d addr amount db = Inr db' \<Longrightarrow> same_index db db'"
  by (auto simp: upsert_account_def update_account_def credit_claimable_def same_index_def)

lemma transition_same_index:
  "transitionSettlementRequest flt k now requestID a b db = Inr db' \<Longrightarrow> same_index db db'"
  by (auto simp: transitionSettlementRequest_def Let_def insert_outbox_def same_index_def split: if_splits)

lemma write_settlement_same_index:
  assumes "write_settlement flt k now d fr requestID sessionID provider pa fa db = Inr db'"
  shows "same_index db db'"
proof -
  obtain db2 db3 db4 where db: "spend_session d sessionID (pa + fa) db = Inr db2"
      "\<exists>x. debit_session sessionID (pa + fa) db2 = Inr x \<and> credit_claimable d provider pa x = Inr db3"
      "credit_claimable d fr fa db3 = Inr db4"
      "transitionSettlementRequest flt (k + 6) now requestID ''submitted'' ''settled''
        (finish_hold now requestID (finish_queue_row now requestID db4)) = Inr db'"
    using assms by (auto simp: write_settlement_def)
  from db(1,2) have "same_index db db3"
    by (auto simp: spend_session_def debit_session_def same_index_def dest!: account_same_index(3))
  moreover have "same_index db3 db4" using account_same_index(3) [OF db(3)] .
  moreover have "same_index db4 db'"
    using transition_same_index [OF db(4)] by (simp add: same_index_def finish_hold_def finish_queue_row_def)
  ultimately show ?thesis by (blast intro: same_index_trans)
qed

lemma session_same_index:
  "apply_SessionOpened flt k now d s c a t db = Inr db' \<Longrightarrow> same_index db db'"
  "apply_SessionCloseRequested flt k d s u db = Inr db' \<Longrightarrow> same_index db db'"
  "apply_SessionClosed flt k d s a db = Inr db' \<Longrightarrow> same_index db db'"
proof -
  have up: "upsert_session now s c a x = Inr y \<Longrightarrow> same_index x y" for x y
    by (auto simp: upsert_session_def Let_def same_index_def split: list.splits)
  show "apply_SessionOpened flt k now d s c a t db = Inr db' \<Longrightarrow> same_index db db'"
    by (auto simp: apply_SessionOpened_def dest!: up account_same_index(2)) (simp add: same_index_def)
qed (auto simp: apply_SessionCloseRequested_def apply_SessionClosed_def Let_def same_index_def
    update_account_def)

lemma settled_same_index:
  "apply_ReceiptSettled flt k now d fr r s p pa fa tx b db = Inr db' \<Longrightarrow> same_index db db'"
  "apply_ProviderSlashed flt k d fr r p a tx b db = Inr db' \<Longrightarrow> same_index db db'"
  by (auto simp: apply_ReceiptSettled_def apply_ProviderSlashed_def split: if_splits
      dest!: write_settlement_same_index account_same_index) (simp_all add: same_index_def)

lemma applyLog_same_index:
  assumes "applyLog G nd ix flt k now eventLog db = Inr db'"
  shows "same_index db db'"
proof -
  obtain event where ev: "nd_Parse nd eventLog = Inr event" "lg_Topics eventLog \<noteq> []"
    using assms by (auto simp: applyLog_def Let_def split: if_splits)
  note run = assms [unfolded applyLog_def Let_def if_not_P [OF ev(2)] ev(1) and_then.simps]
  show ?thesis
  proof (cases event)
    case (SessionOpened s c a t)
    with run show ?thesis by (auto dest: session_same_index)
  next
    case (SessionCloseRequested s t)
    with run show ?thesis by (auto dest: session_same_index)
  next
    case (SessionClosed s a)
    with run show ?thesis by (auto dest: session_same_index)
  next
    case (ReceiptSettled r s p pa fa)
    with run show ?thesis by (auto dest: settled_same_index)
  next
    case (ProviderSlashed p r a)
    with run show ?thesis by (auto dest: settled_same_index)
  qed (use run in \<open>auto simp: apply_Deposited_def apply_WithdrawalRequested_def apply_Claimed_def
        apply_BondDeposited_def apply_BondExitRequested_def apply_BondExitFinalized_def
        dest: account_same_index\<close>, auto simp: apply_ProviderSignerSet_def apply_OfferPublished_def same_index_def)
qed

section \<open>Repeating a range\<close>

text \<open>A log that the index has.\<close>

definition log_known :: "eth \<Rightarrow> indexer \<Rightarrow> db \<Rightarrow> eth_log \<Rightarrow> bool" where
  "log_known G ix db eventLog \<longleftrightarrow>
     (\<exists>row. log_row_of G ix eventLog = Inr row \<and> log_key row \<in> log_key ` set (chain_logs db))"

lemma insertLog_ok:
  assumes "insertLog G ix flt k eventLog db = Inr (inserted, db1)"
  shows "log_known G ix db1 eventLog \<and> set (chain_logs db) \<subseteq> set (chain_logs db1)
    \<and> chain_blocks db1 = chain_blocks db \<and> chain_cursors db1 = chain_cursors db"
  using assms by (auto simp: insertLog_def log_known_def insert_or_nothing_def split: if_splits)

lemma log_known_mono:
  "log_known G ix db l \<Longrightarrow> set (chain_logs db) \<subseteq> set (chain_logs db') \<Longrightarrow> log_known G ix db' l"
  unfolding log_known_def by blast

lemma index_logs_known:
  "index_logs G nd ix flt k now logs db = Inr db' \<Longrightarrow>
     (\<forall>l \<in> set logs. log_known G ix db' l) \<and> set (chain_logs db) \<subseteq> set (chain_logs db')
     \<and> chain_blocks db' = chain_blocks db \<and> chain_cursors db' = chain_cursors db"
proof (induction logs arbitrary: k db)
  case (Cons l logs)
  obtain inserted db1 db2 where run: "insertLog G ix flt k l db = Inr (inserted, db1)"
      "(if inserted then applyLog G nd ix flt (k + 1) now l db1 else Inr db1) = Inr db2"
      "index_logs G nd ix flt (k + 16) now logs db2 = Inr db'"
    using Cons.prems by auto
  have "same_index db1 db2"
    using run(2) applyLog_same_index [of G nd ix flt "k + 1" now l db1 db2] by (auto simp: same_index_def split: if_splits)
  with insertLog_ok [OF run(1)] have "log_known G ix db2 l" "set (chain_logs db) \<subseteq> set (chain_logs db2)"
      "chain_blocks db2 = chain_blocks db" "chain_cursors db2 = chain_cursors db"
    by (auto simp: same_index_def elim: log_known_mono)
  with Cons.IH [OF run(3)] show ?case by (auto elim: log_known_mono)
qed simp

lemma index_logs_again:
  "\<forall>l \<in> set logs. log_known G ix db l \<Longrightarrow> index_logs G nd ix no_faults k now logs db = Inr db"
proof (induction logs arbitrary: k)
  case (Cons l logs)
  then obtain row where "log_row_of G ix l = Inr row" "log_key row \<in> log_key ` set (chain_logs db)"
    by (auto simp: log_known_def)
  then have "insertLog G ix no_faults k l db = Inr (False, db)"
    unfolding insertLog_def insert_or_nothing_def stmt_no_faults by simp
  with Cons show ?case by simp
qed simp

lemma record_block_again:
  assumes "record_block G ix b h db = Inr db1" "chain_blocks db2 = chain_blocks db1"
  shows "record_block G ix b h db2 = Inr db2"
proof -
  let ?row = "\<lparr>cb_deployment = deployment_of G ix, cb_block_number = uint b,
    cb_block_hash = eth_HashHex G (hd_Hash h), cb_parent_hash = eth_HashHex G (hd_ParentHash h)\<rparr>"
  let ?merge = "\<lambda>r. r\<lparr>cb_block_hash := eth_HashHex G (hd_Hash h), cb_parent_hash := eth_HashHex G (hd_ParentHash h)\<rparr>"
  obtain t where t: "uint b < 2 ^ 63" "insert_or_update True (\<lambda>_. True) block_key ?row ?merge (chain_blocks db) = Inr t"
      "db1 = db\<lparr>chain_blocks := t\<rparr>"
    using assms(1) by (auto simp: record_block_def)
  have "\<forall>r. block_key r = block_key ?row \<longrightarrow> ?merge r = ?row" by (auto simp: block_key_def)
  from upsert_settles(1) [OF t(2) this] t show ?thesis
    using assms(2) by (simp add: record_block_def)
qed

lemma record_cursor_again:
  assumes "record_cursor G ix b h db = Inr db1"
  shows "record_cursor G ix b h db1 = Inr db1"
    "cursor G ix no_faults db1 = Inr (b + 1, Some b, eth_HashHex G (hd_Hash h))"
proof -
  let ?row = "\<lparr>cc_deployment = deployment_of G ix, cc_next_block = uint (b + 1), cc_last_block = Some (uint b),
    cc_last_block_hash = Some (eth_HashHex G (hd_Hash h))\<rparr>"
  let ?merge = "\<lambda>r. r\<lparr>cc_next_block := uint (b + 1), cc_last_block := Some (uint b),
    cc_last_block_hash := Some (eth_HashHex G (hd_Hash h))\<rparr>"
  obtain t where t: "uint (b + 1) < 2 ^ 63" "uint b < 2 ^ 63"
      "insert_or_update True (\<lambda>_. True) cc_deployment ?row ?merge (chain_cursors db) = Inr t"
      "db1 = db\<lparr>chain_cursors := t\<rparr>"
    using assms(1) by (auto simp: record_cursor_def)
  have "\<forall>r. cc_deployment r = cc_deployment ?row \<longrightarrow> ?merge r = ?row" by auto
  note settled = upsert_settles [OF t(3) this]
  from settled(1) t show "record_cursor G ix b h db1 = Inr db1" by (simp add: record_cursor_def)
  from settled(2) t(4) show "cursor G ix no_faults db1 = Inr (b + 1, Some b, eth_HashHex G (hd_Hash h))"
    by (simp add: cursor_def)
qed

lemma indexRange_ok:
  assumes "indexRange G nd ix flt call now a b db = (Inr u, db')"
  shows "\<exists>h logs db1 db2. nd_HeaderByNumber nd call (Some b) = Inr h \<and> nd_FilterLogs nd call a b = Inr logs
    \<and> record_block G ix b h db = Inr db1 \<and> index_logs G nd ix flt 4 now logs db1 = Inr db2
    \<and> record_cursor G ix b h db2 = Inr db'"
  using assms by (auto simp: indexRange_def transact_ok split: sum.splits)

text \<open>C20: Indexing is idempotent: a range whose logs the node returns again, after a restart or a failed run,
  leaves the database exactly as the first pass left it, so no event is credited, debited or settled twice.\<close>

theorem range_indexed_once:
  assumes "indexRange G nd ix flt call now a b db = (Inr u, db')"
    "nd_HeaderByNumber nd call' (Some b) = nd_HeaderByNumber nd call (Some b)"
    "nd_FilterLogs nd call' a b = nd_FilterLogs nd call a b"
  shows "indexRange G nd ix no_faults call' now' a b db' = (Inr (), db')"
proof -
  obtain h logs db1 db2 where run: "nd_HeaderByNumber nd call (Some b) = Inr h" "nd_FilterLogs nd call a b = Inr logs"
      "record_block G ix b h db = Inr db1" "index_logs G nd ix flt 4 now logs db1 = Inr db2"
      "record_cursor G ix b h db2 = Inr db'"
    using indexRange_ok [OF assms(1)] by blast
  note known = index_logs_known [OF run(4)]
  have cur: "chain_logs db' = chain_logs db2" "chain_blocks db' = chain_blocks db2"
    using run(5) by (auto simp: record_cursor_def)
  have "record_block G ix b h db' = Inr db'" using record_block_again [OF run(3)] known cur(2) by simp
  moreover have "index_logs G nd ix no_faults 4 now' logs db' = Inr db'"
    using known cur(1) by (intro index_logs_again) (simp add: log_known_def)
  ultimately show ?thesis
    using assms(2,3) run(1,2) record_cursor_again(1) [OF run(5)] by (simp add: indexRange_def transact_def)
qed

text \<open>C21: A run reads every confirmed block from its starting point to its target exactly once, in order
  and in batches of at most one hundred blocks, for all 64-bit numbers; it ends, and when it succeeds the
  stored cursor is the block after the target, where the next run continues.\<close>

theorem sync_reads_every_block_once:
  assumes "nxt \<le> target"
  shows "\<exists>rs. blocks_of rs = [unat nxt..<unat target + 1] \<and> (\<forall>(a, b) \<in> set rs. unat b < unat a + 100)
    \<and> sync_loop G nd ix flt call now nxt target db = index_ranges G nd ix flt call now rs db
    \<and> (\<forall>db'. sync_loop G nd ix flt call now nxt target db = (Inr (), db') \<longrightarrow>
        (\<exists>h. cursor G ix no_faults db' = Inr (target + 1, Some target, h)))"
proof -
  have cur: "\<exists>h. cursor G ix no_faults db' = Inr (snd (last rs) + 1, Some (snd (last rs)), h)"
    if "index_ranges G nd ix flt call now rs db = (Inr (), db')" "rs \<noteq> []" for rs call db db'
    using that
  proof (induction rs arbitrary: call db)
    case (Cons r rs)
    obtain a b where r: "r = (a, b)" by (cases r)
    then obtain db1 where db1: "indexRange G nd ix (flt call) call now a b db = (Inr (), db1)"
        "index_ranges G nd ix flt (call + 1) now rs db1 = (Inr (), db')"
      using Cons.prems(1) by (auto split: prod.splits sum.splits)
    show ?case
    proof (cases "rs = []")
      case True
      then have "db' = db1" using db1(2) by simp
      then show ?thesis using True r indexRange_ok [OF db1(1)] record_cursor_again(2) by fastforce
    next
      case False
      then show ?thesis using Cons.IH [OF db1(2) False] r by simp
    qed
  qed simp
  obtain rs where rs: "batches rs nxt target"
      "sync_loop G nd ix flt call now nxt target db = index_ranges G nd ix flt call now rs db"
    using sync_loop_ranges [OF assms] by blast
  then show ?thesis using cur [of call rs db] unfolding batches_def by auto
qed

section \<open>Settled receipts and the ledger\<close>

definition debited :: "string \<Rightarrow> int \<Rightarrow> session_row list \<Rightarrow> session_row list" where
  "debited sessionID charge = update_rows (\<lambda>s. se_id s = sessionID)
     (\<lambda>s. s\<lparr>se_confirmed_balance_wei := max 0 (se_confirmed_balance_wei s - charge)\<rparr>)"

lemma account_ledger:
  "credit_claimable d addr amount db = Inr db' \<Longrightarrow> same_ledger db db' \<and> outbox db' = outbox db"
  by (auto simp: upsert_account_def credit_claimable_def same_ledger_def)

lemma write_settlement_ok:
  assumes "write_settlement flt k now d fr requestID sessionID provider pa fa db = Inr db'"
  shows "\<exists>db6. sessions db6 = debited sessionID (pa + fa) (sessions db)
    \<and> (\<forall>s \<in> set (sessions db). se_id s = sessionID \<longrightarrow>
        session_check (s\<lparr>se_confirmed_balance_wei := max 0 (se_confirmed_balance_wei s - (pa + fa))\<rparr>))
    \<and> reservations db6 = reservations (finish_hold now requestID db) \<and> requests db6 = requests db \<and> outbox db6 = outbox db
    \<and> transitionSettlementRequest flt (k + 6) now requestID ''submitted'' ''settled'' db6 = Inr db'"
proof -
  obtain db1 db2 db3 db4 where db: "spend_session d sessionID (pa + fa) db = Inr db1"
      "debit_session sessionID (pa + fa) db1 = Inr db2" "credit_claimable d provider pa db2 = Inr db3"
      "credit_claimable d fr fa db3 = Inr db4"
      "transitionSettlementRequest flt (k + 6) now requestID ''submitted'' ''settled''
        (finish_hold now requestID (finish_queue_row now requestID db4)) = Inr db'"
    using assms by (auto simp: write_settlement_def)
  have one: "sessions db1 = sessions db" "reservations db1 = reservations db" "requests db1 = requests db"
      "outbox db1 = outbox db"
    using db(1) by (auto simp: spend_session_def)
  have two: "sessions db2 = debited sessionID (pa + fa) (sessions db1)" "reservations db2 = reservations db1"
      "requests db2 = requests db1" "outbox db2 = outbox db1"
      "\<forall>s \<in> set (sessions db1). se_id s = sessionID \<longrightarrow>
        session_check (s\<lparr>se_confirmed_balance_wei := max 0 (se_confirmed_balance_wei s - (pa + fa))\<rparr>)"
    using db(2) by (auto simp: debit_session_def debited_def)
  have four: "same_ledger db2 db4" "outbox db4 = outbox db2"
    using account_ledger [OF db(3)] account_ledger [OF db(4)] by (auto simp: same_ledger_def)
  show ?thesis
    using one two four db(5)
    by (intro exI [of _ "finish_hold now requestID (finish_queue_row now requestID db4)"])
      (simp add: same_ledger_def finish_hold_def finish_queue_row_def)
qed

lemma finish_hold_locked:
  assumes "ledger_ok db" "r \<in> set (reservations db)" "ir_released_at r = None"
  shows "locked_amount s (reservations (finish_hold now (ir_request_id r) db))
    = locked_amount s (reservations db) - (if ir_session_id r = s then ir_amount r else 0)"
  unfolding locked_amount_def finish_hold_def
  using assms sum_rows_update_key [of ir_request_id "reservations db" r "\<lambda>x. ir_request_id x = ir_request_id r"]
  by (simp add: ledger_ok_def is_active_def)

lemma settled_db_ok:
  assumes ok: "ledger_ok db" "solvent db" and r: "r \<in> set (reservations db)" "ir_released_at r = None"
    and db6: "sessions db6 = debited (ir_session_id r) (ir_amount r) (sessions db)"
      "\<forall>s \<in> set (sessions db). se_id s = ir_session_id r \<longrightarrow>
        session_check (s\<lparr>se_confirmed_balance_wei := max 0 (se_confirmed_balance_wei s - ir_amount r)\<rparr>)"
      "reservations db6 = reservations (finish_hold now (ir_request_id r) db)" "requests db6 = requests db"
  shows "ledger_ok db6 \<and> solvent db6"
proof -
  have ids: "map se_id (sessions db6) = map se_id (sessions db)"
    unfolding db6(1) debited_def by (rule map_key_update_rows) simp
  then have idset: "se_id ` set (sessions db6) = se_id ` set (sessions db)" by (metis list.set_map)
  have rids: "map ir_request_id (reservations db6) = map ir_request_id (reservations db)"
    unfolding db6(3) finish_hold_def by (simp add: map_key_update_rows)
  have "\<forall>x \<in> set (reservations db6). \<exists>y \<in> set (reservations db). ir_request_id x = ir_request_id y
      \<and> ir_session_id x = ir_session_id y \<and> ir_amount x = ir_amount y"
    unfolding db6(3) finish_hold_def by (simp add: ball_update_rows) metis
  then have holds: "\<forall>x \<in> set (reservations db6). 0 \<le> ir_amount x \<and> hold_backed db6 x"
    using ok(1) idset db6(4) by (fastforce simp: ledger_ok_def hold_backed_def)
  have checks: "\<forall>s \<in> set (sessions db6). session_check s"
    unfolding db6(1) debited_def using db6(2) ok(1) by (simp add: ball_update_rows ledger_ok_def)
  have "locked_amount (se_id s) (reservations db6) \<le> se_confirmed_balance_wei s"
    if s: "s \<in> set (sessions db6)" "se_state s \<noteq> ''closed''" for s
  proof -
    obtain s0 where s0: "s0 \<in> set (sessions db)" "se_id s0 = se_id s" "se_state s0 = se_state s"
        "se_confirmed_balance_wei s = (if se_id s0 = ir_session_id r
           then max 0 (se_confirmed_balance_wei s0 - ir_amount r) else se_confirmed_balance_wei s0)"
      using s(1) unfolding db6(1) debited_def by (auto simp: set_update_rows)
    then have "locked_amount (se_id s) (reservations db) \<le> se_confirmed_balance_wei s0"
      using ok(2) s(2) by (auto simp: solvent_def)
    then show ?thesis
      using s0 finish_hold_locked [OF ok(1) r] unfolding db6(3) by auto
  qed
  then show ?thesis
    using ok(1) ids rids holds checks db6(4) by (simp add: ledger_ok_def solvent_def)
qed

lemma hold_matches_ok:
  assumes "hold_matches (ir_request_id r) charge db = Inr u" "ledger_ok db" "r \<in> set (reservations db)"
  shows "ir_amount r = charge"
proof -
  obtain x where "select_one (\<lambda>y. ir_request_id y = ir_request_id r) (reservations db) = Inr x"
    using assms(3) by (cases "select_one (\<lambda>y. ir_request_id y = ir_request_id r) (reservations db)") (auto simp: select_one_Inl)
  moreover from select_one_Inr [OF this] have "x = r"
    using assms(2,3) by (auto simp: ledger_ok_def dest: key_unique)
  ultimately show ?thesis using assms(1) by (auto simp: hold_matches_def split: if_splits)
qed

lemma settled_live:
  assumes "holds_live db" "requests db6 = requests db" "reservations db6 = reservations (finish_hold now requestID db)"
  shows "holds_live (moved_db now requestID s ''settled'' db6)"
  unfolding holds_live_def
proof (intro ballI impI)
  let ?db' = "moved_db now requestID s ''settled'' db6"
  fix x y assume x: "x \<in> set (reservations ?db')" "y \<in> set (requests ?db')" "re_id y = ir_request_id x" "ir_released_at x \<noteq> None"
  obtain x0 where x0: "x0 \<in> set (reservations db)" "ir_request_id x0 = ir_request_id x" "ir_amount x0 = ir_amount x"
      "ir_request_id x0 = requestID \<or> ir_released_at x0 \<noteq> None"
    using x(1,4) by (auto simp: moved_db_def assms(3) finish_hold_def set_update_rows split: if_splits)
  obtain y0 where y0: "y0 \<in> set (requests db)" "re_id y0 = re_id y"
      "re_state y = (if re_id y0 = requestID then ''settled'' else re_state y0)"
    using x(2) by (auto simp: moved_db_def assms(2) set_update_rows split: if_splits)
  show "ir_amount x = 0 \<or> re_state y \<in> set ended_states"
  proof (cases "re_id y0 = requestID")
    case True
    then show ?thesis using y0(3) by (simp add: ended_states_def)
  next
    case False
    then have "ir_released_at x0 \<noteq> None" using x0 y0(2) x(3) by auto
    then have "ir_amount x0 = 0 \<or> re_state y0 \<in> set ended_states"
      using assms(1) x0(1,2) y0(1,2) x(3) unfolding holds_live_def by metis
    then show ?thesis using False x0(3) y0(3) by simp
  qed
qed

text \<open>C19: A receipt that the chain settles clears its hold: when the request's hold is active and the
  settlement is new, the projection succeeds only if the settled charge equals the hold to the wei; then
  the hold is released, the session's confirmed balance falls by exactly that charge, and the ledger stays
  intact, solvent and audited.\<close>

theorem settled_receipt_clears_hold:
  assumes "ledger_safe db" "r \<in> set (reservations db)" "ir_released_at r = None"
    "q \<in> set (requests db)" "re_id q = ir_request_id r" "re_state q = ''submitted''"
    "se \<in> set (sessions db)" "se_id se = ir_session_id r" "se_state se \<noteq> ''closed''"
    "(d, ir_request_id r) \<notin> settlement_key ` set (chain_settlements db)"
    "apply_ReceiptSettled flt k now d fr (ir_request_id r) (ir_session_id r) provider pa fa txHash block db = Inr db'"
  shows "ledger_safe db' \<and> pa + fa = ir_amount r
    \<and> locked_amount (ir_session_id r) (reservations db') = locked_amount (ir_session_id r) (reservations db) - ir_amount r
    \<and> se\<lparr>se_confirmed_balance_wei := se_confirmed_balance_wei se - ir_amount r\<rparr> \<in> set (sessions db')"
proof -
  have ok: "ledger_ok db" "solvent db" "holds_live db" "audited db" using assms(1) by (simp_all add: ledger_safe_def)
  obtain t where t: "hold_matches (ir_request_id r) (pa + fa) db = Inr ()"
      "write_settlement flt (k + 2) now d fr (ir_request_id r) (ir_session_id r) provider pa fa (db\<lparr>chain_settlements := t\<rparr>) = Inr db'"
    using assms(10,11) by (auto simp: apply_ReceiptSettled_def insert_or_nothing_def settlement_key_def split: if_splits)
  have charge: "pa + fa = ir_amount r" using hold_matches_ok [OF t(1) ok(1) assms(2)] by simp
  obtain db6 where db6: "sessions db6 = debited (ir_session_id r) (ir_amount r) (sessions db)"
      "\<forall>s \<in> set (sessions db). se_id s = ir_session_id r \<longrightarrow>
        session_check (s\<lparr>se_confirmed_balance_wei := max 0 (se_confirmed_balance_wei s - ir_amount r)\<rparr>)"
      "reservations db6 = reservations (finish_hold now (ir_request_id r) db)" "requests db6 = requests db"
      "outbox db6 = outbox db"
      "transitionSettlementRequest flt (k + 2 + 6) now (ir_request_id r) ''submitted'' ''settled'' db6 = Inr db'"
    using write_settlement_ok [OF t(2)] unfolding charge by (auto simp: finish_hold_def)
  have ok6: "ledger_ok db6 \<and> solvent db6" using settled_db_ok [OF ok(1,2) assms(2,3) db6(1-4)] .
  have moved: "db' = moved_db now (re_id q) (re_state q) ''settled'' db6"
    using transitionSettlementRequest_ok [OF db6(6)] ok6 assms(4-6) db6(4) by (auto simp: ledger_ok_def)
  have "ledger_ok db'" "solvent db'"
    using moved ok6 moved_db_ok assms(4,6) db6(4) by (auto simp: request_states_def)
  moreover have "audited db'"
    unfolding moved using settlement_moves(3) assms(6) by (intro audited_moved_db [OF ok(1,4) assms(4) _ db6(4,5)]) simp
  moreover have "holds_live db'"
    unfolding moved using settled_live [OF ok(3) db6(4)] db6(3) assms(5) by simp
  moreover have "locked_amount (ir_session_id r) (reservations db')
      = locked_amount (ir_session_id r) (reservations db) - ir_amount r"
    using finish_hold_locked [OF ok(1) assms(2,3)] by (simp add: moved moved_db_def db6(3))
  moreover have "ir_amount r \<le> se_confirmed_balance_wei se"
  proof -
    have "ir_amount r \<le> locked_amount (ir_session_id r) (reservations db)"
      unfolding locked_amount_def using ok(1) assms(2,3)
      by (intro sum_rows_member_le) (auto simp: ledger_ok_def is_active_def)
    also have "\<dots> \<le> se_confirmed_balance_wei se" using ok(2) assms(7-9) by (auto simp: solvent_def)
    finally show ?thesis .
  qed
  then have "se\<lparr>se_confirmed_balance_wei := se_confirmed_balance_wei se - ir_amount r\<rparr> \<in> set (sessions db')"
    using assms(7,8) by (auto simp: moved moved_db_def db6(1) debited_def set_update_rows max_def intro!: rev_image_eqI [of se])
  ultimately show ?thesis using charge by (simp add: ledger_safe_def)
qed

section \<open>Rewinding\<close>

definition chain_tables where
  "chain_tables db = (chain_slashes db, chain_settlements db, chain_sessions db, chain_offers db,
     chain_provider_signers db, chain_accounts db, chain_blocks db, chain_cursors db, chain_logs db, sessions db)"

definition reopened :: "string list \<Rightarrow> reservation_row list \<Rightarrow> reservation_row list" where
  "reopened ids = update_rows (\<lambda>r. ir_request_id r \<in> set ids \<and> 0 < ir_amount r) (\<lambda>r. r\<lparr>ir_released_at := None\<rparr>)"

lemma transition_chain_tables:
  "transitionSettlementRequest flt k now requestID a b db = Inr db' \<Longrightarrow>
     chain_tables db' = chain_tables db \<and> reservations db' = reservations db"
  by (auto simp: transitionSettlementRequest_def Let_def insert_outbox_def chain_tables_def split: if_splits)

lemma revert_loop_ok:
  "revert_loop flt k now ids db = Inr db' \<Longrightarrow>
     chain_tables db' = chain_tables db \<and> reservations db' = reopened ids (reservations db)"
proof (induction ids arbitrary: k db)
  case (Cons requestID ids)
  let ?db1 = "db\<lparr>reservations := reopened [requestID] (reservations db)\<rparr>"
  let ?db2 = "?db1\<lparr>settlement_queue := update_rows (\<lambda>r. sq_request_id r = requestID \<and> sq_state r = ''settled'')
    (\<lambda>r. r\<lparr>sq_state := ''broadcasting'', sq_updated_at := now\<rparr>) (settlement_queue db)\<rparr>"
  obtain db3 where "transitionSettlementRequest flt (k + 2) now requestID ''settled'' ''submitted'' ?db2 = Inr db3"
      "revert_loop flt (k + 4) now ids db3 = Inr db'"
    using Cons.prems by (auto simp: reopened_def)
  with Cons.IH [OF this(2)] transition_chain_tables [OF this(1)] show ?case
    by (auto simp: chain_tables_def reopened_def update_rows_def)
qed (simp add: reopened_def update_rows_def)

text \<open>A rewind forgets what the abandoned chain said, and only that: every projected row of the
  deployment is deleted and no row of another one, the holds of the settlements it forgets are active
  again, and the next run starts from the configured block. It does not touch the sessions: their
  confirmed balances and states stay those that the abandoned chain gave them.\<close>

lemma rewind_forgets_chain:
  assumes "rewind G ix flt now db = (Inr u, db')"
  shows "chain_settlements db' = filter (\<lambda>r. ct_deployment r \<noteq> deployment_of G ix) (chain_settlements db)
    \<and> chain_accounts db' = filter (\<lambda>r. ca_deployment r \<noteq> deployment_of G ix) (chain_accounts db)
    \<and> chain_sessions db' = filter (\<lambda>r. cs_deployment r \<noteq> deployment_of G ix) (chain_sessions db)
    \<and> chain_offers db' = filter (\<lambda>r. co_deployment r \<noteq> deployment_of G ix) (chain_offers db)
    \<and> chain_provider_signers db' = filter (\<lambda>r. cp_deployment r \<noteq> deployment_of G ix) (chain_provider_signers db)
    \<and> chain_slashes db' = filter (\<lambda>r. cx_deployment r \<noteq> deployment_of G ix) (chain_slashes db)
    \<and> chain_logs db' = filter (\<lambda>r. cl_deployment r \<noteq> deployment_of G ix) (chain_logs db)
    \<and> reservations db' = reopened (map ct_request_id
        (filter (\<lambda>r. ct_deployment r = deployment_of G ix) (chain_settlements db))) (reservations db)
    \<and> cursor G ix no_faults db' = Inr (ix_startBlock ix, None, [])
    \<and> sessions db' = sessions db"
proof -
  obtain db1 where db1: "revert_loop flt 16 now (map ct_request_id
      (filter (\<lambda>r. ct_deployment r = deployment_of G ix) (chain_settlements db))) db = Inr db1"
      "delete_loop flt 2 (deletions (deployment_of G ix)) db1 = Inr db'"
    using assms by (auto simp: rewind_def Let_def transact_ok)
  have "select_one (\<lambda>r. cc_deployment r = deployment_of G ix) (chain_cursors db') = Inl ErrNoRows"
    using db1(2) unfolding select_one_Inl by (auto simp: deletions_def delete_rows_def)
  then have "cursor G ix no_faults db' = Inr (ix_startBlock ix, None, [])" by (simp add: cursor_def)
  with revert_loop_ok [OF db1(1)] db1(2) show ?thesis
    by (auto simp: deletions_def delete_rows_def chain_tables_def)
qed

section \<open>Witnesses\<close>

definition demo_log :: eth_log where
  "demo_log = \<lparr>lg_Topics = [1], lg_Data = [], lg_BlockNumber = 5, lg_BlockHash = 6, lg_TxHash = 7, lg_Index = 0\<rparr>"

definition demo_node :: node where
  "demo_node = \<lparr>nd_HeaderByNumber = (\<lambda>_ _. Inr \<lparr>hd_Number = 9, hd_Hash = 1, hd_ParentHash = 2\<rparr>),
     nd_FilterLogs = (\<lambda>_ _ _. Inr [demo_log]), nd_CodeAt = (\<lambda>_. Inr [1]), nd_Parse = (\<lambda>_. Inr (Deposited 3 10))\<rparr>"

definition demo_indexer :: indexer where
  "demo_indexer = \<lparr>ix_chainID = 1, ix_contract = 2, ix_startBlock = 1, ix_confirmations = 2, ix_feeRecipient = 4\<rparr>"

definition demo_indexed :: db where
  "demo_indexed = snd (indexRange toy_eth demo_node demo_indexer no_faults 2 7 1 5 empty_db)"

lemma demo_index_run: "indexRange toy_eth demo_node demo_indexer no_faults 2 7 1 5 empty_db = (Inr (), demo_indexed)"
proof -
  have "fst (indexRange toy_eth demo_node demo_indexer no_faults 2 7 1 5 empty_db) = Inr ()" by code_simp
  then show ?thesis unfolding demo_indexed_def by (metis prod.collapse)
qed

theorem range_indexed_once_witness:
  "indexRange toy_eth demo_node demo_indexer no_faults 3 8 1 5 demo_indexed = (Inr (), demo_indexed)
    \<and> map ca_customer_balance (chain_accounts demo_indexed) = [10]"
proof
  show "indexRange toy_eth demo_node demo_indexer no_faults 3 8 1 5 demo_indexed = (Inr (), demo_indexed)"
    by (rule range_indexed_once [OF demo_index_run]) (simp_all add: demo_node_def)
  show "map ca_customer_balance (chain_accounts demo_indexed) = [10]" by code_simp
qed

theorem sync_reads_every_block_once_witness:
  "\<exists>rs. blocks_of rs = [5..<306] \<and> (\<forall>(a, b) \<in> set rs. unat b < unat a + 100)
    \<and> sync_loop toy_eth demo_node demo_indexer (\<lambda>_. no_faults) 2 7 5 305 empty_db
      = index_ranges toy_eth demo_node demo_indexer (\<lambda>_. no_faults) 2 7 rs empty_db"
proof -
  have "(5 :: u64) \<le> 305" "[unat (5 :: u64)..<unat (305 :: u64) + 1] = [5..<306]" by simp_all
  with sync_reads_every_block_once [of 5 305] show ?thesis by metis
qed

definition demo_submitted :: db where
  "demo_submitted = demo_streaming\<lparr>requests := [(reserved_request 7 demo_reservation 3 demo_route)\<lparr>re_state := ''submitted''\<rparr>]\<rparr>"

theorem settled_receipt_clears_hold_witness:
  "\<exists>db'. apply_ReceiptSettled no_faults 0 9 (''1'', ''c'') ''f'' ''r'' ''s'' ''p'' 2 1 ''h'' 5 demo_submitted = Inr db'
    \<and> ledger_safe db' \<and> locked_amount ''s'' (reservations db') = 0"
proof -
  have "is_ok (apply_ReceiptSettled no_faults 0 9 (''1'', ''c'') ''f'' ''r'' ''s'' ''p'' 2 1 ''h'' 5 demo_submitted)"
    by code_simp
  then obtain db' where run: "apply_ReceiptSettled no_faults 0 9 (''1'', ''c'') ''f'' ''r'' ''s'' ''p'' 2 1 ''h'' 5 demo_submitted = Inr db'"
    by (auto simp: is_ok_iff)
  have safe: "ledger_safe demo_submitted"
    by (simp add: ledger_safe_def ledger_ok_def solvent_def holds_live_def audited_def demo_submitted_def demo_defs hold_backed_def
        session_check_def session_states_def numeric_fits_def request_check_def request_states_def
        positive_or_null_def locked_amount_def is_active_def trail_def request_moves_def)
  have "locked_amount ''s'' (reservations demo_submitted) = 3"
    by (simp add: demo_submitted_def demo_defs locked_amount_def is_active_def)
  with settled_receipt_clears_hold [OF safe, of "reserved_hold demo_reservation 3" "hd (requests demo_submitted)"
      "hd (sessions demo_submitted)" "(''1'', ''c'')" no_faults 0 9 "''f''" "''p''" 2 1 "''h''" 5 db'] run
  show ?thesis by (simp add: demo_submitted_def demo_defs)
qed

lemma rewind_forgets_chain_witness:
  "\<exists>db'. rewind toy_eth demo_indexer no_faults 9 demo_indexed = (Inr (), db') \<and> chain_accounts demo_indexed \<noteq> []
    \<and> cursor toy_eth demo_indexer no_faults db' = Inr (1, None, [])"
proof -
  let ?db' = "snd (rewind toy_eth demo_indexer no_faults 9 demo_indexed)"
  have "fst (rewind toy_eth demo_indexer no_faults 9 demo_indexed) = Inr ()" "chain_accounts demo_indexed \<noteq> []"
    by code_simp+
  moreover from this have run: "rewind toy_eth demo_indexer no_faults 9 demo_indexed = (Inr (), ?db')"
    by (metis prod.collapse)
  ultimately show ?thesis using rewind_forgets_chain [OF run] by (metis (no_types) demo_indexer_def indexer.select_convs(3))
qed

end
