(* ===== verification/Channel.thy ===== *)
theory Channel
  imports Prelude
begin

text \<open>
  Buffered Go channels that are written without blocking
  (\<^verbatim>\<open>select { case ch <- x: default: }\<close>). The broker and the provider agent use them for
  backpressure: a message either takes a free place of the buffer or is refused. The locale
  \<open>bounded_fifo\<close> is what they rely on; a receiver takes the oldest message.
\<close>

section \<open>Channels\<close>

record 'a go_chan =
  gc_cap :: nat
  gc_items :: "'a list"

definition make_chan :: "nat \<Rightarrow> 'a go_chan" where
  "make_chan n = \<lparr>gc_cap = n, gc_items = []\<rparr>"

definition try_send :: "'a go_chan \<Rightarrow> 'a \<Rightarrow> unit result \<times> 'a go_chan" where
  "try_send ch x = (if length (gc_items ch) < gc_cap ch
     then (Inr (), ch\<lparr>gc_items := gc_items ch @ [x]\<rparr>) else (Inl ErrBackpressure, ch))"

definition receive :: "'a go_chan \<Rightarrow> 'a option \<times> 'a go_chan" where
  "receive ch = (case gc_items ch of [] \<Rightarrow> (None, ch) | x # xs \<Rightarrow> (Some x, ch\<lparr>gc_items := xs\<rparr>))"

section \<open>The contract\<close>

text \<open>
  A sequence of attempts to push and to take; \<open>pushed\<close> are the messages accepted and \<open>taken\<close>
  those received, both in order.
\<close>

datatype 'a chan_op = Push 'a | Take

locale bounded_fifo =
  fixes push :: "'q \<Rightarrow> 'a \<Rightarrow> unit result \<times> 'q"
    and pop :: "'q \<Rightarrow> 'a option \<times> 'q"
    and items :: "'q \<Rightarrow> 'a list"
    and cap :: "'q \<Rightarrow> nat"
  assumes push_room: "length (items q) < cap q \<Longrightarrow> \<exists>q'. push q x = (Inr (), q') \<and> items q' = items q @ [x] \<and> cap q' = cap q"
    and push_full: "\<not> length (items q) < cap q \<Longrightarrow> push q x = (Inl ErrBackpressure, q)"
    and pop_some: "items q = x # xs \<Longrightarrow> \<exists>q'. pop q = (Some x, q') \<and> items q' = xs \<and> cap q' = cap q"
    and pop_none: "items q = [] \<Longrightarrow> pop q = (None, q)"
begin

fun run_ops :: "'q \<Rightarrow> 'a chan_op list \<Rightarrow> 'a list \<times> 'a list \<times> 'q" where
  "run_ops q [] = ([], [], q)"
| "run_ops q (Push x # ops) =
     (case push q x of (r, q') \<Rightarrow>
        (case run_ops q' ops of (ps, ts, q'') \<Rightarrow> ((if is_ok r then x # ps else ps), ts, q'')))"
| "run_ops q (Take # ops) =
     (case pop q of (r, q') \<Rightarrow>
        (case run_ops q' ops of (ps, ts, q'') \<Rightarrow> (ps, (case r of None \<Rightarrow> ts | Some x \<Rightarrow> x # ts), q'')))"

text \<open>First in, first out, and never beyond the capacity.\<close>

lemma fifo_bounded:
  "run_ops q ops = (ps, ts, q') \<Longrightarrow>
     items q @ ps = ts @ items q' \<and> cap q' = cap q \<and> (length (items q) \<le> cap q \<longrightarrow> length (items q') \<le> cap q')"
proof (induction ops arbitrary: q ps ts)
  case (Cons op ops)
  show ?case
  proof (cases op)
    case (Push x)
    show ?thesis
    proof (cases "length (items q) < cap q")
      case True
      then obtain q1 where q1: "push q x = (Inr (), q1)" "items q1 = items q @ [x]" "cap q1 = cap q"
        using push_room by blast
      obtain ps1 where "run_ops q1 ops = (ps1, ts, q')" "ps = x # ps1"
        using Cons.prems Push q1(1) by (auto split: prod.splits)
      with Cons.IH [OF this(1)] q1 True show ?thesis by simp
    next
      case False
      then have "run_ops q ops = (ps, ts, q')" using Cons.prems Push push_full by (auto split: prod.splits)
      from Cons.IH [OF this] show ?thesis .
    qed
  next
    case Take
    show ?thesis
    proof (cases "items q")
      case Nil
      then have "run_ops q ops = (ps, ts, q')" using Cons.prems Take pop_none by (auto split: prod.splits)
      from Cons.IH [OF this] show ?thesis .
    next
      case (Cons x xs)
      then obtain q1 where q1: "pop q = (Some x, q1)" "items q1 = xs" "cap q1 = cap q" using pop_some by blast
      obtain ts1 where "run_ops q1 ops = (ps, ts1, q')" "ts = x # ts1"
        using Cons.prems Take q1(1) by (auto split: prod.splits)
      with Cons.IH [OF this(1)] q1 Cons show ?thesis by auto
    qed
  qed
qed simp

end

interpretation channel: bounded_fifo try_send receive gc_items gc_cap
  by unfold_locales (auto simp: try_send_def receive_def split: list.splits)

end
