(* ===== verification/Daemon.thy ===== *)
theory Daemon
  imports Chunks Channel
begin

text \<open>
  The provider daemon (\<^verbatim>\<open>cli/internal/provider/daemon.go\<close> and the status types of
  \<^verbatim>\<open>status.go\<close>): the state of the requests it executes, the messages it sends to the relay, the
  dispatch of the messages it receives, the jobs it runs and the status it reports. The WebSocket, JSON
  and the inference backend are parameters; times are nanoseconds, the zero time is 0.
\<close>

section \<open>Request state\<close>

record job_cursor =
  cu_Sequence :: u64
  cu_Done :: bool

record job_request =
  jr_accepted :: bool
  jr_sequence :: u64
  jr_terminal :: bool
  jr_outputSeen :: bool

type_synonym requestState = "string \<rightharpoonup> job_request"

definition NewRequestState :: requestState where
  "NewRequestState = Map.empty"

definition RequestState_Accept :: "requestState \<Rightarrow> string \<Rightarrow> unit result \<times> requestState" where
  "RequestState_Accept s requestID =
     (case s requestID of
        Some existing \<Rightarrow>
          if jr_accepted existing then (Inl ErrLeaseAlreadyAccepted, s)
          else (Inr (), s(requestID \<mapsto> \<lparr>jr_accepted = True, jr_sequence = 0, jr_terminal = False, jr_outputSeen = False\<rparr>))
      | None \<Rightarrow>
          (Inr (), s(requestID \<mapsto> \<lparr>jr_accepted = True, jr_sequence = 0, jr_terminal = False, jr_outputSeen = False\<rparr>)))"

definition RequestState_RecordChunk :: "requestState \<Rightarrow> outputChunk \<Rightarrow> unit result \<times> requestState" where
  "RequestState_RecordChunk s chunk =
     (case OutputChunk_Validate chunk of
        Inl e \<Rightarrow> (Inl e, s)
      | Inr _ \<Rightarrow>
          (case s (ch_RequestID chunk) of
             None \<Rightarrow> (Inl ErrRequestTerminal, s)
           | Some current \<Rightarrow>
               if \<not> jr_accepted current \<or> jr_terminal current then (Inl ErrRequestTerminal, s)
               else if ch_Sequence chunk \<noteq> jr_sequence current + 1 then (Inl ErrChunkSequence, s)
               else (Inr (), s(ch_RequestID chunk \<mapsto> current\<lparr>jr_sequence := ch_Sequence chunk, jr_outputSeen := True,
                      jr_terminal := ch_Done chunk\<rparr>))))"

definition RequestState_Cancel :: "requestState \<Rightarrow> string \<Rightarrow> unit result \<times> requestState" where
  "RequestState_Cancel s requestID =
     (case s requestID of
        None \<Rightarrow> (Inl ErrRequestTerminal, s)
      | Some current \<Rightarrow>
          if jr_terminal current then (Inl ErrRequestTerminal, s)
          else (Inr (), s(requestID \<mapsto> current\<lparr>jr_terminal := True\<rparr>)))"

definition RequestState_CanRetry :: "requestState \<Rightarrow> string \<Rightarrow> bool" where
  "RequestState_CanRetry s requestID =
     (case s requestID of None \<Rightarrow> True | Some current \<Rightarrow> \<not> jr_outputSeen current)"

definition RequestState_Cursor :: "requestState \<Rightarrow> string \<Rightarrow> job_cursor" where
  "RequestState_Cursor s requestID =
     (case s requestID of
        None \<Rightarrow> \<lparr>cu_Sequence = 0, cu_Done = False\<rparr>
      | Some current \<Rightarrow> \<lparr>cu_Sequence = jr_sequence current, cu_Done = jr_terminal current\<rparr>)"

definition RequestState_Restore :: "requestState \<Rightarrow> string \<Rightarrow> job_cursor \<Rightarrow> requestState" where
  "RequestState_Restore s requestID cur = s(requestID \<mapsto> \<lparr>jr_accepted = True, jr_sequence = cu_Sequence cur,
     jr_terminal = cu_Done cur, jr_outputSeen = cu_Sequence cur > 0\<rparr>)"

section \<open>Outbound queue\<close>

text \<open>\<^verbatim>\<open>make\<close> panics on a negative size.\<close>

definition NewOutboundQueue :: "int \<Rightarrow> 'b envelope go_chan result" where
  "NewOutboundQueue sz = (if sz < 0 then Inl ErrPanic else Inr (make_chan (nat sz)))"

definition OutboundQueue_TryPush :: "'b envelope go_chan \<Rightarrow> 'b envelope \<Rightarrow> unit result \<times> 'b envelope go_chan" where
  "OutboundQueue_TryPush q message = try_send q message"

section \<open>Status\<close>

record offerStatus =
  os_OfferID :: string
  os_Model :: string
  os_Healthy :: bool
  os_Error :: string

record requestStatus =
  rqs_RequestID :: string
  rqs_OfferID :: string
  rqs_Model :: string
  rqs_State :: string
  rqs_InputTokens :: u64
  rqs_OutputTokens :: u64
  rqs_ComputeMilliseconds :: u64
  rqs_EarningsWei :: string
  rqs_Error :: string
  rqs_StartedAt :: int
  rqs_CompletedAt :: int

record statusSnapshot =
  ss_Connected :: bool
  ss_StartedAt :: int
  ss_UpdatedAt :: int
  ss_Requests :: u64
  ss_InputTokens :: u64
  ss_OutputTokens :: u64
  ss_ComputeMilliseconds :: u64
  ss_RunEarningsWei :: string
  ss_RecentRequests :: "requestStatus list"
  ss_Offers :: "offerStatus list"

record usage =
  us_InputTokens :: u64
  us_OutputTokens :: u64
  us_ComputeMilliseconds :: u64

record 'k daemonConfig =
  dc_RelayURL :: string
  dc_Token :: string
  dc_MachineID :: string
  dc_Offers :: "offerCapacity list"
  dc_HeartbeatInterval :: int
  dc_DrainTimeout :: int
  dc_SignerKey :: "'k option"
  dc_ChainID :: u64
  dc_Contract :: address

text \<open>\<open>d_jobs\<close> holds the requests with a cancel function, \<open>d_cancelled\<close> those whose function was called.\<close>

record ('k, 'bk) daemon =
  d_config :: "'k daemonConfig"
  d_backends :: "string \<rightharpoonup> 'bk"
  d_state :: requestState
  d_jobs :: "string set"
  d_cancelled :: "string set"
  d_status :: statusSnapshot
  d_earningsRecorded :: "string set"

definition offerStatuses :: "offerCapacity list \<Rightarrow> offerStatus list" where
  "offerStatuses offers = map (\<lambda>offer. \<lparr>os_OfferID = oc_OfferID offer, os_Model = oc_Model offer,
     os_Healthy = True, os_Error = []\<rparr>) offers"

definition NewDaemon :: "int \<Rightarrow> 'k daemonConfig \<Rightarrow> (string \<rightharpoonup> 'bk) \<Rightarrow> ('k, 'bk) daemon" where
  "NewDaemon now config backends =
     (let config1 = (if dc_HeartbeatInterval config \<le> 0 then config\<lparr>dc_HeartbeatInterval := 10 * 10 ^ 9\<rparr> else config);
          config2 = (if dc_DrainTimeout config1 \<le> 0 then config1\<lparr>dc_DrainTimeout := 30 * 10 ^ 9\<rparr> else config1)
      in \<lparr>d_config = config2, d_backends = backends, d_state = NewRequestState, d_jobs = {}, d_cancelled = {},
          d_status = \<lparr>ss_Connected = False, ss_StartedAt = now, ss_UpdatedAt = now, ss_Requests = 0,
            ss_InputTokens = 0, ss_OutputTokens = 0, ss_ComputeMilliseconds = 0, ss_RunEarningsWei = [],
            ss_RecentRequests = [], ss_Offers = offerStatuses (dc_Offers config2)\<rparr>,
          d_earningsRecorded = {}\<rparr>)"

fun validateBackends_loop :: "offerCapacity list \<Rightarrow> (string \<rightharpoonup> 'bk) \<Rightarrow> unit result" where
  "validateBackends_loop [] backends = Inr ()"
| "validateBackends_loop (offer # offers) backends =
     (if \<not> is_ok (OfferCapacity_Validate offer) \<or> backends (oc_OfferID offer) = None
      then Inl (ErrText ''every offer requires a valid backend'')
      else validateBackends_loop offers backends)"

definition validateBackends :: "offerCapacity list \<Rightarrow> (string \<rightharpoonup> 'bk) \<Rightarrow> unit result" where
  "validateBackends offers backends =
     (if offers = [] then Inl (ErrText ''at least one enabled backend is required'')
      else validateBackends_loop offers backends)"

definition Daemon_validate :: "('k, 'bk) daemon \<Rightarrow> unit result" where
  "Daemon_validate d =
     (if blank (dc_RelayURL (d_config d)) \<or> blank (dc_Token (d_config d)) \<or> blank (dc_MachineID (d_config d))
      then Inl (ErrText ''relay URL, machine token, and machine ID are required'')
      else validateBackends (dc_Offers (d_config d)) (d_backends d))"

definition UpdateBackends ::
  "int \<Rightarrow> ('k, 'bk) daemon \<Rightarrow> offerCapacity list \<Rightarrow> (string \<rightharpoonup> 'bk) \<Rightarrow> unit result \<times> ('k, 'bk) daemon" where
  "UpdateBackends now d offers backends =
     (case (if offers \<noteq> [] then validateBackends offers backends else Inr ()) of
        Inl e \<Rightarrow> (Inl e, d)
      | Inr _ \<Rightarrow> (Inr (), d\<lparr>d_config := (d_config d)\<lparr>dc_Offers := offers\<rparr>, d_backends := backends,
          d_status := (d_status d)\<lparr>ss_Offers := offerStatuses offers, ss_UpdatedAt := now\<rparr>\<rparr>))"

definition setConnected :: "int \<Rightarrow> bool \<Rightarrow> ('k, 'bk) daemon \<Rightarrow> ('k, 'bk) daemon" where
  "setConnected now connected d = d\<lparr>d_status := (d_status d)\<lparr>ss_Connected := connected, ss_UpdatedAt := now\<rparr>\<rparr>"

definition new_status :: "string \<Rightarrow> requestStatus" where
  "new_status requestID = \<lparr>rqs_RequestID = requestID, rqs_OfferID = [], rqs_Model = [], rqs_State = [],
     rqs_InputTokens = 0, rqs_OutputTokens = 0, rqs_ComputeMilliseconds = 0, rqs_EarningsWei = [], rqs_Error = [],
     rqs_StartedAt = 0, rqs_CompletedAt = 0\<rparr>"

fun update_first :: "string \<Rightarrow> (requestStatus \<Rightarrow> requestStatus) \<Rightarrow> requestStatus list \<Rightarrow> requestStatus list option" where
  "update_first requestID update [] = None"
| "update_first requestID update (r # rs) =
     (if rqs_RequestID r = requestID then Some (update r # rs)
      else map_option (Cons r) (update_first requestID update rs))"

definition updateRequestLocked :: "string \<Rightarrow> (requestStatus \<Rightarrow> requestStatus) \<Rightarrow> statusSnapshot \<Rightarrow> statusSnapshot" where
  "updateRequestLocked requestID update st =
     (if requestID = [] then st
      else st\<lparr>ss_RecentRequests :=
        (case update_first requestID update (ss_RecentRequests st) of
           Some rs \<Rightarrow> rs
         | None \<Rightarrow> update (new_status requestID) # ss_RecentRequests st)\<rparr>)"

definition recentLimit :: nat where
  "recentLimit = 20"

definition is_running :: "requestStatus \<Rightarrow> bool" where
  "is_running r \<longleftrightarrow> rqs_State r = ''active'' \<or> rqs_State r = ''settling''"

fun trim_loop :: "nat \<Rightarrow> requestStatus list \<Rightarrow> requestStatus list" where
  "trim_loop terminal [] = []"
| "trim_loop terminal (r # rs) =
     (if is_running r then r # trim_loop terminal rs
      else if terminal \<ge> recentLimit then trim_loop terminal rs
      else r # trim_loop (terminal + 1) rs)"

definition trimRequestsLocked :: "statusSnapshot \<Rightarrow> statusSnapshot" where
  "trimRequestsLocked st = st\<lparr>ss_RecentRequests := trim_loop 0 (ss_RecentRequests st)\<rparr>"

fun set_health :: "string \<Rightarrow> bool \<Rightarrow> string \<Rightarrow> offerStatus list \<Rightarrow> offerStatus list" where
  "set_health offerID healthy message [] = []"
| "set_health offerID healthy message (o1 # os) =
     (if os_OfferID o1 = offerID then o1\<lparr>os_Healthy := healthy, os_Error := message\<rparr> # os
      else o1 # set_health offerID healthy message os)"

definition setOfferHealthLocked :: "string \<Rightarrow> bool \<Rightarrow> string \<Rightarrow> statusSnapshot \<Rightarrow> statusSnapshot" where
  "setOfferHealthLocked offerID healthy message st =
     st\<lparr>ss_Offers := set_health offerID healthy message (ss_Offers st)\<rparr>"

definition on_status :: "int \<Rightarrow> (statusSnapshot \<Rightarrow> statusSnapshot) \<Rightarrow> ('k, 'bk) daemon \<Rightarrow> ('k, 'bk) daemon" where
  "on_status now f d = d\<lparr>d_status := (f (d_status d))\<lparr>ss_UpdatedAt := now\<rparr>\<rparr>"

definition recordRequestStarted :: "int \<Rightarrow> jobOffer \<Rightarrow> ('k, 'bk) daemon \<Rightarrow> ('k, 'bk) daemon" where
  "recordRequestStarted now offer = on_status now (\<lambda>st. trimRequestsLocked (st\<lparr>ss_RecentRequests :=
     (new_status (jo_RequestID offer))\<lparr>rqs_OfferID := jo_OfferID offer, rqs_Model := jo_Model offer,
        rqs_State := ''active'', rqs_StartedAt := now\<rparr> # ss_RecentRequests st\<rparr>))"

definition recordCompletion :: "int \<Rightarrow> string \<Rightarrow> string \<Rightarrow> usage \<Rightarrow> ('k, 'bk) daemon \<Rightarrow> ('k, 'bk) daemon" where
  "recordCompletion now requestID offerID use = on_status now (\<lambda>st.
     setOfferHealthLocked offerID True []
       (updateRequestLocked requestID
          (\<lambda>r. r\<lparr>rqs_State := ''settling'', rqs_InputTokens := us_InputTokens use,
             rqs_OutputTokens := us_OutputTokens use, rqs_ComputeMilliseconds := us_ComputeMilliseconds use\<rparr>)
          (st\<lparr>ss_Requests := ss_Requests st + 1, ss_InputTokens := ss_InputTokens st + us_InputTokens use,
             ss_OutputTokens := ss_OutputTokens st + us_OutputTokens use,
             ss_ComputeMilliseconds := ss_ComputeMilliseconds st + us_ComputeMilliseconds use\<rparr>)))"

definition recordRequestFailed :: "int \<Rightarrow> string \<Rightarrow> string \<Rightarrow> ('k, 'bk) daemon \<Rightarrow> ('k, 'bk) daemon" where
  "recordRequestFailed now requestID message = on_status now (\<lambda>st.
     trimRequestsLocked (updateRequestLocked requestID
       (\<lambda>r. r\<lparr>rqs_State := ''failed'', rqs_Error := message, rqs_CompletedAt := now\<rparr>) st))"

definition recordOfferHealth :: "int \<Rightarrow> string \<Rightarrow> bool \<Rightarrow> string \<Rightarrow> ('k, 'bk) daemon \<Rightarrow> ('k, 'bk) daemon" where
  "recordOfferHealth now offerID healthy message = on_status now (setOfferHealthLocked offerID healthy message)"

text \<open>The provider's share of a receipt.\<close>

definition receipt_earnings :: "receipt \<Rightarrow> int" where
  "receipt_earnings r = uint (rc_TotalCharge r) - (uint (rc_TotalCharge r) * uint (rc_FeeBasisPoints r)) div 10000"

definition recordReceipt :: "int \<Rightarrow> receiptProposal \<Rightarrow> ('k, 'bk) daemon \<Rightarrow> ('k, 'bk) daemon" where
  "recordReceipt now proposal d =
     (let r = rp_Receipt proposal; earnings = receipt_earnings r;
          st = updateRequestLocked (rp_RequestID proposal)
            (\<lambda>q. q\<lparr>rqs_State := ''completed'', rqs_InputTokens := rc_InputTokens r, rqs_OutputTokens := rc_OutputTokens r,
               rqs_ComputeMilliseconds := rc_ComputeMilliseconds r, rqs_EarningsWei := int_string earnings,
               rqs_CompletedAt := sint (rc_CompletedAt r) * 10 ^ 9\<rparr>) (d_status d);
          recorded = rp_RequestID proposal \<in> d_earningsRecorded d;
          run = (case big_set_string (ss_RunEarningsWei st) of None \<Rightarrow> 0 | Some i \<Rightarrow> i);
          st1 = (if recorded then st else st\<lparr>ss_RunEarningsWei := int_string (run + earnings)\<rparr>)
      in d\<lparr>d_status := (trimRequestsLocked st1)\<lparr>ss_UpdatedAt := now\<rparr>,
           d_earningsRecorded := insert (rp_RequestID proposal) (d_earningsRecorded d)\<rparr>)"

definition Daemon_Capacity :: "('k, 'bk) daemon \<Rightarrow> capacity" where
  "Daemon_Capacity d = \<lparr>ca_Available = of_nat (length (dc_Offers (d_config d))), ca_Offers = dc_Offers (d_config d)\<rparr>"

definition signProposal :: "'k evm \<Rightarrow> ('k, 'bk) daemon \<Rightarrow> receiptProposal \<Rightarrow> receiptSignature result" where
  "signProposal E d proposal =
     (case dc_SignerKey (d_config d) of
        None \<Rightarrow> Inl (ErrText ''receipt proposal domain does not match this machine'')
      | Some key \<Rightarrow>
          if rp_ChainID proposal \<noteq> dc_ChainID (d_config d) \<or> rp_Contract proposal \<noteq> dc_Contract (d_config d)
          then Inl (ErrText ''receipt proposal domain does not match this machine'')
          else and_then (SignReceipt E (rp_Receipt proposal) (rp_ChainID proposal) (rp_Contract proposal) (Some key))
            (\<lambda>signature. Inr \<lparr>rs_RequestID = rp_RequestID proposal, rs_Signer = ev_address E key, rs_Signature = signature\<rparr>))"

section \<open>Messages\<close>

text \<open>
  The connection: JSON encoding of bodies and envelopes, the strict decoding of bodies, and the outcome
  of writing a payload. The identifier of an envelope is its type and the current time.
\<close>

record 'b wire =
  wr_marshalBody :: "message \<Rightarrow> 'b result"
  wr_marshal :: "'b envelope \<Rightarrow> bytes result"
  wr_write :: "bytes \<Rightarrow> unit result"
  wr_decodeStrict :: "string \<Rightarrow> 'b \<Rightarrow> message result"

definition Daemon_send :: "'b wire \<Rightarrow> int \<Rightarrow> string \<Rightarrow> message \<Rightarrow> unit result" where
  "Daemon_send W now messageType m =
     and_then (NewEnvelope (wr_marshalBody W) now (messageType @ ''-'' @ int_string now) messageType (Some m)) (\<lambda>envelope.
     and_then (wr_marshal W envelope) (\<lambda>payload.
     case wr_write W payload of Inl _ \<Rightarrow> Inl (ErrText ''write relay'') | Inr _ \<Rightarrow> Inr ()))"

definition Daemon_sendChunk ::
  "'b wire \<Rightarrow> int \<Rightarrow> outputChunk \<Rightarrow> ('k, 'bk) daemon \<Rightarrow> unit result \<times> ('k, 'bk) daemon" where
  "Daemon_sendChunk W now chunk d =
     (case RequestState_RecordChunk (d_state d) chunk of
        (Inl e, st) \<Rightarrow> (Inl e, d\<lparr>d_state := st\<rparr>)
      | (Inr _, st) \<Rightarrow> (Daemon_send W now ''output_chunk'' (MOutputChunk chunk), d\<lparr>d_state := st\<rparr>))"

section \<open>Jobs\<close>

definition removeJob :: "string \<Rightarrow> ('k, 'bk) daemon \<Rightarrow> ('k, 'bk) daemon" where
  "removeJob requestID d = d\<lparr>d_jobs := d_jobs d - {requestID}\<rparr>"

definition Daemon_cancel :: "int \<Rightarrow> string \<Rightarrow> ('k, 'bk) daemon \<Rightarrow> ('k, 'bk) daemon" where
  "Daemon_cancel now requestID d =
     (if requestID \<in> d_jobs d
      then recordRequestFailed now requestID ''cancelled''
        (d\<lparr>d_cancelled := insert requestID (d_cancelled d), d_state := snd (RequestState_Cancel (d_state d) requestID)\<rparr>)
      else d)"

definition cancelAll :: "('k, 'bk) daemon \<Rightarrow> ('k, 'bk) daemon" where
  "cancelAll d = d\<lparr>d_cancelled := d_cancelled d \<union> d_jobs d\<rparr>"

text \<open>
  A backend's \<^verbatim>\<open>Generate\<close>: the pieces of output it hands to the callback, its result when all of them
  were taken, and its result when the callback failed.
\<close>

record generation =
  gn_contents :: "string list"
  gn_result :: "usage result"
  gn_aborted :: "go_error \<Rightarrow> usage result"

definition data_chunk :: "string \<Rightarrow> u64 \<Rightarrow> string \<Rightarrow> outputChunk" where
  "data_chunk requestID sequence content = \<lparr>ch_RequestID = requestID, ch_Sequence = sequence, ch_Data = content,
     ch_Done = False, ch_InputTokens = 0, ch_OutputTokens = 0, ch_ComputeMilliseconds = 0, ch_ErrorCode = []\<rparr>"

fun generate_loop ::
  "'b wire \<Rightarrow> int \<Rightarrow> string \<Rightarrow> u64 \<Rightarrow> string list \<Rightarrow> ('k, 'bk) daemon \<Rightarrow> go_error option \<times> u64 \<times> ('k, 'bk) daemon" where
  "generate_loop W now requestID sequence [] d = (None, sequence, d)"
| "generate_loop W now requestID sequence (content # contents) d =
     (case Daemon_sendChunk W now (data_chunk requestID (sequence + 1) content) d of
        (Inl e, d') \<Rightarrow> (Some e, sequence + 1, d')
      | (Inr _, d') \<Rightarrow> generate_loop W now requestID (sequence + 1) contents d')"

fun decode_workspace :: "workspaceFile list \<Rightarrow> (string \<times> bytes) list option" where
  "decode_workspace [] = Some []"
| "decode_workspace (f # fs) =
     (case base64_DecodeString (wf_ContentBase64 f) of
        None \<Rightarrow> None
      | Some content \<Rightarrow> map_option (Cons (wf_Path f, content)) (decode_workspace fs))"

text \<open>
  The goroutine of a job. The backend is asked with the model, the prompt, the decoded workspace and the
  output limit; \<open>errText\<close> is \<^verbatim>\<open>err.Error()\<close>.
\<close>

definition run_job ::
  "'b wire \<Rightarrow> (go_error \<Rightarrow> string) \<Rightarrow> ('bk \<Rightarrow> string \<Rightarrow> string \<Rightarrow> (string \<times> bytes) list \<Rightarrow> u64 \<Rightarrow> generation)
   \<Rightarrow> int \<Rightarrow> 'bk \<Rightarrow> jobOffer \<Rightarrow> ('k, 'bk) daemon \<Rightarrow> ('k, 'bk) daemon" where
  "run_job W errText Generate now selected offer d =
     (case decode_workspace (jo_Workspace offer) of
        None \<Rightarrow> removeJob (jo_RequestID offer) (recordRequestFailed now (jo_RequestID offer) ''invalid workspace file'' d)
      | Some files \<Rightarrow>
          let g = Generate selected (jo_Model offer) (jo_Prompt offer) files (jo_MaximumOutputTokens offer);
              (failed, sequence, d1) = generate_loop W now (jo_RequestID offer) 0 (gn_contents g) d;
              final = (data_chunk (jo_RequestID offer) (sequence + 1) [])\<lparr>ch_Done := True\<rparr>
          in (case (case failed of None \<Rightarrow> gn_result g | Some e \<Rightarrow> gn_aborted g e) of
                Inl e \<Rightarrow>
                  removeJob (jo_RequestID offer)
                    (snd (Daemon_sendChunk W now (final\<lparr>ch_ErrorCode := ''backend_failed''\<rparr>)
                      (recordRequestFailed now (jo_RequestID offer) (errText e)
                        (recordOfferHealth now (jo_OfferID offer) False (errText e) d1))))
              | Inr use \<Rightarrow>
                  (case Daemon_sendChunk W now (final\<lparr>ch_InputTokens := us_InputTokens use,
                       ch_OutputTokens := us_OutputTokens use, ch_ComputeMilliseconds := us_ComputeMilliseconds use\<rparr>) d1 of
                     (Inl e, d2) \<Rightarrow>
                       removeJob (jo_RequestID offer) (recordRequestFailed now (jo_RequestID offer) (errText e) d2)
                   | (Inr _, d2) \<Rightarrow>
                       removeJob (jo_RequestID offer)
                         (recordCompletion now (jo_RequestID offer) (jo_OfferID offer) use d2))))"

fun offer_configured :: "jobOffer \<Rightarrow> offerCapacity list \<Rightarrow> bool" where
  "offer_configured offer [] = False"
| "offer_configured offer (candidate # candidates) =
     (if oc_OfferID candidate = jo_OfferID offer \<and> oc_Model candidate = jo_Model offer
         \<and> oc_PriceVersion candidate = jo_PriceVersion offer
      then True else offer_configured offer candidates)"

text \<open>What \<^verbatim>\<open>startJob\<close> does before it starts the goroutine, with the backend the job will run on.\<close>

definition startJob :: "'b wire \<Rightarrow> int \<Rightarrow> jobOffer \<Rightarrow> ('k, 'bk) daemon \<Rightarrow> 'bk result \<times> ('k, 'bk) daemon" where
  "startJob W now offer d =
     (case d_backends d (jo_OfferID offer) of
        None \<Rightarrow> (Inl ErrInvalidMessage, d)
      | Some selected \<Rightarrow>
          if \<not> offer_configured offer (dc_Offers (d_config d)) \<or> now > jo_LeaseExpiresAt offer
          then (Inl ErrInvalidMessage, d)
          else (case RequestState_Accept (d_state d) (jo_RequestID offer) of
              (Inl e, st) \<Rightarrow> (Inl e, d\<lparr>d_state := st\<rparr>)
            | (Inr _, st) \<Rightarrow>
                let d1 = d\<lparr>d_state := st, d_jobs := insert (jo_RequestID offer) (d_jobs d)\<rparr>
                in (case Daemon_send W now ''job_accept'' (MJobAccept \<lparr>ja_RequestID = jo_RequestID offer\<rparr>) of
                      Inl e \<Rightarrow> (Inl e, removeJob (jo_RequestID offer)
                        (d1\<lparr>d_cancelled := insert (jo_RequestID offer) (d_cancelled d1)\<rparr>))
                    | Inr _ \<Rightarrow> (Inr selected, recordRequestStarted now offer d1))))"

section \<open>Serving\<close>

text \<open>The start of \<^verbatim>\<open>Serve\<close> up to the first read, \<open>dial\<close> being the outcome of dialling the relay.\<close>

definition Serve_open :: "'b wire \<Rightarrow> int \<Rightarrow> unit result \<Rightarrow> ('k, 'bk) daemon \<Rightarrow> unit result \<times> ('k, 'bk) daemon" where
  "Serve_open W now dial d =
     (case Daemon_validate d of
        Inl e \<Rightarrow> (Inl e, d)
      | Inr _ \<Rightarrow>
          (case dial of
             Inl _ \<Rightarrow> (Inl (ErrText ''connect relay''), d)
           | Inr _ \<Rightarrow>
               let d1 = setConnected now True d
               in (and_then (Daemon_send W now ''hello'' (MHello \<lparr>he_MachineID = dc_MachineID (d_config d1)\<rparr>)) (\<lambda>_.
                   Daemon_send W now ''capacity'' (MCapacity (Daemon_Capacity d1))), d1)))"

datatype 'bk started = Nothing | Started 'bk jobOffer

text \<open>One round of the loop: a decoded envelope is dispatched; the result says which job was started.\<close>

definition Serve_dispatch ::
  "'k evm \<Rightarrow> 'b wire \<Rightarrow> int \<Rightarrow> 'b envelope \<Rightarrow> ('k, 'bk) daemon \<Rightarrow> 'bk started result \<times> ('k, 'bk) daemon" where
  "Serve_dispatch E W now envelope d =
     (if en_Type envelope = ''job_offer'' then
        (case DecodeBody (wr_decodeStrict W) now ''job_offer'' envelope of
           Inl e \<Rightarrow> (Inl e, d)
         | Inr m \<Rightarrow> (case m of
             MJobOffer offer \<Rightarrow>
               (case startJob W now offer d of
                  (Inl e, d') \<Rightarrow> (Inl e, d')
                | (Inr selected, d') \<Rightarrow> (Inr (Started selected offer), d'))
           | _ \<Rightarrow> (Inl ErrInvalidMessage, d)))
      else if en_Type envelope = ''cancel'' then
        (case DecodeBody (wr_decodeStrict W) now ''cancel'' envelope of
           Inl e \<Rightarrow> (Inl e, d)
         | Inr m \<Rightarrow> (case m of
             MCancel c \<Rightarrow> (Inr Nothing, Daemon_cancel now (cn_RequestID c) d)
           | _ \<Rightarrow> (Inl ErrInvalidMessage, d)))
      else if en_Type envelope = ''receipt_proposal'' then
        (case DecodeBody (wr_decodeStrict W) now ''receipt_proposal'' envelope of
           Inl e \<Rightarrow> (Inl e, d)
         | Inr m \<Rightarrow> (case m of
             MReceiptProposal proposal \<Rightarrow>
               (case signProposal E d proposal of
                  Inl e \<Rightarrow> (Inl e, d)
                | Inr signature \<Rightarrow>
                    (case Daemon_send W now ''receipt_signature'' (MReceiptSignature signature) of
                       Inl e \<Rightarrow> (Inl e, d)
                     | Inr _ \<Rightarrow> (Inr Nothing, recordReceipt now proposal d)))
           | _ \<Rightarrow> (Inl ErrInvalidMessage, d)))
      else (Inl ErrInvalidMessage, d))"

text \<open>One tick of the heartbeat: the capacity is announced again; an error closes the connection.\<close>

definition Daemon_heartbeat :: "'b wire \<Rightarrow> int \<Rightarrow> ('k, 'bk) daemon \<Rightarrow> bool" where
  "Daemon_heartbeat W now d = is_ok (Daemon_send W now ''capacity'' (MCapacity (Daemon_Capacity d)))"

text \<open>The end of \<^verbatim>\<open>Serve\<close>: without a cancelled context the jobs are cancelled at once, else only when
  the drain timeout passes before they end.\<close>

definition Serve_close :: "int \<Rightarrow> bool \<Rightarrow> bool \<Rightarrow> ('k, 'bk) daemon \<Rightarrow> ('k, 'bk) daemon" where
  "Serve_close now ctxDone drainedInTime d =
     (let d1 = setConnected now False d in if \<not> ctxDone \<or> \<not> drainedInTime then cancelAll d1 else d1)"

end
