(* ===== verification/DaemonInv.thy ===== *)
theory DaemonInv
  imports Daemon
begin

text \<open>
  Properties of the provider daemon: the chunks it sends fit the broker's gate, a lease is accepted once,
  earnings are counted once per request, and the list of recent requests is bounded.
\<close>

section \<open>The provider's gate\<close>

definition job_pos :: "requestState \<Rightarrow> string \<Rightarrow> u64" where
  "job_pos s r = (case s r of None \<Rightarrow> 0 | Some q \<Rightarrow> jr_sequence q)"

definition job_shut :: "requestState \<Rightarrow> string \<Rightarrow> bool" where
  "job_shut s r = (case s r of None \<Rightarrow> True | Some q \<Rightarrow> \<not> jr_accepted q \<or> jr_terminal q)"

lemma RecordChunk_ok:
  assumes "RequestState_RecordChunk s c = (Inr u, s')"
  shows "\<exists>q. s (ch_RequestID c) = Some q \<and> jr_accepted q \<and> \<not> jr_terminal q \<and> OutputChunk_Validate c = Inr ()
    \<and> ch_Sequence c = jr_sequence q + 1
    \<and> s' = s(ch_RequestID c \<mapsto> q\<lparr>jr_sequence := ch_Sequence c, jr_outputSeen := True, jr_terminal := ch_Done c\<rparr>)"
proof -
  obtain v where v: "OutputChunk_Validate c = Inr v"
    using assms by (cases "OutputChunk_Validate c") (auto simp: RequestState_RecordChunk_def)
  obtain q where q: "s (ch_RequestID c) = Some q"
    using assms v by (cases "s (ch_RequestID c)") (auto simp: RequestState_RecordChunk_def)
  from assms v q show ?thesis by (auto simp: RequestState_RecordChunk_def split: if_splits)
qed

lemma RecordChunk_error: "RequestState_RecordChunk s c = (Inl e, s') \<Longrightarrow> s' = s"
  by (auto simp: RequestState_RecordChunk_def split: sum.splits option.splits if_splits)

lemma RecordChunk_admits:
  assumes "OutputChunk_Validate c = Inr ()" "\<not> job_shut s (ch_RequestID c)" "ch_Sequence c = job_pos s (ch_RequestID c) + 1"
  shows "\<exists>s'. RequestState_RecordChunk s c = (Inr (), s')"
  using assms by (cases "s (ch_RequestID c)") (simp_all add: RequestState_RecordChunk_def job_shut_def job_pos_def)

interpretation provider_gate: chunk_gate RequestState_RecordChunk job_pos job_shut
proof (unfold_locales, goal_cases)
  case (1 s c e s')
  then show ?case by (rule RecordChunk_error)
next
  case (2 s c u s')
  from RecordChunk_ok [OF 2] show ?case by (auto simp: job_pos_def job_shut_def fun_eq_iff)
next
  case (3 c s)
  then show ?case by (rule RecordChunk_admits)
qed

text \<open>The operations on the request state, in any order and for any requests.\<close>

datatype job_op = AcceptLease string | SendChunk outputChunk | CancelJob string

fun job_step :: "requestState \<Rightarrow> job_op \<Rightarrow> unit result \<times> requestState" where
  "job_step s (AcceptLease r) = RequestState_Accept s r"
| "job_step s (SendChunk c) = RequestState_RecordChunk s c"
| "job_step s (CancelJob r) = RequestState_Cancel s r"

fun sent_chunks :: "requestState \<Rightarrow> job_op list \<Rightarrow> outputChunk list" where
  "sent_chunks s [] = []"
| "sent_chunks s (op # ops) =
     (case job_step s op of (res, s') \<Rightarrow>
        (case op of SendChunk c \<Rightarrow> if is_ok res then [c] else [] | _ \<Rightarrow> []) @ sent_chunks s' ops)"

fun accepted_leases :: "requestState \<Rightarrow> job_op list \<Rightarrow> string list" where
  "accepted_leases s [] = []"
| "accepted_leases s (op # ops) =
     (case job_step s op of (res, s') \<Rightarrow>
        (case op of AcceptLease r \<Rightarrow> if is_ok res then [r] else [] | _ \<Rightarrow> []) @ accepted_leases s' ops)"

definition all_accepted :: "requestState \<Rightarrow> bool" where
  "all_accepted s \<longleftrightarrow> (\<forall>r q. s r = Some q \<longrightarrow> jr_accepted q)"

definition job_ended :: "requestState \<Rightarrow> string \<Rightarrow> bool" where
  "job_ended s r = (case s r of None \<Rightarrow> False | Some q \<Rightarrow> jr_terminal q)"

lemmas job_step_defs = RequestState_Accept_def RequestState_RecordChunk_def RequestState_Cancel_def

lemma job_step_accepted:
  assumes "all_accepted s" "job_step s op = (res, s')"
  shows "all_accepted s'"
  using assms by (cases op) (auto simp: all_accepted_def job_step_defs split: sum.splits option.splits if_splits)

lemma job_step_keeps:
  assumes "job_step s op = (res, s')" "s r \<noteq> None"
  shows "s' r \<noteq> None"
  using assms by (cases op) (auto simp: job_step_defs split: sum.splits option.splits if_splits)

lemma stream_ok_reopen: "stream_ok True p cs \<Longrightarrow> stream_ok closed p cs"
  by (cases cs) auto

lemma sent_stream:
  "all_accepted s \<Longrightarrow> stream_ok (job_ended s r) (job_pos s r) (of_request r (sent_chunks s ops))"
proof (induction ops arbitrary: s)
  case (Cons op ops)
  obtain res s' where step: "job_step s op = (res, s')" by fastforce
  have IH: "stream_ok (job_ended s' r) (job_pos s' r) (of_request r (sent_chunks s' ops))"
    using Cons.IH job_step_accepted [OF Cons.prems step] by blast
  show ?case
  proof (cases op)
    case (AcceptLease x)
    then have "job_ended s' r = job_ended s r" "job_pos s' r = job_pos s r"
      using step Cons.prems
      by (auto simp: RequestState_Accept_def job_ended_def job_pos_def all_accepted_def split: option.splits if_splits)
    with IH AcceptLease step show ?thesis by simp
  next
    case (SendChunk c)
    show ?thesis
    proof (cases res)
      case (Inl e)
      then have "s' = s" using step SendChunk provider_gate.refused by simp
      with IH SendChunk step Inl show ?thesis by simp
    next
      case (Inr u)
      then have c: "OutputChunk_Validate c = Inr ()" "\<not> job_ended s (ch_RequestID c)"
          "ch_Sequence c = job_pos s (ch_RequestID c) + 1" "job_pos s' = (job_pos s)(ch_RequestID c := ch_Sequence c)"
          "job_ended s' = (job_ended s)(ch_RequestID c := ch_Done c)"
        using RecordChunk_ok [of s c u s'] step SendChunk by (auto simp: job_pos_def job_ended_def fun_eq_iff)
      show ?thesis
        using IH SendChunk step Inr c by (auto split: if_splits)
    qed
  next
    case (CancelJob x)
    then have "job_pos s' r = job_pos s r" "job_ended s' r = job_ended s r \<or> job_ended s' r"
      using step by (auto simp: RequestState_Cancel_def job_ended_def job_pos_def split: option.splits if_splits)
    with IH CancelJob step stream_ok_reopen show ?thesis by auto
  qed
qed simp

text \<open>C24: Provider and broker agree on the output stream: whatever leases, chunks and cancellations a
  daemon processes, in any interleaving of requests, the chunks it sends are all admitted by the broker's
  chunk tracker, so an honest daemon is never disconnected for its output.\<close>

theorem provider_stream_admitted:
  "accepted_by ChunkTracker_Accept NewChunkTracker (sent_chunks NewRequestState ops) = sent_chunks NewRequestState ops"
proof -
  have "all_accepted NewRequestState" by (simp add: all_accepted_def NewRequestState_def)
  then have "stream_ok False 0 (of_request r (sent_chunks NewRequestState ops))" for r
    using sent_stream [of NewRequestState r ops] by (simp add: job_ended_def job_pos_def NewRequestState_def)
  then show ?thesis
    using tracker.stream_admitted [of NewChunkTracker] by (simp add: NewChunkTracker_def go_map_get_def)
qed

lemma accepted_leases_fresh: "all_accepted s \<Longrightarrow> s r \<noteq> None \<Longrightarrow> r \<notin> set (accepted_leases s ops)"
proof (induction ops arbitrary: s)
  case (Cons op ops)
  obtain res s' where step: "job_step s op = (res, s')" by fastforce
  have "r \<notin> set (accepted_leases s' ops)"
    using Cons.IH job_step_accepted [OF Cons.prems(1) step] job_step_keeps [OF step Cons.prems(2)] by blast
  moreover have "\<not> is_ok res" if "op = AcceptLease r"
    using step that Cons.prems by (auto simp: RequestState_Accept_def all_accepted_def)
  ultimately show ?case using step by (cases op) auto
qed simp

text \<open>A daemon accepts the lease of a request at most once, whatever it accepted, sent or cancelled in
  between, so no request is executed twice.\<close>

lemma lease_accepted_once: "distinct (accepted_leases NewRequestState ops)"
proof -
  have "all_accepted s \<Longrightarrow> distinct (accepted_leases s ops)" for s
  proof (induction ops arbitrary: s)
    case (Cons op ops)
    obtain res s' where step: "job_step s op = (res, s')" by fastforce
    note ok = job_step_accepted [OF Cons.prems step]
    have "s' r \<noteq> None" if "op = AcceptLease r" "is_ok res" for r
      using step that by (auto simp: RequestState_Accept_def split: option.splits if_splits)
    then show ?case
      using Cons.IH [OF ok] step accepted_leases_fresh [OF ok] by (cases op) auto
  qed simp
  then show ?thesis by (simp add: all_accepted_def NewRequestState_def)
qed

section \<open>Earnings\<close>

definition run_earnings :: "('k, 'bk) daemon \<Rightarrow> int" where
  "run_earnings d = (case big_set_string (ss_RunEarningsWei (d_status d)) of None \<Rightarrow> 0 | Some i \<Rightarrow> i)"

text \<open>The proposals that are the first of their request.\<close>

fun first_proposals :: "string set \<Rightarrow> receiptProposal list \<Rightarrow> receiptProposal list" where
  "first_proposals seen [] = []"
| "first_proposals seen (p # ps) =
     (if rp_RequestID p \<in> seen then first_proposals seen ps
      else p # first_proposals (insert (rp_RequestID p) seen) ps)"

lemma status_earnings [simp]:
  "ss_RunEarningsWei (trimRequestsLocked st) = ss_RunEarningsWei st"
  "ss_RunEarningsWei (updateRequestLocked r f st) = ss_RunEarningsWei st"
  by (simp_all add: trimRequestsLocked_def updateRequestLocked_def)

lemma recordReceipt_earnings:
  "run_earnings (recordReceipt now p d) = run_earnings d
     + (if rp_RequestID p \<in> d_earningsRecorded d then 0 else receipt_earnings (rp_Receipt p))"
  "d_earningsRecorded (recordReceipt now p d) = insert (rp_RequestID p) (d_earningsRecorded d)"
  by (simp_all add: recordReceipt_def Let_def run_earnings_def)

lemma recorded_earnings:
  "run_earnings (fold (recordReceipt now) ps d) = run_earnings d
     + (\<Sum>p \<leftarrow> first_proposals (d_earningsRecorded d) ps. receipt_earnings (rp_Receipt p))"
proof (induction ps arbitrary: d)
  case (Cons p ps)
  then show ?case by (auto simp: recordReceipt_earnings insert_absorb)
qed simp

text \<open>The earnings a daemon reports are exact: after any sequence of signed receipts, proposals repeated
  by the broker included, they are the sum over the distinct requests of the charge less the fee, over
  unbounded integers.\<close>

lemma reported_earnings_exact:
  "run_earnings (fold (recordReceipt now) ps (NewDaemon start config backends))
     = (\<Sum>p \<leftarrow> first_proposals {} ps. uint (rc_TotalCharge (rp_Receipt p))
         - uint (rc_TotalCharge (rp_Receipt p)) * uint (rc_FeeBasisPoints (rp_Receipt p)) div 10000)"
proof -
  have "run_earnings (NewDaemon start config backends) = 0" "d_earningsRecorded (NewDaemon start config backends) = {}"
    by (simp_all add: NewDaemon_def Let_def run_earnings_def big_set_string_def)
  then show ?thesis by (simp add: recorded_earnings receipt_earnings_def)
qed

section \<open>Recent requests\<close>

lemma trim_loop_parts:
  "filter is_running (trim_loop n rs) = filter is_running rs"
  "filter (\<lambda>r. \<not> is_running r) (trim_loop n rs) = take (recentLimit - n) (filter (\<lambda>r. \<not> is_running r) rs)"
  "subseq (trim_loop n rs) rs"
proof (induction rs arbitrary: n)
  case (Cons r rs)
  { case 1 show ?case using Cons by simp
  next case 2 show ?case using Cons by (auto simp: take_Cons' not_le Suc_diff_Suc)
  next case 3 show ?case using Cons(3) by (auto intro: list_emb_Cons) }
qed simp_all

text \<open>Trimming the recent requests keeps their order, every request that is still running, and exactly the
  twenty most recent of the others, so the status stays bounded without losing a running request.\<close>

lemma recent_requests_trimmed:
  "subseq (ss_RecentRequests (trimRequestsLocked st)) (ss_RecentRequests st)
   \<and> filter is_running (ss_RecentRequests (trimRequestsLocked st)) = filter is_running (ss_RecentRequests st)
   \<and> filter (\<lambda>r. \<not> is_running r) (ss_RecentRequests (trimRequestsLocked st))
     = take 20 (filter (\<lambda>r. \<not> is_running r) (ss_RecentRequests st))"
  by (simp add: trimRequestsLocked_def trim_loop_parts recentLimit_def)

end
