(* ===== verification/Hub.thy ===== *)
theory Hub
  imports Chunks Channel
begin

text \<open>
  The relay hub of the broker (\<^verbatim>\<open>server/internal/relay/hub.go\<close>): the registered provider sessions, the
  messages it accepts from them, the messages it sends to them, and the fan-out of events to the
  subscribers of a request. Sessions and channels have identities, as pointers do in Go; the WebSocket
  itself and JSON decoding (\<open>decodeStrict\<close>) are parameters. Mutexes make each operation atomic.
\<close>

section \<open>State\<close>

record hubOptions =
  ho_QueueSize :: int
  ho_HeartbeatTimeout :: int
  ho_MaximumMessage :: int
  ho_CapacityHandler :: "(string \<Rightarrow> capacity \<Rightarrow> unit result) option"

record 'b hubEvent =
  he_Machine :: string
  he_Type :: string
  he_Envelope :: "'b envelope"

record 'b hubSession =
  hs_ident :: nat
  hs_outbound :: "'b envelope go_chan"
  hs_lastSeen :: int

record 'b hub =
  hb_auth :: "(string \<Rightarrow> string result) option"
  hb_options :: hubOptions
  hb_sessions :: "string \<rightharpoonup> 'b hubSession"
  hb_outputStarted :: "string \<rightharpoonup> bool"
  hb_chunks :: chunkTracker
  hb_events :: "'b hubEvent go_chan"
  hb_subscribers :: "string \<rightharpoonup> (nat \<times> 'b hubEvent go_chan) list"
  hb_fresh :: nat

definition NewHub :: "(string \<Rightarrow> string result) option \<Rightarrow> hubOptions \<Rightarrow> 'b hub" where
  "NewHub auth options =
     (let o1 = (if ho_QueueSize options \<le> 0 then options\<lparr>ho_QueueSize := 16\<rparr> else options);
          o2 = (if ho_HeartbeatTimeout o1 \<le> 0 then o1\<lparr>ho_HeartbeatTimeout := 30 * 10 ^ 9\<rparr> else o1);
          o3 = (if ho_MaximumMessage o2 \<le> 0 then o2\<lparr>ho_MaximumMessage := 2 ^ 20\<rparr> else o2)
      in \<lparr>hb_auth = auth, hb_options = o3, hb_sessions = Map.empty, hb_outputStarted = Map.empty,
          hb_chunks = NewChunkTracker, hb_events = make_chan 64, hb_subscribers = Map.empty, hb_fresh = 0\<rparr>)"

section \<open>Sessions\<close>

text \<open>
  The start of \<^verbatim>\<open>ServeHTTP\<close>: the machine that the bearer token authenticates, or the refusal with
  status 401.
\<close>

definition Hub_authorize :: "'b hub \<Rightarrow> string \<Rightarrow> string option" where
  "Hub_authorize h header =
     (let token = trim_prefix ''Bearer '' header
      in case hb_auth h of
           None \<Rightarrow> None
         | Some auth \<Rightarrow>
             if token = [] then None
             else (case auth token of Inl _ \<Rightarrow> None | Inr machineID \<Rightarrow> if machineID = [] then None else Some machineID))"

text \<open>A new session replaces the old one of its machine, whose connection is closed.\<close>

definition Hub_register :: "'b hub \<Rightarrow> string \<Rightarrow> int \<Rightarrow> nat \<times> 'b hub" where
  "Hub_register h machineID now =
     (hb_fresh h, h\<lparr>hb_sessions := (hb_sessions h)(machineID \<mapsto> \<lparr>hs_ident = hb_fresh h,
        hs_outbound = make_chan (nat (ho_QueueSize (hb_options h))), hs_lastSeen = now\<rparr>),
      hb_fresh := hb_fresh h + 1\<rparr>)"

definition Hub_unregister :: "'b hub \<Rightarrow> string \<Rightarrow> nat \<Rightarrow> 'b hub" where
  "Hub_unregister h machineID current =
     (case hb_sessions h machineID of
        None \<Rightarrow> h
      | Some s \<Rightarrow> if hs_ident s = current then h\<lparr>hb_sessions := (hb_sessions h)(machineID := None)\<rparr> else h)"

definition Hub_Connected :: "'b hub \<Rightarrow> string \<Rightarrow> bool" where
  "Hub_Connected h machineID \<longleftrightarrow> hb_sessions h machineID \<noteq> None"

definition Hub_Send :: "'b hub \<Rightarrow> string \<Rightarrow> 'b envelope \<Rightarrow> unit result \<times> 'b hub" where
  "Hub_Send h machineID envelope =
     (case hb_sessions h machineID of
        None \<Rightarrow> (Inl ErrDisconnected, h)
      | Some s \<Rightarrow>
          (case try_send (hs_outbound s) envelope of
             (r, ch) \<Rightarrow> (r, h\<lparr>hb_sessions := (hb_sessions h)(machineID \<mapsto> s\<lparr>hs_outbound := ch\<rparr>)\<rparr>)))"

text \<open>One tick of the heartbeat: a session that was silent for longer than the timeout is dropped.\<close>

definition Hub_heartbeat :: "'b hub \<Rightarrow> string \<Rightarrow> nat \<Rightarrow> int \<Rightarrow> int \<Rightarrow> bool \<times> 'b hub" where
  "Hub_heartbeat h machineID current lastSeen now =
     (if now - lastSeen > ho_HeartbeatTimeout (hb_options h)
      then (True, Hub_unregister h machineID current) else (False, h))"

section \<open>Subscribers\<close>

definition Hub_Subscribe :: "'b hub \<Rightarrow> string \<Rightarrow> nat \<times> 'b hub" where
  "Hub_Subscribe h requestID =
     (let subs = go_map_get (hb_subscribers h) [] requestID
      in (hb_fresh h, h\<lparr>hb_subscribers := (hb_subscribers h)(requestID \<mapsto> subs @ [(hb_fresh h, make_chan 8)]),
            hb_fresh := hb_fresh h + 1\<rparr>))"

definition Hub_Unsubscribe :: "'b hub \<Rightarrow> string \<Rightarrow> nat \<Rightarrow> 'b hub" where
  "Hub_Unsubscribe h requestID channel =
     (let subs = filter (\<lambda>(c, _). c \<noteq> channel) (go_map_get (hb_subscribers h) [] requestID)
      in h\<lparr>hb_subscribers := (hb_subscribers h)(requestID := (if subs = [] then None else Some subs))\<rparr>)"

definition Hub_publish :: "'b hub \<Rightarrow> string \<Rightarrow> 'b hubEvent \<Rightarrow> 'b hub" where
  "Hub_publish h requestID event =
     (if requestID = [] then h
      else case hb_subscribers h requestID of
             None \<Rightarrow> h
           | Some subs \<Rightarrow> h\<lparr>hb_subscribers := (hb_subscribers h)(requestID \<mapsto>
               map (\<lambda>(c, ch). (c, snd (try_send ch event))) subs)\<rparr>)"

definition envelope_requestID ::
  "(string \<Rightarrow> 'b \<Rightarrow> message result) \<Rightarrow> int \<Rightarrow> 'b envelope \<Rightarrow> string" where
  "envelope_requestID decodeStrict now e =
     (if en_Type e = ''job_accept'' then
        (case DecodeBody decodeStrict now ''job_accept'' e of Inr (MJobAccept m) \<Rightarrow> ja_RequestID m | _ \<Rightarrow> [])
      else if en_Type e = ''output_chunk'' then
        (case DecodeBody decodeStrict now ''output_chunk'' e of Inr (MOutputChunk m) \<Rightarrow> ch_RequestID m | _ \<Rightarrow> [])
      else if en_Type e = ''receipt_signature'' then
        (case DecodeBody decodeStrict now ''receipt_signature'' e of Inr (MReceiptSignature m) \<Rightarrow> rs_RequestID m | _ \<Rightarrow> [])
      else [])"

definition Hub_CanRetry :: "'b hub \<Rightarrow> string \<Rightarrow> bool" where
  "Hub_CanRetry h requestID = (\<not> go_map_get (hb_outputStarted h) False requestID)"

section \<open>Inbound messages\<close>

text \<open>The end of \<^verbatim>\<open>AcceptInbound\<close>: the event goes to the subscribers and to the common channel.\<close>

definition deliver ::
  "(string \<Rightarrow> 'b \<Rightarrow> message result) \<Rightarrow> int \<Rightarrow> 'b hub \<Rightarrow> string \<Rightarrow> 'b envelope \<Rightarrow> unit result \<times> 'b hub" where
  "deliver decodeStrict now h machineID envelope =
     (let event = \<lparr>he_Machine = machineID, he_Type = en_Type envelope, he_Envelope = envelope\<rparr>;
          h1 = Hub_publish h (envelope_requestID decodeStrict now envelope) event
      in (case try_send (hb_events h1) event of (r, ch) \<Rightarrow> (r, h1\<lparr>hb_events := ch\<rparr>)))"

definition AcceptInbound ::
  "(string \<Rightarrow> 'b \<Rightarrow> message result) \<Rightarrow> int \<Rightarrow> 'b hub \<Rightarrow> string \<Rightarrow> 'b envelope \<Rightarrow> unit result \<times> 'b hub" where
  "AcceptInbound decodeStrict now h machineID envelope =
     (if en_Type envelope = ''hello'' then
        (case DecodeBody decodeStrict now ''hello'' envelope of
           Inr (MHello hello) \<Rightarrow> if he_MachineID hello = machineID then (Inr (), h) else (Inl ErrInvalidMessage, h)
         | _ \<Rightarrow> (Inl ErrInvalidMessage, h))
      else if en_Type envelope = ''capacity'' then
        (case DecodeBody decodeStrict now ''capacity'' envelope of
           Inl e \<Rightarrow> (Inl e, h)
         | Inr m \<Rightarrow> (case m of
             MCapacity capacity \<Rightarrow>
               (case ho_CapacityHandler (hb_options h) of
                  None \<Rightarrow> deliver decodeStrict now h machineID envelope
                | Some handler \<Rightarrow>
                    (case handler machineID capacity of
                       Inl e \<Rightarrow> (Inl e, h)
                     | Inr _ \<Rightarrow> deliver decodeStrict now h machineID envelope))
           | _ \<Rightarrow> (Inl ErrInvalidMessage, h)))
      else if en_Type envelope = ''job_accept'' then
        (case DecodeBody decodeStrict now ''job_accept'' envelope of
           Inl e \<Rightarrow> (Inl e, h)
         | Inr _ \<Rightarrow> deliver decodeStrict now h machineID envelope)
      else if en_Type envelope = ''output_chunk'' then
        (case DecodeBody decodeStrict now ''output_chunk'' envelope of
           Inl e \<Rightarrow> (Inl e, h)
         | Inr m \<Rightarrow> (case m of
             MOutputChunk chunk \<Rightarrow>
               (case ChunkTracker_Accept (hb_chunks h) chunk of
                  (Inl e, t) \<Rightarrow> (Inl e, h\<lparr>hb_chunks := t\<rparr>)
                | (Inr _, t) \<Rightarrow>
                    deliver decodeStrict now
                      (h\<lparr>hb_chunks := t, hb_outputStarted := (hb_outputStarted h)(ch_RequestID chunk \<mapsto> True)\<rparr>)
                      machineID envelope)
           | _ \<Rightarrow> (Inl ErrInvalidMessage, h)))
      else if en_Type envelope = ''receipt_signature'' then
        (case DecodeBody decodeStrict now ''receipt_signature'' envelope of
           Inl e \<Rightarrow> (Inl e, h)
         | Inr _ \<Rightarrow> deliver decodeStrict now h machineID envelope)
      else (Inl ErrInvalidMessage, h))"

text \<open>
  One round of the read loop of \<^verbatim>\<open>ServeHTTP\<close>; \<open>False\<close> ends the connection. \<open>decodeEnvelope\<close> and
  \<open>bodyLen\<close> are the parameters of \<open>DecodeEnvelope\<close>.
\<close>

definition touch_session :: "'b hub \<Rightarrow> string \<Rightarrow> nat \<Rightarrow> int \<Rightarrow> 'b hub" where
  "touch_session h machineID current now =
     (case hb_sessions h machineID of
        None \<Rightarrow> h
      | Some s \<Rightarrow> if hs_ident s = current
          then h\<lparr>hb_sessions := (hb_sessions h)(machineID \<mapsto> s\<lparr>hs_lastSeen := now\<rparr>)\<rparr> else h)"

definition Hub_read ::
  "(string \<Rightarrow> 'b envelope result) \<Rightarrow> ('b \<Rightarrow> nat) \<Rightarrow> (string \<Rightarrow> 'b \<Rightarrow> message result) \<Rightarrow> int \<Rightarrow> string \<Rightarrow> nat
   \<Rightarrow> string result \<Rightarrow> 'b hub \<Rightarrow> bool \<times> 'b hub" where
  "Hub_read decodeEnvelope bodyLen decodeStrict now machineID current payload h =
     (case payload of
        Inl _ \<Rightarrow> (False, h)
      | Inr data \<Rightarrow>
          let h1 = touch_session h machineID current now
          in case DecodeEnvelope decodeEnvelope bodyLen (Inr data) (ho_MaximumMessage (hb_options h1)) of
               Inl _ \<Rightarrow> (False, h1)
             | Inr envelope \<Rightarrow>
                 (case AcceptInbound decodeStrict now h1 machineID envelope of
                    (Inl _, h2) \<Rightarrow> (False, h2)
                  | (Inr _, h2) \<Rightarrow> (True, h2)))"

text \<open>One round of the write loop: the oldest message of the session is encoded and written.\<close>

definition Hub_write ::
  "('b envelope \<Rightarrow> bytes result) \<Rightarrow> (bytes \<Rightarrow> unit result) \<Rightarrow> string \<Rightarrow> nat \<Rightarrow> 'b hub \<Rightarrow> bool \<times> 'b hub" where
  "Hub_write marshal write machineID current h =
     (case hb_sessions h machineID of
        None \<Rightarrow> (True, h)
      | Some s \<Rightarrow>
          if hs_ident s \<noteq> current then (True, h)
          else (case receive (hs_outbound s) of
              (None, _) \<Rightarrow> (True, h)
            | (Some envelope, ch) \<Rightarrow>
                (is_ok (and_then (marshal envelope) write),
                 h\<lparr>hb_sessions := (hb_sessions h)(machineID \<mapsto> s\<lparr>hs_outbound := ch\<rparr>)\<rparr>)))"

end
