(* ===== verification/HubInv.thy ===== *)
theory HubInv
  imports Hub
begin

text \<open>
  Well-formedness of the hub over every sequence of its operations: the bounds of its channels, the
  identities of sessions and subscriptions, and what a session keeps when it is replaced.
\<close>

section \<open>Operations\<close>

datatype 'b hub_op =
    HRegister string int
  | HUnregister string nat
  | HSend string "'b envelope"
  | HHeartbeat string nat int int
  | HSubscribe string
  | HUnsubscribe string nat
  | HRead string nat int "string result"
  | HWrite string nat "bytes result"
  | HTakeEvent

fun hub_exec ::
  "(string \<Rightarrow> 'b envelope result) \<Rightarrow> ('b \<Rightarrow> nat) \<Rightarrow> (string \<Rightarrow> 'b \<Rightarrow> message result) \<Rightarrow> 'b hub_op \<Rightarrow> 'b hub \<Rightarrow> 'b hub" where
  "hub_exec de bl ds (HRegister m now) h = snd (Hub_register h m now)"
| "hub_exec de bl ds (HUnregister m c) h = Hub_unregister h m c"
| "hub_exec de bl ds (HSend m e) h = snd (Hub_Send h m e)"
| "hub_exec de bl ds (HHeartbeat m c seen now) h = snd (Hub_heartbeat h m c seen now)"
| "hub_exec de bl ds (HSubscribe r) h = snd (Hub_Subscribe h r)"
| "hub_exec de bl ds (HUnsubscribe r c) h = Hub_Unsubscribe h r c"
| "hub_exec de bl ds (HRead m c now payload) h = snd (Hub_read de bl ds now m c payload h)"
| "hub_exec de bl ds (HWrite m c payload) h = snd (Hub_write (\<lambda>_. payload) (\<lambda>_. Inr ()) m c h)"
| "hub_exec de bl ds HTakeEvent h = h\<lparr>hb_events := snd (receive (hb_events h))\<rparr>"

section \<open>The invariant\<close>

definition chan_ok :: "nat \<Rightarrow> 'a go_chan \<Rightarrow> bool" where
  "chan_ok n ch \<longleftrightarrow> gc_cap ch = n \<and> length (gc_items ch) \<le> n"

definition subs_ok :: "nat \<Rightarrow> (nat \<times> 'a go_chan) list \<Rightarrow> bool" where
  "subs_ok fresh subs \<longleftrightarrow> distinct (map fst subs) \<and> (\<forall>x \<in> set subs. fst x < fresh \<and> chan_ok 8 (snd x))"

text \<open>
  Every channel has the capacity it was made with and never holds more; sessions and subscriptions have
  identities that were handed out before, no two sessions share one, and the subscriptions of a request are
  distinct and never an empty list.
\<close>

definition hub_ok :: "'b hub \<Rightarrow> bool" where
  "hub_ok h \<longleftrightarrow> chan_ok 64 (hb_events h) \<and> 0 < ho_QueueSize (hb_options h)
     \<and> 0 < ho_HeartbeatTimeout (hb_options h) \<and> 0 < ho_MaximumMessage (hb_options h)
     \<and> (\<forall>m s. hb_sessions h m = Some s \<longrightarrow> hs_ident s < hb_fresh h \<and> chan_ok (nat (ho_QueueSize (hb_options h))) (hs_outbound s))
     \<and> (\<forall>m m' s s'. hb_sessions h m = Some s \<longrightarrow> hb_sessions h m' = Some s' \<longrightarrow> hs_ident s = hs_ident s' \<longrightarrow> m = m')
     \<and> (\<forall>r subs. hb_subscribers h r = Some subs \<longrightarrow> subs \<noteq> [] \<and> subs_ok (hb_fresh h) subs)"

lemma chan_ok_make [simp]: "chan_ok n (make_chan n)"
  by (simp add: chan_ok_def make_chan_def)

lemma chan_ok_send [simp]: "chan_ok n ch \<Longrightarrow> chan_ok n (snd (try_send ch x))"
  by (auto simp: chan_ok_def try_send_def)

lemma chan_ok_receive [simp]: "chan_ok n ch \<Longrightarrow> chan_ok n (snd (receive ch))"
  by (auto simp: chan_ok_def receive_def split: list.split)

lemma subs_ok_filter: "subs_ok n subs \<Longrightarrow> subs_ok n (filter P subs)"
  by (auto simp: subs_ok_def distinct_map_filter)

lemma subs_ok_new: "subs_ok n subs \<Longrightarrow> subs_ok (Suc n) (subs @ [(n, make_chan 8)])"
  by (auto simp: subs_ok_def)

lemma subs_ok_Suc: "subs_ok n subs \<Longrightarrow> subs_ok (Suc n) subs"
  by (auto simp: subs_ok_def)

lemma subs_ok_send: "subs_ok n subs \<Longrightarrow> subs_ok n (map (\<lambda>(c, ch). (c, snd (try_send ch e))) subs)"
  by (auto simp: subs_ok_def split_beta comp_def)

lemma subs_ok_Nil: "subs_ok n []"
  by (simp add: subs_ok_def)

lemmas subs_rules = subs_ok_filter subs_ok_new subs_ok_Suc subs_ok_send subs_ok_Nil

lemma NewHub_ok: "hub_ok (NewHub auth options)"
  by (auto simp: hub_ok_def NewHub_def Let_def)

lemma set_session_ok:
  assumes "hub_ok h" "hb_sessions h m = Some s" "hs_ident s' = hs_ident s"
    "chan_ok (nat (ho_QueueSize (hb_options h))) (hs_outbound s')"
  shows "hub_ok (h\<lparr>hb_sessions := (hb_sessions h)(m \<mapsto> s')\<rparr>)"
  using assms unfolding hub_ok_def by (auto split: if_splits)

lemma session_chan: "hub_ok h \<Longrightarrow> hb_sessions h m = Some s \<Longrightarrow> chan_ok (nat (ho_QueueSize (hb_options h))) (hs_outbound s)"
  unfolding hub_ok_def by blast

lemma register_ok: "hub_ok h \<Longrightarrow> hub_ok (snd (Hub_register h m now))"
  unfolding hub_ok_def Hub_register_def by (fastforce split: if_splits intro: subs_rules)

lemma unregister_ok: "hub_ok h \<Longrightarrow> hub_ok (Hub_unregister h m c)"
  unfolding hub_ok_def Hub_unregister_def by (auto split: option.split)

lemma send_ok:
  assumes "hub_ok h"
  shows "hub_ok (snd (Hub_Send h m e))"
proof (cases "hb_sessions h m")
  case (Some s)
  obtain r ch where "try_send (hs_outbound s) e = (r, ch)" by fastforce
  then show ?thesis
    using chan_ok_send [OF session_chan [OF assms Some], of e] by (auto simp: Hub_Send_def Some intro!: set_session_ok [OF assms Some])
qed (simp add: Hub_Send_def assms)

lemma heartbeat_ok: "hub_ok h \<Longrightarrow> hub_ok (snd (Hub_heartbeat h m c seen now))"
  by (simp add: Hub_heartbeat_def unregister_ok)

lemma subscribe_ok: "hub_ok h \<Longrightarrow> hub_ok (snd (Hub_Subscribe h r))"
  unfolding hub_ok_def Hub_Subscribe_def go_map_get_def
  by (auto simp: Let_def less_Suc_eq split: option.split if_splits intro: subs_rules subs_ok_new [of _ "[]", simplified])

lemma unsubscribe_ok: "hub_ok h \<Longrightarrow> hub_ok (Hub_Unsubscribe h r c)"
  unfolding hub_ok_def Hub_Unsubscribe_def go_map_get_def
  by (auto simp: Let_def split: option.split if_splits intro!: subs_rules)

lemma publish_ok: "hub_ok h \<Longrightarrow> hub_ok (Hub_publish h r e)"
  unfolding hub_ok_def Hub_publish_def
  by (auto split: option.split if_splits intro!: subs_rules)

lemma events_ok: "hub_ok h \<Longrightarrow> chan_ok 64 ch \<Longrightarrow> hub_ok (h\<lparr>hb_events := ch\<rparr>)" "hub_ok h \<Longrightarrow> chan_ok 64 (hb_events h)"
  unfolding hub_ok_def by auto

lemma deliver_ok: "hub_ok h \<Longrightarrow> hub_ok (snd (deliver ds now h m e))"
  unfolding deliver_def Let_def
  by (auto split: prod.split intro!: events_ok publish_ok) (metis chan_ok_send events_ok(2) publish_ok snd_conv)

lemma chunks_ok: "hub_ok h \<Longrightarrow> hub_ok (h\<lparr>hb_chunks := t\<rparr>)" "hub_ok h \<Longrightarrow> hub_ok (h\<lparr>hb_chunks := t, hb_outputStarted := q\<rparr>)"
  unfolding hub_ok_def by auto

lemma message_cases:
  "(\<And>x. P (f x)) \<Longrightarrow> P b \<Longrightarrow> P (case m of MHello x \<Rightarrow> f x | _ \<Rightarrow> b)"
  "(\<And>x. P (g x)) \<Longrightarrow> P b \<Longrightarrow> P (case m of MCapacity x \<Rightarrow> g x | _ \<Rightarrow> b)"
  "(\<And>x. P (k x)) \<Longrightarrow> P b \<Longrightarrow> P (case m of MOutputChunk x \<Rightarrow> k x | _ \<Rightarrow> b)"
  by (cases m; simp)+

lemma accept_ok:
  assumes "hub_ok h"
  shows "hub_ok (snd (AcceptInbound ds now h m e))"
proof -
  have capacity: "hub_ok (snd (case ho_CapacityHandler (hb_options h) of None \<Rightarrow> deliver ds now h m e
      | Some handler \<Rightarrow> (case handler m c of Inl e \<Rightarrow> (Inl e, h) | Inr _ \<Rightarrow> deliver ds now h m e)))" for c
    using assms by (simp add: deliver_ok split: option.split sum.split)
  have chunk: "hub_ok (snd (case ChunkTracker_Accept (hb_chunks h) c of (Inl e, t) \<Rightarrow> (Inl e, h\<lparr>hb_chunks := t\<rparr>)
      | (Inr _, t) \<Rightarrow> deliver ds now (h\<lparr>hb_chunks := t, hb_outputStarted := (hb_outputStarted h)(ch_RequestID c \<mapsto> True)\<rparr>) m e))" for c
    using assms by (simp add: deliver_ok chunks_ok split: prod.split sum.split)
  show ?thesis
    unfolding AcceptInbound_def
    using assms
    by (simp add: deliver_ok split: sum.split)
       (intro allI impI conjI message_cases [where P = "\<lambda>x. hub_ok (snd x)"]; simp add: capacity chunk)
qed

lemma touch_ok:
  assumes "hub_ok h"
  shows "hub_ok (touch_session h m c now)"
proof (cases "hb_sessions h m")
  case (Some s)
  then show ?thesis
    using session_chan [OF assms Some] by (auto simp: touch_session_def intro: set_session_ok [OF assms Some] assms)
qed (simp add: touch_session_def assms)

lemma read_ok: "hub_ok h \<Longrightarrow> hub_ok (snd (Hub_read de bl ds now m c payload h))"
  unfolding Hub_read_def Let_def
  by (auto split: sum.split prod.split intro: touch_ok) (metis accept_ok touch_ok snd_conv)+

lemma write_ok:
  assumes "hub_ok h"
  shows "hub_ok (snd (Hub_write ms wr m c h))"
proof (cases "hb_sessions h m")
  case (Some s)
  obtain x ch where "receive (hs_outbound s) = (x, ch)" by fastforce
  then show ?thesis
    using chan_ok_receive [OF session_chan [OF assms Some]] assms
    by (auto simp: Hub_write_def Some split: option.split intro!: set_session_ok [OF assms Some])
qed (simp add: Hub_write_def assms)

lemma hub_exec_ok: "hub_ok h \<Longrightarrow> hub_ok (hub_exec de bl ds op h)"
  by (cases op) (simp_all add: register_ok unregister_ok send_ok heartbeat_ok subscribe_ok unsubscribe_ok read_ok write_ok
      events_ok)


section \<open>Chunks of other machines\<close>

text \<open>The hub does not ask which machine a chunk comes from: the result and the tracker are the same for every
  machine, so one machine can advance or end the stream of a request that runs on another.\<close>

lemma chunk_of_any_machine:
  assumes "en_Type e = ''output_chunk''"
  shows "fst (AcceptInbound ds now h m e) = fst (AcceptInbound ds now h m' e)
    \<and> hb_chunks (snd (AcceptInbound ds now h m e)) = hb_chunks (snd (AcceptInbound ds now h m' e))"
proof -
  have publish: "hb_events (Hub_publish h r ev) = hb_events h" "hb_chunks (Hub_publish h r ev) = hb_chunks h" for h :: "'a hub" and r ev
    by (simp_all add: Hub_publish_def split: option.split)
  have "fst (deliver ds now h m e) = fst (deliver ds now h m' e) \<and> hb_chunks (snd (deliver ds now h m e)) = hb_chunks h
      \<and> hb_chunks (snd (deliver ds now h m' e)) = hb_chunks h" for h
    by (simp add: deliver_def Let_def publish try_send_def)
  then show ?thesis
    using assms by (auto simp: AcceptInbound_def split: sum.split message.split prod.split)
qed

end
