(* ===== verification/Effects.thy ===== *)
theory Effects
  imports Prelude "HOL-Library.State_Monad"
begin

text \<open>
  Effectful handlers in the state monad, and a small calculus for their traces. A handler calls its
  dependencies through functions of type \<open>('s, 'a) state\<close>. To say which calls it makes, the dependencies
  are run with a log: \<open>silent\<close> lifts a call that is not observed, \<open>noted\<close> one that is. The predicate
  \<open>emits P m\<close> states that, from every state, running \<open>m\<close> extends the log by a trace \<open>k\<close> and returns a
  value \<open>a\<close> with \<open>P a k\<close>.
\<close>

section \<open>Logged calls\<close>

definition silent :: "('s, 'a) state \<Rightarrow> ('s \<times> 'c list, 'a) state" where
  "silent m = State (\<lambda>(s, l). case run_state m s of (a, s') \<Rightarrow> (a, (s', l)))"

definition noted :: "('a \<Rightarrow> 'c) \<Rightarrow> ('s, 'a) state \<Rightarrow> ('s \<times> 'c list, 'a) state" where
  "noted c m = State (\<lambda>(s, l). case run_state m s of (a, s') \<Rightarrow> (a, (s', l @ [c a])))"

definition emits :: "('a \<Rightarrow> 'c list \<Rightarrow> bool) \<Rightarrow> ('s \<times> 'c list, 'a) state \<Rightarrow> bool" where
  "emits P m \<longleftrightarrow> (\<forall>s l. \<exists>k. snd (snd (run_state m (s, l))) = l @ k \<and> P (fst (run_state m (s, l))) k)"

section \<open>Rules\<close>

lemma emits_return: "P a [] \<Longrightarrow> emits P (State_Monad.return a)"
  by (simp add: emits_def State_Monad.return_def)

lemma emits_silent: "(\<And>a. P a []) \<Longrightarrow> emits P (silent m)"
  by (simp add: emits_def silent_def split: prod.splits)

lemma emits_noted: "(\<And>a. P a [c a]) \<Longrightarrow> emits P (noted c m)"
  by (simp add: emits_def noted_def split: prod.splits)

lemma emits_weaken: "emits P m \<Longrightarrow> (\<And>a k. P a k \<Longrightarrow> Q a k) \<Longrightarrow> emits Q m"
  unfolding emits_def by blast

lemma emits_bind:
  assumes "emits P m" "\<And>a k. P a k \<Longrightarrow> emits (\<lambda>b k'. Q b (k @ k')) (f a)"
  shows "emits Q (State_Monad.bind m f)"
  unfolding emits_def
proof (intro allI)
  fix s l
  obtain a s1 l1 where r1: "run_state m (s, l) = (a, (s1, l1))" by (metis prod.collapse)
  from assms(1) r1 obtain k where k: "l1 = l @ k" "P a k" unfolding emits_def by (metis fst_conv snd_conv)
  from assms(2) [OF k(2)] obtain k' where
      "snd (snd (run_state (f a) (s1, l1))) = l1 @ k'" "Q (fst (run_state (f a) (s1, l1))) (k @ k')"
    unfolding emits_def by blast
  then show "\<exists>k. snd (snd (run_state (State_Monad.bind m f) (s, l))) = l @ k
      \<and> Q (fst (run_state (State_Monad.bind m f) (s, l))) k"
    by (intro exI [of _ "k @ k'"]) (simp add: r1 k(1))
qed

text \<open>Calls in front of a continuation.\<close>

lemma emits_bind_silent: "(\<And>a. emits Q (f a)) \<Longrightarrow> emits Q (State_Monad.bind (silent m) f)"
  by (rule emits_bind [where P = "\<lambda>_ k. k = []"]) (auto intro: emits_silent)

lemma emits_bind_noted:
  "(\<And>a. emits (\<lambda>b k. Q b (c a # k)) (f a)) \<Longrightarrow> emits Q (State_Monad.bind (noted c m) f)"
  by (rule emits_bind [where P = "\<lambda>a k. k = [c a]"]) (auto intro: emits_noted)

lemma emits_run:
  assumes "emits P m" "run_state m (s, []) = (a, (s', l))"
  shows "P a l"
  using assms(1) unfolding emits_def by (metis append_Nil assms(2) fst_conv snd_conv)

end
