(* ===== verification/OpenAI.thy ===== *)
theory OpenAI
  imports Effects Hub Router Ledger Hex
begin

text \<open>
  The streaming chat endpoint (\<^verbatim>\<open>server/internal/api/openai.go\<close>) and its event broker. The handler
  reaches the hub, the store, the settlement coordinator, the clock, the random source and the response
  through \<^verbatim>\<open>Dependencies\<close>: a record of operations in the state monad over an arbitrary state, so that
  nothing is assumed about what other handlers do between two calls. What the \<^verbatim>\<open>select\<close> statements
  pick is a list of happenings; when it is exhausted the timer of the waiting loop fires. JSON decoding of
  the body is the caller's: \<open>None\<close> stands for a body that is too long or does not decode.
\<close>

section \<open>Types\<close>

record principal =
  pl_AccountID :: string
  pl_SessionID :: string
  pl_SessionBalance :: u64

record chatMessage =
  cm_Role :: string
  cm_Content :: string

record chatRequest =
  cq_Model :: string
  cq_Stream :: bool
  cq_Messages :: "chatMessage list"
  cq_Workspace :: "workspaceFile list"
  cq_MaxTokens :: u64
  cq_MaxCompletionTokens :: u64

text \<open>The frames of the response stream: a piece of output, an error of the provider, the final frame with
  the usage, and the end mark.\<close>

datatype sse =
    Delta string string
  | ProviderError string string
  | Finish string string u64 u64 u64
  | DoneMark

text \<open>The JSON value of each frame is \<open>sse\<close>; \<open>dp_Write\<close> is \<^verbatim>\<open>writeSSE\<close>, and its error that of encoding or
  writing the frame.\<close>

record ('s, 'b) dependencies =
  dp_Connected :: "string \<Rightarrow> ('s, bool) state"
  dp_Send :: "string \<Rightarrow> 'b envelope \<Rightarrow> ('s, unit result) state"
  dp_Authorize :: "string \<Rightarrow> string \<Rightarrow> string \<Rightarrow> u64 \<Rightarrow> ('s, principal result) state"
  dp_Candidates :: "string \<Rightarrow> ('s, candidate list result) state"
  dp_Reserve :: "inferenceReservation \<Rightarrow> ('s, unit result) state"
  dp_Transition :: "string \<Rightarrow> string \<Rightarrow> ('s, unit result) state"
  dp_Abort :: "string \<Rightarrow> string \<Rightarrow> ('s, unit result) state"
  dp_Persist :: "completedInference \<Rightarrow> ('s, unit result) state"
  dp_Now :: "('s, int) state"
  dp_clock :: "('s, int) state"
  dp_Write :: "sse \<Rightarrow> ('s, unit result) state"
  dp_randomID :: "('s, string result) state"
  dp_saltedHash :: "string \<Rightarrow> ('s, hash) state"
  dp_marshal :: "message \<Rightarrow> 'b result"
  dp_decodeStrict :: "string \<Rightarrow> 'b \<Rightarrow> message result"

text \<open>The parts of an HTTP request that the handler reads. \<open>hr_configured\<close> says that no dependency is nil,
  \<open>hr_flusher\<close> that the response can be flushed, and \<open>hr_endpoint\<close> is the endpoint that the context
  carries, if any.\<close>

record http_request =
  hr_Method :: string
  hr_Path :: string
  hr_MaxSpend :: string
  hr_Authorization :: string
  hr_Machine :: string
  hr_endpoint :: "string option"
  hr_configured :: bool
  hr_flusher :: bool

datatype http_outcome = HttpError nat string | Streamed

datatype 'b happening = TimerFired | ClientGone | StreamOverflow | Arrived "'b hubEvent"

section \<open>Helpers\<close>

definition renderPrompt :: "chatMessage list \<Rightarrow> string" where
  "renderPrompt messages = concat (map (\<lambda>m. cm_Role m @ '': '' @ cm_Content m @ [CHR 0x0A]) messages)"

definition authorizedEndpoint :: "string option \<Rightarrow> string \<Rightarrow> string" where
  "authorizedEndpoint ctx fallback = (case ctx of Some endpoint \<Rightarrow> endpoint | None \<Rightarrow> fallback)"

definition randomID_of :: "bytes \<Rightarrow> string" where
  "randomID_of value = ''0x'' @ concat (map byte_hex value)"

definition saltedHash_of :: "(bytes \<Rightarrow> hash) \<Rightarrow> bytes option \<Rightarrow> bytes \<Rightarrow> hash" where
  "saltedHash_of sha256 salt value = (case salt of None \<Rightarrow> sha256 value | Some s \<Rightarrow> sha256 (s @ value))"

definition OpenAI_cancel :: "('s, 'b) dependencies \<Rightarrow> string \<Rightarrow> string \<Rightarrow> ('s, unit) state" where
  "OpenAI_cancel D machineID requestID = do {
     now \<leftarrow> dp_clock D;
     case NewEnvelope (dp_marshal D) now (''cancel-'' @ requestID) ''cancel''
            (Some (MCancel \<lparr>cn_RequestID = requestID, cn_Reason = ''customer_cancelled''\<rparr>)) of
       Inl _ \<Rightarrow> State_Monad.return ()
     | Inr envelope \<Rightarrow> do { _ \<leftarrow> dp_Send D machineID envelope; State_Monad.return () }
   }"

text \<open>What an exit of the handler does: with or without telling the machine, the request is aborted; the
  error of the abort is ignored.\<close>

definition abort_request :: "('s, 'b) dependencies \<Rightarrow> string \<Rightarrow> string \<Rightarrow> ('s, unit) state" where
  "abort_request D requestID terminal = do { _ \<leftarrow> dp_Abort D requestID terminal; State_Monad.return () }"

definition cancel_and_abort :: "('s, 'b) dependencies \<Rightarrow> string \<Rightarrow> string \<Rightarrow> string \<Rightarrow> ('s, unit) state" where
  "cancel_and_abort D machineID requestID terminal = do {
     _ \<leftarrow> OpenAI_cancel D machineID requestID;
     abort_request D requestID terminal }"

fun waitAccepted :: "'b happening list \<Rightarrow> unit result \<times> 'b happening list" where
  "waitAccepted [] = (Inl (ErrText ''accept timeout''), [])"
| "waitAccepted (TimerFired # hs) = (Inl (ErrText ''accept timeout''), hs)"
| "waitAccepted (ClientGone # hs) = (Inl (ErrText ''context canceled''), ClientGone # hs)"
| "waitAccepted (StreamOverflow # hs) = (Inl ErrBackpressure, hs)"
| "waitAccepted (Arrived event # hs) =
     (if he_Type event = ''job_accept'' then (Inr (), hs) else waitAccepted hs)"

section \<open>The stream\<close>

text \<open>What the streaming loop knows of its request.\<close>

record job_context =
  jx_RequestID :: string
  jx_SessionID :: string
  jx_MachineID :: string
  jx_OfferID :: string
  jx_Model :: string
  jx_PriceVersion :: u64
  jx_Prompt :: string
  jx_MaximumInputTokens :: u64
  jx_MaximumOutputTokens :: u64
  jx_MaximumComputeMilliseconds :: u64

text \<open>The loop goes on with the flag \<^verbatim>\<open>streaming\<close> and the collected output, or the handler returns.\<close>

datatype flow = Continue bool string | Stop

definition begin_streaming :: "('s, 'b) dependencies \<Rightarrow> string \<Rightarrow> bool \<Rightarrow> ('s, unit result) state" where
  "begin_streaming D requestID streaming =
     (if streaming then State_Monad.return (Inr ()) else dp_Transition D requestID ''streaming'')"

definition forward_data :: "('s, 'b) dependencies \<Rightarrow> job_context \<Rightarrow> bool \<Rightarrow> string \<Rightarrow> string \<Rightarrow> ('s, flow) state" where
  "forward_data D x streaming out data =
     (if data = [] then State_Monad.return (Continue streaming out)
      else do {
        started \<leftarrow> begin_streaming D (jx_RequestID x) streaming;
        if \<not> is_ok started then do {
          _ \<leftarrow> cancel_and_abort D (jx_MachineID x) (jx_RequestID x) ''failed''; State_Monad.return Stop }
        else do {
          written \<leftarrow> dp_Write D (Delta (jx_RequestID x) data);
          if \<not> is_ok written then do {
            _ \<leftarrow> cancel_and_abort D (jx_MachineID x) (jx_RequestID x) ''failed''; State_Monad.return Stop }
          else State_Monad.return (Continue True (out @ data)) } })"

definition usage_exceeded :: "job_context \<Rightarrow> outputChunk \<Rightarrow> bool" where
  "usage_exceeded x chunk \<longleftrightarrow> ch_InputTokens chunk > jx_MaximumInputTokens x
     \<or> ch_OutputTokens chunk > jx_MaximumOutputTokens x \<or> ch_ComputeMilliseconds chunk > jx_MaximumComputeMilliseconds x"

definition proposal_for :: "job_context \<Rightarrow> outputChunk \<Rightarrow> hash \<Rightarrow> hash \<Rightarrow> int \<Rightarrow> completedInference" where
  "proposal_for x chunk inputHash outputHash now =
     \<lparr>cp_RequestID = jx_RequestID x, cp_SessionID = jx_SessionID x, cp_MachineID = jx_MachineID x,
      cp_OfferID = jx_OfferID x, cp_Model = jx_Model x, cp_PriceVersion = jx_PriceVersion x,
      cp_InputTokens = ch_InputTokens chunk, cp_OutputTokens = ch_OutputTokens chunk,
      cp_ComputeMilliseconds = ch_ComputeMilliseconds chunk, cp_InputHash = inputHash,
      cp_OutputHash = outputHash, cp_CompletedAt = now\<rparr>"

text \<open>The final chunk.\<close>

definition complete_stream :: "('s, 'b) dependencies \<Rightarrow> job_context \<Rightarrow> bool \<Rightarrow> string \<Rightarrow> outputChunk \<Rightarrow> ('s, unit) state" where
  "complete_stream D x streaming out chunk = do {
     started \<leftarrow> begin_streaming D (jx_RequestID x) streaming;
     if \<not> is_ok started then abort_request D (jx_RequestID x) ''failed''
     else if usage_exceeded x chunk then do {
       _ \<leftarrow> cancel_and_abort D (jx_MachineID x) (jx_RequestID x) ''failed'';
       _ \<leftarrow> dp_Write D (ProviderError ''usage_limit_exceeded'' ''provider usage exceeded reserved limits'');
       _ \<leftarrow> dp_Write D DoneMark;
       State_Monad.return () }
     else do {
       inputHash \<leftarrow> dp_saltedHash D (jx_Prompt x);
       outputHash \<leftarrow> dp_saltedHash D out;
       now \<leftarrow> dp_Now D;
       persisted \<leftarrow> dp_Persist D (proposal_for x chunk inputHash outputHash now);
       if \<not> is_ok persisted then abort_request D (jx_RequestID x) ''failed''
       else do {
         _ \<leftarrow> dp_Write D (Finish (jx_RequestID x) (jx_Model x) (ch_InputTokens chunk) (ch_OutputTokens chunk)
                (ch_InputTokens chunk + ch_OutputTokens chunk));
         _ \<leftarrow> dp_Write D DoneMark;
         State_Monad.return () } } }"

definition on_chunk :: "('s, 'b) dependencies \<Rightarrow> job_context \<Rightarrow> bool \<Rightarrow> string \<Rightarrow> outputChunk \<Rightarrow> ('s, flow) state" where
  "on_chunk D x streaming out chunk = do {
     flow \<leftarrow> forward_data D x streaming out (ch_Data chunk);
     case flow of
       Stop \<Rightarrow> State_Monad.return Stop
     | Continue streaming' out' \<Rightarrow>
         if ch_ErrorCode chunk \<noteq> [] then do {
           _ \<leftarrow> abort_request D (jx_RequestID x) ''failed'';
           _ \<leftarrow> dp_Write D (ProviderError (ch_ErrorCode chunk) ''provider execution failed'');
           _ \<leftarrow> dp_Write D DoneMark;
           State_Monad.return Stop }
         else if ch_Done chunk then do {
           _ \<leftarrow> complete_stream D x streaming' out' chunk;
           State_Monad.return Stop }
         else State_Monad.return (Continue streaming' out') }"

definition on_event :: "('s, 'b) dependencies \<Rightarrow> job_context \<Rightarrow> bool \<Rightarrow> string \<Rightarrow> 'b hubEvent \<Rightarrow> ('s, flow) state" where
  "on_event D x streaming out event =
     (if he_Type event \<noteq> ''output_chunk'' then State_Monad.return (Continue streaming out)
      else do {
        now \<leftarrow> dp_clock D;
        case DecodeBody (dp_decodeStrict D) now ''output_chunk'' (he_Envelope event) of
          Inr (MOutputChunk chunk) \<Rightarrow> on_chunk D x streaming out chunk
        | _ \<Rightarrow> do {
            _ \<leftarrow> cancel_and_abort D (jx_MachineID x) (jx_RequestID x) ''failed'';
            State_Monad.return Stop } })"

fun stream_loop :: "('s, 'b) dependencies \<Rightarrow> job_context \<Rightarrow> bool \<Rightarrow> string \<Rightarrow> 'b happening list \<Rightarrow> ('s, unit) state" where
  "stream_loop D x streaming out [] = cancel_and_abort D (jx_MachineID x) (jx_RequestID x) ''failed''"
| "stream_loop D x streaming out (TimerFired # hs) = cancel_and_abort D (jx_MachineID x) (jx_RequestID x) ''failed''"
| "stream_loop D x streaming out (ClientGone # hs) = cancel_and_abort D (jx_MachineID x) (jx_RequestID x) ''cancelled''"
| "stream_loop D x streaming out (StreamOverflow # hs) = cancel_and_abort D (jx_MachineID x) (jx_RequestID x) ''failed''"
| "stream_loop D x streaming out (Arrived event # hs) = do {
     flow \<leftarrow> on_event D x streaming out event;
     case flow of
       Stop \<Rightarrow> State_Monad.return ()
     | Continue streaming' out' \<Rightarrow> stream_loop D x streaming' out' hs }"

section \<open>The handler\<close>

text \<open>The limit on output tokens, or \<open>None\<close> when the request is refused.\<close>

definition output_limit :: "chatRequest \<Rightarrow> u64 option" where
  "output_limit input =
     (let m1 = cq_MaxCompletionTokens input;
          m2 = (if m1 = 0 then cq_MaxTokens input else m1);
          m3 = (if m2 = 0 then 4096 else m2)
      in if m3 > 1000000 \<or> (cq_MaxTokens input \<noteq> 0 \<and> cq_MaxCompletionTokens input \<noteq> 0) then None else Some m3)"

definition input_limit :: "string \<Rightarrow> u64" where
  "input_limit prompt = of_nat (length prompt) * 4 + 256"

definition maximumComputeMilliseconds :: u64 where
  "maximumComputeMilliseconds = 120000"

text \<open>The price of one candidate for the limits of the request.\<close>

definition price_candidate :: "u64 \<Rightarrow> u64 \<Rightarrow> bool \<Rightarrow> candidate \<Rightarrow> candidate" where
  "price_candidate maximumInputTokens maximumOutputTokens connected c =
     (if \<not> connected then c\<lparr>cd_Capacity := 0\<rparr>
      else if \<not> ValidRate (cd_InputPerMillion c) \<or> \<not> ValidRate (cd_OutputPerMillion c) \<or> \<not> ValidRate (cd_ComputePerSecond c)
        then c\<lparr>cd_MaximumCost := 0\<rparr>
      else if \<not> HasPricing c then c\<lparr>cd_MaximumCost := 0\<rparr>
      else case WorstCaseCost (candidate_rates c) maximumInputTokens maximumOutputTokens maximumComputeMilliseconds of
             Inl _ \<Rightarrow> c\<lparr>cd_MaximumCost := 0\<rparr>
           | Inr cost \<Rightarrow> c\<lparr>cd_MaximumCost := cost\<rparr>)"

fun price_candidates :: "('s, 'b) dependencies \<Rightarrow> u64 \<Rightarrow> u64 \<Rightarrow> candidate list \<Rightarrow> ('s, candidate list) state" where
  "price_candidates D maximumInputTokens maximumOutputTokens [] = State_Monad.return []"
| "price_candidates D maximumInputTokens maximumOutputTokens (c # cs) = do {
     connected \<leftarrow> dp_Connected D (cd_MachineID c);
     rest \<leftarrow> price_candidates D maximumInputTokens maximumOutputTokens cs;
     State_Monad.return (price_candidate maximumInputTokens maximumOutputTokens connected c # rest) }"

definition route_request_for :: "chatRequest \<Rightarrow> u64 \<Rightarrow> u64 \<Rightarrow> string \<Rightarrow> route_request" where
  "route_request_for input maximumSpend balance machine =
     \<lparr>rq_Model = cq_Model input,
      rq_Capabilities = (if cq_Workspace input = [] then [''text'', ''stream''] else [''text'', ''stream'', ''workspace'']),
      rq_MaximumSpend = maximumSpend, rq_SessionBalance = balance, rq_PinMachineID = machine\<rparr>"

definition reservation_for :: "job_context \<Rightarrow> string \<Rightarrow> u64 \<Rightarrow> inferenceReservation" where
  "reservation_for x accountID cost =
     \<lparr>iv_RequestID = jx_RequestID x, iv_SessionID = jx_SessionID x, iv_AccountID = accountID,
      iv_MachineID = jx_MachineID x, iv_OfferID = jx_OfferID x, iv_PriceVersion = jx_PriceVersion x,
      iv_MaximumSpend = cost, iv_MaximumInputTokens = jx_MaximumInputTokens x,
      iv_MaximumOutputTokens = jx_MaximumOutputTokens x,
      iv_MaximumComputeMilliseconds = jx_MaximumComputeMilliseconds x\<rparr>"

definition offer_for :: "job_context \<Rightarrow> u64 \<Rightarrow> int \<Rightarrow> workspaceFile list \<Rightarrow> jobOffer" where
  "offer_for x cost now workspace =
     \<lparr>jo_RequestID = jx_RequestID x, jo_Model = jx_Model x, jo_OfferID = jx_OfferID x, jo_Prompt = jx_Prompt x,
      jo_PriceVersion = jx_PriceVersion x, jo_MaximumSpend = cost, jo_MaximumOutputTokens = jx_MaximumOutputTokens x,
      jo_LeaseExpiresAt = now + uint (jx_MaximumComputeMilliseconds x) * 10 ^ 6, jo_Workspace = workspace\<rparr>"

text \<open>The offer to the machine after the reservation, the wait for its acceptance, and the stream.\<close>

definition offer_job :: "('s, 'b) dependencies \<Rightarrow> job_context \<Rightarrow> u64 \<Rightarrow> workspaceFile list \<Rightarrow> ('s, unit result) state" where
  "offer_job D x cost workspace = do {
     now \<leftarrow> dp_Now D;
     clock \<leftarrow> dp_clock D;
     case NewEnvelope (dp_marshal D) clock (''offer-'' @ jx_RequestID x) ''job_offer''
            (Some (MJobOffer (offer_for x cost now workspace))) of
       Inl e \<Rightarrow> State_Monad.return (Inl e)
     | Inr envelope \<Rightarrow> dp_Send D (jx_MachineID x) envelope }"

definition run_reserved ::
  "('s, 'b) dependencies \<Rightarrow> job_context \<Rightarrow> u64 \<Rightarrow> workspaceFile list \<Rightarrow> bool \<Rightarrow> 'b happening list \<Rightarrow> ('s, http_outcome) state" where
  "run_reserved D x cost workspace flusher hs = do {
     offered \<leftarrow> offer_job D x cost workspace;
     if \<not> is_ok offered then do {
       _ \<leftarrow> abort_request D (jx_RequestID x) ''failed'';
       State_Monad.return (HttpError 503 ''provider unavailable'') }
     else (case waitAccepted hs of
       (Inl _, _) \<Rightarrow> do {
         _ \<leftarrow> cancel_and_abort D (jx_MachineID x) (jx_RequestID x) ''failed'';
         State_Monad.return (HttpError 504 ''provider did not accept'') }
     | (Inr _, hs') \<Rightarrow> do {
         accepted \<leftarrow> dp_Transition D (jx_RequestID x) ''accepted'';
         if \<not> is_ok accepted then do {
           _ \<leftarrow> cancel_and_abort D (jx_MachineID x) (jx_RequestID x) ''failed'';
           State_Monad.return (HttpError 500 ''reservation transition failed'') }
         else if \<not> flusher then do {
           _ \<leftarrow> cancel_and_abort D (jx_MachineID x) (jx_RequestID x) ''failed'';
           State_Monad.return (HttpError 500 ''streaming unavailable'') }
         else do {
           _ \<leftarrow> stream_loop D x False [] hs';
           State_Monad.return Streamed } }) }"

text \<open>Everything after the route is selected.\<close>

definition serve_selected ::
  "('s, 'b) dependencies \<Rightarrow> chatRequest \<Rightarrow> principal \<Rightarrow> candidate \<Rightarrow> u64 \<Rightarrow> u64 \<Rightarrow> bool \<Rightarrow> 'b happening list \<Rightarrow> ('s, http_outcome) state" where
  "serve_selected D input p selected maximumInputTokens maximumOutputTokens flusher hs = do {
     created \<leftarrow> dp_randomID D;
     case created of
       Inl _ \<Rightarrow> State_Monad.return (HttpError 500 ''request creation failed'')
     | Inr requestID \<Rightarrow>
         (let x = \<lparr>jx_RequestID = requestID, jx_SessionID = pl_SessionID p, jx_MachineID = cd_MachineID selected,
                jx_OfferID = cd_OfferID selected, jx_Model = cq_Model input, jx_PriceVersion = cd_PriceVersion selected,
                jx_Prompt = renderPrompt (cq_Messages input), jx_MaximumInputTokens = maximumInputTokens,
                jx_MaximumOutputTokens = maximumOutputTokens, jx_MaximumComputeMilliseconds = maximumComputeMilliseconds\<rparr>
          in do {
            reserved \<leftarrow> dp_Reserve D (reservation_for x (pl_AccountID p) (cd_MaximumCost selected));
            if \<not> is_ok reserved then State_Monad.return (HttpError 402 ''reservation unavailable'')
            else run_reserved D x (cd_MaximumCost selected) (cq_Workspace input) flusher hs }) }"

text \<open>The checks on a request before anything is called.\<close>

definition admit_chat :: "http_request \<Rightarrow> chatRequest option \<Rightarrow> http_outcome + (chatRequest \<times> u64 \<times> u64)" where
  "admit_chat r body =
     (if hr_Method r \<noteq> ''POST'' \<or> hr_Path r \<noteq> ''/v1/chat/completions'' then Inl (HttpError 404 ''404 page not found'')
      else if \<not> hr_configured r then Inl (HttpError 503 ''service unavailable'')
      else case body of
        None \<Rightarrow> Inl (HttpError 400 ''invalid streaming chat request'')
      | Some input \<Rightarrow>
          if \<not> cq_Stream input \<or> blank (cq_Model input) \<or> cq_Messages input = []
          then Inl (HttpError 400 ''invalid streaming chat request'')
          else case output_limit input of
            None \<Rightarrow> Inl (HttpError 400 ''invalid output token limit'')
          | Some maximumOutputTokens \<Rightarrow>
              (case parse_uint64 (hr_MaxSpend r) of
                 None \<Rightarrow> Inl (HttpError 400 ''valid X-Myference-Max-Spend is required'')
               | Some maximumSpend \<Rightarrow>
                   if maximumSpend = 0 then Inl (HttpError 400 ''valid X-Myference-Max-Spend is required'')
                   else Inr (input, maximumOutputTokens, maximumSpend)))"

definition bearer_token :: "http_request \<Rightarrow> string" where
  "bearer_token r = trim_space (trim_prefix ''Bearer '' (hr_Authorization r))"

text \<open>The sorting function is the argument of \<^const>\<open>Select\<close>.\<close>

definition route_chat ::
  "((candidate \<Rightarrow> candidate \<Rightarrow> bool) \<Rightarrow> candidate list \<Rightarrow> candidate list) \<Rightarrow> ('s, 'b) dependencies \<Rightarrow> http_request
   \<Rightarrow> chatRequest \<Rightarrow> u64 \<Rightarrow> u64 \<Rightarrow> ('s, http_outcome + (principal \<times> candidate)) state" where
  "route_chat sortSlice D r input maximumOutputTokens maximumSpend = do {
     authorized \<leftarrow> dp_Authorize D (bearer_token r) (cq_Model input) (authorizedEndpoint (hr_endpoint r) (hr_Path r)) maximumSpend;
     case authorized of
       Inl _ \<Rightarrow> State_Monad.return (Inl (HttpError 401 ''unauthorized''))
     | Inr p \<Rightarrow> do {
         found \<leftarrow> dp_Candidates D (cq_Model input);
         case found of
           Inl _ \<Rightarrow> State_Monad.return (Inl (HttpError 503 ''routing unavailable''))
         | Inr candidates \<Rightarrow> do {
             priced \<leftarrow> price_candidates D (input_limit (renderPrompt (cq_Messages input))) maximumOutputTokens candidates;
             case Select sortSlice (route_request_for input maximumSpend (pl_SessionBalance p) (hr_Machine r)) priced of
               Inl e \<Rightarrow> State_Monad.return (Inl (if e = ErrInsufficientBudget
                 then HttpError 402 ''request or session budget is below the required reservation''
                 else HttpError 503 ''no eligible provider''))
             | Inr selected \<Rightarrow> do {
                 connected \<leftarrow> dp_Connected D (cd_MachineID selected);
                 State_Monad.return (if connected then Inr (p, selected) else Inl (HttpError 503 ''no eligible provider'')) } } } }"

definition OpenAI_ServeHTTP ::
  "((candidate \<Rightarrow> candidate \<Rightarrow> bool) \<Rightarrow> candidate list \<Rightarrow> candidate list) \<Rightarrow> ('s, 'b) dependencies \<Rightarrow> http_request
   \<Rightarrow> chatRequest option \<Rightarrow> 'b happening list \<Rightarrow> ('s, http_outcome) state" where
  "OpenAI_ServeHTTP sortSlice D r body hs =
     (case admit_chat r body of
        Inl refused \<Rightarrow> State_Monad.return refused
      | Inr (input, maximumOutputTokens, maximumSpend) \<Rightarrow> do {
          routed \<leftarrow> route_chat sortSlice D r input maximumOutputTokens maximumSpend;
          case routed of
            Inl refused \<Rightarrow> State_Monad.return refused
          | Inr (p, selected) \<Rightarrow>
              serve_selected D input p selected (input_limit (renderPrompt (cq_Messages input))) maximumOutputTokens
                (hr_flusher r) hs })"

section \<open>The event broker\<close>

text \<open>The handlers' streams by request. An event that finds its stream full sets the overflow mark, a channel
  of one place, and is dropped.\<close>

record 'b brokerStream =
  bs_events :: "'b hubEvent go_chan"
  bs_overflow :: "unit go_chan"

type_synonym 'b eventBroker = "string \<rightharpoonup> 'b brokerStream"

definition newEventBroker :: "'b eventBroker" where
  "newEventBroker = Map.empty"

definition broker_register :: "'b eventBroker \<Rightarrow> string \<Rightarrow> 'b eventBroker" where
  "broker_register b requestID = b(requestID \<mapsto> \<lparr>bs_events = make_chan 32, bs_overflow = make_chan 1\<rparr>)"

definition broker_unregister :: "'b eventBroker \<Rightarrow> string \<Rightarrow> 'b eventBroker" where
  "broker_unregister b requestID = b(requestID := None)"

definition eventRequestID :: "(string \<Rightarrow> 'b \<Rightarrow> message result) \<Rightarrow> int \<Rightarrow> 'b hubEvent \<Rightarrow> string" where
  "eventRequestID decodeStrict now event =
     (if he_Type event = ''job_accept'' then
        (case DecodeBody decodeStrict now ''job_accept'' (he_Envelope event) of Inr (MJobAccept m) \<Rightarrow> ja_RequestID m | _ \<Rightarrow> [])
      else if he_Type event = ''output_chunk'' then
        (case DecodeBody decodeStrict now ''output_chunk'' (he_Envelope event) of Inr (MOutputChunk m) \<Rightarrow> ch_RequestID m | _ \<Rightarrow> [])
      else [])"

definition stream_put :: "'b brokerStream \<Rightarrow> 'b hubEvent \<Rightarrow> 'b brokerStream" where
  "stream_put st event =
     (case try_send (bs_events st) event of
        (Inr _, ch) \<Rightarrow> st\<lparr>bs_events := ch\<rparr>
      | (Inl _, _) \<Rightarrow> st\<lparr>bs_overflow := snd (try_send (bs_overflow st) ())\<rparr>)"

definition broker_run :: "(string \<Rightarrow> 'b \<Rightarrow> message result) \<Rightarrow> int \<Rightarrow> 'b eventBroker \<Rightarrow> 'b hubEvent \<Rightarrow> 'b eventBroker" where
  "broker_run decodeStrict now b event =
     (let requestID = eventRequestID decodeStrict now event
      in if requestID = [] then b
         else case b requestID of None \<Rightarrow> b | Some st \<Rightarrow> b(requestID \<mapsto> stream_put st event))"

end
