(* ===== verification/OpenAIInv.thy ===== *)
theory OpenAIInv
  imports OpenAI
begin

text \<open>
  What the chat endpoint does to the ledger, for every implementation of its dependencies: the handler is
  run with dependencies that log the calls, and the traces it can produce are characterized with the
  rules of \<^verbatim>\<open>Effects\<close>.
\<close>

section \<open>The log\<close>

datatype call =
    Reserved inferenceReservation bool
  | Moved string string bool
  | Aborted string string bool
  | Persisted completedInference bool
  | Wrote sse bool
  | Hashed string hash

definition logged :: "('s, 'b) dependencies \<Rightarrow> ('s \<times> call list, 'b) dependencies" where
  "logged D = \<lparr>
     dp_Connected = (\<lambda>m. silent (dp_Connected D m)),
     dp_Send = (\<lambda>m e. silent (dp_Send D m e)),
     dp_Authorize = (\<lambda>t m e n. silent (dp_Authorize D t m e n)),
     dp_Candidates = (\<lambda>m. silent (dp_Candidates D m)),
     dp_Reserve = (\<lambda>r. noted (\<lambda>a. Reserved r (is_ok a)) (dp_Reserve D r)),
     dp_Transition = (\<lambda>i n. noted (\<lambda>a. Moved i n (is_ok a)) (dp_Transition D i n)),
     dp_Abort = (\<lambda>i n. noted (\<lambda>a. Aborted i n (is_ok a)) (dp_Abort D i n)),
     dp_Persist = (\<lambda>p. noted (\<lambda>a. Persisted p (is_ok a)) (dp_Persist D p)),
     dp_Now = silent (dp_Now D),
     dp_clock = silent (dp_clock D),
     dp_Write = (\<lambda>f. noted (\<lambda>a. Wrote f (is_ok a)) (dp_Write D f)),
     dp_randomID = silent (dp_randomID D),
     dp_saltedHash = (\<lambda>v. noted (Hashed v) (dp_saltedHash D v)),
     dp_marshal = dp_marshal D,
     dp_decodeStrict = dp_decodeStrict D\<rparr>"

lemma logged_simps [simp]:
  "dp_Connected (logged D) m = silent (dp_Connected D m)"
  "dp_Send (logged D) m e = silent (dp_Send D m e)"
  "dp_Authorize (logged D) t md ep n = silent (dp_Authorize D t md ep n)"
  "dp_Candidates (logged D) m = silent (dp_Candidates D m)"
  "dp_Reserve (logged D) r = noted (\<lambda>a. Reserved r (is_ok a)) (dp_Reserve D r)"
  "dp_Transition (logged D) i st = noted (\<lambda>a. Moved i st (is_ok a)) (dp_Transition D i st)"
  "dp_Abort (logged D) i st = noted (\<lambda>a. Aborted i st (is_ok a)) (dp_Abort D i st)"
  "dp_Persist (logged D) p = noted (\<lambda>a. Persisted p (is_ok a)) (dp_Persist D p)"
  "dp_Now (logged D) = silent (dp_Now D)"
  "dp_clock (logged D) = silent (dp_clock D)"
  "dp_Write (logged D) f = noted (\<lambda>a. Wrote f (is_ok a)) (dp_Write D f)"
  "dp_randomID (logged D) = silent (dp_randomID D)"
  "dp_saltedHash (logged D) v = noted (Hashed v) (dp_saltedHash D v)"
  by (simp_all add: logged_def)

section \<open>Traces of a reserved request\<close>

text \<open>Frames and hashes change nothing in the ledger.\<close>

fun ledger_call :: "call \<Rightarrow> bool" where
  "ledger_call (Wrote f ok) = False"
| "ledger_call (Hashed v h) = False"
| "ledger_call _ = True"

fun only_abort :: "string \<Rightarrow> call list \<Rightarrow> bool" where
  "only_abort i [Aborted j st ok] = (j = i \<and> (st = ''failed'' \<or> st = ''cancelled''))"
| "only_abort i _ = False"

definition proposal_covered :: "inferenceReservation \<Rightarrow> completedInference \<Rightarrow> bool" where
  "proposal_covered rv p \<longleftrightarrow> cp_RequestID p = iv_RequestID rv \<and> cp_SessionID p = iv_SessionID rv
     \<and> cp_MachineID p = iv_MachineID rv \<and> cp_OfferID p = iv_OfferID rv \<and> cp_PriceVersion p = iv_PriceVersion rv
     \<and> cp_InputTokens p \<le> iv_MaximumInputTokens rv \<and> cp_OutputTokens p \<le> iv_MaximumOutputTokens rv
     \<and> cp_ComputeMilliseconds p \<le> iv_MaximumComputeMilliseconds rv"

text \<open>
  The ledger calls after a reservation, from the state that the handler has brought the request to: it is
  moved from \<open>offered\<close> to \<open>accepted\<close> and on to \<open>streaming\<close>, and then it is either aborted, or persisted
  with usage within the reservation; a move or a persist that fails is followed by an abort.
\<close>

fun closed_by :: "inferenceReservation \<Rightarrow> string \<Rightarrow> call list \<Rightarrow> bool" where
  "closed_by rv st (Moved i nxt ok # k) =
     (i = iv_RequestID rv \<and> (st = ''offered'' \<and> nxt = ''accepted'' \<or> st = ''accepted'' \<and> nxt = ''streaming'')
      \<and> (if ok then closed_by rv nxt k else only_abort (iv_RequestID rv) k))"
| "closed_by rv st (Persisted p ok # k) =
     (st = ''streaming'' \<and> proposal_covered rv p \<and> (if ok then k = [] else only_abort (iv_RequestID rv) k))"
| "closed_by rv st k = only_abort (iv_RequestID rv) k"

text \<open>The trace of one run of the handler.\<close>

fun request_trace :: "call list \<Rightarrow> bool" where
  "request_trace [] = True"
| "request_trace (Reserved rv ok # k) = (if ok then closed_by rv ''offered'' k else k = [])"
| "request_trace _ = False"

lemma closed_by_abort: "only_abort (iv_RequestID rv) k \<Longrightarrow> closed_by rv st k"
  by (cases "(iv_RequestID rv, k)" rule: only_abort.cases) auto

section \<open>The parts of the handler\<close>

lemma emits_cancel: "emits (\<lambda>_ k. k = []) (OpenAI_cancel (logged D) m i)"
  unfolding OpenAI_cancel_def by (auto intro!: emits_bind_silent emits_return split: sum.split)

lemma emits_abort: "emits (\<lambda>_ k. \<exists>ok. k = [Aborted i st ok]) (abort_request (logged D) i st)"
  unfolding abort_request_def logged_simps by (intro emits_bind_noted emits_return) blast

lemma emits_cancel_abort: "emits (\<lambda>_ k. \<exists>ok. k = [Aborted i st ok]) (cancel_and_abort (logged D) m i st)"
  unfolding cancel_and_abort_def by (rule emits_bind [OF emits_cancel]) (simp add: emits_abort)

lemma emits_after_cancel:
  "(\<And>ok. emits (\<lambda>b k. Q b (Aborted i st ok # k)) (f ())) \<Longrightarrow> emits Q (State_Monad.bind (cancel_and_abort (logged D) m i st) f)"
  by (rule emits_bind [OF emits_cancel_abort]) auto

lemma emits_after_abort:
  "(\<And>ok. emits (\<lambda>b k. Q b (Aborted i st ok # k)) (f ())) \<Longrightarrow> emits Q (State_Monad.bind (abort_request (logged D) i st) f)"
  by (rule emits_bind [OF emits_abort]) auto

lemma emits_begin_streaming:
  assumes "streaming \<Longrightarrow> emits Q (f (Inr ()))"
    "\<And>a. \<not> streaming \<Longrightarrow> emits (\<lambda>b k. Q b (Moved i ''streaming'' (is_ok a) # k)) (f a)"
  shows "emits Q (State_Monad.bind (begin_streaming (logged D) i streaming) f)"
  using assms by (cases streaming) (auto simp: begin_streaming_def intro: emits_bind_noted)

text \<open>The reservation that the loop works under.\<close>

definition reserved_as :: "job_context \<Rightarrow> inferenceReservation \<Rightarrow> bool" where
  "reserved_as x rv \<longleftrightarrow> iv_RequestID rv = jx_RequestID x \<and> iv_SessionID rv = jx_SessionID x
     \<and> iv_MachineID rv = jx_MachineID x \<and> iv_OfferID rv = jx_OfferID x \<and> iv_PriceVersion rv = jx_PriceVersion x
     \<and> iv_MaximumInputTokens rv = jx_MaximumInputTokens x \<and> iv_MaximumOutputTokens rv = jx_MaximumOutputTokens x
     \<and> iv_MaximumComputeMilliseconds rv = jx_MaximumComputeMilliseconds x"

definition phase :: "bool \<Rightarrow> string" where
  "phase streaming = (if streaming then ''streaming'' else ''accepted'')"

definition ends_ledger :: "inferenceReservation \<Rightarrow> bool \<Rightarrow> call list \<Rightarrow> bool" where
  "ends_ledger rv streaming k \<longleftrightarrow> closed_by rv (phase streaming) (filter ledger_call k)"

text \<open>A trace that leads from one phase to another without closing the request.\<close>

definition goes_on :: "string \<Rightarrow> bool \<Rightarrow> bool \<Rightarrow> call list \<Rightarrow> bool" where
  "goes_on i streaming streaming' k \<longleftrightarrow> filter ledger_call k = (if streaming = streaming' then [] else [Moved i ''streaming'' True])
     \<and> (streaming \<longrightarrow> streaming')"

definition flow_ok :: "inferenceReservation \<Rightarrow> bool \<Rightarrow> flow \<Rightarrow> call list \<Rightarrow> bool" where
  "flow_ok rv streaming fl k = (case fl of Stop \<Rightarrow> ends_ledger rv streaming k
     | Continue streaming' out \<Rightarrow> goes_on (iv_RequestID rv) streaming streaming' k)"

lemma goes_on_ends: "goes_on (iv_RequestID rv) streaming streaming' k \<Longrightarrow> ends_ledger rv streaming' k' \<Longrightarrow> ends_ledger rv streaming (k @ k')"
  by (auto simp: goes_on_def ends_ledger_def phase_def split: if_splits)

lemma goes_on_trans: "goes_on i a b k \<Longrightarrow> goes_on i b c k' \<Longrightarrow> goes_on i a c (k @ k')"
  by (auto simp: goes_on_def split: if_splits)

lemmas flow_defs = flow_ok_def ends_ledger_def goes_on_def phase_def reserved_as_def

lemma emits_forward:
  assumes "reserved_as x rv"
  shows "emits (flow_ok rv streaming) (forward_data (logged D) x streaming out data)"
  unfolding forward_data_def using assms
  by (auto simp: flow_defs intro!: emits_return emits_begin_streaming emits_bind_noted emits_after_cancel)

lemma emits_complete:
  assumes "reserved_as x rv"
  shows "emits (\<lambda>_. ends_ledger rv streaming) (complete_stream (logged D) x streaming out chunk)"
  unfolding complete_stream_def using assms
  by (auto simp: flow_defs proposal_covered_def proposal_for_def usage_exceeded_def not_less
      intro!: emits_return emits_begin_streaming emits_bind_noted emits_bind_silent emits_after_cancel
        emits_weaken [OF emits_abort])


lemma emits_on_chunk:
  assumes "reserved_as x rv"
  shows "emits (flow_ok rv streaming) (on_chunk (logged D) x streaming out chunk)"
  unfolding on_chunk_def
proof (rule emits_bind [OF emits_forward [OF assms]])
  fix fl k assume k: "flow_ok rv streaming fl k"
  show "emits (\<lambda>b k'. flow_ok rv streaming b (k @ k')) (case fl of Stop \<Rightarrow> State_Monad.return Stop
     | Continue streaming' out' \<Rightarrow>
         if ch_ErrorCode chunk \<noteq> [] then do {
           _ \<leftarrow> abort_request (logged D) (jx_RequestID x) ''failed'';
           _ \<leftarrow> dp_Write (logged D) (ProviderError (ch_ErrorCode chunk) ''provider execution failed'');
           _ \<leftarrow> dp_Write (logged D) DoneMark;
           State_Monad.return Stop }
         else if ch_Done chunk then do {
           _ \<leftarrow> complete_stream (logged D) x streaming' out' chunk;
           State_Monad.return Stop }
         else State_Monad.return (Continue streaming' out'))"
  proof (cases fl)
    case (Continue streaming' out')
    then have k': "goes_on (iv_RequestID rv) streaming streaming' k" using k by (simp add: flow_ok_def)
    have abort: "ends_ledger rv b [Aborted (jx_RequestID x) ''failed'' ok, Wrote f okf, Wrote g okg]" for b ok f okf g okg
      using assms by (simp add: flow_defs)
    show ?thesis
      unfolding Continue flow.case
      by (auto simp: flow_ok_def intro!: emits_return emits_after_abort emits_bind_noted abort k'
          emits_bind [OF emits_complete [OF assms]] goes_on_ends [OF k'])
  qed (use k in \<open>auto intro: emits_return\<close>)
qed

lemma emits_on_event:
  assumes "reserved_as x rv"
  shows "emits (flow_ok rv streaming) (on_event (logged D) x streaming out event)"
proof -
  have stop: "emits (flow_ok rv streaming) (do { _ \<leftarrow> cancel_and_abort (logged D) (jx_MachineID x) (jx_RequestID x) ''failed'';
      State_Monad.return Stop })"
    using assms by (auto simp: flow_defs intro!: emits_after_cancel emits_return)
  show ?thesis
    unfolding on_event_def logged_simps
    by (auto simp: flow_ok_def goes_on_def intro!: emits_return emits_bind_silent emits_on_chunk [OF assms] stop
        split: sum.split message.split)
qed

lemma emits_stream_loop:
  assumes "reserved_as x rv"
  shows "emits (\<lambda>_. ends_ledger rv streaming) (stream_loop (logged D) x streaming out hs)"
proof -
  have abort: "ends_ledger rv streaming [Aborted (jx_RequestID x) st ok]" if "st = ''failed'' \<or> st = ''cancelled''" for st ok streaming
    using that assms by (auto simp: flow_defs)
  have cancel: "emits (\<lambda>_. ends_ledger rv streaming) (cancel_and_abort (logged D) (jx_MachineID x) (jx_RequestID x) st)"
    if "st = ''failed'' \<or> st = ''cancelled''" for st streaming
    by (rule emits_weaken [OF emits_cancel_abort]) (use abort [OF that] in blast)
  show ?thesis
  proof (induction hs arbitrary: streaming out)
    case (Cons h hs)
    show ?case
    proof (cases h)
      case (Arrived event)
      show ?thesis
        unfolding Arrived stream_loop.simps
      proof (rule emits_bind [OF emits_on_event [OF assms]])
        fix fl k assume k: "flow_ok rv streaming fl k"
        show "emits (\<lambda>b k'. ends_ledger rv streaming (k @ k'))
            (case fl of Stop \<Rightarrow> State_Monad.return () | Continue streaming' out' \<Rightarrow> stream_loop (logged D) x streaming' out' hs)"
        proof (cases fl)
          case (Continue streaming' out')
          with k have "goes_on (iv_RequestID rv) streaming streaming' k" by (simp add: flow_ok_def)
          from goes_on_ends [OF this] show ?thesis
            unfolding Continue flow.case by (rule emits_weaken [OF Cons.IH])
        qed (use k in \<open>simp add: flow_ok_def emits_return\<close>)
      qed
    qed (simp_all add: cancel)
  qed (simp add: cancel)
qed

text \<open>From the reservation on.\<close>

lemma emits_run_reserved:
  assumes "reserved_as x rv"
  shows "emits (\<lambda>_ k. closed_by rv ''offered'' (filter ledger_call k)) (run_reserved (logged D) x cost ws flusher hs)"
proof -
  have i: "iv_RequestID rv = jx_RequestID x" using assms by (simp add: reserved_as_def)
  have offered: "emits (\<lambda>_ k. k = []) (offer_job (logged D) x cost ws)"
    unfolding offer_job_def logged_simps by (auto intro!: emits_bind_silent emits_return emits_silent split: sum.split)
  have loop: "emits (\<lambda>_ k. closed_by rv ''accepted'' (filter ledger_call k)) (stream_loop (logged D) x False [] hs')" for hs'
    by (rule emits_weaken [OF emits_stream_loop [OF assms]]) (simp add: ends_ledger_def phase_def)
  show ?thesis
    unfolding run_reserved_def logged_simps
    by (rule emits_bind [OF offered])
       (auto simp: i intro!: emits_after_abort emits_after_cancel emits_bind_noted emits_return emits_bind [OF loop]
         split: prod.split sum.split)
qed

lemma reserved_as_self: "reserved_as x (reservation_for x a c)"
  by (simp add: reserved_as_def reservation_for_def)

lemma emits_serve_selected:
  "emits (\<lambda>_ k. request_trace (filter ledger_call k)) (serve_selected (logged D) input p c inT outT flusher hs)"
proof -
  have "emits (\<lambda>_ k. closed_by (reservation_for x a cost) ''offered'' (filter ledger_call k))
      (run_reserved (logged D) x cost ws flusher hs)" for x a cost ws
    by (rule emits_run_reserved [OF reserved_as_self])
  then show ?thesis
    unfolding serve_selected_def logged_simps Let_def
    by (auto intro!: emits_bind_silent emits_return emits_bind_noted split: sum.split)
qed

lemma emits_price: "emits (\<lambda>_ k. k = []) (price_candidates (logged D) inT outT cs)"
proof (induction cs)
  case (Cons c cs)
  show ?case
    unfolding price_candidates.simps logged_simps
    by (intro emits_bind_silent emits_bind [OF Cons.IH]) (auto intro: emits_return)
qed (simp add: emits_return)

lemma emits_route: "emits (\<lambda>_ k. k = []) (route_chat srt (logged D) r input outT spend)"
  unfolding route_chat_def logged_simps
  by (auto intro!: emits_bind_silent emits_return emits_bind [OF emits_price] split: sum.split)

lemma emits_serve: "emits (\<lambda>_ k. request_trace (filter ledger_call k)) (OpenAI_ServeHTTP srt (logged D) r body hs)"
  unfolding OpenAI_ServeHTTP_def
  by (auto intro!: emits_return emits_bind [OF emits_route] emits_serve_selected split: sum.split prod.split)

text \<open>C10: The chat endpoint never leaves a reservation behind: whatever the hub, the store, the coordinator and
  the customer do, a run makes at most one reservation, and one that succeeds is followed by its moves to
  accepted and streaming in that order and then by either one successful persist, with the identifiers of the
  reservation and usage within its limits, or exactly one call that aborts the request.\<close>

theorem reservation_always_closed:
  "request_trace (filter ledger_call (snd (snd (run_state (OpenAI_ServeHTTP srt (logged D) r body hs) (s, [])))))"
proof -
  obtain k where "snd (snd (run_state (OpenAI_ServeHTTP srt (logged D) r body hs) (s, []))) = [] @ k"
      "request_trace (filter ledger_call k)"
    using emits_serve [of srt D r body hs] unfolding emits_def by blast
  then show ?thesis by simp
qed

section \<open>The bill and the response\<close>

text \<open>
  The log read against the response: \<open>sent\<close> is the output whose frames were written, \<open>hashes\<close> the hashes that
  were computed and \<open>billed\<close> the proposal that was persisted.
\<close>

fun honest_bill ::
  "string \<Rightarrow> string \<Rightarrow> (string \<times> hash) list \<Rightarrow> completedInference option \<Rightarrow> call list \<Rightarrow> bool" where
  "honest_bill prompt sent hashes billed [] = True"
| "honest_bill prompt sent hashes billed (Wrote (Delta i d) ok # k) =
     (billed = None \<and> honest_bill prompt (if ok then sent @ d else sent) hashes billed k)"
| "honest_bill prompt sent hashes billed (Wrote (Finish i m a b c) ok # k) =
     ((\<exists>p. billed = Some p \<and> cp_RequestID p = i \<and> cp_Model p = m \<and> cp_InputTokens p = a \<and> cp_OutputTokens p = b \<and> c = a + b)
      \<and> honest_bill prompt sent hashes billed k)"
| "honest_bill prompt sent hashes billed (Hashed v h # k) = honest_bill prompt sent ((v, h) # hashes) billed k"
| "honest_bill prompt sent hashes billed (Persisted p ok # k) =
     (billed = None \<and> (prompt, cp_InputHash p) \<in> set hashes \<and> (sent, cp_OutputHash p) \<in> set hashes
      \<and> honest_bill prompt sent hashes (if ok then Some p else None) k)"
| "honest_bill prompt sent hashes billed (_ # k) = honest_bill prompt sent hashes billed k"

text \<open>What the loop hands on: nothing is billed yet and the collected output is what was written.\<close>

definition bill_flow :: "string \<Rightarrow> string \<Rightarrow> flow \<Rightarrow> call list \<Rightarrow> bool" where
  "bill_flow prompt out fl k = (case fl of Stop \<Rightarrow> honest_bill prompt out [] None k
     | Continue b out' \<Rightarrow> (\<forall>k'. honest_bill prompt out' [] None k' \<longrightarrow> honest_bill prompt out [] None (k @ k')))"

lemma bill_forward: "emits (bill_flow prompt out) (forward_data (logged D) x streaming out data)"
  unfolding forward_data_def
  by (auto simp: bill_flow_def is_ok_iff intro!: emits_return emits_begin_streaming emits_bind_noted emits_after_cancel)

lemma bill_complete:
  "emits (\<lambda>_. honest_bill (jx_Prompt x) out [] None) (complete_stream (logged D) x streaming out chunk)"
  unfolding complete_stream_def
  by (auto simp: proposal_for_def
      intro!: emits_return emits_begin_streaming emits_bind_noted emits_bind_silent emits_after_cancel
        emits_weaken [OF emits_abort])

lemma bill_on_chunk: "emits (bill_flow (jx_Prompt x) out) (on_chunk (logged D) x streaming out chunk)"
  unfolding on_chunk_def
proof (rule emits_bind [OF bill_forward])
  fix fl k assume k: "bill_flow (jx_Prompt x) out fl k"
  show "emits (\<lambda>b k'. bill_flow (jx_Prompt x) out b (k @ k')) (case fl of Stop \<Rightarrow> State_Monad.return Stop
     | Continue streaming' out' \<Rightarrow>
         if ch_ErrorCode chunk \<noteq> [] then do {
           _ \<leftarrow> abort_request (logged D) (jx_RequestID x) ''failed'';
           _ \<leftarrow> dp_Write (logged D) (ProviderError (ch_ErrorCode chunk) ''provider execution failed'');
           _ \<leftarrow> dp_Write (logged D) DoneMark;
           State_Monad.return Stop }
         else if ch_Done chunk then do {
           _ \<leftarrow> complete_stream (logged D) x streaming' out' chunk;
           State_Monad.return Stop }
         else State_Monad.return (Continue streaming' out'))"
  proof (cases fl)
    case (Continue streaming' out')
    then have k': "honest_bill (jx_Prompt x) out' [] None l \<Longrightarrow> honest_bill (jx_Prompt x) out [] None (k @ l)" for l
      using k by (simp add: bill_flow_def)
    show ?thesis
      unfolding Continue flow.case
      by (auto simp: bill_flow_def intro!: emits_return emits_after_abort emits_bind_noted k' emits_bind [OF bill_complete])
  qed (use k in \<open>auto intro: emits_return\<close>)
qed

lemma bill_on_event: "emits (bill_flow (jx_Prompt x) out) (on_event (logged D) x streaming out event)"
  unfolding on_event_def logged_simps
  by (auto simp: bill_flow_def intro!: emits_return emits_bind_silent emits_after_cancel bill_on_chunk
      split: sum.split message.split)

lemma bill_stream_loop: "emits (\<lambda>_. honest_bill (jx_Prompt x) out [] None) (stream_loop (logged D) x streaming out hs)"
proof (induction hs arbitrary: streaming out)
  case (Cons h hs)
  show ?case
  proof (cases h)
    case (Arrived event)
    show ?thesis
      unfolding Arrived stream_loop.simps
    proof (rule emits_bind [OF bill_on_event])
      fix fl k assume k: "bill_flow (jx_Prompt x) out fl k"
      show "emits (\<lambda>b k'. honest_bill (jx_Prompt x) out [] None (k @ k'))
          (case fl of Stop \<Rightarrow> State_Monad.return () | Continue streaming' out' \<Rightarrow> stream_loop (logged D) x streaming' out' hs)"
        using k by (cases fl) (auto simp: bill_flow_def intro: emits_return emits_weaken [OF Cons.IH])
    qed
  qed (auto intro: emits_weaken [OF emits_cancel_abort])
qed (auto intro: emits_weaken [OF emits_cancel_abort])

lemma bill_run_reserved:
  "emits (\<lambda>_. honest_bill (jx_Prompt x) [] [] None) (run_reserved (logged D) x cost ws flusher hs)"
proof -
  have offered: "emits (\<lambda>_ k. k = []) (offer_job (logged D) x cost ws)"
    unfolding offer_job_def logged_simps by (auto intro!: emits_bind_silent emits_return emits_silent split: sum.split)
  show ?thesis
    unfolding run_reserved_def logged_simps
    by (rule emits_bind [OF offered])
       (auto intro!: emits_after_abort emits_after_cancel emits_bind_noted emits_return emits_bind [OF bill_stream_loop]
         split: prod.split sum.split)
qed

text \<open>C11: The customer is billed for what was streamed: the persisted proposal carries the hash of the prompt and
  the hash of exactly the output whose frames were written to the response, no output follows it, and the final
  frame with the usage is written only after the proposal was persisted and repeats its request, model and usage.\<close>

theorem bill_matches_response:
  "honest_bill (renderPrompt (cq_Messages input)) [] [] None
     (snd (snd (run_state (OpenAI_ServeHTTP srt (logged D) r (Some input) hs) (s, []))))"
proof -
  have "emits (\<lambda>_. honest_bill (renderPrompt (cq_Messages input)) [] [] None)
      (serve_selected (logged D) input p c inT outT flusher hs)" for p c inT outT flusher
    unfolding serve_selected_def logged_simps Let_def
    by (auto intro!: emits_bind_silent emits_return emits_bind_noted emits_weaken [OF bill_run_reserved] split: sum.split)
  then have "emits (\<lambda>_. honest_bill (renderPrompt (cq_Messages input)) [] [] None)
      (OpenAI_ServeHTTP srt (logged D) r (Some input) hs)"
    unfolding OpenAI_ServeHTTP_def
    by (auto simp: admit_chat_def intro!: emits_return emits_bind [OF emits_route] split: sum.split prod.split option.split if_splits)
  then show ?thesis unfolding emits_def by (metis append_Nil)
qed

section \<open>Invariants that the dependencies keep\<close>

definition preserves :: "('s \<Rightarrow> bool) \<Rightarrow> ('s, 'a) state \<Rightarrow> bool" where
  "preserves I m \<longleftrightarrow> (\<forall>s. I s \<longrightarrow> I (snd (run_state m s)))"

lemma preserves_return [simp]: "preserves I (State_Monad.return a)"
  by (simp add: preserves_def State_Monad.return_def)

lemma preserves_bind: "preserves I m \<Longrightarrow> (\<And>a. preserves I (f a)) \<Longrightarrow> preserves I (State_Monad.bind m f)"
  unfolding preserves_def by (auto split: prod.split simp: State_Monad.bind_def)

text \<open>
  The contract between the endpoint and the components behind it: every operation it can call keeps the
  invariant. Then the whole request does.
\<close>

locale safe_dependencies =
  fixes D :: "('s, 'b) dependencies" and I :: "'s \<Rightarrow> bool"
  assumes connected: "preserves I (dp_Connected D m)"
    and send: "preserves I (dp_Send D m e)"
    and authorize: "preserves I (dp_Authorize D t model ep n)"
    and candidates: "preserves I (dp_Candidates D model)"
    and reserve: "preserves I (dp_Reserve D r)"
    and transition: "preserves I (dp_Transition D i st)"
    and abort: "preserves I (dp_Abort D i st)"
    and persist: "preserves I (dp_Persist D p)"
    and now: "preserves I (dp_Now D)"
    and clock: "preserves I (dp_clock D)"
    and wrote: "preserves I (dp_Write D f)"
    and random: "preserves I (dp_randomID D)"
    and salted: "preserves I (dp_saltedHash D v)"
begin

lemmas calls = connected send authorize candidates reserve transition abort persist now clock wrote random salted

lemma cancel_safe: "preserves I (OpenAI_cancel D m i)"
  unfolding OpenAI_cancel_def by (auto intro!: preserves_bind calls split: sum.split)

lemma abort_safe: "preserves I (abort_request D i st)"
  unfolding abort_request_def by (auto intro!: preserves_bind calls)

lemma cancel_abort_safe: "preserves I (cancel_and_abort D m i st)"
  unfolding cancel_and_abort_def by (auto intro!: preserves_bind cancel_safe abort_safe)

lemmas exits = calls cancel_safe abort_safe cancel_abort_safe

lemma begin_safe: "preserves I (begin_streaming D i streaming)"
  unfolding begin_streaming_def by (auto intro!: calls)

lemma forward_safe: "preserves I (forward_data D x streaming out data)"
  unfolding forward_data_def by (auto intro!: preserves_bind exits begin_safe)

lemma complete_safe: "preserves I (complete_stream D x streaming out chunk)"
  unfolding complete_stream_def by (auto intro!: preserves_bind exits begin_safe)

lemma on_event_safe: "preserves I (on_event D x streaming out event)"
  unfolding on_event_def on_chunk_def
  by (auto intro!: preserves_bind exits forward_safe complete_safe split: sum.split message.split flow.split)

lemma stream_safe: "preserves I (stream_loop D x streaming out hs)"
proof (induction hs arbitrary: streaming out)
  case (Cons h hs)
  then show ?case by (cases h) (auto intro!: preserves_bind exits on_event_safe split: flow.split)
qed (auto intro: exits)

lemma run_reserved_safe: "preserves I (run_reserved D x cost ws flusher hs)"
  unfolding run_reserved_def offer_job_def
  by (auto intro!: preserves_bind exits stream_safe split: sum.split prod.split)

lemma price_safe: "preserves I (price_candidates D inT outT cs)"
  by (induction cs) (auto intro!: preserves_bind calls)

lemma serve_safe: "preserves I (OpenAI_ServeHTTP srt D r body hs)"
  unfolding OpenAI_ServeHTTP_def route_chat_def serve_selected_def Let_def
  by (auto intro!: preserves_bind calls price_safe run_reserved_safe split: sum.split prod.split)

end

end
