(* ===== verification/Auth.thy ===== *)
theory Auth
  imports Ledger Hex
begin

text \<open>
  The authentication service of the broker: device authorizations, machine tokens and API keys
  (\<^verbatim>\<open>server/internal/auth/device.go\<close>), wallet challenges and browser sessions
  (\<^verbatim>\<open>browser.go\<close>) and tickets for the event stream (\<^verbatim>\<open>stream.go\<close>). The tables of
  migrations 1, 4, 5 and 8 that only this service uses are the record \<open>auth_db\<close>. SHA-256, the recovery of
  a signer, time formatting and the JSON text of a scope are the record \<open>auth_lib\<close>; random bytes are an
  argument, indexed by the call that reads them.
\<close>

section \<open>Types\<close>

record apiKeyScope =
  sc_Models :: "string list"
  sc_Endpoints :: "string list"
  sc_MaxSpendWei :: u64

record auth_lib =
  al_sha256 :: "string \<Rightarrow> bytes"
  al_marshalScope :: "apiKeyScope \<Rightarrow> string"
  al_unmarshalScope :: "string \<Rightarrow> apiKeyScope result"
  al_sigToAddress :: "string \<Rightarrow> bytes \<Rightarrow> address result"
  al_formatTime :: "int \<Rightarrow> string"

type_synonym random_source = "nat \<Rightarrow> nat \<Rightarrow> bytes result"

record deviceAuthorization =
  da_DeviceCode :: string
  da_UserCode :: string
  da_AccountID :: string
  da_SignerAddress :: string
  da_ExpiresAt :: int

record auth_machine =
  am_ID :: string
  am_AccountID :: string
  am_Name :: string
  am_SignerAddress :: string

record machinePrincipal =
  mp_MachineID :: string
  mp_AccountID :: string

record apiKey =
  ky_ID :: string
  ky_Token :: string

record apiKeyPrincipal =
  kp_KeyID :: string
  kp_AccountID :: string
  kp_Scope :: apiKeyScope

record streamTicket =
  st_Token :: string
  st_ExpiresAt :: int

record walletChallenge =
  wc_ID :: string
  wc_Address :: string
  wc_Nonce :: string
  wc_Message :: string
  wc_ChainID :: u64
  wc_IssuedAt :: int
  wc_ExpiresAt :: int
  wc_Origin :: string
  wc_Domain :: string

record browserSession =
  bw_ID :: string
  bw_Token :: string
  bw_AccountID :: string
  bw_WalletAddress :: string
  bw_ExpiresAt :: int

record pendingDevice =
  pd_MachineName :: string
  pd_SignerAddress :: string
  pd_ExpiresAt :: int

record apiKeyRecord =
  kr_ID :: string
  kr_Scope :: apiKeyScope
  kr_CreatedAt :: int

section \<open>Tables\<close>

record device_row =
  dv_device_code_hash :: bytes
  dv_user_code_hash :: bytes
  dv_machine_name :: string
  dv_signer_address :: "string option"
  dv_account_id :: "string option"
  dv_expires_at :: int
  dv_approved_at :: "int option"
  dv_exchanged_at :: "int option"

record token_row =
  mt_machine_id :: string
  mt_token_hash :: bytes
  mt_revoked_at :: "int option"

record key_row =
  ak_id :: string
  ak_account_id :: string
  ak_key_hash :: bytes
  ak_scope_json :: string
  ak_revoked_at :: "int option"
  ak_created_at :: int

record ticket_row =
  tk_id :: string
  tk_account_id :: string
  tk_token_hash :: bytes
  tk_expires_at :: int
  tk_consumed_at :: "int option"

record challenge_row =
  wl_id :: string
  wl_wallet_address :: string
  wl_domain :: string
  wl_origin :: string
  wl_chain_id :: int
  wl_nonce :: string
  wl_message :: string
  wl_issued_at :: int
  wl_expires_at :: int
  wl_consumed_at :: "int option"

record browser_row =
  br_id :: string
  br_account_id :: string
  br_token_hash :: bytes
  br_expires_at :: int
  br_revoked_at :: "int option"

record auth_db =
  au_db :: db
  au_devices :: "device_row list"
  au_tokens :: "token_row list"
  au_keys :: "key_row list"
  au_tickets :: "ticket_row list"
  au_challenges :: "challenge_row list"
  au_browsers :: "browser_row list"

text \<open>Timestamps are nanoseconds; a \<^verbatim>\<open>timestamptz\<close> column, like \<^verbatim>\<open>Truncate(time.Microsecond)\<close>, keeps
  microseconds.\<close>

definition micros :: "int \<Rightarrow> int" where
  "micros t = t - t mod 1000"

section \<open>Tokens\<close>

text \<open>\<^verbatim>\<open>base64.RawURLEncoding\<close>\<close>

definition url_char :: "nat \<Rightarrow> char" where
  "url_char n = (if n < 26 then char_of (n + 65) else if n < 52 then char_of (n + 71)
     else if n < 62 then char_of (n - 4) else if n = 62 then CHR ''-'' else CHR ''_'')"

fun raw_url_encode :: "bytes \<Rightarrow> string" where
  "raw_url_encode [] = []"
| "raw_url_encode [a] = [url_char (unat a div 4), url_char (unat a mod 4 * 16)]"
| "raw_url_encode [a, b] = [url_char (unat a div 4), url_char (unat a mod 4 * 16 + unat b div 16),
     url_char (unat b mod 16 * 4)]"
| "raw_url_encode (a # b # c # r) = [url_char (unat a div 4), url_char (unat a mod 4 * 16 + unat b div 16),
     url_char (unat b mod 16 * 4 + unat c div 64), url_char (unat c mod 64)] @ raw_url_encode r"

definition randomToken :: "random_source \<Rightarrow> nat \<Rightarrow> nat \<Rightarrow> string result" where
  "randomToken rnd k n = and_then (rnd k n) (\<lambda>b. Inr (raw_url_encode b))"

definition auth_randomID :: "random_source \<Rightarrow> nat \<Rightarrow> string \<Rightarrow> string result" where
  "auth_randomID rnd k pre = and_then (randomToken rnd k 12) (\<lambda>token. Inr (pre @ ''_'' @ token))"

definition splitCredential :: "string \<Rightarrow> (string \<times> string) option" where
  "splitCredential token =
     (let i = takeWhile (\<lambda>c. c \<noteq> CHR ''.'') token; s = drop (length i + 1) token
      in if CHR ''.'' \<in> set token \<and> i \<noteq> [] \<and> s \<noteq> [] then Some (i, s) else None)"

definition auth_contains :: "string list \<Rightarrow> string \<Rightarrow> bool" where
  "auth_contains values wanted = list_ex (\<lambda>v. v = wanted) values"

definition allowsModel :: "string list \<Rightarrow> string \<Rightarrow> bool" where
  "allowsModel models model \<longleftrightarrow> models = [] \<or> auth_contains models model"

section \<open>Devices\<close>

definition CreateDeviceAuthorization ::
  "eth \<Rightarrow> auth_lib \<Rightarrow> random_source \<Rightarrow> faults \<Rightarrow> int \<Rightarrow> auth_db \<Rightarrow> string \<Rightarrow> string \<Rightarrow> int
   \<Rightarrow> deviceAuthorization result \<times> auth_db" where
  "CreateDeviceAuthorization G L rnd flt now A machineName signerAddress lifetime =
     (if blank machineName \<or> \<not> eth_IsHexAddress G signerAddress \<or> eth_HexToAddress G signerAddress = 0 \<or> lifetime \<le> 0
      then (Inl (ErrText ''machine name, signer address, and positive lifetime are required''), A)
      else transact A (
     let signer = eth_AddressHex G (eth_HexToAddress G signerAddress)
     in and_then (randomToken rnd 0 32) (\<lambda>deviceCode.
        and_then (rnd 1 4) (\<lambda>userBytes.
        let userCode = to_upper (concat (map byte_hex userBytes)); expiresAt = micros now + lifetime;
            row = \<lparr>dv_device_code_hash = al_sha256 L deviceCode, dv_user_code_hash = al_sha256 L userCode,
              dv_machine_name = machineName, dv_signer_address = Some signer, dv_account_id = None,
              dv_expires_at = micros expiresAt, dv_approved_at = None, dv_exchanged_at = None\<rparr>
        in and_then (stmt flt 0 (insert_row (\<not> has_key dv_user_code_hash (al_sha256 L userCode) (au_devices A))
                 dv_device_code_hash row (au_devices A))) (\<lambda>t.
           Inr (\<lparr>da_DeviceCode = deviceCode, da_UserCode = userCode, da_AccountID = [], da_SignerAddress = signer,
             da_ExpiresAt = expiresAt\<rparr>, A\<lparr>au_devices := t\<rparr>))))))"

definition PollDeviceAuthorization ::
  "auth_lib \<Rightarrow> faults \<Rightarrow> int \<Rightarrow> auth_db \<Rightarrow> string \<Rightarrow> deviceAuthorization result" where
  "PollDeviceAuthorization L flt now A deviceCode =
     (case stmt flt 0 (select_one (\<lambda>d. dv_device_code_hash d = al_sha256 L deviceCode) (au_devices A)) of
        Inl e \<Rightarrow> Inl (if e = ErrNoRows then ErrInvalidCredential else e)
      | Inr d \<Rightarrow>
          if \<not> now < dv_expires_at d then Inl ErrAuthorizationExpired
          else if dv_exchanged_at d \<noteq> None then Inl ErrAuthorizationConsumed
          else case dv_account_id d of
                 None \<Rightarrow> Inl ErrAuthorizationPending
               | Some account \<Rightarrow>
                   if dv_approved_at d = None then Inl ErrAuthorizationPending
                   else Inr \<lparr>da_DeviceCode = [], da_UserCode = [], da_AccountID = account, da_SignerAddress = [],
                          da_ExpiresAt = dv_expires_at d\<rparr>)"

definition ApproveDeviceAuthorization ::
  "auth_lib \<Rightarrow> faults \<Rightarrow> int \<Rightarrow> auth_db \<Rightarrow> string \<Rightarrow> string \<Rightarrow> unit result \<times> auth_db" where
  "ApproveDeviceAuthorization L flt now A userCode accountID =
     (let P = (\<lambda>d. dv_user_code_hash d = al_sha256 L (to_upper userCode) \<and> dv_approved_at d = None
                 \<and> dv_exchanged_at d = None \<and> dv_expires_at d > now)
      in case stmt flt 0 (if exists_row P (au_devices A) \<and> \<not> has_key ac_id accountID (accounts (au_db A))
                then Inl ErrConstraint else Inr (count_rows P (au_devices A))) of
           Inl e \<Rightarrow> (Inl e, A)
         | Inr rows \<Rightarrow>
             (if rows \<noteq> 1 then Inl ErrInvalidCredential else Inr (),
              A\<lparr>au_devices := update_rows P (\<lambda>d. d\<lparr>dv_account_id := Some accountID, dv_approved_at := Some (micros now)\<rparr>)
                  (au_devices A)\<rparr>))"

text \<open>The upsert of a machine: the machine of that account and name keeps its identifier and is enabled
  again with the new signer.\<close>

definition upsert_machine :: "machine_row \<Rightarrow> db \<Rightarrow> (string \<times> db) result" where
  "upsert_machine m db =
     (let same = (\<lambda>x. ma_account_id x = ma_account_id m \<and> ma_name x = ma_name m)
      in case find same (machines db) of
           None \<Rightarrow> and_then (insert_machine m db) (\<lambda>db'. Inr (ma_id m, db'))
         | Some old \<Rightarrow>
             if signer_taken (ma_signer_address m) (filter (\<lambda>x. \<not> same x) (machines db)) then Inl ErrConstraint
             else Inr (ma_id old, db\<lparr>machines := update_rows same
                    (\<lambda>x. x\<lparr>ma_signer_address := ma_signer_address m, ma_revoked_at := None\<rparr>) (machines db)\<rparr>))"

definition upsert_token :: "token_row \<Rightarrow> auth_db \<Rightarrow> auth_db result" where
  "upsert_token t A =
     and_then (insert_or_update (has_key ma_id (mt_machine_id t) (machines (au_db A))) (\<lambda>_. True) mt_machine_id t
        (\<lambda>old. old\<lparr>mt_token_hash := mt_token_hash t, mt_revoked_at := None\<rparr>) (au_tokens A))
       (\<lambda>ts. Inr (A\<lparr>au_tokens := ts\<rparr>))"

definition ExchangeDeviceAuthorization ::
  "auth_lib \<Rightarrow> random_source \<Rightarrow> faults \<Rightarrow> int \<Rightarrow> auth_db \<Rightarrow> string \<Rightarrow> (auth_machine \<times> string) result \<times> auth_db" where
  "ExchangeDeviceAuthorization L rnd flt now A deviceCode = transact A (
     and_then (stmt flt 0 (Inr ())) (\<lambda>_.
     case stmt flt 1 (and_then (select_one (\<lambda>d. dv_device_code_hash d = al_sha256 L deviceCode) (au_devices A)) (\<lambda>d.
            and_then (scan_text (dv_signer_address d)) (\<lambda>signer. Inr (d, signer)))) of
       Inl e \<Rightarrow> Inl (if e = ErrNoRows then ErrInvalidCredential else e)
     | Inr (d, signer) \<Rightarrow>
         if dv_exchanged_at d \<noteq> None then Inl ErrAuthorizationConsumed
         else if \<not> now < dv_expires_at d then Inl ErrAuthorizationExpired
         else case dv_account_id d of
           None \<Rightarrow> Inl ErrAuthorizationPending
         | Some account \<Rightarrow>
             and_then (auth_randomID rnd 0 ''mach'') (\<lambda>newID.
             and_then (randomToken rnd 1 32) (\<lambda>secret.
             and_then (stmt flt 2 (upsert_machine \<lparr>ma_id = newID, ma_account_id = account, ma_name = dv_machine_name d,
                 ma_revoked_at = None, ma_signer_address = Some signer\<rparr> (au_db A))) (\<lambda>(machineID, db1).
             and_then (stmt flt 3 (upsert_token \<lparr>mt_machine_id = machineID, mt_token_hash = al_sha256 L secret,
                 mt_revoked_at = None\<rparr> (A\<lparr>au_db := db1\<rparr>))) (\<lambda>A2.
             and_then (stmt flt 4 (Inr (A2\<lparr>au_devices := update_rows (\<lambda>x. dv_device_code_hash x = al_sha256 L deviceCode)
                 (\<lambda>x. x\<lparr>dv_exchanged_at := Some (micros now)\<rparr>) (au_devices A2)\<rparr>))) (\<lambda>A3.
             stmt flt 5 (Inr ((\<lparr>am_ID = machineID, am_AccountID = account, am_Name = dv_machine_name d,
                am_SignerAddress = signer\<rparr>, machineID @ ''.'' @ secret), A3)))))))))"

definition AuthenticateMachine :: "auth_lib \<Rightarrow> faults \<Rightarrow> auth_db \<Rightarrow> string \<Rightarrow> machinePrincipal result" where
  "AuthenticateMachine L flt A token =
     (case splitCredential token of
        None \<Rightarrow> Inl ErrInvalidCredential
      | Some (i, secret) \<Rightarrow>
          (case stmt flt 0 (and_then (select_one (\<lambda>t. mt_machine_id t = i \<and> mt_revoked_at t = None) (au_tokens A)) (\<lambda>t.
                  and_then (select_one (\<lambda>m. ma_id m = mt_machine_id t \<and> ma_revoked_at m = None) (machines (au_db A))) (\<lambda>m.
                  Inr (t, m)))) of
             Inl _ \<Rightarrow> Inl ErrInvalidCredential
           | Inr (t, m) \<Rightarrow>
               if mt_token_hash t \<noteq> al_sha256 L secret then Inl ErrInvalidCredential
               else Inr \<lparr>mp_MachineID = ma_id m, mp_AccountID = ma_account_id m\<rparr>))"

definition RevokeMachine :: "faults \<Rightarrow> int \<Rightarrow> auth_db \<Rightarrow> string \<Rightarrow> unit result \<times> auth_db" where
  "RevokeMachine flt now A machineID = transact A (
     stmt flt 0 (Inr ((), A\<lparr>au_db := (au_db A)\<lparr>machines := update_rows (\<lambda>m. ma_id m = machineID)
       (\<lambda>m. m\<lparr>ma_revoked_at := Some (micros now)\<rparr>) (machines (au_db A))\<rparr>\<rparr>)))"

section \<open>API keys\<close>

definition CreateAPIKey ::
  "auth_lib \<Rightarrow> random_source \<Rightarrow> faults \<Rightarrow> int \<Rightarrow> auth_db \<Rightarrow> string \<Rightarrow> apiKeyScope \<Rightarrow> apiKey result \<times> auth_db" where
  "CreateAPIKey L rnd flt now A accountID scope =
     (if sc_Endpoints scope = [] \<or> sc_MaxSpendWei scope = 0 then (Inl (ErrText ''endpoint and spend scopes are required''), A)
      else transact A (
     and_then (auth_randomID rnd 0 ''key'') (\<lambda>keyID.
     and_then (randomToken rnd 1 32) (\<lambda>secret.
     let row = \<lparr>ak_id = keyID, ak_account_id = accountID, ak_key_hash = al_sha256 L secret,
           ak_scope_json = al_marshalScope L scope, ak_revoked_at = None, ak_created_at = now\<rparr>
     in and_then (stmt flt 0 (insert_row (has_key ac_id accountID (accounts (au_db A))
            \<and> \<not> has_key ak_key_hash (al_sha256 L secret) (au_keys A)) ak_id row (au_keys A))) (\<lambda>t.
        Inr (\<lparr>ky_ID = keyID, ky_Token = keyID @ ''.'' @ secret\<rparr>, A\<lparr>au_keys := t\<rparr>))))))"

definition AuthorizeAPIKey ::
  "auth_lib \<Rightarrow> faults \<Rightarrow> auth_db \<Rightarrow> string \<Rightarrow> string \<Rightarrow> string \<Rightarrow> u64 \<Rightarrow> apiKeyPrincipal result" where
  "AuthorizeAPIKey L flt A token model endpoint spend =
     (case splitCredential token of
        None \<Rightarrow> Inl ErrInvalidCredential
      | Some (i, secret) \<Rightarrow>
          (case stmt flt 0 (select_one (\<lambda>k. ak_id k = i \<and> ak_revoked_at k = None) (au_keys A)) of
             Inl _ \<Rightarrow> Inl ErrInvalidCredential
           | Inr k \<Rightarrow>
               if ak_key_hash k \<noteq> al_sha256 L secret then Inl ErrInvalidCredential
               else (case al_unmarshalScope L (ak_scope_json k) of
                       Inl _ \<Rightarrow> Inl (ErrText ''decode API key scope'')
                     | Inr scope \<Rightarrow>
                         if \<not> allowsModel (sc_Models scope) model \<or> \<not> auth_contains (sc_Endpoints scope) endpoint
                            \<or> spend > sc_MaxSpendWei scope
                         then Inl ErrScopeDenied
                         else Inr \<lparr>kp_KeyID = ak_id k, kp_AccountID = ak_account_id k, kp_Scope = scope\<rparr>)))"

definition RevokeAPIKey :: "faults \<Rightarrow> int \<Rightarrow> auth_db \<Rightarrow> string \<Rightarrow> unit result \<times> auth_db" where
  "RevokeAPIKey flt now A keyID = transact A (
     stmt flt 0 (Inr ((), A\<lparr>au_keys := update_rows (\<lambda>k. ak_id k = keyID)
       (\<lambda>k. k\<lparr>ak_revoked_at := Some (micros now)\<rparr>) (au_keys A)\<rparr>)))"

text \<open>The live keys of an account, newest first.\<close>

fun listKeys_loop :: "auth_lib \<Rightarrow> key_row list \<Rightarrow> apiKeyRecord list result" where
  "listKeys_loop L [] = Inr []"
| "listKeys_loop L (k # ks) =
     and_then (al_unmarshalScope L (ak_scope_json k)) (\<lambda>scope.
     and_then (listKeys_loop L ks) (\<lambda>rest.
     Inr (\<lparr>kr_ID = ak_id k, kr_Scope = scope, kr_CreatedAt = ak_created_at k\<rparr> # rest)))"

definition ListAPIKeys :: "auth_lib \<Rightarrow> faults \<Rightarrow> auth_db \<Rightarrow> string \<Rightarrow> apiKeyRecord list result" where
  "ListAPIKeys L flt A accountID =
     and_then (stmt flt 0 (Inr (sort_key (\<lambda>k. - ak_created_at k)
        (filter (\<lambda>k. ak_account_id k = accountID \<and> ak_revoked_at k = None) (au_keys A))))) (listKeys_loop L)"

section \<open>Stream tickets\<close>

definition CreateStreamTicket ::
  "auth_lib \<Rightarrow> random_source \<Rightarrow> faults \<Rightarrow> int \<Rightarrow> auth_db \<Rightarrow> string \<Rightarrow> int \<Rightarrow> streamTicket result \<times> auth_db" where
  "CreateStreamTicket L rnd flt now A accountID lifetime =
     (if accountID = [] \<or> lifetime \<le> 0 then (Inl (ErrText ''account and positive lifetime are required''), A)
      else transact A (
     and_then (auth_randomID rnd 0 ''stream'') (\<lambda>ticketID.
     and_then (randomToken rnd 1 24) (\<lambda>secret.
     let expiresAt = micros now + lifetime;
         row = \<lparr>tk_id = ticketID, tk_account_id = accountID, tk_token_hash = al_sha256 L secret,
           tk_expires_at = micros expiresAt, tk_consumed_at = None\<rparr>
     in and_then (stmt flt 0 (insert_row (has_key ac_id accountID (accounts (au_db A))
            \<and> \<not> has_key tk_token_hash (al_sha256 L secret) (au_tickets A)) tk_id row (au_tickets A))) (\<lambda>t.
        Inr (\<lparr>st_Token = ticketID @ ''.'' @ secret, st_ExpiresAt = expiresAt\<rparr>, A\<lparr>au_tickets := t\<rparr>))))))"

definition ConsumeStreamTicket :: "auth_lib \<Rightarrow> faults \<Rightarrow> int \<Rightarrow> auth_db \<Rightarrow> string \<Rightarrow> string result \<times> auth_db" where
  "ConsumeStreamTicket L flt now A token =
     (case splitCredential token of
        None \<Rightarrow> (Inl ErrInvalidCredential, A)
      | Some (i, secret) \<Rightarrow> transact A (
          and_then (stmt flt 0 (Inr ())) (\<lambda>_.
          case stmt flt 1 (select_one (\<lambda>t. tk_id t = i) (au_tickets A)) of
            Inl e \<Rightarrow> Inl (if e = ErrNoRows then ErrInvalidCredential else e)
          | Inr t \<Rightarrow>
              if tk_token_hash t \<noteq> al_sha256 L secret then Inl ErrInvalidCredential
              else if tk_consumed_at t \<noteq> None then Inl ErrAuthorizationConsumed
              else if \<not> now < tk_expires_at t then Inl ErrAuthorizationExpired
              else and_then (stmt flt 2 (Inr (A\<lparr>au_tickets := update_rows (\<lambda>x. tk_id x = i)
                     (\<lambda>x. x\<lparr>tk_consumed_at := Some (micros now)\<rparr>) (au_tickets A)\<rparr>))) (\<lambda>A1.
                   stmt flt 3 (Inr (tk_account_id t, A1))))))"

section \<open>Wallet challenges and browser sessions\<close>

definition challenge_message :: "auth_lib \<Rightarrow> walletChallenge \<Rightarrow> string" where
  "challenge_message L c = concat
     [''Myference account login'', [CHR 0x0A], ''Domain: '', wc_Domain c, [CHR 0x0A], ''Origin: '', wc_Origin c, [CHR 0x0A],
      ''Address: '', wc_Address c, [CHR 0x0A], ''Chain ID: '', decimal (wc_ChainID c), [CHR 0x0A], ''Nonce: '', wc_Nonce c,
      [CHR 0x0A], ''Issued At: '', al_formatTime L (wc_IssuedAt c), [CHR 0x0A], ''Expiration Time: '',
      al_formatTime L (wc_ExpiresAt c)]"

definition CreateWalletChallenge ::
  "eth \<Rightarrow> auth_lib \<Rightarrow> random_source \<Rightarrow> faults \<Rightarrow> int \<Rightarrow> auth_db \<Rightarrow> string \<Rightarrow> string \<Rightarrow> string \<Rightarrow> u64 \<Rightarrow> int
   \<Rightarrow> walletChallenge result \<times> auth_db" where
  "CreateWalletChallenge G L rnd flt now A domain origin address chainID lifetime =
     (if domain = [] \<or> origin = [] \<or> \<not> eth_IsHexAddress G address \<or> chainID = 0 \<or> lifetime \<le> 0
      then (Inl (ErrText ''domain, origin, wallet, chain, and positive lifetime are required''), A)
      else transact A (
     and_then (auth_randomID rnd 0 ''challenge'') (\<lambda>challengeID.
     and_then (randomToken rnd 1 18) (\<lambda>nonce.
     let c = \<lparr>wc_ID = challengeID, wc_Address = eth_AddressHex G (eth_HexToAddress G address), wc_Nonce = nonce,
           wc_Message = [], wc_ChainID = chainID, wc_IssuedAt = micros now, wc_ExpiresAt = micros now + lifetime,
           wc_Origin = origin, wc_Domain = domain\<rparr>;
         c' = c\<lparr>wc_Message := challenge_message L c\<rparr>
     in and_then (stmt flt 0 (and_then (int8_arg chainID) (\<lambda>chain.
          insert_row (0 < chain \<and> \<not> has_key wl_nonce nonce (au_challenges A) \<and> micros (wc_IssuedAt c') < micros (wc_ExpiresAt c'))
            wl_id \<lparr>wl_id = challengeID, wl_wallet_address = wc_Address c', wl_domain = domain, wl_origin = origin,
              wl_chain_id = chain, wl_nonce = nonce, wl_message = wc_Message c', wl_issued_at = micros (wc_IssuedAt c'),
              wl_expires_at = micros (wc_ExpiresAt c'), wl_consumed_at = None\<rparr> (au_challenges A)))) (\<lambda>t.
        Inr (c', A\<lparr>au_challenges := t\<rparr>))))))"

definition validPersonalSignature :: "eth \<Rightarrow> auth_lib \<Rightarrow> string \<Rightarrow> string \<Rightarrow> string \<Rightarrow> bool" where
  "validPersonalSignature G L address message encoded =
     (case hex_DecodeString (trim_prefix ''0x'' encoded) of
        None \<Rightarrow> False
      | Some raw \<Rightarrow>
          if length raw \<noteq> 65 then False
          else (let raw' = (if raw ! 64 \<ge> 27 then raw[64 := raw ! 64 - 27] else raw)
                in case al_sigToAddress L message raw' of
                     Inl _ \<Rightarrow> False
                   | Inr signer \<Rightarrow> equal_fold (eth_AddressHex G signer) address))"

text \<open>The account of a wallet, created at the first login.\<close>

definition account_of_wallet :: "random_source \<Rightarrow> faults \<Rightarrow> string \<Rightarrow> db \<Rightarrow> (string \<times> db) result" where
  "account_of_wallet rnd flt address db =
     (case stmt flt 2 (select_one (\<lambda>a. to_lower (ac_wallet_address a) = to_lower address) (accounts db)) of
        Inr a \<Rightarrow> Inr (ac_id a, db)
      | Inl e \<Rightarrow>
          if e \<noteq> ErrNoRows then Inl e
          else and_then (auth_randomID rnd 0 ''acct'') (\<lambda>accountID.
               and_then (stmt flt 3 (insert_account \<lparr>ac_id = accountID, ac_wallet_address = address\<rparr> db)) (\<lambda>db'.
               Inr (accountID, db'))))"

definition VerifyWalletChallenge ::
  "eth \<Rightarrow> auth_lib \<Rightarrow> random_source \<Rightarrow> faults \<Rightarrow> int \<Rightarrow> auth_db \<Rightarrow> string \<Rightarrow> string \<Rightarrow> string \<Rightarrow> int
   \<Rightarrow> browserSession result \<times> auth_db" where
  "VerifyWalletChallenge G L rnd flt now A challengeID origin signature sessionLifetime =
     (if sessionLifetime \<le> 0 then (Inl (ErrText ''positive session lifetime is required''), A)
      else transact A (
     and_then (stmt flt 0 (Inr ())) (\<lambda>_.
     case stmt flt 1 (select_one (\<lambda>c. wl_id c = challengeID) (au_challenges A)) of
       Inl e \<Rightarrow> Inl (if e = ErrNoRows then ErrInvalidCredential else e)
     | Inr c \<Rightarrow>
         reject_if (wl_origin c \<noteq> origin) ErrOriginDenied (
         reject_if (wl_consumed_at c \<noteq> None) ErrAuthorizationConsumed (
         reject_if (\<not> now < wl_expires_at c) ErrAuthorizationExpired (
         reject_if (\<not> validPersonalSignature G L (wl_wallet_address c) (wl_message c) signature) ErrInvalidCredential (
         and_then (account_of_wallet rnd flt (wl_wallet_address c) (au_db A)) (\<lambda>(accountID, db1).
         and_then (auth_randomID rnd 1 ''session'') (\<lambda>sessionID.
         and_then (randomToken rnd 2 32) (\<lambda>secret.
         let expiresAt = micros now + sessionLifetime;
             row = \<lparr>br_id = sessionID, br_account_id = accountID, br_token_hash = al_sha256 L secret,
               br_expires_at = micros expiresAt, br_revoked_at = None\<rparr>
         in and_then (stmt flt 4 (insert_row (has_key ac_id accountID (accounts db1)
                \<and> \<not> has_key br_token_hash (al_sha256 L secret) (au_browsers A)) br_id row (au_browsers A))) (\<lambda>bs.
            and_then (stmt flt 5 (Inr (A\<lparr>au_db := db1, au_browsers := bs,
                au_challenges := update_rows (\<lambda>x. wl_id x = challengeID) (\<lambda>x. x\<lparr>wl_consumed_at := Some (micros now)\<rparr>)
                  (au_challenges A)\<rparr>))) (\<lambda>A1.
            stmt flt 6 (Inr (\<lparr>bw_ID = sessionID, bw_Token = sessionID @ ''.'' @ secret, bw_AccountID = accountID,
              bw_WalletAddress = wl_wallet_address c, bw_ExpiresAt = expiresAt\<rparr>, A1))))))))))))))"

definition AuthenticateBrowserSession :: "auth_lib \<Rightarrow> faults \<Rightarrow> int \<Rightarrow> auth_db \<Rightarrow> string \<Rightarrow> browserSession result" where
  "AuthenticateBrowserSession L flt now A token =
     (case splitCredential token of
        None \<Rightarrow> Inl ErrInvalidCredential
      | Some (i, secret) \<Rightarrow>
          (case stmt flt 0 (and_then (select_one (\<lambda>b. br_id b = i \<and> br_revoked_at b = None \<and> br_expires_at b > now)
                    (au_browsers A)) (\<lambda>b.
                  and_then (select_one (\<lambda>a. ac_id a = br_account_id b) (accounts (au_db A))) (\<lambda>a. Inr (b, a)))) of
             Inl _ \<Rightarrow> Inl ErrInvalidCredential
           | Inr (b, a) \<Rightarrow>
               if br_token_hash b \<noteq> al_sha256 L secret then Inl ErrInvalidCredential
               else Inr \<lparr>bw_ID = br_id b, bw_Token = [], bw_AccountID = br_account_id b,
                      bw_WalletAddress = ac_wallet_address a, bw_ExpiresAt = br_expires_at b\<rparr>))"

definition RevokeBrowserSession :: "faults \<Rightarrow> int \<Rightarrow> auth_db \<Rightarrow> string \<Rightarrow> unit result \<times> auth_db" where
  "RevokeBrowserSession flt now A sessionID =
     (let P = (\<lambda>b. br_id b = sessionID \<and> br_revoked_at b = None)
      in case stmt flt 0 (Inr (count_rows P (au_browsers A))) of
           Inl e \<Rightarrow> (Inl e, A)
         | Inr changed \<Rightarrow>
             (if changed \<noteq> 1 then Inl ErrInvalidCredential else Inr (),
              A\<lparr>au_browsers := update_rows P (\<lambda>b. b\<lparr>br_revoked_at := Some (micros now)\<rparr>) (au_browsers A)\<rparr>))"

definition PendingDevice :: "auth_lib \<Rightarrow> faults \<Rightarrow> int \<Rightarrow> auth_db \<Rightarrow> string \<Rightarrow> pendingDevice result" where
  "PendingDevice L flt now A userCode =
     (case stmt flt 0 (and_then (select_one (\<lambda>d. dv_user_code_hash d = al_sha256 L (to_upper userCode)) (au_devices A)) (\<lambda>d.
             and_then (scan_text (dv_signer_address d)) (\<lambda>signer. Inr (d, signer)))) of
        Inl e \<Rightarrow> Inl (if e = ErrNoRows then ErrInvalidCredential else e)
      | Inr (d, signer) \<Rightarrow>
          if \<not> now < dv_expires_at d then Inl ErrAuthorizationExpired
          else if dv_approved_at d \<noteq> None \<or> dv_exchanged_at d \<noteq> None then Inl ErrAuthorizationConsumed
          else Inr \<lparr>pd_MachineName = dv_machine_name d, pd_SignerAddress = signer, pd_ExpiresAt = dv_expires_at d\<rparr>)"

end
