(* ===== verification/AuthInv.thy ===== *)
theory AuthInv
  imports Auth
begin

text \<open>
  Properties of the authentication service over arbitrary sequences of its operations, with any random
  bytes, times and database faults, and with any change of the store's tables in between. The locale
  \<open>single_use\<close> is the contract of a credential that can be redeemed once; device codes, stream tickets
  and wallet challenges are instances of it.
\<close>

section \<open>Operations\<close>

datatype auth_op =
    OpCreateDevice random_source faults int string string int
  | OpApprove faults int string string
  | OpExchange random_source faults int string
  | OpRevokeMachine faults int string
  | OpCreateKey random_source faults int string apiKeyScope
  | OpRevokeKey faults int string
  | OpCreateTicket random_source faults int string int
  | OpConsumeTicket faults int string
  | OpCreateChallenge random_source faults int string string string u64 int
  | OpVerifyChallenge random_source faults int string string string int
  | OpRevokeBrowser faults int string
  | OpStore db

fun auth_exec :: "eth \<Rightarrow> auth_lib \<Rightarrow> auth_op \<Rightarrow> auth_db \<Rightarrow> auth_db" where
  "auth_exec G L (OpCreateDevice rnd flt now n s l) A = snd (CreateDeviceAuthorization G L rnd flt now A n s l)"
| "auth_exec G L (OpApprove flt now u a) A = snd (ApproveDeviceAuthorization L flt now A u a)"
| "auth_exec G L (OpExchange rnd flt now c) A = snd (ExchangeDeviceAuthorization L rnd flt now A c)"
| "auth_exec G L (OpRevokeMachine flt now m) A = snd (RevokeMachine flt now A m)"
| "auth_exec G L (OpCreateKey rnd flt now a sc) A = snd (CreateAPIKey L rnd flt now A a sc)"
| "auth_exec G L (OpRevokeKey flt now k) A = snd (RevokeAPIKey flt now A k)"
| "auth_exec G L (OpCreateTicket rnd flt now a l) A = snd (CreateStreamTicket L rnd flt now A a l)"
| "auth_exec G L (OpConsumeTicket flt now t) A = snd (ConsumeStreamTicket L flt now A t)"
| "auth_exec G L (OpCreateChallenge rnd flt now d og a c l) A = snd (CreateWalletChallenge G L rnd flt now A d og a c l)"
| "auth_exec G L (OpVerifyChallenge rnd flt now c og sg l) A = snd (VerifyWalletChallenge G L rnd flt now A c og sg l)"
| "auth_exec G L (OpRevokeBrowser flt now b) A = snd (RevokeBrowserSession flt now A b)"
| "auth_exec G L (OpStore db) A = A\<lparr>au_db := db\<rparr>"

definition auth_run :: "eth \<Rightarrow> auth_lib \<Rightarrow> auth_op list \<Rightarrow> auth_db \<Rightarrow> auth_db" where
  "auth_run G L ops A = fold (auth_exec G L) ops A"

section \<open>Credentials that are redeemed once\<close>

locale single_use =
  fixes exec :: "'op \<Rightarrow> 'd \<Rightarrow> 'd"
    and redeem :: "'op \<Rightarrow> 'd \<Rightarrow> 'c option"
    and used :: "'d \<Rightarrow> 'c \<Rightarrow> bool"
  assumes redeem_fresh: "redeem op d = Some c \<Longrightarrow> \<not> used d c"
    and redeem_marks: "redeem op d = Some c \<Longrightarrow> used (exec op d) c"
    and used_stays: "used d c \<Longrightarrow> used (exec op d) c"
begin

text \<open>The credentials redeemed by a sequence of operations, in order.\<close>

fun redeemed :: "'op list \<Rightarrow> 'd \<Rightarrow> 'c list" where
  "redeemed [] d = []"
| "redeemed (op # ops) d = (case redeem op d of None \<Rightarrow> [] | Some c \<Rightarrow> [c]) @ redeemed ops (exec op d)"

lemma used_not_redeemed: "used d c \<Longrightarrow> c \<notin> set (redeemed ops d)"
proof (induction ops arbitrary: d)
  case (Cons op ops)
  then show ?case using redeem_fresh used_stays by (auto split: option.splits)
qed simp

lemma redeemed_distinct: "distinct (redeemed ops d)"
proof (induction ops arbitrary: d)
  case (Cons op ops)
  then show ?case using used_not_redeemed redeem_marks by (auto split: option.splits)
qed simp

end

text \<open>
  A table evolves when rows are appended and changed in place, keep their key and, once marked, stay marked.
\<close>

definition evolves :: "('r \<Rightarrow> 'k) \<Rightarrow> ('r \<Rightarrow> bool) \<Rightarrow> 'r list \<Rightarrow> 'r list \<Rightarrow> bool" where
  "evolves key mark t t' \<longleftrightarrow> (\<exists>f ext. t' = map f t @ ext \<and> (\<forall>r. key (f r) = key r \<and> (mark r \<longrightarrow> mark (f r))))"

definition marked :: "('r \<Rightarrow> 'k) \<Rightarrow> ('r \<Rightarrow> bool) \<Rightarrow> 'r list \<Rightarrow> 'k \<Rightarrow> bool" where
  "marked key mark t c = (case find (\<lambda>r. key r = c) t of None \<Rightarrow> False | Some r \<Rightarrow> mark r)"

lemma evolves_refl [simp]: "evolves key mark t t"
  unfolding evolves_def by (rule exI [of _ "\<lambda>r. r"], rule exI [of _ "[]"]) simp

lemma evolves_append [simp]: "evolves key mark t (t @ ext)"
  unfolding evolves_def by (rule exI [of _ "\<lambda>r. r"]) simp

lemma evolves_update [simp]:
  assumes "\<And>r. key (f r) = key r" "\<And>r. mark r \<Longrightarrow> mark (f r)"
  shows "evolves key mark t (update_rows P f t)"
  unfolding evolves_def update_rows_def
  using assms by (intro exI [of _ "\<lambda>r. if P r then f r else r"] exI [of _ "[]"]) simp

lemma find_map_key: "(\<And>r. key (f r) = key r) \<Longrightarrow> find (\<lambda>r. key r = c) (map f t) = map_option f (find (\<lambda>r. key r = c) t)"
  by (induction t) auto

lemma find_append: "find P (xs @ ys) = (case find P xs of None \<Rightarrow> find P ys | Some x \<Rightarrow> Some x)"
  by (induction xs) auto

lemma evolves_marked:
  assumes "evolves key mark t t'" "marked key mark t c"
  shows "marked key mark t' c"
proof -
  obtain f ext where f: "t' = map f t @ ext" "\<And>r. key (f r) = key r" "\<And>r. mark r \<Longrightarrow> mark (f r)"
    using assms(1) by (auto simp: evolves_def)
  obtain r where "find (\<lambda>r. key r = c) t = Some r" "mark r"
    using assms(2) by (auto simp: marked_def split: option.splits)
  then show ?thesis using f(3) by (simp add: marked_def f(1) find_append find_map_key [of key f, OF f(2)])
qed

lemma marked_update:
  assumes "select_one (\<lambda>r. key r = c) t = Inr r" "\<And>r. key (f r) = key r" "\<And>r. mark (f r)"
  shows "marked key mark (update_rows (\<lambda>r. key r = c) f t) c"
proof -
  have "find (\<lambda>r. key r = c) t = Some r" "key r = c"
    using assms(1) select_one_Inr [OF assms(1)] by (auto simp: select_one_def split: option.splits)
  moreover have "find (\<lambda>r. key r = c) (update_rows (\<lambda>r. key r = c) f t)
      = map_option (\<lambda>r. if key r = c then f r else r) (find (\<lambda>r. key r = c) t)"
    unfolding update_rows_def by (rule find_map_key) (simp add: assms(2))
  ultimately show ?thesis using assms(3) by (simp add: marked_def)
qed

lemma select_one_unmarked: "select_one (\<lambda>r. key r = c) t = Inr r \<Longrightarrow> \<not> mark r \<Longrightarrow> \<not> marked key mark t c"
  by (auto simp: select_one_def marked_def split: option.splits)

section \<open>What the operations do to the tables\<close>

lemmas auth_defs = CreateDeviceAuthorization_def ApproveDeviceAuthorization_def RevokeMachine_def
  CreateAPIKey_def RevokeAPIKey_def CreateStreamTicket_def ConsumeStreamTicket_def CreateWalletChallenge_def
  RevokeBrowserSession_def

lemma insert_row_ok: "insert_row ok key r tbl = Inr t \<longleftrightarrow> ok \<and> \<not> has_key key (key r) tbl \<and> t = tbl @ [r]"
  by (auto simp: insert_row_def)

lemma snd_transact: "snd (transact d r) = (case r of Inl e \<Rightarrow> d | Inr x \<Rightarrow> snd x)"
  by (auto simp: transact_def split: sum.splits prod.splits)

lemma transact_fst: "fst (transact d r) = (case r of Inl e \<Rightarrow> Inl e | Inr x \<Rightarrow> Inr (fst x))"
  by (auto simp: transact_def split: sum.splits prod.splits)

text \<open>The two transactions with many statements, when they commit.\<close>

lemma Exchange_ok:
  assumes "ExchangeDeviceAuthorization L rnd flt now A code = (Inr y, A')"
  shows "\<exists>d. select_one (\<lambda>d. dv_device_code_hash d = al_sha256 L code) (au_devices A) = Inr d \<and> dv_exchanged_at d = None"
    "au_devices A' = update_rows (\<lambda>x. dv_device_code_hash x = al_sha256 L code)
       (\<lambda>x. x\<lparr>dv_exchanged_at := Some (micros now)\<rparr>) (au_devices A)"
    "au_keys A' = au_keys A" "au_tickets A' = au_tickets A" "au_challenges A' = au_challenges A"
  using assms
  by (auto simp: ExchangeDeviceAuthorization_def transact_ok upsert_token_def split: if_splits option.splits)

lemma Verify_ok:
  assumes "VerifyWalletChallenge G L rnd flt now A i og sg l = (Inr y, A')"
  shows "\<exists>c. select_one (\<lambda>c. wl_id c = i) (au_challenges A) = Inr c \<and> wl_consumed_at c = None"
    "au_challenges A' = update_rows (\<lambda>x. wl_id x = i) (\<lambda>x. x\<lparr>wl_consumed_at := Some (micros now)\<rparr>) (au_challenges A)"
    "au_keys A' = au_keys A" "au_tickets A' = au_tickets A" "au_devices A' = au_devices A"
  using assms
  by (auto simp: VerifyWalletChallenge_def transact_ok Let_def split: if_splits)

lemma Exchange_error: "ExchangeDeviceAuthorization L rnd flt now A code = (Inl e, A') \<Longrightarrow> A' = A"
  by (simp add: ExchangeDeviceAuthorization_def transact_error)

lemma Verify_error: "VerifyWalletChallenge G L rnd flt now A i og sg l = (Inl e, A') \<Longrightarrow> A' = A"
  by (simp add: VerifyWalletChallenge_def transact_error split: if_splits)

lemma Consume_ok:
  assumes "ConsumeStreamTicket L flt now A token = (Inr y, A')"
  shows "\<exists>i secret t. splitCredential token = Some (i, secret) \<and> select_one (\<lambda>t. tk_id t = i) (au_tickets A) = Inr t
    \<and> tk_consumed_at t = None \<and> A' = A\<lparr>au_tickets := update_rows (\<lambda>x. tk_id x = i)
        (\<lambda>x. x\<lparr>tk_consumed_at := Some (micros now)\<rparr>) (au_tickets A)\<rparr>"
  using assms by (auto simp: ConsumeStreamTicket_def transact_ok split: option.splits if_splits prod.splits)

lemma Consume_error: "ConsumeStreamTicket L flt now A token = (Inl e, A') \<Longrightarrow> A' = A"
  by (auto simp: ConsumeStreamTicket_def transact_error split: option.splits prod.splits)


section \<open>How the tables evolve\<close>

lemma devices_evolve:
  "evolves dv_device_code_hash (\<lambda>d. dv_exchanged_at d \<noteq> None) (au_devices A) (au_devices (auth_exec G L op A))"
proof (cases op)
  case (OpExchange rnd flt now code)
  obtain r A' where run: "ExchangeDeviceAuthorization L rnd flt now A code = (r, A')" by fastforce
  then show ?thesis using Exchange_ok(2) Exchange_error by (cases r) (fastforce simp: OpExchange)+
next
  case (OpVerifyChallenge rnd flt now i og sg l)
  obtain r A' where run: "VerifyWalletChallenge G L rnd flt now A i og sg l = (r, A')" by fastforce
  then show ?thesis using Verify_ok(5) Verify_error by (cases r) (fastforce simp: OpVerifyChallenge)+
qed (auto simp: auth_defs snd_transact Let_def insert_row_ok split: if_splits sum.splits option.splits prod.splits)

lemma tickets_evolve:
  "evolves tk_id (\<lambda>t. tk_consumed_at t \<noteq> None) (au_tickets A) (au_tickets (auth_exec G L op A))"
proof (cases op)
  case (OpExchange rnd flt now code)
  obtain r A' where run: "ExchangeDeviceAuthorization L rnd flt now A code = (r, A')" by fastforce
  then show ?thesis using Exchange_ok(4) Exchange_error by (cases r) (fastforce simp: OpExchange)+
next
  case (OpVerifyChallenge rnd flt now i og sg l)
  obtain r A' where run: "VerifyWalletChallenge G L rnd flt now A i og sg l = (r, A')" by fastforce
  then show ?thesis using Verify_ok(4) Verify_error by (cases r) (fastforce simp: OpVerifyChallenge)+
qed (auto simp: auth_defs snd_transact Let_def insert_row_ok split: if_splits sum.splits option.splits prod.splits)

lemma challenges_evolve:
  "evolves wl_id (\<lambda>c. wl_consumed_at c \<noteq> None) (au_challenges A) (au_challenges (auth_exec G L op A))"
proof (cases op)
  case (OpExchange rnd flt now code)
  obtain r A' where run: "ExchangeDeviceAuthorization L rnd flt now A code = (r, A')" by fastforce
  then show ?thesis using Exchange_ok(5) Exchange_error by (cases r) (fastforce simp: OpExchange)+
next
  case (OpVerifyChallenge rnd flt now i og sg l)
  obtain r A' where run: "VerifyWalletChallenge G L rnd flt now A i og sg l = (r, A')" by fastforce
  then show ?thesis using Verify_ok(2) Verify_error by (cases r) (fastforce simp: OpVerifyChallenge)+
qed (auto simp: auth_defs snd_transact Let_def insert_row_ok split: if_splits sum.splits option.splits prod.splits)

text \<open>The keys change only when one is created or revoked.\<close>

lemma keys_after:
  "au_keys (auth_exec G L op A) = au_keys A
   \<or> (\<exists>row. \<not> has_key ak_id (ak_id row) (au_keys A) \<and> au_keys (auth_exec G L op A) = au_keys A @ [row])
   \<or> (\<exists>flt now i. op = OpRevokeKey flt now i
        \<and> au_keys (auth_exec G L op A) = update_rows (\<lambda>k. ak_id k = i) (\<lambda>k. k\<lparr>ak_revoked_at := Some (micros now)\<rparr>) (au_keys A))"
proof (cases op)
  case (OpExchange rnd flt now code)
  obtain r A' where run: "ExchangeDeviceAuthorization L rnd flt now A code = (r, A')" by fastforce
  then show ?thesis using Exchange_ok(3) Exchange_error by (cases r) (fastforce simp: OpExchange)+
next
  case (OpVerifyChallenge rnd flt now i og sg l)
  obtain r A' where run: "VerifyWalletChallenge G L rnd flt now A i og sg l = (r, A')" by fastforce
  then show ?thesis using Verify_ok(3) Verify_error by (cases r) (fastforce simp: OpVerifyChallenge)+
qed (auto simp: auth_defs snd_transact Let_def insert_row_ok split: if_splits sum.splits option.splits prod.splits)

section \<open>Device codes, tickets and challenges\<close>

fun redeem_device :: "auth_lib \<Rightarrow> auth_op \<Rightarrow> auth_db \<Rightarrow> bytes option" where
  "redeem_device L (OpExchange rnd flt now code) A =
     (if is_ok (fst (ExchangeDeviceAuthorization L rnd flt now A code)) then Some (al_sha256 L code) else None)"
| "redeem_device L _ A = None"

fun redeem_ticket :: "auth_lib \<Rightarrow> auth_op \<Rightarrow> auth_db \<Rightarrow> string option" where
  "redeem_ticket L (OpConsumeTicket flt now token) A =
     (if is_ok (fst (ConsumeStreamTicket L flt now A token)) then map_option fst (splitCredential token) else None)"
| "redeem_ticket L _ A = None"

fun redeem_challenge :: "eth \<Rightarrow> auth_lib \<Rightarrow> auth_op \<Rightarrow> auth_db \<Rightarrow> string option" where
  "redeem_challenge G L (OpVerifyChallenge rnd flt now i og sg l) A =
     (if is_ok (fst (VerifyWalletChallenge G L rnd flt now A i og sg l)) then Some i else None)"
| "redeem_challenge G L _ A = None"

lemma redeem_device_ok:
  assumes "redeem_device L op A = Some c"
  shows "\<not> marked dv_device_code_hash (\<lambda>d. dv_exchanged_at d \<noteq> None) (au_devices A) c
    \<and> marked dv_device_code_hash (\<lambda>d. dv_exchanged_at d \<noteq> None) (au_devices (auth_exec G L op A)) c"
proof -
  obtain rnd flt now code y where op: "op = OpExchange rnd flt now code" "c = al_sha256 L code"
      "fst (ExchangeDeviceAuthorization L rnd flt now A code) = Inr y"
    using assms by (cases op) (auto simp: is_ok_iff split: if_splits)
  then obtain A' where run: "ExchangeDeviceAuthorization L rnd flt now A code = (Inr y, A')" by (metis prod.collapse)
  obtain d where d: "select_one (\<lambda>d. dv_device_code_hash d = c) (au_devices A) = Inr d" "dv_exchanged_at d = None"
    using Exchange_ok(1) [OF run] op(2) by blast
  then show ?thesis
    using Exchange_ok(2) [OF run] op(2)
    by (auto simp: op(1) run intro!: marked_update dest: select_one_unmarked [where mark = "\<lambda>d. dv_exchanged_at d \<noteq> None"])
qed

lemma redeem_ticket_ok:
  assumes "redeem_ticket L op A = Some c"
  shows "\<not> marked tk_id (\<lambda>t. tk_consumed_at t \<noteq> None) (au_tickets A) c
    \<and> marked tk_id (\<lambda>t. tk_consumed_at t \<noteq> None) (au_tickets (auth_exec G L op A)) c"
proof -
  obtain flt now token y where op: "op = OpConsumeTicket flt now token" "Some c = map_option fst (splitCredential token)"
      "fst (ConsumeStreamTicket L flt now A token) = Inr y"
    using assms by (cases op) (auto simp: is_ok_iff split: if_splits)
  then obtain A' where run: "ConsumeStreamTicket L flt now A token = (Inr y, A')" by (metis prod.collapse)
  from Consume_ok [OF run] op(2) obtain t where t: "select_one (\<lambda>t. tk_id t = c) (au_tickets A) = Inr t" "tk_consumed_at t = None"
      "A' = A\<lparr>au_tickets := update_rows (\<lambda>x. tk_id x = c) (\<lambda>x. x\<lparr>tk_consumed_at := Some (micros now)\<rparr>) (au_tickets A)\<rparr>"
    by auto
  then show ?thesis
    by (auto simp: op(1) run intro!: marked_update dest: select_one_unmarked [where mark = "\<lambda>t. tk_consumed_at t \<noteq> None"])
qed

lemma redeem_challenge_ok:
  assumes "redeem_challenge G L op A = Some c"
  shows "\<not> marked wl_id (\<lambda>w. wl_consumed_at w \<noteq> None) (au_challenges A) c
    \<and> marked wl_id (\<lambda>w. wl_consumed_at w \<noteq> None) (au_challenges (auth_exec G L op A)) c"
proof -
  obtain rnd flt now og sg l y where op: "op = OpVerifyChallenge rnd flt now c og sg l"
      "fst (VerifyWalletChallenge G L rnd flt now A c og sg l) = Inr y"
    using assms by (cases op) (auto simp: is_ok_iff split: if_splits)
  then obtain A' where run: "VerifyWalletChallenge G L rnd flt now A c og sg l = (Inr y, A')" by (metis prod.collapse)
  obtain w where w: "select_one (\<lambda>w. wl_id w = c) (au_challenges A) = Inr w" "wl_consumed_at w = None"
    using Verify_ok(1) [OF run] by blast
  then show ?thesis
    using Verify_ok(2) [OF run]
    by (auto simp: op(1) run intro!: marked_update dest: select_one_unmarked [where mark = "\<lambda>w. wl_consumed_at w \<noteq> None"])
qed

interpretation device_codes: single_use "auth_exec G L" "redeem_device L"
  "\<lambda>A. marked dv_device_code_hash (\<lambda>d. dv_exchanged_at d \<noteq> None) (au_devices A)" for G L
  using redeem_device_ok evolves_marked [OF devices_evolve] by unfold_locales blast+

interpretation tickets: single_use "auth_exec G L" "redeem_ticket L"
  "\<lambda>A. marked tk_id (\<lambda>t. tk_consumed_at t \<noteq> None) (au_tickets A)" for G L
  using redeem_ticket_ok evolves_marked [OF tickets_evolve] by unfold_locales blast+

interpretation challenges: single_use "auth_exec G L" "redeem_challenge G L"
  "\<lambda>A. marked wl_id (\<lambda>w. wl_consumed_at w \<noteq> None) (au_challenges A)" for G L
  using redeem_challenge_ok evolves_marked [OF challenges_evolve] by unfold_locales blast+

text \<open>The credentials redeemed by a sequence of operations.\<close>

fun redeemed_by :: "(auth_op \<Rightarrow> auth_db \<Rightarrow> 'c option) \<Rightarrow> eth \<Rightarrow> auth_lib \<Rightarrow> auth_op list \<Rightarrow> auth_db \<Rightarrow> 'c list" where
  "redeemed_by redeem G L [] A = []"
| "redeemed_by redeem G L (op # ops) A =
     (case redeem op A of None \<Rightarrow> [] | Some c \<Rightarrow> [c]) @ redeemed_by redeem G L ops (auth_exec G L op A)"

lemma redeemed_by_eq:
  "redeemed_by (redeem_device L) G L ops A = device_codes.redeemed G L ops A"
  "redeemed_by (redeem_ticket L) G L ops A = tickets.redeemed G L ops A"
  "redeemed_by (redeem_challenge G L) G L ops A = challenges.redeemed G L ops A"
  by (induction ops arbitrary: A) (simp_all split: option.split)

text \<open>C13: A credential that can be redeemed once is redeemed at most once, whatever operations come in between,
  with any random bytes, clock readings and database faults: a device code is exchanged for a machine token at
  most once, a stream ticket opens at most one stream, and a wallet challenge starts at most one session.\<close>

theorem credentials_redeemed_once:
  "distinct (redeemed_by (redeem_device L) G L ops A) \<and> distinct (redeemed_by (redeem_ticket L) G L ops A)
   \<and> distinct (redeemed_by (redeem_challenge G L) G L ops A)"
  unfolding redeemed_by_eq
  using device_codes.redeemed_distinct tickets.redeemed_distinct challenges.redeemed_distinct by blast

section \<open>API keys\<close>

lemma url_char_no_dot: "url_char n \<noteq> CHR ''.''"
proof -
  have "char_of m \<noteq> CHR ''.''" if "m < 256" "m \<noteq> 46" for m :: nat
  proof
    assume "char_of m = CHR ''.''"
    then have "of_char (char_of m :: char) = (46 :: nat)" by simp
    with that show False by simp
  qed
  then show ?thesis by (auto simp: url_char_def)
qed

lemma raw_url_no_dot: "CHR ''.'' \<notin> set (raw_url_encode b)"
  using url_char_no_dot by (induction b rule: raw_url_encode.induct) (auto dest: sym)

lemma raw_url_nonempty: "b \<noteq> [] \<Longrightarrow> raw_url_encode b \<noteq> []"
  by (cases b rule: raw_url_encode.cases) auto

lemma splitCredential_join:
  assumes "CHR ''.'' \<notin> set i" "i \<noteq> []" "s \<noteq> []"
  shows "splitCredential (i @ CHR ''.'' # s) = Some (i, s)"
proof -
  have "takeWhile (\<lambda>c. c \<noteq> CHR ''.'') (i @ CHR ''.'' # s) = i"
    using assms(1) by (induction i) auto
  then show ?thesis using assms by (simp add: splitCredential_def)
qed

lemma auth_randomID_no_dot:
  "auth_randomID rnd k pre = Inr i \<Longrightarrow> CHR ''.'' \<notin> set pre \<Longrightarrow> CHR ''.'' \<notin> set i \<and> i \<noteq> []"
  using raw_url_no_dot by (auto simp: auth_randomID_def randomToken_def)

text \<open>The live row of a key, and what keeps it.\<close>

definition live_key :: "auth_db \<Rightarrow> string \<Rightarrow> key_row option" where
  "live_key A i = find (\<lambda>k. ak_id k = i \<and> ak_revoked_at k = None) (au_keys A)"

lemma find_update_other:
  "(\<And>r. P r \<Longrightarrow> \<not> Q r) \<Longrightarrow> (\<And>r. Q r \<Longrightarrow> \<not> P (f r)) \<Longrightarrow> find P (update_rows Q f t) = find P t"
  by (induction t) (auto simp: update_rows_def)

lemma key_ids_update:
  "ak_id ` set (update_rows P (\<lambda>k. k\<lparr>ak_revoked_at := v\<rparr>) t) = ak_id ` set t"
proof -
  have "map ak_id (update_rows P (\<lambda>k. k\<lparr>ak_revoked_at := v\<rparr>) t) = map ak_id t" by (rule map_key_update_rows) simp
  then show ?thesis by (metis list.set_map)
qed

lemma live_key_kept:
  assumes "live_key A i = Some k" "\<forall>flt now. op \<noteq> OpRevokeKey flt now i"
  shows "live_key (auth_exec G L op A) i = Some k"
proof -
  have "find (\<lambda>k. ak_id k = i \<and> ak_revoked_at k = None) (update_rows (\<lambda>k. ak_id k = j) (\<lambda>k. k\<lparr>ak_revoked_at := v\<rparr>) t)
      = find (\<lambda>k. ak_id k = i \<and> ak_revoked_at k = None) t" if "j \<noteq> i" for j v and t :: "key_row list"
    using that by (intro find_update_other) auto
  then show ?thesis
    using keys_after [of G L op A] assms by (auto simp: live_key_def find_append)
qed

lemma live_key_run:
  assumes "live_key A i = Some k" "\<forall>flt now. OpRevokeKey flt now i \<notin> set ops"
  shows "live_key (auth_run G L ops A) i = Some k"
  using assms
proof (induction ops arbitrary: A)
  case (Cons op ops)
  have "live_key (auth_exec G L op A) i = Some k" using Cons.prems by (intro live_key_kept) auto
  from Cons.IH [OF this] Cons.prems(2) show ?case by (simp add: auth_run_def)
qed (simp add: auth_run_def)

lemma CreateAPIKey_ok:
  assumes "CreateAPIKey L rnd flt now A account scope = (Inr key, A')" "\<forall>k n b. rnd k n = Inr b \<longrightarrow> length b = n"
  shows "\<exists>secret k. splitCredential (ky_Token key) = Some (ky_ID key, secret) \<and> live_key A' (ky_ID key) = Some k
    \<and> ak_id k = ky_ID key \<and> ak_account_id k = account \<and> ak_key_hash k = al_sha256 L secret
    \<and> ak_scope_json k = al_marshalScope L scope"
proof -
  obtain keyID b where b: "auth_randomID rnd 0 ''key'' = Inr keyID" "rnd 1 32 = Inr b"
      "\<not> has_key ak_id keyID (au_keys A)" "key = \<lparr>ky_ID = keyID, ky_Token = keyID @ ''.'' @ raw_url_encode b\<rparr>"
      "au_keys A' = au_keys A @ [\<lparr>ak_id = keyID, ak_account_id = account, ak_key_hash = al_sha256 L (raw_url_encode b),
           ak_scope_json = al_marshalScope L scope, ak_revoked_at = None, ak_created_at = now\<rparr>]"
    using assms(1) by (auto simp: CreateAPIKey_def transact_ok Let_def randomToken_def insert_row_ok split: if_splits)
  have "b \<noteq> []" using assms(2) b(2) by fastforce
  then have "splitCredential (ky_Token key) = Some (keyID, raw_url_encode b)"
    using auth_randomID_no_dot [OF b(1)] raw_url_nonempty b(4) by (simp add: splitCredential_join)
  moreover have "find (\<lambda>k. ak_id k = keyID \<and> ak_revoked_at k = None) (au_keys A) = None"
    using b(3) by (auto simp: has_key_def find_None_iff list_ex_iff)
  ultimately show ?thesis using b(4,5) by (simp add: live_key_def find_append)
qed

lemma AuthorizeAPIKey_live:
  assumes "splitCredential token = Some (i, secret)"
  shows "AuthorizeAPIKey L no_faults A token model endpoint spend = (case live_key A i of
      None \<Rightarrow> Inl ErrInvalidCredential
    | Some k \<Rightarrow> if ak_key_hash k \<noteq> al_sha256 L secret then Inl ErrInvalidCredential
        else case al_unmarshalScope L (ak_scope_json k) of Inl _ \<Rightarrow> Inl (ErrText ''decode API key scope'')
        | Inr scope \<Rightarrow> if \<not> allowsModel (sc_Models scope) model \<or> \<not> auth_contains (sc_Endpoints scope) endpoint
              \<or> spend > sc_MaxSpendWei scope then Inl ErrScopeDenied
            else Inr \<lparr>kp_KeyID = ak_id k, kp_AccountID = ak_account_id k, kp_Scope = scope\<rparr>)"
  using assms by (simp add: AuthorizeAPIKey_def live_key_def select_one_def split: option.splits)

text \<open>C14: An API key works until it is revoked: after it is created, and whatever operations follow that do not
  revoke it, its token is accepted exactly for the models, endpoints and amounts of its scope, and then names the
  account it was created for. Random bytes have the length that is asked for, and a scope survives its JSON text.\<close>

theorem key_works_until_revoked:
  assumes "CreateAPIKey L rnd flt now A account scope = (Inr key, A')" "\<forall>k n b. rnd k n = Inr b \<longrightarrow> length b = n"
    "al_unmarshalScope L (al_marshalScope L scope) = Inr scope" "\<forall>flt now. OpRevokeKey flt now (ky_ID key) \<notin> set ops"
  shows "AuthorizeAPIKey L no_faults (auth_run G L ops A') (ky_Token key) model endpoint spend =
    (if allowsModel (sc_Models scope) model \<and> auth_contains (sc_Endpoints scope) endpoint \<and> spend \<le> sc_MaxSpendWei scope
     then Inr \<lparr>kp_KeyID = ky_ID key, kp_AccountID = account, kp_Scope = scope\<rparr> else Inl ErrScopeDenied)"
proof -
  obtain secret k where k: "splitCredential (ky_Token key) = Some (ky_ID key, secret)" "live_key A' (ky_ID key) = Some k"
      "ak_id k = ky_ID key" "ak_account_id k = account" "ak_key_hash k = al_sha256 L secret"
      "ak_scope_json k = al_marshalScope L scope"
    using CreateAPIKey_ok [OF assms(1,2)] by blast
  show ?thesis
    using live_key_run [OF k(2) assms(4), of G L] k(3-6) assms(3) by (auto simp: AuthorizeAPIKey_live [OF k(1)])
qed

text \<open>Once revoked, an identifier has no live row again.\<close>

definition dead_key :: "auth_db \<Rightarrow> string \<Rightarrow> bool" where
  "dead_key A i \<longleftrightarrow> has_key ak_id i (au_keys A) \<and> live_key A i = None"

lemma dead_key_run: "dead_key A i \<Longrightarrow> dead_key (auth_run G L ops A) i"
proof (induction ops arbitrary: A)
  case (Cons op ops)
  have "dead_key (auth_exec G L op A) i"
    using keys_after [of G L op A] Cons.prems
    by (auto simp: dead_key_def live_key_def find_append find_None_iff key_ids_update, auto simp: update_rows_def)
  from Cons.IH [OF this] show ?case by (simp add: auth_run_def)
qed (simp add: auth_run_def)

text \<open>A revoked API key is never accepted again: no later operation, the creation of other keys included, makes
  a token with its identifier valid.\<close>

lemma revoked_key_stays_dead:
  assumes "has_key ak_id i (au_keys A)" "RevokeAPIKey flt now A i = (Inr (), A')" "splitCredential token = Some (i, secret)"
  shows "AuthorizeAPIKey L flt' (auth_run G L ops A') token model endpoint spend = Inl ErrInvalidCredential"
proof -
  have "dead_key A' i"
    using assms(1,2)
    by (auto simp: RevokeAPIKey_def transact_ok dead_key_def live_key_def find_None_iff key_ids_update, auto simp: update_rows_def)
  from dead_key_run [OF this, of G L ops] show ?thesis
    by (simp add: AuthorizeAPIKey_def assms(3) dead_key_def live_key_def select_one_def stmt_def split: option.splits)
qed

section \<open>Examples\<close>

definition demo_scope :: apiKeyScope where
  "demo_scope = \<lparr>sc_Models = [], sc_Endpoints = [''/v1/messages''], sc_MaxSpendWei = 9\<rparr>"

definition demo_lib :: auth_lib where
  "demo_lib = \<lparr>al_sha256 = (\<lambda>s. map of_char s), al_marshalScope = (\<lambda>_. []), al_unmarshalScope = (\<lambda>_. Inr demo_scope),
     al_sigToAddress = (\<lambda>_ _. Inr 1), al_formatTime = (\<lambda>_. [])\<rparr>"

definition demo_random :: random_source where
  "demo_random k n = Inr (replicate n (of_nat k))"

definition demo_auth :: auth_db where
  "demo_auth = \<lparr>au_db = empty_db\<lparr>accounts := [\<lparr>ac_id = ''a'', ac_wallet_address = ''w''\<rparr>]\<rparr>, au_devices = [], au_tokens = [],
     au_keys = [], au_tickets = [], au_challenges = [], au_browsers = []\<rparr>"

definition demo_key :: "apiKey result \<times> auth_db" where
  "demo_key = CreateAPIKey demo_lib demo_random no_faults 1 demo_auth ''a'' demo_scope"

lemma demo_key_ok: "is_ok (fst demo_key) \<and> has_key ak_id ''key_AAAAAAAAAAAAAAAA'' (au_keys (snd demo_key))"
  by code_simp

theorem key_works_until_revoked_witness:
  "\<exists>key. fst demo_key = Inr key
    \<and> AuthorizeAPIKey demo_lib no_faults (auth_run toy_eth demo_lib [OpRevokeKey no_faults 2 ''k''] (snd demo_key)) (ky_Token key)
        ''m'' ''/v1/messages'' 9 = Inr \<lparr>kp_KeyID = ky_ID key, kp_AccountID = ''a'', kp_Scope = demo_scope\<rparr>
    \<and> AuthorizeAPIKey demo_lib no_faults (auth_run toy_eth demo_lib [OpRevokeKey no_faults 2 ''k''] (snd demo_key)) (ky_Token key)
        ''m'' ''/v1/messages'' 10 = Inl ErrScopeDenied"
proof -
  obtain key where key: "fst demo_key = Inr key" using demo_key_ok by (auto simp: is_ok_iff)
  have run: "CreateAPIKey demo_lib demo_random no_faults 1 demo_auth ''a'' demo_scope = (Inr key, snd demo_key)"
    using key unfolding demo_key_def by (metis prod.collapse)
  have "ky_ID key \<noteq> ''k''"
    using run by (auto simp: CreateAPIKey_def transact_ok Let_def auth_randomID_def split: if_splits)
  then have other: "\<forall>flt now. OpRevokeKey flt now (ky_ID key) \<notin> set [OpRevokeKey no_faults 2 ''k'']" by simp
  have lib: "\<forall>k n b. demo_random k n = Inr b \<longrightarrow> length b = n"
    "al_unmarshalScope demo_lib (al_marshalScope demo_lib demo_scope) = Inr demo_scope"
    by (auto simp: demo_random_def demo_lib_def)
  note works = key_works_until_revoked [OF run lib other, of toy_eth "''m''" "''/v1/messages''"]
  show ?thesis
    using key works [of 9] works [of 10] by (auto simp: demo_scope_def allowsModel_def auth_contains_def)
qed

lemma revoked_key_stays_dead_witness:
  "\<exists>A'. RevokeAPIKey no_faults 2 (snd demo_key) ''key_AAAAAAAAAAAAAAAA'' = (Inr (), A')
     \<and> AuthorizeAPIKey demo_lib no_faults (auth_run toy_eth demo_lib [OpCreateKey demo_random no_faults 3 ''a'' demo_scope] A')
         ''key_AAAAAAAAAAAAAAAA.x'' ''m'' ''/v1/messages'' 9 = Inl ErrInvalidCredential"
proof -
  let ?i = "''key_AAAAAAAAAAAAAAAA''"
  have run: "RevokeAPIKey no_faults 2 (snd demo_key) ?i = (Inr (), snd (RevokeAPIKey no_faults 2 (snd demo_key) ?i))"
    by (simp add: RevokeAPIKey_def transact_def)
  have "splitCredential ''key_AAAAAAAAAAAAAAAA.x'' = Some (?i, ''x'')" by code_simp
  from revoked_key_stays_dead [OF _ run this] demo_key_ok run show ?thesis by blast
qed

end
