(* ===== verification/Coordinator.thy ===== *)
theory Coordinator
  imports Hub RoutingStore ReceiptStore Settlement
begin

text \<open>
  The settlement coordinator (\<^verbatim>\<open>server/internal/settlement/coordinator.go\<close>): it records the
  completion of a request, prepares its receipt, asks the provider machine for its signature over the
  relay, checks it, co-signs and queues the receipt. The events that the subscription delivers while the
  coordinator waits are an argument, with the error that ends the wait when no signature comes (the
  cancelled context or the timeout).
\<close>

section \<open>Waiting for the signature\<close>

definition SignatureTimeout_default :: "int \<Rightarrow> int" where
  "SignatureTimeout_default t = (if t \<le> 0 then 10 * 10 ^ 9 else t)"

fun await_signature ::
  "(string \<Rightarrow> 'b \<Rightarrow> message result) \<Rightarrow> int \<Rightarrow> string \<Rightarrow> go_error \<Rightarrow> 'b hubEvent list \<Rightarrow> receiptSignature result" where
  "await_signature decodeStrict now machineID ended [] = Inl ended"
| "await_signature decodeStrict now machineID ended (event # events) =
     (if he_Type event \<noteq> ''receipt_signature'' \<or> he_Machine event \<noteq> machineID
      then await_signature decodeStrict now machineID ended events
      else and_then (DecodeBody decodeStrict now ''receipt_signature'' (he_Envelope event)) (\<lambda>m.
        case m of MReceiptSignature signed_by \<Rightarrow> Inr signed_by | _ \<Rightarrow> Inl ErrInvalidMessage))"

definition toChainReceipt :: "receipt \<Rightarrow> receipt" where
  "toChainReceipt v = \<lparr>rc_RequestID = rc_RequestID v, rc_SessionID = rc_SessionID v, rc_Customer = rc_Customer v,
     rc_Provider = rc_Provider v, rc_SettlementSigner = rc_SettlementSigner v, rc_OfferID = rc_OfferID v,
     rc_PriceVersion = rc_PriceVersion v, rc_ModelHash = rc_ModelHash v, rc_CapabilityHash = rc_CapabilityHash v,
     rc_InputTokens = rc_InputTokens v, rc_OutputTokens = rc_OutputTokens v,
     rc_ComputeMilliseconds = rc_ComputeMilliseconds v, rc_MaximumCharge = rc_MaximumCharge v,
     rc_TotalCharge = rc_TotalCharge v, rc_FeeBasisPoints = rc_FeeBasisPoints v, rc_FeeVersion = rc_FeeVersion v,
     rc_Status = rc_Status v, rc_CompletedAt = rc_CompletedAt v, rc_InputHash = rc_InputHash v,
     rc_OutputHash = rc_OutputHash v, rc_Nonce = rc_Nonce v\<rparr>"

text \<open>The checks on a signature and the co-signed receipt.\<close>

definition cosign ::
  "eth \<Rightarrow> 'e evm \<Rightarrow> ('k, 'tx) chainClient \<Rightarrow> faults \<Rightarrow> db \<Rightarrow> receiptTerms \<Rightarrow> receipt \<Rightarrow> string \<Rightarrow> receiptSignature
   \<Rightarrow> signedReceipt result" where
  "cosign G E c flt db terms receipt expectedSigner signed_by =
     (case RecoverReceiptSigner E receipt (tm_ChainID terms) (tm_Contract terms) (rs_Signature signed_by) of
        Inl _ \<Rightarrow> Inl (ErrText ''provider receipt signature is invalid'')
      | Inr recovered \<Rightarrow>
          if recovered \<noteq> rs_Signer signed_by \<or> \<not> equal_fold (eth_AddressHex G recovered) expectedSigner
          then Inl (ErrText ''provider receipt signature is invalid'')
          else (case ProviderSignerAllowed flt db (tm_ChainID terms) (eth_AddressHex G (tm_Contract terms))
                       (rc_Provider receipt) (rs_Signer signed_by) of
                  Inl _ \<Rightarrow> Inl (ErrText ''provider receipt signer is not authorized'')
                | Inr permitted \<Rightarrow>
                    if \<not> permitted then Inl (ErrText ''provider receipt signer is not authorized'')
                    else and_then (Client_SignReceipt c (toChainReceipt receipt)) (\<lambda>settlementSignature.
                      Inr \<lparr>sr_Receipt = toChainReceipt receipt, sr_ProviderSignature = rs_Signature signed_by,
                        sr_SettlementSignature = settlementSignature\<rparr>)))"

definition receipt_domain :: "eth \<Rightarrow> receiptTerms \<Rightarrow> receiptDomain" where
  "receipt_domain G terms = \<lparr>rd_ChainID = tm_ChainID terms, rd_ContractAddress = eth_AddressHex G (tm_Contract terms),
     rd_SettlementSigner = eth_AddressHex G (tm_SettlementSigner terms), rd_FeeBasisPoints = tm_FeeBasisPoints terms,
     rd_FeeVersion = tm_FeeVersion terms\<rparr>"

text \<open>The proposal sent to the machine.\<close>

definition send_proposal ::
  "(message \<Rightarrow> 'b result) \<Rightarrow> int \<Rightarrow> receiptTerms \<Rightarrow> string \<Rightarrow> receipt \<Rightarrow> string \<Rightarrow> 'b hub \<Rightarrow> unit result \<times> 'b hub" where
  "send_proposal marshal now terms requestID receipt machineID hub =
     (case NewEnvelope marshal now (''receipt-'' @ requestID) ''receipt_proposal''
             (Some (MReceiptProposal \<lparr>rp_RequestID = requestID, rp_ChainID = tm_ChainID terms,
                rp_Contract = tm_Contract terms, rp_Receipt = receipt\<rparr>)) of
        Inl e \<Rightarrow> (Inl e, hub)
      | Inr envelope \<Rightarrow> Hub_Send hub machineID envelope)"

text \<open>What \<^verbatim>\<open>Complete\<close> does with the receipt it has prepared.\<close>

definition sign_and_queue ::
  "eth \<Rightarrow> 'e evm \<Rightarrow> (message \<Rightarrow> 'b result) \<Rightarrow> (string \<Rightarrow> 'b \<Rightarrow> message result) \<Rightarrow> ('k, 'tx) chainClient
   \<Rightarrow> (nat \<Rightarrow> faults) \<Rightarrow> int \<Rightarrow> receiptTerms \<Rightarrow> string \<Rightarrow> receipt \<Rightarrow> string \<Rightarrow> string \<Rightarrow> 'b hubEvent list \<Rightarrow> go_error
   \<Rightarrow> 'b hub \<Rightarrow> db \<Rightarrow> unit result \<times> 'b hub \<times> db" where
  "sign_and_queue G E marshal decodeStrict c flt now terms requestID receipt machineID expectedSigner events ended hub db =
     (let (channel, hub1) = Hub_Subscribe hub requestID;
          (sent, hub2) = send_proposal marshal now terms requestID receipt machineID hub1;
          hub3 = Hub_Unsubscribe hub2 requestID channel
      in case and_then sent (\<lambda>_.
           and_then (await_signature decodeStrict now machineID ended events) (\<lambda>signed_by.
           cosign G E c (flt 2) db terms receipt expectedSigner signed_by)) of
         Inl e \<Rightarrow> (Inl e, hub3, db)
       | Inr sr \<Rightarrow> (case Enqueue (flt 3) now db sr of (r, db') \<Rightarrow> (r, hub3, db')))"

text \<open>\<open>configured\<close> says that the store, the hub, the queue and the chain client are all present.\<close>

definition Coordinator_Complete ::
  "eth \<Rightarrow> 'e evm \<Rightarrow> (message \<Rightarrow> 'b result) \<Rightarrow> (string \<Rightarrow> 'b \<Rightarrow> message result) \<Rightarrow> bool \<Rightarrow> ('k, 'tx) chainClient
   \<Rightarrow> (nat \<Rightarrow> faults) \<Rightarrow> int \<Rightarrow> completedInference \<Rightarrow> 'b hubEvent list \<Rightarrow> go_error
   \<Rightarrow> 'b hub \<Rightarrow> db \<Rightarrow> unit result \<times> 'b hub \<times> db" where
  "Coordinator_Complete G E marshal decodeStrict configured c flt now completed events ended hub db =
     (if \<not> configured then (Inl (ErrText ''settlement coordinator is not configured''), hub, db)
      else case CompleteInference (flt 0) now db completed of
        (Inl e, db1) \<Rightarrow> (Inl e, hub, db1)
      | (Inr _, db1) \<Rightarrow>
          (case ReceiptTerms c of
             Inl e \<Rightarrow> (Inl e, hub, db1)
           | Inr terms \<Rightarrow>
               (case PrepareReceipt G (flt 1) now db1 (cp_RequestID completed) (receipt_domain G terms) of
                  (Inl e, db2) \<Rightarrow> (Inl e, hub, db2)
                | (Inr (receipt, machineID, expectedSigner), db2) \<Rightarrow>
                    sign_and_queue G E marshal decodeStrict c flt now terms (cp_RequestID completed) receipt machineID
                      expectedSigner events ended hub db2)))"

section \<open>What reaches the queue\<close>

lemma toChainReceipt_id [simp]: "toChainReceipt r = r"
  by (simp add: toChainReceipt_def)

lemma await_signature_from:
  "await_signature decodeStrict now machineID ended events = Inr signed_by \<Longrightarrow>
     \<exists>ev \<in> set events. he_Type ev = ''receipt_signature'' \<and> he_Machine ev = machineID
       \<and> DecodeBody decodeStrict now ''receipt_signature'' (he_Envelope ev) = Inr (MReceiptSignature signed_by)"
proof (induction events)
  case (Cons ev events)
  show ?case
  proof (cases "he_Type ev \<noteq> ''receipt_signature'' \<or> he_Machine ev \<noteq> machineID")
    case True
    then have "await_signature decodeStrict now machineID ended events = Inr signed_by" using Cons.prems by simp
    from Cons.IH [OF this] show ?thesis by auto
  next
    case False
    then obtain m where m: "DecodeBody decodeStrict now ''receipt_signature'' (he_Envelope ev) = Inr m"
        "(case m of MReceiptSignature s \<Rightarrow> Inr s | _ \<Rightarrow> Inl ErrInvalidMessage) = Inr signed_by"
      using Cons.prems by auto
    then have "m = MReceiptSignature signed_by" by (cases m) simp_all
    with m(1) False show ?thesis by auto
  qed
qed simp

lemma CompleteInference_queue:
  "CompleteInference flt now db p = (Inr u, db') \<Longrightarrow> settlement_queue db' = settlement_queue db"
  by (auto simp: CompleteInference_def transact_ok Let_def insert_proposal_def insert_outbox_def split: if_splits)

lemma PrepareReceipt_queue:
  assumes "PrepareReceipt G flt now db requestID domain = (Inr y, db')"
  shows "settlement_queue db' = settlement_queue db"
proof -
  obtain rc m signer where "y = (rc, m, signer)" by (cases y)
  with assms have "PrepareReceipt G flt now db requestID domain = (Inr (rc, m, signer), db')" by simp
  from PrepareReceipt_ok [OF this] obtain p :: prepared and charge :: u64 and nonce db1 where
      "narrow_hold now requestID (uint charge) db = Inr (1, db1)"
      "take_nonce flt (pr_provider p) requestID db1 = Inr (nonce, db')" by blast
  then show ?thesis by (auto simp: narrow_hold_def Let_def insert_nonce_def dest!: take_nonce_ok)
qed

definition cosigned_by_both ::
  "eth \<Rightarrow> 'e evm \<Rightarrow> ('k, 'tx) chainClient \<Rightarrow> db \<Rightarrow> receiptTerms \<Rightarrow> receipt \<Rightarrow> string \<Rightarrow> signedReceipt \<Rightarrow> bool" where
  "cosigned_by_both G E c db terms receipt expectedSigner sr \<longleftrightarrow> sr_Receipt sr = receipt
     \<and> (\<exists>signer. RecoverReceiptSigner E receipt (tm_ChainID terms) (tm_Contract terms) (sr_ProviderSignature sr) = Inr signer
         \<and> equal_fold (eth_AddressHex G signer) expectedSigner
         \<and> (equal_fold (addressHex (rc_Provider receipt)) (addressHex signer)
            \<or> signer_authorized db (decimal (tm_ChainID terms)) (eth_AddressHex G (tm_Contract terms))
                (addressHex (rc_Provider receipt)) (addressHex signer)))
     \<and> Client_SignReceipt c receipt = Inr (sr_SettlementSignature sr)"

lemma cosign_ok:
  assumes "cosign G E c flt db terms receipt expectedSigner signed_by = Inr sr"
  shows "cosigned_by_both G E c db terms receipt expectedSigner sr"
proof -
  obtain signer where rec: "RecoverReceiptSigner E receipt (tm_ChainID terms) (tm_Contract terms) (rs_Signature signed_by) = Inr signer"
      "signer = rs_Signer signed_by" "equal_fold (eth_AddressHex G signer) expectedSigner"
      "ProviderSignerAllowed flt db (tm_ChainID terms) (eth_AddressHex G (tm_Contract terms)) (rc_Provider receipt) signer = Inr True"
      "\<exists>s. Client_SignReceipt c receipt = Inr s \<and> sr = \<lparr>sr_Receipt = receipt, sr_ProviderSignature = rs_Signature signed_by,
         sr_SettlementSignature = s\<rparr>"
    using assms by (auto simp: cosign_def split: if_splits sum.splits)
  then show ?thesis
    by (auto simp: cosigned_by_both_def ProviderSignerAllowed_def Let_def split: if_splits)
qed

lemma sign_and_queue_ok:
  assumes "sign_and_queue G E marshal decodeStrict c flt now terms requestID receipt machineID expectedSigner events ended hub db
    = (Inr u, hub', db')"
  shows "\<exists>signed_by sr. cosign G E c (flt 2) db terms receipt expectedSigner signed_by = Inr sr \<and> Enqueue (flt 3) now db sr = (Inr u, db')"
proof -
  obtain channel hub1 where s1: "Hub_Subscribe hub requestID = (channel, hub1)" by fastforce
  obtain sent hub2 where s2: "send_proposal marshal now terms requestID receipt machineID hub1 = (sent, hub2)" by fastforce
  let ?r = "and_then sent (\<lambda>_. and_then (await_signature decodeStrict now machineID ended events) (\<lambda>signed_by.
    cosign G E c (flt 2) db terms receipt expectedSigner signed_by))"
  obtain sr where sr: "?r = Inr sr" using assms by (cases ?r) (simp_all add: sign_and_queue_def s1 s2)
  then have "Enqueue (flt 3) now db sr = (Inr u, db')"
    using assms by (auto simp: sign_and_queue_def s1 s2 Let_def split: prod.splits)
  with sr show ?thesis by auto
qed

lemma Enqueue_adds:
  assumes "Enqueue flt now db sr = (Inr u, db')" "r \<in> set (settlement_queue db')" "r \<notin> set (settlement_queue db)"
  shows "sq_receipt r = sr_Receipt sr \<and> sq_provider_signature r = sr_ProviderSignature sr
    \<and> sq_settlement_signature r = sr_SettlementSignature sr \<and> sq_state r = ''cosigned''"
  using assms by (auto simp: Enqueue_def Let_def transact_ok insert_or_nothing_def split: if_splits dest!: transition_queue)


section \<open>Example\<close>

text \<open>A connected machine that answers the proposal with its signature.\<close>

definition demo_hub :: "message hub" where
  "demo_hub = snd (Hub_register (NewHub None \<lparr>ho_QueueSize = 0, ho_HeartbeatTimeout = 0, ho_MaximumMessage = 0,
     ho_CapacityHandler = None\<rparr>) ''m'' 1)"

definition demo_answer :: "message hubEvent" where
  "demo_answer = \<lparr>he_Machine = ''m'', he_Type = ''receipt_signature'', he_Envelope = \<lparr>en_Version = 1, en_Type = ''receipt_signature'',
     en_ID = ''x'', en_Body = MReceiptSignature \<lparr>rs_RequestID = ''r'', rs_Signer = 1,
       rs_Signature = replicate 64 1 @ [28]\<rparr>\<rparr>\<rparr>"

definition demo_signing :: db where
  "demo_signing = demo_completed\<lparr>
     machines := [\<lparr>ma_id = ''m'', ma_account_id = ''a'', ma_name = ''n'', ma_revoked_at = None,
       ma_signer_address = Some (addressHex 1)\<rparr>],
     chain_offers := map (\<lambda>f. f\<lparr>co_deployment := (''1'', addressHex 1)\<rparr>) (chain_offers demo_completed)\<rparr>"

text \<open>A chain library that packs nothing and recovers the signer from the first byte of a signature.\<close>

definition demo_evm :: "u8 evm" where
  "demo_evm = toy_evm\<lparr>ev_pack := (\<lambda>_. Inr []), ev_keccak := (\<lambda>_. 1)\<rparr>"

definition demo_settled :: "unit result \<times> message hub \<times> db" where
  "demo_settled = Coordinator_Complete toy_eth demo_evm Inr (\<lambda>_ m. Inr m) True (demo_client 1) (\<lambda>_. no_faults) 9
     (demo_completion 1) [demo_answer] (ErrText ''t'') demo_hub demo_signing"

lemma demo_settled_ok: "fst demo_settled = Inr () \<and> settlement_queue (snd (snd demo_settled)) \<noteq> []"
  by code_simp


end
