(* ===== verification/Broker.thy ===== *)
theory Broker
  imports OpenAIInv AuthInv Coordinator
begin

text \<open>
  The broker process (\<^verbatim>\<open>server/cmd/myference-server/main.go\<close> and \<^verbatim>\<open>runtime.go\<close>): its
  configuration, and the chat endpoint wired to the authentication service, the store, the hub and the
  settlement coordinator. The world is the database and the hub; \<open>wd_tick\<close> numbers the calls, so that the
  environment (clock, random bytes, database faults, answers of machines, failing writes) is a function
  of it.
\<close>

section \<open>Configuration\<close>

record chainConfig =
  cf_RPCURL :: string
  cf_ContractAddress :: string
  cf_SettlementPrivateKey :: string
  cf_StartBlock :: u64

definition loadChainConfig :: "eth \<Rightarrow> (string \<Rightarrow> string) \<Rightarrow> chainConfig result" where
  "loadChainConfig G getenv =
     (let rpc = trim_space (getenv ''MYFERENCE_RPC_URL'');
          contract = trim_space (getenv ''MYFERENCE_CONTRACT_ADDRESS'');
          key = trim_space (getenv ''MYFERENCE_SETTLEMENT_PRIVATE_KEY'')
      in case parse_uint64 (trim_space (getenv ''MYFERENCE_CHAIN_START_BLOCK'')) of
           None \<Rightarrow> Inl (ErrText ''MYFERENCE_RPC_URL, MYFERENCE_CONTRACT_ADDRESS, MYFERENCE_SETTLEMENT_PRIVATE_KEY, and MYFERENCE_CHAIN_START_BLOCK are required'')
         | Some start \<Rightarrow>
             if rpc = [] \<or> \<not> eth_IsHexAddress G contract \<or> eth_HexToAddress G contract = 0 \<or> key = []
             then Inl (ErrText ''MYFERENCE_RPC_URL, MYFERENCE_CONTRACT_ADDRESS, MYFERENCE_SETTLEMENT_PRIVATE_KEY, and MYFERENCE_CHAIN_START_BLOCK are required'')
             else Inr \<lparr>cf_RPCURL = rpc, cf_ContractAddress = contract, cf_SettlementPrivateKey = key, cf_StartBlock = start\<rparr>)"

text \<open>The checks of \<^verbatim>\<open>openChainRuntime\<close> on the terms of the contract; \<open>own\<close> is the address of the broker's key.\<close>

definition check_terms :: "(string \<Rightarrow> string) \<Rightarrow> address \<Rightarrow> receiptTerms \<Rightarrow> unit result" where
  "check_terms getenv own terms =
     (if tm_ChainID terms \<noteq> 10143 \<and> to_lower (trim_space (getenv ''MYFERENCE_ALLOW_LOCAL_CHAIN'')) \<noteq> ''true''
      then Inl (ErrText ''settlement RPC is not Monad testnet chain 10143'')
      else if tm_SettlementSigner terms \<noteq> own
      then Inl (ErrText ''settlement private key does not match the contract settlement signer'')
      else Inr ())"

definition listenAddress :: "(string \<Rightarrow> string) \<Rightarrow> string" where
  "listenAddress getenv =
     (let address = trim_space (getenv ''MYFERENCE_LISTEN_ADDR''); port = trim_space (getenv ''PORT'')
      in if address \<noteq> [] then address else if port \<noteq> [] then ''0.0.0.0:'' @ port else ''127.0.0.1:8080'')"

definition envOr :: "(string \<Rightarrow> string) \<Rightarrow> string \<Rightarrow> string \<Rightarrow> string" where
  "envOr getenv name fallback = (if getenv name \<noteq> [] then getenv name else fallback)"

text \<open>The headers that \<^verbatim>\<open>allowWebOrigin\<close> adds, and whether it answers itself.\<close>

definition allowWebOrigin :: "string \<Rightarrow> string \<Rightarrow> string \<Rightarrow> (string \<times> string) list \<times> bool" where
  "allowWebOrigin origin requestOrigin verb =
     (if requestOrigin = origin
      then ([(''Access-Control-Allow-Origin'', origin), (''Access-Control-Allow-Credentials'', ''true''),
             (''Access-Control-Allow-Methods'', ''GET, POST, DELETE, OPTIONS''),
             (''Access-Control-Allow-Headers'', ''Authorization, Content-Type, X-Myference-Max-Spend''),
             (''Vary'', ''Origin''), (''Vary'', ''Access-Control-Request-Method''), (''Vary'', ''Access-Control-Request-Headers'')],
            verb = ''OPTIONS'')
      else ([], False))"

section \<open>The environment\<close>

record ('e, 'k, 'tx, 'b) environment =
  nv_eth :: eth
  nv_evm :: "'e evm"
  nv_lib :: auth_lib
  nv_client :: "('k, 'tx) chainClient"
  nv_sha256 :: "bytes \<Rightarrow> hash"
  nv_faults :: "nat \<Rightarrow> nat \<Rightarrow> faults"
  nv_clock :: "nat \<Rightarrow> int"
  nv_random :: "nat \<Rightarrow> bytes result"
  nv_write :: "nat \<Rightarrow> sse \<Rightarrow> unit result"
  nv_answers :: "nat \<Rightarrow> 'b hubEvent list \<times> go_error"
  nv_marshal :: "message \<Rightarrow> 'b result"
  nv_decodeStrict :: "string \<Rightarrow> 'b \<Rightarrow> message result"

record 'b world =
  wd_auth :: auth_db
  wd_hub :: "'b hub"
  wd_tick :: nat

abbreviation wd_db :: "'b world \<Rightarrow> db" where
  "wd_db w \<equiv> au_db (wd_auth w)"

definition set_db :: "db \<Rightarrow> 'b world \<Rightarrow> 'b world" where
  "set_db db w = w\<lparr>wd_auth := (wd_auth w)\<lparr>au_db := db\<rparr>\<rparr>"

text \<open>A call sees its number and leaves the next one.\<close>

definition at_tick :: "(nat \<Rightarrow> 'b world \<Rightarrow> 'a \<times> 'b world) \<Rightarrow> ('b world, 'a) state" where
  "at_tick f = State (\<lambda>w. f (wd_tick w) (w\<lparr>wd_tick := Suc (wd_tick w)\<rparr>))"

definition on_db :: "(nat \<Rightarrow> db \<Rightarrow> 'a \<times> db) \<Rightarrow> ('b world, 'a) state" where
  "on_db f = at_tick (\<lambda>n w. case f n (wd_db w) of (r, db') \<Rightarrow> (r, set_db db' w))"

section \<open>The wiring\<close>

definition authorize_principal ::
  "auth_lib \<Rightarrow> (nat \<Rightarrow> faults) \<Rightarrow> auth_db \<Rightarrow> string \<Rightarrow> string \<Rightarrow> string \<Rightarrow> u64 \<Rightarrow> principal result" where
  "authorize_principal L flt A token model endpoint maximum =
     and_then (AuthorizeAPIKey L (flt 0) A token model endpoint maximum) (\<lambda>p.
     and_then (OpenSession (flt 1) (au_db A) (kp_AccountID p)) (\<lambda>(sessionID, balance).
     Inr \<lparr>pl_AccountID = kp_AccountID p, pl_SessionID = sessionID, pl_SessionBalance = balance\<rparr>))"

definition persist_proposal ::
  "('e, 'k, 'tx, 'b) environment \<Rightarrow> completedInference \<Rightarrow> nat \<Rightarrow> 'b world \<Rightarrow> unit result \<times> 'b world" where
  "persist_proposal V p n w =
     (case nv_answers V n of (events, ended) \<Rightarrow>
       (case Coordinator_Complete (nv_eth V) (nv_evm V) (nv_marshal V) (nv_decodeStrict V) True (nv_client V)
               (nv_faults V n) (nv_clock V n) p events ended (wd_hub w) (wd_db w) of
          (r, hub', db') \<Rightarrow> (r, (set_db db' w)\<lparr>wd_hub := hub'\<rparr>)))"

definition broker_dependencies :: "('e, 'k, 'tx, 'b) environment \<Rightarrow> ('b world, 'b) dependencies" where
  "broker_dependencies V = \<lparr>
     dp_Connected = (\<lambda>m. at_tick (\<lambda>n w. (Hub_Connected (wd_hub w) m, w))),
     dp_Send = (\<lambda>m e. at_tick (\<lambda>n w. case Hub_Send (wd_hub w) m e of (r, h) \<Rightarrow> (r, w\<lparr>wd_hub := h\<rparr>))),
     dp_Authorize = (\<lambda>t m e s. at_tick (\<lambda>n w. (authorize_principal (nv_lib V) (nv_faults V n) (wd_auth w) t m e s, w))),
     dp_Candidates = (\<lambda>m. at_tick (\<lambda>n w. (RoutingCandidates (nv_faults V n 0) (wd_db w) m, w))),
     dp_Reserve = (\<lambda>r. on_db (\<lambda>n db. ReserveInference (nv_faults V n 0) (nv_clock V n) db r)),
     dp_Transition = (\<lambda>i st. on_db (\<lambda>n db. TransitionRequest (nv_faults V n 0) (nv_clock V n) db i st)),
     dp_Abort = (\<lambda>i st. on_db (\<lambda>n db. AbortInference (nv_faults V n 0) (nv_clock V n) db i st)),
     dp_Persist = (\<lambda>p. at_tick (persist_proposal V p)),
     dp_Now = at_tick (\<lambda>n w. (nv_clock V n, w)),
     dp_clock = at_tick (\<lambda>n w. (nv_clock V n, w)),
     dp_Write = (\<lambda>f. at_tick (\<lambda>n w. (nv_write V n f, w))),
     dp_randomID = at_tick (\<lambda>n w. (and_then (nv_random V n) (\<lambda>b. Inr (randomID_of b)), w)),
     dp_saltedHash = (\<lambda>v. at_tick (\<lambda>n w. (saltedHash_of (nv_sha256 V)
        (case nv_random V n of Inl _ \<Rightarrow> None | Inr s \<Rightarrow> Some s) (text_bytes v), w))),
     dp_marshal = nv_marshal V,
     dp_decodeStrict = nv_decodeStrict V\<rparr>"

text \<open>The round of the settlement loop, every two seconds: batches of one receipt.\<close>

definition settle_tick ::
  "('k, 'tx) chainClient \<Rightarrow> faults \<Rightarrow> int \<Rightarrow> db \<Rightarrow> (string \<times> go_error option) \<times> db \<times> 'tx list" where
  "settle_tick c flt now db = SettleBatch c flt now 1 db"

section \<open>The ledger under the endpoint\<close>

lemma at_tick_preserves:
  "(\<And>n w. I w \<Longrightarrow> I (snd (f n (w\<lparr>wd_tick := Suc n\<rparr>)))) \<Longrightarrow> preserves I (at_tick f)"
  by (simp add: preserves_def at_tick_def)

lemma ledger_effect_safe: "ledger_effect db db' \<Longrightarrow> ledger_safe db \<Longrightarrow> ledger_safe db'"
  by (rule ledger_effects_safe [OF r_into_rtranclp])

lemma prepare_safe:
  assumes "ledger_safe db" "PrepareReceipt G flt now db requestID domain = (res, db')"
  shows "ledger_safe db'"
proof -
  have "ledger_ok db' \<and> solvent db' \<and> holds_live db'"
    using prepare_keeps_solvency [OF _ _ _ assms(2)] assms(1) by (simp add: ledger_safe_def)
  moreover have "requests db' = requests db \<and> outbox db' = outbox db"
  proof (cases res)
    case (Inl e)
    then show ?thesis using assms(2) by (auto simp: PrepareReceipt_def transact_error split: if_splits)
  next
    case (Inr x)
    obtain rc m signer where x: "x = (rc, m, signer)" by (cases x)
    obtain p :: prepared and charge :: u64 and nonce db1 where
        "narrow_hold now requestID (uint charge) db = Inr (1, db1)" "take_nonce flt (pr_provider p) requestID db1 = Inr (nonce, db')"
      using PrepareReceipt_ok [OF assms(2) [unfolded Inr x]] by blast
    then show ?thesis by (auto simp: narrow_hold_def Let_def dest!: take_nonce_tables)
  qed
  moreover have "audited db" using assms(1) by (simp add: ledger_safe_def)
  ultimately show ?thesis by (simp add: ledger_safe_def audited_def)
qed

lemma sign_and_queue_safe:
  assumes "ledger_safe db"
    "sign_and_queue G E marshal decodeStrict c flt now terms i receipt m signer events ended hub db = (r, hub', db')"
  shows "ledger_safe db'"
proof -
  obtain channel hub1 where s1: "Hub_Subscribe hub i = (channel, hub1)" by fastforce
  obtain sent hub2 where s2: "send_proposal marshal now terms i receipt m hub1 = (sent, hub2)" by fastforce
  have "db' = db \<or> (\<exists>sr. Enqueue (flt 3) now db sr = (r, db'))"
    using assms(2) by (auto simp: sign_and_queue_def s1 s2 Let_def split: sum.splits prod.splits)
  then show ?thesis
    using assms(1) Enqueue_effects ledger_effects_safe by (metis ledger_safe_def)
qed

lemma coordinator_safe:
  assumes "ledger_safe db"
    "Coordinator_Complete G E marshal decodeStrict cfg c flt now p events ended hub db = (r, hub', db')"
  shows "ledger_safe db'"
proof -
  obtain r1 db1 where c: "CompleteInference (flt 0) now db p = (r1, db1)" by fastforce
  have safe1: "ledger_safe db1"
    using complete_effect [OF c] ledger_effect_safe assms(1) by (simp add: ledger_safe_def)
  show ?thesis
  proof (cases "cfg \<and> is_ok r1 \<and> is_ok (ReceiptTerms c)")
    case False
    then have "db' = db \<or> db' = db1"
      using assms(2) by (auto simp: Coordinator_Complete_def c split: sum.splits if_splits)
    with safe1 assms(1) show ?thesis by blast
  next
    case True
    then obtain terms where terms: "ReceiptTerms c = Inr terms" "cfg" "r1 = Inr ()" by (auto simp: is_ok_iff)
    obtain r2 db2 where p: "PrepareReceipt G (flt 1) now db1 (cp_RequestID p) (receipt_domain G terms) = (r2, db2)" by fastforce
    have safe2: "ledger_safe db2" by (rule prepare_safe [OF safe1 p])
    show ?thesis
    proof (cases r2)
      case (Inl e)
      then have "db' = db2" using assms(2) terms p by (simp add: Coordinator_Complete_def c del: One_nat_def)
      with safe2 show ?thesis by simp
    next
      case (Inr x)
      obtain receipt m signer where x: "x = (receipt, m, signer)" by (cases x)
      show ?thesis
        by (rule sign_and_queue_safe [OF safe2])
           (use assms(2) terms p Inr x in \<open>simp add: Coordinator_Complete_def c del: One_nat_def\<close>)
    qed
  qed
qed

lemma set_db_simps [simp]: "wd_db (set_db db w) = db" "wd_hub (set_db db w) = wd_hub w"
  by (simp_all add: set_db_def)

lemma on_db_safe:
  assumes "\<And>n db r db'. f n db = (r, db') \<Longrightarrow> ledger_safe db \<Longrightarrow> ledger_safe db'"
  shows "preserves (\<lambda>w. ledger_safe (wd_db w)) (on_db f)"
  unfolding on_db_def by (rule at_tick_preserves) (auto split: prod.split dest: assms)

lemma store_calls_safe:
  "ReserveInference flt now db v = (r, db') \<Longrightarrow> ledger_safe db \<Longrightarrow> ledger_safe db'"
  "TransitionRequest flt now db i st = (r, db') \<Longrightarrow> ledger_safe db \<Longrightarrow> ledger_safe db'"
  "AbortInference flt now db i st = (r, db') \<Longrightarrow> ledger_safe db \<Longrightarrow> ledger_safe db'"
  using ledger_effect_safe reserve_effect transition_effect abort_effect by (metis ledger_safe_def)+

lemma persist_safe:
  "ledger_safe (wd_db w) \<Longrightarrow> ledger_safe (wd_db (snd (persist_proposal V p n (w\<lparr>wd_tick := k\<rparr>))))"
  by (auto simp: persist_proposal_def split: prod.split dest: coordinator_safe)

interpretation broker: safe_dependencies "broker_dependencies V" "\<lambda>w. ledger_safe (wd_db w)" for V
  by unfold_locales
     (auto simp: broker_dependencies_def persist_safe intro!: at_tick_preserves on_db_safe split: prod.split dest: store_calls_safe)

text \<open>C9: A request to the chat endpoint of the wired broker keeps the ledger intact, every session solvent, the
  holds of running requests active and the audit trail complete, whatever the customer sends, the machines
  answer, the clock, the random source and the response writer do, and whichever database statements fail.\<close>

theorem endpoint_keeps_ledger:
  assumes "ledger_safe (wd_db w)"
  shows "ledger_safe (wd_db (snd (run_state (OpenAI_ServeHTTP srt (broker_dependencies V) r body hs) w)))"
  using broker.serve_safe [of srt V r body hs] assms unfolding preserves_def by blast

section \<open>Offers that no machine accepts\<close>

lemma abort_offered:
  assumes "distinct (map re_id (requests db))" "q \<in> set (requests db)" "re_id q = i" "re_state q = ''offered''"
  shows "\<exists>e. AbortInference flt now db i ''failed'' = (Inl e, db)"
proof -
  have "select_one (\<lambda>r. re_id r = i) (requests db) = Inr q"
  proof (cases "select_one (\<lambda>r. re_id r = i) (requests db)")
    case (Inl e)
    then show ?thesis using assms(2,3) by (auto simp: select_one_Inl)
  next
    case (Inr q')
    then show ?thesis using select_one_Inr [OF Inr] key_unique [of re_id "requests db" q' q] assms by auto
  qed
  moreover have "\<not> transition_allowed ''offered'' ''failed''" by (simp add: transition_allowed_def transitions_def)
  ultimately show ?thesis
    using assms(4) by (auto simp: AbortInference_def transact_def stmt_def scan_text_def reject_if_def split: option.split sum.split)
qed

lemma keeps_db:
  "preserves (\<lambda>w. wd_db w = db) (dp_Send (broker_dependencies V) m e)"
  "preserves (\<lambda>w. wd_db w = db) (dp_Now (broker_dependencies V))"
  "preserves (\<lambda>w. wd_db w = db) (dp_clock (broker_dependencies V))"
  by (auto simp: broker_dependencies_def intro!: at_tick_preserves split: prod.split)

lemma abort_keeps_db:
  assumes "distinct (map re_id (requests db))" "q \<in> set (requests db)" "re_id q = i" "re_state q = ''offered''"
  shows "preserves (\<lambda>w. wd_db w = db) (abort_request (broker_dependencies V) i ''failed'')"
    "preserves (\<lambda>w. wd_db w = db) (cancel_and_abort (broker_dependencies V) m i ''failed'')"
proof -
  have "preserves (\<lambda>w. wd_db w = db) (dp_Abort (broker_dependencies V) i ''failed'')"
    using abort_offered [OF assms]
    by (auto simp: broker_dependencies_def on_db_def intro!: at_tick_preserves split: prod.split) (metis snd_conv)
  then show "preserves (\<lambda>w. wd_db w = db) (abort_request (broker_dependencies V) i ''failed'')"
    unfolding abort_request_def by (auto intro: preserves_bind)
  then show "preserves (\<lambda>w. wd_db w = db) (cancel_and_abort (broker_dependencies V) m i ''failed'')"
    unfolding cancel_and_abort_def OpenAI_cancel_def by (auto intro!: preserves_bind keeps_db split: sum.split)
qed


section \<open>Examples\<close>

definition demo_env :: "(u8, unit, nat, message) environment" where
  "demo_env = \<lparr>nv_eth = toy_eth, nv_evm = demo_evm, nv_lib = demo_lib, nv_client = demo_client 1, nv_sha256 = (\<lambda>_. 1),
     nv_faults = (\<lambda>_ _. no_faults), nv_clock = int, nv_random = (\<lambda>_. Inr [1]), nv_write = (\<lambda>_ _. Inr ()),
     nv_answers = (\<lambda>_. ([], ErrText ''t'')), nv_marshal = Inr, nv_decodeStrict = (\<lambda>_ m. Inr m)\<rparr>"

definition demo_world :: "db \<Rightarrow> message world" where
  "demo_world db = \<lparr>wd_auth = demo_auth\<lparr>au_db := db\<rparr>, wd_hub = demo_hub, wd_tick = 0\<rparr>"

definition demo_offered :: db where
  "demo_offered = snd (ReserveInference no_faults 7 demo_db demo_reservation)"

definition demo_context :: job_context where
  "demo_context = \<lparr>jx_RequestID = ''r'', jx_SessionID = ''s'', jx_MachineID = ''m'', jx_OfferID = ''o'', jx_Model = ''x'',
     jx_PriceVersion = 1, jx_Prompt = ''p'', jx_MaximumInputTokens = 1, jx_MaximumOutputTokens = 1,
     jx_MaximumComputeMilliseconds = 1\<rparr>"

definition demo_chat :: chatRequest where
  "demo_chat = \<lparr>cq_Model = ''x'', cq_Stream = True, cq_Messages = [\<lparr>cm_Role = ''user'', cm_Content = ''hi''\<rparr>], cq_Workspace = [],
     cq_MaxTokens = 1, cq_MaxCompletionTokens = 0\<rparr>"

definition demo_http :: http_request where
  "demo_http = \<lparr>hr_Method = ''POST'', hr_Path = ''/v1/chat/completions'', hr_MaxSpend = ''9'', hr_Authorization = ''Bearer k.s'',
     hr_Machine = [], hr_endpoint = None, hr_configured = True, hr_flusher = True\<rparr>"

theorem endpoint_keeps_ledger_witness:
  "ledger_safe (wd_db (snd (run_state (OpenAI_ServeHTTP insertionSort (broker_dependencies demo_env) demo_http (Some demo_chat) []) (demo_world demo_db))))"
proof -
  have "ledger_safe demo_db"
    using demo_ok by (simp add: ledger_safe_def holds_live_def demo_db_def empty_db_def)
  then show ?thesis by (intro endpoint_keeps_ledger) (simp add: demo_world_def)
qed


end
