(* ===== verification/Anthropic.thy ===== *)
theory Anthropic
  imports OpenAI
begin

text \<open>
  The Messages endpoint (\<^verbatim>\<open>server/internal/api/anthropic.go\<close>): it translates a request for the chat
  endpoint and rewrites the response stream of that endpoint, frame by frame, while it is written. The
  bytes of the inner response arrive in pieces of any size; \<open>aw_buffer\<close> holds the incomplete frame. Decoding a
  frame's JSON is the parameter \<open>unmarshal\<close>, and an event stands for its name with its JSON value.
\<close>

section \<open>Requests\<close>

record anthropicRequest =
  an_Model :: string
  an_MaxTokens :: u64
  an_Stream :: bool
  an_System :: string
  an_Messages :: "chatMessage list"
  an_Workspace :: "workspaceFile list"

text \<open>\<open>body\<close> is the decoded body, \<open>None\<close> when it does not decode, is too long or is followed by more input.\<close>

definition translate_request :: "anthropicRequest \<Rightarrow> chatRequest" where
  "translate_request a =
     \<lparr>cq_Model = an_Model a, cq_Stream = True,
      cq_Messages = (if an_System a \<noteq> [] then \<lparr>cm_Role = ''system'', cm_Content = an_System a\<rparr> # an_Messages a else an_Messages a),
      cq_Workspace = an_Workspace a, cq_MaxTokens = an_MaxTokens a, cq_MaxCompletionTokens = 0\<rparr>"

definition admit_messages ::
  "string \<Rightarrow> string \<Rightarrow> string \<Rightarrow> anthropicRequest option \<Rightarrow> http_outcome + chatRequest" where
  "admit_messages verb path version body =
     (if verb \<noteq> ''POST'' \<or> path \<noteq> ''/v1/messages'' then Inl (HttpError 404 ''404 page not found'')
      else if version \<noteq> ''2023-06-01'' then Inl (HttpError 400 ''supported anthropic-version is required'')
      else case body of
        None \<Rightarrow> Inl (HttpError 400 ''invalid streaming messages request'')
      | Some a \<Rightarrow>
          if an_Model a = [] \<or> an_MaxTokens a = 0 \<or> \<not> an_Stream a \<or> an_Messages a = []
          then Inl (HttpError 400 ''invalid streaming messages request'')
          else Inr (translate_request a))"

text \<open>The request that the inner handler sees; \<open>key\<close> is the header \<^verbatim>\<open>x-api-key\<close>.\<close>

definition translate_http :: "string \<Rightarrow> http_request \<Rightarrow> http_request" where
  "translate_http key r =
     (let r1 = r\<lparr>hr_Path := ''/v1/chat/completions'', hr_endpoint := Some ''/v1/messages''\<rparr>; k = trim_space key
      in if k \<noteq> [] then r1\<lparr>hr_Authorization := ''Bearer '' @ k\<rparr> else r1)"

section \<open>The response writer\<close>

record chunk_error =
  ce_Type :: string
  ce_Code :: string
  ce_Message :: string

record chunk_choice =
  cc_Content :: string
  cc_FinishReason :: "string option"

record stream_chunk =
  sk_Error :: "chunk_error option"
  sk_Choices :: "chunk_choice list"
  sk_PromptTokens :: u64
  sk_CompletionTokens :: u64

datatype anthropic_event =
    MessageStart string string
  | ContentBlockStart
  | ContentBlockDelta string
  | ContentBlockStop
  | MessageDelta u64
  | MessageStop
  | StreamError chunk_error

text \<open>What reached the client: raw bytes of an error response, or events.\<close>

datatype target_write = Status nat | Raw string | Event anthropic_event

record responseWriter =
  aw_buffer :: string
  aw_status :: nat
  aw_started :: bool
  aw_stopped :: bool
  aw_model :: string
  aw_requestID :: string
  aw_target :: "target_write list"

definition writer_event :: "anthropic_event \<Rightarrow> responseWriter \<Rightarrow> responseWriter" where
  "writer_event e w = w\<lparr>aw_target := aw_target w @ [Event e]\<rparr>"

definition WriteHeader :: "nat \<Rightarrow> responseWriter \<Rightarrow> responseWriter" where
  "WriteHeader status w =
     (if aw_status w \<noteq> 0 then w
      else let w1 = w\<lparr>aw_status := status, aw_target := aw_target w @ [Status status]\<rparr>
           in if status \<ge> 400 then w1
              else writer_event ContentBlockStart (writer_event (MessageStart (aw_requestID w) (aw_model w)) (w1\<lparr>aw_started := True\<rparr>)))"

text \<open>\<^verbatim>\<open>strings.Index(raw, "\n\n")\<close>: the frame before the first empty line and what follows it.\<close>

fun cut_frame :: "string \<Rightarrow> (string \<times> string) option" where
  "cut_frame (c # d # s) =
     (if c = CHR 0x0A \<and> d = CHR 0x0A then Some ([], s)
      else case cut_frame (d # s) of None \<Rightarrow> None | Some (frame, rest) \<Rightarrow> Some (c # frame, rest))"
| "cut_frame _ = None"

text \<open>The last line of a frame that starts with \<^verbatim>\<open>"data: "\<close>, without it.\<close>

definition frame_data :: "string \<Rightarrow> string" where
  "frame_data frame =
     foldl (\<lambda>data line. if prefix ''data: '' line then trim_prefix ''data: '' line else data) [] (split_on (CHR 0x0A) frame)"

definition on_choice :: "chunk_choice \<Rightarrow> u64 \<Rightarrow> responseWriter \<Rightarrow> responseWriter" where
  "on_choice c completion w =
     (let w1 = (if cc_Content c \<noteq> [] then writer_event (ContentBlockDelta (cc_Content c)) w else w)
      in case cc_FinishReason c of
           None \<Rightarrow> w1
         | Some _ \<Rightarrow> writer_event (MessageDelta completion) (writer_event ContentBlockStop w1))"

definition on_frame :: "(string \<Rightarrow> stream_chunk result) \<Rightarrow> string \<Rightarrow> responseWriter \<Rightarrow> responseWriter" where
  "on_frame unmarshal frame w =
     (let data = frame_data frame
      in if data = [] then w
         else if data = ''[DONE]'' then
           (if aw_stopped w then w else (writer_event MessageStop w)\<lparr>aw_stopped := True\<rparr>)
         else case unmarshal data of
             Inl _ \<Rightarrow> w
           | Inr chunk \<Rightarrow>
               (case sk_Error chunk of
                  Some e \<Rightarrow> (writer_event (StreamError e) w)\<lparr>aw_stopped := True\<rparr>
                | None \<Rightarrow> (case sk_Choices chunk of
                    [] \<Rightarrow> w
                  | c # _ \<Rightarrow> on_choice c (sk_CompletionTokens chunk) w)))"

lemma cut_frame_length: "cut_frame s = Some (frame, rest) \<Longrightarrow> length rest < length s"
  by (induction s arbitrary: frame rest rule: cut_frame.induct) (fastforce split: if_splits option.splits)+

lemma writer_event_buffer [simp]: "aw_buffer (writer_event e w) = aw_buffer w" "aw_status (writer_event e w) = aw_status w"
  by (simp_all add: writer_event_def)

lemma on_choice_buffer [simp]: "aw_buffer (on_choice c n w) = aw_buffer w" "aw_status (on_choice c n w) = aw_status w"
  by (simp_all add: on_choice_def Let_def split: option.split)

lemma on_frame_buffer [simp]: "aw_buffer (on_frame u frame w) = aw_buffer w" "aw_status (on_frame u frame w) = aw_status w"
  by (simp_all add: on_frame_def Let_def split: option.split sum.split list.split)

function process :: "(string \<Rightarrow> stream_chunk result) \<Rightarrow> responseWriter \<Rightarrow> responseWriter" where
  "process unmarshal w =
     (case cut_frame (aw_buffer w) of
        None \<Rightarrow> w
      | Some (frame, rest) \<Rightarrow> process unmarshal (on_frame unmarshal frame (w\<lparr>aw_buffer := rest\<rparr>)))"
  by pat_completeness auto

termination
  by (relation "measure (\<lambda>(u, w). length (aw_buffer w))") (auto dest: cut_frame_length)

declare process.simps [simp del]

definition writer_Write :: "(string \<Rightarrow> stream_chunk result) \<Rightarrow> string \<Rightarrow> responseWriter \<Rightarrow> responseWriter" where
  "writer_Write unmarshal payload w =
     (let w1 = (if aw_status w = 0 then WriteHeader 200 w else w)
      in if aw_status w1 \<ge> 400 then w1\<lparr>aw_target := aw_target w1 @ [Raw payload]\<rparr>
         else process unmarshal (w1\<lparr>aw_buffer := aw_buffer w1 @ payload\<rparr>))"

definition writer_Flush :: "(string \<Rightarrow> stream_chunk result) \<Rightarrow> responseWriter \<Rightarrow> responseWriter" where
  "writer_Flush unmarshal w = process unmarshal w"

section \<open>Pieces of the stream\<close>

lemma cut_frame_append: "cut_frame a = Some (frame, rest) \<Longrightarrow> cut_frame (a @ b) = Some (frame, rest @ b)"
  by (induction a arbitrary: frame rest rule: cut_frame.induct) (auto split: if_splits option.splits)

lemma on_frame_set_buffer: "on_frame u frame (w\<lparr>aw_buffer := b\<rparr>) = (on_frame u frame w)\<lparr>aw_buffer := b\<rparr>"
  by (simp add: on_frame_def on_choice_def writer_event_def Let_def split: option.split sum.split list.split)

lemma process_append:
  "process u (w\<lparr>aw_buffer := aw_buffer w @ b\<rparr>) = process u ((process u w)\<lparr>aw_buffer := aw_buffer (process u w) @ b\<rparr>)"
proof (induction u w rule: process.induct)
  case (1 u w)
  show ?case
  proof (cases "cut_frame (aw_buffer w)")
    case None
    then show ?thesis by (simp add: process.simps [of u w])
  next
    case (Some fr)
    then obtain frame rest where fr: "cut_frame (aw_buffer w) = Some (frame, rest)" by (cases fr) auto
    let ?w' = "on_frame u frame (w\<lparr>aw_buffer := rest\<rparr>)"
    have "process u (w\<lparr>aw_buffer := aw_buffer w @ b\<rparr>) = process u (?w'\<lparr>aw_buffer := aw_buffer ?w' @ b\<rparr>)"
      by (subst process.simps) (simp add: cut_frame_append [OF fr] on_frame_set_buffer)
    also have "\<dots> = process u ((process u ?w')\<lparr>aw_buffer := aw_buffer (process u ?w') @ b\<rparr>)"
      using 1 [OF fr refl] .
    also have "process u ?w' = process u w" by (simp add: process.simps [of u w] fr)
    finally show ?thesis .
  qed
qed

lemma process_status [simp]: "aw_status (process u w) = aw_status w"
  by (induction u w rule: process.induct) (subst process.simps, auto split: option.split prod.split)

text \<open>Writing a response in pieces has the same effect as writing it at once.\<close>

lemma writes_join:
  assumes "0 < aw_status w" "aw_status w < 400"
  shows "fold (writer_Write u) (p # ps) w = writer_Write u (concat (p # ps)) w"
proof -
  have step: "writer_Write u b (writer_Write u a w) = writer_Write u (a @ b) w" for a b
    using assms process_append [of u "w\<lparr>aw_buffer := aw_buffer w @ a\<rparr>" b] by (simp add: writer_Write_def Let_def)
  show ?thesis
  proof (induction ps arbitrary: p)
    case (Cons q ps)
    from Cons.IH [of "p @ q"] show ?case by (simp add: step)
  qed simp
qed

section \<open>The translation\<close>

text \<open>
  What the JSON library promises for the frames that the chat endpoint writes: the text of a frame has no line
  break (they are escaped) and is not empty, decodes to the values it was made from, and only the end mark is
  the bare word.
\<close>

definition frame_codec :: "(sse \<Rightarrow> string) \<Rightarrow> (string \<Rightarrow> stream_chunk result) \<Rightarrow> bool" where
  "frame_codec enc unmarshal \<longleftrightarrow>
     (\<forall>f. CHR 0x0A \<notin> set (enc f) \<and> enc f \<noteq> [] \<and> (enc f = ''[DONE]'' \<longleftrightarrow> f = DoneMark))
     \<and> (\<forall>i d. unmarshal (enc (Delta i d)) = Inr \<lparr>sk_Error = None, sk_Choices = [\<lparr>cc_Content = d, cc_FinishReason = None\<rparr>],
          sk_PromptTokens = 0, sk_CompletionTokens = 0\<rparr>)
     \<and> (\<forall>i m a b c. unmarshal (enc (Finish i m a b c)) = Inr \<lparr>sk_Error = None,
          sk_Choices = [\<lparr>cc_Content = [], cc_FinishReason = Some ''stop''\<rparr>], sk_PromptTokens = a, sk_CompletionTokens = b\<rparr>)
     \<and> (\<forall>code msg. unmarshal (enc (ProviderError code msg)) = Inr \<lparr>sk_Error = Some \<lparr>ce_Type = ''provider_error'',
          ce_Code = code, ce_Message = msg\<rparr>, sk_Choices = [], sk_PromptTokens = 0, sk_CompletionTokens = 0\<rparr>)"

definition sse_bytes :: "(sse \<Rightarrow> string) \<Rightarrow> sse \<Rightarrow> string" where
  "sse_bytes enc f = ''data: '' @ enc f @ [CHR 0x0A, CHR 0x0A]"

text \<open>The events of a sequence of frames; \<open>stopped\<close> says that the end was already announced.\<close>

fun translated :: "bool \<Rightarrow> sse list \<Rightarrow> anthropic_event list" where
  "translated stopped [] = []"
| "translated stopped (Delta i d # fs) = (if d = [] then [] else [ContentBlockDelta d]) @ translated stopped fs"
| "translated stopped (Finish i m a b c # fs) = [ContentBlockStop, MessageDelta b] @ translated stopped fs"
| "translated stopped (ProviderError code msg # fs) =
     StreamError \<lparr>ce_Type = ''provider_error'', ce_Code = code, ce_Message = msg\<rparr> # translated True fs"
| "translated stopped (DoneMark # fs) = (if stopped then [] else [MessageStop]) @ translated True fs"

lemma cut_frame_line: "CHR 0x0A \<notin> set j \<Longrightarrow> cut_frame (j @ CHR 0x0A # CHR 0x0A # s) = Some (j, s)"
proof (induction j)
  case (Cons c j)
  then show ?case by (cases j) auto
qed simp

lemma cut_frame_sse:
  assumes "CHR 0x0A \<notin> set (enc f)"
  shows "cut_frame (sse_bytes enc f @ s) = Some (''data: '' @ enc f, s)"
proof -
  have "sse_bytes enc f @ s = (''data: '' @ enc f) @ CHR 0x0A # CHR 0x0A # s" by (simp add: sse_bytes_def)
  moreover have "CHR 0x0A \<notin> set (''data: '' @ enc f)" using assms by simp
  ultimately show ?thesis by (metis cut_frame_line)
qed

lemma frame_data_line:
  assumes "CHR 0x0A \<notin> set j"
  shows "frame_data (''data: '' @ j) = j"
proof -
  have "split_on (CHR 0x0A) (''data: '' @ j) = [''data: '' @ j]" using assms by (intro split_on_id) simp
  then show ?thesis by (simp add: frame_data_def trim_prefix_def)
qed

definition stopped_after :: "bool \<Rightarrow> sse \<Rightarrow> bool" where
  "stopped_after stopped f \<longleftrightarrow> stopped \<or> (case f of Delta _ _ \<Rightarrow> False | Finish _ _ _ _ _ \<Rightarrow> False | _ \<Rightarrow> True)"

lemma on_frame_codec:
  assumes "frame_codec enc u"
  shows "aw_target (on_frame u (''data: '' @ enc f) w) = aw_target w @ map Event (translated (aw_stopped w) [f])
    \<and> aw_stopped (on_frame u (''data: '' @ enc f) w) = stopped_after (aw_stopped w) f"
proof -
  have e: "CHR 0x0A \<notin> set (enc f)" "enc f \<noteq> []" "enc f = ''[DONE]'' \<longleftrightarrow> f = DoneMark"
    using assms unfolding frame_codec_def by blast+
  show ?thesis
    using assms e(2,3) unfolding on_frame_def frame_data_line [OF e(1)] frame_codec_def
    by (cases f) (simp_all add: on_choice_def writer_event_def stopped_after_def)
qed

lemma process_frames:
  assumes "frame_codec enc u"
  shows "aw_buffer w = concat (map (sse_bytes enc) fs) \<Longrightarrow>
    aw_target (process u w) = aw_target w @ map Event (translated (aw_stopped w) fs) \<and> aw_buffer (process u w) = []"
proof (induction fs arbitrary: w)
  case Nil
  then show ?case by (simp add: process.simps [of u w])
next
  case (Cons f fs)
  let ?rest = "concat (map (sse_bytes enc) fs)"
  let ?w = "on_frame u (''data: '' @ enc f) (w\<lparr>aw_buffer := ?rest\<rparr>)"
  have "CHR 0x0A \<notin> set (enc f)" using assms unfolding frame_codec_def by blast
  then have cut: "cut_frame (aw_buffer w) = Some (''data: '' @ enc f, ?rest)"
    using Cons.prems cut_frame_sse [of enc f ?rest] by simp
  have "process u w = process u ?w" by (subst process.simps) (simp add: cut)
  moreover have "aw_buffer ?w = ?rest" by simp
  note Cons.IH [OF this]
  moreover have "translated (aw_stopped w) (f # fs) = translated (aw_stopped w) [f] @ translated (stopped_after (aw_stopped w) f) fs"
    by (cases f) (simp_all add: stopped_after_def)
  ultimately show ?case using on_frame_codec [OF assms, of f "w\<lparr>aw_buffer := ?rest\<rparr>"] by simp
qed


section \<open>Example\<close>

text \<open>A codec with one letter for the kind of a frame, text in hexadecimal and numbers in unary.\<close>

definition demo_text :: "string \<Rightarrow> string" where
  "demo_text s = concat (map byte_hex (map (\<lambda>c. of_nat (of_char c)) s))"

definition demo_untext :: "string \<Rightarrow> string" where
  "demo_untext s = (case hex_DecodeString s of None \<Rightarrow> [] | Some bs \<Rightarrow> map (\<lambda>b. char_of (unat b)) bs)"

fun demo_enc :: "sse \<Rightarrow> string" where
  "demo_enc (Delta i d) = CHR ''D'' # demo_text d"
| "demo_enc (Finish i m a b c) = CHR ''F'' # replicate (unat a) (CHR ''a'') @ replicate (unat b) (CHR ''b'')"
| "demo_enc (ProviderError c m) = CHR ''P'' # demo_text c @ CHR ''x'' # demo_text m"
| "demo_enc DoneMark = ''[DONE]''"

definition demo_unmarshal :: "string \<Rightarrow> stream_chunk result" where
  "demo_unmarshal s = (case s of [] \<Rightarrow> Inl ErrInvalidMessage | k # r \<Rightarrow>
     if k = CHR ''D'' then Inr \<lparr>sk_Error = None, sk_Choices = [\<lparr>cc_Content = demo_untext r, cc_FinishReason = None\<rparr>],
       sk_PromptTokens = 0, sk_CompletionTokens = 0\<rparr>
     else if k = CHR ''F'' then Inr \<lparr>sk_Error = None, sk_Choices = [\<lparr>cc_Content = [], cc_FinishReason = Some ''stop''\<rparr>],
       sk_PromptTokens = of_nat (length (filter (\<lambda>c. c = CHR ''a'') r)), sk_CompletionTokens = of_nat (length (filter (\<lambda>c. c = CHR ''b'') r))\<rparr>
     else Inr \<lparr>sk_Error = Some \<lparr>ce_Type = ''provider_error'', ce_Code = demo_untext (takeWhile (\<lambda>c. c \<noteq> CHR ''x'') r),
         ce_Message = demo_untext (tl (dropWhile (\<lambda>c. c \<noteq> CHR ''x'') r))\<rparr>, sk_Choices = [], sk_PromptTokens = 0, sk_CompletionTokens = 0\<rparr>)"

lemma demo_text_chars: "c \<in> set (demo_text s) \<Longrightarrow> c \<in> set hex_digits"
proof -
  have "length hex_digits = 16" by (simp add: hex_digits_def)
  then have "set (byte_hex b) \<subseteq> set hex_digits" for b using nibbles(1,2) [of b] by (auto simp: byte_hex_def)
  then show "c \<in> set (demo_text s) \<Longrightarrow> c \<in> set hex_digits" by (auto simp: demo_text_def)
qed

lemma demo_text_plain: "CHR 0x0A \<notin> set (demo_text s)" "CHR ''x'' \<notin> set (demo_text s)"
  using demo_text_chars [of _ s] by (auto simp: hex_digits_def)

lemma demo_untext_text: "demo_untext (demo_text s) = s"
proof -
  have "char_of (unat (of_nat (of_char c) :: u8)) = c" for c :: char by (simp add: unsigned_of_nat take_bit_eq_mod)
  then have "map (\<lambda>b. char_of (unat b)) (map (\<lambda>c. of_nat (of_char c) :: u8) s) = s" by (induction s) simp_all
  then show ?thesis unfolding demo_untext_def demo_text_def hex_decode_encode by simp
qed

lemma takeWhile_before: "c \<notin> set a \<Longrightarrow> takeWhile (\<lambda>x. x \<noteq> c) (a @ c # b) = a \<and> dropWhile (\<lambda>x. x \<noteq> c) (a @ c # b) = c # b"
  by (induction a) auto

lemma demo_codec: "frame_codec demo_enc demo_unmarshal"
proof -
  have "CHR 0x0A \<notin> set (demo_enc f) \<and> demo_enc f \<noteq> [] \<and> (demo_enc f = ''[DONE]'' \<longleftrightarrow> f = DoneMark)" for f
    using demo_text_plain by (cases f) auto
  then show ?thesis
    unfolding frame_codec_def
    by (simp add: demo_unmarshal_def demo_untext_text takeWhile_before [OF demo_text_plain(2)] filter_replicate)
qed

definition demo_writer :: responseWriter where
  "demo_writer = WriteHeader 200 \<lparr>aw_buffer = [], aw_status = 0, aw_started = False, aw_stopped = False, aw_model = ''m'',
     aw_requestID = ''r'', aw_target = []\<rparr>"


end
