(* ===== verification/ProviderActions.thy ===== *)
theory ProviderActions
  imports Auth "HOL-Library.AList"
begin

text \<open>
  Provider actions (\<^verbatim>\<open>server/internal/api/provider_action.go\<close>): the on-chain steps that a provider
  prepares on a machine, signs in the browser and sees confirmed. The store is a map in memory with a limit
  and an expiry; a Go map is an association list without repeated keys. The handlers' authentication, preparation and
  verification are arguments, as is the decoded JSON body.
\<close>

section \<open>Types\<close>

definition providerActionTTL :: int where
  "providerActionTTL = 15 * 60 * 10 ^ 9"

definition maxProviderActions :: nat where
  "maxProviderActions = 1024"

definition maxProviderActionOffers :: nat where
  "maxProviderActionOffers = 64"

record providerActionOffer =
  po_OfferID :: string
  po_Model :: string
  po_Kind :: string
  po_Capabilities :: "string list"
  po_MeteringMode :: string
  po_InputPerMillionWei :: string
  po_OutputPerMillionWei :: string
  po_ComputePerSecondWei :: string

record providerActionInput =
  pi_Kind :: string
  pi_AmountWei :: string
  pi_Offers :: "providerActionOffer list"

record providerActionBaseline =
  pb_BondWei :: string
  pb_ClaimableWei :: string
  pb_ExitAvailableAt :: u64
  pb_Versions :: "(string \<times> u64) list"

record providerAction =
  pa_ID :: string
  pa_Kind :: string
  pa_Status :: string
  pa_WalletAddress :: string
  pa_AmountWei :: string
  pa_Offers :: "providerActionOffer list"
  pa_TransactionHashes :: "string list"
  pa_Versions :: "(string \<times> u64) list"
  pa_ExpiresAt :: int
  pa_MachineID :: string
  pa_AccountID :: string
  pa_Baseline :: providerActionBaseline

type_synonym actionStore = "(string \<times> providerAction) list"

definition NewProviderActionStore :: actionStore where
  "NewProviderActionStore = []"

section \<open>Validation\<close>

definition validDecimal :: "string \<Rightarrow> bool \<Rightarrow> bool" where
  "validDecimal value positive =
     (case big_set_string value of
        None \<Rightarrow> False
      | Some parsed \<Rightarrow> \<bar>parsed\<bar> < 2 ^ 256 \<and> (\<not> positive \<and> parsed \<ge> 0 \<or> positive \<and> parsed > 0) \<and> int_string parsed = value)"

definition validTransactionHash :: "string \<Rightarrow> bool" where
  "validTransactionHash value \<longleftrightarrow> length value = 66 \<and> prefix ''0x'' value
     \<and> (case hex_DecodeString (drop 2 value) of None \<Rightarrow> False | Some decoded \<Rightarrow> length decoded = 32)"

definition normalize_offer :: "providerActionOffer \<Rightarrow> providerActionOffer" where
  "normalize_offer f = f\<lparr>po_OfferID := trim_space (po_OfferID f), po_Model := trim_space (po_Model f),
     po_Kind := trim_space (po_Kind f), po_MeteringMode := trim_space (po_MeteringMode f),
     po_Capabilities := remdups_adj (sort (po_Capabilities f))\<rparr>"

fun validate_offers :: "string list \<Rightarrow> providerActionOffer list \<Rightarrow> providerActionOffer list result" where
  "validate_offers seen [] = Inr []"
| "validate_offers seen (raw # rest) =
     (let offer = normalize_offer raw
      in if po_OfferID offer = [] \<or> po_Model offer = [] \<or> po_Kind offer = [] \<or> po_Capabilities offer = []
            \<or> po_MeteringMode offer \<noteq> ''tokens_and_compute'' \<and> po_MeteringMode offer \<noteq> ''compute_only''
         then Inl (ErrText ''offer identity and metering are required'')
         else if po_OfferID offer \<in> set seen then Inl (ErrText ''offer IDs must be unique'')
         else if \<not> validDecimal (po_InputPerMillionWei offer) False \<or> \<not> validDecimal (po_OutputPerMillionWei offer) False
            \<or> \<not> validDecimal (po_ComputePerSecondWei offer) False
         then Inl (ErrText ''offer rates must be non-negative decimal integers'')
         else if po_MeteringMode offer = ''compute_only'' \<and> (po_InputPerMillionWei offer \<noteq> ''0'' \<or> po_OutputPerMillionWei offer \<noteq> ''0'')
         then Inl (ErrText ''compute-only offers require zero token rates'')
         else and_then (validate_offers (po_OfferID offer # seen) rest) (\<lambda>fs. Inr (offer # fs)))"

text \<open>The input is normalized in place; the result is the input after validation.\<close>

definition validateProviderActionInput :: "providerActionInput \<Rightarrow> providerActionInput result" where
  "validateProviderActionInput raw =
     (let input = raw\<lparr>pi_Kind := trim_space (pi_Kind raw)\<rparr>
      in if pi_Kind input = ''deposit_collateral'' then
           (if pi_Offers input \<noteq> [] \<or> \<not> validDecimal (pi_AmountWei input) True
            then Inl (ErrText ''deposit requires a positive amount_wei'') else Inr input)
         else if pi_Kind input = ''request_collateral_exit'' \<or> pi_Kind input = ''finalize_collateral_exit'' then
           (if pi_Offers input \<noteq> [] \<or> \<not> blank (pi_AmountWei input)
            then Inl (ErrText ''collateral exit does not accept offers or an amount'') else Inr input)
         else if pi_Kind input = ''publish_offer'' then
           (if \<not> blank (pi_AmountWei input) \<or> pi_Offers input = [] \<or> length (pi_Offers input) > maxProviderActionOffers
            then Inl (ErrText ''offer publication requires one to 64 offers'')
            else and_then (validate_offers [] (pi_Offers input)) (\<lambda>fs. Inr (input\<lparr>pi_Offers := fs\<rparr>)))
         else Inl (ErrText ''unsupported provider action''))"

section \<open>The store\<close>

definition purge :: "int \<Rightarrow> actionStore \<Rightarrow> actionStore" where
  "purge now s = filter (\<lambda>(i, a). now < pa_ExpiresAt a) s"

definition action_Create ::
  "bytes result \<Rightarrow> int \<Rightarrow> string \<Rightarrow> string \<Rightarrow> string \<Rightarrow> providerActionInput \<Rightarrow> providerActionBaseline \<Rightarrow> actionStore
   \<Rightarrow> providerAction result \<times> actionStore" where
  "action_Create rnd now machineID accountID wallet raw baseline s =
     (if blank accountID \<or> blank wallet then (Inl (ErrText ''provider account is required''), s)
      else case validateProviderActionInput raw of
        Inl e \<Rightarrow> (Inl e, s)
      | Inr input \<Rightarrow>
          (case rnd of
             Inl e \<Rightarrow> (Inl e, s)
           | Inr bytes \<Rightarrow>
               let i = raw_url_encode bytes;
                   action = \<lparr>pa_ID = i, pa_Kind = pi_Kind input, pa_Status = ''pending_wallet'', pa_WalletAddress = wallet,
                     pa_AmountWei = pi_AmountWei input, pa_Offers = pi_Offers input, pa_TransactionHashes = [],
                     pa_Versions = [], pa_ExpiresAt = now + providerActionTTL, pa_MachineID = machineID,
                     pa_AccountID = accountID, pa_Baseline = baseline\<rparr>;
                   s1 = purge now s
               in if length s1 \<ge> maxProviderActions then (Inl (ErrText ''too many provider actions''), s1)
                  else (Inr action, AList.update i action s1)))"

text \<open>\<open>None\<close> is \<^verbatim>\<open>ErrProviderActionNotFound\<close>; an expired action is deleted when it is looked up.\<close>

definition live_action :: "int \<Rightarrow> string \<Rightarrow> actionStore \<Rightarrow> providerAction option \<times> actionStore" where
  "live_action now i s =
     (case map_of s i of
        None \<Rightarrow> (None, AList.delete i s)
      | Some a \<Rightarrow> if \<not> now < pa_ExpiresAt a then (None, AList.delete i s) else (Some a, s))"

definition GetForAccount :: "int \<Rightarrow> string \<Rightarrow> string \<Rightarrow> actionStore \<Rightarrow> providerAction option \<times> actionStore" where
  "GetForAccount now i accountID s =
     (case live_action now i s of
        (None, s') \<Rightarrow> (None, s')
      | (Some a, s') \<Rightarrow> (if pa_AccountID a \<noteq> accountID then None else Some a, s'))"

definition action_Submitted ::
  "int \<Rightarrow> string \<Rightarrow> string \<Rightarrow> string list \<Rightarrow> actionStore \<Rightarrow> providerAction option result \<times> actionStore" where
  "action_Submitted now i accountID hashes s =
     (case live_action now i s of
        (None, s') \<Rightarrow> (Inr None, s')
      | (Some a, s') \<Rightarrow>
          if pa_AccountID a \<noteq> accountID then (Inr None, s')
          else if pa_Status a = ''confirmed'' then (Inr (Some a), s')
          else if hashes = [] \<or> length hashes > max 1 (length (pa_Offers a))
            then (Inl (ErrText ''transaction hashes do not match this action''), s')
          else if \<not> list_all validTransactionHash hashes then (Inl (ErrText ''invalid transaction hash''), s')
          else let a' = a\<lparr>pa_TransactionHashes := hashes, pa_Status := ''pending_chain''\<rparr>
               in (Inr (Some a'), AList.update i a' s'))"

definition action_Confirm ::
  "string \<Rightarrow> string \<Rightarrow> (string \<times> u64) list \<Rightarrow> actionStore \<Rightarrow> providerAction option \<times> actionStore" where
  "action_Confirm i accountID versions s =
     (case map_of s i of
        None \<Rightarrow> (None, s)
      | Some a \<Rightarrow>
          if pa_AccountID a \<noteq> accountID then (None, s)
          else let a' = a\<lparr>pa_Status := ''confirmed'', pa_Versions := versions\<rparr> in (Some a', AList.update i a' s))"

section \<open>The handlers\<close>

record action_auth =
  aa_Authorization :: string
  aa_machine :: "(string \<times> string) result option"
  aa_account :: "string result option"

definition action_identity :: "action_auth \<Rightarrow> (string \<times> string \<times> string) result" where
  "action_identity r =
     (if \<not> blank (aa_Authorization r) then
        (case aa_machine r of
           None \<Rightarrow> Inl (ErrText ''machine authentication unavailable'')
         | Some res \<Rightarrow> and_then res (\<lambda>(machineID, accountID). Inr (''machine'', machineID, accountID)))
      else (case aa_account r of
           None \<Rightarrow> Inl (ErrText ''account authentication unavailable'')
         | Some res \<Rightarrow> and_then res (\<lambda>accountID. Inr (''browser'', [], accountID))))"

datatype action_reply = ActionReply nat providerAction | ActionError nat

type_synonym prepare_fun = "string \<Rightarrow> string \<Rightarrow> string \<Rightarrow> providerActionInput \<Rightarrow> (string \<times> providerActionBaseline) result"
type_synonym verify_fun = "providerAction \<Rightarrow> ((string \<times> u64) list \<times> bool) result"

definition actions_create ::
  "prepare_fun option \<Rightarrow> bytes result \<Rightarrow> int \<Rightarrow> action_auth \<Rightarrow> providerActionInput result \<Rightarrow> actionStore \<Rightarrow> action_reply \<times> actionStore" where
  "actions_create prepare rnd now r body s =
     (case action_identity r of
        Inl _ \<Rightarrow> (ActionError 401, s)
      | Inr (source, machineID, accountID) \<Rightarrow>
          (case body of
             Inl _ \<Rightarrow> (ActionError 400, s)
           | Inr input \<Rightarrow>
               (case prepare of
                  None \<Rightarrow> (ActionError 503, s)
                | Some prep \<Rightarrow>
                    (case prep source machineID accountID input of
                       Inl _ \<Rightarrow> (ActionError 400, s)
                     | Inr (wallet, baseline) \<Rightarrow>
                         (case action_Create rnd now machineID accountID wallet input baseline s of
                            (Inl _, s') \<Rightarrow> (ActionError 400, s')
                          | (Inr action, s') \<Rightarrow> (ActionReply 201 action, s'))))))"

definition actions_get ::
  "verify_fun option \<Rightarrow> int \<Rightarrow> action_auth \<Rightarrow> string \<Rightarrow> actionStore \<Rightarrow> action_reply \<times> actionStore" where
  "actions_get verify now r i s =
     (case action_identity r of
        Inl _ \<Rightarrow> (ActionError 401, s)
      | Inr (source, machineID, accountID) \<Rightarrow>
          (case GetForAccount now i accountID s of
             (None, s') \<Rightarrow> (ActionError 404, s')
           | (Some action, s') \<Rightarrow>
               if source = ''machine'' \<and> pa_MachineID action \<noteq> machineID then (ActionError 404, s')
               else (case verify of
                 None \<Rightarrow> (ActionReply 200 action, s')
               | Some check \<Rightarrow>
                   if pa_Status action \<noteq> ''pending_chain'' then (ActionReply 200 action, s')
                   else (case check action of
                           Inl _ \<Rightarrow> (ActionError 503, s')
                         | Inr (versions, confirmed) \<Rightarrow>
                             if \<not> confirmed then (ActionReply 200 action, s')
                             else (case action_Confirm (pa_ID action) accountID versions s' of
                                     (None, s'') \<Rightarrow> (ActionError 404, s'')
                                   | (Some action', s'') \<Rightarrow> (ActionReply 200 action', s''))))))"

definition actions_submitted ::
  "int \<Rightarrow> action_auth \<Rightarrow> string \<Rightarrow> string list result \<Rightarrow> actionStore \<Rightarrow> action_reply \<times> actionStore" where
  "actions_submitted now r i body s =
     (case action_identity r of
        Inl _ \<Rightarrow> (ActionError 401, s)
      | Inr (source, _, accountID) \<Rightarrow>
          if source \<noteq> ''browser'' then (ActionError 404, s)
          else (case body of
                  Inl _ \<Rightarrow> (ActionError 400, s)
                | Inr hashes \<Rightarrow>
                    (case action_Submitted now i accountID hashes s of
                       (Inl _, s') \<Rightarrow> (ActionError 400, s')
                     | (Inr None, s') \<Rightarrow> (ActionError 404, s')
                     | (Inr (Some action), s') \<Rightarrow> (ActionReply 200 action, s'))))"

section \<open>Sequences of requests\<close>

datatype action_op =
    AcCreate "prepare_fun option" "bytes result" int action_auth "providerActionInput result"
  | AcGet "verify_fun option" int action_auth string
  | AcSubmit int action_auth string "string list result"

fun action_exec :: "action_op \<Rightarrow> actionStore \<Rightarrow> action_reply \<times> actionStore" where
  "action_exec (AcCreate prepare rnd now r body) s = actions_create prepare rnd now r body s"
| "action_exec (AcGet verify now r i) s = actions_get verify now r i s"
| "action_exec (AcSubmit now r i body) s = actions_submitted now r i body s"

text \<open>
  An action has at most 64 offers with different identifiers and waits for the wallet without transactions; it waits for
  the chain, or is confirmed, only with as many well-formed transaction hashes as its kind allows.
\<close>

definition hashes_ok :: "providerAction \<Rightarrow> bool" where
  "hashes_ok a \<longleftrightarrow> pa_TransactionHashes a \<noteq> [] \<and> length (pa_TransactionHashes a) \<le> max 1 (length (pa_Offers a))
     \<and> list_all validTransactionHash (pa_TransactionHashes a)"

definition action_ok :: "providerAction \<Rightarrow> bool" where
  "action_ok a \<longleftrightarrow> length (pa_Offers a) \<le> maxProviderActionOffers \<and> distinct (map po_OfferID (pa_Offers a))
     \<and> (pa_Status a = ''pending_wallet'' \<and> pa_TransactionHashes a = [] \<or> pa_Status a = ''pending_chain'' \<and> hashes_ok a
        \<or> pa_Status a = ''confirmed'' \<and> hashes_ok a)"

definition actions_ok :: "actionStore \<Rightarrow> bool" where
  "actions_ok s \<longleftrightarrow> distinct (map fst s) \<and> length s \<le> maxProviderActions \<and> (\<forall>(i, a) \<in> set s. pa_ID a = i \<and> action_ok a)"

lemma validate_offers_length: "validate_offers seen raw = Inr fs \<Longrightarrow> length fs = length raw"
  by (induction raw arbitrary: seen fs) (auto simp: Let_def split: if_splits)

lemma validate_offers_distinct:
  "validate_offers seen raw = Inr fs \<Longrightarrow> distinct (map po_OfferID fs) \<and> set (map po_OfferID fs) \<inter> set seen = {}"
  by (induction raw arbitrary: seen fs) (fastforce simp: Let_def split: if_splits)+

lemma validate_limit:
  "validateProviderActionInput raw = Inr input
   \<Longrightarrow> length (pi_Offers input) \<le> maxProviderActionOffers \<and> distinct (map po_OfferID (pi_Offers input))"
  by (auto simp: validateProviderActionInput_def Let_def dest: validate_offers_length validate_offers_distinct split: if_splits)

lemma update_length: "length (AList.update i a s) \<le> Suc (length s)" "i \<in> fst ` set s \<Longrightarrow> length (AList.update i a s) = length s"
  by (induction s) auto

lemma set_update: "x \<in> set (AList.update i a s) \<Longrightarrow> x = (i, a) \<or> x \<in> set s"
  by (induction s) (auto split: if_splits)

lemma actions_ok_filter: "actions_ok s \<Longrightarrow> actions_ok (filter P s)"
  by (auto simp: actions_ok_def distinct_map_filter intro: le_trans [OF length_filter_le])

lemma actions_ok_delete: "actions_ok s \<Longrightarrow> actions_ok (AList.delete i s)"
  by (simp add: AList.delete_eq actions_ok_filter)

lemma actions_ok_replace:
  assumes "actions_ok s" "map_of s i = Some a" "pa_ID a' = i" "action_ok a'"
  shows "actions_ok (AList.update i a' s)"
proof -
  have "i \<in> fst ` set s" using assms(2) by (metis map_of_eq_None_iff option.distinct(1))
  with assms show ?thesis
    by (auto simp: actions_ok_def update_length(2) intro: distinct_update dest!: set_update)
qed

lemma actions_ok_member: "actions_ok s \<Longrightarrow> map_of s i = Some a \<Longrightarrow> pa_ID a = i \<and> action_ok a"
  by (auto simp: actions_ok_def dest!: map_of_SomeD)

lemma create_ok: "actions_ok s \<Longrightarrow> actions_ok (snd (action_Create rnd now m acc w raw b s))"
proof -
  assume ok: "actions_ok s"
  have p: "actions_ok (purge now s)" using ok by (simp add: purge_def actions_ok_filter)
  have "actions_ok (AList.update i a (purge now s))" if "length (purge now s) < maxProviderActions" "pa_ID a = i" "action_ok a" for i a
    using p that update_length(1) [of i a "purge now s"]
    by (auto simp: actions_ok_def intro: distinct_update le_trans dest!: set_update)
  then show ?thesis
    using ok p validate_limit [of raw]
    by (auto simp: action_Create_def Let_def not_le action_ok_def split: sum.split)
qed

lemma live_action_ok:
  assumes "actions_ok s" "live_action now i s = (x, s')"
  shows "actions_ok s' \<and> (\<forall>a. x = Some a \<longrightarrow> s' = s \<and> map_of s i = Some a \<and> now < pa_ExpiresAt a)"
  using assms by (auto simp: live_action_def actions_ok_delete split: option.splits if_splits)

lemma submitted_ok: "actions_ok s \<Longrightarrow> actions_ok (snd (action_Submitted now i acc hs s))"
proof -
  assume ok: "actions_ok s"
  obtain x s' where l: "live_action now i s = (x, s')" by fastforce
  show ?thesis
  proof (cases x)
    case (Some a)
    then have a: "s' = s" "map_of s i = Some a" using live_action_ok [OF ok l] by auto
    have "pa_ID a = i" "length (pa_Offers a) \<le> maxProviderActionOffers" "distinct (map po_OfferID (pa_Offers a))"
      using actions_ok_member [OF ok a(2)] by (auto simp: action_ok_def)
    then have "actions_ok (AList.update i (a\<lparr>pa_TransactionHashes := hs, pa_Status := ''pending_chain''\<rparr>) s)"
      if "hs \<noteq> []" "\<not> length hs > max 1 (length (pa_Offers a))" "list_all validTransactionHash hs"
      using that by (intro actions_ok_replace [OF ok a(2)]) (auto simp: action_ok_def hashes_ok_def)
    then show ?thesis using ok a by (simp add: action_Submitted_def l Some Let_def del: max_less_iff_conj)
  qed (use live_action_ok [OF ok l] in \<open>simp add: action_Submitted_def l\<close>)
qed

lemma get_ok: "actions_ok s \<Longrightarrow> actions_ok (snd (actions_get verify now r i s))"
proof -
  assume ok: "actions_ok s"
  obtain x s' where l: "live_action now i s = (x, s')" by fastforce
  have s': "actions_ok s'" using live_action_ok [OF ok l] by blast
  show ?thesis
  proof (cases x)
    case None
    then show ?thesis
      using ok s' by (auto simp: actions_get_def GetForAccount_def l split: sum.split)
  next
    case (Some a)
    then have a: "s' = s" "map_of s i = Some a" using live_action_ok [OF ok l] by auto
    have pa: "pa_ID a = i" "action_ok a" using actions_ok_member [OF ok a(2)] by auto
    have "actions_ok (AList.update i (a\<lparr>pa_Status := ''confirmed'', pa_Versions := v\<rparr>) s)" if "pa_Status a = ''pending_chain''" for v
      using pa that by (intro actions_ok_replace [OF ok a(2)]) (auto simp: action_ok_def hashes_ok_def)
    then show ?thesis
      using ok a pa
      by (auto simp: actions_get_def GetForAccount_def action_Confirm_def l Some Let_def split: sum.split option.split)
  qed
qed

lemma action_exec_ok: "actions_ok s \<Longrightarrow> actions_ok (snd (action_exec op s))"
proof (cases op)
  case (AcCreate prepare rnd now r body)
  assume ok: "actions_ok s"
  have "actions_ok s'" if "action_Create rnd now m acc w raw b s = (x, s')" for m acc w raw b x s'
    using create_ok [OF ok, of rnd now m acc w raw b] that by simp
  then show ?thesis using ok by (auto simp: AcCreate actions_create_def split: sum.split option.split prod.split)
next
  case (AcGet verify now r i)
  assume "actions_ok s"
  then show ?thesis by (simp add: AcGet get_ok)
next
  case (AcSubmit now r i body)
  assume ok: "actions_ok s"
  have "actions_ok s'" if "action_Submitted now i acc hs s = (x, s')" for acc hs x s'
    using submitted_ok [OF ok, of now i acc hs] that by simp
  then show ?thesis using ok by (auto simp: AcSubmit actions_submitted_def split: sum.split option.split prod.split)
qed

text \<open>The store of provider actions is well-formed after every sequence of requests, whatever their callers, bodies,
  random bytes and clock readings: at most 1024 actions are kept, each under its own identifier, the at most 64 offers of an
  action have different identifiers, and an action is
  waiting for the chain or confirmed only with one to as many well-formed transaction hashes as it has offers.\<close>

lemma provider_actions_well_formed:
  "actions_ok (fold (\<lambda>op s. snd (action_exec op s)) ops NewProviderActionStore)"
proof -
  have "actions_ok s \<Longrightarrow> actions_ok (fold (\<lambda>op s. snd (action_exec op s)) ops s)" for s
    by (induction ops arbitrary: s) (simp_all add: action_exec_ok)
  moreover have "actions_ok NewProviderActionStore" by (simp add: NewProviderActionStore_def actions_ok_def)
  ultimately show ?thesis .
qed

section \<open>Accounts\<close>

text \<open>The account, the time and, for a creation, the new identifier of a request.\<close>

fun op_auth :: "action_op \<Rightarrow> action_auth" where
  "op_auth (AcCreate prepare rnd now r body) = r" | "op_auth (AcGet verify now r i) = r" | "op_auth (AcSubmit now r i body) = r"

fun op_time :: "action_op \<Rightarrow> int" where
  "op_time (AcCreate prepare rnd now r body) = now" | "op_time (AcGet verify now r i) = now" | "op_time (AcSubmit now r i body) = now"

fun op_new :: "action_op \<Rightarrow> string option" where
  "op_new (AcCreate prepare (Inr b) now r body) = Some (raw_url_encode b)" | "op_new _ = None"

lemma live_action_keeps:
  assumes "live_action now i s = (x, s')" "map_of s j = Some a" "now < pa_ExpiresAt a"
  shows "map_of s' j = Some a"
  using assms by (auto simp: live_action_def AList.delete_conv split: option.splits if_splits)

lemma create_keeps:
  assumes "action_Create rnd now m acc w raw b s = (x, s')" "map_of s j = Some a" "now < pa_ExpiresAt a"
    "\<And>bs. rnd = Inr bs \<Longrightarrow> raw_url_encode bs \<noteq> j" "distinct (map fst s)"
  shows "map_of s' j = Some a"
proof -
  have "(j, a) \<in> set (purge now s)" using assms(2,3) by (auto simp: purge_def dest: map_of_SomeD)
  moreover have "distinct (map fst (purge now s))" using assms(5) by (simp add: purge_def distinct_map_filter)
  ultimately have "map_of (purge now s) j = Some a" by simp
  with assms show ?thesis
    by (auto simp: action_Create_def Let_def update_conv' split: if_splits sum.splits)
qed

lemma get_keeps:
  assumes "actions_ok s" "map_of s j = Some a" "now < pa_ExpiresAt a"
    and r: "action_identity r = Inr (source, machineID, accountID)" and foreign: "pa_AccountID a \<noteq> accountID"
  shows "map_of (snd (actions_get verify now r i s)) j = Some a
    \<and> (case fst (actions_get verify now r i s) of ActionReply code b \<Rightarrow> pa_AccountID b = accountID | ActionError code \<Rightarrow> True)"
proof -
  obtain x s' where l: "live_action now i s = (x, s')" by fastforce
  have keep: "map_of s' j = Some a" using live_action_keeps [OF l assms(2,3)] .
  show ?thesis
  proof (cases "\<exists>b. x = Some b \<and> pa_AccountID b = accountID")
    case True
    then obtain b where x: "x = Some b" "pa_AccountID b = accountID" by blast
    then have b: "s' = s" "map_of s i = Some b" "pa_ID b = i"
      using live_action_ok [OF assms(1) l] actions_ok_member [OF assms(1)] by auto
    then have "i \<noteq> j" using assms(2) foreign x(2) by auto
    then have "map_of (AList.update i b' s) j = Some a" for b' using assms(2) by (simp add: update_conv')
    then show ?thesis
      using assms(2) b x(2)
      by (simp add: actions_get_def GetForAccount_def action_Confirm_def l r x(1) Let_def split: option.split sum.split prod.split)
  qed (use keep in \<open>auto simp: actions_get_def GetForAccount_def l r split: option.split\<close>)
qed

text \<open>Accounts do not see or touch each other's provider actions: a request of one account leaves every live action
  of another account as it is, unless the random identifier of a new action collides with it, and whatever action
  the reply carries belongs to the caller's account.\<close>

lemma provider_actions_isolated:
  assumes "actions_ok s" "map_of s j = Some a" "op_time op < pa_ExpiresAt a" "op_new op \<noteq> Some j"
    "action_identity (op_auth op) = Inr (source, machineID, accountID)" "pa_AccountID a \<noteq> accountID"
  shows "map_of (snd (action_exec op s)) j = Some a
    \<and> (case fst (action_exec op s) of ActionReply code b \<Rightarrow> pa_AccountID b = accountID | ActionError code \<Rightarrow> True)"
proof (cases op)
  case (AcCreate prepare rnd now r body)
  have d: "distinct (map fst s)" using assms(1) by (simp add: actions_ok_def)
  have "map_of s' j = Some a \<and> (\<forall>b'. x = Inr b' \<longrightarrow> pa_AccountID b' = accountID)"
    if "action_Create rnd now machineID accountID w raw bl s = (x, s')" for w raw bl x s'
    using create_keeps [OF that assms(2) _ _ d] that assms(3,4) AcCreate
    by (cases rnd) (auto simp: action_Create_def Let_def split: if_splits sum.splits)
  then show ?thesis
    using assms(2,5) by (auto simp: AcCreate actions_create_def split: sum.split option.split prod.split)
next
  case (AcGet verify now r i)
  then show ?thesis using get_keeps [OF assms(1,2) _ _ assms(6), of now r source machineID verify i] assms(3,5) by simp
next
  case (AcSubmit now r i body)
  obtain x s' where l: "live_action now i s = (x, s')" by fastforce
  have keep: "map_of s' j = Some a" using live_action_keeps [OF l assms(2)] assms(3) by (simp add: AcSubmit)
  have x: "x = Some b \<Longrightarrow> s' = s \<and> map_of s i = Some b" for b using live_action_ok [OF assms(1) l] by auto
  have "map_of s'' j = Some a \<and> (\<forall>b. y = Inr (Some b) \<longrightarrow> pa_AccountID b = accountID)"
    if "action_Submitted now i accountID hs s = (y, s'')" for hs y s''
    using that keep x assms(2,6)
    by (auto simp: action_Submitted_def l update_conv' Let_def split: option.splits if_splits)
  then show ?thesis
    using assms(2,5) by (auto simp: AcSubmit actions_submitted_def split: sum.split option.split prod.split)
qed

section \<open>Example\<close>

definition demo_input :: providerActionInput where
  "demo_input = \<lparr>pi_Kind = ''deposit_collateral'', pi_AmountWei = ''5'', pi_Offers = []\<rparr>"

definition demo_baseline :: providerActionBaseline where
  "demo_baseline = \<lparr>pb_BondWei = ''0'', pb_ClaimableWei = ''0'', pb_ExitAvailableAt = 0, pb_Versions = []\<rparr>"

definition demo_actions :: actionStore where
  "demo_actions = snd (action_Create (Inr [0, 0, 0]) 1 ''m'' ''a'' ''w'' demo_input demo_baseline [])"

definition demo_foreign :: action_op where
  "demo_foreign = AcGet None 2 \<lparr>aa_Authorization = [], aa_machine = None, aa_account = Some (Inr ''b'')\<rparr> ''AAAA''"

lemma provider_actions_isolated_witness:
  "\<exists>a. map_of demo_actions ''AAAA'' = Some a \<and> map_of (snd (action_exec demo_foreign demo_actions)) ''AAAA'' = Some a"
proof -
  have "case map_of demo_actions ''AAAA'' of None \<Rightarrow> False | Some a \<Rightarrow> 2 < pa_ExpiresAt a \<and> pa_AccountID a \<noteq> ''b''"
    by code_simp
  then obtain a where a: "map_of demo_actions ''AAAA'' = Some a" "op_time demo_foreign < pa_ExpiresAt a" "pa_AccountID a \<noteq> ''b''"
    by (auto simp: demo_foreign_def split: option.splits)
  have ok: "actions_ok demo_actions"
    unfolding demo_actions_def by (rule create_ok) (simp add: actions_ok_def)
  have auth: "action_identity (op_auth demo_foreign) = Inr (''browser'', [], ''b'')" "op_new demo_foreign \<noteq> Some ''AAAA''"
  proof -
    have "blank []" by code_simp
    then show "action_identity (op_auth demo_foreign) = Inr (''browser'', [], ''b'')" by (simp add: demo_foreign_def action_identity_def)
  qed (simp add: demo_foreign_def)
  from provider_actions_isolated [OF ok a(1,2) auth(2,1) a(3)] a(1) show ?thesis by blast
qed

end
