(* ===== verification/ProviderAccounts.thy ===== *)
theory ProviderAccounts
  imports ProviderActions RoutingStore
begin

text \<open>
  What a provider's account shows and what a provider action is checked against: the queries of
  \<^verbatim>\<open>server/internal/store/provider_account.go\<close>, the handler of
  \<^verbatim>\<open>server/internal/api/provider_account.go\<close>, and the preparation and verification that the broker passes to the
  action store (\<^verbatim>\<open>server/cmd/myference-server/provider_actions.go\<close>). The reading of a numeric literal by the
  database is the argument \<open>pg\<close>: an error for a text that is no number, \<open>None\<close> for a number that is no integer.
\<close>

section \<open>Types\<close>

record providerAccountConfig =
  pc_ChainID :: u64
  pc_ContractAddress :: string
  pc_ExplorerURL :: string
  pc_Confirmations :: u64
  pc_MinimumBondWei :: string

record editableOffer =
  eo_OfferID :: string
  eo_Model :: string
  eo_BackendKind :: string
  eo_Capabilities :: "string list"
  eo_MeteringMode :: string
  eo_Version :: u64
  eo_InputPerMillionWei :: string
  eo_OutputPerMillionWei :: string
  eo_ComputePerSecondWei :: string

record providerAccount =
  pv_ChainID :: u64
  pv_ContractAddress :: string
  pv_ExplorerURL :: string
  pv_Confirmations :: u64
  pv_WalletAddress :: string
  pv_MinimumBondWei :: string
  pv_ProviderBondWei :: string
  pv_ClaimableWei :: string
  pv_ProviderEarningsWei :: string
  pv_BondExitAvailableAt :: u64
  pv_Offers :: "editableOffer list"

record providerOfferQuery =
  pq_OfferID :: string
  pq_OfferHash :: string
  pq_ModelHash :: string
  pq_CapabilityHash :: string
  pq_InputPerMillionWei :: string
  pq_OutputPerMillionWei :: string
  pq_ComputePerSecondWei :: string

record providerActionState =
  ps_WalletAddress :: string
  ps_BondWei :: string
  ps_ClaimableWei :: string
  ps_ExitAvailableAt :: u64
  ps_LatestVersions :: "(string \<times> u64) list"
  ps_MatchingVersions :: "(string \<times> u64) list"

type_synonym pg_numeric = "string \<Rightarrow> int option result"

section \<open>Queries\<close>

text \<open>A \<^verbatim>\<open>bigint\<close> scanned into a \<^verbatim>\<open>uint64\<close> must not be negative.\<close>

definition scan_uint64 :: "int \<Rightarrow> u64 result" where
  "scan_uint64 i = (if i < 0 then Inl (ErrText ''converting a negative value to uint64'') else Inr (of_int i))"

text \<open>\<^verbatim>\<open>chain_id=$1 AND lower(contract_address)=lower($2)\<close> and the wallet.\<close>

definition on_deployment :: "providerAccountConfig \<Rightarrow> deployment \<Rightarrow> bool" where
  "on_deployment cfg d \<longleftrightarrow> fst d = decimal (pc_ChainID cfg) \<and> to_lower (snd d) = to_lower (pc_ContractAddress cfg)"

definition wallet_of :: "db \<Rightarrow> string \<Rightarrow> string result" where
  "wallet_of db accountID = and_then (select_one (\<lambda>a. ac_id a = accountID) (accounts db)) (\<lambda>a. Inr (ac_wallet_address a))"

text \<open>Bond, claimable amount and exit time of the wallet; zeros when the chain does not know it.\<close>

definition chain_balances :: "faults \<Rightarrow> nat \<Rightarrow> db \<Rightarrow> providerAccountConfig \<Rightarrow> string \<Rightarrow> (string \<times> string \<times> u64) result" where
  "chain_balances flt k db cfg wallet =
     (case stmt flt k (and_then (int8_arg (pc_ChainID cfg)) (\<lambda>_.
              select_one (\<lambda>r. on_deployment cfg (ca_deployment r) \<and> to_lower (ca_address r) = to_lower wallet) (chain_accounts db))) of
        Inl e \<Rightarrow> if e = ErrNoRows then Inr (''0'', ''0'', 0) else Inl e
      | Inr r \<Rightarrow> and_then (scan_uint64 (ca_bond_exit_available_at r)) (\<lambda>exit.
          Inr (int_string (ca_provider_bond r), int_string (ca_claimable r), exit)))"

text \<open>\<^verbatim>\<open>max(version)\<close> over the chosen rows; \<open>None\<close> is \<^verbatim>\<open>NULL\<close>.\<close>

definition max_version :: "(chain_offer_row \<Rightarrow> bool) \<Rightarrow> chain_offer_row list \<Rightarrow> int option" where
  "max_version P tbl = (case map co_version (filter P tbl) of [] \<Rightarrow> None | v # vs \<Rightarrow> Some (foldl max v vs))"

definition wallet_offer :: "providerAccountConfig \<Rightarrow> string \<Rightarrow> chain_offer_row \<Rightarrow> bool" where
  "wallet_offer cfg wallet f \<longleftrightarrow> on_deployment cfg (co_deployment f) \<and> to_lower (co_provider f) = to_lower wallet"

definition same_terms :: "providerOfferQuery \<Rightarrow> int option \<Rightarrow> int option \<Rightarrow> int option \<Rightarrow> chain_offer_row \<Rightarrow> bool" where
  "same_terms q input output compute f \<longleftrightarrow> co_offer_id f = pq_OfferHash q \<and> co_model_hash f = pq_ModelHash q
     \<and> co_capability_hash f = pq_CapabilityHash q \<and> Some (co_input_per_million f) = input
     \<and> Some (co_output_per_million f) = output \<and> Some (co_compute_per_second f) = compute"

definition record_version :: "string \<Rightarrow> int option \<Rightarrow> (string \<times> u64) list \<Rightarrow> (string \<times> u64) list" where
  "record_version i v m = (case v of None \<Rightarrow> m | Some x \<Rightarrow> AList.update i (of_int x) m)"

fun versions_loop ::
  "pg_numeric \<Rightarrow> faults \<Rightarrow> nat \<Rightarrow> db \<Rightarrow> providerAccountConfig \<Rightarrow> string \<Rightarrow> providerOfferQuery list \<Rightarrow> providerActionState \<Rightarrow> providerActionState result" where
  "versions_loop pg flt k db cfg wallet [] st = Inr st"
| "versions_loop pg flt k db cfg wallet (q # qs) st =
     and_then (stmt flt k (and_then (int8_arg (pc_ChainID cfg)) (\<lambda>_.
        Inr (max_version (\<lambda>f. wallet_offer cfg wallet f \<and> co_offer_id f = pq_OfferHash q) (chain_offers db))))) (\<lambda>latest.
     and_then (stmt flt (k + 1) (and_then (int8_arg (pc_ChainID cfg)) (\<lambda>_.
        and_then (pg (pq_InputPerMillionWei q)) (\<lambda>input.
        and_then (pg (pq_OutputPerMillionWei q)) (\<lambda>outputRate.
        and_then (pg (pq_ComputePerSecondWei q)) (\<lambda>compute.
        Inr (max_version (\<lambda>f. wallet_offer cfg wallet f \<and> same_terms q input outputRate compute f) (chain_offers db)))))))) (\<lambda>matching.
     versions_loop pg flt (k + 2) db cfg wallet qs
       (st\<lparr>ps_LatestVersions := record_version (pq_OfferID q) latest (ps_LatestVersions st),
           ps_MatchingVersions := record_version (pq_OfferID q) matching (ps_MatchingVersions st)\<rparr>)))"

definition ProviderActionState ::
  "pg_numeric \<Rightarrow> faults \<Rightarrow> db \<Rightarrow> string \<Rightarrow> providerAccountConfig \<Rightarrow> providerOfferQuery list \<Rightarrow> providerActionState result" where
  "ProviderActionState pg flt db accountID cfg queries =
     and_then (stmt flt 0 (wallet_of db accountID)) (\<lambda>wallet.
     and_then (chain_balances flt 1 db cfg wallet) (\<lambda>(bond, claimable, exit).
     versions_loop pg flt 2 db cfg wallet queries
       \<lparr>ps_WalletAddress = wallet, ps_BondWei = bond, ps_ClaimableWei = claimable, ps_ExitAvailableAt = exit,
        ps_LatestVersions = [], ps_MatchingVersions = []\<rparr>))"

definition MachineBelongsToAccount :: "faults \<Rightarrow> db \<Rightarrow> string \<Rightarrow> string \<Rightarrow> bool result" where
  "MachineBelongsToAccount flt db machineID accountID =
     stmt flt 0 (Inr (exists_row (\<lambda>m. ma_id m = machineID \<and> ma_account_id m = accountID \<and> ma_revoked_at m = None) (machines db)))"

section \<open>The account view\<close>

text \<open>The routes of the account's machines joined with the offers that the wallet published for them.\<close>

definition route_offers :: "db \<Rightarrow> (machine_row \<Rightarrow> bool) \<Rightarrow> providerAccountConfig \<Rightarrow> string \<Rightarrow> (routing_row \<times> chain_offer_row) list" where
  "route_offers db owned cfg wallet =
     filter (\<lambda>(r, f). exists_row (\<lambda>m. ma_id m = ro_machine_id r \<and> owned m) (machines db) \<and> wallet_offer cfg wallet f
         \<and> Some (co_offer_id f) = ro_offer_hash r \<and> Some (co_model_hash f) = ro_model_hash r
         \<and> Some (co_capability_hash f) = ro_capability_hash r)
       (List.product (routing db) (chain_offers db))"

text \<open>\<^verbatim>\<open>SELECT DISTINCT ON (offer_id) ... ORDER BY offer_id, version DESC\<close>: the newest version per offer.\<close>

definition newest_offers :: "(routing_row \<times> chain_offer_row) list \<Rightarrow> (routing_row \<times> chain_offer_row) list" where
  "newest_offers rows =
     map hd (map (\<lambda>i. sort_key (\<lambda>(r, f). - co_version f) (filter (\<lambda>(r, f). ro_offer_id r = i) rows))
       (sort (remdups (map (ro_offer_id \<circ> fst) rows))))"

fun scan_offers :: "(routing_row \<times> chain_offer_row) list \<Rightarrow> editableOffer list result" where
  "scan_offers [] = Inr []"
| "scan_offers ((r, f) # rows) =
     and_then (scan_text (ro_backend_kind r)) (\<lambda>kind.
     and_then (scan_uint64 (co_version f)) (\<lambda>version.
     and_then (scan_offers rows) (\<lambda>rest.
     Inr (\<lparr>eo_OfferID = ro_offer_id r, eo_Model = ro_model r, eo_BackendKind = kind, eo_Capabilities = ro_capabilities r,
        eo_MeteringMode = ro_metering_mode r, eo_Version = version,
        eo_InputPerMillionWei = int_string (co_input_per_million f),
        eo_OutputPerMillionWei = int_string (co_output_per_million f),
        eo_ComputePerSecondWei = int_string (co_compute_per_second f)\<rparr> # rest))))"

definition ProviderAccount :: "faults \<Rightarrow> db \<Rightarrow> string \<Rightarrow> providerAccountConfig \<Rightarrow> providerAccount result" where
  "ProviderAccount flt db accountID cfg =
     and_then (stmt flt 0 (wallet_of db accountID)) (\<lambda>wallet.
     and_then (chain_balances flt 1 db cfg wallet) (\<lambda>(bond, claimable, exit).
     and_then (stmt flt 2 (and_then (int8_arg (pc_ChainID cfg)) (\<lambda>_.
        Inr (sum_rows ct_provider_amount (\<lambda>r. on_deployment cfg (ct_deployment r) \<and> to_lower (ct_provider r) = to_lower wallet)
          (chain_settlements db))))) (\<lambda>earned.
     and_then (stmt flt 3 (and_then (int8_arg (pc_ChainID cfg)) (\<lambda>_.
        scan_offers (newest_offers (route_offers db (\<lambda>m. ma_account_id m = accountID) cfg wallet))))) (\<lambda>rows.
     Inr \<lparr>pv_ChainID = pc_ChainID cfg, pv_ContractAddress = to_lower (pc_ContractAddress cfg),
        pv_ExplorerURL = pc_ExplorerURL cfg, pv_Confirmations = pc_Confirmations cfg, pv_WalletAddress = wallet,
        pv_MinimumBondWei = pc_MinimumBondWei cfg, pv_ProviderBondWei = bond, pv_ClaimableWei = claimable,
        pv_ProviderEarningsWei = int_string earned, pv_BondExitAvailableAt = exit, pv_Offers = rows\<rparr>))))"

fun scan_versions :: "(string \<times> chain_offer_row list) list \<Rightarrow> (string \<times> u64) list result" where
  "scan_versions [] = Inr []"
| "scan_versions ((i, fs) # rows) =
     and_then (scan_uint64 (Max (set (map co_version fs)))) (\<lambda>version.
     and_then (scan_versions rows) (\<lambda>rest. Inr ((i, version) # rest)))"

text \<open>\<^verbatim>\<open>SELECT offer_id, max(version) ... GROUP BY offer_id\<close>\<close>

definition MachineOfferVersions :: "faults \<Rightarrow> db \<Rightarrow> string \<Rightarrow> string \<Rightarrow> providerAccountConfig \<Rightarrow> (string \<times> u64) list result" where
  "MachineOfferVersions flt db machineID accountID cfg =
     stmt flt 0 (and_then (int8_arg (pc_ChainID cfg)) (\<lambda>_.
       (case wallet_of db accountID of
          Inl _ \<Rightarrow> Inr []
        | Inr wallet \<Rightarrow>
            let rows = route_offers db (\<lambda>m. ma_id m = machineID \<and> ma_account_id m = accountID) cfg wallet
            in scan_versions (map (\<lambda>i. (i, map snd (filter (\<lambda>(r, f). ro_offer_id r = i) rows)))
                 (remdups (map (ro_offer_id \<circ> fst) rows))))))"

section \<open>The account handler\<close>

datatype account_reply = AccountView providerAccount | VersionsView "(string \<times> u64) list" | AccountError nat

definition handle_account :: "faults \<Rightarrow> db \<Rightarrow> providerAccountConfig \<Rightarrow> action_auth \<Rightarrow> account_reply" where
  "handle_account flt db cfg r =
     (case action_identity r of
        Inl _ \<Rightarrow> AccountError 401
      | Inr (_, _, accountID) \<Rightarrow>
          (case ProviderAccount flt db accountID cfg of
             Inl _ \<Rightarrow> AccountError 503
           | Inr account \<Rightarrow> AccountView account))"

definition handle_versions :: "faults \<Rightarrow> db \<Rightarrow> providerAccountConfig \<Rightarrow> (string \<times> string) result \<Rightarrow> string \<Rightarrow> account_reply" where
  "handle_versions flt db cfg machineAuth machine =
     (case machineAuth of
        Inl _ \<Rightarrow> AccountError 401
      | Inr (machineID, accountID) \<Rightarrow>
          if machineID \<noteq> machine then AccountError 404
          else (case MachineOfferVersions flt db machineID accountID cfg of
                  Inl _ \<Rightarrow> AccountError 503
                | Inr versions \<Rightarrow> VersionsView versions))"

section \<open>Preparation and verification of actions\<close>

definition offer_query :: "eth \<Rightarrow> providerActionOffer \<Rightarrow> providerOfferQuery" where
  "offer_query G f =
     \<lparr>pq_OfferID = po_OfferID f, pq_OfferHash = keccak_hex G (po_OfferID f), pq_ModelHash = keccak_hex G (po_Model f),
      pq_CapabilityHash = keccak_hex G (join_with (CHR '','' ) (sort (po_Capabilities f))),
      pq_InputPerMillionWei = po_InputPerMillionWei f, pq_OutputPerMillionWei = po_OutputPerMillionWei f,
      pq_ComputePerSecondWei = po_ComputePerSecondWei f\<rparr>"

definition providerOfferQueries :: "eth \<Rightarrow> providerActionOffer list \<Rightarrow> providerOfferQuery list" where
  "providerOfferQueries G fs = map (offer_query G) fs"

definition decimalBig :: "string \<Rightarrow> int option" where
  "decimalBig value = (case big_set_string value of None \<Rightarrow> None | Some i \<Rightarrow> if i < 0 then None else Some i)"

definition sameOfferIdentity :: "editableOffer \<Rightarrow> providerActionOffer \<Rightarrow> bool" where
  "sameOfferIdentity existing requested \<longleftrightarrow> eo_Model existing = po_Model requested \<and> eo_BackendKind existing = po_Kind requested
     \<and> eo_MeteringMode existing = po_MeteringMode requested \<and> sort (eo_Capabilities existing) = sort (po_Capabilities requested)"

definition validateProviderActionState :: "providerActionInput \<Rightarrow> providerActionState \<Rightarrow> string \<Rightarrow> unit result" where
  "validateProviderActionState input st minimumBond =
     (if pi_Kind input = ''publish_offer'' then
        (case (decimalBig (ps_BondWei st), decimalBig minimumBond) of
           (Some bond, Some minimum) \<Rightarrow>
             if bond < minimum \<or> ps_ExitAvailableAt st \<noteq> 0
             then Inl (ErrText ''provider collateral is insufficient or exiting'') else Inr ()
         | _ \<Rightarrow> Inl (ErrText ''provider collateral is insufficient or exiting''))
      else if pi_Kind input = ''deposit_collateral'' then
        (if ps_ExitAvailableAt st \<noteq> 0 then Inl (ErrText ''collateral cannot be deposited during an exit'') else Inr ())
      else if pi_Kind input = ''request_collateral_exit'' then
        (if ps_BondWei st = ''0'' \<or> ps_ExitAvailableAt st \<noteq> 0 then Inl (ErrText ''collateral exit is unavailable'') else Inr ())
      else if pi_Kind input = ''finalize_collateral_exit'' then
        (if ps_ExitAvailableAt st = 0 then Inl (ErrText ''collateral exit is not ready'') else Inr ())
      else Inr ())"

definition identity_known :: "editableOffer list \<Rightarrow> providerActionOffer \<Rightarrow> bool" where
  "identity_known known requested =
     (case find (\<lambda>existing. eo_OfferID existing = po_OfferID requested) known of
        None \<Rightarrow> False
      | Some existing \<Rightarrow> sameOfferIdentity existing requested)"

text \<open>Each of the three queries has its own faults.\<close>

definition prepareProviderAction ::
  "eth \<Rightarrow> pg_numeric \<Rightarrow> (nat \<Rightarrow> faults) \<Rightarrow> db \<Rightarrow> providerAccountConfig \<Rightarrow> prepare_fun" where
  "prepareProviderAction G pg flts db cfg source machineID accountID input =
     and_then
       (if source = ''machine'' then
          (case MachineBelongsToAccount (flts 0) db machineID accountID of
             Inr True \<Rightarrow> Inr ()
           | _ \<Rightarrow> Inl (ErrText ''machine does not belong to this account''))
        else Inr ()) (\<lambda>_.
     and_then (ProviderActionState pg (flts 1) db accountID cfg (providerOfferQueries G (pi_Offers input))) (\<lambda>st.
     and_then
       (if source = ''browser'' \<and> pi_Kind input = ''publish_offer'' then
          and_then (ProviderAccount (flts 2) db accountID cfg) (\<lambda>account.
            if list_all (identity_known (pv_Offers account)) (pi_Offers input) then Inr ()
            else Inl (ErrText ''web pricing may only update an existing offer identity''))
        else Inr ()) (\<lambda>_.
     and_then (validateProviderActionState input st (pc_MinimumBondWei cfg)) (\<lambda>_.
     Inr (ps_WalletAddress st, \<lparr>pb_BondWei = ps_BondWei st, pb_ClaimableWei = ps_ClaimableWei st,
        pb_ExitAvailableAt = ps_ExitAvailableAt st, pb_Versions = ps_LatestVersions st\<rparr>)))))"

text \<open>A Go map read at a missing key gives zero.\<close>

definition version_at :: "(string \<times> u64) list \<Rightarrow> string \<Rightarrow> u64" where
  "version_at m i = (case map_of m i of None \<Rightarrow> 0 | Some v \<Rightarrow> v)"

fun confirmed_versions :: "(string \<times> u64) list \<Rightarrow> (string \<times> u64) list \<Rightarrow> providerActionOffer list \<Rightarrow> (string \<times> u64) list \<Rightarrow> (string \<times> u64) list \<times> bool" where
  "confirmed_versions before matching [] versions = (versions, True)"
| "confirmed_versions before matching (f # fs) versions =
     (let version = version_at matching (po_OfferID f)
      in if version = 0 \<or> version \<le> version_at before (po_OfferID f) then ([], False)
         else confirmed_versions before matching fs (AList.update (po_OfferID f) version versions))"

definition providerActionConfirmed :: "providerAction \<Rightarrow> providerActionState \<Rightarrow> (string \<times> u64) list \<times> bool" where
  "providerActionConfirmed action st =
     (let baseline = pa_Baseline action
      in if pa_Kind action = ''publish_offer'' then
           confirmed_versions (pb_Versions baseline) (ps_MatchingVersions st) (pa_Offers action) []
         else if pa_Kind action = ''deposit_collateral'' then
           ([], case (decimalBig (pb_BondWei baseline), decimalBig (pa_AmountWei action), decimalBig (ps_BondWei st)) of
                  (Some before, Some amount, Some current) \<Rightarrow> current \<ge> before + amount
                | _ \<Rightarrow> False)
         else if pa_Kind action = ''request_collateral_exit'' then
           ([], pb_ExitAvailableAt baseline = 0 \<and> ps_ExitAvailableAt st > 0)
         else if pa_Kind action = ''finalize_collateral_exit'' then
           ([], pb_ExitAvailableAt baseline > 0 \<and> ps_ExitAvailableAt st = 0 \<and> ps_BondWei st = ''0'')
         else ([], False))"

definition verifyProviderAction :: "eth \<Rightarrow> pg_numeric \<Rightarrow> faults \<Rightarrow> db \<Rightarrow> providerAccountConfig \<Rightarrow> verify_fun" where
  "verifyProviderAction G pg flt db cfg action =
     and_then (ProviderActionState pg flt db (pa_AccountID action) cfg (providerOfferQueries G (pa_Offers action))) (\<lambda>st.
     Inr (providerActionConfirmed action st))"

section \<open>What the state of an action reads from the chain\<close>

lemma foldl_max_mem: "foldl max (v :: 'a :: linorder) vs \<in> set (v # vs)"
  by (induction vs arbitrary: v) (auto simp: max_def split: if_splits)

lemma max_version_Some: "max_version P tbl = Some v \<Longrightarrow> \<exists>f \<in> set tbl. P f \<and> co_version f = v"
proof -
  assume v: "max_version P tbl = Some v"
  then obtain w ws where w: "map co_version (filter P tbl) = w # ws" "foldl max w ws = v"
    by (auto simp: max_version_def split: list.splits)
  then have "v \<in> set (map co_version (filter P tbl))" using foldl_max_mem [of w ws] by simp
  then show ?thesis by auto
qed

text \<open>An offer is on the chain as a row with its hashes and its rates.\<close>

definition published_as :: "eth \<Rightarrow> pg_numeric \<Rightarrow> providerActionOffer \<Rightarrow> chain_offer_row \<Rightarrow> bool" where
  "published_as G pg f row \<longleftrightarrow> co_offer_id row = keccak_hex G (po_OfferID f) \<and> co_model_hash row = keccak_hex G (po_Model f)
     \<and> co_capability_hash row = keccak_hex G (join_with (CHR '','' ) (sort (po_Capabilities f)))
     \<and> pg (po_InputPerMillionWei f) = Inr (Some (co_input_per_million row))
     \<and> pg (po_OutputPerMillionWei f) = Inr (Some (co_output_per_million row))
     \<and> pg (po_ComputePerSecondWei f) = Inr (Some (co_compute_per_second row))"

definition chain_row :: "db \<Rightarrow> providerAccountConfig \<Rightarrow> string \<Rightarrow> chain_account_row option" where
  "chain_row db cfg wallet =
     find (\<lambda>r. on_deployment cfg (ca_deployment r) \<and> to_lower (ca_address r) = to_lower wallet) (chain_accounts db)"

definition bond_now :: "db \<Rightarrow> providerAccountConfig \<Rightarrow> string \<Rightarrow> int" where
  "bond_now db cfg wallet = (case chain_row db cfg wallet of None \<Rightarrow> 0 | Some r \<Rightarrow> ca_provider_bond r)"

definition exit_now :: "db \<Rightarrow> providerAccountConfig \<Rightarrow> string \<Rightarrow> u64" where
  "exit_now db cfg wallet = (case chain_row db cfg wallet of None \<Rightarrow> 0 | Some r \<Rightarrow> of_int (ca_bond_exit_available_at r))"

lemma int_string_zero: "int_string 0 = ''0''" "int_string i = ''0'' \<longleftrightarrow> i = 0"
proof -
  show z: "int_string 0 = ''0''" by code_simp
  show "int_string i = ''0'' \<longleftrightarrow> i = 0" by (metis z big_set_string_int_string option.inject)
qed

lemma chain_balances_Inr:
  assumes "chain_balances flt k db cfg wallet = Inr (bond, claimable, exit)" "flt k \<noteq> Some ErrNoRows"
  shows "bond = int_string (bond_now db cfg wallet) \<and> exit = exit_now db cfg wallet"
  using assms
  by (auto simp: chain_balances_def bond_now_def exit_now_def chain_row_def select_one_def scan_uint64_def
      stmt_def int8_arg_def int_string_zero split: option.splits sum.splits if_splits)

definition matched :: "eth \<Rightarrow> pg_numeric \<Rightarrow> db \<Rightarrow> providerAccountConfig \<Rightarrow> string \<Rightarrow> providerActionOffer list \<Rightarrow> (string \<times> u64) list \<Rightarrow> bool" where
  "matched G pg db cfg wallet fs m \<longleftrightarrow> (\<forall>i v. map_of m i = Some v \<longrightarrow>
     (\<exists>f \<in> set fs. po_OfferID f = i \<and> (\<exists>row \<in> set (chain_offers db). wallet_offer cfg wallet row \<and> published_as G pg f row
        \<and> v = of_int (co_version row))))"

lemma matched_step:
  assumes "matched G pg db cfg wallet fs m" "f \<in> set fs"
    and "\<And>v. matching = Some v \<Longrightarrow> \<exists>row \<in> set (chain_offers db). wallet_offer cfg wallet row \<and> published_as G pg f row \<and> co_version row = v"
  shows "matched G pg db cfg wallet fs (record_version (po_OfferID f) matching m)"
  using assms by (fastforce simp: matched_def record_version_def update_conv' split: option.splits if_splits)

lemma versions_loop_matched:
  assumes "versions_loop pg flt k db cfg wallet (map (offer_query G) gs) st = Inr st'" "set gs \<subseteq> set fs"
    and "matched G pg db cfg wallet fs (ps_MatchingVersions st)"
  shows "matched G pg db cfg wallet fs (ps_MatchingVersions st') \<and> ps_WalletAddress st' = ps_WalletAddress st
    \<and> ps_BondWei st' = ps_BondWei st \<and> ps_ExitAvailableAt st' = ps_ExitAvailableAt st"
  using assms
proof (induction gs arbitrary: k st)
  case (Cons g gs)
  let ?q = "offer_query G g"
  obtain latest matching input outputRate compute where step:
    "versions_loop pg flt (k + 2) db cfg wallet (map (offer_query G) gs)
       (st\<lparr>ps_LatestVersions := record_version (pq_OfferID ?q) latest (ps_LatestVersions st),
           ps_MatchingVersions := record_version (pq_OfferID ?q) matching (ps_MatchingVersions st)\<rparr>) = Inr st'"
    "pg (pq_InputPerMillionWei ?q) = Inr input" "pg (pq_OutputPerMillionWei ?q) = Inr outputRate"
    "pg (pq_ComputePerSecondWei ?q) = Inr compute"
    "max_version (\<lambda>f. wallet_offer cfg wallet f \<and> same_terms ?q input outputRate compute f) (chain_offers db) = matching"
    using Cons.prems(1) by (auto)
  have "\<exists>row \<in> set (chain_offers db). wallet_offer cfg wallet row \<and> published_as G pg g row \<and> co_version row = v" if "matching = Some v" for v
    using step(2-) that by (auto simp: same_terms_def published_as_def offer_query_def dest!: max_version_Some)
  then have "matched G pg db cfg wallet fs (record_version (po_OfferID g) matching (ps_MatchingVersions st))"
    using Cons.prems by (intro matched_step) auto
  with Cons.IH [OF step(1)] Cons.prems(2) show ?case by (simp add: offer_query_def)
qed simp

lemma action_state:
  assumes "ProviderActionState pg flt db accountID cfg (providerOfferQueries G fs) = Inr st" "flt 1 \<noteq> Some ErrNoRows"
  obtains wallet where "wallet_of db accountID = Inr wallet" "ps_WalletAddress st = wallet"
    "ps_BondWei st = int_string (bond_now db cfg wallet)" "ps_ExitAvailableAt st = exit_now db cfg wallet"
    "matched G pg db cfg wallet fs (ps_MatchingVersions st)"
proof -
  obtain wallet bond claimable exit where w: "wallet_of db accountID = Inr wallet"
    "chain_balances flt 1 db cfg wallet = Inr (bond, claimable, exit)"
    "versions_loop pg flt 2 db cfg wallet (map (offer_query G) fs)
       \<lparr>ps_WalletAddress = wallet, ps_BondWei = bond, ps_ClaimableWei = claimable, ps_ExitAvailableAt = exit,
        ps_LatestVersions = [], ps_MatchingVersions = []\<rparr> = Inr st"
    using assms(1) by (auto simp: ProviderActionState_def providerOfferQueries_def)
  from versions_loop_matched [OF w(3) subset_refl] chain_balances_Inr [OF w(2) assms(2)] w(1) that
  show thesis by (simp add: matched_def)
qed

section \<open>Confirmation\<close>

lemma confirmed_versions_keeps:
  "confirmed_versions before matching fs vs = (vs', True) \<Longrightarrow> i \<notin> po_OfferID ` set fs \<Longrightarrow> map_of vs' i = map_of vs i"
  by (induction fs arbitrary: vs) (auto simp: Let_def update_conv' split: if_splits)

lemma confirmed_versions_True:
  assumes "confirmed_versions before matching fs vs = (vs', True)" "distinct (map po_OfferID fs)" "f \<in> set fs"
  shows "map_of matching (po_OfferID f) = Some (version_at vs' (po_OfferID f))
    \<and> version_at before (po_OfferID f) < version_at vs' (po_OfferID f)"
  using assms
proof (induction fs arbitrary: vs)
  case (Cons g fs)
  let ?v = "version_at matching (po_OfferID g)"
  from Cons.prems(1) have g: "?v \<noteq> 0" "version_at before (po_OfferID g) < ?v"
    "confirmed_versions before matching fs (AList.update (po_OfferID g) ?v vs) = (vs', True)"
    by (auto simp: Let_def split: if_splits)
  show ?case
  proof (cases "f = g")
    case True
    have "map_of vs' (po_OfferID g) = Some ?v"
      using confirmed_versions_keeps [OF g(3), of "po_OfferID g"] Cons.prems(2) by (auto simp: update_conv')
    with g True show ?thesis by (auto simp: version_at_def split: option.splits)
  next
    case False
    with Cons.IH [OF g(3)] Cons.prems(2,3) show ?thesis by simp
  qed
qed simp

text \<open>The reference for a confirmation: what the indexed chain has to show for an action and the versions it reports.\<close>

definition chain_shows :: "eth \<Rightarrow> pg_numeric \<Rightarrow> db \<Rightarrow> providerAccountConfig \<Rightarrow> providerAction \<Rightarrow> (string \<times> u64) list \<Rightarrow> bool" where
  "chain_shows G pg db cfg a versions \<longleftrightarrow> (\<exists>wallet. wallet_of db (pa_AccountID a) = Inr wallet \<and>
     (if pa_Kind a = ''publish_offer'' then
        (\<forall>f \<in> set (pa_Offers a). \<exists>row \<in> set (chain_offers db). wallet_offer cfg wallet row \<and> published_as G pg f row
           \<and> version_at versions (po_OfferID f) = of_int (co_version row)
           \<and> version_at (pb_Versions (pa_Baseline a)) (po_OfferID f) < of_int (co_version row))
      else if pa_Kind a = ''deposit_collateral'' then
        (\<exists>before amount. decimalBig (pb_BondWei (pa_Baseline a)) = Some before \<and> decimalBig (pa_AmountWei a) = Some amount
           \<and> before + amount \<le> bond_now db cfg wallet)
      else if pa_Kind a = ''request_collateral_exit'' then
        pb_ExitAvailableAt (pa_Baseline a) = 0 \<and> exit_now db cfg wallet > 0
      else pa_Kind a = ''finalize_collateral_exit'' \<and> pb_ExitAvailableAt (pa_Baseline a) > 0
        \<and> exit_now db cfg wallet = 0 \<and> bond_now db cfg wallet = 0))"

lemma decimalBig_int_string: "decimalBig (int_string i) = (if i < 0 then None else Some i)"
  by (simp add: decimalBig_def)

lemma verified_on_chain:
  assumes v: "verifyProviderAction G pg flt db cfg a = Inr (versions, True)" "flt 1 \<noteq> Some ErrNoRows"
    and d: "distinct (map po_OfferID (pa_Offers a))"
  shows "chain_shows G pg db cfg a versions"
proof -
  obtain st where st: "ProviderActionState pg flt db (pa_AccountID a) cfg (providerOfferQueries G (pa_Offers a)) = Inr st"
    "providerActionConfirmed a st = (versions, True)"
    using v(1) by (auto simp: verifyProviderAction_def)
  from action_state [OF st(1) v(2)] obtain wallet where w: "wallet_of db (pa_AccountID a) = Inr wallet"
    "ps_BondWei st = int_string (bond_now db cfg wallet)" "ps_ExitAvailableAt st = exit_now db cfg wallet"
    "matched G pg db cfg wallet (pa_Offers a) (ps_MatchingVersions st)" by blast
  show ?thesis
  proof (cases "pa_Kind a = ''publish_offer''")
    case True
    then have c: "confirmed_versions (pb_Versions (pa_Baseline a)) (ps_MatchingVersions st) (pa_Offers a) [] = (versions, True)"
      using st(2) by (simp add: providerActionConfirmed_def)
    have "\<exists>row \<in> set (chain_offers db). wallet_offer cfg wallet row \<and> published_as G pg f row
           \<and> version_at versions (po_OfferID f) = of_int (co_version row)
           \<and> version_at (pb_Versions (pa_Baseline a)) (po_OfferID f) < of_int (co_version row)" if f: "f \<in> set (pa_Offers a)" for f
      using confirmed_versions_True [OF c d f] w(4) key_unique [OF d _ f] by (fastforce simp: matched_def)
    with True w(1) show ?thesis by (auto simp: chain_shows_def)
  next
    case False
    with st(2) w show ?thesis
      by (auto simp: Let_def providerActionConfirmed_def chain_shows_def decimalBig_int_string int_string_zero split: option.splits if_splits)
  qed
qed


section \<open>Preparation\<close>

lemma scan_offers_mem:
  "scan_offers rows = Inr es \<Longrightarrow> e \<in> set es \<Longrightarrow> \<exists>(rt, row) \<in> set rows. eo_OfferID e = ro_offer_id rt \<and> eo_Model e = ro_model rt
     \<and> ro_backend_kind rt = Some (eo_BackendKind e) \<and> eo_Capabilities e = ro_capabilities rt \<and> eo_MeteringMode e = ro_metering_mode rt"
  by (induction rows arbitrary: es rule: scan_offers.induct) (fastforce)+

lemma newest_offers_mem: "x \<in> set (newest_offers rows) \<Longrightarrow> x \<in> set rows"
proof -
  assume "x \<in> set (newest_offers rows)"
  then obtain i where i: "i \<in> ro_offer_id ` fst ` set rows"
    "x = hd (sort_key (\<lambda>(r, f). - co_version f) (filter (\<lambda>(r, f). ro_offer_id r = i) rows))"
    by (auto simp: newest_offers_def)
  then have "filter (\<lambda>(r, f). ro_offer_id r = i) rows \<noteq> []" by (auto simp: filter_empty_conv)
  then have "sort_key (\<lambda>(r, f). - co_version f) (filter (\<lambda>(r, f). ro_offer_id r = i) rows) \<noteq> []"
    by (simp flip: set_empty)
  from hd_in_set [OF this] show ?thesis unfolding i(2) by simp
qed

text \<open>A route of one of the account's machines that the wallet has published, with the identity that an offer names.\<close>

definition known_route :: "db \<Rightarrow> providerAccountConfig \<Rightarrow> string \<Rightarrow> string \<Rightarrow> providerActionOffer \<Rightarrow> bool" where
  "known_route db cfg accountID wallet f \<longleftrightarrow>
     (\<exists>(rt, row) \<in> set (route_offers db (\<lambda>m. ma_account_id m = accountID) cfg wallet).
        ro_offer_id rt = po_OfferID f \<and> ro_model rt = po_Model f \<and> ro_backend_kind rt = Some (po_Kind f)
        \<and> ro_metering_mode rt = po_MeteringMode f \<and> sort (ro_capabilities rt) = sort (po_Capabilities f))"

lemma account_offers_known:
  assumes "ProviderAccount flt db accountID cfg = Inr account" "identity_known (pv_Offers account) f" "wallet_of db accountID = Inr wallet"
  shows "known_route db cfg accountID wallet f"
proof -
  have rows: "scan_offers (newest_offers (route_offers db (\<lambda>m. ma_account_id m = accountID) cfg wallet)) = Inr (pv_Offers account)"
    using assms(1,3) by (auto simp: ProviderAccount_def)
  obtain e where "e \<in> set (pv_Offers account)" "eo_OfferID e = po_OfferID f" "sameOfferIdentity e f"
    using assms(2) by (auto simp: identity_known_def find_Some_iff dest: nth_mem split: option.splits)
  with scan_offers_mem [OF rows this(1)] show ?thesis
    by (fastforce simp: known_route_def sameOfferIdentity_def dest: newest_offers_mem)
qed

lemma validate_offers_map: "validate_offers seen raw = Inr fs \<Longrightarrow> fs = map normalize_offer raw"
  by (induction raw arbitrary: seen fs) (auto simp: Let_def split: if_splits)

lemma create_replies:
  assumes "actions_create (Some prep) rnd now r (Inr input) s = (ActionReply 201 a, s')" "action_identity r = Inr (source, m, acc)"
  obtains wallet baseline input' where "prep source m acc input = Inr (wallet, baseline)" "validateProviderActionInput input = Inr input'"
    "pa_WalletAddress a = wallet" "pa_AccountID a = acc" "pa_MachineID a = m" "pa_Baseline a = baseline"
    "pa_Kind a = pi_Kind input'" "pa_Offers a = pi_Offers input'"
proof -
  obtain wallet baseline where p: "prep source m acc input = Inr (wallet, baseline)"
    "action_Create rnd now m acc wallet input baseline s = (Inr a, s')"
    using assms by (auto simp: actions_create_def split: sum.splits prod.splits)
  then show thesis using that
    by (auto simp: action_Create_def Let_def split: sum.splits if_splits)
qed

text \<open>An offer publication that is created with its kind spelled as such is backed: the account's wallet has at least the
  configured minimum bond on the contract and is not leaving. Created by a machine, the machine is the account's and
  not revoked. Created in the browser, every offer names a route of the account's machines that the wallet already published,
  with the same model, backend, metering mode and capabilities, so that only prices change.\<close>

lemma prepared_publication_backed:
  assumes create: "actions_create (Some (prepareProviderAction G pg flts db cfg)) rnd now r (Inr input) s = (ActionReply 201 a, s')"
    and auth: "action_identity r = Inr (source, m, acc)"
    and kind: "pi_Kind input = ''publish_offer''" and flt: "flts 1 1 \<noteq> Some ErrNoRows"
  shows "pa_Offers a = map normalize_offer (pi_Offers input) \<and>
    (\<exists>minimum. wallet_of db acc = Inr (pa_WalletAddress a) \<and> decimalBig (pc_MinimumBondWei cfg) = Some minimum
       \<and> minimum \<le> bond_now db cfg (pa_WalletAddress a) \<and> exit_now db cfg (pa_WalletAddress a) = 0)
    \<and> (source = ''machine'' \<longrightarrow> (\<exists>x \<in> set (machines db). ma_id x = m \<and> ma_account_id x = acc \<and> ma_revoked_at x = None))
    \<and> (source = ''browser'' \<longrightarrow> (\<forall>f \<in> set (pi_Offers input). known_route db cfg acc (pa_WalletAddress a) f))"
proof -
  obtain wallet baseline input' where p: "prepareProviderAction G pg flts db cfg source m acc input = Inr (wallet, baseline)"
    "validateProviderActionInput input = Inr input'" "pa_WalletAddress a = wallet" "pa_Offers a = pi_Offers input'"
    by (rule create_replies [OF create auth]) blast
  from p(1) obtain st where st: "ProviderActionState pg (flts 1) db acc cfg (providerOfferQueries G (pi_Offers input)) = Inr st"
    "validateProviderActionState input st (pc_MinimumBondWei cfg) = Inr ()" "wallet = ps_WalletAddress st"
    by (auto simp: prepareProviderAction_def)
  from action_state [OF st(1) flt] obtain "wallet_of db acc = Inr wallet" "ps_BondWei st = int_string (bond_now db cfg wallet)"
    "ps_ExitAvailableAt st = exit_now db cfg wallet" using st(3) by metis
  note w = this
  have "pa_Offers a = map normalize_offer (pi_Offers input)"
  proof -
    have "trim_space ''publish_offer'' = ''publish_offer''" by code_simp
    with p(2,4) kind show ?thesis
      by (auto simp: validateProviderActionInput_def Let_def dest: validate_offers_map split: if_splits)
  qed
  moreover have "\<exists>minimum. wallet_of db acc = Inr wallet \<and> decimalBig (pc_MinimumBondWei cfg) = Some minimum
       \<and> minimum \<le> bond_now db cfg wallet \<and> exit_now db cfg wallet = 0"
    using st(2) kind w by (auto simp: validateProviderActionState_def decimalBig_int_string split: option.splits if_splits)
  moreover have "\<exists>x \<in> set (machines db). ma_id x = m \<and> ma_account_id x = acc \<and> ma_revoked_at x = None" if "source = ''machine''"
    using p(1) that by (auto simp: prepareProviderAction_def MachineBelongsToAccount_def stmt_def split: sum.splits bool.splits option.splits)
  moreover have "known_route db cfg acc wallet f" if browser: "source = ''browser''" and f: "f \<in> set (pi_Offers input)" for f
  proof -
    from p(1) kind browser obtain account where "ProviderAccount (flts 2) db acc cfg = Inr account"
      "list_all (identity_known (pv_Offers account)) (pi_Offers input)"
      by (auto simp: prepareProviderAction_def split: if_splits)
    with f w(1) show ?thesis by (auto simp: list_all_iff intro: account_offers_known)
  qed
  ultimately show ?thesis by (simp add: p(3))
qed

text \<open>The checks of a publication depend on the spelling of its kind, and its creation does not. Preparation compares the
  kind as it was sent, creation trims it first: a kind with surrounding spaces creates the same publication without any check of
  the bond, of an exit or, from the browser, of the identity of the offers, as soon as the account exists and the rates are numbers.\<close>

lemma padded_publication_unchecked:
  assumes kind: "trim_space (pi_Kind input) = ''publish_offer''" "pi_Kind input \<noteq> ''publish_offer''"
    and auth: "action_identity r = Inr (''browser'', [], acc)"
    and st: "ProviderActionState pg (flts 1) db acc cfg (providerOfferQueries G (pi_Offers input)) = Inr st"
    and valid: "validateProviderActionInput input = Inr input'"
    and names: "\<not> blank acc" "\<not> blank (ps_WalletAddress st)" and room: "length (purge now s) < maxProviderActions"
  shows "\<exists>a s'. actions_create (Some (prepareProviderAction G pg flts db cfg)) (Inr rnd) now r (Inr input) s = (ActionReply 201 a, s')
    \<and> pa_Kind a = ''publish_offer'' \<and> pa_Offers a = map normalize_offer (pi_Offers input)"
proof -
  have trims: "trim_space ''deposit_collateral'' = ''deposit_collateral''" "trim_space ''request_collateral_exit'' = ''request_collateral_exit''"
    "trim_space ''finalize_collateral_exit'' = ''finalize_collateral_exit''"
    by code_simp+
  have "pi_Kind input \<noteq> ''deposit_collateral''" "pi_Kind input \<noteq> ''request_collateral_exit''" "pi_Kind input \<noteq> ''finalize_collateral_exit''"
    using kind(1) trims by auto
  then have prep: "prepareProviderAction G pg flts db cfg ''browser'' [] acc input = Inr (ps_WalletAddress st,
      \<lparr>pb_BondWei = ps_BondWei st, pb_ClaimableWei = ps_ClaimableWei st, pb_ExitAvailableAt = ps_ExitAvailableAt st,
       pb_Versions = ps_LatestVersions st\<rparr>)"
    using kind(2) by (simp add: prepareProviderAction_def st validateProviderActionState_def del: One_nat_def)
  have "pi_Kind input' = ''publish_offer'' \<and> pi_Offers input' = map normalize_offer (pi_Offers input)"
    using valid kind(1) by (auto simp: validateProviderActionInput_def Let_def dest: validate_offers_map split: if_splits)
  with auth prep names valid room show ?thesis by (simp add: actions_create_def action_Create_def Let_def)
qed

section \<open>Examples\<close>

definition demo_pg :: pg_numeric where
  "demo_pg text = (case big_set_string text of None \<Rightarrow> Inl ErrConstraint | Some i \<Rightarrow> Inr (Some i))"

definition demo_cfg :: providerAccountConfig where
  "demo_cfg = \<lparr>pc_ChainID = 1, pc_ContractAddress = ''c'', pc_ExplorerURL = [], pc_Confirmations = 2, pc_MinimumBondWei = ''5''\<rparr>"

definition demo_browser :: action_auth where
  "demo_browser = \<lparr>aa_Authorization = [], aa_machine = None, aa_account = Some (Inr ''a'')\<rparr>"

definition demo_machine :: action_auth where
  "demo_machine = \<lparr>aa_Authorization = ''Bearer t'', aa_machine = Some (Inr (''m'', ''a'')), aa_account = None\<rparr>"

definition demo_publication :: "string \<Rightarrow> providerActionInput" where
  "demo_publication kind = \<lparr>pi_Kind = kind, pi_AmountWei = [],
     pi_Offers = [\<lparr>po_OfferID = ''o'', po_Model = ''x'', po_Kind = ''ollama'', po_Capabilities = [''chat''],
       po_MeteringMode = ''tokens_and_compute'', po_InputPerMillionWei = ''1'', po_OutputPerMillionWei = ''2'',
       po_ComputePerSecondWei = ''3''\<rparr>]\<rparr>"

text \<open>An account that the chain does not know, and one with a machine, a bond of 5 and the offer on the chain.\<close>

definition demo_unbonded :: db where
  "demo_unbonded = empty_db\<lparr>accounts := [\<lparr>ac_id = ''a'', ac_wallet_address = ''w''\<rparr>]\<rparr>"

definition demo_bonded :: db where
  "demo_bonded = demo_unbonded\<lparr>
     machines := [\<lparr>ma_id = ''m'', ma_account_id = ''a'', ma_name = ''n'', ma_revoked_at = None, ma_signer_address = None\<rparr>],
     chain_accounts := [\<lparr>ca_deployment = (''1'', ''c''), ca_address = ''w'', ca_customer_balance = 0, ca_provider_bond = 5,
       ca_claimable = 0, ca_bond_exit_available_at = 0\<rparr>],
     chain_offers := [\<lparr>co_deployment = (''1'', ''c''), co_provider = ''w'', co_offer_id = toy_hex, co_version = 1,
       co_model_hash = toy_hex, co_capability_hash = toy_hex, co_input_per_million = 1, co_output_per_million = 2,
       co_compute_per_second = 3\<rparr>]\<rparr>"

definition demo_sent :: actionStore where
  "demo_sent = snd (action_exec (AcSubmit 2 demo_browser ''AAAA'' (Inr [toy_hex]))
     (snd (action_exec (AcCreate (Some (\<lambda>_ _ _ _. Inr (''w'', demo_baseline))) (Inr [0, 0, 0]) 1 demo_browser
        (Inr (demo_publication ''publish_offer''))) [])))"

definition demo_confirm :: "action_reply \<times> actionStore" where
  "demo_confirm = actions_get (Some (verifyProviderAction toy_eth demo_pg no_faults demo_bonded demo_cfg)) 3 demo_browser ''AAAA'' demo_sent"

lemma demo_confirm_run:
  "case (map_of demo_sent ''AAAA'', demo_confirm) of
     (Some a, (ActionReply n a', _)) \<Rightarrow> pa_Status a = ''pending_chain'' \<and> n = 200 \<and> pa_Status a' = ''confirmed'' | _ \<Rightarrow> False"
  by code_simp


definition demo_prepared :: "action_reply \<times> actionStore" where
  "demo_prepared = actions_create (Some (prepareProviderAction toy_eth demo_pg (\<lambda>_. no_faults) demo_bonded demo_cfg)) (Inr [0, 0, 0]) 1
     demo_machine (Inr (demo_publication ''publish_offer'')) []"

lemma prepared_publication_backed_witness:
  "\<exists>a s'. demo_prepared = (ActionReply 201 a, s') \<and> pa_WalletAddress a = ''w'' \<and> 5 \<le> bond_now demo_bonded demo_cfg ''w''"
proof -
  have "case demo_prepared of (ActionReply n a, _) \<Rightarrow> n = 201 \<and> pa_WalletAddress a = ''w'' | _ \<Rightarrow> False" by code_simp
  then obtain a s' where a: "demo_prepared = (ActionReply 201 a, s')" "pa_WalletAddress a = ''w''"
    by (auto split: prod.splits action_reply.splits)
  have auth: "action_identity demo_machine = Inr (''machine'', ''m'', ''a'')" by code_simp
  have "decimalBig (pc_MinimumBondWei demo_cfg) = Some 5" by code_simp
  with prepared_publication_backed [OF a(1) [unfolded demo_prepared_def] auth] a show ?thesis
    by (auto simp: demo_publication_def no_faults_def)
qed

lemma padded_publication_unchecked_witness:
  "chain_accounts demo_unbonded = [] \<and> chain_offers demo_unbonded = [] \<and>
   (\<exists>a s'. actions_create (Some (prepareProviderAction toy_eth demo_pg (\<lambda>_. no_faults) demo_unbonded demo_cfg)) (Inr [0, 0, 0]) 1
      demo_browser (Inr (demo_publication '' publish_offer'')) [] = (ActionReply 201 a, s') \<and> pa_Kind a = ''publish_offer'')"
proof -
  let ?in = "demo_publication '' publish_offer''"
  have kind: "trim_space (pi_Kind ?in) = ''publish_offer''" "pi_Kind ?in \<noteq> ''publish_offer''" by code_simp+
  have auth: "action_identity demo_browser = Inr (''browser'', [], ''a'')" by code_simp
  have "case ProviderActionState demo_pg no_faults demo_unbonded ''a'' demo_cfg (providerOfferQueries toy_eth (pi_Offers ?in)) of
      Inr st \<Rightarrow> ps_WalletAddress st = ''w'' | Inl _ \<Rightarrow> False" by code_simp
  then obtain st where st: "ProviderActionState demo_pg no_faults demo_unbonded ''a'' demo_cfg (providerOfferQueries toy_eth (pi_Offers ?in)) = Inr st"
    "ps_WalletAddress st = ''w''" by (auto split: sum.splits)
  have "is_ok (validateProviderActionInput ?in)" by code_simp
  then obtain in' where valid: "validateProviderActionInput ?in = Inr in'" by (cases "validateProviderActionInput ?in") auto
  have names: "\<not> blank ''a''" "\<not> blank (ps_WalletAddress st)" unfolding st(2) by code_simp+
  have room: "length (purge 1 []) < maxProviderActions" by code_simp
  from padded_publication_unchecked [where flts = "\<lambda>_. no_faults" and rnd = "[0, 0, 0]", OF kind auth st(1) valid names room]
  have "\<exists>a s'. actions_create (Some (prepareProviderAction toy_eth demo_pg (\<lambda>_. no_faults) demo_unbonded demo_cfg)) (Inr [0, 0, 0]) 1
      demo_browser (Inr ?in) [] = (ActionReply 201 a, s') \<and> pa_Kind a = ''publish_offer''" by blast
  then show ?thesis by (simp add: demo_unbonded_def empty_db_def)
qed

end
