(* ===== verification/Events.thy ===== *)
theory Events
  imports LedgerInv AuthInv
begin

text \<open>
  The event stream of an account (\<^verbatim>\<open>server/internal/realtime/events.go\<close>): the rows of the outbox after a cursor,
  a hundred at a time, as long as the client listens. A turn of the loop sees its own state of the database, its faults, the
  failures of its writes and whether the client left while it waited; a run is a sequence of turns. A frame is kept as the values it
  prints.
\<close>

section \<open>The handler\<close>

record event_turn =
  et_db :: db
  et_flt :: faults
  et_write :: "nat \<Rightarrow> go_error option"
  et_done :: bool

type_synonym event_frame = "int \<times> string \<times> (string \<times> string) list"

definition event_frame :: "outbox_row \<Rightarrow> event_frame" where
  "event_frame ev = (ob_id ev, ob_event_type ev, ob_payload ev)"

text \<open>\<^verbatim>\<open>JOIN requests r ON o.aggregate_type='request' AND r.id=o.aggregate_id JOIN sessions s ON s.id=r.session_id\<close>
  with the account of the session.\<close>

definition event_visible :: "db \<Rightarrow> string \<Rightarrow> outbox_row \<Rightarrow> bool" where
  "event_visible db accountID ev \<longleftrightarrow> ob_aggregate_type ev = ''request''
     \<and> exists_row (\<lambda>r. re_id r = ob_aggregate_id ev
         \<and> exists_row (\<lambda>s. se_id s = re_session_id r \<and> se_account_id s = accountID) (sessions db)) (requests db)"

definition events_after :: "db \<Rightarrow> int \<Rightarrow> string \<Rightarrow> outbox_row list" where
  "events_after db position accountID =
     sort_key ob_id (filter (\<lambda>ev. position < ob_id ev \<and> event_visible db accountID ev) (outbox db))"

fun write_rows :: "(nat \<Rightarrow> go_error option) \<Rightarrow> nat \<Rightarrow> outbox_row list \<Rightarrow> int \<Rightarrow> int \<times> event_frame list \<times> go_error option" where
  "write_rows fails k [] position = (position, [], None)"
| "write_rows fails k (ev # evs) position =
     (case fails k of
        Some e \<Rightarrow> (position, [], Some e)
      | None \<Rightarrow> (case write_rows fails (k + 1) evs (ob_id ev) of (p, out, err) \<Rightarrow> (p, event_frame ev # out, err)))"

definition writeAvailable :: "event_turn \<Rightarrow> int \<Rightarrow> string \<Rightarrow> int \<times> event_frame list \<times> go_error option" where
  "writeAvailable t position accountID =
     (case et_flt t 0 of
        Some e \<Rightarrow> (position, [], Some e)
      | None \<Rightarrow>
          (case write_rows (et_write t) 0 (take 100 (events_after (et_db t) position accountID)) position of
             (p, out, Some e) \<Rightarrow> (p, out, Some e)
           | (p, out, None) \<Rightarrow> (p, out, et_flt t 1)))"

fun events_loop :: "event_turn list \<Rightarrow> int \<Rightarrow> string \<Rightarrow> event_frame list" where
  "events_loop [] position accountID = []"
| "events_loop (t # ts) position accountID =
     (case writeAvailable t position accountID of
        (p, out, Some _) \<Rightarrow> out
      | (p, out, None) \<Rightarrow>
          if p > position then out @ events_loop ts p accountID
          else if et_done t then out
          else out @ events_loop ts position accountID)"

text \<open>\<^verbatim>\<open>strconv.ParseInt(text, 10, 64)\<close> without its error: zero for no number, the bound beyond the range.\<close>

definition parseInt64 :: "string \<Rightarrow> int" where
  "parseInt64 text =
     (case big_set_string text of
        None \<Rightarrow> 0
      | Some i \<Rightarrow> if i < - (2 ^ 63) then - (2 ^ 63) else if i > 2 ^ 63 - 1 then 2 ^ 63 - 1 else i)"

datatype events_reply = EventsError nat string | EventStream "event_frame list"

definition Events_ServeHTTP ::
  "(string \<Rightarrow> 's \<Rightarrow> string result \<times> 's) \<Rightarrow> bool \<Rightarrow> string \<Rightarrow> string \<Rightarrow> event_turn list \<Rightarrow> 's \<Rightarrow> events_reply \<times> 's" where
  "Events_ServeHTTP authorize flusher token lastEventID turns st =
     (case authorize token st of
        (res, st') \<Rightarrow>
          (case res of
             Inl _ \<Rightarrow> (EventsError 401 ''unauthorized'', st')
           | Inr accountID \<Rightarrow>
               if token = [] \<or> accountID = [] then (EventsError 401 ''unauthorized'', st')
               else if \<not> flusher then (EventsError 500 ''streaming unavailable'', st')
               else (EventStream (events_loop turns (parseInt64 lastEventID) accountID), st')))"

text \<open>As the broker wires it: a ticket of the authentication service opens the stream.\<close>

definition broker_events ::
  "auth_lib \<Rightarrow> faults \<Rightarrow> int \<Rightarrow> string \<Rightarrow> string \<Rightarrow> event_turn list \<Rightarrow> auth_db \<Rightarrow> events_reply \<times> auth_db" where
  "broker_events L flt now token lastEventID turns st =
     Events_ServeHTTP (\<lambda>ticket a. ConsumeStreamTicket L flt now a ticket) True token lastEventID turns st"

section \<open>One turn\<close>

text \<open>The cursor after a list of frames.\<close>

definition cursor_of :: "int \<Rightarrow> event_frame list \<Rightarrow> int" where
  "cursor_of position out = (if out = [] then position else fst (last out))"

lemma cursor_of_Nil [simp]: "cursor_of p [] = p"
  by (simp add: cursor_of_def)

lemma cursor_of_Cons [simp]: "cursor_of p (f # fs) = cursor_of (fst f) fs"
  by (simp add: cursor_of_def)

lemma write_rows_frames:
  "write_rows fails k evs p = (p', out, err) \<Longrightarrow>
     prefix out (map event_frame evs) \<and> p' = cursor_of p out \<and> (err = None \<longrightarrow> out = map event_frame evs)"
  by (induction evs arbitrary: k p p' out err)
    (fastforce simp: event_frame_def split: option.splits prod.splits)+

lemma write_rows_ok: "(\<And>i. fails i = None) \<Longrightarrow> snd (snd (write_rows fails k evs p)) = None"
proof (induction evs arbitrary: k p)
  case (Cons ev evs)
  from Cons.IH [OF Cons.prems, of "k + 1" "ob_id ev"] Cons.prems show ?case by (simp add: case_prod_beta)
qed simp

lemma events_after_greater: "f \<in> set (map event_frame (events_after db p acc)) \<Longrightarrow> p < fst f"
  by (auto simp: events_after_def event_frame_def)

lemma writeAvailable_frames:
  assumes "writeAvailable t p acc = (p', out, err)"
  shows "prefix out (map event_frame (events_after (et_db t) p acc)) \<and> p' = cursor_of p out
    \<and> (err = None \<longrightarrow> out = take 100 (map event_frame (events_after (et_db t) p acc)))"
proof (cases "et_flt t 0")
  case None
  let ?evs = "take 100 (events_after (et_db t) p acc)"
  obtain p1 out1 err1 where w: "write_rows (et_write t) 0 ?evs p = (p1, out1, err1)" by (metis prod_cases3)
  have "p' = p1" "out = out1" "err = None \<longrightarrow> err1 = None"
    using assms None w by (auto simp: writeAvailable_def split: option.splits)
  moreover have "prefix (map event_frame ?evs) (map event_frame (events_after (et_db t) p acc))"
    by (simp add: take_is_prefix map_mono_prefix)
  ultimately show ?thesis using write_rows_frames [OF w] by (auto simp: take_map intro: prefix_order.trans)
qed (use assms in \<open>auto simp: writeAvailable_def\<close>)

lemma writeAvailable_greater:
  assumes "writeAvailable t p acc = (p', out, err)"
  shows "\<forall>f \<in> set out. p < fst f" "p < p' \<longleftrightarrow> out \<noteq> []"
proof -
  show greater: "\<forall>f \<in> set out. p < fst f"
    using writeAvailable_frames [OF assms] by (meson events_after_greater set_mono_prefix subsetD)
  then show "p < p' \<longleftrightarrow> out \<noteq> []" using writeAvailable_frames [OF assms] by (auto simp: cursor_of_def)
qed

lemma events_loop_step:
  "events_loop (t # ts) p acc =
     (case writeAvailable t p acc of (p', out, err) \<Rightarrow>
        out @ (if err \<noteq> None \<or> out = [] \<and> et_done t then [] else events_loop ts p' acc))"
proof -
  obtain p' out err where w: "writeAvailable t p acc = (p', out, err)" by (metis prod_cases3)
  from writeAvailable_greater(2) [OF w] writeAvailable_frames [OF w] w show ?thesis by (auto split: option.splits)
qed

text \<open>An event that appears below the cursor is never delivered.\<close>

lemma event_below_cursor_lost: "f \<in> set (events_loop ts p acc) \<Longrightarrow> p < fst f"
proof (induction ts arbitrary: p)
  case (Cons t ts)
  obtain p' out err where w: "writeAvailable t p acc = (p', out, err)" by (metis prod_cases3)
  have "p \<le> p'" using writeAvailable_greater [OF w] writeAvailable_frames [OF w] by (cases "out = []") auto
  then show ?case
    using Cons writeAvailable_greater(1) [OF w] by (fastforce simp: events_loop_step w simp del: events_loop.simps split: if_splits)
qed simp

section \<open>The feed of an account\<close>

definition feed :: "db \<Rightarrow> string \<Rightarrow> event_frame list" where
  "feed db accountID = map event_frame (filter (event_visible db accountID) (outbox db))"

definition feed_after :: "int \<Rightarrow> event_frame list \<Rightarrow> event_frame list" where
  "feed_after position fs = filter (\<lambda>f. position < fst f) fs"

text \<open>Events are numbered in the order of the table, each belongs to a request, each request to a session.\<close>

definition feed_ok :: "db \<Rightarrow> bool" where
  "feed_ok db \<longleftrightarrow> ledger_ok db \<and> audited db \<and> sorted_wrt (<) (map ob_id (outbox db))
     \<and> (\<forall>q \<in> set (requests db). re_session_id q \<in> se_id ` set (sessions db))"

lemma sorted_events_after:
  assumes "sorted_wrt (<) (map ob_id (outbox db))"
  shows "map event_frame (events_after db p acc) = feed_after p (feed db acc)"
proof -
  have "sorted_wrt (\<le>) (map ob_id (filter P (outbox db)))" for P
    using assms by (auto simp: sorted_wrt_map intro: sorted_wrt_filter sorted_wrt_mono_rel [rotated])
  then have "sort_key ob_id (filter P (outbox db)) = filter P (outbox db)" for P
    by (simp add: sort_key_id_if_sorted)
  then show ?thesis
    by (simp add: events_after_def feed_after_def feed_def filter_map o_def event_frame_def conj_commute)
qed

text \<open>One database's feed extends another's by later events.\<close>

definition feed_extends :: "string \<Rightarrow> db \<Rightarrow> db \<Rightarrow> bool" where
  "feed_extends acc db db' \<longleftrightarrow> (\<exists>later. feed db' acc = feed db acc @ later \<and> (\<forall>f \<in> set later. \<forall>ev \<in> set (outbox db). ob_id ev < fst f))"

lemma feed_ids: "f \<in> set (feed db acc) \<Longrightarrow> \<exists>ev \<in> set (outbox db). fst f = ob_id ev"
  by (auto simp: feed_def event_frame_def)

section \<open>The ledger extends the feed\<close>

text \<open>An event without the mark of the claim, which no feed shows.\<close>

definition event_core :: "outbox_row \<Rightarrow> outbox_row" where
  "event_core ev = ev\<lparr>ob_published_at := None\<rparr>"

definition owns_request :: "db \<Rightarrow> string \<Rightarrow> string \<Rightarrow> bool" where
  "owns_request db acc i \<longleftrightarrow>
     (\<exists>r \<in> set (requests db). re_id r = i \<and> (\<exists>s \<in> set (sessions db). se_id s = re_session_id r \<and> se_account_id s = acc))"

lemma event_core_simps [simp]:
  "event_frame (event_core ev) = event_frame ev" "event_visible db acc (event_core ev) = event_visible db acc ev"
  "ob_id (event_core ev) = ob_id ev"
  by (simp_all add: event_frame_def event_visible_def event_core_def)

lemma feed_core: "feed db acc = map event_frame (filter (event_visible db acc) (map event_core (outbox db)))"
  by (simp add: feed_def filter_map o_def)

lemma event_visible_owner: "event_visible db acc ev \<longleftrightarrow> ob_aggregate_type ev = ''request'' \<and> owns_request db acc (ob_aggregate_id ev)"
  by (simp add: event_visible_def owns_request_def)

definition later_events :: "outbox_row list \<Rightarrow> outbox_row list \<Rightarrow> bool" where
  "later_events tbl new \<longleftrightarrow> sorted_wrt (<) (map ob_id new) \<and> (\<forall>ev \<in> set new. \<forall>e \<in> set tbl. ob_id e < ob_id ev)"

lemma later_offered: "later_events tbl (offered_events r tbl)"
  by (auto simp: later_events_def offered_events_def Let_def dest: next_outbox_id_greater)

lemma outbox_grows:
  assumes "ledger_effect db db'"
  shows "\<exists>new. map event_core (outbox db') = map event_core (outbox db @ new) \<and> later_events (outbox db) new"
  using assms
proof cases
  case claimed
  then have "map event_core (outbox db') = map event_core (outbox db)"
    by (simp add: update_rows_def event_core_def o_def)
  then show ?thesis by (intro exI [of _ "[]"]) (simp add: later_events_def)
next
  case (reserved v s ro w now)
  then show ?thesis using later_offered by (intro exI [of _ "offered_events (iv_RequestID v) (outbox db)"]) (simp add: reserved_db_def)
next
  case (moved q t db1 now)
  then obtain ev where "outbox db' = outbox db @ [ev]" "ob_id ev = next_outbox_id (outbox db)" by (simp add: outbox_moved_db)
  then show ?thesis by (intro exI [of _ "[ev]"]) (auto simp: later_events_def dest: next_outbox_id_greater)
qed (auto simp: later_events_def insert_session_def insert_request_def intro: exI [of _ "[]"])

lemma placed_effect:
  assumes "ledger_effect db db'" "\<forall>q \<in> set (requests db). re_session_id q \<in> se_id ` set (sessions db)"
  shows "\<forall>q \<in> set (requests db'). re_session_id q \<in> se_id ` set (sessions db')"
  using assms
proof cases
  case (reserved v s ro w now)
  then have "requests db' = requests db @ [reserved_request now v w ro]" "sessions db' = sessions db"
    "iv_SessionID v \<in> se_id ` set (sessions db)" by (auto simp: reserved_db_def reservation_backed_def intro: rev_image_eqI)
  then show ?thesis using assms(2) by (auto simp: reserved_request_def)
next
  case (moved q t db1 now)
  then have "sessions db1 = sessions db" "requests db1 = requests db" by (auto simp: same_ledger_def release_reservation_def)
  then show ?thesis using assms(2) moved by (auto simp: moved_db_def set_update_rows)
qed (auto simp: same_ledger_def insert_session_def insert_request_def)

lemma bex_update_rows: "(\<exists>x \<in> set (update_rows P f tbl). Q x) \<longleftrightarrow> (\<exists>x \<in> set tbl. Q (if P x then f x else x))"
  by (induction tbl) auto

lemma owner_effect:
  assumes "ledger_effect db db'" "\<forall>q \<in> set (requests db). re_session_id q \<in> se_id ` set (sessions db)"
    and "i \<in> re_id ` set (requests db)"
  shows "owns_request db' acc i = owns_request db acc i"
  using assms
proof cases
  case (session s)
  then have "se_id s \<notin> se_id ` set (sessions db)" "requests db' = requests db" "sessions db' = sessions db @ [s]"
    by (auto simp: insert_session_def)
  then show ?thesis using assms(2) by (force simp: owns_request_def)
next
  case (request q)
  then have "re_id q \<notin> re_id ` set (requests db)" "requests db' = requests db @ [q]" "sessions db' = sessions db"
    by (auto simp: insert_request_def)
  then show ?thesis using assms(3) by (auto simp: owns_request_def)
next
  case (reserved v s ro w now)
  then have "requests db' = requests db @ [reserved_request now v w ro]" "sessions db' = sessions db"
    "re_id (reserved_request now v w ro) \<noteq> i" using assms(3) by (auto simp: reserved_db_def reserved_request_def)
  then show ?thesis by (auto simp: owns_request_def)
next
  case (moved q t db1 now)
  then have "sessions db1 = sessions db" "requests db1 = requests db" by (auto simp: same_ledger_def release_reservation_def)
  then show ?thesis using moved by (simp add: owns_request_def moved_db_def bex_update_rows if_distrib [of re_id] if_distrib [of re_session_id])
      (rule bex_cong; auto)
qed (auto simp: same_ledger_def owns_request_def)

lemma effect_extends:
  assumes "ledger_effect db db'" "feed_ok db"
  shows "feed_ok db'" "feed_extends acc db db'"
proof -
  obtain new where new: "map event_core (outbox db') = map event_core (outbox db @ new)" "later_events (outbox db) new"
    using outbox_grows [OF assms(1)] by blast
  have ids: "map ob_id (outbox db') = map ob_id (outbox db) @ map ob_id new"
    using arg_cong [OF new(1), of "map ob_id"] by (simp add: o_def)
  show "feed_ok db'"
    using assms placed_effect [OF assms(1)] ledger_effect_ok [OF assms(1)] ledger_effect_audited [OF assms(1)] new(2)
    by (auto simp: feed_ok_def ids sorted_wrt_append later_events_def)
  have "event_visible db' acc ev = event_visible db acc ev" if "ev \<in> set (outbox db)" for ev
    using owner_effect [OF assms(1)] assms(2) that by (simp add: event_visible_owner feed_ok_def audited_def)
  then have "filter (event_visible db' acc) (outbox db) = filter (event_visible db acc) (outbox db)"
    by (intro filter_cong) simp_all
  then have "feed db' acc = feed db acc @ map event_frame (filter (event_visible db' acc) new)"
    unfolding feed_core new(1) by (simp add: filter_map o_def)
  with new(2) show "feed_extends acc db db'" by (auto simp: feed_extends_def later_events_def event_frame_def)
qed

lemma feed_extends_trans:
  assumes "feed_extends acc db db1" "feed_extends acc db1 db2" "set (map ob_id (outbox db)) \<subseteq> set (map ob_id (outbox db1))"
  shows "feed_extends acc db db2"
proof -
  obtain a b where ab: "feed db1 acc = feed db acc @ a" "\<forall>f \<in> set a. \<forall>ev \<in> set (outbox db). ob_id ev < fst f"
    "feed db2 acc = feed db1 acc @ b" "\<forall>f \<in> set b. \<forall>ev \<in> set (outbox db1). ob_id ev < fst f"
    using assms(1,2) by (auto simp: feed_extends_def)
  moreover have "\<forall>f \<in> set b. \<forall>ev \<in> set (outbox db). ob_id ev < fst f"
    using ab(4) assms(3) by (fastforce simp: image_subset_iff)
  ultimately show ?thesis by (auto simp: feed_extends_def)
qed

lemma steps_extend:
  assumes "ledger_steps db db'" "feed_ok db"
  shows "feed_ok db' \<and> feed_extends acc db db' \<and> set (map ob_id (outbox db)) \<subseteq> set (map ob_id (outbox db'))"
  using assms
proof (induction rule: rtranclp_induct)
  case (step y z)
  then have IH: "feed_ok y" "feed_extends acc db y" "set (map ob_id (outbox db)) \<subseteq> set (map ob_id (outbox y))" by auto
  have e: "ledger_effect y z" using step.hyps(2) ledger_step_effect IH(1) by (auto simp: feed_ok_def)
  from outbox_grows [OF e] obtain new where "map event_core (outbox z) = map event_core (outbox y @ new)" by blast
  from arg_cong [OF this, of "map ob_id"] have "set (map ob_id (outbox y)) \<subseteq> set (map ob_id (outbox z))" by (auto simp: o_def)
  with IH effect_extends [OF e IH(1)] show ?case by (blast intro: feed_extends_trans)
qed (simp add: feed_extends_def)

section \<open>Runs of the stream\<close>

lemma feed_sorted: "feed_ok db \<Longrightarrow> sorted_wrt (<) (map fst (feed db acc))"
  by (auto simp: feed_ok_def feed_def event_frame_def o_def sorted_wrt_map intro: sorted_wrt_filter)

lemma feed_after_append [simp]: "feed_after p (a @ b) = feed_after p a @ feed_after p b"
  by (simp add: feed_after_def)

lemma extends_prefix: "feed_extends acc db db' \<Longrightarrow> prefix (feed_after p (feed db acc)) (feed_after p (feed db' acc))"
  by (auto simp: feed_extends_def)

text \<open>Reading on from the last frame continues where the frames ended.\<close>

lemma feed_after_resume:
  assumes "sorted_wrt (<) (map fst L)" "prefix out (feed_after p L)"
  shows "feed_after p L = out @ feed_after (cursor_of p out) L"
proof (cases out rule: rev_cases)
  case (snoc front f)
  obtain rest where rest: "feed_after p L = front @ f # rest" using assms(2) snoc by (auto simp: prefix_def)
  have "sorted_wrt (<) (map fst (feed_after p L))"
    using assms(1) by (auto simp: feed_after_def sorted_wrt_map intro: sorted_wrt_filter)
  then have ord: "\<forall>g \<in> set front. fst g < fst f" "\<forall>g \<in> set rest. fst f < fst g"
    by (auto simp: rest sorted_wrt_append)
  have "p < fst f" using arg_cong [OF rest, of set] by (auto simp: feed_after_def)
  then have "feed_after (fst f) L = feed_after (fst f) (feed_after p L)"
    unfolding feed_after_def by (auto simp: conj_commute intro: filter_cong)
  also have "\<dots> = rest"
    using ord unfolding rest by (auto simp: feed_after_def filter_empty_conv filter_id_conv)
  finally show ?thesis using rest snoc by (simp add: cursor_of_def)
qed simp

lemma turn_frames:
  assumes "feed_ok (et_db t)" "writeAvailable t p acc = (p', out, err)"
  shows "prefix out (feed_after p (feed (et_db t) acc))" "p' = cursor_of p out"
    "err = None \<longrightarrow> out = take 100 (feed_after p (feed (et_db t) acc))"
  using writeAvailable_frames [OF assms(2)] sorted_events_after assms(1) by (auto simp: feed_ok_def)

lemma run_last:
  assumes "successively ledger_steps (map et_db (t # ts))" "feed_ok (et_db t)"
  shows "feed_ok (et_db (last (t # ts))) \<and> prefix (feed_after p (feed (et_db t) acc)) (feed_after p (feed (et_db (last (t # ts))) acc))"
  using assms
proof (induction ts arbitrary: t)
  case (Cons t' ts)
  then have s: "ledger_steps (et_db t) (et_db t')" by simp
  note e = steps_extend [OF s Cons.prems(2), of acc]
  have "feed_ok (et_db (last (t' # ts))) \<and> prefix (feed_after p (feed (et_db t') acc)) (feed_after p (feed (et_db (last (t' # ts))) acc))"
    using Cons.IH [of t'] Cons.prems(1) e by simp
  moreover have "prefix (feed_after p (feed (et_db t) acc)) (feed_after p (feed (et_db t') acc))" using e by (simp add: extends_prefix)
  ultimately show ?case by (auto intro: prefix_order.trans)
qed simp

lemma loop_prefix:
  assumes "successively ledger_steps (map et_db (t # ts))" "feed_ok (et_db t)"
  shows "prefix (events_loop (t # ts) p acc) (feed_after p (feed (et_db (last (t # ts))) acc))"
  using assms
proof (induction ts arbitrary: t p)
  case Nil
  obtain p' out err where w: "writeAvailable t p acc = (p', out, err)" by (metis prod_cases3)
  from turn_frames(1) [OF Nil.prems(2) w] show ?case by (simp add: events_loop_step w del: events_loop.simps(2))
next
  case (Cons t' ts)
  obtain p' out err where w: "writeAvailable t p acc = (p', out, err)" by (metis prod_cases3)
  let ?F = "feed (et_db (last (t # t' # ts))) acc"
  have "prefix out (feed_after p ?F)"
    using turn_frames(1) [OF Cons.prems(2) w] run_last [OF Cons.prems] by (blast intro: prefix_order.trans)
  then have F: "feed_after p ?F = out @ feed_after p' ?F"
    using feed_after_resume feed_sorted run_last [OF Cons.prems] turn_frames(2) [OF Cons.prems(2) w] by metis
  have "feed_ok (et_db t')" using steps_extend [OF _ Cons.prems(2)] Cons.prems(1) by simp
  with Cons.IH [of t' p'] Cons.prems(1) have "prefix (events_loop (t' # ts) p' acc) (feed_after p' ?F)" by simp
  then show ?case unfolding F by (simp add: events_loop_step [of t] w del: events_loop.simps(2))
qed

lemma turn_ok: "(\<And>k. et_flt t k = None) \<Longrightarrow> (\<And>k. et_write t k = None) \<Longrightarrow> snd (snd (writeAvailable t p acc)) = None"
  using write_rows_ok [of "et_write t" 0 "take 100 (events_after (et_db t) p acc)" p]
  by (auto simp: writeAvailable_def split: prod.splits option.splits)

definition quiet_turn :: "event_turn \<Rightarrow> bool" where
  "quiet_turn t \<longleftrightarrow> (\<forall>k. et_flt t k = None) \<and> (\<forall>k. et_write t k = None) \<and> \<not> et_done t"

lemma loop_progress:
  assumes "successively ledger_steps (map et_db (t # ts))" "feed_ok (et_db t)" "\<forall>x \<in> set (t # ts). quiet_turn x"
  shows "prefix (take (100 * length (t # ts)) (feed_after p (feed (et_db t) acc))) (events_loop (t # ts) p acc)"
  using assms
proof (induction ts arbitrary: t p)
  case Nil
  obtain p' out where w: "writeAvailable t p acc = (p', out, None)"
    using turn_ok [of t p acc] Nil.prems(3) by (metis list.set_intros(1) prod.collapse quiet_turn_def)
  from turn_frames(3) [OF Nil.prems(2) w] show ?case by (simp add: events_loop_step w del: events_loop.simps(2))
next
  case (Cons t' ts)
  let ?G = "feed_after p (feed (et_db t) acc)"
  obtain p' out where w: "writeAvailable t p acc = (p', out, None)"
    using turn_ok [of t p acc] Cons.prems(3) by (metis list.set_intros(1) prod.collapse quiet_turn_def)
  note f = turn_frames [OF Cons.prems(2) w]
  have rest: "drop 100 ?G = feed_after p' (feed (et_db t) acc)"
    using feed_after_resume [OF feed_sorted [OF Cons.prems(2)] f(1)] f(2,3) by (metis append_eq_conv_conj append_take_drop_id same_append_eq)
  have steps: "ledger_steps (et_db t) (et_db t')" "successively ledger_steps (map et_db (t' # ts))" using Cons.prems(1) by auto
  note ext = steps_extend [OF steps(1) Cons.prems(2), of acc]
  have "prefix (take (100 * length (t' # ts)) (drop 100 ?G)) (take (100 * length (t' # ts)) (feed_after p' (feed (et_db t') acc)))"
    using ext unfolding rest feed_extends_def by (auto simp: take_is_prefix)
  also have "prefix \<dots> (events_loop (t' # ts) p' acc)" using Cons.IH [OF steps(2)] ext Cons.prems(3) by simp
  finally have "prefix (out @ take (100 * length (t' # ts)) (drop 100 ?G)) (out @ events_loop (t' # ts) p' acc)" by simp
  moreover have "take (100 * length (t # t' # ts)) ?G = out @ take (100 * length (t' # ts)) (drop 100 ?G)"
    using f(3) take_add [of 100 "100 * length (t' # ts)" ?G] by (simp add: algebra_simps)
  moreover have "\<not> et_done t" using Cons.prems(3) by (simp add: quiet_turn_def)
  ultimately show ?case by (simp add: events_loop_step [of t] w del: events_loop.simps(2))
qed


text \<open>C17: The event stream makes progress. As long as no statement or write fails and the client stays, each turn delivers a hundred
  more events, or all there are: after \<open>n\<close> turns the client has received the first \<open>100 n\<close> events that its feed held
  when it connected, however the ledger grows meanwhile.\<close>

theorem event_stream_progress:
  assumes run: "successively ledger_steps (map et_db (t # ts))" and ok: "feed_ok (et_db t)"
    and quiet: "\<forall>x \<in> set (t # ts). quiet_turn x"
    and ticket: "ConsumeStreamTicket L flt now A token = (Inr acc, A')" "token \<noteq> []" "acc \<noteq> []"
  shows "\<exists>out. broker_events L flt now token lastEventID (t # ts) A = (EventStream out, A')
    \<and> prefix (take (100 * length (t # ts)) (feed_after (parseInt64 lastEventID) (feed (et_db t) acc))) out"
  using loop_progress [OF run ok quiet, of "parseInt64 lastEventID" acc] ticket
  by (simp add: broker_events_def Events_ServeHTTP_def del: events_loop.simps)

section \<open>Examples\<close>

definition demo_feed :: db where
  "demo_feed = snd (ReserveInference no_faults 7 demo_db demo_reservation)"

definition demo_turn :: event_turn where
  "demo_turn = \<lparr>et_db = demo_feed, et_flt = no_faults, et_write = (\<lambda>_. None), et_done = False\<rparr>"

definition demo_tickets :: auth_db where
  "demo_tickets = \<lparr>au_db = demo_db, au_devices = [], au_tokens = [], au_keys = [], au_tickets =
     [\<lparr>tk_id = ''t'', tk_account_id = ''a'', tk_token_hash = [0x78], tk_expires_at = 9, tk_consumed_at = None\<rparr>],
     au_challenges = [], au_browsers = []\<rparr>"

lemma demo_turn_ok: "feed_ok (et_db demo_turn)" "quiet_turn demo_turn"
proof -
  have "feed_ok demo_db"
    using demo_ok by (simp add: feed_ok_def demo_db_def empty_db_def)
  then show "feed_ok (et_db demo_turn)"
    using steps_extend [OF demo_step] by (simp add: demo_turn_def demo_feed_def)
  show "quiet_turn demo_turn" by (simp add: demo_turn_def quiet_turn_def no_faults_def)
qed

lemma demo_ticket: "fst (ConsumeStreamTicket demo_lib no_faults 3 demo_tickets ''t.x'') = Inr ''a''"
  by code_simp


theorem event_stream_progress_witness:
  "\<exists>out A'. broker_events demo_lib no_faults 3 ''t.x'' [] [demo_turn] demo_tickets = (EventStream out, A')
     \<and> map fst out = [1, 2]"
proof -
  obtain A' where ticket: "ConsumeStreamTicket demo_lib no_faults 3 demo_tickets ''t.x'' = (Inr ''a'', A')"
    using demo_ticket by (metis prod.collapse)
  have run: "successively ledger_steps (map et_db [demo_turn])" "\<forall>x \<in> set [demo_turn]. quiet_turn x"
    using demo_turn_ok(2) by simp_all
  obtain out where out: "broker_events demo_lib no_faults 3 ''t.x'' [] [demo_turn] demo_tickets = (EventStream out, A')"
    "prefix (take (100 * length [demo_turn]) (feed_after (parseInt64 []) (feed (et_db demo_turn) ''a''))) out"
    using event_stream_progress [OF run(1) demo_turn_ok(1) run(2) ticket] by auto
  have "case fst (broker_events demo_lib no_faults 3 ''t.x'' [] [demo_turn] demo_tickets) of
      EventStream out \<Rightarrow> map fst out = [1, 2] | _ \<Rightarrow> False" by code_simp
  with out(1) show ?thesis by auto
qed

end
