(* ===== verification/AuthHTTP.thy ===== *)
theory AuthHTTP
  imports AuthInv
begin

text \<open>
  The HTTP interface of the authentication service (\<^verbatim>\<open>server/internal/auth/http.go\<close>): the routes, the checks of the origin and of the
  session cookie, the handlers and the status of every error. Decoding a JSON body is a record of functions; what the mux answers to
  a request without a route is left to it. A request may call the service several times, each time with its own clock
  reading, random bytes and database faults. Requests are served one after the other; the texts of the service's named errors are
  left out.
\<close>

section \<open>Requests and replies\<close>

record httpConfig =
  hc_Domain :: string
  hc_VerificationURL :: string
  hc_ContractAddress :: string
  hc_AllowedOrigins :: "string list"
  hc_ChainID :: u64
  hc_SessionLifetime :: int
  hc_SecureCookies :: bool

record auth_request =
  aq_Method :: string
  aq_Path :: string
  aq_Origin :: string
  aq_ContentType :: string
  aq_Cookie :: "string option"
  aq_Body :: string

record auth_decoders =
  dc_address :: "string \<Rightarrow> string result"
  dc_verify :: "string \<Rightarrow> (string \<times> string) result"
  dc_device :: "string \<Rightarrow> (string \<times> string) result"
  dc_device_code :: "string \<Rightarrow> string result"
  dc_user_code :: "string \<Rightarrow> string result"
  dc_scope :: "string \<Rightarrow> apiKeyScope result"

record auth_env =
  ae_random :: "nat \<Rightarrow> random_source"
  ae_faults :: "nat \<Rightarrow> faults"
  ae_now :: "nat \<Rightarrow> int"

record session_view =
  sv_AccountID :: string
  sv_WalletAddress :: string
  sv_ExpiresAt :: int

record device_view =
  dw_DeviceCode :: string
  dw_UserCode :: string
  dw_VerificationURI :: string
  dw_ExpiresAt :: int
  dw_SignerAddress :: string
  dw_ChainID :: u64
  dw_ContractAddress :: string

record key_view =
  kv_ID :: string
  kv_Token :: string
  kv_Scope :: apiKeyScope
  kv_CreatedAt :: "int option"

datatype reply_value =
    NoContent | ErrorMessage string | RSession session_view | RChallenge walletChallenge | RDevice device_view
  | RToken auth_machine string | RPending pendingDevice | RKeys "key_view list" | RKey key_view | RTicket streamTicket

datatype cookie_change = SetSession string int | ClearSession

record http_reply =
  rp_Status :: nat
  rp_Value :: reply_value
  rp_Cookie :: "cookie_change option"

definition http_error_reply :: "string \<Rightarrow> nat \<Rightarrow> http_reply" where
  "http_error_reply message status = \<lparr>rp_Status = status, rp_Value = ErrorMessage message, rp_Cookie = None\<rparr>"

definition error_status :: "go_error \<Rightarrow> nat" where
  "error_status e =
     (case e of ErrAuthorizationPending \<Rightarrow> 425 | ErrAuthorizationExpired \<Rightarrow> 410 | ErrAuthorizationConsumed \<Rightarrow> 409
      | ErrInvalidCredential \<Rightarrow> 401 | ErrOriginDenied \<Rightarrow> 403 | _ \<Rightarrow> 400)"

definition auth_error_text :: "go_error \<Rightarrow> string" where
  "auth_error_text e = (case e of ErrText t \<Rightarrow> t | _ \<Rightarrow> '''')"

definition write_reply :: "nat \<Rightarrow> ('a \<Rightarrow> reply_value) \<Rightarrow> 'a result \<Rightarrow> http_reply" where
  "write_reply success view res =
     (case res of
        Inr v \<Rightarrow> \<lparr>rp_Status = success, rp_Value = (if success = 204 then NoContent else view v), rp_Cookie = None\<rparr>
      | Inl e \<Rightarrow> http_error_reply (auth_error_text e) (error_status e))"

definition decodeJSON :: "(string \<Rightarrow> 'a result) \<Rightarrow> auth_request \<Rightarrow> ('a \<Rightarrow> http_reply \<times> 'd) \<Rightarrow> 'd \<Rightarrow> http_reply \<times> 'd" where
  "decodeJSON dec r k d =
     (if \<not> prefix ''application/json'' (aq_ContentType r) then (http_error_reply ''application/json required'' 415, d)
      else case dec (aq_Body r) of Inl _ \<Rightarrow> (http_error_reply ''invalid JSON'' 400, d) | Inr v \<Rightarrow> k v)"

section \<open>Handlers\<close>

definition NewHandler_config :: "httpConfig \<Rightarrow> httpConfig" where
  "NewHandler_config c =
     c\<lparr>hc_ChainID := if hc_ChainID c = 0 then 10143 else hc_ChainID c,
       hc_SessionLifetime := if hc_SessionLifetime c \<le> 0 then 12 * 3600 * 1000000000 else hc_SessionLifetime c\<rparr>"

definition originAllowed :: "httpConfig \<Rightarrow> auth_request \<Rightarrow> bool" where
  "originAllowed c r \<longleftrightarrow> list_ex (\<lambda>allowed. aq_Origin r = allowed) (hc_AllowedOrigins c)"

definition browserOrigin ::
  "httpConfig \<Rightarrow> auth_request \<Rightarrow> auth_db \<Rightarrow> (string \<Rightarrow> http_reply \<times> auth_db) \<Rightarrow> http_reply \<times> auth_db" where
  "browserOrigin c r A k = (if originAllowed c r then k (aq_Origin r) else (http_error_reply ''origin denied'' 403, A))"

definition AuthenticateBrowserRequest :: "auth_lib \<Rightarrow> auth_env \<Rightarrow> auth_db \<Rightarrow> auth_request \<Rightarrow> browserSession result" where
  "AuthenticateBrowserRequest L V A r =
     (case aq_Cookie r of
        None \<Rightarrow> Inl ErrInvalidCredential
      | Some cookie \<Rightarrow> AuthenticateBrowserSession L (ae_faults V 0) (ae_now V 0) A cookie)"

definition withSession ::
  "httpConfig \<Rightarrow> auth_lib \<Rightarrow> auth_env \<Rightarrow> auth_request \<Rightarrow> auth_db \<Rightarrow> (browserSession \<Rightarrow> http_reply \<times> auth_db) \<Rightarrow> http_reply \<times> auth_db" where
  "withSession c L V r A k =
     browserOrigin c r A (\<lambda>_.
       case AuthenticateBrowserRequest L V A r of
         Inl _ \<Rightarrow> (http_error_reply ''authentication required'' 401, A)
       | Inr session \<Rightarrow> k session)"

definition walletChallenge_handler ::
  "httpConfig \<Rightarrow> auth_decoders \<Rightarrow> eth \<Rightarrow> auth_lib \<Rightarrow> auth_env \<Rightarrow> auth_request \<Rightarrow> auth_db \<Rightarrow> http_reply \<times> auth_db" where
  "walletChallenge_handler c D G L V r A =
     browserOrigin c r A (\<lambda>origin.
     decodeJSON (dc_address D) r (\<lambda>address.
       case CreateWalletChallenge G L (ae_random V 0) (ae_faults V 0) (ae_now V 0) A (hc_Domain c) origin address (hc_ChainID c) (300 * 1000000000) of
         (res, A') \<Rightarrow> (write_reply 201 RChallenge res, A')) A)"

definition walletVerify ::
  "httpConfig \<Rightarrow> auth_decoders \<Rightarrow> eth \<Rightarrow> auth_lib \<Rightarrow> auth_env \<Rightarrow> auth_request \<Rightarrow> auth_db \<Rightarrow> http_reply \<times> auth_db" where
  "walletVerify c D G L V r A =
     browserOrigin c r A (\<lambda>origin.
     decodeJSON (dc_verify D) r (\<lambda>(challengeID, signature).
       case VerifyWalletChallenge G L (ae_random V 0) (ae_faults V 0) (ae_now V 0) A challengeID origin signature (hc_SessionLifetime c) of
         (Inl e, A') \<Rightarrow> (http_error_reply (auth_error_text e) (error_status e), A')
       | (Inr s, A') \<Rightarrow>
           (\<lparr>rp_Status = 200, rp_Value = RSession \<lparr>sv_AccountID = bw_AccountID s, sv_WalletAddress = bw_WalletAddress s,
               sv_ExpiresAt = bw_ExpiresAt s\<rparr>, rp_Cookie = Some (SetSession (bw_Token s) (bw_ExpiresAt s))\<rparr>, A')) A)"

definition session_handler :: "auth_lib \<Rightarrow> auth_env \<Rightarrow> auth_request \<Rightarrow> auth_db \<Rightarrow> http_reply \<times> auth_db" where
  "session_handler L V r A =
     (case aq_Cookie r of
        None \<Rightarrow> (\<lparr>rp_Status = 204, rp_Value = NoContent, rp_Cookie = None\<rparr>, A)
      | Some cookie \<Rightarrow>
          (case AuthenticateBrowserSession L (ae_faults V 0) (ae_now V 0) A cookie of
             Inl _ \<Rightarrow> (\<lparr>rp_Status = 204, rp_Value = NoContent, rp_Cookie = Some ClearSession\<rparr>, A)
           | Inr s \<Rightarrow> (\<lparr>rp_Status = 200, rp_Value = RSession \<lparr>sv_AccountID = bw_AccountID s, sv_WalletAddress = bw_WalletAddress s,
                sv_ExpiresAt = bw_ExpiresAt s\<rparr>, rp_Cookie = None\<rparr>, A)))"

definition sessionDelete :: "auth_env \<Rightarrow> auth_db \<Rightarrow> browserSession \<Rightarrow> http_reply \<times> auth_db" where
  "sessionDelete V A session =
     (case RevokeBrowserSession (ae_faults V 1) (ae_now V 1) A (bw_ID session) of
        (Inl e, A') \<Rightarrow> (http_error_reply (auth_error_text e) (error_status e), A')
      | (Inr _, A') \<Rightarrow> (\<lparr>rp_Status = 204, rp_Value = NoContent, rp_Cookie = Some ClearSession\<rparr>, A'))"

definition deviceCreate ::
  "httpConfig \<Rightarrow> auth_decoders \<Rightarrow> eth \<Rightarrow> auth_lib \<Rightarrow> auth_env \<Rightarrow> auth_request \<Rightarrow> auth_db \<Rightarrow> http_reply \<times> auth_db" where
  "deviceCreate c D G L V r A =
     decodeJSON (dc_device D) r (\<lambda>(machineName, signerAddress).
       case CreateDeviceAuthorization G L (ae_random V 0) (ae_faults V 0) (ae_now V 0) A machineName signerAddress (600 * 1000000000) of
         (res, A') \<Rightarrow>
           (write_reply 201 (\<lambda>a. RDevice \<lparr>dw_DeviceCode = da_DeviceCode a, dw_UserCode = da_UserCode a, dw_VerificationURI = hc_VerificationURL c,
              dw_ExpiresAt = da_ExpiresAt a, dw_SignerAddress = da_SignerAddress a, dw_ChainID = hc_ChainID c,
              dw_ContractAddress = hc_ContractAddress c\<rparr>) res, A')) A"

definition deviceToken_handler :: "auth_decoders \<Rightarrow> auth_lib \<Rightarrow> auth_env \<Rightarrow> auth_request \<Rightarrow> auth_db \<Rightarrow> http_reply \<times> auth_db" where
  "deviceToken_handler D L V r A =
     decodeJSON (dc_device_code D) r (\<lambda>deviceCode.
       case ExchangeDeviceAuthorization L (ae_random V 0) (ae_faults V 0) (ae_now V 0) A deviceCode of
         (res, A') \<Rightarrow> (write_reply 200 (\<lambda>(machine, token). RToken machine token) res, A')) A"

definition deviceInspect :: "auth_decoders \<Rightarrow> auth_lib \<Rightarrow> auth_env \<Rightarrow> auth_request \<Rightarrow> auth_db \<Rightarrow> browserSession \<Rightarrow> http_reply \<times> auth_db" where
  "deviceInspect D L V r A session =
     decodeJSON (dc_user_code D) r (\<lambda>userCode.
       (write_reply 200 RPending (PendingDevice L (ae_faults V 1) (ae_now V 1) A userCode), A)) A"

definition deviceApprove :: "auth_decoders \<Rightarrow> auth_lib \<Rightarrow> auth_env \<Rightarrow> auth_request \<Rightarrow> auth_db \<Rightarrow> browserSession \<Rightarrow> http_reply \<times> auth_db" where
  "deviceApprove D L V r A session =
     decodeJSON (dc_user_code D) r (\<lambda>userCode.
       case ApproveDeviceAuthorization L (ae_faults V 1) (ae_now V 1) A userCode (bw_AccountID session) of
         (res, A') \<Rightarrow> (write_reply 204 (\<lambda>_. NoContent) res, A')) A"

definition apiKeysList :: "auth_lib \<Rightarrow> auth_env \<Rightarrow> auth_db \<Rightarrow> browserSession \<Rightarrow> http_reply \<times> auth_db" where
  "apiKeysList L V A session =
     (write_reply 200 (\<lambda>ks. RKeys (map (\<lambda>k. \<lparr>kv_ID = kr_ID k, kv_Token = '''', kv_Scope = kr_Scope k, kv_CreatedAt = Some (kr_CreatedAt k)\<rparr>) ks))
        (ListAPIKeys L (ae_faults V 1) A (bw_AccountID session)), A)"

definition apiKeysCreate :: "auth_decoders \<Rightarrow> auth_lib \<Rightarrow> auth_env \<Rightarrow> auth_request \<Rightarrow> auth_db \<Rightarrow> browserSession \<Rightarrow> http_reply \<times> auth_db" where
  "apiKeysCreate D L V r A session =
     decodeJSON (dc_scope D) r (\<lambda>scope.
       case CreateAPIKey L (ae_random V 1) (ae_faults V 1) (ae_now V 1) A (bw_AccountID session) scope of
         (res, A') \<Rightarrow>
           (write_reply 201 (\<lambda>k. RKey \<lparr>kv_ID = ky_ID k, kv_Token = ky_Token k, kv_Scope = scope, kv_CreatedAt = None\<rparr>) res, A')) A"

definition apiKeysDelete :: "auth_lib \<Rightarrow> auth_env \<Rightarrow> string \<Rightarrow> auth_db \<Rightarrow> browserSession \<Rightarrow> http_reply \<times> auth_db" where
  "apiKeysDelete L V i A session =
     (if i = [] then (http_error_reply ''missing API key'' 400, A)
      else case ListAPIKeys L (ae_faults V 1) A (bw_AccountID session) of
        Inl e \<Rightarrow> (http_error_reply (auth_error_text e) (error_status e), A)
      | Inr keys \<Rightarrow>
          if \<not> list_ex (\<lambda>k. kr_ID k = i) keys then (http_error_reply (auth_error_text ErrInvalidCredential) (error_status ErrInvalidCredential), A)
          else (case RevokeAPIKey (ae_faults V 2) (ae_now V 2) A i of (res, A') \<Rightarrow> (write_reply 204 (\<lambda>_. NoContent) res, A')))"

definition streamTicket_handler :: "auth_lib \<Rightarrow> auth_env \<Rightarrow> auth_db \<Rightarrow> browserSession \<Rightarrow> http_reply \<times> auth_db" where
  "streamTicket_handler L V A session =
     (case CreateStreamTicket L (ae_random V 1) (ae_faults V 1) (ae_now V 1) A (bw_AccountID session) (60 * 1000000000) of
        (res, A') \<Rightarrow> (write_reply 201 RTicket res, A'))"

section \<open>Routes\<close>

text \<open>A pattern for \<^verbatim>\<open>GET\<close> also takes \<^verbatim>\<open>HEAD\<close>; \<^verbatim>\<open>{id}\<close> is one segment.\<close>

datatype auth_route =
    WalletChallenge | WalletVerify | SessionGet | SessionDelete | DeviceCreate | DeviceToken | DeviceInspect | DeviceApprove
  | KeysList | KeysCreate | KeysDelete string | StreamTicket

definition key_path :: string where
  "key_path = ''/auth/api-keys/''"

definition route :: "auth_request \<Rightarrow> auth_route option" where
  "route r =
     (let p = aq_Path r; get = (aq_Method r = ''GET'' \<or> aq_Method r = ''HEAD''); post = (aq_Method r = ''POST'');
          delete = (aq_Method r = ''DELETE''); i = drop (length key_path) p
      in if post \<and> p = ''/auth/wallet/challenge'' then Some WalletChallenge
         else if post \<and> p = ''/auth/wallet/verify'' then Some WalletVerify
         else if get \<and> p = ''/auth/session'' then Some SessionGet
         else if delete \<and> p = ''/auth/session'' then Some SessionDelete
         else if post \<and> p = ''/auth/device'' then Some DeviceCreate
         else if post \<and> p = ''/auth/device/token'' then Some DeviceToken
         else if post \<and> p = ''/auth/device/inspect'' then Some DeviceInspect
         else if post \<and> p = ''/auth/device/approve'' then Some DeviceApprove
         else if get \<and> p = ''/auth/api-keys'' then Some KeysList
         else if post \<and> p = ''/auth/api-keys'' then Some KeysCreate
         else if delete \<and> prefix key_path p \<and> i \<noteq> [] \<and> CHR ''/'' \<notin> set i then Some (KeysDelete i)
         else if post \<and> p = ''/auth/stream-ticket'' then Some StreamTicket
         else None)"

definition serve_route ::
  "httpConfig \<Rightarrow> auth_decoders \<Rightarrow> eth \<Rightarrow> auth_lib \<Rightarrow> auth_env \<Rightarrow> auth_request \<Rightarrow> auth_route \<Rightarrow> auth_db \<Rightarrow> http_reply \<times> auth_db" where
  "serve_route c D G L V r rt A =
     (case rt of
        WalletChallenge \<Rightarrow> walletChallenge_handler c D G L V r A
      | WalletVerify \<Rightarrow> walletVerify c D G L V r A
      | SessionGet \<Rightarrow> session_handler L V r A
      | SessionDelete \<Rightarrow> withSession c L V r A (sessionDelete V A)
      | DeviceCreate \<Rightarrow> deviceCreate c D G L V r A
      | DeviceToken \<Rightarrow> deviceToken_handler D L V r A
      | DeviceInspect \<Rightarrow> withSession c L V r A (deviceInspect D L V r A)
      | DeviceApprove \<Rightarrow> withSession c L V r A (deviceApprove D L V r A)
      | KeysList \<Rightarrow> withSession c L V r A (apiKeysList L V A)
      | KeysCreate \<Rightarrow> withSession c L V r A (apiKeysCreate D L V r A)
      | KeysDelete i \<Rightarrow> withSession c L V r A (apiKeysDelete L V i A)
      | StreamTicket \<Rightarrow> withSession c L V r A (streamTicket_handler L V A))"

text \<open>\<^verbatim>\<open>cors\<close> around the mux: the origin that is allowed to read the reply, if any, and the reply.\<close>

definition auth_ServeHTTP ::
  "httpConfig \<Rightarrow> auth_decoders \<Rightarrow> eth \<Rightarrow> auth_lib \<Rightarrow> auth_env \<Rightarrow> auth_request \<Rightarrow> auth_db \<Rightarrow> string option \<times> http_reply \<times> auth_db" where
  "auth_ServeHTTP config D G L V r A =
     (let c = NewHandler_config config
      in (if originAllowed c r then Some (aq_Origin r) else None,
          if aq_Method r = ''OPTIONS'' then (\<lparr>rp_Status = 204, rp_Value = NoContent, rp_Cookie = None\<rparr>, A)
          else case route r of
            None \<Rightarrow> (http_error_reply ''404 page not found'' 404, A)
          | Some rt \<Rightarrow> serve_route c D G L V r rt A))"

section \<open>Requests act for the account of their session only\<close>

definition auth_sound :: "auth_db \<Rightarrow> bool" where
  "auth_sound A \<longleftrightarrow> distinct (map ak_id (au_keys A)) \<and> distinct (map br_id (au_browsers A)) \<and>
     (\<forall>d \<in> set (au_devices A). dv_approved_at d = None \<longrightarrow> dv_account_id d = None)"

definition acts_for :: "httpConfig \<Rightarrow> auth_lib \<Rightarrow> auth_env \<Rightarrow> auth_request \<Rightarrow> auth_db \<Rightarrow> string \<Rightarrow> bool" where
  "acts_for c L V r A account \<longleftrightarrow> originAllowed c r \<and>
     (case AuthenticateBrowserRequest L V A r of Inl _ \<Rightarrow> False | Inr s \<Rightarrow> bw_AccountID s = account)"

text \<open>The account keeps its API keys and tickets, its browser sessions and the devices approved for it.\<close>

definition untouched :: "string \<Rightarrow> auth_db \<Rightarrow> auth_db \<Rightarrow> bool" where
  "untouched account A A' \<longleftrightarrow>
     filter (\<lambda>k. ak_account_id k = account) (au_keys A') = filter (\<lambda>k. ak_account_id k = account) (au_keys A) \<and>
     filter (\<lambda>t. tk_account_id t = account) (au_tickets A') = filter (\<lambda>t. tk_account_id t = account) (au_tickets A) \<and>
     (\<forall>b \<in> set (au_browsers A). br_account_id b = account \<longrightarrow> b \<in> set (au_browsers A')) \<and>
     map dv_device_code_hash (filter (\<lambda>d. dv_account_id d = Some account) (au_devices A'))
       = map dv_device_code_hash (filter (\<lambda>d. dv_account_id d = Some account) (au_devices A))"

lemma untouched_refl [simp]: "untouched account A A"
  by (simp add: untouched_def)

lemma untouched_trans: "untouched account A B \<Longrightarrow> untouched account B C \<Longrightarrow> untouched account A C"
  by (simp add: untouched_def)

lemma filter_update_rows:
  assumes "\<And>x. x \<in> set t \<Longrightarrow> P x \<Longrightarrow> \<not> Q x \<and> \<not> Q (f x)"
  shows "filter Q (update_rows P f t) = filter Q t"
  using assms by (induction t) auto

lemma map_filter_update_rows:
  assumes "\<And>x. key (f x) = key x" "\<And>x. x \<in> set t \<Longrightarrow> P x \<Longrightarrow> Q (f x) = Q x"
  shows "map key (filter Q (update_rows P f t)) = map key (filter Q t)"
  using assms by (induction t) auto

lemma distinct_key_eq: "distinct (map key t) \<Longrightarrow> x \<in> set t \<Longrightarrow> y \<in> set t \<Longrightarrow> key x = key y \<Longrightarrow> x = y"
  by (simp add: distinct_map inj_on_def)

text \<open>What each operation may do to the tables.\<close>

lemma create_challenge_step:
  assumes "CreateWalletChallenge G L rnd flt now A d og ad ch l = (res, A')" "auth_sound A"
  shows "untouched a A A' \<and> auth_sound A'"
  using assms
  by (auto simp: CreateWalletChallenge_def transact_def untouched_def auth_sound_def Let_def split: if_splits sum.splits prod.splits)

lemma verify_step:
  assumes "VerifyWalletChallenge G L rnd flt now A i og sg l = (res, A')" "auth_sound A"
  shows "untouched a A A' \<and> auth_sound A'"
proof (cases res)
  case (Inl e)
  then have "A' = A" using Verify_error assms(1) by blast
  then show ?thesis using assms(2) by simp
next
  case (Inr s)
  have "\<exists>row. au_browsers A' = au_browsers A @ [row] \<and> \<not> has_key br_id (br_id row) (au_browsers A)"
    using assms Inr by (auto simp: VerifyWalletChallenge_def transact_ok Let_def insert_row_ok split: if_splits)
  then show ?thesis using Verify_ok(3-5) [of G L rnd flt now A i og sg l s A'] assms Inr by (auto simp: untouched_def auth_sound_def)
qed

lemma create_device_step:
  assumes "CreateDeviceAuthorization G L rnd flt now A n sg l = (res, A')" "auth_sound A"
  shows "untouched a A A' \<and> auth_sound A'"
  using assms
  by (auto simp: CreateDeviceAuthorization_def transact_def untouched_def auth_sound_def Let_def insert_row_ok
      split: if_splits sum.splits prod.splits)

lemma exchange_step:
  assumes "ExchangeDeviceAuthorization L rnd flt now A code = (res, A')" "auth_sound A"
  shows "untouched a A A' \<and> auth_sound A'"
proof (cases res)
  case (Inl e)
  then have "A' = A" using Exchange_error assms(1) by blast
  then show ?thesis using assms(2) by simp
next
  case (Inr y)
  have run: "ExchangeDeviceAuthorization L rnd flt now A code = (Inr y, A')" using assms Inr by simp
  have "au_browsers A' = au_browsers A"
    using run by (auto simp: ExchangeDeviceAuthorization_def transact_ok upsert_token_def split: if_splits option.splits)
  then show ?thesis using Exchange_ok [OF run] assms(2)
    by (auto simp: untouched_def auth_sound_def map_filter_update_rows set_update_rows)
qed

lemma approve_step:
  assumes "ApproveDeviceAuthorization L flt now A code b = (res, A')" "auth_sound A"
  shows "(a \<noteq> b \<longrightarrow> untouched a A A') \<and> auth_sound A'"
proof -
  let ?P = "\<lambda>d. dv_user_code_hash d = al_sha256 L (to_upper code) \<and> dv_approved_at d = None \<and> dv_exchanged_at d = None \<and> dv_expires_at d > now"
  let ?t = "update_rows ?P (\<lambda>d. d\<lparr>dv_account_id := Some b, dv_approved_at := Some (micros now)\<rparr>) (au_devices A)"
  have same: "a \<noteq> b \<Longrightarrow> map dv_device_code_hash (filter (\<lambda>d. dv_account_id d = Some a) ?t)
      = map dv_device_code_hash (filter (\<lambda>d. dv_account_id d = Some a) (au_devices A))"
    using assms(2) by (intro map_filter_update_rows) (auto simp: auth_sound_def)
  have "A' = A \<or> A' = A\<lparr>au_devices := ?t\<rparr>"
    using assms(1) by (auto simp: ApproveDeviceAuthorization_def Let_def split: sum.splits)
  then show ?thesis using same assms(2) by (auto simp: untouched_def auth_sound_def set_update_rows)
qed

lemma create_key_step:
  assumes "CreateAPIKey L rnd flt now A b scope = (res, A')" "auth_sound A"
  shows "(a \<noteq> b \<longrightarrow> untouched a A A') \<and> auth_sound A'"
  using assms
  by (auto simp: CreateAPIKey_def transact_def untouched_def auth_sound_def Let_def insert_row_ok split: if_splits sum.splits prod.splits)

lemma create_ticket_step:
  assumes "CreateStreamTicket L rnd flt now A b l = (res, A')" "auth_sound A"
  shows "(a \<noteq> b \<longrightarrow> untouched a A A') \<and> auth_sound A'"
  using assms
  by (auto simp: CreateStreamTicket_def transact_def untouched_def auth_sound_def Let_def insert_row_ok split: if_splits sum.splits prod.splits)

lemma listed_key:
  assumes "ListAPIKeys L flt A b = Inr keys" "list_ex (\<lambda>k. kr_ID k = i) keys"
  shows "\<exists>k \<in> set (au_keys A). ak_id k = i \<and> ak_account_id k = b"
proof -
  have "listKeys_loop L ks = Inr rs \<Longrightarrow> list_ex (\<lambda>k. kr_ID k = i) rs \<Longrightarrow> \<exists>k \<in> set ks. ak_id k = i" for ks rs
    by (induction ks arbitrary: rs) auto
  then show ?thesis using assms by (fastforce simp: ListAPIKeys_def)
qed

lemma revoke_key_step:
  assumes "RevokeAPIKey flt now A i = (res, A')" "auth_sound A" "\<exists>k \<in> set (au_keys A). ak_id k = i \<and> ak_account_id k = b"
  shows "(a \<noteq> b \<longrightarrow> untouched a A A') \<and> auth_sound A'"
proof -
  have "filter (\<lambda>k. ak_account_id k = a) (update_rows (\<lambda>k. ak_id k = i) (\<lambda>k. k\<lparr>ak_revoked_at := t\<rparr>) (au_keys A))
      = filter (\<lambda>k. ak_account_id k = a) (au_keys A)" if "a \<noteq> b" for t
    using that assms(2,3) by (intro filter_update_rows) (auto simp: auth_sound_def dest: distinct_key_eq)
  then show ?thesis using assms(1,2)
    by (auto simp: RevokeAPIKey_def transact_def untouched_def auth_sound_def map_key_update_rows split: sum.splits)
qed

lemma session_row:
  assumes "AuthenticateBrowserSession L flt now A cookie = Inr s"
  shows "\<exists>b \<in> set (au_browsers A). br_id b = bw_ID s \<and> br_account_id b = bw_AccountID s"
  using assms
  by (auto simp: AuthenticateBrowserSession_def split: option.splits sum.splits if_splits dest!: select_one_Inr)

lemma revoke_session_step:
  assumes "RevokeBrowserSession flt now A i = (res, A')" "auth_sound A" "\<exists>x \<in> set (au_browsers A). br_id x = i \<and> br_account_id x = b"
  shows "(a \<noteq> b \<longrightarrow> untouched a A A') \<and> auth_sound A'"
proof -
  have "x \<in> set (update_rows (\<lambda>x. br_id x = i \<and> br_revoked_at x = None) f (au_browsers A))"
    if "x \<in> set (au_browsers A)" "br_account_id x = a" "a \<noteq> b" for x f
    using that assms(2,3) by (force simp: set_update_rows auth_sound_def dest: distinct_key_eq)
  then show ?thesis using assms(1,2)
    by (auto simp: RevokeBrowserSession_def Let_def untouched_def auth_sound_def map_key_update_rows split: sum.splits)
qed

lemma decodeJSON_cases:
  assumes "decodeJSON dec r k A = (rep, A')"
  shows "A' = A \<or> (\<exists>v. k v = (rep, A'))"
  using assms by (auto simp: decodeJSON_def split: if_splits sum.splits)

lemma withSession_cases:
  assumes "withSession c L V r A k = (rep, A')"
  shows "A' = A \<or> (\<exists>s. originAllowed c r \<and> AuthenticateBrowserRequest L V A r = Inr s \<and> k s = (rep, A'))"
  using assms by (auto simp: withSession_def browserOrigin_def split: if_splits sum.splits)

text \<open>A handler behind the session check, given what it does to the accounts it is not run for.\<close>

lemma session_step:
  assumes "withSession c L V r A k = (rep, A')" "auth_sound A"
    and "\<And>s rep A'. AuthenticateBrowserRequest L V A r = Inr s \<Longrightarrow> k s = (rep, A') \<Longrightarrow>
      (a \<noteq> bw_AccountID s \<longrightarrow> untouched a A A') \<and> auth_sound A'"
  shows "(\<not> acts_for c L V r A a \<longrightarrow> untouched a A A') \<and> auth_sound A'"
  using withSession_cases [OF assms(1)] assms(2,3) by (auto simp: acts_for_def)

lemma session_of_request:
  assumes "AuthenticateBrowserRequest L V A r = Inr s"
  shows "\<exists>b \<in> set (au_browsers A). br_id b = bw_ID s \<and> br_account_id b = bw_AccountID s"
  using assms session_row by (auto simp: AuthenticateBrowserRequest_def split: option.splits)

lemma public_step:
  assumes "serve_route c D G L V r rt A = (rep, A')" "auth_sound A"
    and "rt \<in> {WalletChallenge, WalletVerify, SessionGet, DeviceCreate, DeviceToken}"
  shows "untouched a A A' \<and> auth_sound A'"
  using assms
  by (auto simp: serve_route_def walletChallenge_handler_def walletVerify_def session_handler_def deviceCreate_def deviceToken_handler_def
      browserOrigin_def dest!: decodeJSON_cases split: if_splits option.splits sum.splits prod.splits
      dest!: create_challenge_step [OF _ assms(2), where a = a] verify_step [OF _ assms(2), where a = a]
        create_device_step [OF _ assms(2), where a = a] exchange_step [OF _ assms(2), where a = a])

lemma serve_step:
  assumes "serve_route c D G L V r rt A = (rep, A')" "auth_sound A"
  shows "(\<not> acts_for c L V r A a \<longrightarrow> untouched a A A') \<and> auth_sound A'"
proof (cases rt)
  case SessionDelete
  then have "withSession c L V r A (sessionDelete V A) = (rep, A')" using assms(1) by (simp add: serve_route_def)
  then show ?thesis using assms(2)
    by (rule session_step) (auto simp: sessionDelete_def split: prod.splits sum.splits dest!: session_of_request
        dest: revoke_session_step [OF _ assms(2)])
next
  case DeviceInspect
  then have "withSession c L V r A (deviceInspect D L V r A) = (rep, A')" using assms(1) by (simp add: serve_route_def)
  then show ?thesis using assms(2)
    by (rule session_step) (auto simp: deviceInspect_def assms(2) dest!: decodeJSON_cases)
next
  case DeviceApprove
  then have "withSession c L V r A (deviceApprove D L V r A) = (rep, A')" using assms(1) by (simp add: serve_route_def)
  then show ?thesis using assms(2)
    by (rule session_step) (auto simp: deviceApprove_def assms(2) split: prod.splits dest!: decodeJSON_cases dest: approve_step [OF _ assms(2)])
next
  case KeysList
  then have "withSession c L V r A (apiKeysList L V A) = (rep, A')" using assms(1) by (simp add: serve_route_def)
  then show ?thesis using assms(2) by (rule session_step) (auto simp: apiKeysList_def assms(2))
next
  case KeysCreate
  then have "withSession c L V r A (apiKeysCreate D L V r A) = (rep, A')" using assms(1) by (simp add: serve_route_def)
  then show ?thesis using assms(2)
    by (rule session_step) (auto simp: apiKeysCreate_def assms(2) split: prod.splits dest!: decodeJSON_cases dest: create_key_step [OF _ assms(2)])
next
  case (KeysDelete i)
  then have "withSession c L V r A (apiKeysDelete L V i A) = (rep, A')" using assms(1) by (simp add: serve_route_def)
  then show ?thesis using assms(2)
    by (rule session_step) (auto simp: apiKeysDelete_def assms(2) split: prod.splits sum.splits if_splits
        dest!: listed_key dest: revoke_key_step [OF _ assms(2)])
next
  case StreamTicket
  then have "withSession c L V r A (streamTicket_handler L V A) = (rep, A')" using assms(1) by (simp add: serve_route_def)
  then show ?thesis using assms(2)
    by (rule session_step) (auto simp: streamTicket_handler_def assms(2) split: prod.splits dest: create_ticket_step [OF _ assms(2)])
qed (use public_step [OF assms] in auto)

section \<open>Sequences of requests\<close>

fun serve_all :: "httpConfig \<Rightarrow> auth_decoders \<Rightarrow> eth \<Rightarrow> auth_lib \<Rightarrow> (auth_env \<times> auth_request) list \<Rightarrow> auth_db \<Rightarrow> auth_db" where
  "serve_all config D G L [] A = A"
| "serve_all config D G L ((V, r) # rs) A = serve_all config D G L rs (snd (snd (auth_ServeHTTP config D G L V r A)))"

text \<open>No request comes from an allowed origin with a session of the account.\<close>

fun never_acts :: "httpConfig \<Rightarrow> auth_decoders \<Rightarrow> eth \<Rightarrow> auth_lib \<Rightarrow> string \<Rightarrow> (auth_env \<times> auth_request) list \<Rightarrow> auth_db \<Rightarrow> bool" where
  "never_acts config D G L account [] A \<longleftrightarrow> True"
| "never_acts config D G L account ((V, r) # rs) A \<longleftrightarrow> \<not> acts_for (NewHandler_config config) L V r A account \<and>
     never_acts config D G L account rs (snd (snd (auth_ServeHTTP config D G L V r A)))"

lemma request_step:
  assumes "auth_sound A"
  shows "(\<not> acts_for (NewHandler_config config) L V r A a \<longrightarrow> untouched a A (snd (snd (auth_ServeHTTP config D G L V r A))))
    \<and> auth_sound (snd (snd (auth_ServeHTTP config D G L V r A)))"
proof (cases "aq_Method r = ''OPTIONS'' \<or> route r = None")
  case False
  then obtain rt where "route r = Some rt" by auto
  with False serve_step [OF _ assms, of "NewHandler_config config" D G L V r rt] show ?thesis
    by (simp add: auth_ServeHTTP_def Let_def) (metis prod.collapse)
qed (auto simp: auth_ServeHTTP_def Let_def assms)

text \<open>C15: Requests act for the account of their session only. Over any sequence of requests, with any clock readings, random bytes and
  database faults, an account that no request authenticates for from an allowed origin keeps its API keys and stream tickets as
  they are, all of its browser sessions and exactly the devices approved for it.\<close>

theorem accounts_isolated:
  assumes "auth_sound A" "never_acts config D G L account rs A"
  shows "untouched account A (serve_all config D G L rs A)"
  using assms
proof (induction rs arbitrary: A)
  case (Cons vr rs)
  obtain V r where "vr = (V, r)" by fastforce
  then show ?case using Cons request_step [OF Cons.prems(1), of config L V r account D G] untouched_trans by auto
qed simp

section \<open>Examples\<close>

definition demo_http_config :: httpConfig where
  "demo_http_config = \<lparr>hc_Domain = ''d'', hc_VerificationURL = '''', hc_ContractAddress = '''', hc_AllowedOrigins = [''https://app''],
     hc_ChainID = 0, hc_SessionLifetime = 0, hc_SecureCookies = True\<rparr>"

definition demo_decoders :: auth_decoders where
  "demo_decoders = \<lparr>dc_address = Inr, dc_verify = \<lambda>_. Inl ErrPanic, dc_device = \<lambda>_. Inl ErrPanic, dc_device_code = Inr, dc_user_code = Inr,
     dc_scope = \<lambda>_. Inr demo_scope\<rparr>"

definition demo_auth_env :: auth_env where
  "demo_auth_env = \<lparr>ae_random = \<lambda>_. demo_random, ae_faults = \<lambda>_. no_faults, ae_now = \<lambda>_. 5\<rparr>"

definition demo_delete :: "string \<Rightarrow> auth_request" where
  "demo_delete i = \<lparr>aq_Method = ''DELETE'', aq_Path = key_path @ i, aq_Origin = ''https://app'', aq_ContentType = '''',
     aq_Cookie = Some ''s.t'', aq_Body = ''''\<rparr>"

definition demo_two_accounts :: auth_db where
  "demo_two_accounts = demo_auth\<lparr>au_db := empty_db\<lparr>accounts := [\<lparr>ac_id = ''a'', ac_wallet_address = ''w''\<rparr>, \<lparr>ac_id = ''b'', ac_wallet_address = ''v''\<rparr>]\<rparr>,
     au_keys := [\<lparr>ak_id = ''ka'', ak_account_id = ''a'', ak_key_hash = [1], ak_scope_json = '''', ak_revoked_at = None, ak_created_at = 1\<rparr>,
       \<lparr>ak_id = ''kb'', ak_account_id = ''b'', ak_key_hash = [2], ak_scope_json = '''', ak_revoked_at = None, ak_created_at = 1\<rparr>],
     au_browsers := [\<lparr>br_id = ''s'', br_account_id = ''b'', br_token_hash = al_sha256 demo_lib ''t'', br_expires_at = 9, br_revoked_at = None\<rparr>]\<rparr>"

definition demo_requests :: "(auth_env \<times> auth_request) list" where
  "demo_requests = [(demo_auth_env, demo_delete ''ka''), (demo_auth_env, demo_delete ''kb'')]"

lemma demo_requests_run:
  "auth_sound demo_two_accounts" "never_acts demo_http_config demo_decoders toy_eth demo_lib ''a'' demo_requests demo_two_accounts"
  "map ak_revoked_at (au_keys (serve_all demo_http_config demo_decoders toy_eth demo_lib demo_requests demo_two_accounts)) = [None, Some 0]"
  by code_simp+

theorem accounts_isolated_witness:
  "untouched ''a'' demo_two_accounts (serve_all demo_http_config demo_decoders toy_eth demo_lib demo_requests demo_two_accounts)
   \<and> map ak_revoked_at (au_keys (serve_all demo_http_config demo_decoders toy_eth demo_lib demo_requests demo_two_accounts)) = [None, Some 0]"
  using accounts_isolated [OF demo_requests_run(1,2)] demo_requests_run(3) by simp

end
