(* ===== verification/Backends.thy ===== *)
theory Backends
  imports DaemonInv
begin

text \<open>
  The model backends of the provider (\<^verbatim>\<open>cli/internal/backend\<close>): the clients of Ollama and of OpenAI-compatible servers
  and the native Claude and Codex runners. A backend yields the
  \<open>generation\<close> that the daemon runs: the pieces it emits and its result. HTTP exchanges, child processes and JSON decoding are
  arguments: the lines a scanner reads with the error it ends in, or the decoded events.
\<close>

section \<open>Requests\<close>

text \<open>\<^verbatim>\<open>maximumOutputTokens\<close> with its default.\<close>

definition token_limit :: "u64 \<Rightarrow> u64" where
  "token_limit limit = (if limit = 0 then 4096 else limit)"

definition failed_generation :: "go_error \<Rightarrow> generation" where
  "failed_generation e = \<lparr>gn_contents = [], gn_result = Inl e, gn_aborted = Inl\<rparr>"

definition zero_usage :: usage where
  "zero_usage = \<lparr>us_InputTokens = 0, us_OutputTokens = 0, us_ComputeMilliseconds = 0\<rparr>"

definition ErrUnexpectedEOF :: go_error where
  "ErrUnexpectedEOF = ErrText ''unexpected EOF''"

text \<open>What \<^verbatim>\<open>http.Client.Do\<close> returned: an error, or the status, its text with the body's start, the lines of the body
  and what \<^verbatim>\<open>scanner.Err()\<close> reports when the loop over them is left.\<close>

record http_stream =
  hs_status :: nat
  hs_text :: string
  hs_lines :: "string list"
  hs_error :: "go_error option"

section \<open>Ollama\<close>

record ollama_chunk =
  ol_Response :: string
  ol_Done :: bool
  ol_PromptEvalCount :: u64
  ol_EvalCount :: u64
  ol_TotalDuration :: u64
  ol_Error :: string

record parsed_url =
  pu_Scheme :: string
  pu_Hostname :: string
  pu_Host :: string

definition loopback :: "string \<Rightarrow> bool" where
  "loopback host \<longleftrightarrow> host = ''127.0.0.1'' \<or> host = ''localhost'' \<or> host = ''::1''"

definition trim_right_slash :: "string \<Rightarrow> string" where
  "trim_right_slash s = rev (dropWhile (\<lambda>c. c = CHR ''/'') (rev s))"

definition ollama_New :: "(string \<Rightarrow> parsed_url result) \<Rightarrow> string \<Rightarrow> string result" where
  "ollama_New parse baseURL =
     and_then (parse baseURL) (\<lambda>parsed.
       if pu_Scheme parsed \<noteq> ''http'' \<or> \<not> loopback (pu_Hostname parsed)
       then Inl (ErrText ''Ollama URL must use loopback HTTP'') else Inr (trim_right_slash baseURL))"

fun ollama_stream :: "(string \<Rightarrow> ollama_chunk result) \<Rightarrow> string list \<Rightarrow> go_error option \<Rightarrow> string list \<times> usage result" where
  "ollama_stream unmarshal [] err = ([], case err of Some e \<Rightarrow> Inl e | None \<Rightarrow> Inl ErrUnexpectedEOF)"
| "ollama_stream unmarshal (line # ls) err =
     (case unmarshal line of
        Inl _ \<Rightarrow> ([], Inl (ErrText ''decode Ollama stream''))
      | Inr chunk \<Rightarrow>
          if ol_Error chunk \<noteq> [] then ([], Inl (ErrText (ol_Error chunk)))
          else let piece = (if ol_Response chunk \<noteq> [] then [ol_Response chunk] else [])
               in if ol_Done chunk
                  then (piece, Inr \<lparr>us_InputTokens = ol_PromptEvalCount chunk, us_OutputTokens = ol_EvalCount chunk,
                          us_ComputeMilliseconds = ol_TotalDuration chunk div 1000000\<rparr>)
                  else (case ollama_stream unmarshal ls err of (out, r) \<Rightarrow> (piece @ out, r)))"

definition status_error :: "string \<Rightarrow> http_stream \<Rightarrow> go_error" where
  "status_error who r = ErrText (who @ '' returned '' @ hs_text r)"

definition ollama_Generate ::
  "(string \<Rightarrow> ollama_chunk result) \<Rightarrow> (string \<Rightarrow> string \<Rightarrow> u64 \<Rightarrow> http_stream result)
   \<Rightarrow> string \<Rightarrow> string \<Rightarrow> (string \<times> bytes) list \<Rightarrow> u64 \<Rightarrow> generation" where
  "ollama_Generate unmarshal post model prompt files limit =
     (if model = [] \<or> prompt = [] \<or> files \<noteq> []
      then failed_generation (ErrText ''model, prompt, and content callback are required'')
      else case post model prompt (token_limit limit) of
        Inl e \<Rightarrow> failed_generation e
      | Inr r \<Rightarrow>
          if hs_status r \<noteq> 200 then failed_generation (status_error ''Ollama'' r)
          else (case ollama_stream unmarshal (hs_lines r) (hs_error r) of
                  (out, res) \<Rightarrow> \<lparr>gn_contents = out, gn_result = res, gn_aborted = Inl\<rparr>))"

text \<open>A listing: \<open>get\<close> is the response to the request for the path, \<open>decode\<close> the names in its bounded body.\<close>

definition ollama_Models :: "(string \<Rightarrow> http_stream result) \<Rightarrow> (http_stream \<Rightarrow> string list result) \<Rightarrow> string \<Rightarrow> string list result" where
  "ollama_Models get decode baseURL =
     and_then (get (baseURL @ ''/api/tags'')) (\<lambda>r. if hs_status r \<noteq> 200 then Inl (status_error ''Ollama'' r) else decode r)"

section \<open>OpenAI-compatible servers\<close>

record openai_chunk =
  ok_Contents :: "string list"
  ok_Usage :: "(u64 \<times> u64) option"

definition openai_New :: "(string \<Rightarrow> parsed_url result) \<Rightarrow> string \<Rightarrow> string \<Rightarrow> string result" where
  "openai_New parse baseURL secret =
     (case parse baseURL of
        Inl _ \<Rightarrow> Inl (ErrText ''invalid OpenAI-compatible URL'')
      | Inr parsed \<Rightarrow>
          if pu_Host parsed = [] then Inl (ErrText ''invalid OpenAI-compatible URL'')
          else if pu_Scheme parsed \<noteq> ''https'' \<and> \<not> (pu_Scheme parsed = ''http'' \<and> loopback (pu_Hostname parsed))
            then Inl (ErrText ''OpenAI-compatible URL must use HTTPS except on loopback'')
          else if blank secret then Inl (ErrText ''provider API secret is required'')
          else Inr (trim_right_slash baseURL))"

definition openai_endpoint :: "string \<Rightarrow> string \<Rightarrow> string" where
  "openai_endpoint baseURL path =
     (if suffix ''/v1'' baseURL \<and> prefix ''/v1/'' path then baseURL @ trim_prefix ''/v1'' path else baseURL @ path)"

definition openai_Models :: "(string \<Rightarrow> http_stream result) \<Rightarrow> (http_stream \<Rightarrow> string list result) \<Rightarrow> string \<Rightarrow> string list result" where
  "openai_Models get decode baseURL =
     and_then (get (openai_endpoint baseURL ''/v1/models'')) (\<lambda>r.
       if hs_status r \<noteq> 200 then Inl (status_error ''OpenAI-compatible provider'' r)
       else and_then (decode r) (\<lambda>ids. Inr (filter (\<lambda>i. i \<noteq> []) ids)))"

text \<open>The variables of the loop.\<close>

record openai_state =
  os_usage :: usage
  os_done :: bool
  os_outputSeen :: bool
  os_usageSeen :: bool

definition openai_chunk_state :: "openai_chunk \<Rightarrow> openai_state \<Rightarrow> openai_state" where
  "openai_chunk_state chunk st =
     (let st1 = st\<lparr>os_outputSeen := os_outputSeen st \<or> list_ex (\<lambda>c. c \<noteq> []) (ok_Contents chunk)\<rparr>
      in case ok_Usage chunk of
           None \<Rightarrow> st1
         | Some (promptTokens, completion) \<Rightarrow>
             st1\<lparr>os_usageSeen := True, os_usage := (os_usage st1)\<lparr>us_InputTokens := promptTokens, us_OutputTokens := completion\<rparr>\<rparr>)"

fun openai_stream ::
  "(string \<Rightarrow> openai_chunk result) \<Rightarrow> string list \<Rightarrow> openai_state \<Rightarrow> string list \<times> openai_state result" where
  "openai_stream unmarshal [] st = ([], Inr st)"
| "openai_stream unmarshal (line # ls) st =
     (if \<not> prefix ''data: '' line then openai_stream unmarshal ls st
      else let data = trim_prefix ''data: '' line
           in if data = ''[DONE]'' then ([], Inr (st\<lparr>os_done := True\<rparr>))
              else (case unmarshal data of
                      Inl _ \<Rightarrow> ([], Inl (ErrText ''decode OpenAI-compatible stream''))
                    | Inr chunk \<Rightarrow>
                        (case openai_stream unmarshal ls (openai_chunk_state chunk st) of
                           (out, r) \<Rightarrow> (filter (\<lambda>c. c \<noteq> []) (ok_Contents chunk) @ out, r))))"

text \<open>The checks after the loop; \<open>elapsed\<close> is the time of the exchange.\<close>

definition openai_finish :: "u64 \<Rightarrow> u64 \<Rightarrow> go_error option \<Rightarrow> openai_state \<Rightarrow> usage result" where
  "openai_finish limit elapsed err st =
     (case err of
        Some e \<Rightarrow> Inl e
      | None \<Rightarrow>
      if \<not> os_done st then Inl ErrUnexpectedEOF
      else if os_outputSeen st \<and> \<not> os_usageSeen st
        then Inl (ErrText ''OpenAI-compatible provider omitted usage for streamed output'')
      else if os_outputSeen st \<and> us_OutputTokens (os_usage st) = 0
        then Inl (ErrText ''OpenAI-compatible provider reported zero usage for streamed output'')
      else if us_OutputTokens (os_usage st) > limit
        then Inl (ErrText ''OpenAI-compatible provider reported usage above the output token limit'')
      else Inr ((os_usage st)\<lparr>us_ComputeMilliseconds := elapsed\<rparr>))"

definition openai_Generate ::
  "(string \<Rightarrow> openai_chunk result) \<Rightarrow> (string \<Rightarrow> string \<Rightarrow> u64 \<Rightarrow> (http_stream \<times> u64) result)
   \<Rightarrow> string \<Rightarrow> string \<Rightarrow> (string \<times> bytes) list \<Rightarrow> u64 \<Rightarrow> generation" where
  "openai_Generate unmarshal post model prompt files limit =
     (if model = [] \<or> prompt = [] \<or> files \<noteq> []
      then failed_generation (ErrText ''model, prompt, and callback are required'')
      else case post model prompt (token_limit limit) of
        Inl e \<Rightarrow> failed_generation e
      | Inr (r, elapsed) \<Rightarrow>
          if hs_status r \<noteq> 200 then failed_generation (status_error ''OpenAI-compatible provider'' r)
          else (case openai_stream unmarshal (hs_lines r)
                    \<lparr>os_usage = zero_usage, os_done = False, os_outputSeen = False, os_usageSeen = False\<rparr> of
                  (out, res) \<Rightarrow> \<lparr>gn_contents = out,
                     gn_result = and_then res (openai_finish (token_limit limit) elapsed (hs_error r)), gn_aborted = Inl\<rparr>))"

section \<open>Claude\<close>

definition maximumResultBytes :: nat where
  "maximumResultBytes = 4 * 2 ^ 20"

record boundedBuffer =
  bb_bytes :: bytes
  bb_overflow :: bool

definition boundedBuffer_Write :: "bytes \<Rightarrow> boundedBuffer \<Rightarrow> boundedBuffer" where
  "boundedBuffer_Write value b =
     (let remaining = int maximumResultBytes - int (length (bb_bytes b))
      in if remaining \<le> 0 then b\<lparr>bb_overflow := True\<rparr>
         else if int (length value) > remaining
           then b\<lparr>bb_bytes := bb_bytes b @ take (nat remaining) value, bb_overflow := True\<rparr>
         else b\<lparr>bb_bytes := bb_bytes b @ value\<rparr>)"

record claude_usage =
  cu_Input :: u64
  cu_CacheCreation :: u64
  cu_CacheRead :: u64
  cu_Output :: u64

record claude_result =
  cr_Type :: string
  cr_Subtype :: string
  cr_IsError :: bool
  cr_Result :: string
  cr_Usage :: "claude_usage option"

definition claude_parseResult :: "(bytes \<Rightarrow> claude_result result) \<Rightarrow> bytes \<Rightarrow> u64 \<Rightarrow> (string \<times> usage) result" where
  "claude_parseResult unmarshal raw limit =
     (case unmarshal raw of
        Inl _ \<Rightarrow> Inl (ErrText ''Claude returned invalid JSON'')
      | Inr r \<Rightarrow>
          if cr_Type r \<noteq> ''result'' \<or> cr_IsError r \<or> cr_Subtype r = ''error'' then Inl (ErrText ''Claude generation failed'')
          else if blank (cr_Result r) then Inl (ErrText ''Claude returned empty output'')
          else (case cr_Usage r of
                  None \<Rightarrow> Inl (ErrText ''Claude omitted token usage'')
                | Some u \<Rightarrow>
                    if cu_Output u = 0 then Inl (ErrText ''Claude omitted token usage'')
                    else if cu_Output u > limit then Inl (ErrText ''Claude reported usage above the output token limit'')
                    else Inr (cr_Result r, zero_usage\<lparr>us_InputTokens := cu_Input u + cu_CacheCreation u + cu_CacheRead u,
                           us_OutputTokens := cu_Output u\<rparr>)))"

definition claude_newRunner :: "string \<Rightarrow> string \<Rightarrow> int \<Rightarrow> unit result" where
  "claude_newRunner executable model timeout =
     (if blank executable \<or> blank model \<or> timeout \<le> 0
      then Inl (ErrText ''Claude executable, model, and positive timeout are required'') else Inr ())"

definition claude_arguments :: "string \<Rightarrow> string list" where
  "claude_arguments model = [''-p'', ''--model'', model, ''--output-format'', ''json'', ''--no-session-persistence'',
     ''--safe-mode'', ''--strict-mcp-config'', ''--tools'', [], ''--disallowedTools'', ''mcp__*'', ''--max-turns'', ''1'']"

definition claude_environment :: "string list \<Rightarrow> (string \<Rightarrow> string option) \<Rightarrow> string list" where
  "claude_environment existing lookupEnv =
     filter (\<lambda>v. prefix ''GO_WANT_CLAUDE_HELPER='' v) existing
     @ concat (map (\<lambda>name. case lookupEnv name of None \<Rightarrow> [] | Some v \<Rightarrow> [name @ ''='' @ v])
         [''HOME'', ''USERPROFILE'', ''APPDATA'', ''LOCALAPPDATA'', ''PATH'', ''SystemRoot'', ''TMP'', ''TEMP''])"

text \<open>A run of the child process: the writes to its two outputs, how it ended, whether its deadline passed, and its time.
  The temporary directory may fail to be created.\<close>

record process_run =
  px_stdout :: "bytes list"
  px_stderr :: "bytes list"
  px_error :: "go_error option"
  px_timedOut :: bool
  px_elapsed :: u64

definition collected :: "bytes list \<Rightarrow> boundedBuffer" where
  "collected writes = fold boundedBuffer_Write writes \<lparr>bb_bytes = [], bb_overflow = False\<rparr>"

definition claude_Generate ::
  "(bytes \<Rightarrow> claude_result result) \<Rightarrow> string \<Rightarrow> go_error option \<Rightarrow> (string \<Rightarrow> process_run)
   \<Rightarrow> string \<Rightarrow> string \<Rightarrow> (string \<times> bytes) list \<Rightarrow> u64 \<Rightarrow> generation" where
  "claude_Generate unmarshal configured mkdirTemp run model prompt files limit =
     (if model \<noteq> configured \<or> blank prompt
      then failed_generation (ErrText ''configured model, prompt, and callback are required'')
      else if files \<noteq> []
      then failed_generation (ErrText ''native Claude is a model-only provider and does not accept workspace files'')
      else case mkdirTemp of
        Some e \<Rightarrow> failed_generation e
      | None \<Rightarrow>
          let p = run prompt; outBuf = collected (px_stdout p); errBuf = collected (px_stderr p)
          in if px_error p \<noteq> None
             then failed_generation (ErrText (if px_timedOut p then ''Claude generation timed out'' else ''Claude generation failed''))
             else if bb_overflow outBuf \<or> bb_overflow errBuf
             then failed_generation (ErrText ''Claude output exceeded the safe size limit'')
             else (case claude_parseResult unmarshal (bb_bytes outBuf) (token_limit limit) of
                     Inl e \<Rightarrow> failed_generation e
                   | Inr (text, use) \<Rightarrow> \<lparr>gn_contents = [text],
                        gn_result = Inr (use\<lparr>us_ComputeMilliseconds := px_elapsed p\<rparr>), gn_aborted = Inl\<rparr>))"

section \<open>Codex\<close>

record codex_event =
  ce_Type :: string
  ce_Item :: "(string \<times> string) option"
  ce_Usage :: "(u64 \<times> u64) option"
  ce_Error :: "string option"

record codex_state =
  cx_text :: string
  cx_usage :: usage
  cx_completed :: bool
  cx_usageSeen :: bool

definition errToolAttempt :: go_error where
  "errToolAttempt = ErrText ''Codex attempted to use a blocked tool''"

definition codex_event_step :: "codex_event \<Rightarrow> codex_state \<Rightarrow> codex_state result" where
  "codex_event_step ev st =
     (if ce_Type ev = ''turn.failed'' \<or> ce_Type ev = ''error'' then
        Inl (ErrText (''Codex turn failed'' @ (case ce_Error ev of None \<Rightarrow> [] | Some m \<Rightarrow> if m \<noteq> [] then '': '' @ m else [])))
      else if ce_Type ev = ''turn.completed'' then
        (case ce_Usage ev of
           None \<Rightarrow> Inr (st\<lparr>cx_completed := True\<rparr>)
         | Some (inputTokens, outputTokens) \<Rightarrow>
             Inr (st\<lparr>cx_completed := True, cx_usageSeen := True,
               cx_usage := (cx_usage st)\<lparr>us_InputTokens := inputTokens, us_OutputTokens := outputTokens\<rparr>\<rparr>))
      else if ce_Type ev = ''item.started'' \<or> ce_Type ev = ''item.completed'' \<or> ce_Type ev = ''item.updated'' then
        (case ce_Item ev of
           None \<Rightarrow> Inr st
         | Some (kind, text) \<Rightarrow>
             if kind = ''agent_message'' then
               Inr (if ce_Type ev = ''item.completed'' then st\<lparr>cx_text := cx_text st @ text\<rparr> else st)
             else if kind = ''reasoning'' \<or> kind = ''error'' then Inr st
             else Inl errToolAttempt)
      else Inr st)"

text \<open>The decoder yields events until the end of the input (\<^verbatim>\<open>io.EOF\<close>) or an error.\<close>

fun codex_events :: "codex_event list \<Rightarrow> go_error option \<Rightarrow> codex_state \<Rightarrow> codex_state result" where
  "codex_events [] err st = (case err of Some _ \<Rightarrow> Inl (ErrText ''decode Codex output'') | None \<Rightarrow> Inr st)"
| "codex_events (ev # evs) err st = and_then (codex_event_step ev st) (codex_events evs err)"

definition codex_parseOutput :: "codex_event list \<Rightarrow> go_error option \<Rightarrow> u64 \<Rightarrow> (string \<times> usage) result" where
  "codex_parseOutput evs err limit =
     and_then (codex_events evs err \<lparr>cx_text = [], cx_usage = zero_usage, cx_completed = False, cx_usageSeen = False\<rparr>) (\<lambda>st.
       if \<not> cx_completed st then Inl (ErrText ''Codex output ended before turn completion'')
       else if \<not> cx_usageSeen st then Inl (ErrText ''Codex turn omitted usage'')
       else if cx_text st = [] then Inl (ErrText ''Codex turn returned empty output'')
       else if us_OutputTokens (cx_usage st) = 0 then Inl (ErrText ''Codex turn reported zero output usage'')
       else if limit = 0 \<or> us_OutputTokens (cx_usage st) > limit
         then Inl (ErrText ''Codex output exceeded the reserved token limit'')
       else Inr (cx_text st, cx_usage st))"

text \<open>A run: preparing the home and the job directory, the marker that the hook leaves, the events on the output, how the process ended.\<close>

record codex_run =
  cn_prepare :: "unit result"
  cn_marker :: "bool result"
  cn_events :: "codex_event list"
  cn_decode :: "go_error option"
  cn_error :: "go_error option"
  cn_stopped :: bool
  cn_elapsed :: u64

definition codex_Generate ::
  "string \<Rightarrow> (string \<Rightarrow> u64 \<Rightarrow> codex_run) \<Rightarrow> string \<Rightarrow> string \<Rightarrow> (string \<times> bytes) list \<Rightarrow> u64 \<Rightarrow> generation" where
  "codex_Generate configured run model prompt files limit =
     (if model \<noteq> configured \<or> blank prompt
      then failed_generation (ErrText ''configured model, prompt, and callback are required'')
      else if files \<noteq> []
      then failed_generation (ErrText ''native Codex is a model-only provider and does not accept workspace files'')
      else let p = run prompt (token_limit limit)
           in case cn_prepare p of
                Inl e \<Rightarrow> failed_generation e
              | Inr _ \<Rightarrow>
                  (case cn_marker p of
                     Inl e \<Rightarrow> failed_generation e
                   | Inr True \<Rightarrow> failed_generation errToolAttempt
                   | Inr False \<Rightarrow>
                       (case cn_error p of
                          Some _ \<Rightarrow> failed_generation (ErrText (if cn_stopped p then ''Codex execution stopped'' else ''Codex execution failed''))
                        | None \<Rightarrow>
                            (case codex_parseOutput (cn_events p) (cn_decode p) (token_limit limit) of
                               Inl e \<Rightarrow> failed_generation e
                             | Inr (text, use) \<Rightarrow> \<lparr>gn_contents = [text],
                                  gn_result = Inr (use\<lparr>us_ComputeMilliseconds := (if cn_elapsed p < 1 then 1 else cn_elapsed p)\<rparr>),
                                  gn_aborted = Inl\<rparr>))))"

definition codex_newRunner :: "string \<Rightarrow> string \<Rightarrow> string \<Rightarrow> string \<Rightarrow> string \<Rightarrow> string \<Rightarrow> int \<Rightarrow> unit result" where
  "codex_newRunner executable model sourceAuth personalSkills providerHome hookExecutable timeout =
     (if blank executable \<or> blank model \<or> blank sourceAuth \<or> blank personalSkills \<or> blank providerHome
         \<or> blank hookExecutable \<or> timeout \<le> 0
      then Inl (ErrText ''Codex executable, model, authentication, provider home, hook executable, and positive timeout are required'')
      else Inr ())"

definition codex_environment :: "(string \<Rightarrow> string) \<Rightarrow> bool \<Rightarrow> string \<Rightarrow> string \<Rightarrow> string list" where
  "codex_environment getenv windows providerHome marker =
     concat (map (\<lambda>key. if getenv key \<noteq> [] then [key @ ''='' @ getenv key] else [])
       [''PATH'', ''PATHEXT'', ''SYSTEMROOT'', ''WINDIR'', ''COMSPEC'', ''TEMP'', ''TMP'', ''LOCALAPPDATA'', ''APPDATA'',
        ''ProgramFiles'', ''ProgramFiles(x86)''])
     @ [''CODEX_HOME='' @ providerHome, ''HOME='' @ providerHome, ''USERPROFILE='' @ providerHome,
        ''MYFERENCE_CODEX_TOOL_MARKER='' @ marker]
     @ (if windows then [] else [''SHELL=/bin/sh''])"

section \<open>The contract of a metered backend\<close>

text \<open>
  What the broker's token metering relies on: a generation that succeeds reports no more output tokens than it was allowed, and
  some when it emitted text; one whose output could not be sent does not succeed.
\<close>

definition metered :: "u64 \<Rightarrow> generation \<Rightarrow> bool" where
  "metered limit g \<longleftrightarrow>
     (case gn_result g of
        Inl _ \<Rightarrow> True
      | Inr u \<Rightarrow> us_OutputTokens u \<le> token_limit limit \<and> (concat (gn_contents g) = [] \<or> us_OutputTokens u > 0))
     \<and> (\<forall>e. \<not> is_ok (gn_aborted g e))"

text \<open>The session's token count after a job: unchanged, or raised by the tokens of the job.\<close>

definition tokens_added :: "u64 \<Rightarrow> ('k, 'bk) daemon \<Rightarrow> ('k, 'bk) daemon \<Rightarrow> bool" where
  "tokens_added limit d d' \<longleftrightarrow> ss_OutputTokens (d_status d') = ss_OutputTokens (d_status d)
     \<or> (\<exists>u \<le> token_limit limit. ss_OutputTokens (d_status d') = ss_OutputTokens (d_status d) + u)"

lemma status_keeps_tokens [simp]:
  "ss_OutputTokens (d_status (snd (Daemon_sendChunk W now c d))) = ss_OutputTokens (d_status d)"
  "ss_OutputTokens (d_status (recordRequestFailed now r m d)) = ss_OutputTokens (d_status d)"
  "ss_OutputTokens (d_status (recordOfferHealth now f h m d)) = ss_OutputTokens (d_status d)"
  "ss_OutputTokens (d_status (removeJob r d)) = ss_OutputTokens (d_status d)"
  "ss_OutputTokens (d_status (recordCompletion now r f use d)) = ss_OutputTokens (d_status d) + us_OutputTokens use"
  by (auto simp: Daemon_sendChunk_def recordRequestFailed_def recordOfferHealth_def removeJob_def recordCompletion_def on_status_def
      trimRequestsLocked_def updateRequestLocked_def setOfferHealthLocked_def Let_def split: sum.split prod.split)

lemma sendChunk_tokens: "Daemon_sendChunk W now c d = (r, d') \<Longrightarrow> ss_OutputTokens (d_status d') = ss_OutputTokens (d_status d)"
  using status_keeps_tokens(1) [of W now c d] by simp

lemma generate_loop_tokens:
  "generate_loop W now r n cs d = (f, k, d') \<Longrightarrow> ss_OutputTokens (d_status d') = ss_OutputTokens (d_status d)"
  by (induction cs arbitrary: n d) (auto dest: sendChunk_tokens split: prod.splits sum.splits)

locale metered_backend =
  fixes Generate :: "'bk \<Rightarrow> string \<Rightarrow> string \<Rightarrow> (string \<times> bytes) list \<Rightarrow> u64 \<Rightarrow> generation"
  assumes metered_generation: "metered limit (Generate b model prompt files limit)"
begin

lemma usage_within: "gn_result (Generate b model prompt files limit) = Inr u \<Longrightarrow> us_OutputTokens u \<le> token_limit limit"
  using metered_generation [of limit b model prompt files] by (simp add: metered_def)

lemma abort_fails: "gn_aborted (Generate b model prompt files limit) e \<noteq> Inr u"
  using metered_generation [of limit b model prompt files] by (metis is_ok.simps(2) metered_def)

lemma job_tokens: "tokens_added (jo_MaximumOutputTokens offer) d (run_job W errText Generate now b offer d)"
proof (cases "decode_workspace (jo_Workspace offer)")
  case (Some files)
  let ?g = "Generate b (jo_Model offer) (jo_Prompt offer) files (jo_MaximumOutputTokens offer)"
  obtain f n d1 where l: "generate_loop W now (jo_RequestID offer) 0 (gn_contents ?g) d = (f, n, d1)" by (metis prod_cases3)
  note d1 = generate_loop_tokens [OF l]
  show ?thesis
  proof (cases "case f of None \<Rightarrow> gn_result ?g | Some e \<Rightarrow> gn_aborted ?g e")
    case (Inl e)
    then show ?thesis using d1 by (simp add: run_job_def Some Let_def l tokens_added_def)
  next
    case (Inr use)
    then have "us_OutputTokens use \<le> token_limit (jo_MaximumOutputTokens offer)"
      using usage_within abort_fails by (auto split: option.splits)
    with d1 Inr show ?thesis
      by (auto simp: run_job_def Some Let_def l tokens_added_def dest: sendChunk_tokens split: prod.split sum.split)
  qed
qed (simp add: run_job_def tokens_added_def)

end

section \<open>The metered backends keep it\<close>

lemma metered_failed [simp]: "metered limit (failed_generation e)"
  by (simp add: metered_def failed_generation_def)

lemma openai_stream_seen:
  "openai_stream um ls st = (out, Inr st') \<Longrightarrow>
     (os_outputSeen st \<longrightarrow> os_outputSeen st') \<and> (concat out \<noteq> [] \<longrightarrow> os_outputSeen st')"
proof (induction ls arbitrary: st out)
  case (Cons line ls)
  show ?case
  proof (cases "prefix ''data: '' line \<and> trim_prefix ''data: '' line \<noteq> ''[DONE]''")
    case True
    then obtain chunk out1 where c: "um (trim_prefix ''data: '' line) = Inr chunk"
      "openai_stream um ls (openai_chunk_state chunk st) = (out1, Inr st')" "out = filter (\<lambda>c. c \<noteq> []) (ok_Contents chunk) @ out1"
      using Cons.prems by (auto simp: Let_def split: sum.splits prod.splits)
    have "os_outputSeen (openai_chunk_state chunk st) \<longleftrightarrow> os_outputSeen st \<or> list_ex (\<lambda>c. c \<noteq> []) (ok_Contents chunk)"
      by (auto simp: openai_chunk_state_def Let_def split: option.split prod.split)
    with Cons.IH [OF c(2)] c(3) show ?thesis by (auto simp: list_ex_iff)
  qed (use Cons in \<open>auto simp: Let_def split: if_splits\<close>)
qed simp

lemma openai_metered: "metered limit (openai_Generate um post model prompt files limit)"
proof -
  have "metered limit \<lparr>gn_contents = out, gn_result = and_then res (openai_finish (token_limit limit) elapsed err), gn_aborted = Inl\<rparr>"
    if "openai_stream um ls \<lparr>os_usage = zero_usage, os_done = False, os_outputSeen = False, os_usageSeen = False\<rparr> = (out, res)" for ls out res elapsed err
    using that openai_stream_seen [of um ls _ out]
    by (cases res) (auto simp: metered_def openai_finish_def word_gt_0 not_less split: option.split)
  then show ?thesis by (auto simp: openai_Generate_def split: sum.split prod.split)
qed

lemma claude_metered: "metered limit (claude_Generate um configured mk run model prompt files limit)"
  by (auto simp: claude_Generate_def claude_parseResult_def metered_def failed_generation_def Let_def zero_usage_def word_gt_0 not_less
      split: option.split sum.split)

lemma codex_metered: "metered limit (codex_Generate configured run model prompt files limit)"
proof -
  have "us_OutputTokens u \<le> l \<and> us_OutputTokens u > 0" if "codex_parseOutput evs err l = Inr (answer, u)" for evs err l answer u
    using that by (auto simp: codex_parseOutput_def word_gt_0 not_less split: if_splits)
  then show ?thesis
    by (auto simp: codex_Generate_def metered_def failed_generation_def Let_def split: sum.split option.split bool.split)
qed

text \<open>The backends that report tokens, as one type of backend of the daemon.\<close>

datatype native_backend =
    OpenAICompatible "string \<Rightarrow> openai_chunk result" "string \<Rightarrow> string \<Rightarrow> u64 \<Rightarrow> (http_stream \<times> u64) result"
  | NativeClaude "bytes \<Rightarrow> claude_result result" string "go_error option" "string \<Rightarrow> process_run"
  | NativeCodex string "string \<Rightarrow> u64 \<Rightarrow> codex_run"

fun native_Generate :: "native_backend \<Rightarrow> string \<Rightarrow> string \<Rightarrow> (string \<times> bytes) list \<Rightarrow> u64 \<Rightarrow> generation" where
  "native_Generate (OpenAICompatible um post) = openai_Generate um post"
| "native_Generate (NativeClaude um configured mk run) = claude_Generate um configured mk run"
| "native_Generate (NativeCodex configured run) = codex_Generate configured run"

interpretation native: metered_backend native_Generate
proof
  show "metered limit (native_Generate b model prompt files limit)" for limit b model prompt files
    by (cases b) (simp_all add: openai_metered claude_metered codex_metered)
qed


end
