(* ===== verification/CredentialProxy.thy ===== *)
theory CredentialProxy
  imports Prelude "HOL-Library.AList"
begin

text \<open>
  The credential proxy of the container backend (\<^verbatim>\<open>command.go\<close>, \<^verbatim>\<open>proxy_sidecar.go\<close>): the agent in the container calls the upstream
  API through it with a token of the job, and the proxy puts the provider's secret in its place as long as the requests stay within
  the job's token budget. The two critical sections of a request are separate steps, so requests interleave between them.
\<close>

section \<open>Requests and their bodies\<close>

text \<open>
  The values of the decoded object: strings, number literals (\<^verbatim>\<open>UseNumber\<close>), the \<^verbatim>\<open>uint64\<close> the proxy stores, and everything else.
\<close>

datatype json = JString string | JNumber string | JUint u64 | JOther

type_synonym payload = "(string \<times> json) list"

text \<open>\<open>ar_read\<close> is the failure of reading the bounded body; \<open>ar_payload\<close> the object it decodes to, if it does.\<close>

record agent_request =
  ar_authorization :: string
  ar_xapikey :: string
  ar_method :: string
  ar_path :: string
  ar_read :: "go_error option"
  ar_payload :: "payload option"

definition allowedInferencePath :: "string \<Rightarrow> bool" where
  "allowedInferencePath path \<longleftrightarrow> path = ''/v1/chat/completions'' \<or> path = ''/v1/responses'' \<or> path = ''/v1/messages''"

definition errTokenBudget :: go_error where
  "errTokenBudget = ErrText ''agent output token budget exceeded''"

record authorizedBody =
  ab_body :: payload
  ab_tokens :: u64

definition limit_key :: "string \<Rightarrow> payload \<Rightarrow> string" where
  "limit_key path payload =
     (if path = ''/v1/responses'' then ''max_output_tokens''
      else if path = ''/v1/chat/completions'' \<and> map_of payload ''max_completion_tokens'' \<noteq> None then ''max_completion_tokens''
      else ''max_tokens'')"

definition requested_tokens :: "json option \<Rightarrow> u64 \<Rightarrow> u64 result" where
  "requested_tokens v remaining =
     (case v of
        None \<Rightarrow> Inr remaining
      | Some (JNumber number) \<Rightarrow>
          (case parse_uint64 number of
             None \<Rightarrow> Inl (ErrText ''invalid agent output token limit'')
           | Some parsed \<Rightarrow> if parsed = 0 then Inl (ErrText ''invalid agent output token limit'') else Inr parsed)
      | Some _ \<Rightarrow> Inl (ErrText ''invalid agent output token limit''))"

definition authorizeInferenceBody :: "payload option \<Rightarrow> string \<Rightarrow> string \<Rightarrow> u64 \<Rightarrow> authorizedBody result" where
  "authorizeInferenceBody raw path model remaining =
     (case raw of
        None \<Rightarrow> Inl (ErrText ''invalid agent API JSON'')
      | Some payload \<Rightarrow>
          if map_of payload ''model'' \<noteq> Some (JString model) then Inl (ErrText ''agent model is not authorized'')
          else let key = limit_key path payload
               in case requested_tokens (map_of payload key) remaining of
                    Inl e \<Rightarrow> Inl e
                  | Inr tokens \<Rightarrow>
                      if tokens = 0 \<or> tokens > remaining then Inl errTokenBudget
                      else Inr \<lparr>ab_body = AList.update key (JUint tokens) payload, ab_tokens = tokens\<rparr>)"

section \<open>The handler\<close>

record proxy_config =
  pc_kind :: string
  pc_secret :: string
  pc_model :: string
  pc_token :: string
  pc_maximum :: u64

text \<open>What reaches the upstream API, with the headers the director sets.\<close>

record forwarded =
  fw_authorization :: string
  fw_xapikey :: string
  fw_path :: string
  fw_body :: "authorizedBody option"

definition director :: "proxy_config \<Rightarrow> string \<Rightarrow> authorizedBody option \<Rightarrow> forwarded" where
  "director c path body =
     \<lparr>fw_authorization = (if pc_kind c = ''claude'' then '''' else ''Bearer '' @ pc_secret c),
      fw_xapikey = (if pc_kind c = ''claude'' then pc_secret c else ''''), fw_path = path, fw_body = body\<rparr>"

record proxy_state =
  px_remaining :: u64
  px_requests :: u32
  px_pending :: "agent_request list"
  px_forwarded :: "forwarded list"
  px_replies :: "(nat \<times> string) list"

definition proxy_target_host :: "string \<Rightarrow> string" where
  "proxy_target_host kind =
     (if kind = ''codex'' then ''api.openai.com'' else if kind = ''claude'' then ''api.anthropic.com''
      else if kind = ''kimi'' then ''api.moonshot.ai'' else '''')"

text \<open>\<open>host\<close> is the host of the parsed target, empty when it does not parse.\<close>

definition credentialProxyHandler :: "proxy_config \<Rightarrow> string \<Rightarrow> proxy_state result" where
  "credentialProxyHandler c host =
     (if host = '''' \<or> blank (pc_model c) \<or> blank (pc_secret c) \<or> blank (pc_token c) \<or> pc_maximum c = 0
      then Inl (ErrText ''invalid credential proxy configuration'')
      else Inr \<lparr>px_remaining = pc_maximum c, px_requests = 0, px_pending = [], px_forwarded = [], px_replies = []\<rparr>)"

definition ServeProxy :: "proxy_config result \<Rightarrow> proxy_state result" where
  "ServeProxy configuration =
     (case configuration of Inl e \<Rightarrow> Inl e | Inr c \<Rightarrow> credentialProxyHandler c (proxy_target_host (pc_kind c)))"

definition http_error :: "string \<Rightarrow> nat \<Rightarrow> proxy_state \<Rightarrow> proxy_state" where
  "http_error message status s = s\<lparr>px_replies := px_replies s @ [(status, message)]\<rparr>"

definition reverse_serve :: "proxy_config \<Rightarrow> string \<Rightarrow> authorizedBody option \<Rightarrow> proxy_state \<Rightarrow> proxy_state" where
  "reverse_serve c path body s = s\<lparr>px_forwarded := px_forwarded s @ [director c path body]\<rparr>"

text \<open>Up to the second critical section: a request that may be an inference waits there.\<close>

definition proxy_admit :: "proxy_config \<Rightarrow> agent_request \<Rightarrow> proxy_state \<Rightarrow> proxy_state" where
  "proxy_admit c r s =
     (if ar_authorization r \<noteq> ''Bearer '' @ pc_token c \<and> ar_xapikey r \<noteq> pc_token c then http_error ''unauthorized'' 401 s
      else let s = s\<lparr>px_requests := px_requests s + 1\<rparr>
           in if px_requests s > 64 then http_error ''agent request limit exceeded'' 429 s
              else if ar_method r = ''GET'' \<and> ar_path r = ''/v1/models'' then reverse_serve c (ar_path r) None s
              else if ar_method r \<noteq> ''POST'' \<or> \<not> allowedInferencePath (ar_path r)
              then http_error ''unsupported agent API request'' 403 s
              else case ar_read r of
                Some _ \<Rightarrow> http_error ''invalid agent API request'' 400 s
              | None \<Rightarrow> s\<lparr>px_pending := px_pending s @ [r]\<rparr>)"

definition error_text :: "go_error \<Rightarrow> string" where
  "error_text e = (case e of ErrText t \<Rightarrow> t | _ \<Rightarrow> '''')"

definition proxy_authorize :: "proxy_config \<Rightarrow> agent_request \<Rightarrow> proxy_state \<Rightarrow> proxy_state" where
  "proxy_authorize c r s =
     (let s = s\<lparr>px_pending := remove1 r (px_pending s)\<rparr>
      in case authorizeInferenceBody (ar_payload r) (ar_path r) (pc_model c) (px_remaining s) of
           Inl e \<Rightarrow> http_error (error_text e) (if e = errTokenBudget then 402 else 403) s
         | Inr rewritten \<Rightarrow>
             reverse_serve c (ar_path r) (Some rewritten) (s\<lparr>px_remaining := px_remaining s - ab_tokens rewritten\<rparr>))"

section \<open>Interleaved requests\<close>

text \<open>\<open>proxy_run c n s\<close>: \<open>s\<close> is reached from a fresh proxy with \<open>n\<close> arrivals, the other steps in any order.\<close>

inductive proxy_run :: "proxy_config \<Rightarrow> nat \<Rightarrow> proxy_state \<Rightarrow> bool" for c where
  start: "ServeProxy (Inr c) = Inr s \<Longrightarrow> proxy_run c 0 s"
| arrival: "proxy_run c n s \<Longrightarrow> proxy_run c (Suc n) (proxy_admit c r s)"
| resume: "proxy_run c n s \<Longrightarrow> r \<in> set (px_pending s) \<Longrightarrow> proxy_run c n (proxy_authorize c r s)"

section \<open>The budget\<close>

definition forwarded_tokens :: "forwarded \<Rightarrow> nat" where
  "forwarded_tokens f = (case fw_body f of None \<Rightarrow> 0 | Some b \<Rightarrow> unat (ab_tokens b))"

definition forwarded_ok :: "proxy_config \<Rightarrow> forwarded \<Rightarrow> bool" where
  "forwarded_ok c f \<longleftrightarrow>
     f = director c (fw_path f) (fw_body f) \<and>
     (case fw_body f of
        None \<Rightarrow> fw_path f = ''/v1/models''
      | Some b \<Rightarrow> allowedInferencePath (fw_path f) \<and> map_of (ab_body b) ''model'' = Some (JString (pc_model c)) \<and>
          map_of (ab_body b) (limit_key (fw_path f) (ab_body b)) = Some (JUint (ab_tokens b)) \<and> 0 < ab_tokens b)"

definition proxy_inv :: "proxy_config \<Rightarrow> proxy_state \<Rightarrow> bool" where
  "proxy_inv c s \<longleftrightarrow>
     sum_list (map forwarded_tokens (px_forwarded s)) + unat (px_remaining s) = unat (pc_maximum c) \<and>
     list_all (forwarded_ok c) (px_forwarded s) \<and> list_all (\<lambda>r. allowedInferencePath (ar_path r)) (px_pending s)"

lemma limit_key_stable: "limit_key path (AList.update (limit_key path payload) v payload) = limit_key path payload"
  by (simp add: limit_key_def update_conv')

lemma limit_key_not_model: "limit_key path payload \<noteq> ''model''"
  by (simp add: limit_key_def)

lemma authorizeInferenceBody_Inr:
  assumes "authorizeInferenceBody raw path model remaining = Inr b"
  shows "ab_tokens b \<le> remaining" "0 < ab_tokens b" "map_of (ab_body b) ''model'' = Some (JString model)"
    "map_of (ab_body b) (limit_key path (ab_body b)) = Some (JUint (ab_tokens b))"
  using assms
  by (auto simp: authorizeInferenceBody_def Let_def limit_key_stable limit_key_not_model limit_key_not_model [symmetric] update_conv' word_neq_0_conv not_less
      split: option.splits sum.splits if_splits)

lemma remove1_list_all: "list_all P xs \<Longrightarrow> list_all P (remove1 x xs)"
  by (induction xs) auto

lemma proxy_admit_inv: "proxy_inv c s \<Longrightarrow> proxy_inv c (proxy_admit c r s)"
  by (auto simp: proxy_inv_def proxy_admit_def http_error_def reverse_serve_def Let_def forwarded_ok_def forwarded_tokens_def
      director_def list_all_iff split: option.splits)

lemma proxy_authorize_inv:
  assumes "proxy_inv c s" "r \<in> set (px_pending s)"
  shows "proxy_inv c (proxy_authorize c r s)"
proof (cases "authorizeInferenceBody (ar_payload r) (ar_path r) (pc_model c) (px_remaining s)")
  case (Inl e)
  then show ?thesis using assms
    by (simp add: proxy_inv_def proxy_authorize_def http_error_def remove1_list_all)
next
  case (Inr b)
  note b = authorizeInferenceBody_Inr [OF Inr]
  have path: "allowedInferencePath (ar_path r)" using assms by (simp add: proxy_inv_def list_all_iff)
  have "unat (px_remaining s - ab_tokens b) + unat (ab_tokens b) = unat (px_remaining s)"
    using b(1) by (simp add: unat_sub word_le_nat_alt)
  then show ?thesis using assms(1) Inr b path
    by (simp add: proxy_inv_def proxy_authorize_def reverse_serve_def remove1_list_all forwarded_ok_def forwarded_tokens_def
        director_def)
qed

lemma ServeProxy_Inr:
  assumes "ServeProxy (Inr c) = Inr s"
  shows "s = \<lparr>px_remaining = pc_maximum c, px_requests = 0, px_pending = [], px_forwarded = [], px_replies = []\<rparr>"
  using assms by (simp add: ServeProxy_def credentialProxyHandler_def split: if_splits)

lemma proxy_run_inv: "proxy_run c n s \<Longrightarrow> proxy_inv c s"
proof (induction rule: proxy_run.induct)
  case (start s)
  then show ?case by (auto dest: ServeProxy_Inr simp: proxy_inv_def)
qed (simp_all add: proxy_admit_inv proxy_authorize_inv)

text \<open>The request counter is a 32-bit word, so the limit on requests holds while it has not wrapped.\<close>

definition counted :: "nat \<Rightarrow> proxy_state \<Rightarrow> bool" where
  "counted n s \<longleftrightarrow> unat (px_requests s) \<le> n \<and>
     length (px_forwarded s) + length (px_pending s) \<le> min 64 (unat (px_requests s))"

lemma unat_Suc_u32: "unat (a :: u32) + 1 < 2 ^ 32 \<Longrightarrow> unat (a + 1) = unat a + 1"
  using unat_word_ariths(1) [of a 1] by simp

lemma counted_admit:
  assumes "counted n s" "Suc n < 2 ^ 32"
  shows "counted (Suc n) (proxy_admit c r s)"
proof -
  have "unat (px_requests s + 1) = unat (px_requests s) + 1"
    using assms by (intro unat_Suc_u32) (simp add: counted_def)
  then show ?thesis using assms(1)
    by (auto simp: counted_def proxy_admit_def http_error_def reverse_serve_def Let_def word_less_nat_alt
        split: option.splits)
qed

lemma counted_authorize:
  assumes "counted n s" "r \<in> set (px_pending s)"
  shows "counted n (proxy_authorize c r s)"
proof -
  from assms(2) obtain m where "length (px_pending s) = Suc m" by (cases "px_pending s") auto
  then show ?thesis using assms
    by (auto simp: counted_def proxy_authorize_def http_error_def reverse_serve_def Let_def length_remove1
        split: sum.splits)
qed

lemma proxy_run_counted:
  assumes "proxy_run c n s" "n < 2 ^ 32"
  shows "counted n s"
  using assms
proof (induction rule: proxy_run.induct)
  case (start s)
  then show ?case by (auto dest: ServeProxy_Inr simp: counted_def)
qed (simp_all add: counted_admit counted_authorize)

text \<open>C26: In every interleaving of agent requests, the token limits of the inference requests forwarded upstream and the remaining budget
  add up to the job's limit, without wrap-around; every forwarded request carries the provider's secret in place of the job token and
  is either a listing of models or an inference on a supported path, with the job's model and, under the key the API reads, a
  positive token limit equal to the amount deducted. While fewer than \<open>2 ^ 32\<close> requests have arrived, at most 64 are forwarded.
\<close>

theorem proxy_within_budget:
  assumes "proxy_run c n s" "n < 2 ^ 32"
  shows "sum_list (map forwarded_tokens (px_forwarded s)) + unat (px_remaining s) = unat (pc_maximum c)
    \<and> list_all (forwarded_ok c) (px_forwarded s) \<and> length (px_forwarded s) \<le> 64"
  using proxy_run_inv [OF assms(1)] proxy_run_counted [OF assms] by (auto simp: proxy_inv_def counted_def)

definition example_config :: proxy_config where
  "example_config = \<lparr>pc_kind = ''codex'', pc_secret = ''sk'', pc_model = ''m'', pc_token = ''t'', pc_maximum = 100\<rparr>"

definition example_request :: agent_request where
  "example_request = \<lparr>ar_authorization = ''Bearer t'', ar_xapikey = '''', ar_method = ''POST'', ar_path = ''/v1/responses'',
     ar_read = None, ar_payload = Some [(''model'', JString ''m''), (''max_output_tokens'', JNumber ''30'')]\<rparr>"

definition example_start :: proxy_state where
  "example_start = \<lparr>px_remaining = 100, px_requests = 0, px_pending = [], px_forwarded = [], px_replies = []\<rparr>"

definition example_end :: proxy_state where
  "example_end = proxy_authorize example_config example_request (proxy_admit example_config example_request example_start)"

lemma example_pending: "px_pending (proxy_admit example_config example_request example_start) = [example_request]"
  by (simp add: proxy_admit_def example_config_def example_request_def example_start_def Let_def allowedInferencePath_def)

lemma example_started: "ServeProxy (Inr example_config) = Inr example_start"
  by code_simp

lemma example_run: "proxy_run example_config 1 example_end"
proof -
  have "proxy_run example_config 1 (proxy_admit example_config example_request example_start)"
    using proxy_run.arrival [OF proxy_run.start [OF example_started]] by simp
  then show ?thesis unfolding example_end_def by (rule proxy_run.resume) (simp add: example_pending)
qed

lemma example_remaining: "px_remaining example_end = 70"
  by code_simp

theorem proxy_within_budget_witness:
  "sum_list (map forwarded_tokens (px_forwarded example_end)) + unat (px_remaining example_end) = 100
    \<and> list_all (forwarded_ok example_config) (px_forwarded example_end) \<and> length (px_forwarded example_end) \<le> 64
    \<and> px_remaining example_end = 70"
  using proxy_within_budget [OF example_run] example_remaining by (simp add: example_config_def)

end
