(* ===== verification/CommandAgent.thy ===== *)
theory CommandAgent
  imports Backends CredentialProxy Sql Hex
begin

text \<open>
  The container backend of the provider (\<^verbatim>\<open>cli/internal/backend/command\<close>): the workspace of a job, the container that runs the agent,
  its proxy container, and the proxy that lends the agent the provider's credential within a budget. Docker and the file system are
  arguments that say whether a step fails; what a run acquires and releases is logged.
\<close>

section \<open>The runner\<close>

record runner =
  rn_docker :: string
  rn_proxyBinary :: string
  rn_image :: string
  rn_kind :: string
  rn_model :: string
  rn_secret :: string
  rn_arguments :: "string list"
  rn_timeout :: int

definition ascii_space :: "char \<Rightarrow> bool" where
  "ascii_space c \<longleftrightarrow> c \<in> set [CHR 0x09, CHR 0x0A, CHR 0x0B, CHR 0x0C, CHR 0x0D, CHR '' '']"

definition lower_hex :: "char \<Rightarrow> bool" where
  "lower_hex c \<longleftrightarrow> is_digit c \<or> CHR ''a'' \<le> c \<and> c \<le> CHR ''f''"

text \<open>\<^verbatim>\<open>^[^[:space:]]+@sha256:[0-9a-f]{64}$\<close>\<close>

definition pinnedImagePattern :: "string \<Rightarrow> bool" where
  "pinnedImagePattern s \<longleftrightarrow> length s > 72 \<and>
     (let n = length s - 72
      in list_all (\<lambda>c. \<not> ascii_space c) (take n s) \<and> take 8 (drop n s) = ''@sha256:'' \<and> list_all lower_hex (drop (n + 8) s))"

definition command_newRunner :: "runner \<Rightarrow> runner result" where
  "command_newRunner r =
     (if rn_docker r = [] \<or> rn_proxyBinary r = [] \<or> \<not> pinnedImagePattern (rn_image r) \<or> blank (rn_model r) \<or> blank (rn_secret r)
         \<or> rn_timeout r \<le> 0
      then Inl (ErrText ''docker, digest-pinned image, model, secret, and positive timeout are required'')
      else if rn_kind r \<noteq> ''codex'' \<and> rn_kind r \<noteq> ''claude'' \<and> rn_kind r \<noteq> ''kimi''
      then Inl (ErrText ''unsupported isolated agent kind'') else Inr r)"

text \<open>\<open>inspect\<close> is the failure of \<^verbatim>\<open>docker image inspect\<close>.\<close>

definition command_Models :: "(string \<Rightarrow> go_error option) \<Rightarrow> runner \<Rightarrow> string list result" where
  "command_Models inspect r =
     (case inspect (rn_image r) of
        Some _ \<Rightarrow> Inl (ErrText ''digest-pinned agent image is not present in Docker'') | None \<Rightarrow> Inr [rn_model r])"

definition minimalDockerEnvironment :: "(string \<Rightarrow> string) \<Rightarrow> string list" where
  "minimalDockerEnvironment getenv = ''PATH=/opt/homebrew/bin:/usr/local/bin:/usr/bin:/bin''
     # (if getenv ''DOCKER_HOST'' \<noteq> [] then [''DOCKER_HOST='' @ getenv ''DOCKER_HOST''] else [])"

definition dockerArguments :: "runner \<Rightarrow> string \<Rightarrow> string \<Rightarrow> string \<Rightarrow> string \<Rightarrow> string \<Rightarrow> string list" where
  "dockerArguments r name workspace network proxyURL token =
     (let environment = [''HOME=/workspace'', ''TMPDIR=/tmp'', ''NO_COLOR=1'', ''TERM=dumb'']
        @ (if rn_kind r = ''codex'' then [''OPENAI_API_KEY='' @ token, ''OPENAI_BASE_URL='' @ proxyURL]
           else if rn_kind r = ''claude'' then [''ANTHROPIC_API_KEY='' @ token, ''ANTHROPIC_BASE_URL='' @ proxyURL]
           else if rn_kind r = ''kimi'' then [''MOONSHOT_API_KEY='' @ token, ''OPENAI_BASE_URL='' @ proxyURL] else [])
      in [''run'', ''--rm'', ''--name'', name, ''--network'', network, ''--read-only'', ''--cap-drop=ALL'',
          ''--security-opt=no-new-privileges'', ''--pids-limit=256'', ''--memory=2g'', ''--cpus=2'', ''--mount'',
          ''type=bind,source='' @ workspace @ '',target=/workspace'', ''--tmpfs'', ''/tmp:rw,noexec,nosuid,size=64m'',
          ''--workdir'', ''/workspace'']
         @ concat (map (\<lambda>item. [''--env'', item]) environment) @ [rn_image r] @ rn_arguments r)"

section \<open>The workspace\<close>

text \<open>The directory as a map from lists of path elements to nodes, with the separator \<^verbatim>\<open>/\<close>.\<close>

datatype fs_node = Dir | File bytes

type_synonym tree = "string list \<rightharpoonup> fs_node"

definition path_elems :: "string \<Rightarrow> string list" where
  "path_elems p = split_on (CHR ''/'') p"

definition invalid_relative :: "string \<Rightarrow> bool" where
  "invalid_relative p \<longleftrightarrow> p = ''.'' \<or> prefix ''/'' p \<or> p = ''..'' \<or> prefix ''../'' p \<or> CHR 0x00 \<in> set p"

text \<open>\<^verbatim>\<open>os.MkdirAll\<close> of the parents, outermost first, and \<^verbatim>\<open>os.OpenFile\<close> with \<^verbatim>\<open>O_CREATE|O_EXCL\<close>.\<close>

fun mkdir_all :: "string list list \<Rightarrow> tree \<Rightarrow> tree result" where
  "mkdir_all [] t = Inr t"
| "mkdir_all (p # ps) t =
     (case t p of
        Some (File _) \<Rightarrow> Inl (ErrText ''not a directory'')
      | _ \<Rightarrow> mkdir_all ps (t(p \<mapsto> Dir)))"

definition parents :: "string list \<Rightarrow> string list list" where
  "parents es = map (\<lambda>n. take n es) [1..<length es]"

definition create_file :: "string list \<Rightarrow> bytes \<Rightarrow> tree \<Rightarrow> tree result" where
  "create_file es content t = (case t es of Some _ \<Rightarrow> Inl (ErrText ''file exists'') | None \<Rightarrow> Inr (t(es \<mapsto> File content)))"

text \<open>\<open>io k i\<close> is the failure of the \<open>i\<close>-th file system call for the \<open>k\<close>-th file.\<close>

fun write_files :: "(nat \<Rightarrow> faults) \<Rightarrow> nat \<Rightarrow> (string \<times> bytes) list \<Rightarrow> tree \<Rightarrow> tree result" where
  "write_files io k [] t = Inr t"
| "write_files io k ((path, content) # fs) t =
     (let relative = path_Clean path
      in if invalid_relative relative then Inl (ErrText ''invalid workspace path'')
         else and_then (stmt (io k) 0 (mkdir_all (parents (path_elems relative)) t)) (\<lambda>t1.
              and_then (stmt (io k) 1 (create_file (path_elems relative) content t1)) (\<lambda>t2.
              and_then (stmt (io k) 2 (Inr ())) (\<lambda>_.
              and_then (stmt (io k) 3 (Inr ())) (\<lambda>_. write_files io (k + 1) fs t2)))))"

section \<open>A run\<close>

datatype resource = Workspace | ProxyDirectory | ProxyContainer string | Network string | Container string

datatype action = Acquire resource | Release resource

definition materializeWorkspace ::
  "go_error option \<Rightarrow> go_error option \<Rightarrow> (nat \<Rightarrow> faults) \<Rightarrow> (string \<times> bytes) list \<Rightarrow> tree result \<times> action list" where
  "materializeWorkspace mkdirTemp chmod io files =
     (case mkdirTemp of
        Some e \<Rightarrow> (Inl e, [])
      | None \<Rightarrow>
          (case chmod of
             Some e \<Rightarrow> (Inl e, [Acquire Workspace, Release Workspace])
           | None \<Rightarrow>
               (case write_files io 0 files Map.empty of
                  Inl e \<Rightarrow> (Inl e, [Acquire Workspace, Release Workspace])
                | Inr t \<Rightarrow> (Inr t, [Acquire Workspace]))))"

definition dockerProxy_Close :: "string \<Rightarrow> action list" where
  "dockerProxy_Close job = [Release (ProxyContainer (job @ ''-proxy'')), Release (Network (job @ ''-internal'')),
     Release (Network (job @ ''-egress'')), Release ProxyDirectory]"

text \<open>
  The steps of \<^verbatim>\<open>startProxySidecar\<close>, each with its failure: random token, directory, permissions, configuration, two networks, container,
  connection. A Docker command that fails may have taken effect. \<open>healthy\<close> says which of the fifty probes succeed.
\<close>

definition startProxySidecar :: "faults \<Rightarrow> (nat \<Rightarrow> bool) \<Rightarrow> string \<Rightarrow> unit result \<times> action list" where
  "startProxySidecar flt healthy job =
     (case flt 0 of Some e \<Rightarrow> (Inl e, []) | None \<Rightarrow>
     (case flt 1 of Some e \<Rightarrow> (Inl e, []) | None \<Rightarrow>
     (case flt 2 of Some e \<Rightarrow> (Inl e, [Acquire ProxyDirectory, Release ProxyDirectory]) | None \<Rightarrow>
     (case flt 3 of Some e \<Rightarrow> (Inl e, [Acquire ProxyDirectory, Release ProxyDirectory]) | None \<Rightarrow>
     (let a1 = [Acquire ProxyDirectory, Acquire (Network (job @ ''-internal''))] in
      case flt 4 of Some e \<Rightarrow> (Inl e, a1 @ dockerProxy_Close job) | None \<Rightarrow>
     (let a2 = a1 @ [Acquire (Network (job @ ''-egress''))] in
      case flt 5 of Some e \<Rightarrow> (Inl e, a2 @ dockerProxy_Close job) | None \<Rightarrow>
     (let a3 = a2 @ [Acquire (ProxyContainer (job @ ''-proxy''))] in
      case flt 6 of Some e \<Rightarrow> (Inl e, a3 @ dockerProxy_Close job) | None \<Rightarrow>
     (case flt 7 of Some e \<Rightarrow> (Inl e, a3 @ dockerProxy_Close job) | None \<Rightarrow>
      if list_ex healthy [0..<50] then (Inr (), a3)
      else (Inl (ErrText ''isolated credential proxy did not become healthy''), a3 @ dockerProxy_Close job)))))))))"

text \<open>The configuration file of the proxy container, the only place outside this process that holds the secret.\<close>

definition sidecar_configuration :: "runner \<Rightarrow> string \<Rightarrow> string \<Rightarrow> u64 \<Rightarrow> proxy_config" where
  "sidecar_configuration r model token maximum =
     \<lparr>pc_kind = rn_kind r, pc_secret = rn_secret r, pc_model = model, pc_token = token, pc_maximum = maximum\<rparr>"

definition output_bytes :: "u64 \<Rightarrow> u64" where
  "output_bytes limit = (let b = limit * 4 in if b = 0 then 16384 else b)"

text \<open>The loop over the lines: the pieces emitted, the failure that ended it, if any. \<open>emit k\<close> is the callback's error for the \<open>k\<close>-th
  piece.\<close>

fun command_lines :: "faults \<Rightarrow> u64 \<Rightarrow> nat \<Rightarrow> u64 \<Rightarrow> string list \<Rightarrow> string list \<times> go_error option" where
  "command_lines emit maximum k used [] = ([], None)"
| "command_lines emit maximum k used (line # ls) =
     (let chunk = line @ [CHR 0x0A]; n = of_nat (length chunk)
      in if n > maximum - used then ([], Some (ErrText ''command agent exceeded output limit''))
         else case emit k of
           Some e \<Rightarrow> ([chunk], Some e)
         | None \<Rightarrow> (case command_lines emit maximum (k + 1) (used + n) ls of (out, err) \<Rightarrow> (chunk # out, err)))"

record command_env =
  cv_mkdirTemp :: "go_error option"
  cv_chmod :: "go_error option"
  cv_io :: "nat \<Rightarrow> faults"
  cv_random :: "bytes result"
  cv_sidecar :: faults
  cv_healthy :: "nat \<Rightarrow> bool"
  cv_pipe :: "go_error option"
  cv_start :: "go_error option"
  cv_lines :: "string list"
  cv_scan :: "go_error option"
  cv_wait :: "go_error option"
  cv_stopped :: bool
  cv_elapsed :: u64

text \<open>The process after its start: the deferred removals run whatever happens.\<close>

definition command_process ::
  "faults \<Rightarrow> command_env \<Rightarrow> u64 \<Rightarrow> string \<Rightarrow> string list \<times> usage result \<times> action list" where
  "command_process emit V limit name =
     (case cv_pipe V of Some e \<Rightarrow> ([], Inl e, [])
      | None \<Rightarrow>
          (case cv_start V of Some e \<Rightarrow> ([], Inl e, [])
           | None \<Rightarrow>
               (case command_lines emit (output_bytes limit) 0 0 (cv_lines V) of
                  (out, err) \<Rightarrow>
                    (out,
                     (case err of Some e \<Rightarrow> Inl e
                      | None \<Rightarrow> (case cv_scan V of Some e \<Rightarrow> Inl e
                          | None \<Rightarrow> (case cv_wait V of
                              Some _ \<Rightarrow> Inl (ErrText (if cv_stopped V then ''isolated agent stopped'' else ''isolated agent failed''))
                            | None \<Rightarrow> Inr (zero_usage\<lparr>us_ComputeMilliseconds := cv_elapsed V\<rparr>)))),
                     [Acquire (Container name), Release (Container name)]))))"

definition randomName :: "bytes \<Rightarrow> string" where
  "randomName value = ''myference-job-'' @ concat (map byte_hex value)"

definition command_run ::
  "faults \<Rightarrow> command_env \<Rightarrow> runner \<Rightarrow> string \<Rightarrow> string \<Rightarrow> (string \<times> bytes) list \<Rightarrow> u64
   \<Rightarrow> string list \<times> usage result \<times> action list" where
  "command_run emit V r model prompt files limit =
     (if model \<noteq> rn_model r \<or> blank prompt then ([], Inl (ErrText ''configured model, prompt, and callback are required''), [])
      else case materializeWorkspace (cv_mkdirTemp V) (cv_chmod V) (cv_io V) files of
        (Inl e, acts) \<Rightarrow> ([], Inl e, acts)
      | (Inr _, acts) \<Rightarrow>
          (case cv_random V of
             Inl e \<Rightarrow> ([], Inl e, acts @ [Release Workspace])
           | Inr value \<Rightarrow>
               (case startProxySidecar (cv_sidecar V) (cv_healthy V) (randomName value) of
                  (Inl e, acts1) \<Rightarrow> ([], Inl e, acts @ acts1 @ [Release Workspace])
                | (Inr _, acts1) \<Rightarrow>
                    (case command_process emit V limit (randomName value) of
                       (out, res, acts2) \<Rightarrow>
                         (out, res, acts @ acts1 @ acts2 @ dockerProxy_Close (randomName value) @ [Release Workspace])))))"

definition command_Generate ::
  "command_env \<Rightarrow> runner \<Rightarrow> string \<Rightarrow> string \<Rightarrow> (string \<times> bytes) list \<Rightarrow> u64 \<Rightarrow> generation" where
  "command_Generate V r model prompt files limit =
     (case command_run no_faults V r model prompt files limit of
        (out, res, _) \<Rightarrow> \<lparr>gn_contents = out, gn_result = res, gn_aborted = Inl\<rparr>)"

section \<open>Output and resources\<close>

fun held :: "action \<Rightarrow> resource set \<Rightarrow> resource set" where
  "held (Acquire r) S = insert r S"
| "held (Release r) S = S - {r}"

lemma command_lines_bounded:
  assumes "command_lines emit maximum k used ls = (out, err)" "\<forall>l \<in> set ls. length l < 2 ^ 20" "used \<le> maximum"
  shows "unat used + length (concat out) \<le> unat maximum"
  using assms
proof (induction ls arbitrary: k used out err)
  case (Cons line ls)
  let ?n = "of_nat (length line + 1) :: u64"
  have "length line + 1 < 2 ^ 64" using Cons.prems(2) by auto
  then have n: "unat ?n = length line + 1" by (rule unat_of_nat_u64)
  show ?case
  proof (cases "?n > maximum - used")
    case True
    then show ?thesis using Cons.prems by (simp add: Let_def word_le_nat_alt)
  next
    case False
    have sub: "unat (maximum - used) = unat maximum - unat used" using Cons.prems(3) by (simp add: unat_sub)
    have le: "unat used \<le> unat maximum" using Cons.prems(3) by (simp add: word_le_nat_alt)
    have fits: "unat used + (length line + 1) \<le> unat maximum"
      using False n sub le by (simp add: not_less word_le_nat_alt)
    moreover have "unat maximum < 2 ^ 64" by (rule unat_less_u64)
    ultimately have used: "unat (used + ?n) = unat used + (length line + 1)"
      using n unat_plus_u64 [of used ?n] by linarith
    show ?thesis
    proof (cases "emit k")
      case None
      obtain out1 err1 where r: "command_lines emit maximum (k + 1) (used + ?n) ls = (out1, err1)" by fastforce
      have "used + ?n \<le> maximum" using fits used by (simp add: word_le_nat_alt)
      from Cons.IH [OF r _ this] Cons.prems(2) have "unat (used + ?n) + length (concat out1) \<le> unat maximum" by simp
      moreover have "out = (line @ [CHR 0x0A]) # out1" using Cons.prems(1) False None r by (simp add: Let_def)
      ultimately show ?thesis using used by simp
    next
      case (Some e)
      then have "out = [line @ [CHR 0x0A]]" using Cons.prems(1) False by (simp add: Let_def)
      then show ?thesis using fits by simp
    qed
  qed
qed (simp add: word_le_nat_alt)

lemma output_bytes_le: "unat (output_bytes limit) \<le> max 16384 (4 * unat limit)"
proof -
  have "unat (limit * 4) \<le> unat limit * 4"
    using unat_word_ariths(2) [of limit 4] by simp
  then show ?thesis by (auto simp: output_bytes_def Let_def)
qed

lemma materialized_resources:
  "materializeWorkspace mt ch io files = (res, acts) \<Longrightarrow>
   fold held acts {} = (case res of Inl _ \<Rightarrow> {} | Inr _ \<Rightarrow> {Workspace})"
  by (auto simp: materializeWorkspace_def split: option.splits sum.splits)

definition sidecar_resources :: "string \<Rightarrow> resource set" where
  "sidecar_resources job = {ProxyDirectory, Network (job @ ''-internal''), Network (job @ ''-egress''), ProxyContainer (job @ ''-proxy'')}"

lemma dockerProxy_Close_held: "fold held (dockerProxy_Close job) S = S - sidecar_resources job"
  by (auto simp: dockerProxy_Close_def sidecar_resources_def)

lemma sidecar_held:
  assumes "startProxySidecar flt healthy job = (res, acts)" "S \<inter> sidecar_resources job = {}"
  shows "fold held acts S = (case res of Inl _ \<Rightarrow> S | Inr _ \<Rightarrow> S \<union> sidecar_resources job)"
  using assms
  by (auto simp: startProxySidecar_def Let_def dockerProxy_Close_held sidecar_resources_def
      split: option.splits if_splits)

lemma process_held:
  assumes "command_process emit V limit name = (out, res, acts)" "Container name \<notin> S"
  shows "fold held acts S = S"
  using assms by (auto simp: command_process_def split: option.splits prod.splits)

lemma process_bounded:
  assumes "command_process emit V limit name = (out, res, acts)" "\<forall>l \<in> set (cv_lines V). length l < 2 ^ 20"
  shows "length (concat out) \<le> unat (output_bytes limit)"
  using assms command_lines_bounded [of emit "output_bytes limit" 0 0 "cv_lines V" out]
  by (auto simp: command_process_def split: option.splits prod.splits)

lemma command_run_held: "fold held (snd (snd (command_run emit V r model prompt files limit))) {} = {}"
proof (cases "model \<noteq> rn_model r \<or> blank prompt")
  case False
  obtain ws acts where ws: "materializeWorkspace (cv_mkdirTemp V) (cv_chmod V) (cv_io V) files = (ws, acts)" by fastforce
  note w = materialized_resources [OF ws]
  show ?thesis
  proof (cases ws)
    case (Inr t)
    show ?thesis
    proof (cases "cv_random V")
      case random: (Inr bs)
      let ?name = "randomName bs"
      obtain sc acts1 where sc: "startProxySidecar (cv_sidecar V) (cv_healthy V) ?name = (sc, acts1)" by fastforce
      have s: "fold held acts1 {Workspace} = (case sc of Inl _ \<Rightarrow> {Workspace} | Inr _ \<Rightarrow> {Workspace} \<union> sidecar_resources ?name)"
        by (rule sidecar_held [OF sc]) (simp add: sidecar_resources_def)
      obtain out res acts2 where p: "command_process emit V limit ?name = (out, res, acts2)" by (metis prod_cases3)
      have q: "fold held acts2 ({Workspace} \<union> sidecar_resources ?name) = {Workspace} \<union> sidecar_resources ?name"
        by (rule process_held [OF p]) (simp add: sidecar_resources_def)
      show ?thesis using False ws w Inr random sc s p q
        by (cases sc) (auto simp: command_run_def dockerProxy_Close_held)
    qed (use False ws w Inr in \<open>simp add: command_run_def\<close>)
  qed (use False ws w in \<open>simp add: command_run_def\<close>)
qed (simp add: command_run_def)

lemma command_run_output:
  assumes "\<forall>l \<in> set (cv_lines V). length l < 2 ^ 20"
  shows "length (concat (fst (command_run emit V r model prompt files limit))) \<le> unat (output_bytes limit)"
  using process_bounded [OF _ assms, of emit limit]
  by (auto simp: command_run_def split: prod.splits sum.splits)

text \<open>The container of the agent is started without the provider's secret.\<close>

lemma dockerArguments_without_secret:
  "dockerArguments (r\<lparr>rn_secret := s\<rparr>) name workspace network url token = dockerArguments r name workspace network url token"
  by (simp add: dockerArguments_def)

text \<open>A job without an output limit has no proxy: its configuration is refused.\<close>

lemma zero_limit_unserved: "ServeProxy (Inr (sidecar_configuration r model token 0)) = Inl (ErrText ''invalid credential proxy configuration'')"
  by (simp add: ServeProxy_def credentialProxyHandler_def sidecar_configuration_def)

section \<open>The workspace holds the job's files\<close>

definition file_nodes :: "tree \<Rightarrow> (string list \<times> bytes) set" where
  "file_nodes t = {(es, c). t es = Some (File c)}"

definition confined :: "tree \<Rightarrow> bool" where
  "confined t \<longleftrightarrow> (\<forall>es \<in> dom t. es \<noteq> [] \<and> list_all plain_elem es)"

definition placed :: "string \<times> bytes \<Rightarrow> string list \<times> bytes" where
  "placed f = (path_elems (path_Clean (fst f)), snd f)"

lemma mkdir_all_Inr:
  assumes "mkdir_all ps t = Inr t'"
  shows "file_nodes t' = file_nodes t \<and> dom t' = dom t \<union> set ps"
  using assms
proof (induction ps arbitrary: t)
  case (Cons p ps)
  have nf: "t p = None \<or> t p = Some Dir"
    using Cons.prems by (cases "t p"; cases "the (t p)") auto
  then have "mkdir_all ps (t(p \<mapsto> Dir)) = Inr t'" using Cons.prems by auto
  moreover have "file_nodes (t(p \<mapsto> Dir)) = file_nodes t" using nf by (auto simp: file_nodes_def split: if_splits)
  ultimately have "file_nodes t' = file_nodes t \<and> dom t' = dom (t(p \<mapsto> Dir)) \<union> set ps"
    using Cons.IH [of "t(p \<mapsto> Dir)"] by metis
  then show ?case by simp
qed simp

lemma parents_plain:
  assumes "es \<noteq> []" "list_all plain_elem es" "q \<in> set (parents es)"
  shows "q \<noteq> [] \<and> list_all plain_elem q"
  using assms by (auto simp: parents_def list_all_iff dest: in_set_takeD)

lemma relative_plain: "\<not> invalid_relative (path_Clean p) \<Longrightarrow> list_all plain_elem (path_elems (path_Clean p))"
  unfolding path_elems_def by (rule clean_path_plain) (auto simp: invalid_relative_def)

lemma create_file_Inr:
  assumes "create_file es c t = Inr t'"
  shows "file_nodes t' = insert (es, c) (file_nodes t)" "dom t' = insert es (dom t)" "es \<notin> dom t"
  using assms by (auto simp: create_file_def file_nodes_def split: option.splits if_splits)

lemma write_files_Inr:
  assumes "write_files io k fs t = Inr t'" "confined t"
  shows "file_nodes t' = file_nodes t \<union> placed ` set fs \<and> confined t' \<and> distinct (map (fst \<circ> placed) fs)
    \<and> (\<forall>f \<in> set fs. fst (placed f) \<notin> fst ` file_nodes t)"
  using assms
proof (induction io k fs t rule: write_files.induct)
  case (2 io k path content fs t)
  let ?es = "path_elems (path_Clean path)"
  have valid: "\<not> invalid_relative (path_Clean path)" using "2.prems"(1) by (auto simp: Let_def)
  obtain t1 t2 where t1: "mkdir_all (parents ?es) t = Inr t1" and t2: "create_file ?es content t1 = Inr t2"
    and rest: "write_files io (k + 1) fs t2 = Inr t'"
    using "2.prems"(1) valid by (auto simp: Let_def)
  have es: "?es \<noteq> []" "list_all plain_elem ?es" using relative_plain [OF valid] by (auto simp: path_elems_def)
  note d = mkdir_all_Inr [OF t1] and c = create_file_Inr [OF t2]
  have "confined t2" using "2.prems"(2) es parents_plain [OF es] d c(2) by (auto simp: confined_def)
  note IH = "2.IH" [OF refl valid rest this]
  have new: "?es \<notin> fst ` file_nodes t" using c(3) d by (force simp: file_nodes_def)
  show ?case using IH c(1) d new by (auto simp: placed_def comp_def)
qed simp

lemma materializeWorkspace_Inr:
  "materializeWorkspace mt ch io files = (Inr t, acts) \<Longrightarrow> write_files io 0 files Map.empty = Inr t"
  by (auto simp: materializeWorkspace_def split: option.splits sum.splits)

text \<open>When the workspace of a job is materialised, the files it holds are exactly the job's files, each at the elements of its
  cleaned path and with its content; no two of them share a path, and every file and directory lies below the workspace: its path
  is a non-empty list of elements none of which is empty, \<^verbatim>\<open>.\<close>, \<^verbatim>\<open>..\<close> or contains a separator.
\<close>

lemma workspace_holds_files:
  assumes "materializeWorkspace mt ch io files = (Inr t, acts)"
  shows "file_nodes t = placed ` set files \<and> distinct (map (fst \<circ> placed) files) \<and> confined t"
  using write_files_Inr [OF materializeWorkspace_Inr [OF assms]] by (simp add: file_nodes_def confined_def)

definition example_files :: "(string \<times> bytes) list" where
  "example_files = [(''a/../b/x'', [1]), (''b/./y'', [2])]"

definition example_tree :: tree where
  "example_tree = [[''b''] \<mapsto> Dir, [''b'', ''x''] \<mapsto> File [1], [''b'', ''y''] \<mapsto> File [2]]"

lemma example_clean: "path_Clean ''a/../b/x'' = ''b/x''" "path_Clean ''b/./y'' = ''b/y''"
  by code_simp+

lemma example_materialized:
  "materializeWorkspace None None (\<lambda>_ _. None) example_files = (Inr example_tree, [Acquire Workspace])"
  by (auto simp: materializeWorkspace_def example_files_def example_tree_def example_clean invalid_relative_def path_elems_def
      parents_def upt_rec stmt_def create_file_def fun_eq_iff)

lemma workspace_holds_files_witness:
  "file_nodes example_tree = placed ` set example_files \<and> distinct (map (fst \<circ> placed) example_files) \<and> confined example_tree"
  by (rule workspace_holds_files [OF example_materialized])


definition example_runner :: runner where
  "example_runner = \<lparr>rn_docker = ''docker'', rn_proxyBinary = ''p'', rn_image = ''i'', rn_kind = ''codex'', rn_model = ''m'',
     rn_secret = ''s'', rn_arguments = [], rn_timeout = 1\<rparr>"

definition example_env :: command_env where
  "example_env = \<lparr>cv_mkdirTemp = None, cv_chmod = None, cv_io = \<lambda>_ _. None, cv_random = Inr [1], cv_sidecar = \<lambda>_. None,
     cv_healthy = \<lambda>n. n = 3, cv_pipe = None, cv_start = None, cv_lines = [''hello'', ''world''], cv_scan = None, cv_wait = None,
     cv_stopped = False, cv_elapsed = 7\<rparr>"

lemma example_out: "fst (command_run no_faults example_env example_runner ''m'' ''p'' [] 2) = [''hello'' @ [CHR 0x0A]]"
  by code_simp


end
