(* ===== verification/Recovery.thy ===== *)
theory Recovery
  imports Prelude
begin

text \<open>
  The reversible tuning of a provider's Windows host (\<^verbatim>\<open>cli/internal/platform/windows\<close>): the plan of operations, the journal on
  disk that records what has to be undone, and the start and the end of a tuned session. The runner that changes the host is an
  interface of the source, here a record of functions; the theory \<open>NativeRunner\<close> holds the one the program uses. Every
  access to the disk may fail; a wrapped error stands for its cause. The journal is written to a temporary file and linked or renamed, so that the file holds a whole
  journal or does not exist.
\<close>

section \<open>Configuration\<close>

record tuning_config =
  tc_KeepAlive :: string
  tc_ContextLength :: int
  tc_MaxLoadedModels :: int
  tc_NumParallel :: int
  tc_FlashAttention :: bool
  tc_KVCacheType :: string
  tc_PerformancePowerPlan :: bool
  tc_ProcessPriority :: string
  tc_RequireACPower :: bool

definition DefaultConfig :: tuning_config where
  "DefaultConfig = \<lparr>tc_KeepAlive = ''-1'', tc_ContextLength = 4096, tc_MaxLoadedModels = 1, tc_NumParallel = 1,
     tc_FlashAttention = True, tc_KVCacheType = ''q8_0'', tc_PerformancePowerPlan = True, tc_ProcessPriority = ''High'',
     tc_RequireACPower = True\<rparr>"

definition tuning_Validate :: "tuning_config \<Rightarrow> unit result" where
  "tuning_Validate c =
     (if tc_ContextLength c < 512 then Inl (ErrText ''context length must be at least 512'')
      else if tc_MaxLoadedModels c < 1 then Inl (ErrText ''max loaded models must be at least 1'')
      else if tc_NumParallel c < 1 then Inl (ErrText ''num parallel must be at least 1'')
      else if tc_KVCacheType c \<notin> set [''f16'', ''q8_0'', ''q4_0''] then Inl (ErrText ''KV cache type is not supported'')
      else if tc_ProcessPriority c \<notin> set [''Normal'', ''AboveNormal'', ''High''] then Inl (ErrText ''process priority is not supported'')
      else Inr ())"

definition ValidatePower :: "tuning_config \<Rightarrow> bool \<Rightarrow> bool \<Rightarrow> unit result" where
  "ValidatePower c onACPower allowBattery =
     (if tc_RequireACPower c \<and> \<not> onACPower \<and> \<not> allowBattery
      then Inl (ErrText ''AC power is required; connect AC power or use --allow-battery'') else Inr ())"

section \<open>The journal\<close>

record recoveryJournal =
  rj_SessionKind :: string
  rj_OwnerPID :: int
  rj_ActivePowerScheme :: string
  rj_Executable :: string
  rj_Priority :: string
  rj_Environment :: "(string \<times> string option) list"
  rj_AppliedStages :: "string list"

definition journal_validate :: "recoveryJournal \<Rightarrow> unit result" where
  "journal_validate j =
     (if rj_SessionKind j \<noteq> ''provider'' then Inl (ErrText ''recovery session kind is not supported'')
      else if rj_OwnerPID j \<le> 0 then Inl (ErrText ''recovery session owner PID is required'')
      else if blank (rj_ActivePowerScheme j) then Inl (ErrText ''active power scheme is required'')
      else Inr ())"

definition RollbackStages :: "recoveryJournal \<Rightarrow> string list" where
  "RollbackStages j = rev (rj_AppliedStages j)"

definition ErrActiveRecoveryJournal :: go_error where
  "ErrActiveRecoveryJournal = ErrText ''an active Myference recovery journal already exists''"

definition ErrNotExist :: go_error where
  "ErrNotExist = ErrText ''file does not exist''"

text \<open>The host, the journal file, and which accesses to the disk fail; \<open>ms_io\<close> counts them.\<close>

record 'h machine_state =
  ms_host :: 'h
  ms_disk :: "recoveryJournal option"
  ms_fails :: "nat \<Rightarrow> bool"
  ms_io :: nat

text \<open>\<open>n\<close> accesses in sequence, up to the first that fails.\<close>

fun disk_calls :: "nat \<Rightarrow> 'h machine_state \<Rightarrow> unit result \<times> 'h machine_state" where
  "disk_calls 0 w = (Inr (), w)"
| "disk_calls (Suc n) w =
     (let w1 = w\<lparr>ms_io := ms_io w + 1\<rparr>
      in if ms_fails w (ms_io w) then (Inl (ErrFault (ms_io w)), w1) else disk_calls n w1)"

text \<open>Creating, restricting, writing, syncing and closing the temporary file.\<close>

definition writeTemporary :: "'h machine_state \<Rightarrow> unit result \<times> 'h machine_state" where
  "writeTemporary = disk_calls 5"

definition journal_Save :: "recoveryJournal \<Rightarrow> 'h machine_state \<Rightarrow> unit result \<times> 'h machine_state" where
  "journal_Save j w =
     (case journal_validate j of
        Inl e \<Rightarrow> (Inl e, w)
      | Inr _ \<Rightarrow>
          (case disk_calls 2 w of
             (Inl e, w) \<Rightarrow> (Inl e, w)
           | (Inr _, w) \<Rightarrow>
               (case ms_disk w of
                  Some _ \<Rightarrow> (Inl ErrActiveRecoveryJournal, w)
                | None \<Rightarrow>
                    (case writeTemporary w of
                       (Inl e, w) \<Rightarrow> (Inl e, w)
                     | (Inr _, w) \<Rightarrow>
                         (case disk_calls 1 w of
                            (Inl e, w) \<Rightarrow> (Inl e, w)
                          | (Inr _, w) \<Rightarrow> (Inr (), w\<lparr>ms_disk := Some j\<rparr>))))))"

text \<open>Opening and reading the file.\<close>

definition journal_Load :: "'h machine_state \<Rightarrow> recoveryJournal result \<times> 'h machine_state" where
  "journal_Load w =
     (case ms_disk w of
        None \<Rightarrow> (Inl ErrNotExist, w)
      | Some j \<Rightarrow>
          (case disk_calls 2 w of
             (Inl e, w) \<Rightarrow> (Inl e, w)
           | (Inr _, w) \<Rightarrow> (and_then (journal_validate j) (\<lambda>_. Inr j), w)))"

definition replaceExisting :: "recoveryJournal \<Rightarrow> 'h machine_state \<Rightarrow> unit result \<times> 'h machine_state" where
  "replaceExisting j w =
     (case journal_validate j of
        Inl e \<Rightarrow> (Inl e, w)
      | Inr _ \<Rightarrow>
          (case writeTemporary w of
             (Inl e, w) \<Rightarrow> (Inl e, w)
           | (Inr _, w) \<Rightarrow>
               (case disk_calls 1 w of
                  (Inl e, w) \<Rightarrow> (Inl e, w)
                | (Inr _, w) \<Rightarrow> (Inr (), w\<lparr>ms_disk := Some j\<rparr>))))"

definition CompleteStage :: "string \<Rightarrow> 'h machine_state \<Rightarrow> unit result \<times> 'h machine_state" where
  "CompleteStage stage w =
     (let stage = trim_space stage
      in if stage = [] then (Inl (ErrText ''recovery stage is required''), w)
         else case journal_Load w of
           (Inl e, w) \<Rightarrow> (Inl e, w)
         | (Inr j, w) \<Rightarrow>
             if stage \<in> set (rj_AppliedStages j) then (Inr (), w)
             else replaceExisting (j\<lparr>rj_AppliedStages := rj_AppliedStages j @ [stage]\<rparr>) w)"

text \<open>\<open>restore\<close> changes the host only.\<close>

definition on_host :: "('h \<Rightarrow> go_error option \<times> 'h) \<Rightarrow> 'h machine_state \<Rightarrow> go_error option \<times> 'h machine_state" where
  "on_host f w = (case f (ms_host w) of (e, h) \<Rightarrow> (e, w\<lparr>ms_host := h\<rparr>))"

definition CompleteRecovery ::
  "(recoveryJournal \<Rightarrow> 'h \<Rightarrow> go_error option \<times> 'h) \<Rightarrow> 'h machine_state \<Rightarrow> unit result \<times> 'h machine_state" where
  "CompleteRecovery restore w =
     (case journal_Load w of
        (Inl e, w) \<Rightarrow> (if e = ErrNotExist then Inr () else Inl e, w)
      | (Inr j, w) \<Rightarrow>
          (case on_host (restore j) w of
             (Some e, w) \<Rightarrow> (Inl e, w)
           | (None, w) \<Rightarrow>
               (case disk_calls 1 w of
                  (Inl e, w) \<Rightarrow> (Inl e, w)
                | (Inr _, w) \<Rightarrow> (Inr (), w\<lparr>ms_disk := None\<rparr>))))"

section \<open>The plan\<close>

datatype operationKind = OperationPowerPlan | OperationKeepAwake | OperationOllamaEnvironment | OperationProcessPriority

fun kind_string :: "operationKind \<Rightarrow> string" where
  "kind_string OperationPowerPlan = ''power-plan''"
| "kind_string OperationKeepAwake = ''keep-awake''"
| "kind_string OperationOllamaEnvironment = ''ollama-environment''"
| "kind_string OperationProcessPriority = ''process-priority''"

record tuning_operation =
  op_Stage :: string
  op_Kind :: operationKind
  op_Program :: string
  op_Args :: "string list"
  op_Environment :: "(string \<times> string) list"
  op_Priority :: string

definition boolString :: "bool \<Rightarrow> string" where
  "boolString b = (if b then ''1'' else ''0'')"

definition plain_operation :: "operationKind \<Rightarrow> tuning_operation" where
  "plain_operation k = \<lparr>op_Stage = kind_string k, op_Kind = k, op_Program = '''', op_Args = [], op_Environment = [], op_Priority = ''''\<rparr>"

record hostSnapshot =
  hs_OnACPower :: bool
  hs_Journal :: recoveryJournal

definition planned :: "tuning_config \<Rightarrow> tuning_operation list" where
  "planned c =
     (if tc_PerformancePowerPlan c
      then [(plain_operation OperationPowerPlan)\<lparr>op_Program := ''powercfg.exe'', op_Args := [''/setactive'', ''SCHEME_MIN'']\<rparr>] else [])
     @ [plain_operation OperationKeepAwake,
        (plain_operation OperationOllamaEnvironment)\<lparr>op_Environment :=
          [(''OLLAMA_MAX_LOADED_MODELS'', int_string (tc_MaxLoadedModels c)), (''OLLAMA_NUM_PARALLEL'', int_string (tc_NumParallel c)),
           (''OLLAMA_FLASH_ATTENTION'', boolString (tc_FlashAttention c)), (''OLLAMA_KV_CACHE_TYPE'', tc_KVCacheType c)]\<rparr>,
        (plain_operation OperationProcessPriority)\<lparr>op_Priority := tc_ProcessPriority c\<rparr>]"

definition PlanProviderTuning :: "tuning_config \<Rightarrow> bool \<Rightarrow> hostSnapshot \<Rightarrow> tuning_operation list result" where
  "PlanProviderTuning c allowBattery s =
     and_then (tuning_Validate c) (\<lambda>_. and_then (ValidatePower c (hs_OnACPower s) allowBattery) (\<lambda>_. Inr (planned c)))"

section \<open>A tuned session\<close>

record 'h optimizationRunner =
  or_Snapshot :: "tuning_config \<Rightarrow> 'h \<Rightarrow> hostSnapshot result \<times> 'h"
  or_Apply :: "tuning_operation \<Rightarrow> 'h \<Rightarrow> go_error option \<times> 'h"
  or_Restore :: "recoveryJournal \<Rightarrow> 'h \<Rightarrow> go_error option \<times> 'h"

definition RestoreProviderTuning :: "'h optimizationRunner \<Rightarrow> 'h machine_state \<Rightarrow> unit result \<times> 'h machine_state" where
  "RestoreProviderTuning R = CompleteRecovery (or_Restore R)"

definition applyJournaledOperation ::
  "'h optimizationRunner \<Rightarrow> tuning_operation \<Rightarrow> 'h machine_state \<Rightarrow> unit result \<times> 'h machine_state" where
  "applyJournaledOperation R op w =
     (case on_host (or_Apply R op) w of
        (Some e, w) \<Rightarrow> (Inl e, w)
      | (None, w) \<Rightarrow>
          (case CompleteStage (op_Stage op) w of
             (Inr _, w) \<Rightarrow> (Inr (), w)
           | (Inl e, w) \<Rightarrow>
               (case journal_Load w of
                  (Inl _, w) \<Rightarrow> (Inl e, w)
                | (Inr j, w) \<Rightarrow>
                    if op_Stage op \<in> set (rj_AppliedStages j) then (Inl e, w)
                    else (case on_host (or_Restore R (j\<lparr>rj_AppliedStages := rj_AppliedStages j @ [op_Stage op]\<rparr>)) w of
                            (Some e', w) \<Rightarrow> (Inl e', w) | (None, w) \<Rightarrow> (Inl e, w)))))"

fun apply_operations ::
  "'h optimizationRunner \<Rightarrow> tuning_operation list \<Rightarrow> 'h machine_state \<Rightarrow> unit result \<times> 'h machine_state" where
  "apply_operations R [] w = (Inr (), w)"
| "apply_operations R (op # ops) w =
     (case applyJournaledOperation R op w of
        (Inr _, w) \<Rightarrow> apply_operations R ops w
      | (Inl e, w) \<Rightarrow>
          (case RestoreProviderTuning R w of (Inl e', w) \<Rightarrow> (Inl e', w) | (Inr _, w) \<Rightarrow> (Inl e, w)))"

definition StartProviderTuning ::
  "'h optimizationRunner \<Rightarrow> tuning_config \<Rightarrow> bool \<Rightarrow> 'h machine_state \<Rightarrow> unit result \<times> 'h machine_state" where
  "StartProviderTuning R c allowBattery w =
     (case or_Snapshot R c (ms_host w) of
        (Inl e, h) \<Rightarrow> (Inl e, w\<lparr>ms_host := h\<rparr>)
      | (Inr s, h) \<Rightarrow>
          (let w = w\<lparr>ms_host := h\<rparr>
           in case PlanProviderTuning c allowBattery s of
                Inl e \<Rightarrow> (Inl e, w)
              | Inr ops \<Rightarrow>
                  (case journal_Save (hs_Journal s) w of
                     (Inl e, w) \<Rightarrow> (Inl e, w)
                   | (Inr _, w) \<Rightarrow> apply_operations R ops w)))"

text \<open>The closure that ends a session: \<open>done\<close> is what \<^verbatim>\<open>sync.Once\<close> has kept of its first call.\<close>

definition end_session ::
  "'h optimizationRunner \<Rightarrow> unit result option \<times> 'h machine_state \<Rightarrow> unit result \<times> unit result option \<times> 'h machine_state" where
  "end_session R s =
     (case s of
        (Some r, w) \<Rightarrow> (r, Some r, w)
      | (None, w) \<Rightarrow> (case RestoreProviderTuning R w of (r, w) \<Rightarrow> (r, Some r, w)))"

text \<open>Attempts to restore, each with its own failures of the disk.\<close>

fun restore_attempts :: "'h optimizationRunner \<Rightarrow> (nat \<Rightarrow> bool) list \<Rightarrow> 'h machine_state \<Rightarrow> 'h machine_state" where
  "restore_attempts R [] w = w"
| "restore_attempts R (f # fs) w = restore_attempts R fs (snd (RestoreProviderTuning R (w\<lparr>ms_fails := f\<rparr>)))"

section \<open>Facts about the store\<close>

definition working :: "'h machine_state \<Rightarrow> bool" where
  "working w \<longleftrightarrow> (\<forall>n \<ge> ms_io w. \<not> ms_fails w n)"

lemma disk_calls_working: "working w \<Longrightarrow> disk_calls n w = (Inr (), w\<lparr>ms_io := ms_io w + n\<rparr>)"
proof (induction n arbitrary: w)
  case (Suc n)
  then have "working (w\<lparr>ms_io := ms_io w + 1\<rparr>)" by (simp add: working_def)
  from Suc.IH [OF this] Suc.prems show ?case by (simp add: working_def Let_def)
qed simp

lemma disk_calls_keeps:
  assumes "disk_calls n w = (r, w')"
  shows "ms_host w' = ms_host w \<and> ms_disk w' = ms_disk w" "r \<noteq> Inl ErrNotExist"
  using assms by (induction n arbitrary: w) (auto simp: Let_def ErrNotExist_def split: if_splits)

declare disk_calls.simps [simp del]

lemma journal_validate_error: "journal_validate j \<noteq> Inl ErrNotExist"
  by (simp add: journal_validate_def ErrNotExist_def)

lemma journal_validate_stages [simp]: "journal_validate (j\<lparr>rj_AppliedStages := xs\<rparr>) = journal_validate j"
  by (simp add: journal_validate_def)

lemma journal_Load_keeps:
  assumes "journal_Load w = (r, w')"
  shows "ms_host w' = ms_host w \<and> ms_disk w' = ms_disk w" "r = Inr j \<Longrightarrow> ms_disk w = Some j"
    "r = Inl ErrNotExist \<Longrightarrow> ms_disk w = None"
  using assms journal_validate_error
  by (auto simp: journal_Load_def and_then_Inl dest: disk_calls_keeps split: option.splits prod.splits sum.splits)

lemma journal_Load_working:
  assumes "working w" "ms_disk w = Some j" "journal_validate j = Inr ()"
  shows "journal_Load w = (Inr j, w\<lparr>ms_io := ms_io w + 2\<rparr>)"
  using assms by (simp add: journal_Load_def disk_calls_working)

lemma working_later [simp]: "working w \<Longrightarrow> ms_io w \<le> k \<Longrightarrow> working (w\<lparr>ms_io := k\<rparr>)"
  by (simp add: working_def)

lemma working_host [simp]: "working (w\<lparr>ms_host := h\<rparr>) = working w"
  by (simp add: working_def)

lemma working_disk [simp]: "working (w\<lparr>ms_disk := d\<rparr>) = working w"
  by (simp add: working_def)

lemma replaceExisting_working:
  assumes "working w" "journal_validate j = Inr ()"
  shows "replaceExisting j w = (Inr (), w\<lparr>ms_io := ms_io w + 6, ms_disk := Some j\<rparr>)"
  using assms by (simp add: replaceExisting_def writeTemporary_def disk_calls_working)

text \<open>On a working disk a stage is recorded, in its order.\<close>

definition record_stage :: "string \<Rightarrow> string list \<Rightarrow> string list" where
  "record_stage stage xs = (if stage \<in> set xs then xs else xs @ [stage])"

lemma set_record_stage [simp]: "set (record_stage stage xs) = insert stage (set xs)"
  by (auto simp: record_stage_def)

lemma CompleteStage_working:
  assumes "working w" "ms_disk w = Some j" "journal_validate j = Inr ()" "trim_space stage = stage" "stage \<noteq> []"
  shows "\<exists>n. CompleteStage stage w
    = (Inr (), w\<lparr>ms_io := ms_io w + n, ms_disk := Some (j\<lparr>rj_AppliedStages := record_stage stage (rj_AppliedStages j)\<rparr>)\<rparr>)"
proof (cases "stage \<in> set (rj_AppliedStages j)")
  case True
  have "w\<lparr>ms_io := ms_io w + 2, ms_disk := Some j\<rparr> = w\<lparr>ms_io := ms_io w + 2\<rparr>"
    using assms(2) by simp
  then show ?thesis using assms True
    by (intro exI [of _ 2]) (simp add: CompleteStage_def journal_Load_working record_stage_def)
next
  case False
  then show ?thesis using assms
    by (intro exI [of _ 8]) (simp add: CompleteStage_def journal_Load_working replaceExisting_working record_stage_def add.commute)
qed

lemma planned_stage:
  assumes "op \<in> set (planned c)"
  shows "op_Stage op = kind_string (op_Kind op)"
  using assms by (auto simp: planned_def plain_operation_def split: if_splits)

lemma kind_string_trimmed: "trim_space (kind_string k) = kind_string k" "kind_string k \<noteq> []"
  by (cases k; simp; code_simp)+

text \<open>A second start does not touch the host or the journal of an active session.\<close>

lemma journal_Save_active:
  assumes "ms_disk w = Some j" "journal_Save k w = (r, w')"
  shows "r \<noteq> Inr () \<and> ms_disk w' = Some j \<and> ms_host w' = ms_host w"
  using assms by (auto simp: journal_Save_def dest: disk_calls_keeps split: sum.splits prod.splits)

lemma active_session_kept:
  assumes "ms_disk w = Some j" "or_Snapshot R c (ms_host w) = (s, h)" "StartProviderTuning R c allowBattery w = (r, w')"
  shows "r \<noteq> Inr () \<and> ms_disk w' = Some j \<and> ms_host w' = h"
  using assms
  by (auto simp: StartProviderTuning_def Let_def split: sum.splits prod.splits dest!: journal_Save_active [rotated])

section \<open>What a runner promises\<close>

text \<open>
  \<open>recoverable j S h\<close>: the host differs from the snapshot \<open>j\<close> only in what the stages \<open>S\<close> changed. \<open>sane h\<close> collects what the
  runner needs of the host to keep its promise, \<open>pristine h\<close> what it needs of a host it has not tuned.
\<close>

locale optimization_runner =
  fixes R :: "'h optimizationRunner"
    and pristine :: "'h \<Rightarrow> bool"
    and sane :: "'h \<Rightarrow> bool"
    and recoverable :: "recoveryJournal \<Rightarrow> string set \<Rightarrow> 'h \<Rightarrow> bool"
  assumes snapshot_fresh: "pristine h \<Longrightarrow> or_Snapshot R c h = (r, h') \<Longrightarrow> sane h' \<and>
      (\<forall>s. r = Inr s \<longrightarrow> rj_AppliedStages (hs_Journal s) = [] \<and> recoverable (hs_Journal s) {} h')"
    and apply_keeps: "sane h \<Longrightarrow> op \<in> set (planned c) \<Longrightarrow> or_Apply R op h = (e, h') \<Longrightarrow> recoverable j S h \<Longrightarrow>
      sane h' \<and> recoverable j (if e = None then insert (op_Stage op) S else S) h'"
    and restore_keeps: "sane h \<Longrightarrow> or_Restore R j h = (e, h') \<Longrightarrow> recoverable j S h \<Longrightarrow>
      sane h' \<and> recoverable j S h' \<and> (e = None \<longrightarrow> S \<subseteq> set (rj_AppliedStages j) \<longrightarrow> recoverable j {} h')"
    and stages_irrelevant: "recoverable (j\<lparr>rj_AppliedStages := xs\<rparr>) S h \<longleftrightarrow> recoverable j S h"
begin

text \<open>The journal covers the host: without one the host is as it was, with one its stages undo every change.\<close>

definition covered :: "recoveryJournal \<Rightarrow> 'h machine_state \<Rightarrow> bool" where
  "covered j0 w \<longleftrightarrow> sane (ms_host w) \<and>
     (case ms_disk w of
        None \<Rightarrow> recoverable j0 {} (ms_host w)
      | Some j \<Rightarrow> journal_validate j0 = Inr () \<and> j = j0\<lparr>rj_AppliedStages := rj_AppliedStages j\<rparr> \<and> recoverable j0 (set (rj_AppliedStages j)) (ms_host w))"

lemma restore_covered:
  assumes "covered j0 w" "RestoreProviderTuning R w = (r, w')"
  shows "covered j0 w' \<and> (r = Inr () \<longrightarrow> ms_disk w' = None)"
proof -
  obtain lr w1 where load: "journal_Load w = (lr, w1)" by fastforce
  note k = journal_Load_keeps [OF load]
  show ?thesis
  proof (cases lr)
    case (Inl e)
    then show ?thesis using assms k load
      by (auto simp: RestoreProviderTuning_def CompleteRecovery_def covered_def split: option.splits if_splits)
  next
    case (Inr j)
    obtain e h where rs: "or_Restore R j (ms_host w) = (e, h)" by fastforce
    have j: "ms_disk w = Some j" using k(2) Inr by simp
    then have j0: "j = j0\<lparr>rj_AppliedStages := rj_AppliedStages j\<rparr>"
      and pre: "sane (ms_host w)" "recoverable j (set (rj_AppliedStages j)) (ms_host w)"
      using assms(1) stages_irrelevant [where j = j0 and xs = "rj_AppliedStages j"] by (auto simp: covered_def)
    note post = restore_keeps [OF pre(1) rs pre(2)]
    have rec: "recoverable j S h \<longleftrightarrow> recoverable j0 S h" for S using j0 stages_irrelevant by metis
    show ?thesis
    proof (cases e)
      case (Some x)
      then show ?thesis using assms load Inr rs k(1) j j0 post rec
        by (auto simp: RestoreProviderTuning_def CompleteRecovery_def on_host_def covered_def)
    next
      case None
      obtain dr w2 where d: "disk_calls 1 (w1\<lparr>ms_host := h\<rparr>) = (dr, w2)" by fastforce
      show ?thesis using assms load Inr rs k(1) j j0 post rec None d disk_calls_keeps [OF d]
        by (auto simp: RestoreProviderTuning_def CompleteRecovery_def on_host_def covered_def split: sum.splits)
    qed
  qed
qed

lemma apply_covered:
  assumes "covered j0 w" "ms_disk w = Some j" "working w" "op \<in> set (planned c)" "applyJournaledOperation R op w = (r, w')"
  shows "covered j0 w' \<and> working w' \<and> ms_disk w' \<noteq> None"
proof -
  obtain e h where ap: "or_Apply R op (ms_host w) = (e, h)" by fastforce
  have pre: "sane (ms_host w)" "recoverable j0 (set (rj_AppliedStages j)) (ms_host w)" "journal_validate j = Inr ()"
    and j0: "j = j0\<lparr>rj_AppliedStages := rj_AppliedStages j\<rparr>" "journal_validate j0 = Inr ()"
    using assms(1,2) journal_validate_stages [where j = j0 and xs = "rj_AppliedStages j"] by (auto simp: covered_def)
  note post = apply_keeps [OF pre(1) assms(4) ap pre(2)]
  show ?thesis
  proof (cases e)
    case (Some x)
    then have "w' = w\<lparr>ms_host := h\<rparr>" using assms(5) ap by (simp add: applyJournaledOperation_def on_host_def)
    then show ?thesis using assms Some post j0 by (simp add: covered_def)
  next
    case None
    let ?w = "w\<lparr>ms_host := h\<rparr>"
    obtain n where "CompleteStage (op_Stage op) ?w
      = (Inr (), ?w\<lparr>ms_io := ms_io ?w + n, ms_disk := Some (j\<lparr>rj_AppliedStages := record_stage (op_Stage op) (rj_AppliedStages j)\<rparr>)\<rparr>)"
      using CompleteStage_working [of ?w j "op_Stage op"] assms(2,3) pre(3) planned_stage [OF assms(4)] kind_string_trimmed by auto
    then have w': "w' = ?w\<lparr>ms_io := ms_io ?w + n, ms_disk := Some (j\<lparr>rj_AppliedStages := record_stage (op_Stage op) (rj_AppliedStages j)\<rparr>)\<rparr>"
      using assms(5) ap None by (simp add: applyJournaledOperation_def on_host_def)
    have "working w'" unfolding w' using assms(3) by (simp add: working_def)
    moreover have "covered j0 w'"
    proof -
      obtain st where "j = j0\<lparr>rj_AppliedStages := st\<rparr>" using j0(1) by blast
      then show ?thesis using j0(2) post None w' by (simp add: covered_def)
    qed
    ultimately show ?thesis using w' by simp
  qed
qed

lemma operations_covered:
  assumes "covered j0 w" "ms_disk w \<noteq> None" "working w" "set ops \<subseteq> set (planned c)" "apply_operations R ops w = (r, w')"
  shows "covered j0 w'"
  using assms
proof (induction ops arbitrary: w)
  case (Cons op ops)
  obtain j where j: "ms_disk w = Some j" using Cons.prems(2) by auto
  obtain ar w1 where ap: "applyJournaledOperation R op w = (ar, w1)" by fastforce
  note w1 = apply_covered [OF Cons.prems(1) j Cons.prems(3) _ ap, of c]
  show ?case
  proof (cases ar)
    case (Inl e)
    obtain rr w2 where "RestoreProviderTuning R w1 = (rr, w2)" by fastforce
    then show ?thesis using restore_covered [of j0 w1 rr w2] w1 Inl ap Cons.prems by (auto split: sum.splits)
  next
    case (Inr u)
    then show ?thesis using Cons.IH [of w1] w1 ap Cons.prems by auto
  qed
qed simp

lemma start_covered:
  assumes "pristine (ms_host w)" "working w" "ms_disk w = None" "or_Snapshot R c (ms_host w) = (Inr s, h)"
    and "StartProviderTuning R c allowBattery w = (r, w')"
  shows "covered (hs_Journal s) w'"
proof -
  let ?j = "hs_Journal s" and ?w = "w\<lparr>ms_host := h\<rparr>"
  have fresh: "sane h" "rj_AppliedStages ?j = []" "recoverable ?j {} h" using snapshot_fresh [OF assms(1,4)] by auto
  then have idle: "covered ?j ?w" using assms(3) by (simp add: covered_def)
  show ?thesis
  proof (cases "PlanProviderTuning c allowBattery s")
    case (Inl e)
    then show ?thesis using assms(4,5) idle by (simp add: StartProviderTuning_def)
  next
    case (Inr ops)
    then have ops: "ops = planned c" by (auto simp: PlanProviderTuning_def)
    show ?thesis
    proof (cases "journal_validate ?j")
      case invalid: (Inl e)
      then show ?thesis using assms(4,5) Inr idle by (simp add: StartProviderTuning_def journal_Save_def)
    next
      case (Inr u)
      let ?w1 = "?w\<lparr>ms_io := ms_io w + 8, ms_disk := Some ?j\<rparr>"
      have "journal_Save ?j ?w = (Inr (), ?w1)"
        using Inr assms(2,3) by (simp add: journal_Save_def writeTemporary_def disk_calls_working)
      moreover have "covered ?j ?w1" using fresh Inr by (simp add: covered_def)
      moreover have "working ?w1" using assms(2) by (simp add: working_def)
      ultimately show ?thesis
        using assms(4,5) \<open>PlanProviderTuning c allowBattery s = Inr ops\<close> ops operations_covered [of ?j ?w1 "planned c" c r w']
        by (simp add: StartProviderTuning_def)
    qed
  qed
qed

lemma attempts_covered: "covered j0 w \<Longrightarrow> covered j0 (restore_attempts R fs w)"
proof (induction fs arbitrary: w)
  case (Cons f fs)
  have "covered j0 (w\<lparr>ms_fails := f\<rparr>)" using Cons.prems by (simp add: covered_def split: option.splits)
  with restore_covered [of j0 "w\<lparr>ms_fails := f\<rparr>"] have "covered j0 (snd (RestoreProviderTuning R (w\<lparr>ms_fails := f\<rparr>)))"
    by (metis prod.collapse)
  from Cons.IH [OF this] show ?case by simp
qed simp

end

end
