(* ===== verification/NativeRunner.thy ===== *)
theory NativeRunner
  imports Recovery
begin

text \<open>
  The runner that tunes a Windows host (\<^verbatim>\<open>runner_windows.go\<close>). The host is the active power scheme, the processes with their priority
  and environment, and whether the program keeps the system awake; every call of the operating system may fail.
\<close>

section \<open>The host\<close>

record os_process =
  pr_PID :: int
  pr_Name :: string
  pr_Executable :: string
  pr_Priority :: string
  pr_Environ :: "string list"

datatype os_call = PowerGet | PowerSet | ListProcesses | ExecutionState | TaskKill | StartProcess | OpenProcess | SetPriorityClass

text \<open>
  \<open>nh_powerText\<close> is what \<^verbatim>\<open>powercfg /getactivescheme\<close> prints for a scheme, \<open>nh_image\<close> the process name of an executable, \<open>nh_snapshot\<close> the
  journal of \<^verbatim>\<open>runner.snapshot\<close>, \<open>nh_fails\<close> the failures of the numbered calls.
\<close>

record native_host =
  nh_power :: string
  nh_powerText :: "string \<Rightarrow> string"
  nh_awake :: bool
  nh_processes :: "os_process list"
  nh_onAC :: "bool option"
  nh_environ :: "string list"
  nh_image :: "string \<Rightarrow> string"
  nh_pid :: int
  nh_nextPID :: int
  nh_snapshot :: "recoveryJournal option"
  nh_fails :: "os_call \<Rightarrow> nat \<Rightarrow> bool"
  nh_calls :: nat

definition os_step :: "os_call \<Rightarrow> native_host \<Rightarrow> go_error option \<times> native_host" where
  "os_step c h = (if nh_fails h c (nh_calls h) then Some (ErrFault (nh_calls h)) else None, h\<lparr>nh_calls := nh_calls h + 1\<rparr>)"

section \<open>Names\<close>

definition hex_or_upper :: "char \<Rightarrow> bool" where
  "hex_or_upper c \<longleftrightarrow> is_digit c \<or> lower_char c \<in> set ''abcdef''"

definition guid_at :: "string \<Rightarrow> bool" where
  "guid_at s \<longleftrightarrow> 36 \<le> length s \<and>
     list_all (\<lambda>i. if i \<in> set [8, 13, 18, 23] then s ! i = CHR ''-'' else hex_or_upper (s ! i)) [0..<36]"

fun first_guid :: "string \<Rightarrow> string" where
  "first_guid [] = []"
| "first_guid (c # cs) = (if guid_at (c # cs) then take 36 (c # cs) else first_guid cs)"

definition parseActivePowerScheme :: "string \<Rightarrow> string result" where
  "parseActivePowerScheme s =
     (let m = first_guid s
      in if m = [] then Inl (ErrText ''active power scheme GUID was not reported by powercfg'') else Inr (to_lower m))"

definition trimExecutableSuffix :: "string \<Rightarrow> string" where
  "trimExecutableSuffix name = (let s = trim_space (to_lower name) in if suffix ''.exe'' s then take (length s - 4) s else s)"

definition ollama_name :: "string \<Rightarrow> bool" where
  "ollama_name name \<longleftrightarrow> equal_fold (trimExecutableSuffix name) ''ollama''"

abbreviation is_ollama :: "os_process \<Rightarrow> bool" where
  "is_ollama p \<equiv> ollama_name (pr_Name p)"

definition parseProcessSnapshots :: "os_process list \<Rightarrow> os_process list" where
  "parseProcessSnapshots ps = filter (\<lambda>p. pr_PID p > 0 \<and> pr_Name p \<noteq> []) ps"

section \<open>Environments\<close>

definition env_name :: "string \<Rightarrow> string" where
  "env_name item = takeWhile (\<lambda>c. c \<noteq> CHR ''='') item"

definition env_item :: "string \<Rightarrow> string \<Rightarrow> string" where
  "env_item name x = name @ ''='' @ x"

definition lookupEnv :: "string \<Rightarrow> string list \<Rightarrow> string option" where
  "lookupEnv name items =
     (case filter (\<lambda>i. to_upper (env_name i) = name) items of [] \<Rightarrow> None | i # _ \<Rightarrow> Some (drop (length (env_name i) + 1) i))"

definition ollama_variables :: "string list" where
  "ollama_variables = [''OLLAMA_MAX_LOADED_MODELS'', ''OLLAMA_NUM_PARALLEL'', ''OLLAMA_FLASH_ATTENTION'', ''OLLAMA_KV_CACHE_TYPE'']"

definition originalOllamaEnvironment :: "string list \<Rightarrow> (string \<times> string option) list" where
  "originalOllamaEnvironment environ = map (\<lambda>name. (name, lookupEnv name environ)) ollama_variables"

definition environmentValues :: "(string \<times> string) list \<Rightarrow> (string \<times> string option) list" where
  "environmentValues values = map (\<lambda>(name, v). (name, Some v)) values"

definition mergeEnvironment :: "string list \<Rightarrow> (string \<times> string option) list \<Rightarrow> string list" where
  "mergeEnvironment base overrides =
     filter (\<lambda>item. map_of overrides (to_upper (env_name item)) = None) base
     @ concat (map (\<lambda>(name, v). case v of None \<Rightarrow> [] | Some x \<Rightarrow> [env_item name x]) overrides)"

section \<open>Snapshot\<close>

definition processes :: "native_host \<Rightarrow> os_process list result \<times> native_host" where
  "processes h = (case os_step ListProcesses h of (Some e, h) \<Rightarrow> (Inl e, h) | (None, h) \<Rightarrow> (Inr (parseProcessSnapshots (nh_processes h)), h))"

definition processPriority :: "os_process \<Rightarrow> native_host \<Rightarrow> string \<times> native_host" where
  "processPriority p h =
     (case os_step OpenProcess h of
        (Some _, h) \<Rightarrow> (''Normal'', h)
      | (None, h) \<Rightarrow> (if pr_Priority p = ''High'' \<or> pr_Priority p = ''AboveNormal'' then pr_Priority p else ''Normal'', h))"

fun capture_ollama :: "os_process list \<Rightarrow> string \<times> string \<Rightarrow> native_host \<Rightarrow> (string \<times> string) \<times> native_host" where
  "capture_ollama [] found h = (found, h)"
| "capture_ollama (p # ps) found h =
     (if is_ollama p \<and> fst found = []
      then (case processPriority p h of (priority, h) \<Rightarrow> capture_ollama ps (pr_Executable p, priority) h)
      else capture_ollama ps found h)"

definition Native_Snapshot :: "tuning_config \<Rightarrow> native_host \<Rightarrow> hostSnapshot result \<times> native_host" where
  "Native_Snapshot c h =
     (case tuning_Validate c of
        Inl e \<Rightarrow> (Inl e, h)
      | Inr _ \<Rightarrow>
          (case os_step PowerGet h of
             (Some e, h) \<Rightarrow> (Inl e, h)
           | (None, h) \<Rightarrow>
               (case parseActivePowerScheme (nh_powerText h (nh_power h)) of
                  Inl e \<Rightarrow> (Inl e, h)
                | Inr scheme \<Rightarrow>
                    (case processes h of
                       (Inl e, h) \<Rightarrow> (Inl e, h)
                     | (Inr ps, h) \<Rightarrow>
                         (case nh_onAC h of
                            None \<Rightarrow> (Inl (ErrText ''could not determine AC/battery state''), h)
                          | Some onAC \<Rightarrow>
                              (case capture_ollama ps ('''', '''') h of
                                 ((executable, priority), h) \<Rightarrow>
                                   (let j = \<lparr>rj_SessionKind = ''provider'', rj_OwnerPID = nh_pid h, rj_ActivePowerScheme = scheme,
                                              rj_Executable = executable, rj_Priority = priority,
                                              rj_Environment = originalOllamaEnvironment (nh_environ h), rj_AppliedStages = []\<rparr>
                                    in (Inr \<lparr>hs_OnACPower = onAC, hs_Journal = j\<rparr>, h\<lparr>nh_snapshot := Some j\<rparr>))))))))"

section \<open>Changes\<close>

definition setProcessPriority :: "int \<Rightarrow> string \<Rightarrow> native_host \<Rightarrow> go_error option \<times> native_host" where
  "setProcessPriority pid priority h =
     (if priority \<notin> set [''Normal'', ''AboveNormal'', ''High''] then (Some (ErrText ''unsupported process priority''), h)
      else case os_step OpenProcess h of
        (Some e, h) \<Rightarrow> (Some e, h)
      | (None, h) \<Rightarrow>
          (case os_step SetPriorityClass h of
             (Some e, h) \<Rightarrow> (Some e, h)
           | (None, h) \<Rightarrow>
               (None, h\<lparr>nh_processes := map (\<lambda>p. if pr_PID p = pid then p\<lparr>pr_Priority := priority\<rparr> else p) (nh_processes h)\<rparr>)))"

fun set_priorities :: "os_process list \<Rightarrow> string \<Rightarrow> native_host \<Rightarrow> go_error option \<times> native_host" where
  "set_priorities [] priority h = (None, h)"
| "set_priorities (p # ps) priority h =
     (if is_ollama p
      then (case setProcessPriority (pr_PID p) priority h of (Some e, h) \<Rightarrow> (Some e, h) | (None, h) \<Rightarrow> set_priorities ps priority h)
      else set_priorities ps priority h)"

definition setRunningOllamaPriority :: "string \<Rightarrow> native_host \<Rightarrow> go_error option \<times> native_host" where
  "setRunningOllamaPriority priority h =
     (case processes h of (Inl e, h) \<Rightarrow> (Some e, h) | (Inr ps, h) \<Rightarrow> set_priorities ps priority h)"

fun kill_ollama :: "os_process list \<Rightarrow> native_host \<Rightarrow> native_host" where
  "kill_ollama [] h = h"
| "kill_ollama (p # ps) h =
     (if is_ollama p
      then (case os_step TaskKill h of
              (Some _, h) \<Rightarrow> kill_ollama ps h
            | (None, h) \<Rightarrow> kill_ollama ps (h\<lparr>nh_processes := filter (\<lambda>q. pr_PID q \<noteq> pr_PID p) (nh_processes h)\<rparr>))
      else kill_ollama ps h)"

definition start_process :: "string \<Rightarrow> (string \<times> string option) list \<Rightarrow> native_host \<Rightarrow> native_host" where
  "start_process executable environment h =
     h\<lparr>nh_processes := nh_processes h @ [\<lparr>pr_PID = nh_nextPID h, pr_Name = nh_image h executable, pr_Executable = executable,
         pr_Priority = ''Normal'', pr_Environ = mergeEnvironment (nh_environ h) environment\<rparr>], nh_nextPID := nh_nextPID h + 1\<rparr>"

definition restartOllama ::
  "string \<Rightarrow> (string \<times> string option) list \<Rightarrow> string \<Rightarrow> native_host \<Rightarrow> go_error option \<times> native_host" where
  "restartOllama executable environment priority h =
     (case processes h of
        (Inl e, h) \<Rightarrow> (Some e, h)
      | (Inr ps, h) \<Rightarrow>
          (case os_step StartProcess (kill_ollama ps h) of
             (Some e, h) \<Rightarrow> (Some e, h)
           | (None, h) \<Rightarrow>
               (if priority = [] then (None, start_process executable environment h)
                else setProcessPriority (nh_nextPID h) priority (start_process executable environment h))))"

definition startKeepAwake :: "native_host \<Rightarrow> go_error option \<times> native_host" where
  "startKeepAwake h =
     (if nh_awake h then (None, h)
      else case os_step ExecutionState h of (Some e, h) \<Rightarrow> (Some e, h) | (None, h) \<Rightarrow> (None, h\<lparr>nh_awake := True\<rparr>))"

definition stopKeepAwake :: "native_host \<Rightarrow> native_host" where
  "stopKeepAwake h = h\<lparr>nh_awake := False\<rparr>"

text \<open>\<^verbatim>\<open>powercfg /setactive\<close>: \<^verbatim>\<open>SCHEME_MIN\<close> names the scheme for high performance.\<close>

definition set_power :: "string \<Rightarrow> native_host \<Rightarrow> go_error option \<times> native_host" where
  "set_power scheme h =
     (case os_step PowerSet h of
        (Some e, h) \<Rightarrow> (Some e, h)
      | (None, h) \<Rightarrow> (None, h\<lparr>nh_power := if scheme = ''SCHEME_MIN'' then ''8c5e7fda-e8bf-4a96-9a85-a6e23a8c635c'' else scheme\<rparr>))"

definition snapshot_executable :: "native_host \<Rightarrow> string" where
  "snapshot_executable h = (case nh_snapshot h of None \<Rightarrow> '''' | Some j \<Rightarrow> rj_Executable j)"

definition Native_Apply :: "tuning_operation \<Rightarrow> native_host \<Rightarrow> go_error option \<times> native_host" where
  "Native_Apply op h =
     (case op_Kind op of
        OperationPowerPlan \<Rightarrow> set_power (last (op_Args op)) h
      | OperationKeepAwake \<Rightarrow> startKeepAwake h
      | OperationOllamaEnvironment \<Rightarrow>
          (if snapshot_executable h = [] then (None, h)
           else restartOllama (snapshot_executable h) (environmentValues (op_Environment op)) '''' h)
      | OperationProcessPriority \<Rightarrow> setRunningOllamaPriority (op_Priority op) h)"

section \<open>Restoration\<close>

record restored =
  rs_ollama :: bool
  rs_awake :: bool
  rs_power :: bool

fun restore_stages :: "recoveryJournal \<Rightarrow> string list \<Rightarrow> restored \<Rightarrow> native_host \<Rightarrow> go_error option \<times> native_host" where
  "restore_stages j [] d h = (None, h)"
| "restore_stages j (stage # stages) d h =
     (if (stage = ''process-priority'' \<or> stage = ''ollama-environment'') \<and> \<not> rs_ollama d
      then (if rj_Executable j \<noteq> []
            then (case restartOllama (rj_Executable j) (rj_Environment j) (rj_Priority j) h of
                    (Some e, h) \<Rightarrow> (Some e, h) | (None, h) \<Rightarrow> restore_stages j stages (d\<lparr>rs_ollama := True\<rparr>) h)
            else restore_stages j stages (d\<lparr>rs_ollama := True\<rparr>) h)
      else if stage = ''keep-awake'' \<and> \<not> rs_awake d
      then restore_stages j stages (d\<lparr>rs_awake := True\<rparr>) (stopKeepAwake h)
      else if stage = ''power-plan'' \<and> \<not> rs_power d
      then (case set_power (rj_ActivePowerScheme j) h of
              (Some e, h) \<Rightarrow> (Some e, h) | (None, h) \<Rightarrow> restore_stages j stages (d\<lparr>rs_power := True\<rparr>) h)
      else restore_stages j stages d h)"

definition Native_Restore :: "recoveryJournal \<Rightarrow> native_host \<Rightarrow> go_error option \<times> native_host" where
  "Native_Restore j h = restore_stages j (RollbackStages j) \<lparr>rs_ollama = False, rs_awake = False, rs_power = False\<rparr> h"

definition NewNativeRunner :: "native_host optimizationRunner" where
  "NewNativeRunner = \<lparr>or_Snapshot = Native_Snapshot, or_Apply = Native_Apply, or_Restore = Native_Restore\<rparr>"

section \<open>Facts about environments\<close>

lemma env_name_item [simp]: "CHR ''='' \<notin> set name \<Longrightarrow> env_name (env_item name x) = name"
  by (simp add: env_name_def env_item_def takeWhile_append)

lemma env_value_item [simp]: "drop (Suc (length name)) (env_item name x) = x"
  by (simp add: env_item_def)

lemma appended_items:
  assumes "distinct (map fst env)" "\<And>name v. (name, v) \<in> set env \<Longrightarrow> to_upper name = name \<and> CHR ''='' \<notin> set name"
  shows "filter (\<lambda>i. to_upper (env_name i) = m) (concat (map (\<lambda>(name, v). case v of None \<Rightarrow> [] | Some x \<Rightarrow> [env_item name x]) env))
    = (case map_of env m of Some (Some x) \<Rightarrow> [env_item m x] | _ \<Rightarrow> [])"
  using assms
proof (induction env)
  case (Cons e env)
  obtain name v where e: "e = (name, v)" by fastforce
  have n: "to_upper name = name" "CHR ''='' \<notin> set name" using Cons.prems(2) [of name v] e by auto
  have IH: "filter (\<lambda>i. to_upper (env_name i) = m) (concat (map (\<lambda>(name, v). case v of None \<Rightarrow> [] | Some x \<Rightarrow> [env_item name x]) env))
    = (case map_of env m of Some (Some x) \<Rightarrow> [env_item m x] | _ \<Rightarrow> [])"
    by (rule Cons.IH) (use Cons.prems in auto)
  have "m = name \<Longrightarrow> map_of env m = None" using Cons.prems(1) e by (auto simp: map_of_eq_None_iff)
  then show ?case using e n IH by (auto split: option.splits)
qed simp

lemma ollama_variables_plain:
  "distinct ollama_variables" "name \<in> set ollama_variables \<Longrightarrow> to_upper name = name \<and> CHR ''='' \<notin> set name"
  by (auto simp: ollama_variables_def to_upper_def upper_char_def less_eq_char_def)

text \<open>A merged environment has the given values for the variables of Ollama.\<close>

lemma lookup_merged:
  assumes "map fst env = ollama_variables" "name \<in> set ollama_variables"
  shows "lookupEnv name (mergeEnvironment base env) = the (map_of env name)"
proof -
  have some: "map_of env name \<noteq> None" using assms by (metis map_of_eq_None_iff list.set_map)
  then have "filter (\<lambda>i. to_upper (env_name i) = name) (filter (\<lambda>item. map_of env (to_upper (env_name item)) = None) base) = []"
    by (auto simp: filter_empty_conv)
  moreover have "filter (\<lambda>i. to_upper (env_name i) = name) (concat (map (\<lambda>(name, v). case v of None \<Rightarrow> [] | Some x \<Rightarrow> [env_item name x]) env))
    = (case map_of env name of Some (Some x) \<Rightarrow> [env_item name x] | _ \<Rightarrow> [])"
  proof (rule appended_items)
    show "distinct (map fst env)" using assms(1) ollama_variables_plain(1) by simp
    show "to_upper n = n \<and> CHR ''='' \<notin> set n" if "(n, v) \<in> set env" for n v
      using that assms(1) ollama_variables_plain(2) [of n] by (metis fst_conv image_eqI list.set_map)
  qed
  ultimately show ?thesis using some ollama_variables_plain(2) [OF assms(2)]
    by (auto simp: lookupEnv_def mergeEnvironment_def simp del: filter_filter split: option.split)
qed

section \<open>Facts about processes\<close>

definition priorities :: "string list" where
  "priorities = [''Normal'', ''AboveNormal'', ''High'']"

definition reliable :: "native_host \<Rightarrow> bool" where
  "reliable h \<longleftrightarrow> (\<forall>n. \<not> nh_fails h TaskKill n \<and> \<not> nh_fails h StartProcess n \<and> \<not> nh_fails h OpenProcess n \<and> \<not> nh_fails h SetPriorityClass n)"

definition native_sane :: "native_host \<Rightarrow> bool" where
  "native_sane h \<longleftrightarrow> reliable h \<and> 0 < nh_nextPID h \<and>
     (\<forall>p \<in> set (nh_processes h). pr_PID p < nh_nextPID h \<and> (is_ollama p \<longrightarrow> 0 < pr_PID p))"

lemma ollama_name_Nil [simp]: "\<not> ollama_name []"
  by code_simp

lemma listed_ollama: "native_sane h \<Longrightarrow> filter is_ollama (parseProcessSnapshots (nh_processes h)) = filter is_ollama (nh_processes h)"
  by (auto simp: parseProcessSnapshots_def native_sane_def intro!: filter_cong)

lemma kill_ollama_reliable:
  assumes "reliable h"
  shows "\<exists>n. kill_ollama ps h
    = h\<lparr>nh_processes := filter (\<lambda>q. pr_PID q \<notin> pr_PID ` set (filter is_ollama ps)) (nh_processes h), nh_calls := n\<rparr>"
  using assms
proof (induction ps arbitrary: h)
  case Nil
  then show ?case by (auto intro: exI [of _ "nh_calls h"])
next
  case (Cons p ps)
  show ?case
  proof (cases "is_ollama p")
    case True
    let ?h = "h\<lparr>nh_calls := nh_calls h + 1, nh_processes := filter (\<lambda>q. pr_PID q \<noteq> pr_PID p) (nh_processes h)\<rparr>"
    have "reliable ?h" using Cons.prems by (simp add: reliable_def)
    from Cons.IH [OF this] obtain n where "kill_ollama ps ?h
      = ?h\<lparr>nh_processes := filter (\<lambda>q. pr_PID q \<notin> pr_PID ` set (filter is_ollama ps)) (nh_processes ?h), nh_calls := n\<rparr>" by blast
    moreover have "kill_ollama (p # ps) h = kill_ollama ps ?h"
      using True Cons.prems by (simp add: os_step_def reliable_def)
    ultimately show ?thesis using True by (intro exI [of _ n]) (simp add: conj_commute)
  qed (use Cons in simp)
qed

text \<open>A restart that is reported to fail has changed nothing, otherwise one new process of Ollama runs.\<close>

lemma restartOllama_cases:
  assumes "native_sane h" "ollama_name (nh_image h exe)" "prio = [] \<or> prio \<in> set priorities" "restartOllama exe env prio h = (e, h')"
  obtains (failed) n where "e \<noteq> None" "h' = h\<lparr>nh_calls := n\<rparr>"
  | (restarted) n p qs where "e = None" "pr_Executable p = exe" "pr_Priority p = (if prio = [] then ''Normal'' else prio)"
      "pr_Environ p = mergeEnvironment (nh_environ h) env" "is_ollama p" "\<forall>q \<in> set qs. \<not> is_ollama q" "native_sane h'"
      "h' = h\<lparr>nh_processes := qs @ [p], nh_nextPID := nh_nextPID h + 1, nh_calls := n\<rparr>"
proof (cases "nh_fails h ListProcesses (nh_calls h)")
  case True
  then have "e \<noteq> None \<and> h' = h\<lparr>nh_calls := nh_calls h + 1\<rparr>" using assms(4) by (auto simp: restartOllama_def processes_def os_step_def)
  then show ?thesis using failed by blast
next
  case False
  let ?h = "h\<lparr>nh_calls := nh_calls h + 1\<rparr>"
  let ?ps = "parseProcessSnapshots (nh_processes h)"
  have "reliable ?h" using assms(1) by (simp add: native_sane_def reliable_def)
  from kill_ollama_reliable [OF this, of ?ps] obtain n qs where k: "kill_ollama ?ps ?h = h\<lparr>nh_processes := qs, nh_calls := n\<rparr>"
    and "qs = filter (\<lambda>q. pr_PID q \<notin> pr_PID ` set (filter is_ollama ?ps)) (nh_processes h)" by auto
  then have none: "\<forall>q \<in> set qs. \<not> is_ollama q" and small: "\<forall>q \<in> set qs. pr_PID q < nh_nextPID h"
    using listed_ollama [OF assms(1)] assms(1) by (auto simp: native_sane_def)
  let ?p = "\<lparr>pr_PID = nh_nextPID h, pr_Name = nh_image h exe, pr_Executable = exe, pr_Priority = ''Normal'',
    pr_Environ = mergeEnvironment (nh_environ h) env\<rparr>"
  have rel: "\<not> nh_fails h StartProcess m" "\<not> nh_fails h OpenProcess m" "\<not> nh_fails h SetPriorityClass m" for m
    using assms(1) by (simp_all add: native_sane_def reliable_def)
  have same: "map (\<lambda>p. if pr_PID p = nh_nextPID h then p\<lparr>pr_Priority := x\<rparr> else p) qs = qs" for x
    using small by (intro map_idI) auto
  let ?p' = "if prio = [] then ?p else ?p\<lparr>pr_Priority := prio\<rparr>"
  let ?s = "h\<lparr>nh_calls := n + 1, nh_processes := qs @ [?p], nh_nextPID := nh_nextPID h + 1\<rparr>"
  have "restartOllama exe env prio h = (if prio = [] then (None, ?s) else setProcessPriority (nh_nextPID h) prio ?s)"
    using False k rel by (simp add: restartOllama_def processes_def os_step_def start_process_def)
  moreover have "setProcessPriority (nh_nextPID h) prio ?s = (None, ?s\<lparr>nh_processes := qs @ [?p\<lparr>pr_Priority := prio\<rparr>], nh_calls := n + 3\<rparr>)"
    if "prio \<in> set priorities"
    using that rel same [of prio] by (auto simp: setProcessPriority_def os_step_def priorities_def)
  ultimately have "restartOllama exe env prio h
    = (None, h\<lparr>nh_processes := qs @ [?p'], nh_nextPID := nh_nextPID h + 1, nh_calls := if prio = [] then n + 1 else n + 3\<rparr>)"
    using assms(3) by (cases "prio = []") simp_all
  then obtain m where h': "e = None" "h' = h\<lparr>nh_processes := qs @ [?p'], nh_nextPID := nh_nextPID h + 1, nh_calls := m\<rparr>"
    using assms(4) by (metis prod.inject)
  moreover from this have "native_sane h'" using assms(1,2) small none by (auto simp: native_sane_def reliable_def)
  ultimately show ?thesis using assms(2) none by (intro restarted [of ?p' qs m]) auto
qed

section \<open>The runner keeps its promise\<close>

definition ollama_as :: "recoveryJournal \<Rightarrow> native_host \<Rightarrow> bool" where
  "ollama_as j h \<longleftrightarrow>
     (if rj_Executable j = [] then filter is_ollama (nh_processes h) = []
      else \<exists>p. filter is_ollama (nh_processes h) = [p] \<and> pr_Executable p = rj_Executable j \<and> pr_Priority p = rj_Priority j \<and>
        (\<forall>name \<in> set ollama_variables. lookupEnv name (pr_Environ p) = the (map_of (rj_Environment j) name)))"

definition journal_fits :: "recoveryJournal \<Rightarrow> native_host \<Rightarrow> bool" where
  "journal_fits j h \<longleftrightarrow> snapshot_executable h = rj_Executable j \<and> rj_ActivePowerScheme j \<noteq> ''SCHEME_MIN'' \<and>
     (if rj_Executable j = [] then filter is_ollama (nh_processes h) = []
      else ollama_name (nh_image h (rj_Executable j)) \<and> rj_Priority j \<in> set priorities \<and> map fst (rj_Environment j) = ollama_variables)"

definition native_recoverable :: "recoveryJournal \<Rightarrow> string set \<Rightarrow> native_host \<Rightarrow> bool" where
  "native_recoverable j S h \<longleftrightarrow> journal_fits j h \<and>
     (nh_power h = rj_ActivePowerScheme j \<or> ''power-plan'' \<in> S) \<and> (\<not> nh_awake h \<or> ''keep-awake'' \<in> S) \<and>
     (ollama_as j h \<or> ''ollama-environment'' \<in> S \<or> ''process-priority'' \<in> S)"

lemmas recoverable_defs = native_recoverable_def journal_fits_def ollama_as_def snapshot_executable_def

lemma settings_independent [simp]:
  "ollama_as j (h\<lparr>nh_awake := b\<rparr>) = ollama_as j h" "journal_fits j (h\<lparr>nh_awake := b\<rparr>) = journal_fits j h"
  "ollama_as j (h\<lparr>nh_power := s\<rparr>) = ollama_as j h" "journal_fits j (h\<lparr>nh_power := s\<rparr>) = journal_fits j h"
  "ollama_as j (h\<lparr>nh_calls := n\<rparr>) = ollama_as j h" "journal_fits j (h\<lparr>nh_calls := n\<rparr>) = journal_fits j h"
  by (simp_all add: ollama_as_def journal_fits_def snapshot_executable_def)

lemma journal_fits_scheme: "journal_fits j h \<Longrightarrow> rj_ActivePowerScheme j \<noteq> ''SCHEME_MIN''"
  by (simp add: journal_fits_def)

lemma native_recoverable_mono: "native_recoverable j S h \<Longrightarrow> S \<subseteq> T \<Longrightarrow> native_recoverable j T h"
  by (auto simp: native_recoverable_def)

lemma recoverable_calls [simp]: "native_recoverable j S (h\<lparr>nh_calls := n\<rparr>) = native_recoverable j S h"
  by (simp add: recoverable_defs)

lemma sane_calls [simp]: "native_sane (h\<lparr>nh_calls := n\<rparr>) = native_sane h"
  by (simp add: native_sane_def reliable_def)

lemma set_power_cases:
  assumes "set_power scheme h = (e, h')" "native_sane h"
  shows "native_sane h'" "e \<noteq> None \<Longrightarrow> \<exists>n. h' = h\<lparr>nh_calls := n\<rparr>"
    "e = None \<Longrightarrow> \<exists>n. h' = h\<lparr>nh_calls := n, nh_power := if scheme = ''SCHEME_MIN'' then ''8c5e7fda-e8bf-4a96-9a85-a6e23a8c635c'' else scheme\<rparr>"
  using assms by (auto simp: set_power_def os_step_def native_sane_def reliable_def split: if_splits)

text \<open>A restart with the journal's settings brings Ollama back.\<close>

lemma restart_restores:
  assumes "native_sane h" "native_recoverable j S h" "rj_Executable j \<noteq> []"
    and "restartOllama (rj_Executable j) (rj_Environment j) (rj_Priority j) h = (e, h')"
  shows "native_sane h'" "native_recoverable j S h'"
    "e = None \<Longrightarrow> native_recoverable j (S - {''ollama-environment'', ''process-priority''}) h'"
proof -
  have fits: "ollama_name (nh_image h (rj_Executable j))" "rj_Priority j \<in> set priorities" "map fst (rj_Environment j) = ollama_variables"
    using assms(2,3) by (auto simp: recoverable_defs)
  have "rj_Priority j = [] \<or> rj_Priority j \<in> set priorities" using fits(2) by simp
  from assms(1) fits(1) this assms(4) have "native_sane h' \<and> native_recoverable j S h' \<and>
      (e = None \<longrightarrow> native_recoverable j (S - {''ollama-environment'', ''process-priority''}) h')"
  proof (cases rule: restartOllama_cases)
    case (restarted n p qs)
    have "ollama_as j h'" using restarted assms(3) fits lookup_merged [OF fits(3)] by (simp add: ollama_as_def priorities_def split: if_splits)
    moreover have "journal_fits j h'" using restarted assms(2,3) by (simp add: recoverable_defs)
    ultimately show ?thesis using restarted assms(2) by (simp add: native_recoverable_def)
  qed (use assms fits in auto)
  then show "native_sane h'" "native_recoverable j S h'"
    "e = None \<Longrightarrow> native_recoverable j (S - {''ollama-environment'', ''process-priority''}) h'" by auto
qed

definition restored_by :: "restored \<Rightarrow> string set" where
  "restored_by d = (if rs_ollama d then {''ollama-environment'', ''process-priority''} else {})
     \<union> (if rs_awake d then {''keep-awake''} else {}) \<union> (if rs_power d then {''power-plan''} else {})"

lemma restored_by_iff:
  "stage \<in> restored_by d \<longleftrightarrow> rs_ollama d \<and> (stage = ''process-priority'' \<or> stage = ''ollama-environment'')
     \<or> rs_awake d \<and> stage = ''keep-awake'' \<or> rs_power d \<and> stage = ''power-plan''"
  by (auto simp: restored_by_def)

lemma restore_stages_keeps:
  assumes "restore_stages j stages d h = (e, h')" "native_sane h" "native_recoverable j T h" "T \<inter> restored_by d = {}"
  shows "native_sane h' \<and> native_recoverable j T h' \<and> (e = None \<longrightarrow> native_recoverable j (T - set stages) h')"
  using assms
proof (induction stages arbitrary: d h T)
  case (Cons stage stages)
  have step: ?case
    if "restore_stages j stages d1 h1 = (e, h')" "native_sane h1" "native_recoverable j T1 h1" "T1 \<inter> restored_by d1 = {}"
      "T1 \<subseteq> T" "T1 - set stages \<subseteq> T - set (stage # stages)" for d1 h1 T1
    using Cons.IH [OF that(1-4)] that(5,6) native_recoverable_mono by blast
  have failed: ?case if "native_sane h'" "native_recoverable j T h'" "e \<noteq> None" using that by auto
  consider (ollama) "stage = ''process-priority'' \<or> stage = ''ollama-environment''" "\<not> rs_ollama d" "rj_Executable j \<noteq> []"
    | (no_ollama) "stage = ''process-priority'' \<or> stage = ''ollama-environment''" "\<not> rs_ollama d" "rj_Executable j = []"
    | (awake) "stage = ''keep-awake''" "\<not> rs_awake d"
    | (power) "stage = ''power-plan''" "\<not> rs_power d"
    | (known) "stage \<in> restored_by d"
    | (unknown) "stage \<notin> set [''process-priority'', ''ollama-environment'', ''keep-awake'', ''power-plan'']"
    by (simp add: restored_by_iff) blast
  then show ?case
  proof cases
    case ollama
    obtain e1 h1 where r: "restartOllama (rj_Executable j) (rj_Environment j) (rj_Priority j) h = (e1, h1)" by fastforce
    note rr = restart_restores [OF Cons.prems(2,3) ollama(3) r]
    show ?thesis
    proof (cases e1)
      case None
      show ?thesis
        using None rr(3) ollama r Cons.prems(1,4)
        by (intro step [of "d\<lparr>rs_ollama := True\<rparr>" h1 "T - {''ollama-environment'', ''process-priority''}"] rr(1)) (auto simp: restored_by_def)
    next
      case (Some x)
      then show ?thesis using ollama r Cons.prems(1) rr by (intro failed) auto
    qed
  next
    case no_ollama
    then have "native_recoverable j (T - {''ollama-environment'', ''process-priority''}) h"
      using Cons.prems(3) by (simp add: recoverable_defs)
    then show ?thesis using no_ollama Cons.prems(1,2,4)
      by (intro step [of "d\<lparr>rs_ollama := True\<rparr>" h "T - {''ollama-environment'', ''process-priority''}"]) (auto simp: restored_by_def)
  next
    case awake
    have "native_recoverable j (T - {''keep-awake''}) (stopKeepAwake h)"
      using Cons.prems(3) by (simp add: native_recoverable_def stopKeepAwake_def)
    then show ?thesis using awake Cons.prems(1,2,4)
      by (intro step [of "d\<lparr>rs_awake := True\<rparr>" "stopKeepAwake h" "T - {''keep-awake''}"])
        (auto simp: restored_by_def stopKeepAwake_def native_sane_def reliable_def)
  next
    case power
    obtain e1 h1 where r: "set_power (rj_ActivePowerScheme j) h = (e1, h1)" by fastforce
    note p = set_power_cases [OF r Cons.prems(2)]
    show ?thesis
    proof (cases e1)
      case None
      have "native_recoverable j (T - {''power-plan''}) h1" using p(3) [OF None] Cons.prems(3) by (auto simp: native_recoverable_def dest: journal_fits_scheme)
      then show ?thesis using power None r Cons.prems(1,4) p(1)
        by (intro step [of "d\<lparr>rs_power := True\<rparr>" h1 "T - {''power-plan''}"]) (auto simp: restored_by_def)
    next
      case (Some x)
      then have "native_recoverable j T h1" using p(2) Cons.prems(3) by auto
      then show ?thesis using power r Some Cons.prems(1) p(1) by (intro failed) auto
    qed
  next
    case known
    then have "restore_stages j stages d h = (e, h')" using Cons.prems(1) by (auto simp: restored_by_def split: if_splits)
    then show ?thesis using Cons.prems known by (intro step [of d h T]) auto
  next
    case unknown
    then have r: "restore_stages j stages d h = (e, h')" using Cons.prems(1) by auto
    have "native_recoverable j (T - set stages - {stage}) h' \<longleftrightarrow> native_recoverable j (T - set stages) h'"
      using unknown by (auto simp: native_recoverable_def)
    then show ?thesis using Cons.IH [OF r Cons.prems(2-4)] by (metis Diff_insert list.simps(15))
  qed
qed simp

text \<open>Changing priorities leaves the processes in place.\<close>

definition proc_key :: "os_process \<Rightarrow> int \<times> string" where
  "proc_key p = (pr_PID p, pr_Name p)"

definition same_processes :: "native_host \<Rightarrow> native_host \<Rightarrow> bool" where
  "same_processes h h' \<longleftrightarrow> map proc_key (nh_processes h') = map proc_key (nh_processes h) \<and> nh_power h' = nh_power h \<and>
     nh_awake h' = nh_awake h \<and> nh_image h' = nh_image h \<and> nh_snapshot h' = nh_snapshot h \<and> nh_fails h' = nh_fails h \<and>
     nh_nextPID h' = nh_nextPID h"

lemma same_processes_refl: "same_processes h (h\<lparr>nh_calls := n\<rparr>)"
  by (simp add: same_processes_def)

lemma same_processes_trans: "same_processes h h1 \<Longrightarrow> same_processes h1 h2 \<Longrightarrow> same_processes h h2"
  by (simp add: same_processes_def)

lemma no_ollama_keys: "filter is_ollama ps = [] \<longleftrightarrow> (\<forall>k \<in> set (map proc_key ps). \<not> ollama_name (snd k))"
  by (simp add: filter_empty_conv proc_key_def)

lemma native_sane_keys:
  "native_sane h \<longleftrightarrow> reliable h \<and> 0 < nh_nextPID h \<and>
     (\<forall>k \<in> set (map proc_key (nh_processes h)). fst k < nh_nextPID h \<and> (ollama_name (snd k) \<longrightarrow> 0 < fst k))"
  by (simp add: native_sane_def proc_key_def)

lemma same_processes_sane: "same_processes h h' \<Longrightarrow> native_sane h \<Longrightarrow> native_sane h'"
  unfolding native_sane_keys by (simp add: same_processes_def reliable_def)

lemma same_processes_fits: "same_processes h h' \<Longrightarrow> journal_fits j h \<Longrightarrow> journal_fits j h'"
  unfolding journal_fits_def no_ollama_keys by (simp add: same_processes_def snapshot_executable_def)

lemma setProcessPriority_reliable:
  assumes "reliable h" "setProcessPriority pid priority h = (e, h')"
  shows "same_processes h h'" "reliable h'" "priority \<in> set priorities \<Longrightarrow> e = None"
    "priority \<notin> set priorities \<Longrightarrow> e \<noteq> None \<and> h' = h"
  using assms
  by (auto simp: setProcessPriority_def os_step_def reliable_def priorities_def same_processes_def proc_key_def split: if_splits)

lemma set_priorities_reliable:
  assumes "reliable h" "set_priorities ps priority h = (e, h')"
  shows "same_processes h h' \<and> (e \<noteq> None \<longrightarrow> h' = h)"
  using assms
proof (induction ps arbitrary: h)
  case Nil
  then show ?case using same_processes_refl [of h "nh_calls h"] by simp
next
  case (Cons p ps)
  obtain e1 h1 where s: "setProcessPriority (pr_PID p) priority h = (e1, h1)" by fastforce
  note sp = setProcessPriority_reliable [OF Cons.prems(1) s]
  show ?case
  proof (cases "is_ollama p")
    case True
    show ?thesis
    proof (cases "priority \<in> set priorities")
      case ok: True
      then have rest: "set_priorities ps priority h1 = (e, h')" using True s sp(3) Cons.prems(2) by simp
      moreover have "set_priorities qs priority k = (x, k') \<Longrightarrow> reliable k \<Longrightarrow> x = None" for qs k x k'
        using ok
      proof (induction qs arbitrary: k)
        case (Cons q qs)
        obtain e2 k2 where "setProcessPriority (pr_PID q) priority k = (e2, k2)" by fastforce
        then show ?case using Cons setProcessPriority_reliable [of k "pr_PID q" priority e2 k2] by (auto split: if_splits)
      qed simp
      ultimately show ?thesis using Cons.IH [OF sp(2) rest] sp(1,2) same_processes_trans by blast
    next
      case False
      then show ?thesis using True s sp Cons.prems(2) by (auto split: option.splits)
    qed
  qed (use Cons in simp)
qed

lemma apply_keeps_recoverable:
  assumes "native_sane h" "op \<in> set (planned c)" "Native_Apply op h = (e, h')" "native_recoverable j S h"
  shows "native_sane h' \<and> native_recoverable j (if e = None then insert (op_Stage op) S else S) h'"
proof (cases "op_Kind op")
  case OperationPowerPlan
  note r = set_power_cases [of "last (op_Args op)" h e h']
  show ?thesis
    using OperationPowerPlan assms(1,3,4) planned_stage [OF assms(2)] r
    by (cases e) (auto simp: Native_Apply_def native_recoverable_def)
next
  case OperationKeepAwake
  then show ?thesis using assms planned_stage [OF assms(2)]
    by (auto simp: Native_Apply_def startKeepAwake_def os_step_def native_recoverable_def native_sane_def reliable_def split: if_splits)
next
  case OperationOllamaEnvironment
  show ?thesis
  proof (cases "snapshot_executable h = []")
    case True
    then show ?thesis using assms OperationOllamaEnvironment native_recoverable_mono [OF assms(4)]
      by (auto simp: Native_Apply_def split: if_splits)
  next
    case False
    then have exe: "snapshot_executable h = rj_Executable j" "rj_Executable j \<noteq> []" "ollama_name (nh_image h (rj_Executable j))"
      using assms(4) by (auto simp: native_recoverable_def journal_fits_def)
    from False OperationOllamaEnvironment assms(3)
    have r: "restartOllama (rj_Executable j) (environmentValues (op_Environment op)) '''' h = (e, h')"
      by (simp add: Native_Apply_def exe(1))
    have "'''' = [] \<or> '''' \<in> set priorities" by simp
    from assms(1) exe(3) this r show ?thesis
    proof (cases rule: restartOllama_cases)
      case (restarted n p qs)
      then have "journal_fits j h'" using assms(4) exe(2) by (simp add: native_recoverable_def journal_fits_def snapshot_executable_def)
      then show ?thesis using restarted assms(4) OperationOllamaEnvironment planned_stage [OF assms(2)]
        by (simp add: native_recoverable_def)
    qed (use assms in auto)
  qed
next
  case OperationProcessPriority
  then have "setRunningOllamaPriority (op_Priority op) h = (e, h')" using assms(3) by (simp add: Native_Apply_def)
  then consider (unlisted) n where "e \<noteq> None" "h' = h\<lparr>nh_calls := n\<rparr>"
    | (listed) n where "set_priorities (parseProcessSnapshots (nh_processes h)) (op_Priority op) (h\<lparr>nh_calls := n\<rparr>) = (e, h')"
    by (auto simp: setRunningOllamaPriority_def processes_def os_step_def split: if_splits)
  then show ?thesis
  proof cases
    case listed
    have "reliable (h\<lparr>nh_calls := n\<rparr>)" using assms(1) by (simp add: native_sane_def reliable_def)
    note s = set_priorities_reliable [OF this listed]
    then have same: "same_processes h h'" using same_processes_refl same_processes_trans by blast
    then have "journal_fits j h'" "nh_power h' = nh_power h" "nh_awake h' = nh_awake h"
      using assms(4) same_processes_fits [OF same] by (simp_all add: same_processes_def native_recoverable_def)
    then show ?thesis using s same_processes_sane [OF same assms(1)] assms(1,4) OperationProcessPriority planned_stage [OF assms(2)]
      by (cases e) (auto simp: native_recoverable_def)
  qed (use assms in auto)
qed

text \<open>A host that has not been tuned, with at most one Ollama, which has the program's settings for its variables.\<close>

definition native_pristine :: "native_host \<Rightarrow> bool" where
  "native_pristine h \<longleftrightarrow> native_sane h \<and> \<not> nh_awake h \<and> parseActivePowerScheme (nh_powerText h (nh_power h)) = Inr (nh_power h) \<and>
     (case filter is_ollama (nh_processes h) of
        [] \<Rightarrow> True
      | [p] \<Rightarrow> pr_Executable p \<noteq> [] \<and> ollama_name (nh_image h (pr_Executable p)) \<and> pr_Priority p \<in> set priorities \<and>
          list_all (\<lambda>name. lookupEnv name (pr_Environ p) = lookupEnv name (nh_environ h)) ollama_variables
      | _ \<Rightarrow> False)"

lemma scheme_length: "parseActivePowerScheme s = Inr g \<Longrightarrow> length g = 36"
proof -
  have "first_guid s \<noteq> [] \<Longrightarrow> length (first_guid s) = 36"
  proof (induction s)
    case (Cons c cs)
    moreover have "guid_at (c # cs) \<Longrightarrow> 36 \<le> length (c # cs)" by (simp only: guid_at_def)
    ultimately show ?case by (cases "guid_at (c # cs)") simp_all
  qed simp
  then show "parseActivePowerScheme s = Inr g \<Longrightarrow> length g = 36"
    by (auto simp: parseActivePowerScheme_def Let_def to_lower_def split: if_splits)
qed

lemma capture_none: "filter is_ollama ps = [] \<Longrightarrow> capture_ollama ps found h = (found, h)"
  by (induction ps) (auto split: if_splits)

lemma capture_one:
  "filter is_ollama ps = [p] \<Longrightarrow>
   capture_ollama ps ([], x) h = (case processPriority p h of (priority, h') \<Rightarrow> ((pr_Executable p, priority), h'))"
  by (induction ps) (auto simp: capture_none split: if_splits prod.splits)

lemma originalEnvironment_lookup:
  "name \<in> set ollama_variables \<Longrightarrow> map_of (originalOllamaEnvironment environ) name = Some (lookupEnv name environ)"
  by (simp add: originalOllamaEnvironment_def map_of_map_restrict)

lemma snapshot_fresh_native:
  assumes "native_pristine h" "Native_Snapshot c h = (r, h')"
  shows "native_sane h' \<and> (\<forall>s. r = Inr s \<longrightarrow> rj_AppliedStages (hs_Journal s) = [] \<and> native_recoverable (hs_Journal s) {} h')"
proof (cases r)
  case (Inl e)
  have "native_sane h'" using assms Inl
    by (auto simp: Native_Snapshot_def os_step_def processes_def native_pristine_def Let_def split: sum.splits if_splits option.splits prod.splits)
  then show ?thesis using Inl by simp
next
  case (Inr s)
  let ?ps = "filter is_ollama (nh_processes h)"
  have sane: "native_sane h" "\<not> nh_awake h" "parseActivePowerScheme (nh_powerText h (nh_power h)) = Inr (nh_power h)"
    using assms(1) by (auto simp: native_pristine_def)
  obtain found h1 n where cap: "capture_ollama (parseProcessSnapshots (nh_processes h)) ([], []) (h\<lparr>nh_calls := n\<rparr>) = (found, h1)"
    and h': "h' = h1\<lparr>nh_snapshot := Some (hs_Journal s)\<rparr>"
    and j: "hs_Journal s = \<lparr>rj_SessionKind = ''provider'', rj_OwnerPID = nh_pid h1, rj_ActivePowerScheme = nh_power h,
      rj_Executable = fst found, rj_Priority = snd found, rj_Environment = originalOllamaEnvironment (nh_environ h1), rj_AppliedStages = []\<rparr>"
    using assms(2) Inr sane(3)
    by (auto simp: Native_Snapshot_def os_step_def processes_def Let_def split: sum.splits if_splits option.splits prod.splits)
  have listed: "filter is_ollama (parseProcessSnapshots (nh_processes h)) = ?ps" using listed_ollama [OF sane(1)] .
  have scheme: "nh_power h \<noteq> ''SCHEME_MIN''" using scheme_length [OF sane(3)] by auto
  have env: "map fst (originalOllamaEnvironment e) = ollama_variables" for e by (simp add: originalOllamaEnvironment_def comp_def)
  consider (none) "?ps = []"
    | (one) p where "?ps = [p]" "pr_Executable p \<noteq> []" "ollama_name (nh_image h (pr_Executable p))" "pr_Priority p \<in> set priorities"
        "\<forall>name \<in> set ollama_variables. lookupEnv name (pr_Environ p) = lookupEnv name (nh_environ h)"
    using assms(1) by (auto simp: native_pristine_def list_all_iff split: list.splits)
  then show ?thesis
  proof cases
    case none
    then have "found = ([], [])" "h1 = h\<lparr>nh_calls := n\<rparr>" using cap listed capture_none by auto
    then show ?thesis using Inr h' j none sane scheme
      by (simp add: recoverable_defs native_sane_def reliable_def)
  next
    case (one p)
    have "nh_fails h OpenProcess n = False" using sane(1) by (simp add: native_sane_def reliable_def)
    then have "processPriority p (h\<lparr>nh_calls := n\<rparr>) = (pr_Priority p, h\<lparr>nh_calls := n + 1\<rparr>)"
      using one(4) by (auto simp: processPriority_def os_step_def priorities_def)
    then have "found = (pr_Executable p, pr_Priority p)" "h1 = h\<lparr>nh_calls := n + 1\<rparr>"
      using cap capture_one [of "parseProcessSnapshots (nh_processes h)" p "[]" "h\<lparr>nh_calls := n\<rparr>"] listed one(1) by auto
    then show ?thesis using Inr h' j one sane scheme env
      by (simp add: recoverable_defs native_sane_def reliable_def originalEnvironment_lookup)
  qed
qed

interpretation windows: optimization_runner NewNativeRunner native_pristine native_sane native_recoverable
proof
  show "native_sane h' \<and> (\<forall>s. r = Inr s \<longrightarrow> rj_AppliedStages (hs_Journal s) = [] \<and> native_recoverable (hs_Journal s) {} h')"
    if "native_pristine h" "or_Snapshot NewNativeRunner c h = (r, h')" for h c r h'
    using that by (intro snapshot_fresh_native [of h c]) (simp_all add: NewNativeRunner_def)
  show "native_sane h' \<and> native_recoverable j (if e = None then insert (op_Stage op) S else S) h'"
    if "native_sane h" "op \<in> set (planned c)" "or_Apply NewNativeRunner op h = (e, h')" "native_recoverable j S h" for h op c e h' j S
    using that by (intro apply_keeps_recoverable [of h op c]) (simp_all add: NewNativeRunner_def)
  show "native_sane h' \<and> native_recoverable j S h' \<and> (e = None \<longrightarrow> S \<subseteq> set (rj_AppliedStages j) \<longrightarrow> native_recoverable j {} h')"
    if "native_sane h" "or_Restore NewNativeRunner j h = (e, h')" "native_recoverable j S h" for h j e h' S
  proof -
    have "restore_stages j (RollbackStages j) \<lparr>rs_ollama = False, rs_awake = False, rs_power = False\<rparr> h = (e, h')"
      using that(2) by (simp add: NewNativeRunner_def Native_Restore_def)
    from restore_stages_keeps [OF this that(1,3)]
    have "native_sane h' \<and> native_recoverable j S h' \<and> (e = None \<longrightarrow> native_recoverable j (S - set (RollbackStages j)) h')"
      by (simp add: restored_by_def)
    moreover have "S \<subseteq> set (rj_AppliedStages j) \<Longrightarrow> S - set (RollbackStages j) = {}" by (auto simp: RollbackStages_def)
    ultimately show ?thesis by metis
  qed
  show "native_recoverable (j\<lparr>rj_AppliedStages := xs\<rparr>) S h \<longleftrightarrow> native_recoverable j S h" for j xs S h
    by (simp add: recoverable_defs)
qed

section \<open>Tuning is reversible\<close>


definition demo_process :: os_process where
  "demo_process = \<lparr>pr_PID = 7, pr_Name = ''Ollama.exe'', pr_Executable = ''C:/ollama.exe'', pr_Priority = ''Normal'', pr_Environ = [''OLLAMA_NUM_PARALLEL=4'']\<rparr>"

definition demo_host :: "(os_call \<Rightarrow> nat \<Rightarrow> bool) \<Rightarrow> native_host" where
  "demo_host fails = \<lparr>nh_power = ''381b4222-f694-41f0-9685-ff5bb260df2e'', nh_powerText = \<lambda>g. ''Power Scheme GUID: '' @ g, nh_awake = False,
     nh_processes = [demo_process], nh_onAC = Some True, nh_environ = [''OLLAMA_NUM_PARALLEL=4'', ''PATH=x''], nh_image = \<lambda>_. ''ollama.exe'',
     nh_pid = 3, nh_nextPID = 9, nh_snapshot = None, nh_fails = fails, nh_calls = 0\<rparr>"

definition demo_machine :: "(os_call \<Rightarrow> nat \<Rightarrow> bool) \<Rightarrow> (nat \<Rightarrow> bool) \<Rightarrow> native_host machine_state" where
  "demo_machine fails disk = \<lparr>ms_host = demo_host fails, ms_disk = None, ms_fails = disk, ms_io = 0\<rparr>"

definition demo_snapshot :: hostSnapshot where
  "demo_snapshot = \<lparr>hs_OnACPower = True, hs_Journal = \<lparr>rj_SessionKind = ''provider'', rj_OwnerPID = 3,
     rj_ActivePowerScheme = ''381b4222-f694-41f0-9685-ff5bb260df2e'', rj_Executable = ''C:/ollama.exe'', rj_Priority = ''Normal'',
     rj_Environment = [(''OLLAMA_MAX_LOADED_MODELS'', None), (''OLLAMA_NUM_PARALLEL'', Some ''4''), (''OLLAMA_FLASH_ATTENTION'', None),
       (''OLLAMA_KV_CACHE_TYPE'', None)], rj_AppliedStages = []\<rparr>\<rparr>"

definition demo_tuned :: "native_host machine_state" where
  "demo_tuned = snd (StartProviderTuning NewNativeRunner DefaultConfig False (demo_machine (\<lambda>_ _. False) (\<lambda>_. False)))"

definition demo_waiting :: "native_host machine_state" where
  "demo_waiting = restore_attempts NewNativeRunner [\<lambda>_. True] demo_tuned"

definition demo_ended :: "unit result \<times> native_host machine_state" where
  "demo_ended = RestoreProviderTuning NewNativeRunner (demo_waiting\<lparr>ms_fails := \<lambda>_. False\<rparr>)"

lemma demo_snapshot_taken: "fst (Native_Snapshot DefaultConfig (demo_host (\<lambda>_ _. False))) = Inr demo_snapshot"
  by code_simp

lemma demo_states:
  "map_option rj_AppliedStages (ms_disk demo_waiting) = Some [''power-plan'', ''keep-awake'', ''ollama-environment'', ''process-priority'']"
  "nh_power (ms_host demo_waiting) = ''8c5e7fda-e8bf-4a96-9a85-a6e23a8c635c''" "fst demo_ended = Inr ()"
  by code_simp+

lemma demo_parsed: "parseActivePowerScheme (''Power Scheme GUID: '' @ ''381b4222-f694-41f0-9685-ff5bb260df2e'') = Inr ''381b4222-f694-41f0-9685-ff5bb260df2e''"
  by code_simp

lemma demo_ollama: "ollama_name ''Ollama.exe''" "ollama_name ''ollama.exe''"
  "list_all (\<lambda>name. lookupEnv name (pr_Environ demo_process) = lookupEnv name [''OLLAMA_NUM_PARALLEL=4'', ''PATH=x'']) ollama_variables"
  by code_simp+

lemma demo_pristine: "native_pristine (demo_host (\<lambda>_ _. False))"
proof -
  have "filter is_ollama [demo_process] = [demo_process]" by (simp add: demo_process_def demo_ollama)
  then show ?thesis using demo_parsed demo_ollama(2,3)
    by (simp add: native_pristine_def native_sane_def reliable_def demo_host_def) (simp add: demo_process_def priorities_def)
qed


section \<open>Changes that are forgotten\<close>

text \<open>
  The stage of an operation is recorded after the operation. When the disk refuses the record (here the access number 10, the first
  of the rewritten journal) and the immediate restoration fails too (here \<^verbatim>\<open>powercfg\<close>, the call number 4), the rollback of the caller reads the
  journal without the stage, has nothing to restore, and removes it.
\<close>

definition demo_forgotten :: "unit result \<times> native_host machine_state" where
  "demo_forgotten = StartProviderTuning NewNativeRunner DefaultConfig False
     (demo_machine (\<lambda>c n. c = PowerSet \<and> n = 4) (\<lambda>n. n = 10))"

text \<open>A change can be left behind without a journal. When recording the first stage fails and so does the immediate restoration, the start
  reports an error, the power scheme stays changed, and the journal that should restore it is gone.\<close>

lemma unrecorded_change_forgotten:
  "fst demo_forgotten \<noteq> Inr () \<and> ms_disk (snd demo_forgotten) = None
   \<and> nh_power (ms_host (snd demo_forgotten)) = ''8c5e7fda-e8bf-4a96-9a85-a6e23a8c635c''
   \<and> nh_power (ms_host (snd demo_forgotten)) \<noteq> rj_ActivePowerScheme (hs_Journal demo_snapshot)"
  by code_simp

text \<open>A restart of Ollama that ends the old process and cannot start the new one is not undone either.\<close>

lemma failed_restart_forgotten:
  "let (r, w) = StartProviderTuning NewNativeRunner DefaultConfig False (demo_machine (\<lambda>c n. c = StartProcess) (\<lambda>_. False))
   in r \<noteq> Inr () \<and> ms_disk w = None \<and> filter is_ollama (nh_processes (ms_host w)) = []"
  by code_simp

end
