(* ===== verification/HostConfig.thy ===== *)
theory HostConfig
  imports Backends Sql
begin

text \<open>
  The provider's configuration: the file (\<^verbatim>\<open>cli/internal/config\<close>), the discovery of local models (\<^verbatim>\<open>host/discovery.go\<close>) and the change of the
  configured backends together with their credentials (\<^verbatim>\<open>host/configure.go\<close>). The credential store and the file may fail at every
  access. Names are treated on the ASCII range.
\<close>

section \<open>The configuration file\<close>

record cfg_backend =
  cb_Name :: string
  cb_OfferID :: string
  cb_Kind :: string
  cb_URL :: string
  cb_Model :: string
  cb_PriceVersion :: u64
  cb_Enabled :: bool
  cb_Image :: string

record provider_config =
  cf_ServerURL :: string
  cf_AccountID :: string
  cf_MachineID :: string
  cf_ChainID :: u64
  cf_ContractAddress :: string
  cf_SignerAddress :: string
  cf_Backends :: "cfg_backend list"

definition EffectiveOfferID :: "cfg_backend \<Rightarrow> string" where
  "EffectiveOfferID b = (if cb_OfferID b \<noteq> [] then cb_OfferID b else cb_Name b)"

definition config_required :: "provider_config \<Rightarrow> unit result" where
  "config_required c =
     (if cf_ServerURL c = [] \<or> cf_AccountID c = [] \<or> cf_MachineID c = []
      then Inl (ErrText ''server, account, and machine are required'') else Inr ())"

text \<open>The file is what it decodes to; opening and decoding may fail.\<close>

definition config_Load :: "faults \<Rightarrow> provider_config option \<Rightarrow> provider_config result" where
  "config_Load flt disk =
     and_then (stmt flt 0 (case disk of None \<Rightarrow> Inl (ErrText ''file does not exist'') | Some c \<Rightarrow> Inr c)) (\<lambda>c.
     and_then (stmt flt 1 (Inr ())) (\<lambda>_. and_then (config_required c) (\<lambda>_. Inr c)))"

text \<open>The temporary file is made, restricted, written, synced, closed and renamed over the old one.\<close>

definition config_Save :: "faults \<Rightarrow> provider_config \<Rightarrow> provider_config option \<Rightarrow> unit result \<times> provider_config option" where
  "config_Save flt c disk =
     (case and_then (config_required c) (\<lambda>_.
        if list_ex (\<lambda>k. flt k \<noteq> None) [0..<7] then Inl (the (flt (the (find (\<lambda>k. flt k \<noteq> None) [0..<7])))) else Inr ()) of
        Inl e \<Rightarrow> (Inl e, disk)
      | Inr _ \<Rightarrow> (Inr (), Some c))"

section \<open>Discovery\<close>

text \<open>A candidate: the fields that decide what is configured; its digest, size, hint and state are shown only.\<close>

record host_candidate =
  hd_Kind :: string
  hd_Name :: string
  hd_URL :: string
  hd_Model :: string
  hd_Image :: string

definition StableID :: "host_candidate \<Rightarrow> string" where
  "StableID c = join_with (CHR ''|'') [to_lower (trim_space (hd_Kind c)), trim_right_slash (to_lower (trim_space (hd_URL c))), trim_space (hd_Model c)]"

record detect_result =
  dr_Source :: string
  dr_Candidates :: "host_candidate list"
  dr_Err :: "go_error option"

definition no_candidates :: "string \<Rightarrow> go_error \<Rightarrow> detect_result" where
  "no_candidates source e = \<lparr>dr_Source = source, dr_Candidates = [], dr_Err = Some e\<rparr>"

text \<open>\<open>models\<close> lists the installed models at the client's base URL.\<close>

definition OllamaDetector_Detect :: "(string \<Rightarrow> parsed_url result) \<Rightarrow> (string \<Rightarrow> string list result) \<Rightarrow> string \<Rightarrow> detect_result" where
  "OllamaDetector_Detect parse models endpoint =
     (let endpoint = (if endpoint = [] then ''http://127.0.0.1:11434'' else endpoint)
      in case ollama_New parse endpoint of
           Inl e \<Rightarrow> no_candidates ''ollama'' e
         | Inr client \<Rightarrow>
             (case models client of
                Inl e \<Rightarrow> no_candidates ''ollama'' e
              | Inr names \<Rightarrow>
                  (let cs = map (\<lambda>m. \<lparr>hd_Kind = ''ollama'', hd_Name = ''Ollama'', hd_URL = endpoint, hd_Model = m, hd_Image = ''''\<rparr>)
                        (filter (\<lambda>m. \<not> blank m) names)
                   in if cs = [] then no_candidates ''ollama'' (ErrText ''Ollama has no installed models; run `ollama pull <model>`'')
                      else \<lparr>dr_Source = ''ollama'', dr_Candidates = sort_key hd_Model cs, dr_Err = None\<rparr>)))"

definition title :: "string \<Rightarrow> string" where
  "title v = (case v of [] \<Rightarrow> [] | c # cs \<Rightarrow> upper_char c # cs)"

definition CLIDetector_Detect :: "(string \<Rightarrow> bool) \<Rightarrow> string \<Rightarrow> string \<Rightarrow> string list \<Rightarrow> detect_result" where
  "CLIDetector_Detect lookup kind executable presets =
     (if \<not> lookup executable then no_candidates kind (ErrText (title kind @ '' CLI is not installed or not available on PATH''))
      else \<lparr>dr_Source = kind,
             dr_Candidates = map (\<lambda>m. \<lparr>hd_Kind = kind, hd_Name = title kind, hd_URL = '''', hd_Model = m, hd_Image = ''''\<rparr>) presets,
             dr_Err = None\<rparr>)"

text \<open>The detectors of a host. \<open>lookup\<close> tells whether an executable is on the path.\<close>

datatype detector = OllamaDetector string | CLIDetector string string "string list"

fun detector_Detect :: "(string \<Rightarrow> parsed_url result) \<Rightarrow> (string \<Rightarrow> string list result) \<Rightarrow> (string \<Rightarrow> bool) \<Rightarrow> detector \<Rightarrow> detect_result" where
  "detector_Detect parse models lookup (OllamaDetector endpoint) = OllamaDetector_Detect parse models endpoint"
| "detector_Detect parse models lookup (CLIDetector kind executable presets) = CLIDetector_Detect lookup kind executable presets"

definition DefaultDetectors :: "string \<Rightarrow> detector list" where
  "DefaultDetectors endpoint =
     [OllamaDetector endpoint, CLIDetector ''codex'' ''codex'' [''gpt-5.6-terra'', ''gpt-5.6-sol''],
      CLIDetector ''claude'' ''claude'' [''sonnet'', ''opus'', ''haiku'']]"

definition ErrModelCatalogUnavailable :: go_error where
  "ErrModelCatalogUnavailable = ErrText ''provider model catalog unavailable''"

definition ListAPIModels ::
  "(string \<Rightarrow> parsed_url result) \<Rightarrow> (string \<Rightarrow> string list result) \<Rightarrow> string \<Rightarrow> string \<Rightarrow> string list result" where
  "ListAPIModels parse models baseURL secret =
     and_then (openai_New parse baseURL secret) (\<lambda>client.
       case models client of
         Inl _ \<Rightarrow> Inl ErrModelCatalogUnavailable
       | Inr names \<Rightarrow>
           (let result = sort (remdups (filter (\<lambda>n. n \<noteq> []) (map trim_space names)))
            in if result = [] then Inl ErrModelCatalogUnavailable else Inr result))"

section \<open>Backend names\<close>

fun safe_loop :: "string \<Rightarrow> bool \<Rightarrow> string \<Rightarrow> string" where
  "safe_loop [] dash result = result"
| "safe_loop (c # cs) dash result =
     (if is_letter c \<or> is_digit c
      then safe_loop cs False (result @ (if dash \<and> result \<noteq> [] then ''-'' else []) @ [c])
      else safe_loop cs (result \<noteq> []) result)"

definition trim_dashes :: "string \<Rightarrow> string" where
  "trim_dashes s = (let d = (\<lambda>c. c = CHR ''-'') in rev (dropWhile d (rev (dropWhile d s))))"

definition safeName :: "string \<Rightarrow> string" where
  "safeName v = trim_dashes (safe_loop (to_lower v) False [])"

definition BackendName :: "host_candidate \<Rightarrow> string" where
  "BackendName c = safeName ((if blank (hd_Name c) then hd_Kind c else hd_Name c) @ ''-'' @ hd_Model c)"

definition numbered :: "string \<Rightarrow> nat \<Rightarrow> string" where
  "numbered base k = base @ ''-'' @ nat_string k"

lemma numbered_inj: "numbered base i = numbered base k \<Longrightarrow> i = k"
  by (simp add: numbered_def) (metis digits_val_nat_string)

text \<open>Each name that is taken is passed once.\<close>

function unique_suffix :: "string \<Rightarrow> string list \<Rightarrow> nat \<Rightarrow> string" where
  "unique_suffix base names k = (if numbered base k \<in> set names then unique_suffix base names (k + 1) else numbered base k)"
  by pat_completeness auto

termination unique_suffix
proof (relation "measure (\<lambda>(base, names, k). card {n \<in> set names. \<exists>j \<ge> k. n = numbered base j})")
  fix base names and k :: nat
  assume taken: "numbered base k \<in> set names"
  let ?later = "\<lambda>k. {n \<in> set names. \<exists>j \<ge> k. n = numbered base j}"
  have "numbered base k \<in> ?later k" using taken by auto
  moreover have "numbered base k \<notin> ?later (k + 1)" by (auto dest: numbered_inj)
  moreover have "?later (k + 1) \<subseteq> ?later k" by (auto intro: Suc_leD)
  ultimately have "?later (k + 1) \<subset> ?later k" by blast
  then have "card (?later (k + 1)) < card (?later k)" by (rule psubset_card_mono [rotated]) simp
  then show "((base, names, k + 1), base, names, k) \<in> measure (\<lambda>(base, names, k). card {n \<in> set names. \<exists>j \<ge> k. n = numbered base j})"
    by simp
qed simp

declare unique_suffix.simps [simp del]

definition uniqueBackendName :: "string \<Rightarrow> cfg_backend list \<Rightarrow> string" where
  "uniqueBackendName base backends =
     (let names = map cb_Name backends in if base \<notin> set names then base else unique_suffix base names 2)"

section \<open>Applying a selection\<close>

record host_selection =
  sl_Candidate :: host_candidate
  sl_Secret :: string

text \<open>The functions of \<^verbatim>\<open>CredentialStore\<close> that are present.\<close>

record credentialStore =
  ct_Service :: string
  ct_Load :: bool
  ct_Save :: bool
  ct_Delete :: bool

datatype store_call = CredLoad | CredSave | CredRestore | CredDelete | ConfigSave

text \<open>The secrets by account, the saved configuration, and which numbered accesses fail.\<close>

record cred_state =
  cr_secrets :: "string \<rightharpoonup> string"
  cr_config :: "provider_config option"
  cr_fails :: "store_call \<Rightarrow> nat \<Rightarrow> bool"
  cr_calls :: nat

definition cred_step :: "store_call \<Rightarrow> cred_state \<Rightarrow> bool \<times> cred_state" where
  "cred_step c w = (cr_fails w c (cr_calls w), w\<lparr>cr_calls := cr_calls w + 1\<rparr>)"

text \<open>A change: the account and what it held, as far as the store told.\<close>

type_synonym credentialChange = "string \<times> string option"

fun rollback :: "credentialStore \<Rightarrow> credentialChange list \<Rightarrow> cred_state \<Rightarrow> cred_state" where
  "rollback st [] w = w"
| "rollback st ((account, previous) # changes) w =
     rollback st changes
       (case previous of
          Some p \<Rightarrow>
            (if ct_Save st then (case cred_step CredRestore w of (fails, w) \<Rightarrow> if fails then w else w\<lparr>cr_secrets := (cr_secrets w)(account \<mapsto> p)\<rparr>)
             else w)
        | None \<Rightarrow>
            (if ct_Delete st then (case cred_step CredDelete w of (fails, w) \<Rightarrow> if fails then w else w\<lparr>cr_secrets := (cr_secrets w)(account := None)\<rparr>)
             else w))"

definition load_previous :: "credentialStore \<Rightarrow> string \<Rightarrow> cred_state \<Rightarrow> string option \<times> cred_state" where
  "load_previous st account w =
     (if ct_Load st then (case cred_step CredLoad w of (fails, w) \<Rightarrow> (if fails then None else cr_secrets w account, w)) else (None, w))"

definition identity_of :: "cfg_backend \<Rightarrow> string" where
  "identity_of b = StableID \<lparr>hd_Kind = cb_Kind b, hd_Name = '''', hd_URL = cb_URL b, hd_Model = cb_Model b, hd_Image = cb_Image b\<rparr>"

fun index_of :: "('a \<Rightarrow> bool) \<Rightarrow> 'a list \<Rightarrow> nat option" where
  "index_of P [] = None"
| "index_of P (x # xs) = (if P x then Some 0 else map_option Suc (index_of P xs))"

definition place_backend :: "host_candidate \<Rightarrow> cfg_backend list \<Rightarrow> string \<times> cfg_backend list" where
  "place_backend c bs =
     (let item = \<lparr>cb_Name = BackendName c, cb_OfferID = '''', cb_Kind = hd_Kind c,
            cb_URL = (if hd_Kind c \<noteq> ''ollama'' \<and> hd_Kind c \<noteq> ''openai'' then '''' else hd_URL c), cb_Model = hd_Model c,
            cb_PriceVersion = 0, cb_Enabled = True, cb_Image = hd_Image c\<rparr>
      in case index_of (\<lambda>b. identity_of b = StableID c) bs of
           Some i \<Rightarrow>
             (cb_Name (bs ! i), bs[i := item\<lparr>cb_Name := cb_Name (bs ! i), cb_OfferID := cb_OfferID (bs ! i), cb_PriceVersion := cb_PriceVersion (bs ! i)\<rparr>])
         | None \<Rightarrow>
             (let name = uniqueBackendName (cb_Name item) bs in (name, bs @ [item\<lparr>cb_Name := name\<rparr>])))"

fun apply_selections ::
  "credentialStore \<Rightarrow> string \<Rightarrow> host_selection list \<Rightarrow> cfg_backend list \<Rightarrow> credentialChange list \<Rightarrow> cred_state
   \<Rightarrow> (cfg_backend list \<times> credentialChange list) result \<times> cred_state" where
  "apply_selections st machine [] bs changes w = (Inr (bs, changes), w)"
| "apply_selections st machine (s # ss) bs changes w =
     (case place_backend (sl_Candidate s) bs of
        (name, bs) \<Rightarrow>
          if blank (sl_Secret s) then apply_selections st machine ss bs changes w
          else if ct_Service st = [] \<or> \<not> ct_Save st then (Inl (ErrText ''credential store is unavailable''), rollback st changes w)
          else (let account = machine @ ''/'' @ name
                in case load_previous st account w of
                     (previous, w) \<Rightarrow>
                       (case cred_step CredSave w of
                          (True, w) \<Rightarrow> (Inl (ErrText ''store backend credential''), rollback st changes w)
                        | (False, w) \<Rightarrow>
                            apply_selections st machine ss bs ((account, previous) # changes)
                              (w\<lparr>cr_secrets := (cr_secrets w)(account \<mapsto> sl_Secret s)\<rparr>))))"

text \<open>\<open>ctx\<close> is the error of a context that has ended, \<open>saver\<close> whether the caller passed a function that saves the configuration.\<close>

definition host_Apply ::
  "go_error option \<Rightarrow> bool \<Rightarrow> credentialStore \<Rightarrow> provider_config \<Rightarrow> host_selection list \<Rightarrow> cred_state \<Rightarrow> provider_config result \<times> cred_state" where
  "host_Apply ctx saver st current selections w =
     (if \<not> saver then (Inl (ErrText ''configuration saver is required''), w)
      else case ctx of Some e \<Rightarrow> (Inl e, w) | None \<Rightarrow>
        (case apply_selections st (cf_MachineID current) selections (map (\<lambda>b. b\<lparr>cb_Enabled := False\<rparr>) (cf_Backends current)) [] w of
           (Inl e, w) \<Rightarrow> (Inl e, w)
         | (Inr (bs, changes), w) \<Rightarrow>
             (let updated = current\<lparr>cf_Backends := bs\<rparr>
              in case cred_step ConfigSave w of
                   (True, w) \<Rightarrow> (Inl (ErrText ''save configuration''), rollback st changes w)
                 | (False, w) \<Rightarrow> (Inr updated, w\<lparr>cr_config := Some updated\<rparr>))))"

section \<open>Names and placement\<close>

lemma unique_suffix_fresh: "unique_suffix base names k \<notin> set names"
proof (induction base names k rule: unique_suffix.induct)
  case (1 base names k)
  then show ?case by (subst unique_suffix.simps) simp
qed

lemma uniqueBackendName_fresh: "uniqueBackendName base bs \<notin> cb_Name ` set bs"
  using unique_suffix_fresh [of base "map cb_Name bs" 2] by (simp add: uniqueBackendName_def Let_def)

lemma index_of_Some: "index_of P xs = Some i \<Longrightarrow> i < length xs \<and> P (xs ! i)"
  by (induction xs arbitrary: i) (auto split: if_splits)

text \<open>What a backend keeps when it is configured again.\<close>

definition offer_data :: "cfg_backend \<Rightarrow> string \<times> string \<times> u64" where
  "offer_data b = (cb_Name b, cb_OfferID b, cb_PriceVersion b)"

lemma place_backend_ok:
  assumes "place_backend c bs = (name, bs')"
  shows "prefix (map offer_data bs) (map offer_data bs')" "distinct (map cb_Name bs) \<Longrightarrow> distinct (map cb_Name bs')"
    "set bs' \<subseteq> set bs \<union> {b. cb_Kind b = hd_Kind c \<and> cb_Model b = hd_Model c \<and> cb_Image b = hd_Image c}"
proof -
  have "prefix (map offer_data bs) (map offer_data bs') \<and> (distinct (map cb_Name bs) \<longrightarrow> distinct (map cb_Name bs'))
    \<and> set bs' \<subseteq> set bs \<union> {b. cb_Kind b = hd_Kind c \<and> cb_Model b = hd_Model c \<and> cb_Image b = hd_Image c}"
  proof (cases "index_of (\<lambda>b. identity_of b = StableID c) bs")
    case None
    then show ?thesis using assms uniqueBackendName_fresh [of "BackendName c" bs] by (auto simp: place_backend_def Let_def)
  next
    case (Some i)
    have i: "i < length bs" using index_of_Some [OF Some] by simp
    define x where "x = \<lparr>cb_Name = cb_Name (bs ! i), cb_OfferID = cb_OfferID (bs ! i), cb_Kind = hd_Kind c,
      cb_URL = (if hd_Kind c \<noteq> ''ollama'' \<and> hd_Kind c \<noteq> ''openai'' then [] else hd_URL c), cb_Model = hd_Model c,
      cb_PriceVersion = cb_PriceVersion (bs ! i), cb_Enabled = True, cb_Image = hd_Image c\<rparr>"
    have x: "bs' = bs[i := x]" "offer_data x = offer_data (bs ! i)" "cb_Kind x = hd_Kind c" "cb_Model x = hd_Model c" "cb_Image x = hd_Image c"
      using assms Some by (auto simp: place_backend_def Let_def offer_data_def x_def)
    have "map f bs' = map f bs" if "f x = f (bs ! i)" for f :: "cfg_backend \<Rightarrow> 'b"
      using that x(1) i by (metis list_update_id map_update)
    moreover have "cb_Name x = cb_Name (bs ! i)" using x(2) by (simp add: offer_data_def)
    ultimately have "map offer_data bs' = map offer_data bs" "map cb_Name bs' = map cb_Name bs" using x(2) by auto
    then show ?thesis using x set_update_subset_insert [of bs i x] by auto
  qed
  then show "prefix (map offer_data bs) (map offer_data bs')" "distinct (map cb_Name bs) \<Longrightarrow> distinct (map cb_Name bs')"
    "set bs' \<subseteq> set bs \<union> {b. cb_Kind b = hd_Kind c \<and> cb_Model b = hd_Model c \<and> cb_Image b = hd_Image c}" by auto
qed

lemma apply_selections_ok:
  assumes "apply_selections st machine ss bs changes w = (Inr (bs', changes'), w')"
  shows "prefix (map offer_data bs) (map offer_data bs') \<and> (distinct (map cb_Name bs) \<longrightarrow> distinct (map cb_Name bs')) \<and>
    set bs' \<subseteq> set bs \<union> {b. \<exists>s \<in> set ss. cb_Kind b = hd_Kind (sl_Candidate s) \<and> cb_Model b = hd_Model (sl_Candidate s) \<and> cb_Image b = hd_Image (sl_Candidate s)}"
  using assms
proof (induction st machine ss bs changes w rule: apply_selections.induct)
  case (2 st machine s ss bs changes w)
  obtain name bs1 where p: "place_backend (sl_Candidate s) bs = (name, bs1)" by fastforce
  obtain changes1 w1 where r: "apply_selections st machine ss bs1 changes1 w1 = (Inr (bs', changes'), w')"
    using "2.prems" p by (auto simp: Let_def split: if_splits prod.splits bool.splits)
  have "prefix (map offer_data bs1) (map offer_data bs') \<and> (distinct (map cb_Name bs1) \<longrightarrow> distinct (map cb_Name bs')) \<and>
    set bs' \<subseteq> set bs1 \<union> {b. \<exists>s \<in> set ss. cb_Kind b = hd_Kind (sl_Candidate s) \<and> cb_Model b = hd_Model (sl_Candidate s) \<and> cb_Image b = hd_Image (sl_Candidate s)}"
    using "2.prems" "2.IH" p by (auto simp: Let_def split: if_splits prod.splits bool.splits)
  then show ?case using place_backend_ok [OF p] prefix_order.trans by fastforce
qed simp

section \<open>Credentials are restored\<close>

definition dependable :: "cred_state \<Rightarrow> bool" where
  "dependable w \<longleftrightarrow> (\<forall>n. \<not> cr_fails w CredLoad n \<and> \<not> cr_fails w CredRestore n \<and> \<not> cr_fails w CredDelete n)"

definition store_complete :: "credentialStore \<Rightarrow> bool" where
  "store_complete st \<longleftrightarrow> ct_Load st \<and> ct_Save st \<and> ct_Delete st"

fun undo :: "credentialChange list \<Rightarrow> (string \<rightharpoonup> string) \<Rightarrow> (string \<rightharpoonup> string)" where
  "undo [] m = m"
| "undo ((account, previous) # changes) m = undo changes (m(account := previous))"

lemma rollback_undo:
  assumes "dependable w" "store_complete st"
  shows "cr_secrets (rollback st changes w) = undo changes (cr_secrets w) \<and> cr_config (rollback st changes w) = cr_config w"
  using assms
proof (induction changes arbitrary: w)
  case (Cons change changes)
  obtain account previous where c: "change = (account, previous)" by fastforce
  let ?w = "w\<lparr>cr_calls := cr_calls w + 1, cr_secrets := (cr_secrets w)(account := previous)\<rparr>"
  have "rollback st (change # changes) w = rollback st changes ?w"
    using Cons.prems c by (cases previous) (simp_all add: cred_step_def dependable_def store_complete_def)
  then show ?case using Cons.IH [of ?w] Cons.prems c by (simp add: dependable_def fun_upd_def)
qed simp

lemma apply_selections_undo:
  assumes "apply_selections st machine ss bs changes w = (r, w')" "dependable w" "store_complete st"
  shows "cr_config w' = cr_config w \<and> dependable w' \<and>
    (case r of Inl _ \<Rightarrow> cr_secrets w' = undo changes (cr_secrets w)
     | Inr (bs', changes') \<Rightarrow> undo changes' (cr_secrets w') = undo changes (cr_secrets w))"
  using assms
proof (induction ss arbitrary: bs changes w)
  case (Cons s ss)
  obtain name bs1 where p: "place_backend (sl_Candidate s) bs = (name, bs1)" by fastforce
  let ?a = "machine @ ''/'' @ name"
  let ?w2 = "w\<lparr>cr_calls := cr_calls w + 2\<rparr>"
  have rb: "dependable (rollback st cs v)" if "dependable v" for cs v
    using that by (induction cs arbitrary: v) (auto simp: cred_step_def dependable_def split: option.splits if_splits prod.splits)
  let ?n2 = "Suc (cr_calls w)"
  have step: "(r, w') = (if blank (sl_Secret s) then apply_selections st machine ss bs1 changes w
      else if ct_Service st = [] then (Inl (ErrText ''credential store is unavailable''), rollback st changes w)
      else if cr_fails w CredSave ?n2 then (Inl (ErrText ''store backend credential''), rollback st changes ?w2)
      else apply_selections st machine ss bs1 ((?a, cr_secrets w ?a) # changes) (?w2\<lparr>cr_secrets := (cr_secrets w)(?a \<mapsto> sl_Secret s)\<rparr>))"
    using Cons.prems p by (auto simp: Let_def load_previous_def cred_step_def dependable_def store_complete_def)
  consider (skip) "apply_selections st machine ss bs1 changes w = (r, w')"
    | (fail) n e where "r = Inl e" "w' = rollback st changes (w\<lparr>cr_calls := n\<rparr>)"
    | (store) "apply_selections st machine ss bs1 ((?a, cr_secrets w ?a) # changes) (?w2\<lparr>cr_secrets := (cr_secrets w)(?a \<mapsto> sl_Secret s)\<rparr>) = (r, w')"
  proof -
    have "w = w\<lparr>cr_calls := cr_calls w\<rparr>" by simp
    then show thesis using step that by (metis Pair_inject)
  qed
  then show ?case
  proof cases
    case skip
    then show ?thesis using Cons.IH Cons.prems by blast
  next
    case fail
    have "dependable (w\<lparr>cr_calls := n\<rparr>)" using Cons.prems(2) by (simp add: dependable_def)
    then show ?thesis using fail rollback_undo [of "w\<lparr>cr_calls := n\<rparr>" st changes] rb Cons.prems(3) by simp
  next
    case store
    have "dependable (?w2\<lparr>cr_secrets := (cr_secrets w)(?a \<mapsto> sl_Secret s)\<rparr>)" using Cons.prems(2) by (simp add: dependable_def)
    from Cons.IH [OF store this Cons.prems(3)] show ?thesis by (cases r) auto
  qed
qed auto


definition plain_store :: credentialStore where
  "plain_store = \<lparr>ct_Service = ''Myference'', ct_Load = True, ct_Save = True, ct_Delete = True\<rparr>"

definition plain_config :: provider_config where
  "plain_config = \<lparr>cf_ServerURL = ''https://s'', cf_AccountID = ''a'', cf_MachineID = ''m'', cf_ChainID = 1, cf_ContractAddress = ''c'',
     cf_SignerAddress = ''d'',
     cf_Backends = [\<lparr>cb_Name = ''ollama-q'', cb_OfferID = ''o1'', cb_Kind = ''ollama'', cb_URL = ''http://l'', cb_Model = ''q'', cb_PriceVersion = 3,
       cb_Enabled = True, cb_Image = ''''\<rparr>]\<rparr>"

definition plain_selection :: host_selection where
  "plain_selection = \<lparr>sl_Candidate = \<lparr>hd_Kind = ''openai'', hd_Name = ''API'', hd_URL = ''https://x/'', hd_Model = ''M1'', hd_Image = ''''\<rparr>, sl_Secret = ''k''\<rparr>"

text \<open>The configuration cannot be saved.\<close>

definition unsaved_state :: cred_state where
  "unsaved_state = \<lparr>cr_secrets = [''m/api-m1'' \<mapsto> ''old''], cr_config = None, cr_fails = (\<lambda>c _. c = ConfigSave), cr_calls = 0\<rparr>"

lemma unsaved_state_dependable: "dependable unsaved_state" "store_complete plain_store"
  by (simp_all add: dependable_def unsaved_state_def store_complete_def plain_store_def)


text \<open>A credential that exists but cannot be read at that moment counts as absent: when a later step fails, undoing deletes it.\<close>

lemma unread_credential_deleted:
  assumes "store_complete st" "ct_Service st \<noteq> []" "\<not> blank (sl_Secret s)"
    "place_backend (sl_Candidate s) (map (\<lambda>b. b\<lparr>cb_Enabled := False\<rparr>) (cf_Backends current)) = (name, bs)"
    "cr_fails w = (\<lambda>c _. c = CredLoad \<or> c = ConfigSave)"
  shows "\<exists>e w'. host_Apply None True st current [s] w = (Inl e, w') \<and> cr_secrets w' (cf_MachineID current @ ''/'' @ name) = None"
  using assms by (simp add: host_Apply_def load_previous_def cred_step_def store_complete_def Let_def)

end
