(* ===== verification/ProviderOps.thy ===== *)
theory ProviderOps
  imports HostConfig ProviderAccounts Complex_Main
begin

text \<open>
  What a provider does with its wallet: the client of the broker's account interface (\<^verbatim>\<open>cli/internal/account\<close>) and the operations on
  top of it (\<^verbatim>\<open>cli/internal/providerops/service.go\<close>): prices in MON, publication of offers, attaching a backend to an offer, deposits,
  exits and the synchronization of versions. The broker, the browser and the configuration file are functions on a state of the world,
  which waiting may change in any way; polling for the wallet's approval is a partial function, and that it ends is proved for the
  broker's handlers.
\<close>

section \<open>The client\<close>

definition isLoopbackHTTP :: "parsed_url \<Rightarrow> bool" where
  "isLoopbackHTTP u \<longleftrightarrow> pu_Scheme u = ''http'' \<and> loopback (pu_Hostname u)"

definition trim_suffix_slash :: "string \<Rightarrow> string" where
  "trim_suffix_slash s = (if s \<noteq> [] \<and> last s = CHR ''/'' then butlast s else s)"

definition NewClient :: "(string \<Rightarrow> parsed_url result) \<Rightarrow> string \<Rightarrow> string result" where
  "NewClient parse baseURL =
     (case parse baseURL of
        Inl _ \<Rightarrow> Inl (ErrText ''server URL must use HTTPS except on loopback'')
      | Inr u \<Rightarrow>
          if pu_Host u = [] \<or> pu_Scheme u \<noteq> ''https'' \<and> \<not> isLoopbackHTTP u
          then Inl (ErrText ''server URL must use HTTPS except on loopback'') else Inr (trim_suffix_slash baseURL))"

definition ErrPending :: go_error where
  "ErrPending = ErrText ''device authorization pending''"

definition ErrExpired :: go_error where
  "ErrExpired = ErrText ''device authorization expired''"

definition ErrConsumed :: go_error where
  "ErrConsumed = ErrText ''device authorization consumed''"

text \<open>The switch on the status code; \<open>decode\<close> reads the body as the wanted type.\<close>

definition response_result :: "(string \<Rightarrow> 'a result) \<Rightarrow> nat \<Rightarrow> string \<Rightarrow> 'a result" where
  "response_result decode status body =
     (if status = 200 \<or> status = 201 then decode (take 65536 body)
      else if status = 425 then Inl ErrPending
      else if status = 410 then Inl ErrExpired
      else if status = 409 then Inl ErrConsumed
      else Inl (ErrText (''server returned '' @ nat_string status @ '': '' @ trim_space (take 4096 body))))"

record client_call =
  cc_Method :: string
  cc_URL :: string
  cc_Body :: "string option"
  cc_ContentType :: "string option"
  cc_Authorization :: "string option"

text \<open>\<open>accept\<close> is the construction of the request, \<open>send\<close> the exchange over the network.\<close>

definition client_request ::
  "(client_call \<Rightarrow> unit result) \<Rightarrow> (client_call \<Rightarrow> 'w \<Rightarrow> (nat \<times> string) result \<times> 'w) \<Rightarrow> (string \<Rightarrow> 'a result)
   \<Rightarrow> string \<Rightarrow> string \<Rightarrow> string \<Rightarrow> string \<Rightarrow> string result option \<Rightarrow> 'w \<Rightarrow> 'a result \<times> 'w" where
  "client_request accept send decode baseURL http_method path token input w =
     (case (case input of None \<Rightarrow> Inr None | Some (Inl e) \<Rightarrow> Inl e | Some (Inr j) \<Rightarrow> Inr (Some j)) of
        Inl e \<Rightarrow> (Inl e, w)
      | Inr body \<Rightarrow>
          (let call = \<lparr>cc_Method = http_method, cc_URL = baseURL @ path, cc_Body = body,
                 cc_ContentType = map_option (\<lambda>_. ''application/json'') body,
                 cc_Authorization = (if token \<noteq> [] then Some (''Bearer '' @ token) else None)\<rparr>
           in case accept call of
                Inl e \<Rightarrow> (Inl e, w)
              | Inr _ \<Rightarrow>
                  (case send call w of
                     (Inl e, w) \<Rightarrow> (Inl e, w)
                   | (Inr (status, reply), w) \<Rightarrow> (response_result decode status reply, w))))"

definition authorizedRequest ::
  "(client_call \<Rightarrow> unit result) \<Rightarrow> (client_call \<Rightarrow> 'w \<Rightarrow> (nat \<times> string) result \<times> 'w) \<Rightarrow> (string \<Rightarrow> 'a result)
   \<Rightarrow> string \<Rightarrow> string \<Rightarrow> string \<Rightarrow> string \<Rightarrow> string result option \<Rightarrow> 'w \<Rightarrow> 'a result \<times> 'w" where
  "authorizedRequest accept send decode baseURL http_method path token =
     client_request accept send decode baseURL http_method path (trim_space token)"

section \<open>Prices in MON\<close>

definition decimalDigits :: "string \<Rightarrow> bool" where
  "decimalDigits = list_all is_digit"

definition mon_error :: go_error where
  "mon_error = ErrText ''MON amount must be a non-negative decimal with at most 18 fractional digits''"

definition weiPerMON :: int where
  "weiPerMON = 10 ^ 18"

definition maxUint256 :: int where
  "maxUint256 = 2 ^ 256 - 1"

definition ParseMON :: "string \<Rightarrow> string result" where
  "ParseMON v =
     (if v = [] \<or> trim_space v \<noteq> v \<or> prefix ''-'' v \<or> list_ex (\<lambda>c. c \<in> set ''eE+'') v then Inl mon_error
      else let parts = split_on (CHR ''.'') v
      in if length parts > 2 \<or> hd parts = [] \<or> \<not> decimalDigits (hd parts) then Inl mon_error
      else let fraction = (if length parts = 2 then parts ! 1 else [])
      in if length parts = 2 \<and> (fraction = [] \<or> length fraction > 18 \<or> \<not> decimalDigits fraction) then Inl mon_error
      else case big_set_string (hd parts) of
        None \<Rightarrow> Inl (ErrText ''invalid MON amount'')
      | Some whole \<Rightarrow>
          let wei = whole * weiPerMON;
              wei = (if fraction \<noteq> []
                     then wei + (case big_set_string (fraction @ replicate (18 - length fraction) (CHR ''0'')) of None \<Rightarrow> 0 | Some f \<Rightarrow> f)
                     else wei)
          in if wei > maxUint256 then Inl (ErrText ''MON amount exceeds uint256'') else Inr (int_string wei))"

section \<open>The service\<close>

record rates_mon =
  rm_InputPerMillionMON :: string
  rm_OutputPerMillionMON :: string
  rm_ComputePerSecondMON :: string

text \<open>A provider action as the client decodes it; \<open>None\<close> is the zero time.\<close>

record client_action =
  ca_ID :: string
  ca_Kind :: string
  ca_Status :: string
  ca_WalletAddress :: string
  ca_AmountWei :: string
  ca_Offers :: "providerActionOffer list"
  ca_TransactionHashes :: "string list"
  ca_Versions :: "(string \<times> u64) list"
  ca_ExpiresAt :: "int option"

record 'w provider_api =
  api_ProviderAccount :: "string \<Rightarrow> 'w \<Rightarrow> providerAccount result \<times> 'w"
  api_CreateProviderAction :: "string \<Rightarrow> providerActionInput \<Rightarrow> 'w \<Rightarrow> client_action result \<times> 'w"
  api_ProviderAction :: "string \<Rightarrow> string \<Rightarrow> 'w \<Rightarrow> client_action result \<times> 'w"
  api_MachineOfferVersions :: "string \<Rightarrow> string \<Rightarrow> 'w \<Rightarrow> (string \<times> u64) list result \<times> 'w"

text \<open>The client as the service sees it; JSON and the escaping of path segments are library functions.\<close>

record client_codec =
  cd_account :: "string \<Rightarrow> providerAccount result"
  cd_action :: "string \<Rightarrow> client_action result"
  cd_versions :: "string \<Rightarrow> (string \<times> u64) list result"
  cd_input :: "providerActionInput \<Rightarrow> string result"
  cd_strings :: "(string \<times> string) list \<Rightarrow> string result"
  cd_escape :: "string \<Rightarrow> string"

definition client_methods ::
  "client_codec \<Rightarrow> (client_call \<Rightarrow> unit result) \<Rightarrow> (client_call \<Rightarrow> 'w \<Rightarrow> (nat \<times> string) result \<times> 'w) \<Rightarrow> string \<Rightarrow> 'w provider_api" where
  "client_methods codec accept send baseURL =
     \<lparr>api_ProviderAccount = (\<lambda>token. authorizedRequest accept send (cd_account codec) baseURL ''GET'' ''/api/provider/account'' token None),
      api_CreateProviderAction = (\<lambda>token input.
        authorizedRequest accept send (cd_action codec) baseURL ''POST'' ''/api/provider/actions'' token (Some (cd_input codec input))),
      api_ProviderAction = (\<lambda>token i.
        authorizedRequest accept send (cd_action codec) baseURL ''GET'' (''/api/provider/actions/'' @ cd_escape codec i) token None),
      api_MachineOfferVersions = (\<lambda>token machineID. authorizedRequest accept send (cd_versions codec) baseURL ''GET''
        (''/api/provider/machines/'' @ cd_escape codec machineID @ ''/offer-versions'') token None)\<rparr>"

definition client_post ::
  "(client_call \<Rightarrow> unit result) \<Rightarrow> (client_call \<Rightarrow> 'w \<Rightarrow> (nat \<times> string) result \<times> 'w) \<Rightarrow> (string \<Rightarrow> 'a result)
   \<Rightarrow> string \<Rightarrow> string \<Rightarrow> string result \<Rightarrow> 'w \<Rightarrow> 'a result \<times> 'w" where
  "client_post accept send decode baseURL path input = client_request accept send decode baseURL ''POST'' path '''' (Some input)"

definition client_CreateDeviceAuthorization ::
  "client_codec \<Rightarrow> (client_call \<Rightarrow> unit result) \<Rightarrow> (client_call \<Rightarrow> 'w \<Rightarrow> (nat \<times> string) result \<times> 'w) \<Rightarrow> (string \<Rightarrow> 'a result)
   \<Rightarrow> string \<Rightarrow> string \<Rightarrow> string \<Rightarrow> 'w \<Rightarrow> 'a result \<times> 'w" where
  "client_CreateDeviceAuthorization codec accept send decode baseURL machineName signerAddress =
     client_post accept send decode baseURL ''/auth/device''
       (cd_strings codec [(''machine_name'', machineName), (''signer_address'', signerAddress)])"

definition client_ExchangeDeviceAuthorization ::
  "client_codec \<Rightarrow> (client_call \<Rightarrow> unit result) \<Rightarrow> (client_call \<Rightarrow> 'w \<Rightarrow> (nat \<times> string) result \<times> 'w) \<Rightarrow> (string \<Rightarrow> 'a result)
   \<Rightarrow> string \<Rightarrow> string \<Rightarrow> 'w \<Rightarrow> 'a result \<times> 'w" where
  "client_ExchangeDeviceAuthorization codec accept send decode baseURL deviceCode =
     client_post accept send decode baseURL ''/auth/device/token'' (cd_strings codec [(''device_code'', deviceCode)])"

record web_url = parsed_url +
  wu_Path :: string
  wu_Query :: "(string \<times> string) list"

text \<open>The service and the library functions it uses: the URL parser and printer, the clock, and waiting for two seconds.\<close>

record 'w ops_service =
  sv_API :: "'w provider_api option"
  sv_Token :: string
  sv_MachineID :: string
  sv_WebURL :: string
  sv_LoadConfig :: "('w \<Rightarrow> provider_config result \<times> 'w) option"
  sv_SaveConfig :: "(provider_config \<Rightarrow> 'w \<Rightarrow> unit result \<times> 'w) option"
  sv_OpenURL :: "(string \<Rightarrow> 'w \<Rightarrow> bool \<times> 'w) option"
  sv_Wait :: "'w \<Rightarrow> unit result \<times> 'w"
  sv_Now :: "'w \<Rightarrow> int"
  sv_Parse :: "string \<Rightarrow> web_url result"
  sv_String :: "web_url \<Rightarrow> string"

definition approvalURL :: "(string \<Rightarrow> web_url result) \<Rightarrow> string \<Rightarrow> string \<Rightarrow> web_url result" where
  "approvalURL parse webURL actionID =
     (case parse webURL of
        Inl _ \<Rightarrow> Inl (ErrText ''web URL must use HTTPS except on loopback'')
      | Inr u \<Rightarrow>
          if pu_Host u = [] \<or> pu_Scheme u \<noteq> ''https'' \<and> \<not> (pu_Scheme u = ''http'' \<and> loopback (pu_Hostname u))
          then Inl (ErrText ''web URL must use HTTPS except on loopback'')
          else Inr (u\<lparr>wu_Path := trim_suffix_slash (wu_Path u) @ ''/provider/approve'', wu_Query := AList.update ''action'' actionID (wu_Query u)\<rparr>))"

definition offerShape :: "cfg_backend \<Rightarrow> string list \<times> string" where
  "offerShape b =
     (if cb_Kind b = ''kimi'' \<or> (cb_Kind b = ''codex'' \<or> cb_Kind b = ''claude'') \<and> cb_Image b \<noteq> []
      then ([''stream'', ''text'', ''workspace''], ''compute_only'') else ([''stream'', ''text''], ''tokens_and_compute''))"

text \<open>Polling until the wallet's transaction is confirmed, the action expires, or something fails.\<close>

partial_function (option) poll ::
  "'w ops_service \<Rightarrow> 'w provider_api \<Rightarrow> client_action \<Rightarrow> 'w \<Rightarrow> (client_action result \<times> 'w) option" where
  "poll s api a w =
     (if ca_Status a = ''confirmed'' then Some (Inr a, w)
      else if (case ca_ExpiresAt a of None \<Rightarrow> False | Some t \<Rightarrow> sv_Now s w > t) then Some (Inl (ErrText ''provider action expired''), w)
      else (case sv_Wait s w of
              (Inl e, w) \<Rightarrow> Some (Inl e, w)
            | (Inr _, w) \<Rightarrow>
                (case api_ProviderAction api (sv_Token s) (ca_ID a) w of
                   (Inl e, w) \<Rightarrow> Some (Inl e, w)
                 | (Inr a, w) \<Rightarrow> poll s api a w)))"

declare poll.simps [code]

definition ops_execute :: "'w ops_service \<Rightarrow> providerActionInput \<Rightarrow> 'w \<Rightarrow> (client_action result \<times> 'w) option" where
  "ops_execute s input w =
     (case sv_API s of
        None \<Rightarrow> Some (Inl (ErrText ''provider API is unavailable''), w)
      | Some api \<Rightarrow>
          (case api_CreateProviderAction api (sv_Token s) input w of
             (Inl e, w) \<Rightarrow> Some (Inl e, w)
           | (Inr action, w) \<Rightarrow>
               (case approvalURL (sv_Parse s) (sv_WebURL s) (ca_ID action) of
                  Inl e \<Rightarrow> Some (Inl e, w)
                | Inr u \<Rightarrow>
                    (let approval = ErrText (''open this URL to approve the wallet transaction: '' @ sv_String s u)
                     in case sv_OpenURL s of
                          None \<Rightarrow> Some (Inl approval, w)
                        | Some browse \<Rightarrow>
                            (case browse (sv_String s u) w of
                               (False, w) \<Rightarrow> Some (Inl approval, w)
                             | (True, w) \<Rightarrow> poll s api action w)))))"

definition version_of :: "(string \<times> u64) list \<Rightarrow> string \<Rightarrow> u64" where
  "version_of versions i = (case map_of versions i of None \<Rightarrow> 0 | Some v \<Rightarrow> v)"

definition publish_input :: "cfg_backend \<Rightarrow> string \<Rightarrow> string \<Rightarrow> string \<Rightarrow> providerActionInput" where
  "publish_input b inputWei outputWei computeWei =
     (case offerShape b of
        (capabilities, metering) \<Rightarrow>
          \<lparr>pi_Kind = ''publish_offer'', pi_AmountWei = '''',
           pi_Offers = [\<lparr>po_OfferID = EffectiveOfferID b, po_Model = cb_Model b, po_Kind = cb_Kind b, po_Capabilities = capabilities,
             po_MeteringMode = metering, po_InputPerMillionWei = inputWei, po_OutputPerMillionWei = outputWei,
             po_ComputePerSecondWei = computeWei\<rparr>]\<rparr>)"

text \<open>The version of the confirmed action is written to the first backend of that name.\<close>

definition write_version :: "provider_config \<Rightarrow> cfg_backend \<Rightarrow> u64 \<Rightarrow> provider_config result" where
  "write_version cfg b version =
     (case index_of (\<lambda>x. cb_Name x = cb_Name b) (cf_Backends cfg) of
        None \<Rightarrow> Inl (ErrText (''backend '' @ cb_Name b @ '' is no longer configured''))
      | Some i \<Rightarrow>
          if version = 0 then Inl (ErrText (''confirmed action did not publish offer '' @ EffectiveOfferID b))
          else Inr (cfg\<lparr>cf_Backends := (cf_Backends cfg)[i := (cf_Backends cfg ! i)\<lparr>cb_PriceVersion := version\<rparr>]\<rparr>))"

definition publish_request :: "cfg_backend \<Rightarrow> rates_mon \<Rightarrow> providerActionInput result" where
  "publish_request b rates =
     and_then (ParseMON (rm_InputPerMillionMON rates)) (\<lambda>i. and_then (ParseMON (rm_OutputPerMillionMON rates)) (\<lambda>out.
     and_then (ParseMON (rm_ComputePerSecondMON rates)) (\<lambda>c. Inr (publish_input b i out c))))"

definition Publish :: "'w ops_service \<Rightarrow> cfg_backend \<Rightarrow> rates_mon \<Rightarrow> 'w \<Rightarrow> (unit result \<times> 'w) option" where
  "Publish s b rates w =
     (case publish_request b rates of
        Inl e \<Rightarrow> Some (Inl e, w)
      | Inr input \<Rightarrow>
          (case ops_execute s input w of
             None \<Rightarrow> None
           | Some (Inl e, w) \<Rightarrow> Some (Inl e, w)
           | Some (Inr action, w) \<Rightarrow>
               (case (sv_LoadConfig s, sv_SaveConfig s) of
                  (Some load, Some save) \<Rightarrow>
                    (case load w of
                       (Inl e, w) \<Rightarrow> Some (Inl e, w)
                     | (Inr cfg, w) \<Rightarrow>
                         (case write_version cfg b (version_of (ca_Versions action) (EffectiveOfferID b)) of
                            Inl e \<Rightarrow> Some (Inl e, w)
                          | Inr cfg \<Rightarrow> Some (save cfg w)))
                | _ \<Rightarrow> Some (Inl (ErrText ''configuration persistence is unavailable''), w))))"

definition Compatible :: "cfg_backend \<Rightarrow> editableOffer \<Rightarrow> bool" where
  "Compatible b offer \<longleftrightarrow>
     cb_Model b = eo_Model offer \<and> cb_Kind b = eo_BackendKind offer \<and> sort (fst (offerShape b)) = sort (eo_Capabilities offer)
     \<and> snd (offerShape b) = eo_MeteringMode offer \<and> eo_Version offer > 0"

definition ops_Account :: "'w ops_service \<Rightarrow> 'w \<Rightarrow> providerAccount result \<times> 'w" where
  "ops_Account s w =
     (case sv_API s of
        None \<Rightarrow> (Inl (ErrText ''provider API is unavailable''), w)
      | Some api \<Rightarrow> api_ProviderAccount api (sv_Token s) w)"

definition attach_offer :: "provider_config \<Rightarrow> nat \<Rightarrow> providerAccount \<Rightarrow> string \<Rightarrow> string \<Rightarrow> provider_config result" where
  "attach_offer cfg i acc backendName offerID =
     (case index_of (\<lambda>x. eo_OfferID x = offerID) (pv_Offers acc) of
        None \<Rightarrow> Inl (ErrText (''wallet offer '' @ offerID @ '' not found''))
      | Some k \<Rightarrow>
          (let offer = pv_Offers acc ! k
           in if \<not> Compatible (cf_Backends cfg ! i) offer
              then Inl (ErrText (''wallet offer '' @ offerID @ '' is incompatible with backend '' @ backendName))
              else Inr (cfg\<lparr>cf_Backends := (cf_Backends cfg)[i := (cf_Backends cfg ! i)\<lparr>cb_OfferID := eo_OfferID offer, cb_PriceVersion := eo_Version offer\<rparr>]\<rparr>)))"

definition Attach :: "'w ops_service \<Rightarrow> string \<Rightarrow> string \<Rightarrow> 'w \<Rightarrow> unit result \<times> 'w" where
  "Attach s backendName offerID w =
     (case (sv_LoadConfig s, sv_SaveConfig s) of
        (Some load, Some save) \<Rightarrow>
          (case load w of
             (Inl e, w) \<Rightarrow> (Inl e, w)
           | (Inr cfg, w) \<Rightarrow>
               (case index_of (\<lambda>x. cb_Name x = backendName) (cf_Backends cfg) of
                  None \<Rightarrow> (Inl (ErrText (''backend '' @ backendName @ '' not found'')), w)
                | Some i \<Rightarrow>
                    if list_ex (\<lambda>x. cb_Name x \<noteq> backendName \<and> EffectiveOfferID x = offerID) (cf_Backends cfg)
                    then (Inl (ErrText (''wallet offer '' @ offerID @ '' is already attached to another backend'')), w)
                    else (case ops_Account s w of
                            (Inl e, w) \<Rightarrow> (Inl e, w)
                          | (Inr acc, w) \<Rightarrow>
                              (case attach_offer cfg i acc backendName offerID of Inl e \<Rightarrow> (Inl e, w) | Inr cfg \<Rightarrow> save cfg w))))
      | _ \<Rightarrow> (Inl (ErrText ''configuration persistence is unavailable''), w))"

definition done_of :: "(client_action result \<times> 'w) option \<Rightarrow> (unit result \<times> 'w) option" where
  "done_of r = map_option (\<lambda>(x, w). (and_then x (\<lambda>_. Inr ()), w)) r"

definition Deposit :: "'w ops_service \<Rightarrow> string \<Rightarrow> 'w \<Rightarrow> (unit result \<times> 'w) option" where
  "Deposit s amountMON w =
     (case ParseMON amountMON of
        Inl e \<Rightarrow> Some (Inl e, w)
      | Inr amount \<Rightarrow>
          if amount = ''0'' then Some (Inl (ErrText ''deposit amount must be positive''), w)
          else done_of (ops_execute s \<lparr>pi_Kind = ''deposit_collateral'', pi_AmountWei = amount, pi_Offers = []\<rparr> w))"

definition RequestExit :: "'w ops_service \<Rightarrow> 'w \<Rightarrow> (unit result \<times> 'w) option" where
  "RequestExit s w = done_of (ops_execute s \<lparr>pi_Kind = ''request_collateral_exit'', pi_AmountWei = '''', pi_Offers = []\<rparr> w)"

definition FinalizeExit :: "'w ops_service \<Rightarrow> 'w \<Rightarrow> (unit result \<times> 'w) option" where
  "FinalizeExit s w = done_of (ops_execute s \<lparr>pi_Kind = ''finalize_collateral_exit'', pi_AmountWei = '''', pi_Offers = []\<rparr> w)"

definition sync_backend :: "(string \<times> u64) list \<Rightarrow> cfg_backend \<Rightarrow> cfg_backend" where
  "sync_backend versions b =
     (let version = version_of versions (EffectiveOfferID b)
      in if version > 0 \<and> version \<noteq> cb_PriceVersion b then b\<lparr>cb_PriceVersion := version\<rparr> else b)"

definition SyncVersions :: "'w ops_service \<Rightarrow> 'w \<Rightarrow> bool result \<times> 'w" where
  "SyncVersions s w =
     (case (sv_API s, sv_LoadConfig s, sv_SaveConfig s) of
        (Some api, Some load, Some save) \<Rightarrow>
          (case api_MachineOfferVersions api (sv_Token s) (sv_MachineID s) w of
             (Inl e, w) \<Rightarrow> (Inl e, w)
           | (Inr versions, w) \<Rightarrow>
               (case load w of
                  (Inl e, w) \<Rightarrow> (Inl e, w)
                | (Inr cfg, w) \<Rightarrow>
                    if list_ex (\<lambda>b. version_of versions (EffectiveOfferID b) > 0 \<and> version_of versions (EffectiveOfferID b) \<noteq> cb_PriceVersion b) (cf_Backends cfg)
                    then (case save (cfg\<lparr>cf_Backends := map (sync_backend versions) (cf_Backends cfg)\<rparr>) w of
                            (Inl e, w) \<Rightarrow> (Inl e, w) | (Inr _, w) \<Rightarrow> (Inr True, w))
                    else (Inr False, w)))
      | _ \<Rightarrow> (Inl (ErrText ''version synchronization is unavailable''), w))"

section \<open>Amounts are exact\<close>

text \<open>A decimal numeral with at most 18 digits after its point, its value and the value in wei.\<close>

definition mon_parts :: "string \<Rightarrow> string \<times> string" where
  "mon_parts v = (takeWhile (\<lambda>c. c \<noteq> CHR ''.'') v, drop 1 (dropWhile (\<lambda>c. c \<noteq> CHR ''.'') v))"

definition mon_numeral :: "string \<Rightarrow> bool" where
  "mon_numeral v \<longleftrightarrow> (case mon_parts v of (whole, fraction) \<Rightarrow>
     whole \<noteq> [] \<and> list_all is_digit whole \<and> list_all is_digit fraction \<and> length fraction \<le> 18 \<and> (CHR ''.'' \<in> set v \<longrightarrow> fraction \<noteq> []))"

definition mon_value :: "string \<Rightarrow> rat" where
  "mon_value v = (case mon_parts v of (whole, fraction) \<Rightarrow>
     of_nat (digits_val whole) + of_nat (digits_val fraction) / 10 ^ length fraction)"

lemma trim_left_id:
  assumes "\<And>c cs. c # cs \<in> set rs \<Longrightarrow> s \<noteq> [] \<Longrightarrow> c \<noteq> hd s"
  shows "trim_left rs s = s"
proof -
  have "find (\<lambda>r. r \<noteq> [] \<and> prefix r s) rs = None"
    using assms by (fastforce simp: find_None_iff prefix_def neq_Nil_conv)
  then show ?thesis by (subst trim_left.simps) simp
qed

definition numeral_char :: "char \<Rightarrow> bool" where
  "numeral_char c \<longleftrightarrow> 46 \<le> (of_char c :: nat) \<and> (of_char c :: nat) \<le> 57"

lemma numeral_char_intros: "is_digit c \<Longrightarrow> numeral_char c" "numeral_char (CHR ''.'')"
  by (auto simp: is_digit_def numeral_char_def less_eq_char_def)

lemma space_runes_ends: "list_all (\<lambda>r. r \<noteq> [] \<and> \<not> numeral_char (hd r) \<and> \<not> numeral_char (last r)) space_runes"
  by (simp add: space_runes_def numeral_char_def)

lemma trim_space_numeral:
  assumes "list_all numeral_char v"
  shows "trim_space v = v"
proof -
  have "trim_left space_runes v = v"
    by (rule trim_left_id) (use assms space_runes_ends in \<open>fastforce simp: list_all_iff\<close>)
  moreover have "trim_left (map rev space_runes) (rev v) = rev v"
  proof (rule trim_left_id)
    fix c cs assume "c # cs \<in> set (map rev space_runes)" "rev v \<noteq> []"
    then have "c # cs \<in> rev ` set space_runes" by simp
    then obtain r where "c # cs = rev r" "r \<in> set space_runes" by (rule imageE)
    then have "\<not> numeral_char c" using space_runes_ends by (metis hd_rev list.sel(1) list_all_iff)
    moreover have "numeral_char (hd (rev v))" using assms \<open>rev v \<noteq> []\<close> by (metis hd_in_set list_all_iff set_rev)
    ultimately show "c \<noteq> hd (rev v)" by blast
  qed
  ultimately show ?thesis by (simp add: trim_space_def)
qed

lemma digits_val_append: "digits_val (a @ b) = digits_val a * 10 ^ length b + digits_val b"
  by (induction b rule: rev_induct) (simp_all add: digits_val_def algebra_simps flip: append_assoc)

lemma digits_val_zeros: "digits_val (replicate k (CHR ''0'')) = 0"
  by (induction k) (simp_all add: digits_val_def digit_val_def)

lemma digits_val_padded: "digits_val (f @ replicate k (CHR ''0'')) = digits_val f * 10 ^ k"
  by (simp add: digits_val_append digits_val_zeros)

lemma digit_no_sign: "is_digit c \<Longrightarrow> c \<noteq> CHR ''-'' \<and> c \<noteq> CHR ''+''"
  by (auto simp: is_digit_def less_eq_char_def)

lemma digits_read_back:
  assumes "s \<noteq> []" "list_all is_digit s"
  shows "big_set_string s = Some (int (digits_val s))"
proof -
  obtain c cs where s: "s = c # cs" using assms(1) by (cases s) auto
  then have "c \<noteq> CHR ''-'' \<and> c \<noteq> CHR ''+''" using assms(2) by (intro digit_no_sign) simp
  then show ?thesis using assms s by (simp add: big_set_string_def)
qed

lemma mon_parts_whole: "CHR ''.'' \<notin> set v \<Longrightarrow> mon_parts v = (v, [])"
  by (induction v) (auto simp: mon_parts_def)

lemma mon_parts_point: "CHR ''.'' \<notin> set a \<Longrightarrow> mon_parts (a @ CHR ''.'' # b) = (a, b)"
  by (auto simp: mon_parts_def takeWhile_append dropWhile_append)

definition mon_wei :: "string \<Rightarrow> nat" where
  "mon_wei v = (case mon_parts v of (whole, fraction) \<Rightarrow> digits_val whole * 10 ^ 18 + digits_val fraction * 10 ^ (18 - length fraction))"

lemma mon_wei_value: "mon_numeral v \<Longrightarrow> of_nat (mon_wei v) = mon_value v * 10 ^ 18"
proof -
  assume v: "mon_numeral v"
  obtain a b where p: "mon_parts v = (a, b)" by fastforce
  have len: "length b \<le> 18" using v p by (simp add: mon_numeral_def)
  then have "(10 :: rat) ^ 18 = 10 ^ length b * 10 ^ (18 - length b)" by (simp flip: power_add)
  then show ?thesis using p by (simp add: mon_wei_def mon_value_def field_simps)
qed

lemma int_string_int: "int_string (int n) = nat_string n"
  by (simp add: int_string_def)

lemma numeral_plain:
  assumes "list_all numeral_char v" "v \<noteq> []"
  shows "\<not> (trim_space v \<noteq> v \<or> prefix ''-'' v \<or> list_ex (\<lambda>c. c \<in> set ''eE+'') v)"
proof -
  have "\<not> numeral_char (CHR ''-'')" "\<forall>c \<in> set ''eE+''. \<not> numeral_char c" by (simp_all add: numeral_char_def)
  then show ?thesis using assms trim_space_numeral [OF assms(1)] by (auto simp: list_ex_iff list_all_iff prefix_def)
qed

lemma ParseMON_whole:
  assumes "CHR ''.'' \<notin> set v"
  shows "ParseMON v = (if mon_numeral v then if int (mon_wei v) > maxUint256 then Inl (ErrText ''MON amount exceeds uint256'')
    else Inr (nat_string (mon_wei v)) else Inl mon_error)"
proof (cases "mon_numeral v")
  case True
  then have d: "v \<noteq> []" "list_all is_digit v" using mon_parts_whole [OF assms] by (simp_all add: mon_numeral_def)
  then have "list_all numeral_char v" by (auto simp: list_all_iff numeral_char_intros)
  note np = numeral_plain [OF this d(1)]
  have w: "int (digits_val v) * weiPerMON = int (mon_wei v)"
    using mon_parts_whole [OF assms] by (simp add: mon_wei_def weiPerMON_def digits_val_def)
  show ?thesis
    using True d np by (simp add: ParseMON_def split_on_id [OF assms] decimalDigits_def digits_read_back w int_string_int Let_def)
next
  case False
  then have "v = [] \<or> \<not> list_all is_digit v" using mon_parts_whole [OF assms] assms by (auto simp: mon_numeral_def)
  then show ?thesis using False by (auto simp: ParseMON_def split_on_id [OF assms] decimalDigits_def Let_def)
qed

lemma ParseMON_point:
  assumes "v = a @ CHR ''.'' # b" "CHR ''.'' \<notin> set a"
  shows "ParseMON v = (if mon_numeral v then if int (mon_wei v) > maxUint256 then Inl (ErrText ''MON amount exceeds uint256'')
    else Inr (nat_string (mon_wei v)) else Inl mon_error)"
proof (cases "mon_numeral v")
  case True
  have p: "mon_parts v = (a, b)" using mon_parts_point [OF assms(2)] assms(1) by simp
  have d: "a \<noteq> []" "list_all is_digit a" "b \<noteq> []" "list_all is_digit b" "length b \<le> 18"
    using True p assms(1) by (simp_all add: mon_numeral_def)
  have "list_all numeral_char v" using d assms(1) by (auto simp: list_all_iff numeral_char_intros)
  moreover have v: "v \<noteq> []" using assms(1) by simp
  ultimately have np: "\<not> (trim_space v \<noteq> v \<or> prefix ''-'' v \<or> list_ex (\<lambda>c. c \<in> set ''eE+'') v)" by (rule numeral_plain)
  have "\<not> is_digit (CHR ''.'')" by (simp add: is_digit_def less_eq_char_def)
  then have "CHR ''.'' \<notin> set b" using d(4) by (auto simp: list_all_iff)
  then have sp: "split_on (CHR ''.'') v = [a, b]" using assms by (simp add: split_on_append split_on_id)
  have "list_all is_digit (b @ replicate (18 - length b) (CHR ''0''))"
    using d(4) by (auto simp: list_all_iff set_replicate_conv_if is_digit_def less_eq_char_def)
  then have f: "big_set_string (b @ replicate (18 - length b) (CHR ''0'')) = Some (int (digits_val b * 10 ^ (18 - length b)))"
    using d(3) by (simp add: digits_read_back digits_val_padded)
  have w: "int (digits_val a) * weiPerMON + int (digits_val b * 10 ^ (18 - length b)) = int (mon_wei v)"
    using p by (simp add: mon_wei_def weiPerMON_def)
  show ?thesis
    using True d np v
    by (simp add: ParseMON_def sp decimalDigits_def digits_read_back f w int_string_int Let_def del: of_nat_mult)
next
  case False
  have p: "mon_parts v = (a, b)" using mon_parts_point [OF assms(2)] assms(1) by simp
  have bad: "a = [] \<or> \<not> list_all is_digit a \<or> b = [] \<or> \<not> list_all is_digit b \<or> length b > 18"
    using False p by (auto simp: mon_numeral_def)
  have sp: "split_on (CHR ''.'') v = a # split_on (CHR ''.'') b" using assms by (simp add: split_on_append)
  show ?thesis
  proof (cases "split_on (CHR ''.'') b = [b]")
    case True
    then show ?thesis using False bad by (auto simp: ParseMON_def sp decimalDigits_def Let_def)
  next
    case many: False
    then have "CHR ''.'' \<in> set b" using split_on_id by blast
    then obtain c e where "b = c @ CHR ''.'' # e" "CHR ''.'' \<notin> set c" using split_list_first by fastforce
    then have "length (split_on (CHR ''.'') b) > 1" by (simp add: split_on_append)
    then show ?thesis using False by (simp add: ParseMON_def sp Let_def)
  qed
qed

lemma ParseMON_numeral:
  "ParseMON v = (if mon_numeral v then if mon_wei v < 2 ^ 256 then Inr (nat_string (mon_wei v))
    else Inl (ErrText ''MON amount exceeds uint256'') else Inl mon_error)"
proof -
  have "ParseMON v = (if mon_numeral v then if int (mon_wei v) > maxUint256 then Inl (ErrText ''MON amount exceeds uint256'')
    else Inr (nat_string (mon_wei v)) else Inl mon_error)"
  proof (cases "CHR ''.'' \<in> set v")
    case True
    then obtain a b where "v = a @ CHR ''.'' # b" "CHR ''.'' \<notin> set a" using split_list_first by fastforce
    then show ?thesis by (rule ParseMON_point)
  next
    case False
    then show ?thesis by (rule ParseMON_whole)
  qed
  moreover have "int (mon_wei v) > maxUint256 \<longleftrightarrow> \<not> mon_wei v < 2 ^ 256" by (simp add: maxUint256_def) arith
  ultimately show ?thesis by auto
qed

text \<open>C31: A price in MON is converted exactly. \<open>ParseMON\<close> accepts a text iff it is a decimal numeral with at most 18 digits after
  its point, each side of which is non-empty, and its value in wei fits in 256 bits; the result is the numeral of
  \<open>10^18\<close> times the value, without rounding.\<close>

theorem ParseMON_exact:
  "ParseMON v = Inr s \<longleftrightarrow> mon_numeral v \<and> (\<exists>n. of_nat n = mon_value v * 10 ^ 18 \<and> n < 2 ^ 256 \<and> s = nat_string n)"
proof -
  have "of_nat n = mon_value v * 10 ^ 18 \<longleftrightarrow> n = mon_wei v" if "mon_numeral v" for n
    using mon_wei_value [OF that] by (metis of_nat_eq_iff)
  then show ?thesis by (auto simp: ParseMON_numeral)
qed

section \<open>Waiting for the wallet\<close>

text \<open>
  What the service relies on: an action that it created or polled keeps its identifier and its time of expiry, and waiting advances the clock.
  \<open>watch i t w\<close> says that in world \<open>w\<close> action \<open>i\<close> expires at \<open>t\<close> if it is still there, \<open>held a w\<close> that the broker has the action \<open>a\<close>, and
  \<open>ready w\<close> that the action about to be created gets an identifier of its own.
\<close>

locale wallet_approval =
  fixes s :: "'w ops_service" and api :: "'w provider_api" and watch :: "string \<Rightarrow> int \<Rightarrow> 'w \<Rightarrow> bool" and held :: "client_action \<Rightarrow> 'w \<Rightarrow> bool"
    and ready :: "'w \<Rightarrow> bool" and disk :: "'w \<Rightarrow> provider_config option"
  assumes api: "sv_API s = Some api"
    and created: "ready w \<Longrightarrow> api_CreateProviderAction api (sv_Token s) input w = (Inr a, w')
      \<Longrightarrow> ca_Status a \<noteq> ''confirmed'' \<and> (\<exists>t. ca_ExpiresAt a = Some t \<and> watch (ca_ID a) t w')"
    and browsed: "sv_OpenURL s = Some browse \<Longrightarrow> watch i t w \<Longrightarrow> browse u w = (True, w') \<Longrightarrow> watch i t w'"
    and polled: "watch i t w \<Longrightarrow> api_ProviderAction api (sv_Token s) i w = (Inr a, w')
      \<Longrightarrow> ca_ID a = i \<and> ca_ExpiresAt a = Some t \<and> watch i t w' \<and> held a w' \<and> sv_Now s w \<le> sv_Now s w'"
    and waited: "watch i t w \<Longrightarrow> sv_Wait s w = (Inr (), w') \<Longrightarrow> watch i t w' \<and> sv_Now s w < sv_Now s w'"
    and created_disk: "api_CreateProviderAction api (sv_Token s) input w = (r, w') \<Longrightarrow> disk w' = disk w"
    and browsed_disk: "sv_OpenURL s = Some browse \<Longrightarrow> browse u w = (ok, w') \<Longrightarrow> disk w' = disk w"
    and polled_disk: "api_ProviderAction api (sv_Token s) i w = (ra, w') \<Longrightarrow> disk w' = disk w"
    and waited_disk: "sv_Wait s w = (ru, w') \<Longrightarrow> disk w' = disk w"
begin

lemma poll_returns:
  assumes "watch (ca_ID a) t w" "ca_ExpiresAt a = Some t" "ca_Status a = ''confirmed'' \<longrightarrow> held a w"
  shows "\<exists>r w'. poll s api a w = Some (r, w') \<and> disk w' = disk w \<and> (\<forall>b. r = Inr b \<longrightarrow> ca_Status b = ''confirmed'' \<and> held b w')"
  using assms
proof (induction "nat (t + 1 - sv_Now s w)" arbitrary: a w rule: less_induct)
  case less
  show ?case
  proof (cases "ca_Status a = ''confirmed'' \<or> sv_Now s w > t")
    case True
    then show ?thesis using less.prems by (subst poll.simps) auto
  next
    case False
    obtain r1 w1 where w1: "sv_Wait s w = (r1, w1)" by fastforce
    obtain r2 w2 where w2: "api_ProviderAction api (sv_Token s) (ca_ID a) w1 = (r2, w2)" by fastforce
    show ?thesis
    proof (cases "is_ok r1 \<and> is_ok r2")
      case True
      then obtain b where b: "r1 = Inr ()" "r2 = Inr b" by (auto simp: is_ok_iff)
      note w = waited [OF less.prems(1) w1 [unfolded b(1)]]
      note p = polled [OF w [THEN conjunct1] w2 [unfolded b(2)]]
      have "nat (t + 1 - sv_Now s w2) < nat (t + 1 - sv_Now s w)" using w p False by linarith
      from less.hyps [OF this] have "\<exists>r w'. poll s api b w2 = Some (r, w') \<and> disk w' = disk w2 \<and> (\<forall>c. r = Inr c \<longrightarrow> ca_Status c = ''confirmed'' \<and> held c w')"
        using p by simp
      then show ?thesis using False less.prems(2) w1 w2 b waited_disk [OF w1] polled_disk [OF w2] by (subst poll.simps) auto
    next
      case fails: False
      then show ?thesis using False less.prems(2) w1 w2 waited_disk [OF w1] polled_disk [OF w2]
        by (subst poll.simps) (auto simp: is_ok_iff split: sum.splits)
    qed
  qed
qed

text \<open>Without freshness, if the call returns, the configuration is still as it was.\<close>

lemma poll_disk:
  assumes "poll s api a w = Some y"
  shows "disk (snd y) = disk w"
proof -
  have "s = s \<longrightarrow> api = api \<longrightarrow> disk (snd y) = disk w"
  proof (rule poll.raw_induct [where P = "\<lambda>s' api' a w y. s' = s \<longrightarrow> api' = api \<longrightarrow> disk (snd y) = disk w", OF _ assms], goal_cases)
    case (1 poll' s' api' a w y)
    obtain r1 w1 where w1: "sv_Wait s w = (r1, w1)" by fastforce
    obtain r2 w2 where w2: "api_ProviderAction api (sv_Token s) (ca_ID a) w1 = (r2, w2)" by fastforce
    note kept = waited_disk [OF w1] polled_disk [OF w2]
    show ?case
    proof (intro impI)
      assume eq: "s' = s" "api' = api"
      note body = 1(2) [unfolded eq w1]
      have IH: "poll' s api b w2 = Some y \<Longrightarrow> disk (snd y) = disk w2" for b using 1(1) by blast
      show "disk (snd y) = disk w"
      proof (cases r1)
        case (Inl e)
        then show ?thesis using body kept by (auto split: if_splits)
      next
        case (Inr u)
        then show ?thesis using body [unfolded Inr prod.case sum.case w2] kept IH by (cases r2) (auto split: if_splits)
      qed
    qed
  qed
  then show ?thesis by simp
qed

lemma execute_disk: "ops_execute s input w = Some (r, w') \<Longrightarrow> disk w' = disk w"
  by (auto simp: ops_execute_def api Let_def split: sum.splits option.splits prod.splits bool.splits
      dest!: created_disk browsed_disk [rotated] poll_disk)

lemma execute_returns:
  assumes "ready w"
  shows "\<exists>r w'. ops_execute s input w = Some (r, w') \<and> disk w' = disk w \<and> (\<forall>b. r = Inr b \<longrightarrow> ca_Status b = ''confirmed'' \<and> held b w')"
proof -
  obtain r1 w1 where c: "api_CreateProviderAction api (sv_Token s) input w = (r1, w1)" by fastforce
  show ?thesis
  proof (cases r1)
    case (Inl e)
    then show ?thesis using c created_disk [OF c] by (simp add: ops_execute_def api)
  next
    case (Inr a)
    obtain t where t: "ca_Status a \<noteq> ''confirmed''" "ca_ExpiresAt a = Some t" "watch (ca_ID a) t w1"
      using created [OF assms c [unfolded Inr]] by blast
    note d = created_disk [OF c]
    have "\<exists>r w'. poll s api a w2 = Some (r, w') \<and> disk w' = disk w \<and> (\<forall>b. r = Inr b \<longrightarrow> ca_Status b = ''confirmed'' \<and> held b w')"
      if "sv_OpenURL s = Some browse" "browse u w1 = (True, w2)" for browse u w2
      using poll_returns [OF browsed [OF that(1) t(3) that(2)] t(2)] t(1) d browsed_disk [OF that] by auto
    then show ?thesis using c Inr d
      by (auto simp: ops_execute_def api Let_def dest: browsed_disk split: sum.split option.split prod.split bool.split)
  qed
qed

end

section \<open>The service and the broker\<close>

text \<open>
  The broker's handlers behind the client. While the service waits, others use the broker: \<open>ow_others\<close> gives what they do in each wait,
  and \<open>ow_cancelled\<close> the waits in which the service is interrupted. The broker's clock differs from the client's by a constant.
\<close>

record ops_world =
  ow_store :: actionStore
  ow_now :: int
  ow_tick :: nat
  ow_random :: "bytes result"
  ow_others :: "nat \<Rightarrow> action_op list"
  ow_cancelled :: "nat \<Rightarrow> bool"
  ow_config :: "provider_config option"

definition received :: "providerAction \<Rightarrow> client_action" where
  "received a = \<lparr>ca_ID = pa_ID a, ca_Kind = pa_Kind a, ca_Status = pa_Status a, ca_WalletAddress = pa_WalletAddress a,
     ca_AmountWei = pa_AmountWei a, ca_Offers = pa_Offers a, ca_TransactionHashes = pa_TransactionHashes a, ca_Versions = pa_Versions a,
     ca_ExpiresAt = Some (pa_ExpiresAt a)\<rparr>"

definition client_reply :: "action_reply \<Rightarrow> client_action result" where
  "client_reply reply =
     (case reply of
        ActionReply status a \<Rightarrow> response_result (\<lambda>_. Inr (received a)) status []
      | ActionError status \<Rightarrow> response_result (\<lambda>_. Inl (ErrText ''no action'')) status [])"

record broker_side =
  bk_prepare :: "prepare_fun option"
  bk_verify :: "verify_fun option"
  bk_auth :: "string \<Rightarrow> action_auth"
  bk_account :: "providerAccount result"
  bk_versions :: "(string \<times> u64) list result"
  bk_skew :: int

definition broker_api :: "broker_side \<Rightarrow> ops_world provider_api" where
  "broker_api k =
     \<lparr>api_ProviderAccount = (\<lambda>token w. (bk_account k, w)),
      api_CreateProviderAction = (\<lambda>token input w.
        case actions_create (bk_prepare k) (ow_random w) (ow_now w + bk_skew k) (bk_auth k token) (Inr input) (ow_store w) of
          (reply, st) \<Rightarrow> (client_reply reply, w\<lparr>ow_store := st\<rparr>)),
      api_ProviderAction = (\<lambda>token i w.
        case actions_get (bk_verify k) (ow_now w + bk_skew k) (bk_auth k token) i (ow_store w) of
          (reply, st) \<Rightarrow> (client_reply reply, w\<lparr>ow_store := st\<rparr>)),
      api_MachineOfferVersions = (\<lambda>token machineID w. (bk_versions k, w))\<rparr>"

definition wait_others :: "ops_world \<Rightarrow> unit result \<times> ops_world" where
  "wait_others w =
     (if ow_cancelled w (ow_tick w) then (Inl (ErrText ''context canceled''), w)
      else (Inr (), w\<lparr>ow_now := ow_now w + 2 * 10 ^ 9, ow_tick := ow_tick w + 1,
              ow_store := foldl (\<lambda>st x. snd (action_exec x st)) (ow_store w) (ow_others w (ow_tick w))\<rparr>))"

record client_side =
  cs_Token :: string
  cs_MachineID :: string
  cs_WebURL :: string
  cs_OpenURL :: "string \<Rightarrow> bool"
  cs_Parse :: "string \<Rightarrow> web_url result"
  cs_String :: "web_url \<Rightarrow> string"
  cs_load_faults :: faults
  cs_save_faults :: faults

definition broker_service :: "broker_side \<Rightarrow> client_side \<Rightarrow> ops_world ops_service" where
  "broker_service k c =
     \<lparr>sv_API = Some (broker_api k), sv_Token = cs_Token c, sv_MachineID = cs_MachineID c, sv_WebURL = cs_WebURL c,
      sv_LoadConfig = Some (\<lambda>w. (config_Load (cs_load_faults c) (ow_config w), w)),
      sv_SaveConfig = Some (\<lambda>cfg w. case config_Save (cs_save_faults c) cfg (ow_config w) of (r, disk) \<Rightarrow> (r, w\<lparr>ow_config := disk\<rparr>)),
      sv_OpenURL = Some (\<lambda>u w. (cs_OpenURL c u, w)), sv_Wait = wait_others, sv_Now = ow_now, sv_Parse = cs_Parse c, sv_String = cs_String c\<rparr>"

definition known :: "string \<Rightarrow> int \<Rightarrow> actionStore \<Rightarrow> bool" where
  "known i t st \<longleftrightarrow> (\<forall>a. (i, a) \<in> set st \<longrightarrow> pa_ID a = i \<and> pa_ExpiresAt a = t)"

fun creates :: "string \<Rightarrow> action_op \<Rightarrow> bool" where
  "creates i (AcCreate prepare (Inr b) now r body) \<longleftrightarrow> raw_url_encode b = i"
| "creates i x \<longleftrightarrow> False"

definition never_created :: "string \<Rightarrow> ops_world \<Rightarrow> bool" where
  "never_created i w \<longleftrightarrow> (\<forall>k. \<forall>x \<in> set (ow_others w k). \<not> creates i x)"

definition action_watched :: "string \<Rightarrow> int \<Rightarrow> ops_world \<Rightarrow> bool" where
  "action_watched i t w \<longleftrightarrow> known i t (ow_store w) \<and> never_created i w"

definition action_held :: "client_action \<Rightarrow> ops_world \<Rightarrow> bool" where
  "action_held a w \<longleftrightarrow> (\<exists>x. (ca_ID a, x) \<in> set (ow_store w) \<and> received x = a)"

definition fresh_action :: "ops_world \<Rightarrow> bool" where
  "fresh_action w \<longleftrightarrow> distinct (map fst (ow_store w)) \<and> (\<forall>b. ow_random w = Inr b \<longrightarrow> never_created (raw_url_encode b) w)"

lemma live_action_set:
  "live_action now i st = (x, st') \<Longrightarrow> set st' \<subseteq> set st \<and> (\<forall>a. x = Some a \<longrightarrow> (i, a) \<in> set st')"
  by (auto simp: live_action_def AList.delete_eq dest: map_of_SomeD split: option.splits if_splits)

lemma known_subset: "known i t st \<Longrightarrow> set st' \<subseteq> set st \<Longrightarrow> known i t st'"
  by (auto simp: known_def)

lemma known_update:
  assumes "known i t st" "i' = i \<longrightarrow> pa_ID a = i \<and> pa_ExpiresAt a = t"
  shows "known i t (AList.update i' a st)"
  using assms by (auto simp: known_def dest!: set_update)

lemma known_changed:
  assumes "known i t st" "map_of st i' = Some a" "pa_ID a' = pa_ID a" "pa_ExpiresAt a' = pa_ExpiresAt a"
  shows "known i t (AList.update i' a' st)"
  using assms by (intro known_update) (auto simp: known_def dest!: map_of_SomeD)

lemma Confirm_known:
  assumes "known i t st" "action_Confirm i' acc vs st = (x, st')"
  shows "known i t st' \<and> (\<forall>a. x = Some a \<and> i' = i \<longrightarrow> pa_ID a = i \<and> pa_ExpiresAt a = t \<and> (i, a) \<in> set st')"
proof (cases "map_of st i'")
  case (Some a)
  then show ?thesis
    using assms known_changed [OF assms(1) Some, of "a\<lparr>pa_Status := ''confirmed'', pa_Versions := vs\<rparr>"]
    by (auto simp: action_Confirm_def Let_def known_def dest: map_of_SomeD intro: map_of_SomeD [OF update_Some_unfold [THEN iffD2]] split: if_splits)
qed (use assms in \<open>simp add: action_Confirm_def\<close>)

lemma get_known:
  assumes "known i t st" "actions_get verify now r i' st = (reply, st')"
  shows "known i t st' \<and> (\<forall>c a. reply = ActionReply c a \<and> i' = i \<longrightarrow> pa_ID a = i \<and> pa_ExpiresAt a = t \<and> (i, a) \<in> set st')"
proof (cases "action_identity r")
  case (Inr who)
  obtain src m acc where who: "who = (src, m, acc)" by (cases who) auto
  obtain x st1 where g: "GetForAccount now i' acc st = (x, st1)" by fastforce
  have st1: "set st1 \<subseteq> set st \<and> (\<forall>a. x = Some a \<longrightarrow> (i', a) \<in> set st1)"
    using g by (auto simp: GetForAccount_def split: prod.splits option.splits if_splits dest!: live_action_set)
  then have k: "known i t st1" using assms(1) known_subset by blast
  show ?thesis
  proof (cases x)
    case None
    then show ?thesis using assms(2) Inr who g k by (auto simp: actions_get_def)
  next
    case (Some a)
    then have a: "i' = i \<longrightarrow> pa_ID a = i \<and> pa_ExpiresAt a = t \<and> (i, a) \<in> set st1" using st1 k by (auto simp: known_def)
    show ?thesis using assms(2) Inr who g Some k a
      by (auto simp: actions_get_def split: option.splits if_splits sum.splits prod.splits dest!: Confirm_known [OF k])
  qed
qed (use assms in \<open>auto simp: actions_get_def\<close>)

lemma submitted_known:
  assumes "known i t st"
  shows "known i t (snd (actions_submitted now r i' body st))"
proof -
  have "known i t (snd (action_Submitted now i' acc hashes st))" for acc hashes
  proof -
    obtain x st1 where l: "live_action now i' st = (x, st1)" by fastforce
    have k: "known i t st1" using live_action_set [OF l] assms known_subset by blast
    show ?thesis
    proof (cases x)
      case (Some a)
      then have "(i', a) \<in> set st1" using live_action_set [OF l] by blast
      then have "known i t (AList.update i' (a\<lparr>pa_TransactionHashes := hashes, pa_Status := ''pending_chain''\<rparr>) st1)"
        using k by (intro known_update) (auto simp: known_def)
      then show ?thesis using l Some k by (simp add: action_Submitted_def Let_def)
    qed (use l k in \<open>simp add: action_Submitted_def\<close>)
  qed
  then show ?thesis using assms
    by (auto simp: actions_submitted_def split: sum.split prod.split option.split) (metis snd_conv)+
qed

lemma purge_known: "known i t st \<Longrightarrow> known i t (purge now st)"
  by (auto simp: known_def purge_def)

lemma update_known: "distinct (map fst st) \<Longrightarrow> pa_ID a = i \<Longrightarrow> pa_ExpiresAt a = t \<Longrightarrow> known i t (AList.update i a st)"
  unfolding known_def by (auto dest!: map_of_is_SomeI [OF distinct_update, rotated] simp: update_conv')

lemma purge_distinct: "distinct (map fst st) \<Longrightarrow> distinct (map fst (purge now st))"
  by (simp add: purge_def distinct_map_filter)

lemma Create_known:
  assumes "action_Create rnd now m acc wallet input baseline st = (x, st')"
  shows "known i t st \<longrightarrow> (\<forall>b. rnd = Inr b \<longrightarrow> raw_url_encode b \<noteq> i) \<longrightarrow> known i t st'"
    "distinct (map fst st) \<Longrightarrow> x = Inr a \<Longrightarrow> (\<exists>b. rnd = Inr b \<and> pa_ID a = raw_url_encode b) \<and> pa_Status a = ''pending_wallet''
      \<and> known (pa_ID a) (pa_ExpiresAt a) st'"
  using assms purge_known [of i t st now] known_update [of i t "purge now st"]
  by (auto simp: action_Create_def Let_def split: sum.splits if_splits intro!: update_known purge_distinct)

lemma create_known:
  assumes "actions_create prepare rnd now r body st = (reply, st')"
  shows "known i t st \<longrightarrow> (\<forall>b. rnd = Inr b \<longrightarrow> raw_url_encode b \<noteq> i) \<longrightarrow> known i t st'"
    "distinct (map fst st) \<Longrightarrow> reply = ActionReply c a \<Longrightarrow> (\<exists>b. rnd = Inr b \<and> pa_ID a = raw_url_encode b) \<and> pa_Status a = ''pending_wallet''
      \<and> known (pa_ID a) (pa_ExpiresAt a) st'"
  using assms by (auto simp: actions_create_def split: sum.splits prod.splits option.splits dest: Create_known)

lemma exec_known: "known i t st \<Longrightarrow> \<not> creates i x \<Longrightarrow> known i t (snd (action_exec x st))"
proof (induction x st rule: action_exec.induct)
  case (1 prepare rnd now r body st)
  obtain reply st' where c: "actions_create prepare rnd now r body st = (reply, st')" by fastforce
  show ?case using create_known(1) [OF c, of i t] "1.prems" c by (cases rnd) auto
next
  case (2 verify now r i' st)
  obtain reply st' where g: "actions_get verify now r i' st = (reply, st')" by fastforce
  show ?case using get_known [OF "2.prems"(1) g] g by simp
qed (simp add: submitted_known)

lemma others_known: "known i t st \<Longrightarrow> (\<forall>x \<in> set xs. \<not> creates i x) \<Longrightarrow> known i t (foldl (\<lambda>st x. snd (action_exec x st)) st xs)"
  by (induction xs arbitrary: st) (simp_all add: exec_known)

lemma client_reply_ok: "client_reply reply = Inr a \<longleftrightarrow> (\<exists>c x. reply = ActionReply c x \<and> (c = 200 \<or> c = 201) \<and> a = received x)"
  by (auto simp: client_reply_def response_result_def split: action_reply.splits if_splits)

lemma broker_created:
  assumes "fresh_action w" "api_CreateProviderAction (broker_api k) token input w = (Inr a, w')"
  shows "ca_Status a \<noteq> ''confirmed'' \<and> (\<exists>t. ca_ExpiresAt a = Some t \<and> action_watched (ca_ID a) t w')"
proof -
  obtain reply st where c: "actions_create (bk_prepare k) (ow_random w) (ow_now w + bk_skew k) (bk_auth k token) (Inr input) (ow_store w) = (reply, st)"
    by fastforce
  then obtain code x where r: "reply = ActionReply code x" "a = received x" "w' = w\<lparr>ow_store := st\<rparr>"
    using assms(2) by (auto simp: broker_api_def client_reply_ok)
  then show ?thesis
    using create_known(2) [OF c _ r(1)] assms(1) by (auto simp: fresh_action_def action_watched_def never_created_def received_def)
qed

lemma broker_polled:
  assumes "action_watched i t w" "api_ProviderAction (broker_api k) token i w = (Inr a, w')"
  shows "ca_ID a = i \<and> ca_ExpiresAt a = Some t \<and> action_watched i t w' \<and> action_held a w' \<and> ow_now w \<le> ow_now w'"
proof -
  obtain reply st where c: "actions_get (bk_verify k) (ow_now w + bk_skew k) (bk_auth k token) i (ow_store w) = (reply, st)" by fastforce
  then obtain code x where r: "reply = ActionReply code x" "a = received x" "w' = w\<lparr>ow_store := st\<rparr>"
    using assms(2) by (auto simp: broker_api_def client_reply_ok)
  then show ?thesis
    using get_known [OF _ c] assms(1) by (auto simp: action_watched_def never_created_def action_held_def received_def)
qed

lemma broker_disk:
  "api_CreateProviderAction (broker_api k) token input w = (r, w') \<Longrightarrow> ow_config w' = ow_config w"
  "api_ProviderAction (broker_api k) token i w = (r, w') \<Longrightarrow> ow_config w' = ow_config w"
  "wait_others w = (u, w') \<Longrightarrow> ow_config w' = ow_config w"
  by (auto simp: broker_api_def wait_others_def split: prod.splits if_splits)

interpretation broker: wallet_approval "broker_service k c" "broker_api k" action_watched action_held fresh_action ow_config for k c
proof
  fix i t w w' assume "action_watched i t w" "sv_Wait (broker_service k c) w = (Inr (), w')"
  then show "action_watched i t w' \<and> sv_Now (broker_service k c) w < sv_Now (broker_service k c) w'"
    by (auto simp: broker_service_def wait_others_def action_watched_def never_created_def others_known split: if_splits)
qed (auto simp: broker_service_def dest: broker_created broker_polled broker_disk)

lemma config_Save_outcome: "config_Save flt cfg disk = (r, disk') \<Longrightarrow> disk' = (if is_ok r then Some cfg else disk)"
  by (cases r) (simp_all add: config_Save_def split: sum.splits)

lemma config_Load_disk: "config_Load flt disk = Inr cfg \<Longrightarrow> disk = Some cfg"
  by (auto simp: config_Load_def stmt_def split: option.splits)

lemma write_version_ok:
  assumes "write_version cfg b v = Inr cfg'"
  shows "v \<noteq> 0 \<and> (\<exists>i < length (cf_Backends cfg). cb_Name (cf_Backends cfg ! i) = cb_Name b
    \<and> cfg' = cfg\<lparr>cf_Backends := (cf_Backends cfg)[i := (cf_Backends cfg ! i)\<lparr>cb_PriceVersion := v\<rparr>]\<rparr>)"
  using assms by (auto simp: write_version_def dest!: index_of_Some split: option.splits if_splits)

text \<open>C29: Publishing an offer through the broker ends, whatever others do at the broker meanwhile, as long as none of them is given the
  identifier of this action: the wallet's approval is confirmed, the action expires, or an error is returned. An error leaves the
  configuration as it was; otherwise the broker holds a confirmed action, and the configuration changes in one place only: the backend of that
  name gets the version that the action published for its offer, which is not zero.\<close>

theorem publish_through_broker:
  assumes "fresh_action w"
  shows "\<exists>r w'. Publish (broker_service k c) b rates w = Some (r, w') \<and>
    (case r of
       Inl _ \<Rightarrow> ow_config w' = ow_config w
     | Inr _ \<Rightarrow> \<exists>j a cfg i. (j, a) \<in> set (ow_store w') \<and> pa_Status a = ''confirmed'' \<and> ow_config w = Some cfg \<and> i < length (cf_Backends cfg)
         \<and> cb_Name (cf_Backends cfg ! i) = cb_Name b \<and> version_of (pa_Versions a) (EffectiveOfferID b) \<noteq> 0
         \<and> ow_config w' = Some (cfg\<lparr>cf_Backends := (cf_Backends cfg)[i :=
             (cf_Backends cfg ! i)\<lparr>cb_PriceVersion := version_of (pa_Versions a) (EffectiveOfferID b)\<rparr>]\<rparr>))"
proof (cases "publish_request b rates")
  case (Inl e)
  then show ?thesis by (simp add: Publish_def)
next
  case (Inr input)
  obtain r1 w1 where e: "ops_execute (broker_service k c) input w = Some (r1, w1)" and keep: "ow_config w1 = ow_config w"
    and res: "\<And>x. r1 = Inr x \<Longrightarrow> ca_Status x = ''confirmed'' \<and> action_held x w1"
    using broker.execute_returns [OF assms, of k c input] by blast
  show ?thesis
  proof (cases r1)
    case (Inl err)
    then show ?thesis using Inr e keep by (simp add: Publish_def)
  next
    case x: (Inr x)
    let ?v = "version_of (ca_Versions x) (EffectiveOfferID b)"
    obtain j a where a: "(j, a) \<in> set (ow_store w1)" "x = received a" using res [OF x] by (force simp: action_held_def)
    have st: "pa_Status a = ''confirmed''" "ca_Versions x = pa_Versions a" using res [OF x] a(2) by (simp_all add: received_def)
    have P: "Publish (broker_service k c) b rates w = (case config_Load (cs_load_faults c) (ow_config w) of Inl e \<Rightarrow> Some (Inl e, w1)
        | Inr cfg \<Rightarrow> (case write_version cfg b ?v of Inl e \<Rightarrow> Some (Inl e, w1)
           | Inr cfg \<Rightarrow> Some (case config_Save (cs_save_faults c) cfg (ow_config w) of (r, disk) \<Rightarrow> (r, w1\<lparr>ow_config := disk\<rparr>))))"
      using Inr e x keep by (simp add: Publish_def) (simp add: broker_service_def split: sum.split)
    show ?thesis
    proof (cases "\<exists>cfg cfg'. config_Load (cs_load_faults c) (ow_config w) = Inr cfg \<and> write_version cfg b ?v = Inr cfg'")
      case False
      then show ?thesis using P keep by (auto split: sum.splits)
    next
      case True
      then obtain cfg cfg' where l: "config_Load (cs_load_faults c) (ow_config w) = Inr cfg" "write_version cfg b ?v = Inr cfg'" by blast
      obtain r disk where s: "config_Save (cs_save_faults c) cfg' (ow_config w) = (r, disk)" by fastforce
      note d = config_Save_outcome [OF s] config_Load_disk [OF l(1)] write_version_ok [OF l(2)]
      have "Publish (broker_service k c) b rates w = Some (r, w1\<lparr>ow_config := disk\<rparr>)" using P l s by simp
      then show ?thesis using d [unfolded st(2)] a(1) st(1) by (cases r) auto
    qed
  qed
qed

text \<open>A broker whose wallet owner sends the transaction during the first wait.\<close>

definition approving_broker :: broker_side where
  "approving_broker = \<lparr>bk_prepare = Some (\<lambda>_ _ _ _. Inr (''0xw'', \<lparr>pb_BondWei = ''0'', pb_ClaimableWei = ''0'', pb_ExitAvailableAt = 0, pb_Versions = []\<rparr>)),
     bk_verify = Some (\<lambda>_. Inr ([(''o1'', 7)], True)),
     bk_auth = (\<lambda>token. \<lparr>aa_Authorization = ''Bearer '' @ token, aa_machine = Some (Inr (''m'', ''acc'')), aa_account = None\<rparr>),
     bk_account = Inl (ErrText ''unused''), bk_versions = Inl (ErrText ''unused''), bk_skew = 3\<rparr>"

definition approving_client :: client_side where
  "approving_client = \<lparr>cs_Token = ''t'', cs_MachineID = ''m'', cs_WebURL = ''https://w'', cs_OpenURL = (\<lambda>_. True),
     cs_Parse = (\<lambda>_. Inr \<lparr>pu_Scheme = ''https'', pu_Hostname = ''w'', pu_Host = ''w'', wu_Path = '''', wu_Query = []\<rparr>),
     cs_String = wu_Path, cs_load_faults = no_faults, cs_save_faults = no_faults\<rparr>"

definition approving_world :: ops_world where
  "approving_world = \<lparr>ow_store = [], ow_now = 0, ow_tick = 0, ow_random = Inr [0, 0, 0],
     ow_others = (\<lambda>k. if k = 0 then [AcSubmit 5 \<lparr>aa_Authorization = '''', aa_machine = None, aa_account = Some (Inr ''acc'')\<rparr> ''AAAA''
       (Inr [''0x'' @ replicate 64 (CHR ''a'')])] else []),
     ow_cancelled = (\<lambda>_. False), ow_config = Some plain_config\<rparr>"

definition tiny_rates :: rates_mon where
  "tiny_rates = \<lparr>rm_InputPerMillionMON = ''0.000000000000000007'', rm_OutputPerMillionMON = ''0'', rm_ComputePerSecondMON = ''0''\<rparr>"

lemma approving_publication:
  "map_option fst (Publish (broker_service approving_broker approving_client) (hd (cf_Backends plain_config)) tiny_rates approving_world) = Some (Inr ())"
  by code_simp

theorem publish_through_broker_witness:
  "\<exists>w' a j. Publish (broker_service approving_broker approving_client) (hd (cf_Backends plain_config)) tiny_rates approving_world = Some (Inr (), w')
     \<and> (j, a) \<in> set (ow_store w') \<and> pa_Status a = ''confirmed''"
proof -
  have "fresh_action approving_world" by (simp add: fresh_action_def never_created_def approving_world_def)
  from publish_through_broker [OF this, of approving_broker approving_client "hd (cf_Backends plain_config)" tiny_rates]
  show ?thesis using approving_publication by (fastforce split: sum.splits)
qed

section \<open>Offers stay apart\<close>

text \<open>The daemon finds the backend of a job by its offer: two backends must not have the same one.\<close>

definition offers_apart :: "provider_config \<Rightarrow> bool" where
  "offers_apart cfg \<longleftrightarrow> distinct (map cb_Name (cf_Backends cfg)) \<and> distinct (map EffectiveOfferID (cf_Backends cfg))"

lemma distinct_map_change:
  assumes "distinct (map f xs)" "i < length xs" "\<And>j. j < length xs \<Longrightarrow> j \<noteq> i \<Longrightarrow> f (xs ! j) \<noteq> f x"
  shows "distinct (map f (xs[i := x]))"
  using assms unfolding distinct_conv_nth by (auto simp: nth_list_update) (metis)+

lemma map_same_change: "i < length xs \<Longrightarrow> f x = f (xs ! i) \<Longrightarrow> map f (xs[i := x]) = map f xs"
  by (metis list_update_id map_update)

lemma write_version_apart: "offers_apart cfg \<Longrightarrow> write_version cfg b v = Inr cfg' \<Longrightarrow> offers_apart cfg'"
  by (auto dest!: write_version_ok simp: offers_apart_def map_same_change EffectiveOfferID_def)

lemma sync_apart: "offers_apart cfg \<Longrightarrow> offers_apart (cfg\<lparr>cf_Backends := map (sync_backend vs) (cf_Backends cfg)\<rparr>)"
proof -
  have "cb_Name \<circ> sync_backend vs = cb_Name" "EffectiveOfferID \<circ> sync_backend vs = EffectiveOfferID"
    by (auto simp: sync_backend_def Let_def EffectiveOfferID_def)
  then show "offers_apart cfg \<Longrightarrow> ?thesis" by (simp add: offers_apart_def)
qed

lemma attach_offer_apart:
  assumes "offers_apart cfg" "offerID \<noteq> []" "attach_offer cfg i acc name offerID = Inr cfg'"
    "index_of (\<lambda>x. cb_Name x = name) (cf_Backends cfg) = Some i"
    "\<not> list_ex (\<lambda>x. cb_Name x \<noteq> name \<and> EffectiveOfferID x = offerID) (cf_Backends cfg)"
  shows "offers_apart cfg'"
proof -
  let ?bs = "cf_Backends cfg"
  have i: "i < length ?bs" "cb_Name (?bs ! i) = name" using index_of_Some [OF assms(4)] by auto
  obtain v where cfg': "cfg' = cfg\<lparr>cf_Backends := ?bs[i := (?bs ! i)\<lparr>cb_OfferID := offerID, cb_PriceVersion := v\<rparr>]\<rparr>"
    using assms(3) by (auto simp: attach_offer_def Let_def dest: index_of_Some split: option.splits if_splits)
  have other: "EffectiveOfferID (?bs ! j) \<noteq> offerID" if "j < length ?bs" "j \<noteq> i" for j
  proof -
    have "cb_Name (?bs ! j) \<noteq> name" using assms(1) that i by (auto simp: offers_apart_def distinct_conv_nth)
    then show ?thesis using assms(5) that(1) by (auto simp: list_ex_iff)
  qed
  have "distinct (map EffectiveOfferID (?bs[i := (?bs ! i)\<lparr>cb_OfferID := offerID, cb_PriceVersion := v\<rparr>]))"
    using assms(1,2) other i(1) by (intro distinct_map_change) (auto simp: offers_apart_def EffectiveOfferID_def)
  then show ?thesis using assms(1) i(1) cfg' by (simp add: offers_apart_def map_same_change)
qed

text \<open>A provider's sequence of operations, each with the broker and the client of that moment.\<close>

datatype ops_call = CallAttach string string | CallSync | CallPublish cfg_backend rates_mon

fun ops_call_run :: "broker_side \<times> client_side \<times> ops_call \<Rightarrow> ops_world \<Rightarrow> ops_world" where
  "ops_call_run (k, c, CallAttach name offerID) w = snd (Attach (broker_service k c) name offerID w)"
| "ops_call_run (k, c, CallSync) w = snd (SyncVersions (broker_service k c) w)"
| "ops_call_run (k, c, CallPublish b rates) w = (case Publish (broker_service k c) b rates w of None \<Rightarrow> w | Some (_, w') \<Rightarrow> w')"

definition world_apart :: "ops_world \<Rightarrow> bool" where
  "world_apart w \<longleftrightarrow> (\<forall>cfg. ow_config w = Some cfg \<longrightarrow> offers_apart cfg)"

definition named_offers :: "broker_side \<Rightarrow> bool" where
  "named_offers k \<longleftrightarrow> (\<forall>acc. bk_account k = Inr acc \<longrightarrow> [] \<notin> eo_OfferID ` set (pv_Offers acc))"

lemma save_apart:
  assumes "world_apart w" "offers_apart cfg"
  shows "world_apart (snd (case config_Save flt cfg (ow_config w) of (r, disk) \<Rightarrow> (r, w\<lparr>ow_config := disk\<rparr>)))"
proof -
  obtain r disk where s: "config_Save flt cfg (ow_config w) = (r, disk)" by fastforce
  show ?thesis using assms config_Save_outcome [OF s] s by (auto simp: world_apart_def)
qed

lemma Attach_apart:
  assumes "world_apart w" "named_offers k"
  shows "world_apart (snd (Attach (broker_service k c) name offerID w))"
proof -
  have ne: "attach_offer cfg i acc name offerID = Inr cfg' \<Longrightarrow> bk_account k = Inr acc \<Longrightarrow> offerID \<noteq> []" for cfg i acc cfg'
  proof -
    assume "attach_offer cfg i acc name offerID = Inr cfg'" "bk_account k = Inr acc"
    moreover from this obtain j where "index_of (\<lambda>x. eo_OfferID x = offerID) (pv_Offers acc) = Some j"
      by (auto simp: attach_offer_def split: option.splits)
    then have "eo_OfferID (pv_Offers acc ! j) = offerID" "pv_Offers acc ! j \<in> set (pv_Offers acc)" by (auto dest: index_of_Some)
    then have "offerID \<in> eo_OfferID ` set (pv_Offers acc)" by (metis imageI)
    ultimately show "offerID \<noteq> []" using assms(2) unfolding named_offers_def by metis
  qed
  have "world_apart (snd (case config_Save (cs_save_faults c) cfg' (ow_config w) of (r, disk) \<Rightarrow> (r, w\<lparr>ow_config := disk\<rparr>)))"
    if "config_Load (cs_load_faults c) (ow_config w) = Inr cfg" "bk_account k = Inr acc" "attach_offer cfg i acc name offerID = Inr cfg'"
      "index_of (\<lambda>x. cb_Name x = name) (cf_Backends cfg) = Some i"
      "\<not> list_ex (\<lambda>x. cb_Name x \<noteq> name \<and> EffectiveOfferID x = offerID) (cf_Backends cfg)" for cfg acc i cfg'
    using assms(1) config_Load_disk [OF that(1)] attach_offer_apart [OF _ ne [OF that(3,2)] that(3,4,5)]
    by (intro save_apart) (auto simp: world_apart_def)
  then show ?thesis using assms(1)
    by (auto simp: Attach_def broker_service_def broker_api_def ops_Account_def split: sum.split option.split)
qed

lemma Sync_apart:
  assumes "world_apart w"
  shows "world_apart (snd (SyncVersions (broker_service k c) w))"
proof -
  have "world_apart (snd (case config_Save (cs_save_faults c) (cfg\<lparr>cf_Backends := map (sync_backend vs) (cf_Backends cfg)\<rparr>) (ow_config w) of
      (r, disk) \<Rightarrow> (r, w\<lparr>ow_config := disk\<rparr>)))"
    if "config_Load (cs_load_faults c) (ow_config w) = Inr cfg" for cfg vs
    using assms config_Load_disk [OF that] by (intro save_apart sync_apart) (auto simp: world_apart_def)
  then show ?thesis using assms
    by (fastforce simp: SyncVersions_def broker_service_def broker_api_def split: sum.splits prod.splits)
qed

lemma Publish_apart:
  assumes "world_apart w" "Publish (broker_service k c) b rates w = Some (r, w')"
  shows "world_apart w'"
proof (cases "publish_request b rates")
  case (Inr input)
  obtain r1 w1 where e: "ops_execute (broker_service k c) input w = Some (r1, w1)"
    using assms(2) Inr by (auto simp: Publish_def split: option.splits)
  then have "ow_config w1 = ow_config w" by (rule broker.execute_disk)
  then have w1: "world_apart w1" using assms(1) by (simp add: world_apart_def)
  have "world_apart (snd (case config_Save (cs_save_faults c) cfg' (ow_config w1) of (r, disk) \<Rightarrow> (r, w1\<lparr>ow_config := disk\<rparr>)))"
    if "config_Load (cs_load_faults c) (ow_config w1) = Inr cfg" "write_version cfg b v = Inr cfg'" for cfg v cfg'
    using w1 config_Load_disk [OF that(1)] write_version_apart [OF _ that(2)] by (intro save_apart) (auto simp: world_apart_def)
  moreover have "sv_LoadConfig (broker_service k c) = Some (\<lambda>w. (config_Load (cs_load_faults c) (ow_config w), w))"
    "sv_SaveConfig (broker_service k c) = Some (\<lambda>cfg w. case config_Save (cs_save_faults c) cfg (ow_config w) of (r, disk) \<Rightarrow> (r, w\<lparr>ow_config := disk\<rparr>))"
    by (simp_all add: broker_service_def)
  ultimately show ?thesis using assms(2) Inr e w1 by (fastforce simp: Publish_def split: sum.splits prod.splits)
qed (use assms in \<open>simp add: Publish_def\<close>)

text \<open>C30: Whatever a provider attaches, publishes and synchronizes, in any order, against any state of the broker and with any failing
  access to the configuration file, the configured backends keep distinct names and distinct offers, provided that
  the offers of the wallet have identifiers.\<close>

theorem offers_stay_apart:
  assumes "world_apart w" "list_all (\<lambda>(k, c, x). named_offers k) calls"
  shows "world_apart (foldl (\<lambda>w x. ops_call_run x w) w calls)"
  using assms
proof (induction calls arbitrary: w)
  case (Cons x calls)
  obtain k c y where x: "x = (k, c, y)" by (cases x) auto
  have "world_apart (ops_call_run x w)"
    using Cons.prems x by (cases y) (auto simp: Attach_apart Sync_apart split: option.split dest: Publish_apart)
  then show ?case using Cons by simp
qed simp

definition wallet_account :: providerAccount where
  "wallet_account = \<lparr>pv_ChainID = 1, pv_ContractAddress = ''c'', pv_ExplorerURL = '''', pv_Confirmations = 1, pv_WalletAddress = ''0xw'',
     pv_MinimumBondWei = ''0'', pv_ProviderBondWei = ''0'', pv_ClaimableWei = ''0'', pv_ProviderEarningsWei = ''0'', pv_BondExitAvailableAt = 0,
     pv_Offers = [\<lparr>eo_OfferID = ''ollama-p'', eo_Model = ''q'', eo_BackendKind = ''ollama'', eo_Capabilities = [''text'', ''stream''],
       eo_MeteringMode = ''tokens_and_compute'', eo_Version = 4, eo_InputPerMillionWei = ''1'', eo_OutputPerMillionWei = ''1'',
       eo_ComputePerSecondWei = ''0''\<rparr>]\<rparr>"

definition attach_call :: "broker_side \<times> client_side \<times> ops_call" where
  "attach_call = (approving_broker\<lparr>bk_account := Inr wallet_account\<rparr>, approving_client, CallAttach ''ollama-q'' ''ollama-p'')"

theorem offers_stay_apart_witness:
  "map_option (map EffectiveOfferID \<circ> cf_Backends) (ow_config (ops_call_run attach_call approving_world)) = Some [''ollama-p''] \<and>
   world_apart (ops_call_run attach_call approving_world)"
proof
  show "map_option (map EffectiveOfferID \<circ> cf_Backends) (ow_config (ops_call_run attach_call approving_world)) = Some [''ollama-p'']"
    by code_simp
  have "world_apart approving_world"
    by (simp add: world_apart_def approving_world_def offers_apart_def plain_config_def)
  moreover have "list_all (\<lambda>(k, c, x). named_offers k) [attach_call]"
    by (simp add: attach_call_def named_offers_def wallet_account_def)
  ultimately have "world_apart (foldl (\<lambda>w x. ops_call_run x w) approving_world [attach_call])" by (rule offers_stay_apart)
  then show "world_apart (ops_call_run attach_call approving_world)" by simp
qed

text \<open>Configuring a host does not keep offers apart: the name chosen for a new backend may be the offer another one is attached to.\<close>

definition attached_config :: provider_config where
  "attached_config = plain_config\<lparr>cf_Backends := [(hd (cf_Backends plain_config))\<lparr>cb_OfferID := ''ollama-p''\<rparr>]\<rparr>"

definition namesake :: host_selection where
  "namesake = \<lparr>sl_Candidate = \<lparr>hd_Kind = ''ollama'', hd_Name = ''Ollama'', hd_URL = ''http://l'', hd_Model = ''p'', hd_Image = ''''\<rparr>, sl_Secret = ''''\<rparr>"

lemma configured_name_takes_offer:
  "offers_apart attached_config \<and>
   (\<exists>cfg w'. host_Apply None True plain_store attached_config [namesake] (unsaved_state\<lparr>cr_fails := \<lambda>_ _. False\<rparr>) = (Inr cfg, w')
     \<and> map EffectiveOfferID (cf_Backends cfg) = [''ollama-p'', ''ollama-p''])"
proof
  show "offers_apart attached_config" by (simp add: offers_apart_def attached_config_def plain_config_def)
  have "(case host_Apply None True plain_store attached_config [namesake] (unsaved_state\<lparr>cr_fails := \<lambda>_ _. False\<rparr>) of
      (Inl _, _) \<Rightarrow> False | (Inr cfg, _) \<Rightarrow> map EffectiveOfferID (cf_Backends cfg) = [''ollama-p'', ''ollama-p''])" by code_simp
  then show "\<exists>cfg w'. host_Apply None True plain_store attached_config [namesake] (unsaved_state\<lparr>cr_fails := \<lambda>_ _. False\<rparr>) = (Inr cfg, w')
     \<and> map EffectiveOfferID (cf_Backends cfg) = [''ollama-p'', ''ollama-p'']" by (auto split: prod.splits sum.splits)
qed

end
