(* ===== verification/Tui.thy ===== *)
theory Tui
  imports ProviderOps
begin

text \<open>
  The terminal interface of a provider (\<^verbatim>\<open>cli/internal/tui/model.go\<close>) as a state machine: the model, every message it handles and the
  commands it issues. Rendering is left out, except for the amounts and requests it shows. A command is run later and its answer comes back as a
  message, in any order. \<open>None\<close> is a panic. The text fields are a library's: editing is an arbitrary function of a field and an event.
\<close>

section \<open>The model\<close>

datatype tui_screen = ScreenHome | ScreenProviders | ScreenAPI | ScreenReview | ScreenStatus | ScreenOffers | ScreenOfferAttach | ScreenPricing
  | ScreenCollateral | ScreenCollateralDeposit

datatype priceStep = priceStepInput | priceStepOutput | priceStepCompute | priceStepReview

datatype apiStep = apiStepURL | apiStepKey | apiStepModel

record text_input =
  ti_Value :: string
  ti_Focused :: bool
  ti_Width :: int

record tui_candidate = host_candidate +
  hc_ID :: string
  hc_Selected :: bool

text \<open>The answers of the dependencies at the moment they are asked, with the URL parser and the text field of the libraries.\<close>

record tui_deps =
  td_ListModels :: "(string \<Rightarrow> string \<Rightarrow> string list result) option"
  td_Configure :: "(host_selection list \<Rightarrow> unit result) option"
  td_Start :: "unit result option"
  td_Stop :: bool
  td_Snapshot :: "bool result option"
  td_Backends :: "cfg_backend list"
  td_LoadBackends :: "cfg_backend list option"
  td_Account :: "providerAccount result option"
  td_Attach :: "(string \<Rightarrow> string \<Rightarrow> unit result) option"
  td_Publish :: "(cfg_backend \<Rightarrow> rates_mon \<Rightarrow> unit result) option"
  td_Deposit :: "(string \<Rightarrow> unit result) option"
  td_RequestExit :: "unit result option"
  td_FinalizeExit :: "unit result option"
  td_Parse :: "string \<Rightarrow> parsed_url result"
  td_Edit :: "text_input \<Rightarrow> string \<Rightarrow> text_input"

text \<open>Of the snapshot only whether the relay is connected is read here.\<close>

record tui_model =
  mo_screen :: tui_screen
  mo_candidates :: "tui_candidate list"
  mo_cursor :: nat
  mo_selected :: "string \<Rightarrow> bool"
  mo_secrets :: "string \<rightharpoonup> string"
  mo_width :: int
  mo_height :: int
  mo_running :: bool
  mo_confirmQuit :: bool
  mo_busy :: bool
  mo_status :: string
  mo_err :: "go_error option"
  mo_snapshot :: bool
  mo_apiCompatible :: bool
  mo_apiStep :: apiStep
  mo_apiName :: string
  mo_apiURL :: text_input
  mo_apiKey :: text_input
  mo_apiModel :: text_input
  mo_pricingBackend :: cfg_backend
  mo_priceStep :: priceStep
  mo_priceInput :: text_input
  mo_priceOutput :: text_input
  mo_priceCompute :: text_input
  mo_depositAmount :: text_input
  mo_account :: providerAccount
  mo_accountErr :: "go_error option"
  mo_attachBackend :: cfg_backend
  mo_attachOffers :: "editableOffer list"

datatype tui_cmd =
    CmdQuit
  | CmdStop
  | CmdAccount
  | CmdSnapshot
  | CmdTickStatus
  | CmdTickAccount
  | CmdListModels string string string
  | CmdConfigure "host_selection list"
  | CmdConfigureStart "host_selection list"
  | CmdStart
  | CmdAttach cfg_backend editableOffer
  | CmdPublish cfg_backend rates_mon
  | CmdDeposit string
  | CmdRequestExit
  | CmdFinalizeExit

datatype tui_msg =
    WindowSizeMsg int int
  | CatalogMsg string string string "string list result"
  | StartedMsg "unit result"
  | ConfiguredMsg "unit result"
  | SnapshotMsg "bool result"
  | PollStatusMsg
  | AccountMsg "providerAccount result"
  | PollAccountMsg
  | OperationMsg string "unit result"
  | PasteMsg string
  | MouseWheelMsg "bool option"
  | KeyPressMsg string

definition ti_SetValue :: "string \<Rightarrow> text_input \<Rightarrow> text_input" where
  "ti_SetValue v t = t\<lparr>ti_Value := v\<rparr>"

definition ti_Focus :: "text_input \<Rightarrow> text_input" where
  "ti_Focus t = t\<lparr>ti_Focused := True\<rparr>"

definition ti_Blur :: "text_input \<Rightarrow> text_input" where
  "ti_Blur t = t\<lparr>ti_Focused := False\<rparr>"

definition ti_SetWidth :: "int \<Rightarrow> text_input \<Rightarrow> text_input" where
  "ti_SetWidth n t = t\<lparr>ti_Width := n\<rparr>"

lemmas ti_defs = ti_SetValue_def ti_Focus_def ti_Blur_def ti_SetWidth_def

definition err_of :: "'a result \<Rightarrow> go_error option" where
  "err_of r = (case r of Inl e \<Rightarrow> Some e | Inr _ \<Rightarrow> None)"

definition new_input :: text_input where
  "new_input = \<lparr>ti_Value = '''', ti_Focused = False, ti_Width = 64\<rparr>"

definition zero_backend :: cfg_backend where
  "zero_backend = \<lparr>cb_Name = '''', cb_OfferID = '''', cb_Kind = '''', cb_URL = '''', cb_Model = '''', cb_PriceVersion = 0, cb_Enabled = False, cb_Image = ''''\<rparr>"

definition zero_account :: providerAccount where
  "zero_account = \<lparr>pv_ChainID = 0, pv_ContractAddress = '''', pv_ExplorerURL = '''', pv_Confirmations = 0, pv_WalletAddress = '''',
     pv_MinimumBondWei = '''', pv_ProviderBondWei = '''', pv_ClaimableWei = '''', pv_ProviderEarningsWei = '''', pv_BondExitAvailableAt = 0, pv_Offers = []\<rparr>"

definition NewModel :: "tui_candidate list \<Rightarrow> tui_model" where
  "NewModel candidates =
     \<lparr>mo_screen = ScreenHome, mo_candidates = candidates, mo_cursor = 0,
      mo_selected = (\<lambda>i. \<exists>c \<in> set candidates. hc_Selected c \<and> hc_ID c = i), mo_secrets = Map.empty, mo_width = 0, mo_height = 0,
      mo_running = False, mo_confirmQuit = False, mo_busy = False, mo_status = '''', mo_err = None, mo_snapshot = False,
      mo_apiCompatible = False, mo_apiStep = apiStepURL, mo_apiName = '''', mo_apiURL = new_input, mo_apiKey = new_input, mo_apiModel = new_input,
      mo_pricingBackend = zero_backend, mo_priceStep = priceStepInput, mo_priceInput = new_input, mo_priceOutput = new_input,
      mo_priceCompute = new_input, mo_depositAmount = new_input, mo_account = zero_account, mo_accountErr = None,
      mo_attachBackend = zero_backend, mo_attachOffers = []\<rparr>"

section \<open>Forms, lists and commands\<close>

definition move :: "nat \<Rightarrow> string \<Rightarrow> nat \<Rightarrow> nat" where
  "move cursor key n =
     (if n = 0 then 0
      else if key = ''up'' \<or> key = ''k'' then (cursor + n - 1) mod n
      else if key = ''down'' \<or> key = ''j'' then (cursor + 1) mod n
      else cursor)"

definition Resize :: "int \<Rightarrow> int \<Rightarrow> tui_model \<Rightarrow> tui_model" where
  "Resize width height m =
     (let inputWidth = (if width - 8 < 20 then 20 else width - 8)
      in m\<lparr>mo_width := width, mo_height := height, mo_apiURL := ti_SetWidth inputWidth (mo_apiURL m), mo_apiKey := ti_SetWidth inputWidth (mo_apiKey m),
           mo_apiModel := ti_SetWidth inputWidth (mo_apiModel m), mo_priceInput := ti_SetWidth inputWidth (mo_priceInput m),
           mo_priceOutput := ti_SetWidth inputWidth (mo_priceOutput m), mo_priceCompute := ti_SetWidth inputWidth (mo_priceCompute m),
           mo_depositAmount := ti_SetWidth inputWidth (mo_depositAmount m)\<rparr>)"

definition backendComputeOnly :: "cfg_backend \<Rightarrow> bool" where
  "backendComputeOnly b \<longleftrightarrow> cb_Kind b = ''kimi'' \<or> (cb_Kind b = ''codex'' \<or> cb_Kind b = ''claude'') \<and> cb_Image b \<noteq> []"

definition openAPIForm :: "bool \<Rightarrow> tui_model \<Rightarrow> tui_model" where
  "openAPIForm compatible m0 =
     (let m = m0\<lparr>mo_screen := ScreenAPI, mo_apiCompatible := compatible, mo_err := None, mo_busy := False\<rparr>
      in if compatible then m\<lparr>mo_apiStep := apiStepURL, mo_apiURL := ti_Focus (mo_apiURL m)\<rparr>
         else m\<lparr>mo_apiStep := apiStepKey, mo_apiName := ''OpenAI'', mo_apiURL := ti_SetValue ''https://api.openai.com'' (mo_apiURL m),
                mo_apiKey := ti_Focus (mo_apiKey m)\<rparr>)"

definition clearAPIForm :: "tui_model \<Rightarrow> tui_model" where
  "clearAPIForm m =
     m\<lparr>mo_apiURL := ti_Blur (ti_SetValue '''' (mo_apiURL m)), mo_apiKey := ti_Blur (ti_SetValue '''' (mo_apiKey m)),
       mo_apiModel := ti_Blur (ti_SetValue '''' (mo_apiModel m)), mo_apiName := '''', mo_err := None, mo_busy := False\<rparr>"

definition api_candidate :: "string \<Rightarrow> string \<Rightarrow> string \<Rightarrow> tui_candidate" where
  "api_candidate baseURL providerName name =
     (let c = \<lparr>hd_Kind = ''openai'', hd_Name = providerName, hd_URL = trim_right_slash baseURL, hd_Model = name, hd_Image = ''''\<rparr>
      in \<lparr>hd_Kind = hd_Kind c, hd_Name = hd_Name c, hd_URL = hd_URL c, hd_Model = hd_Model c, hd_Image = hd_Image c, hc_ID = StableID c, hc_Selected = False\<rparr>)"

fun addAPICandidates :: "string \<Rightarrow> string \<Rightarrow> string \<Rightarrow> string list \<Rightarrow> tui_model \<Rightarrow> tui_model" where
  "addAPICandidates baseURL providerName secret [] m = m"
| "addAPICandidates baseURL providerName secret (name # names) m =
     (let c = api_candidate baseURL providerName name
      in addAPICandidates baseURL providerName secret names
           (m\<lparr>mo_candidates := (if hc_ID c \<in> hc_ID ` set (mo_candidates m) then mo_candidates m else mo_candidates m @ [c]),
              mo_secrets := (mo_secrets m)(hc_ID c \<mapsto> secret)\<rparr>))"

definition advanceAPI :: "tui_deps \<Rightarrow> tui_model \<Rightarrow> tui_model \<times> tui_cmd list" where
  "advanceAPI d m =
     (case mo_apiStep m of
        apiStepURL \<Rightarrow>
          (case td_Parse d (trim_space (ti_Value (mo_apiURL m))) of
             Inl _ \<Rightarrow> (m\<lparr>mo_err := Some (ErrText ''Enter a valid provider URL'')\<rparr>, [])
           | Inr parsed \<Rightarrow>
               if pu_Host parsed = [] then (m\<lparr>mo_err := Some (ErrText ''Enter a valid provider URL'')\<rparr>, [])
               else (m\<lparr>mo_apiName := pu_Hostname parsed, mo_apiStep := apiStepKey, mo_err := None, mo_apiURL := ti_Blur (mo_apiURL m),
                       mo_apiKey := ti_Focus (mo_apiKey m)\<rparr>, []))
      | apiStepModel \<Rightarrow>
          (let name = trim_space (ti_Value (mo_apiModel m))
           in if name = [] then (m\<lparr>mo_err := Some (ErrText ''Enter a model name'')\<rparr>, [])
              else ((clearAPIForm (addAPICandidates (ti_Value (mo_apiURL m)) (mo_apiName m) (ti_Value (mo_apiKey m)) [name] m))
                      \<lparr>mo_screen := ScreenProviders, mo_cursor := 0\<rparr>, []))
      | apiStepKey \<Rightarrow>
          (let secret = ti_Value (mo_apiKey m)
           in if blank secret then (m\<lparr>mo_err := Some (ErrText ''Enter an API key'')\<rparr>, [])
              else if td_ListModels d = None
              then (m\<lparr>mo_apiStep := apiStepModel, mo_err := Some ErrModelCatalogUnavailable, mo_apiKey := ti_Blur (mo_apiKey m),
                      mo_apiModel := ti_Focus (mo_apiModel m)\<rparr>, [])
              else (m\<lparr>mo_busy := True, mo_err := None\<rparr>, [CmdListModels (ti_Value (mo_apiURL m)) (mo_apiName m) secret])))"

definition applyCatalog :: "string \<Rightarrow> string \<Rightarrow> string \<Rightarrow> string list result \<Rightarrow> tui_model \<Rightarrow> tui_model" where
  "applyCatalog baseURL providerName secret models m =
     (case models of
        Inl e \<Rightarrow> m\<lparr>mo_busy := False, mo_err := Some e, mo_apiStep := apiStepModel, mo_apiKey := ti_Blur (mo_apiKey m), mo_apiModel := ti_Focus (mo_apiModel m)\<rparr>
      | Inr names \<Rightarrow>
          (clearAPIForm (addAPICandidates baseURL providerName secret names (m\<lparr>mo_busy := False\<rparr>)))\<lparr>mo_screen := ScreenProviders, mo_cursor := 0\<rparr>)"

definition tui_selections :: "tui_model \<Rightarrow> host_selection list" where
  "tui_selections m =
     map (\<lambda>c. \<lparr>sl_Candidate = host_candidate.truncate c, sl_Secret = (case mo_secrets m (hc_ID c) of None \<Rightarrow> '''' | Some s \<Rightarrow> s)\<rparr>)
       (filter (\<lambda>c. mo_selected m (hc_ID c)) (mo_candidates m))"

definition applyStarted :: "unit result \<Rightarrow> tui_model \<Rightarrow> tui_model" where
  "applyStarted r m0 =
     (let m = m0\<lparr>mo_screen := ScreenStatus, mo_busy := False, mo_confirmQuit := False, mo_err := err_of r\<rparr>
      in case r of
           Inr _ \<Rightarrow> m\<lparr>mo_running := True, mo_status := ''Selected providers are connected.'', mo_secrets := Map.empty\<rparr>
         | Inl _ \<Rightarrow> m\<lparr>mo_running := False, mo_status := ''Hosting could not start.''\<rparr>)"

definition applySnapshot :: "bool result \<Rightarrow> tui_model \<Rightarrow> tui_model" where
  "applySnapshot r m =
     (case r of
        Inl _ \<Rightarrow> m\<lparr>mo_status := ''Live status is temporarily unavailable.''\<rparr>
      | Inr online \<Rightarrow>
          m\<lparr>mo_snapshot := online,
            mo_status := (if online then ''Provider relay connected.'' else ''Connecting to provider relay...'')\<rparr>)"

definition accountCommand :: "tui_deps \<Rightarrow> tui_cmd list" where
  "accountCommand d = (if td_Account d = None then [] else [CmdAccount])"

definition applyAccount :: "providerAccount result \<Rightarrow> tui_model \<Rightarrow> tui_model" where
  "applyAccount r m0 =
     (let m = m0\<lparr>mo_accountErr := err_of r\<rparr>;
          shown = (case r of Inl _ \<Rightarrow> mo_account m | Inr a \<Rightarrow> a)
      in if mo_screen m = ScreenStatus then m\<lparr>mo_account := shown\<rparr>
         else m\<lparr>mo_busy := False, mo_err := err_of r, mo_account := shown\<rparr>)"

definition currentBackends :: "tui_deps \<Rightarrow> cfg_backend list" where
  "currentBackends d = (case td_LoadBackends d of Some bs \<Rightarrow> bs | None \<Rightarrow> td_Backends d)"

datatype offerRow = BackendRow cfg_backend | WalletRow editableOffer

definition offerRows :: "tui_deps \<Rightarrow> tui_model \<Rightarrow> offerRow list" where
  "offerRows d m = map BackendRow (currentBackends d) @ map WalletRow (pv_Offers (mo_account m))"

definition attachedBackend :: "tui_deps \<Rightarrow> string \<Rightarrow> cfg_backend option" where
  "attachedBackend d offerID = find (\<lambda>b. cb_PriceVersion b > 0 \<and> EffectiveOfferID b = offerID) (currentBackends d)"

definition attachableBackends :: "tui_deps \<Rightarrow> editableOffer \<Rightarrow> cfg_backend list" where
  "attachableBackends d offer = filter (\<lambda>b. cb_PriceVersion b = 0 \<and> Compatible b offer) (currentBackends d)"

definition compatibleOffers :: "tui_deps \<Rightarrow> cfg_backend \<Rightarrow> tui_model \<Rightarrow> editableOffer list" where
  "compatibleOffers d b m = filter (\<lambda>f. attachedBackend d (eo_OfferID f) = None \<and> Compatible b f) (pv_Offers (mo_account m))"

definition walletOfferState :: "tui_deps \<Rightarrow> editableOffer \<Rightarrow> string" where
  "walletOfferState d offer =
     (case attachedBackend d (eo_OfferID offer) of
        Some b \<Rightarrow> ''Attached here - '' @ cb_Name b
      | None \<Rightarrow>
          (let matches = length (attachableBackends d offer)
           in if matches = 1 then ''Ready to attach''
              else if matches > 1 then nat_string matches @ '' matching local providers''
              else ''No matching local provider''))"

definition openPricing :: "cfg_backend \<Rightarrow> tui_model \<Rightarrow> tui_model" where
  "openPricing item m0 =
     (let m = m0\<lparr>mo_screen := ScreenPricing, mo_pricingBackend := item, mo_err := None, mo_busy := False\<rparr>
      in if backendComputeOnly item
         then m\<lparr>mo_priceStep := priceStepCompute, mo_priceInput := ti_SetValue ''0'' (mo_priceInput m), mo_priceOutput := ti_SetValue ''0'' (mo_priceOutput m),
                mo_priceCompute := ti_Focus (mo_priceCompute m)\<rparr>
         else m\<lparr>mo_priceStep := priceStepInput, mo_priceInput := ti_Focus (mo_priceInput m)\<rparr>)"

definition clearPricing :: "tui_model \<Rightarrow> tui_model" where
  "clearPricing m =
     m\<lparr>mo_priceInput := ti_Blur (ti_SetValue '''' (mo_priceInput m)), mo_priceOutput := ti_Blur (ti_SetValue '''' (mo_priceOutput m)),
       mo_priceCompute := ti_Blur (ti_SetValue '''' (mo_priceCompute m))\<rparr>"

definition advancePricing :: "tui_deps \<Rightarrow> tui_model \<Rightarrow> tui_model \<times> tui_cmd list" where
  "advancePricing d m =
     (case mo_priceStep m of
        priceStepInput \<Rightarrow>
          if blank (ti_Value (mo_priceInput m)) then (m\<lparr>mo_err := Some (ErrText ''Enter an input token price'')\<rparr>, [])
          else (m\<lparr>mo_priceInput := ti_Blur (mo_priceInput m), mo_priceOutput := ti_Focus (mo_priceOutput m), mo_priceStep := priceStepOutput, mo_err := None\<rparr>, [])
      | priceStepOutput \<Rightarrow>
          if blank (ti_Value (mo_priceOutput m)) then (m\<lparr>mo_err := Some (ErrText ''Enter an output token price'')\<rparr>, [])
          else (m\<lparr>mo_priceOutput := ti_Blur (mo_priceOutput m), mo_priceCompute := ti_Focus (mo_priceCompute m), mo_priceStep := priceStepCompute, mo_err := None\<rparr>, [])
      | priceStepCompute \<Rightarrow>
          if blank (ti_Value (mo_priceCompute m)) then (m\<lparr>mo_err := Some (ErrText ''Enter a compute price'')\<rparr>, [])
          else (m\<lparr>mo_priceCompute := ti_Blur (mo_priceCompute m), mo_priceStep := priceStepReview, mo_err := None\<rparr>, [])
      | priceStepReview \<Rightarrow>
          if td_Publish d = None then (m\<lparr>mo_err := Some (ErrText ''Offer publishing is unavailable'')\<rparr>, [])
          else (m\<lparr>mo_busy := True, mo_err := None\<rparr>,
                [CmdPublish (mo_pricingBackend m) \<lparr>rm_InputPerMillionMON = ti_Value (mo_priceInput m), rm_OutputPerMillionMON = ti_Value (mo_priceOutput m),
                   rm_ComputePerSecondMON = ti_Value (mo_priceCompute m)\<rparr>]))"

section \<open>Keys\<close>

type_synonym tui_result = "(tui_model \<times> tui_cmd list) option"

definition home_key :: "tui_deps \<Rightarrow> string \<Rightarrow> tui_model \<Rightarrow> tui_result" where
  "home_key d key m0 =
     (let m = m0\<lparr>mo_cursor := move (mo_cursor m0) key 5\<rparr>
      in if key = ''q'' then Some (m, [CmdQuit])
         else if key \<noteq> ''enter'' then Some (m, [])
         else if mo_cursor m = 0 then Some (m\<lparr>mo_screen := ScreenProviders, mo_cursor := 0\<rparr>, [])
         else if mo_cursor m = 1 then Some (m\<lparr>mo_screen := ScreenOffers, mo_cursor := 0, mo_busy := True, mo_err := None\<rparr>, accountCommand d)
         else if mo_cursor m = 2 then Some (m\<lparr>mo_screen := ScreenCollateral, mo_cursor := 0, mo_busy := True, mo_err := None\<rparr>, accountCommand d)
         else if mo_cursor m = 3 then Some (m\<lparr>mo_screen := ScreenStatus, mo_cursor := 0\<rparr>, accountCommand d)
         else if mo_cursor m = 4 then Some (m, [CmdQuit])
         else Some (m, []))"

definition providers_key :: "string \<Rightarrow> tui_model \<Rightarrow> tui_result" where
  "providers_key key m0 =
     (let n = length (mo_candidates m0); m = m0\<lparr>mo_cursor := move (mo_cursor m0) key (n + 2)\<rparr>
      in Some (if key = ''esc'' then m\<lparr>mo_screen := ScreenHome, mo_cursor := 0\<rparr>
               else if key = ''r'' then m\<lparr>mo_screen := ScreenReview, mo_cursor := 0\<rparr>
               else if key = ''space'' then
                 (if mo_cursor m < n
                  then (let i = hc_ID (mo_candidates m ! mo_cursor m) in m\<lparr>mo_selected := (mo_selected m)(i := \<not> mo_selected m i)\<rparr>)
                  else m)
               else if key = ''enter'' then
                 (if mo_cursor m = n then openAPIForm False m else if mo_cursor m = n + 1 then openAPIForm True m else m)
               else m, []))"

definition api_key :: "tui_deps \<Rightarrow> string \<Rightarrow> tui_model \<Rightarrow> tui_result" where
  "api_key d key m =
     Some (if key = ''esc'' then ((clearAPIForm m)\<lparr>mo_screen := ScreenProviders, mo_cursor := 0\<rparr>, [])
           else if key = ''enter'' then advanceAPI d m else (m, []))"

definition review_key :: "string \<Rightarrow> tui_model \<Rightarrow> tui_result" where
  "review_key key m =
     Some (if key = ''esc'' then (m\<lparr>mo_screen := ScreenProviders, mo_cursor := 0\<rparr>, [])
           else if key = ''enter'' \<and> tui_selections m \<noteq> [] \<and> \<not> mo_busy m
           then (m\<lparr>mo_busy := True, mo_status := ''Saving provider configuration...'', mo_err := None\<rparr>, [CmdConfigure (tui_selections m)])
           else (m, []))"

definition status_key :: "string \<Rightarrow> tui_model \<Rightarrow> tui_result" where
  "status_key key m =
     Some (if key = ''esc'' then (m\<lparr>mo_screen := ScreenHome, mo_cursor := 0\<rparr>, [])
           else if key = ''r'' then (if mo_busy m then (m, []) else (m\<lparr>mo_busy := True\<rparr>, [CmdConfigureStart (tui_selections m)]))
           else if key = ''q'' then (if mo_running m then (m\<lparr>mo_confirmQuit := True\<rparr>, []) else (m, [CmdQuit]))
           else (m, []))"

text \<open>Enter on a row of the offers.\<close>

definition choose_row :: "tui_deps \<Rightarrow> offerRow \<Rightarrow> tui_model \<Rightarrow> tui_model \<times> tui_cmd list" where
  "choose_row d row m =
     (case row of
        WalletRow offer \<Rightarrow>
          (case attachedBackend d (eo_OfferID offer) of
             Some attached \<Rightarrow> (m\<lparr>mo_status := ''Already attached to '' @ cb_Name attached @ ''.''\<rparr>, [])
           | None \<Rightarrow>
               (case attachableBackends d offer of
                  [] \<Rightarrow> (m\<lparr>mo_status := ''Configure a matching provider first.''\<rparr>, [])
                | [b] \<Rightarrow> (m\<lparr>mo_busy := True, mo_err := None\<rparr>, [CmdAttach b offer])
                | _ \<Rightarrow> (m\<lparr>mo_status := ''Multiple matching local providers; select one under This machine.''\<rparr>, [])))
      | BackendRow item \<Rightarrow>
          if cb_PriceVersion item > 0
          then (m\<lparr>mo_status := ''Already attached as '' @ EffectiveOfferID item @ '' v'' @ nat_string (unat (cb_PriceVersion item)) @ ''. Press e to edit pricing.''\<rparr>, [])
          else (case compatibleOffers d item m of
                  [] \<Rightarrow> (openPricing item m, [])
                | [f] \<Rightarrow> (m\<lparr>mo_busy := True, mo_err := None\<rparr>, [CmdAttach item f])
                | fs \<Rightarrow> (m\<lparr>mo_screen := ScreenOfferAttach, mo_cursor := 0, mo_attachBackend := item, mo_attachOffers := fs\<rparr>, [])))"

definition offers_key :: "tui_deps \<Rightarrow> string \<Rightarrow> tui_model \<Rightarrow> tui_result" where
  "offers_key d key m0 =
     (let rows = offerRows d m0; m = m0\<lparr>mo_cursor := move (mo_cursor m0) key (length rows)\<rparr>
      in if key = ''esc'' then Some (m\<lparr>mo_screen := ScreenHome, mo_cursor := 0\<rparr>, [])
         else if (key = ''e'' \<or> key = ''enter'') \<and> rows \<noteq> [] \<and> \<not> mo_busy m then
           (if mo_cursor m \<ge> length rows then None
            else if key = ''e'' then
              Some (case rows ! mo_cursor m of
                 WalletRow _ \<Rightarrow> (m\<lparr>mo_status := ''Select a provider under This machine to create or edit an offer.''\<rparr>, [])
               | BackendRow b \<Rightarrow> (openPricing b m, []))
            else Some (choose_row d (rows ! mo_cursor m) m))
         else if key = ''s'' \<and> \<not> mo_busy m then
           Some (if list_ex (\<lambda>b. cb_Enabled b \<and> cb_PriceVersion b = 0) (currentBackends d)
                 then (m\<lparr>mo_err := Some (ErrText ''Publish pricing for every enabled provider before starting'')\<rparr>, [])
                 else (m\<lparr>mo_busy := True, mo_err := None\<rparr>, [CmdStart]))
         else Some (m, []))"

definition attach_key :: "string \<Rightarrow> tui_model \<Rightarrow> tui_result" where
  "attach_key key m0 =
     (let m = m0\<lparr>mo_cursor := move (mo_cursor m0) key (length (mo_attachOffers m0))\<rparr>
      in if key = ''esc'' \<and> \<not> mo_busy m
         then Some (m\<lparr>mo_screen := ScreenOffers, mo_cursor := 0, mo_attachOffers := [], mo_err := None\<rparr>, [])
         else if key = ''enter'' \<and> mo_attachOffers m \<noteq> [] \<and> \<not> mo_busy m
         then (if mo_cursor m \<ge> length (mo_attachOffers m) then None
               else Some (m\<lparr>mo_busy := True, mo_err := None\<rparr>, [CmdAttach (mo_attachBackend m) (mo_attachOffers m ! mo_cursor m)]))
         else Some (m, []))"

definition pricing_key :: "tui_deps \<Rightarrow> string \<Rightarrow> tui_model \<Rightarrow> tui_result" where
  "pricing_key d key m =
     Some (if key = ''esc'' \<and> \<not> mo_busy m then (clearPricing (m\<lparr>mo_screen := ScreenOffers, mo_cursor := 0, mo_err := None\<rparr>), [])
           else if key = ''enter'' \<and> \<not> mo_busy m then advancePricing d m
           else (m, []))"

definition collateral_key :: "tui_deps \<Rightarrow> string \<Rightarrow> tui_model \<Rightarrow> tui_result" where
  "collateral_key d key m =
     Some (if key = ''esc'' then (m\<lparr>mo_screen := ScreenHome, mo_cursor := 0\<rparr>, [])
           else if key = ''d'' then
             (if pv_BondExitAvailableAt (mo_account m) = 0
              then (m\<lparr>mo_screen := ScreenCollateralDeposit, mo_err := None, mo_depositAmount := ti_Focus (mo_depositAmount m)\<rparr>, []) else (m, []))
           else if key = ''x'' then
             (if pv_BondExitAvailableAt (mo_account m) = 0 \<and> td_RequestExit d \<noteq> None then (m\<lparr>mo_busy := True\<rparr>, [CmdRequestExit]) else (m, []))
           else if key = ''f'' then
             (if pv_BondExitAvailableAt (mo_account m) \<noteq> 0 \<and> td_FinalizeExit d \<noteq> None then (m\<lparr>mo_busy := True\<rparr>, [CmdFinalizeExit]) else (m, []))
           else (m, []))"

definition deposit_key :: "tui_deps \<Rightarrow> string \<Rightarrow> tui_model \<Rightarrow> tui_result" where
  "deposit_key d key m =
     Some (if key = ''esc'' \<and> \<not> mo_busy m
           then (m\<lparr>mo_screen := ScreenCollateral, mo_err := None, mo_depositAmount := ti_Blur (ti_SetValue '''' (mo_depositAmount m))\<rparr>, [])
           else if key = ''enter'' \<and> \<not> mo_busy m then
             (if blank (ti_Value (mo_depositAmount m)) then (m\<lparr>mo_err := Some (ErrText ''Enter a deposit amount'')\<rparr>, [])
              else if td_Deposit d = None then (m\<lparr>mo_err := Some (ErrText ''Collateral operations are unavailable'')\<rparr>, [])
              else (m\<lparr>mo_busy := True, mo_err := None\<rparr>, [CmdDeposit (ti_Value (mo_depositAmount m))]))
           else (m, []))"

definition confirm_key :: "tui_deps \<Rightarrow> string \<Rightarrow> tui_model \<Rightarrow> tui_result" where
  "confirm_key d key m =
     Some (if to_lower key = ''y'' then (m\<lparr>mo_running := False\<rparr>, (if td_Stop d then [CmdStop] else []) @ [CmdQuit])
           else if to_lower key = ''n'' \<or> to_lower key = ''esc'' then (m\<lparr>mo_confirmQuit := False\<rparr>, [])
           else (m, []))"

definition HandleKey :: "tui_deps \<Rightarrow> string \<Rightarrow> tui_model \<Rightarrow> tui_result" where
  "HandleKey d key m =
     (if key = ''ctrl+c'' then Some (if mo_running m then (m\<lparr>mo_confirmQuit := True\<rparr>, []) else (m, [CmdQuit]))
      else if mo_confirmQuit m then confirm_key d key m
      else case mo_screen m of
        ScreenHome \<Rightarrow> home_key d key m
      | ScreenProviders \<Rightarrow> providers_key key m
      | ScreenAPI \<Rightarrow> api_key d key m
      | ScreenReview \<Rightarrow> review_key key m
      | ScreenStatus \<Rightarrow> status_key key m
      | ScreenOffers \<Rightarrow> offers_key d key m
      | ScreenOfferAttach \<Rightarrow> attach_key key m
      | ScreenPricing \<Rightarrow> pricing_key d key m
      | ScreenCollateral \<Rightarrow> collateral_key d key m
      | ScreenCollateralDeposit \<Rightarrow> deposit_key d key m)"

section \<open>Messages\<close>

text \<open>The event goes to the field of the current step of the form on the screen.\<close>

definition edit_field :: "tui_deps \<Rightarrow> string \<Rightarrow> tui_model \<Rightarrow> tui_model" where
  "edit_field d ev m =
     (case mo_screen m of
        ScreenAPI \<Rightarrow>
          (case mo_apiStep m of
             apiStepURL \<Rightarrow> m\<lparr>mo_apiURL := td_Edit d (mo_apiURL m) ev\<rparr>
           | apiStepKey \<Rightarrow> m\<lparr>mo_apiKey := td_Edit d (mo_apiKey m) ev\<rparr>
           | apiStepModel \<Rightarrow> m\<lparr>mo_apiModel := td_Edit d (mo_apiModel m) ev\<rparr>)
      | ScreenPricing \<Rightarrow>
          (case mo_priceStep m of
             priceStepInput \<Rightarrow> m\<lparr>mo_priceInput := td_Edit d (mo_priceInput m) ev\<rparr>
           | priceStepOutput \<Rightarrow> m\<lparr>mo_priceOutput := td_Edit d (mo_priceOutput m) ev\<rparr>
           | priceStepCompute \<Rightarrow> m\<lparr>mo_priceCompute := td_Edit d (mo_priceCompute m) ev\<rparr>
           | priceStepReview \<Rightarrow> m)
      | ScreenCollateralDeposit \<Rightarrow> m\<lparr>mo_depositAmount := td_Edit d (mo_depositAmount m) ev\<rparr>
      | _ \<Rightarrow> m)"

definition on_operation :: "tui_deps \<Rightarrow> string \<Rightarrow> unit result \<Rightarrow> tui_model \<Rightarrow> tui_model \<times> tui_cmd list" where
  "on_operation d status r m0 =
     (let m = m0\<lparr>mo_busy := False, mo_err := err_of r\<rparr>
      in case r of
           Inl _ \<Rightarrow> (m, [])
         | Inr _ \<Rightarrow>
             (let m = m\<lparr>mo_status := (if status = [] then ''Provider action confirmed.'' else status)\<rparr>;
                  m = (if mo_screen m = ScreenOfferAttach then m\<lparr>mo_screen := ScreenOffers, mo_cursor := 0, mo_attachOffers := []\<rparr> else m);
                  m = (if mo_screen m = ScreenPricing then clearPricing (m\<lparr>mo_screen := ScreenOffers\<rparr>) else m);
                  m = (if mo_screen m = ScreenCollateralDeposit
                       then m\<lparr>mo_screen := ScreenCollateral, mo_depositAmount := ti_Blur (ti_SetValue '''' (mo_depositAmount m))\<rparr> else m)
              in (m, accountCommand d)))"

definition form_screen :: "tui_screen \<Rightarrow> bool" where
  "form_screen sc \<longleftrightarrow> sc = ScreenAPI \<or> sc = ScreenPricing \<or> sc = ScreenCollateralDeposit"

fun tui_Update :: "tui_deps \<Rightarrow> tui_msg \<Rightarrow> tui_model \<Rightarrow> tui_result" where
  "tui_Update d (WindowSizeMsg w h) m = Some (Resize w h m, [])"
| "tui_Update d (CatalogMsg baseURL name secret models) m = Some (applyCatalog baseURL name secret models m, [])"
| "tui_Update d (StartedMsg r) m =
     (let m = applyStarted r m in Some (m, if mo_running m then CmdSnapshot # accountCommand d else []))"
| "tui_Update d (ConfiguredMsg r) m =
     (case r of
        Inl e \<Rightarrow> Some (m\<lparr>mo_busy := False, mo_err := Some e\<rparr>, [])
      | Inr _ \<Rightarrow> Some (m\<lparr>mo_err := None, mo_screen := ScreenOffers, mo_cursor := 0, mo_status := ''Providers saved. Publish pricing before starting.'', mo_busy := True\<rparr>,
                  accountCommand d))"
| "tui_Update d (SnapshotMsg r) m = (let m = applySnapshot r m in Some (m, if mo_running m then [CmdTickStatus] else []))"
| "tui_Update d PollStatusMsg m = Some (m, if mo_running m then [CmdSnapshot] else [])"
| "tui_Update d (AccountMsg r) m = (let m = applyAccount r m in Some (m, if mo_screen m = ScreenStatus then [CmdTickAccount] else []))"
| "tui_Update d PollAccountMsg m = Some (m, if mo_screen m = ScreenStatus then accountCommand d else [])"
| "tui_Update d (OperationMsg status r) m = Some (on_operation d status r m)"
| "tui_Update d (PasteMsg ev) m = Some (edit_field d ev m, [])"
| "tui_Update d (MouseWheelMsg dir) m =
     (case dir of Some True \<Rightarrow> HandleKey d ''up'' m | Some False \<Rightarrow> HandleKey d ''down'' m | None \<Rightarrow> Some (m, []))"
| "tui_Update d (KeyPressMsg key) m =
     (if form_screen (mo_screen m) \<and> key \<noteq> ''enter'' \<and> key \<noteq> ''esc'' \<and> key \<noteq> ''ctrl+c'' then Some (edit_field d key m, [])
      else HandleKey d key m)"

text \<open>Running a command: the message it comes back with.\<close>

definition op_msg :: "string \<Rightarrow> 'a option \<Rightarrow> string \<Rightarrow> ('a \<Rightarrow> unit result) \<Rightarrow> tui_msg" where
  "op_msg status f absent call = (case f of None \<Rightarrow> OperationMsg '''' (Inl (ErrText absent)) | Some g \<Rightarrow> OperationMsg status (call g))"

fun run_command :: "tui_deps \<Rightarrow> tui_cmd \<Rightarrow> tui_msg option" where
  "run_command d CmdQuit = None"
| "run_command d CmdStop = None"
| "run_command d CmdAccount = map_option AccountMsg (td_Account d)"
| "run_command d CmdSnapshot = Some (SnapshotMsg (case td_Snapshot d of None \<Rightarrow> Inr False | Some r \<Rightarrow> r))"
| "run_command d CmdTickStatus = Some PollStatusMsg"
| "run_command d CmdTickAccount = Some PollAccountMsg"
| "run_command d (CmdListModels baseURL name secret) =
     map_option (\<lambda>f. CatalogMsg baseURL name secret (f baseURL secret)) (td_ListModels d)"
| "run_command d (CmdConfigure ss) = Some (ConfiguredMsg (case td_Configure d of None \<Rightarrow> Inr () | Some f \<Rightarrow> f ss))"
| "run_command d (CmdConfigureStart ss) =
     Some (StartedMsg (and_then (case td_Configure d of None \<Rightarrow> Inr () | Some f \<Rightarrow> f ss) (\<lambda>_. case td_Start d of None \<Rightarrow> Inr () | Some r \<Rightarrow> r)))"
| "run_command d CmdStart = Some (StartedMsg (case td_Start d of None \<Rightarrow> Inr () | Some r \<Rightarrow> r))"
| "run_command d (CmdAttach b f) = Some (op_msg ''Offer attached.'' (td_Attach d) ''Offer attachment is unavailable'' (\<lambda>g. g (cb_Name b) (eo_OfferID f)))"
| "run_command d (CmdPublish b rates) = map_option (\<lambda>g. OperationMsg '''' (g b rates)) (td_Publish d)"
| "run_command d (CmdDeposit amount) = map_option (\<lambda>g. OperationMsg '''' (g amount)) (td_Deposit d)"
| "run_command d CmdRequestExit = map_option (OperationMsg '''') (td_RequestExit d)"
| "run_command d CmdFinalizeExit = map_option (OperationMsg '''') (td_FinalizeExit d)"

section \<open>Amounts and requests on the screen\<close>

definition trim_zeros :: "string \<Rightarrow> string" where
  "trim_zeros s = rev (dropWhile (\<lambda>c. c = CHR ''0'') (rev s))"

definition formatWei :: "string \<Rightarrow> string" where
  "formatWei value =
     (case big_set_string value of
        None \<Rightarrow> ''0''
      | Some i \<Rightarrow>
          if i < 0 then ''0''
          else (let whole = i div 10 ^ 18; fraction = i mod 10 ^ 18
                in if fraction = 0 then int_string whole
                   else (let fractionText = int_string fraction;
                             fractionText = replicate (18 - length fractionText) (CHR ''0'') @ fractionText
                         in int_string whole @ ''.'' @ trim_zeros fractionText)))"

text \<open>The two passes over the requests, each until the limit is reached; \<open>state\<close> reads the state of a request.\<close>

fun visible_pass :: "('r \<Rightarrow> bool) \<Rightarrow> nat \<Rightarrow> 'r list \<Rightarrow> 'r list \<Rightarrow> 'r list" where
  "visible_pass P limit [] visible = visible"
| "visible_pass P limit (r # rs) visible =
     visible_pass P limit rs (if P r \<and> length visible < limit then visible @ [r] else visible)"

definition visibleRequests :: "('r \<Rightarrow> string) \<Rightarrow> 'r list \<Rightarrow> nat \<Rightarrow> 'r list" where
  "visibleRequests state rs limit =
     (let current = (\<lambda>r. state r = ''active'' \<or> state r = ''settling'')
      in visible_pass (\<lambda>r. \<not> current r) limit rs (visible_pass current limit rs []))"

lemma visible_pass_take: "length v \<le> limit \<Longrightarrow> visible_pass P limit rs v = take limit (v @ filter P rs)"
  by (induction rs arbitrary: v) (auto simp: not_less take_Cons' Suc_diff_le split: nat_diff_split)

lemma visibleRequests_take:
  "visibleRequests state rs limit = take limit (filter (\<lambda>r. state r = ''active'' \<or> state r = ''settling'') rs
     @ filter (\<lambda>r. \<not> (state r = ''active'' \<or> state r = ''settling'')) rs)"
  by (auto simp: visibleRequests_def Let_def visible_pass_take min_def)

section \<open>What is kept, and what is issued\<close>

definition pricing_ok :: "tui_model \<Rightarrow> bool" where
  "pricing_ok m \<longleftrightarrow> (mo_screen m = ScreenPricing \<longrightarrow>
     (mo_priceStep m \<noteq> priceStepInput \<longrightarrow> \<not> blank (ti_Value (mo_priceInput m)))
     \<and> (mo_priceStep m = priceStepCompute \<or> mo_priceStep m = priceStepReview \<longrightarrow> \<not> blank (ti_Value (mo_priceOutput m)))
     \<and> (mo_priceStep m = priceStepReview \<longrightarrow> \<not> blank (ti_Value (mo_priceCompute m)))
     \<and> (backendComputeOnly (mo_pricingBackend m) \<longrightarrow> ti_Value (mo_priceInput m) = ''0'' \<and> ti_Value (mo_priceOutput m) = ''0''
        \<and> (mo_priceStep m = priceStepCompute \<or> mo_priceStep m = priceStepReview)))"

definition attach_ok :: "tui_model \<Rightarrow> bool" where
  "attach_ok m \<longleftrightarrow> (mo_screen m = ScreenOfferAttach \<longrightarrow>
     mo_cursor m < length (mo_attachOffers m) \<and> list_all (Compatible (mo_attachBackend m)) (mo_attachOffers m))"

definition candidates_ok :: "tui_model \<Rightarrow> bool" where
  "candidates_ok m \<longleftrightarrow> distinct (map hc_ID (mo_candidates m)) \<and> dom (mo_secrets m) \<subseteq> hc_ID ` set (mo_candidates m)
     \<and> list_all (\<lambda>c. hc_ID c = StableID (host_candidate.truncate c)) (mo_candidates m)"

definition tui_ok :: "tui_model \<Rightarrow> bool" where
  "tui_ok m \<longleftrightarrow> pricing_ok m \<and> attach_ok m \<and> candidates_ok m"

lemmas tui_inv = tui_ok_def pricing_ok_def attach_ok_def candidates_ok_def

text \<open>What each command may be issued for, in the state in which it is issued.\<close>

fun cmd_ok :: "tui_deps \<Rightarrow> tui_model \<Rightarrow> tui_cmd \<Rightarrow> bool" where
  "cmd_ok d m CmdQuit \<longleftrightarrow> mo_running m \<longrightarrow> mo_confirmQuit m \<or> mo_screen m = ScreenHome"
| "cmd_ok d m (CmdConfigure ss) \<longleftrightarrow> ss = tui_selections m \<and> ss \<noteq> [] \<and> distinct (map (StableID \<circ> sl_Candidate) ss)"
| "cmd_ok d m (CmdConfigureStart ss) \<longleftrightarrow> ss = tui_selections m \<and> distinct (map (StableID \<circ> sl_Candidate) ss)"
| "cmd_ok d m CmdStart \<longleftrightarrow> list_all (\<lambda>b. cb_Enabled b \<longrightarrow> cb_PriceVersion b > 0) (currentBackends d)"
| "cmd_ok d m (CmdAttach b f) \<longleftrightarrow> Compatible b f"
| "cmd_ok d m (CmdPublish b rates) \<longleftrightarrow>
     \<not> blank (rm_InputPerMillionMON rates) \<and> \<not> blank (rm_OutputPerMillionMON rates) \<and> \<not> blank (rm_ComputePerSecondMON rates)
     \<and> (snd (offerShape b) = ''compute_only'' \<longrightarrow> rm_InputPerMillionMON rates = ''0'' \<and> rm_OutputPerMillionMON rates = ''0'')"
| "cmd_ok d m (CmdDeposit amount) \<longleftrightarrow> \<not> blank amount"
| "cmd_ok d m CmdRequestExit \<longleftrightarrow> pv_BondExitAvailableAt (mo_account m) = 0"
| "cmd_ok d m CmdFinalizeExit \<longleftrightarrow> pv_BondExitAvailableAt (mo_account m) \<noteq> 0"
| "cmd_ok d m _ \<longleftrightarrow> True"

lemma not_blank_zero: "\<not> blank ''0''"
  by (simp add: blank_def trim_space_numeral numeral_char_def)

lemma computeOnly_shape: "snd (offerShape b) = ''compute_only'' \<longleftrightarrow> backendComputeOnly b"
  by (simp add: offerShape_def backendComputeOnly_def)

lemma selections_distinct: "candidates_ok m \<Longrightarrow> distinct (map (StableID \<circ> sl_Candidate) (tui_selections m))"
proof -
  assume ok: "candidates_ok m"
  have "map (StableID \<circ> sl_Candidate) (tui_selections m) = map hc_ID (filter (\<lambda>c. mo_selected m (hc_ID c)) (mo_candidates m))"
    using ok by (auto simp: tui_selections_def candidates_ok_def list_all_iff)
  then show ?thesis using ok by (simp add: candidates_ok_def distinct_map_filter)
qed

lemma accountCommand_ok: "list_all (cmd_ok d m) (accountCommand d)"
  by (simp add: accountCommand_def)

lemma api_candidate_ID: "hc_ID (api_candidate u n v) = StableID (host_candidate.truncate (api_candidate u n v))"
  by (simp add: api_candidate_def Let_def host_candidate.defs)

lemma add_candidate_ok:
  assumes "candidates_ok m" "hc_ID c = StableID (host_candidate.truncate c)"
  shows "candidates_ok (m\<lparr>mo_candidates := (if hc_ID c \<in> hc_ID ` set (mo_candidates m) then mo_candidates m else mo_candidates m @ [c]),
    mo_secrets := (mo_secrets m)(hc_ID c \<mapsto> secret)\<rparr>)"
proof (cases "hc_ID c \<in> hc_ID ` set (mo_candidates m)")
  case True
  then show ?thesis using assms(1) by (simp add: candidates_ok_def)
next
  case False
  then show ?thesis using assms by (auto simp: candidates_ok_def)
qed

lemma addAPICandidates_ok: "candidates_ok m \<Longrightarrow> candidates_ok (addAPICandidates u n s names m)"
proof (induction names arbitrary: m)
  case (Cons v names)
  from Cons.IH [OF add_candidate_ok [OF Cons.prems api_candidate_ID]] show ?case by (simp only: addAPICandidates.simps Let_def)
qed simp

definition step_ok :: "tui_deps \<Rightarrow> tui_model \<Rightarrow> tui_result \<Rightarrow> bool" where
  "step_ok d m r \<longleftrightarrow> (case r of None \<Rightarrow> mo_screen m = ScreenOffers | Some (m', cmds) \<Rightarrow> tui_ok m' \<and> list_all (cmd_ok d m) cmds)"

lemma step_ok_Some: "step_ok d m (Some p) \<longleftrightarrow> tui_ok (fst p) \<and> list_all (cmd_ok d m) (snd p)"
  by (cases p) (simp add: step_ok_def)

lemma step_ok_None: "step_ok d m None \<longleftrightarrow> mo_screen m = ScreenOffers"
  by (simp add: step_ok_def)

lemma move_less: "n \<noteq> 0 \<Longrightarrow> c < n \<Longrightarrow> move c key n < n"
  by (simp add: move_def)

text \<open>What the invariant depends on.\<close>

lemma tui_ok_irrelevant [simp]:
  "tui_ok (m\<lparr>mo_selected := x0\<rparr>) = tui_ok m" "tui_ok (m\<lparr>mo_width := x1\<rparr>) = tui_ok m"
  "tui_ok (m\<lparr>mo_height := x2\<rparr>) = tui_ok m" "tui_ok (m\<lparr>mo_running := x3\<rparr>) = tui_ok m"
  "tui_ok (m\<lparr>mo_confirmQuit := x4\<rparr>) = tui_ok m" "tui_ok (m\<lparr>mo_busy := x5\<rparr>) = tui_ok m"
  "tui_ok (m\<lparr>mo_status := x6\<rparr>) = tui_ok m" "tui_ok (m\<lparr>mo_err := x7\<rparr>) = tui_ok m"
  "tui_ok (m\<lparr>mo_snapshot := x8\<rparr>) = tui_ok m" "tui_ok (m\<lparr>mo_apiCompatible := x9\<rparr>) = tui_ok m"
  "tui_ok (m\<lparr>mo_apiStep := x10\<rparr>) = tui_ok m" "tui_ok (m\<lparr>mo_apiName := x11\<rparr>) = tui_ok m"
  "tui_ok (m\<lparr>mo_apiURL := x12\<rparr>) = tui_ok m" "tui_ok (m\<lparr>mo_apiKey := x13\<rparr>) = tui_ok m"
  "tui_ok (m\<lparr>mo_apiModel := x14\<rparr>) = tui_ok m" "tui_ok (m\<lparr>mo_depositAmount := x15\<rparr>) = tui_ok m"
  "tui_ok (m\<lparr>mo_account := x16\<rparr>) = tui_ok m" "tui_ok (m\<lparr>mo_accountErr := x17\<rparr>) = tui_ok m"
  by (simp_all add: tui_inv)

lemma candidates_ok_irrelevant [simp]:
  "candidates_ok (m\<lparr>mo_screen := x0\<rparr>) = candidates_ok m" "candidates_ok (m\<lparr>mo_cursor := x1\<rparr>) = candidates_ok m"
  "candidates_ok (m\<lparr>mo_selected := x2\<rparr>) = candidates_ok m" "candidates_ok (m\<lparr>mo_width := x3\<rparr>) = candidates_ok m"
  "candidates_ok (m\<lparr>mo_height := x4\<rparr>) = candidates_ok m" "candidates_ok (m\<lparr>mo_running := x5\<rparr>) = candidates_ok m"
  "candidates_ok (m\<lparr>mo_confirmQuit := x6\<rparr>) = candidates_ok m" "candidates_ok (m\<lparr>mo_busy := x7\<rparr>) = candidates_ok m"
  "candidates_ok (m\<lparr>mo_status := x8\<rparr>) = candidates_ok m" "candidates_ok (m\<lparr>mo_err := x9\<rparr>) = candidates_ok m"
  "candidates_ok (m\<lparr>mo_snapshot := x10\<rparr>) = candidates_ok m" "candidates_ok (m\<lparr>mo_apiCompatible := x11\<rparr>) = candidates_ok m"
  "candidates_ok (m\<lparr>mo_apiStep := x12\<rparr>) = candidates_ok m" "candidates_ok (m\<lparr>mo_apiName := x13\<rparr>) = candidates_ok m"
  "candidates_ok (m\<lparr>mo_apiURL := x14\<rparr>) = candidates_ok m" "candidates_ok (m\<lparr>mo_apiKey := x15\<rparr>) = candidates_ok m"
  "candidates_ok (m\<lparr>mo_apiModel := x16\<rparr>) = candidates_ok m"
  "candidates_ok (m\<lparr>mo_pricingBackend := x17\<rparr>) = candidates_ok m"
  "candidates_ok (m\<lparr>mo_priceStep := x18\<rparr>) = candidates_ok m" "candidates_ok (m\<lparr>mo_priceInput := x19\<rparr>) = candidates_ok m"
  "candidates_ok (m\<lparr>mo_priceOutput := x20\<rparr>) = candidates_ok m"
  "candidates_ok (m\<lparr>mo_priceCompute := x21\<rparr>) = candidates_ok m"
  "candidates_ok (m\<lparr>mo_depositAmount := x22\<rparr>) = candidates_ok m" "candidates_ok (m\<lparr>mo_account := x23\<rparr>) = candidates_ok m"
  "candidates_ok (m\<lparr>mo_accountErr := x24\<rparr>) = candidates_ok m"
  "candidates_ok (m\<lparr>mo_attachBackend := x25\<rparr>) = candidates_ok m"
  "candidates_ok (m\<lparr>mo_attachOffers := x26\<rparr>) = candidates_ok m"
  by (simp_all add: candidates_ok_def)

lemma tui_ok_candidates: "tui_ok m \<Longrightarrow> candidates_ok m"
  by (simp add: tui_ok_def)

lemma tui_ok_screens [simp]:
  "sc \<noteq> ScreenPricing \<Longrightarrow> sc \<noteq> ScreenOfferAttach \<Longrightarrow> tui_ok (m\<lparr>mo_screen := sc\<rparr>) = candidates_ok m"
  "mo_screen m \<noteq> ScreenOfferAttach \<Longrightarrow> tui_ok (m\<lparr>mo_cursor := c\<rparr>) = tui_ok m"
  "mo_screen m \<noteq> ScreenOfferAttach \<Longrightarrow> tui_ok (m\<lparr>mo_attachOffers := fs\<rparr>) = tui_ok m"
  by (simp_all add: tui_inv)

text \<open>Away from the two screens whose contents are constrained, only the candidates matter.\<close>

lemma tui_ok_elsewhere:
  "candidates_ok m \<Longrightarrow> mo_screen m \<noteq> ScreenPricing \<Longrightarrow> mo_screen m \<noteq> ScreenOfferAttach \<Longrightarrow> tui_ok m"
  by (simp add: tui_inv)

lemma candidates_ok_cong:
  "mo_candidates m' = mo_candidates m \<Longrightarrow> mo_secrets m' = mo_secrets m \<Longrightarrow> candidates_ok m \<Longrightarrow> candidates_ok m'"
  by (simp add: candidates_ok_def)

lemma clearAPIForm_candidates [simp]: "candidates_ok (clearAPIForm m) = candidates_ok m"
  by (simp add: clearAPIForm_def candidates_ok_def)

lemma openPricing_ok: "candidates_ok m \<Longrightarrow> tui_ok (openPricing b m)"
  by (simp add: openPricing_def Let_def tui_inv ti_defs not_blank_zero)

lemma home_step: "tui_ok m \<Longrightarrow> mo_screen m = ScreenHome \<Longrightarrow> step_ok d m (home_key d key m)"
  by (simp add: step_ok_Some home_key_def Let_def accountCommand_def tui_ok_candidates)

lemma openAPIForm_ok: "tui_ok m \<Longrightarrow> tui_ok (openAPIForm b m)"
  by (simp add: openAPIForm_def Let_def tui_ok_candidates)

lemma providers_step: "tui_ok m \<Longrightarrow> mo_screen m = ScreenProviders \<Longrightarrow> step_ok d m (providers_key key m)"
  by (simp add: step_ok_Some providers_key_def Let_def openAPIForm_ok tui_ok_candidates)

lemma advanceAPI_ok:
  assumes "candidates_ok m" "mo_screen m = ScreenAPI"
  shows "tui_ok (fst (advanceAPI d m)) \<and> list_all (cmd_ok d m) (snd (advanceAPI d m))"
proof (cases "mo_apiStep m")
  case apiStepModel
  let ?a = "addAPICandidates (ti_Value (mo_apiURL m)) (mo_apiName m) (ti_Value (mo_apiKey m)) [trim_space (ti_Value (mo_apiModel m))] m"
  have "candidates_ok ((clearAPIForm ?a)\<lparr>mo_screen := ScreenProviders, mo_cursor := 0\<rparr>)"
    by (rule candidates_ok_cong [of _ ?a]) (simp_all add: clearAPIForm_def addAPICandidates_ok [OF assms(1)] del: addAPICandidates.simps)
  then have "tui_ok ((clearAPIForm ?a)\<lparr>mo_screen := ScreenProviders, mo_cursor := 0\<rparr>)" by (rule tui_ok_elsewhere) simp_all
  moreover have "tui_ok (m\<lparr>mo_err := e\<rparr>)" for e using assms by (simp add: tui_inv)
  ultimately show ?thesis using apiStepModel by (simp add: advanceAPI_def Let_def del: addAPICandidates.simps)
qed (use assms in \<open>simp_all add: advanceAPI_def Let_def tui_inv split: sum.split\<close>)

lemma api_step: "tui_ok m \<Longrightarrow> mo_screen m = ScreenAPI \<Longrightarrow> step_ok d m (api_key d key m)"
proof -
  assume m: "tui_ok m" "mo_screen m = ScreenAPI"
  then have "tui_ok ((clearAPIForm m)\<lparr>mo_screen := ScreenProviders, mo_cursor := 0\<rparr>)" by (simp add: clearAPIForm_def tui_inv)
  moreover have "tui_ok (fst (advanceAPI d m)) \<and> list_all (cmd_ok d m) (snd (advanceAPI d m))" using m by (intro advanceAPI_ok) (simp_all add: tui_ok_def)
  ultimately show ?thesis using m by (simp add: api_key_def step_ok_Some)
qed

lemma review_step: "tui_ok m \<Longrightarrow> mo_screen m = ScreenReview \<Longrightarrow> step_ok d m (review_key key m)"
  using selections_distinct [of m] by (simp add: step_ok_Some review_key_def tui_ok_candidates)

lemma status_step: "tui_ok m \<Longrightarrow> mo_screen m = ScreenStatus \<Longrightarrow> step_ok d m (status_key key m)"
  using selections_distinct [of m] by (simp add: step_ok_Some status_key_def tui_ok_candidates)

lemma attach_step:
  assumes "tui_ok m" "mo_screen m = ScreenOfferAttach"
  shows "step_ok d m (attach_key key m)"
proof -
  have "mo_attachOffers m \<noteq> []" "mo_cursor m < length (mo_attachOffers m)" using assms by (auto simp: tui_inv)
  then have "move (mo_cursor m) key (length (mo_attachOffers m)) < length (mo_attachOffers m)" by (intro move_less) simp_all
  then show ?thesis using assms by (auto simp: step_ok_def attach_key_def Let_def tui_inv list_all_length)
qed

lemma pricing_step:
  assumes "tui_ok m" "mo_screen m = ScreenPricing"
  shows "step_ok d m (pricing_key d key m)"
  using assms by (auto simp: step_ok_def pricing_key_def advancePricing_def clearPricing_def tui_inv ti_defs computeOnly_shape split: priceStep.split)

lemma collateral_step: "tui_ok m \<Longrightarrow> mo_screen m = ScreenCollateral \<Longrightarrow> step_ok d m (collateral_key d key m)"
  by (simp add: step_ok_Some collateral_key_def tui_ok_candidates)

lemma deposit_step: "tui_ok m \<Longrightarrow> mo_screen m = ScreenCollateralDeposit \<Longrightarrow> step_ok d m (deposit_key d key m)"
  by (simp add: step_ok_Some deposit_key_def tui_ok_candidates)

lemma choose_row_step:
  assumes "tui_ok m" "mo_screen m = ScreenOffers"
  shows "tui_ok (fst (choose_row d row m)) \<and> list_all (cmd_ok d m') (snd (choose_row d row m))"
proof (cases row)
  case (WalletRow offer)
  have "b \<in> set (attachableBackends d offer) \<Longrightarrow> Compatible b offer" for b by (simp add: attachableBackends_def)
  then show ?thesis using assms(1) WalletRow by (simp add: choose_row_def split: option.split list.split)
next
  case (BackendRow b)
  have c: "candidates_ok m" using assms(1) by (rule tui_ok_candidates)
  have ok: "list_all (Compatible b) (compatibleOffers d b m)" by (simp add: compatibleOffers_def list_all_iff)
  have "tui_ok (m\<lparr>mo_screen := ScreenOfferAttach, mo_cursor := 0, mo_attachBackend := b, mo_attachOffers := f # g # fs\<rparr>)"
    if "compatibleOffers d b m = f # g # fs" for f g fs
    using c ok [unfolded that] by (simp add: tui_ok_def pricing_ok_def attach_ok_def)
  moreover have "Compatible b f" if "compatibleOffers d b m = [f]" for f using ok [unfolded that] by simp
  ultimately show ?thesis using assms(1) BackendRow openPricing_ok [OF c] by (simp add: choose_row_def split: list.split)
qed

lemma offers_step:
  assumes "tui_ok m" "mo_screen m = ScreenOffers"
  shows "step_ok d m (offers_key d key m)"
proof -
  define p where "p = move (mo_cursor m) key (length (offerRows d m))"
  let ?m = "m\<lparr>mo_cursor := p\<rparr>"
  have m: "tui_ok ?m" "mo_screen ?m = ScreenOffers" using assms by (simp_all add: tui_inv)
  have "tui_ok (openPricing b ?m)" for b using openPricing_ok m(1) by (simp add: tui_ok_def)
  moreover have "tui_ok (?m\<lparr>mo_screen := ScreenHome, mo_cursor := 0\<rparr>)" "tui_ok (?m\<lparr>mo_status := t\<rparr>)" "tui_ok (?m\<lparr>mo_err := e\<rparr>)"
    "tui_ok (?m\<lparr>mo_busy := True, mo_err := None\<rparr>)" for t e using assms by (simp_all add: tui_inv)
  moreover have "cmd_ok d m CmdStart" if "\<not> list_ex (\<lambda>b. cb_Enabled b \<and> cb_PriceVersion b = 0) (currentBackends d)"
    using that by (auto simp: list_ex_iff list_all_iff word_gt_0)
  ultimately show ?thesis
    using assms(2) m(1) choose_row_step [OF m, of d _ m]
    unfolding offers_key_def Let_def p_def [symmetric]
    by (simp add: step_ok_Some step_ok_None del: cmd_ok.simps split: offerRow.split)
qed

lemma confirm_step: "tui_ok m \<Longrightarrow> mo_confirmQuit m \<Longrightarrow> step_ok d m (confirm_key d key m)"
  by (simp add: step_ok_Some confirm_key_def)

lemmas key_steps = home_step providers_step api_step review_step status_step offers_step attach_step pricing_step collateral_step deposit_step confirm_step

lemma HandleKey_step: "tui_ok m \<Longrightarrow> step_ok d m (HandleKey d key m)"
proof (cases "key = ''ctrl+c''")
  case True
  then show "tui_ok m \<Longrightarrow> ?thesis" by (simp add: HandleKey_def step_ok_def tui_inv)
next
  case False
  then show "tui_ok m \<Longrightarrow> ?thesis" using key_steps by (simp add: HandleKey_def split: tui_screen.split)
qed

lemma edit_field_ok: "tui_ok m \<Longrightarrow> tui_ok (edit_field d ev m)"
proof (cases "mo_screen m")
  case ScreenPricing
  then show "tui_ok m \<Longrightarrow> ?thesis" by (cases "mo_priceStep m") (auto simp: edit_field_def tui_inv)
next
  case ScreenAPI
  then show "tui_ok m \<Longrightarrow> ?thesis" by (cases "mo_apiStep m") (simp_all add: edit_field_def tui_inv)
qed (simp_all add: edit_field_def tui_inv)

lemma applyCatalog_ok:
  assumes "tui_ok m"
  shows "tui_ok (applyCatalog u n s models m)"
proof (cases models)
  case (Inl e)
  then show ?thesis using assms by (simp add: applyCatalog_def)
next
  case (Inr names)
  have "candidates_ok (addAPICandidates u n s names (m\<lparr>mo_busy := False\<rparr>))"
    using assms by (intro addAPICandidates_ok) (simp add: tui_ok_candidates)
  then show ?thesis using Inr by (simp add: applyCatalog_def)
qed

lemma clearPricing_ok: "mo_screen m \<noteq> ScreenPricing \<Longrightarrow> tui_ok (clearPricing m) = tui_ok m"
  by (simp add: clearPricing_def tui_inv)

lemma on_operation_ok:
  "tui_ok m \<Longrightarrow> tui_ok (fst (on_operation d status r m)) \<and> list_all (cmd_ok d m) (snd (on_operation d status r m))"
  by (simp add: on_operation_def Let_def clearPricing_ok accountCommand_def tui_ok_candidates split: sum.split)

lemma applyAccount_ok: "tui_ok m \<Longrightarrow> tui_ok (applyAccount r m)"
  by (simp add: applyAccount_def Let_def tui_inv)

lemma tui_Update_step:
  assumes "tui_ok m"
  shows "step_ok d m (tui_Update d msg m)"
proof (cases msg)
  case (WindowSizeMsg w h)
  then show ?thesis using assms by (simp add: step_ok_Some Resize_def Let_def ti_defs tui_inv)
next
  case (CatalogMsg u n s models)
  then show ?thesis using applyCatalog_ok [OF assms] by (simp add: step_ok_Some)
next
  case (StartedMsg r)
  then show ?thesis using assms by (simp add: step_ok_Some applyStarted_def Let_def accountCommand_def tui_inv split: sum.split)
next
  case (ConfiguredMsg r)
  then show ?thesis using assms by (simp add: step_ok_Some accountCommand_def tui_inv split: sum.split)
next
  case (SnapshotMsg r)
  then show ?thesis using assms by (simp add: step_ok_Some applySnapshot_def Let_def tui_inv split: sum.split)
next
  case (AccountMsg r)
  then show ?thesis using applyAccount_ok [OF assms] by (simp add: step_ok_Some Let_def)
next
  case (OperationMsg status r)
  then show ?thesis using on_operation_ok [OF assms] by (simp add: step_ok_Some)
next
  case (PasteMsg ev)
  then show ?thesis using edit_field_ok [OF assms] by (simp add: step_ok_Some)
next
  case (MouseWheelMsg dir)
  then show ?thesis using HandleKey_step [OF assms] assms by (simp add: step_ok_Some split: option.split bool.split)
next
  case (KeyPressMsg key)
  then show ?thesis using HandleKey_step [OF assms] edit_field_ok [OF assms] by (simp add: step_ok_Some)
qed (use assms in \<open>simp_all add: step_ok_Some accountCommand_def\<close>)

text \<open>The states the interface can be in: messages come in any order, each with the dependencies' answers of that moment.\<close>

inductive tui_reachable :: "tui_model \<Rightarrow> tui_model \<Rightarrow> bool" for start :: tui_model where
  start: "tui_reachable start start"
| step: "tui_reachable start m \<Longrightarrow> tui_Update d msg m = Some (m', cmds) \<Longrightarrow> tui_reachable start m'"

lemma reachable_ok: "tui_reachable start m \<Longrightarrow> tui_ok start \<Longrightarrow> tui_ok m"
proof (induction rule: tui_reachable.induct)
  case (step m d msg m' cmds)
  then show ?case using tui_Update_step [of m d msg] by (simp add: step_ok_Some)
qed

lemma NewModel_ok:
  "distinct (map hc_ID cs) \<Longrightarrow> list_all (\<lambda>c. hc_ID c = StableID (host_candidate.truncate c)) cs \<Longrightarrow> tui_ok (NewModel cs)"
  by (simp add: tui_inv NewModel_def)


fun tui_run :: "(tui_deps \<times> tui_msg) list \<Rightarrow> tui_model \<Rightarrow> tui_model option" where
  "tui_run [] m = Some m"
| "tui_run ((d, msg) # rest) m = (case tui_Update d msg m of None \<Rightarrow> None | Some (m', _) \<Rightarrow> tui_run rest m')"

lemma tui_run_reachable: "tui_run ms m = Some m' \<Longrightarrow> tui_reachable start m \<Longrightarrow> tui_reachable start m'"
proof (induction ms arbitrary: m)
  case (Cons x ms)
  obtain d msg where x: "x = (d, msg)" by fastforce
  show ?case
  proof (cases "tui_Update d msg m")
    case (Some r)
    then obtain m1 cmds where "tui_Update d msg m = Some (m1, cmds)" by (cases r) auto
    then show ?thesis using Cons x tui_reachable.step by simp
  qed (use Cons.prems x in simp)
qed simp

definition quiet_deps :: "cfg_backend list \<Rightarrow> tui_deps" where
  "quiet_deps bs = \<lparr>td_ListModels = None, td_Configure = None, td_Start = None, td_Stop = False, td_Snapshot = None, td_Backends = [],
     td_LoadBackends = Some bs, td_Account = None, td_Attach = None, td_Publish = Some (\<lambda>_ _. Inr ()), td_Deposit = None,
     td_RequestExit = Some (Inr ()), td_FinalizeExit = None, td_Parse = (\<lambda>_. Inl (ErrText ''unused'')),
     td_Edit = (\<lambda>t ev. t\<lparr>ti_Value := ti_Value t @ ev\<rparr>)\<rparr>"

definition unpriced :: cfg_backend where
  "unpriced = \<lparr>cb_Name = ''kimi-k'', cb_OfferID = '''', cb_Kind = ''kimi'', cb_URL = '''', cb_Model = ''k'', cb_PriceVersion = 0, cb_Enabled = True, cb_Image = ''i''\<rparr>"

text \<open>Home, the offers, their account, the price form of the backend, its compute price, and the review.\<close>

definition pricing_keys :: "(tui_deps \<times> tui_msg) list" where
  "pricing_keys = map (\<lambda>msg. (quiet_deps [unpriced], msg))
     [KeyPressMsg ''down'', KeyPressMsg ''enter'', AccountMsg (Inr zero_account), KeyPressMsg ''e'', KeyPressMsg ''7'', KeyPressMsg ''enter'']"

lemma pricing_keys_run:
  "map_option snd (case tui_run pricing_keys (NewModel []) of None \<Rightarrow> None | Some m \<Rightarrow> tui_Update (quiet_deps [unpriced]) (KeyPressMsg ''enter'') m)
   = Some [CmdPublish unpriced \<lparr>rm_InputPerMillionMON = ''0'', rm_OutputPerMillionMON = ''0'', rm_ComputePerSecondMON = ''7''\<rparr>]"
  by code_simp


section \<open>Where the interface goes wrong\<close>

text \<open>The cursor is not bounded again when the list gets shorter: choosing a row then panics.\<close>

definition shrunk_keys :: "(tui_deps \<times> tui_msg) list" where
  "shrunk_keys = map (\<lambda>msg. (quiet_deps [unpriced, unpriced], msg))
     [KeyPressMsg ''down'', KeyPressMsg ''enter'', AccountMsg (Inr zero_account), KeyPressMsg ''down'']"

lemma shrunk_offers_panic: "\<exists>m. tui_reachable (NewModel []) m \<and> tui_Update (quiet_deps [unpriced]) (KeyPressMsg ''enter'') m = None"
proof -
  have "(case tui_run shrunk_keys (NewModel []) of None \<Rightarrow> False
    | Some m \<Rightarrow> (case tui_Update (quiet_deps [unpriced]) (KeyPressMsg ''enter'') m of None \<Rightarrow> True | Some _ \<Rightarrow> False))" by code_simp
  then obtain m where "tui_run shrunk_keys (NewModel []) = Some m" "tui_Update (quiet_deps [unpriced]) (KeyPressMsg ''enter'') m = None"
    by (auto split: option.splits)
  then show ?thesis using tui_run_reachable tui_reachable.start by blast
qed

text \<open>A second key press requests the exit of the collateral again before the first request is answered.\<close>

lemma exit_requested_twice:
  assumes "mo_screen m = ScreenCollateral" "\<not> mo_confirmQuit m" "pv_BondExitAvailableAt (mo_account m) = 0" "td_RequestExit d \<noteq> None"
  shows "\<exists>m' m''. tui_Update d (KeyPressMsg ''x'') m = Some (m', [CmdRequestExit]) \<and> tui_Update d (KeyPressMsg ''x'') m' = Some (m'', [CmdRequestExit])"
  using assms by (simp add: HandleKey_def collateral_key_def form_screen_def)

text \<open>The models of a form that was cancelled are added, with the key that was typed.\<close>

lemma cancelled_form_keeps_key:
  assumes "mo_screen m = ScreenAPI" "\<not> mo_confirmQuit m" "tui_Update d (KeyPressMsg ''esc'') m = Some (m', cmds)"
  shows "\<exists>m''. tui_Update d (CatalogMsg u n secret (Inr [v])) m' = Some (m'', []) \<and> mo_secrets m'' (hc_ID (api_candidate u n v)) = Some secret"
  using assms by (simp add: applyCatalog_def clearAPIForm_def Let_def)

text \<open>On the home screen the interface quits while it is hosting, without asking.\<close>

lemma home_quits_hosting:
  assumes "mo_screen m = ScreenHome" "mo_running m" "\<not> mo_confirmQuit m"
  shows "\<exists>m'. tui_Update d (KeyPressMsg ''q'') m = Some (m', [CmdQuit]) \<and> mo_running m'"
  using assms by (simp add: HandleKey_def home_key_def form_screen_def Let_def)

section \<open>Amounts shown can be entered\<close>

lemma nat_string_length: "n < 10 ^ k \<Longrightarrow> k \<noteq> 0 \<Longrightarrow> length (nat_string n) \<le> k"
proof (induction n arbitrary: k rule: nat_string.induct)
  case (1 n)
  show ?case
  proof (cases "n < 10")
    case True
    then show ?thesis using 1(3) by (subst nat_string.simps) simp
  next
    case False
    obtain j where k: "k = Suc j" using 1(3) by (cases k) auto
    have "n div 10 < 10 ^ j" using 1(2) k by (simp add: less_mult_imp_div_less)
    moreover have "j \<noteq> 0" using False 1(2) k by (cases j) auto
    ultimately have "length (nat_string (n div 10)) \<le> j" using 1(1) [OF False] by blast
    then show ?thesis using False k by (subst nat_string.simps) simp
  qed
qed

lemma trim_zeros_split: "\<exists>k. s = trim_zeros s @ replicate k (CHR ''0'')"
proof -
  let ?z = "\<lambda>c. c = CHR ''0''"
  have "rev s = takeWhile ?z (rev s) @ dropWhile ?z (rev s)" by simp
  moreover have "takeWhile ?z (rev s) = replicate (length (takeWhile ?z (rev s))) (CHR ''0'')"
    by (rule replicate_length_same [symmetric]) (auto dest: set_takeWhileD)
  ultimately have "s = trim_zeros s @ rev (replicate (length (takeWhile ?z (rev s))) (CHR ''0''))"
    unfolding trim_zeros_def by (metis rev_append rev_rev_ident)
  then show ?thesis by (metis rev_replicate)
qed

text \<open>The digits after the point, and what they are worth.\<close>

lemma fraction_digits:
  assumes "f < 10 ^ 18" "f \<noteq> 0"
  defines "t \<equiv> trim_zeros (replicate (18 - length (nat_string f)) (CHR ''0'') @ nat_string f)"
  shows "t \<noteq> [] \<and> list_all is_digit t \<and> length t \<le> 18 \<and> digits_val t * 10 ^ (18 - length t) = f"
proof -
  let ?s = "replicate (18 - length (nat_string f)) (CHR ''0'') @ nat_string f"
  have len: "length ?s = 18" using nat_string_length [OF assms(1)] by simp
  have val: "digits_val ?s = f" by (simp add: digits_val_append digits_val_zeros)
  have dig: "list_all is_digit ?s"
    using nat_string_digits [of f] by (auto simp: list_all_iff set_replicate_conv_if is_digit_def less_eq_char_def)
  obtain k where k: "?s = t @ replicate k (CHR ''0'')" using trim_zeros_split [of ?s] t_def by auto
  have "18 - length t = k" "length t \<le> 18" using arg_cong [OF k, of length] len by simp_all
  moreover have v: "digits_val t * 10 ^ k = f" using arg_cong [OF k, of digits_val] val by (simp add: digits_val_padded)
  moreover have "t \<noteq> []" using v assms(2) by (auto simp: digits_val_def)
  moreover have "list_all is_digit t" using dig k by simp
  ultimately show ?thesis by simp
qed

text \<open>An amount the interface shows can be entered again: for every amount of wei below \<open>2^256\<close>, parsing the text shown for it gives the
  amount back exactly.\<close>

lemma formatWei_round_trip:
  assumes "n < 2 ^ 256"
  shows "ParseMON (formatWei (nat_string n)) = Inr (nat_string n)"
proof -
  have n: "big_set_string (nat_string n) = Some (int n)" using big_set_string_int_string [of "int n"] by (simp add: int_string_int)
  have parts: "int n div 10 ^ 18 = int (n div 10 ^ 18)" "int n mod 10 ^ 18 = int (n mod 10 ^ 18)" by (simp_all add: zdiv_int zmod_int)
  let ?w = "nat_string (n div 10 ^ 18)"
  have w: "?w \<noteq> []" "list_all is_digit ?w" by (simp_all add: nat_string_digits)
  have "\<not> is_digit (CHR ''.'')" by (simp add: is_digit_def less_eq_char_def)
  then have nd: "CHR ''.'' \<notin> set ?w" using w(2) by (auto simp: list_all_iff)
  have "mon_numeral (formatWei (nat_string n)) \<and> mon_wei (formatWei (nat_string n)) = n"
  proof (cases "n mod 10 ^ 18 = 0")
    case True
    then have "formatWei (nat_string n) = ?w" using n parts by (simp add: formatWei_def Let_def int_string_int del: power_numeral)
    moreover have "n div 10 ^ 18 * 10 ^ 18 = n" using True by (metis add.right_neutral div_mult_mod_eq)
    ultimately show ?thesis using w nd by (simp add: mon_numeral_def mon_wei_def mon_parts_whole digits_val_def [of "[]"] del: power_numeral)
  next
    case False
    let ?t = "trim_zeros (replicate (18 - length (nat_string (n mod 10 ^ 18))) (CHR ''0'') @ nat_string (n mod 10 ^ 18))"
    have t: "?t \<noteq> [] \<and> list_all is_digit ?t \<and> length ?t \<le> 18 \<and> digits_val ?t * 10 ^ (18 - length ?t) = n mod 10 ^ 18"
      using False by (intro fraction_digits) simp_all
    have "formatWei (nat_string n) = ?w @ CHR ''.'' # ?t"
      using n parts False by (simp add: formatWei_def Let_def int_string_int del: power_numeral)
    then show ?thesis
      using t w nd div_mult_mod_eq [of n "10 ^ 18"] by (simp add: mon_numeral_def mon_wei_def mon_parts_point del: power_numeral)
  qed
  then show ?thesis using assms by (simp add: ParseMON_numeral)
qed

lemma formatWei_round_trip_witness: "ParseMON (formatWei (nat_string 1500000000000000000)) = Inr (nat_string 1500000000000000000)"
  by (rule formatWei_round_trip) simp

end
