(* ===== verification/HostCommands.thy ===== *)
theory HostCommands
  imports ProviderOps CommandAgent
begin

text \<open>
  The commands of the provider's program (\<^verbatim>\<open>cli/cmd/myference/main.go\<close>): the backends of a configuration and what the daemon announces for them,
  the \<^verbatim>\<open>backend\<close> command on the configuration file and the credential store, the first configuration of a host, the relay's address and
  the pauses between reconnections. Flags are parsed by a library: a command gets their values. Every change of the credential
  store and of the file may fail; reading the file does not.
\<close>

section \<open>The clients of backends\<close>

definition backendUsesCredential :: "string \<Rightarrow> string \<Rightarrow> bool" where
  "backendUsesCredential kind img \<longleftrightarrow> kind = ''openai'' \<or> kind = ''kimi'' \<or> (kind = ''codex'' \<or> kind = ''claude'') \<and> img \<noteq> []"

definition backendUsesWorkspace :: "cfg_backend \<Rightarrow> bool" where
  "backendUsesWorkspace b \<longleftrightarrow> cb_Kind b = ''kimi'' \<or> (cb_Kind b = ''codex'' \<or> cb_Kind b = ''claude'') \<and> cb_Image b \<noteq> []"

definition sameOfferShape :: "cfg_backend \<Rightarrow> cfg_backend \<Rightarrow> bool" where
  "sameOfferShape l r \<longleftrightarrow> cb_Kind l = cb_Kind r \<and> cb_Model l = cb_Model r \<and> backendUsesWorkspace l = backendUsesWorkspace r"

definition commandArguments :: "string \<Rightarrow> string \<Rightarrow> string list" where
  "commandArguments kind model =
     (if kind = ''codex'' then [''exec'', ''--ephemeral'', ''--sandbox'', ''read-only'', ''--skip-git-repo-check'', ''--model'', model, ''-'']
      else if kind = ''claude'' then [''-p'', ''--model'', model]
      else if kind = ''kimi'' then [''--print'', ''--model'', model]
      else [])"

datatype backend_client =
    OllamaClient string
  | OpenAIClient string string
  | NativeCodex string
  | NativeClaude string
  | CommandClient runner

text \<open>
  What the constructors find on the host: the URL parser, the path of docker and of the proxy binary, and the native constructors,
  which may be absent.
\<close>

record client_env =
  ce_Parse :: "string \<Rightarrow> parsed_url result"
  ce_Docker :: "string option"
  ce_Proxy :: "string result"
  ce_Codex :: "(string \<Rightarrow> unit result) option"
  ce_Claude :: "(string \<Rightarrow> unit result) option"

definition two_minutes :: int where
  "two_minutes = 2 * 60 * 10 ^ 9"

definition command_New :: "client_env \<Rightarrow> string \<Rightarrow> string \<Rightarrow> string \<Rightarrow> string \<Rightarrow> runner result" where
  "command_New env img kind model secret =
     (case ce_Docker env of
        None \<Rightarrow> Inl (ErrText ''Docker Desktop is required for isolated command agents'')
      | Some docker \<Rightarrow>
          and_then (ce_Proxy env) (\<lambda>proxy.
            command_newRunner \<lparr>rn_docker = docker, rn_proxyBinary = proxy, rn_image = img, rn_kind = kind, rn_model = model, rn_secret = secret,
              rn_arguments = commandArguments kind model, rn_timeout = two_minutes\<rparr>))"

definition configuredBackend :: "client_env \<Rightarrow> (string \<Rightarrow> string result) \<Rightarrow> string \<Rightarrow> cfg_backend \<Rightarrow> backend_client result" where
  "configuredBackend env loadCredential machineID item =
     (let account = machineID @ ''/'' @ cb_Name item;
          command = and_then (loadCredential account) (\<lambda>secret.
            and_then (command_New env (cb_Image item) (cb_Kind item) (cb_Model item) secret) (\<lambda>r. Inr (CommandClient r)))
      in if cb_Kind item = ''ollama'' then and_then (ollama_New (ce_Parse env) (cb_URL item)) (\<lambda>u. Inr (OllamaClient u))
         else if cb_Kind item = ''openai'' then
           and_then (loadCredential account) (\<lambda>secret. and_then (openai_New (ce_Parse env) (cb_URL item) secret) (\<lambda>u. Inr (OpenAIClient u secret)))
         else if cb_Kind item = ''codex'' then
           (if cb_Image item \<noteq> [] then command
            else case ce_Codex env of None \<Rightarrow> Inl (ErrText ''native Codex backend is unavailable'')
              | Some new \<Rightarrow> and_then (new (cb_Model item)) (\<lambda>_. Inr (NativeCodex (cb_Model item))))
         else if cb_Kind item = ''claude'' then
           (if cb_Image item \<noteq> [] then command
            else case ce_Claude env of None \<Rightarrow> Inl (ErrText ''native Claude backend is unavailable'')
              | Some new \<Rightarrow> and_then (new (cb_Model item)) (\<lambda>_. Inr (NativeClaude (cb_Model item))))
         else if cb_Kind item = ''kimi'' then command
         else Inl (ErrText (''unsupported backend kind '' @ cb_Kind item)))"

section \<open>What is announced\<close>

record backend_model =
  bm_Name :: string
  bm_Digest :: string

text \<open>The text after the last \<^verbatim>\<open>@\<close>.\<close>

definition after_last_at :: "string \<Rightarrow> string" where
  "after_last_at s = rev (takeWhile (\<lambda>c. c \<noteq> CHR ''@'') (rev s))"

definition offerCapacity_of :: "eth \<Rightarrow> cfg_backend \<Rightarrow> backend_model \<Rightarrow> offerCapacity" where
  "offerCapacity_of G item discovered =
     (let offerID = EffectiveOfferID item;
          commandAgent = backendUsesWorkspace item;
          capabilities = [''stream'', ''text''] @ (if commandAgent then [''workspace''] else []);
          (kind, digest, metering) =
            (if commandAgent then (''runtime_image'', trim_prefix ''@'' (after_last_at (cb_Image item)), ''compute_only'')
             else if cb_Kind item = ''ollama'' then (''ollama_digest'', bm_Digest discovered, ''tokens_and_compute'')
             else (''upstream_model'', bm_Name discovered, ''tokens_and_compute''))
      in \<lparr>oc_OfferID = offerID, oc_Model = cb_Model item, oc_PriceVersion = cb_PriceVersion item, oc_BackendKind = cb_Kind item,
          oc_OfferHash = keccak_hex G offerID, oc_ModelHash = keccak_hex G (cb_Model item),
          oc_CapabilityHash = keccak_hex G (join_with (CHR '','' ) capabilities), oc_Capabilities = capabilities,
          oc_EvidenceKind = kind, oc_EvidenceDigest = digest, oc_MeteringMode = metering\<rparr>)"

text \<open>\<open>query\<close> asks a client for its models.\<close>

definition discover_one ::
  "eth \<Rightarrow> client_env \<Rightarrow> (string \<Rightarrow> string result) \<Rightarrow> (backend_client \<Rightarrow> backend_model list result) \<Rightarrow> string \<Rightarrow> cfg_backend
   \<Rightarrow> (offerCapacity \<times> backend_client) result" where
  "discover_one G env loadCredential query machineID item =
     (if cb_PriceVersion item = 0
      then Inl (ErrText (''backend '' @ cb_Name item @ '' has no finalized offer version; publish or attach an offer before serving''))
      else and_then (configuredBackend env loadCredential machineID item) (\<lambda>client.
           and_then (query client) (\<lambda>models.
             case find (\<lambda>m. bm_Name m = cb_Model item) models of
               None \<Rightarrow> Inl (ErrText (''configured model '' @ cb_Model item @ '' is not available''))
             | Some m \<Rightarrow> Inr (offerCapacity_of G item m, client))))"

fun discover_loop ::
  "eth \<Rightarrow> client_env \<Rightarrow> (string \<Rightarrow> string result) \<Rightarrow> (backend_client \<Rightarrow> backend_model list result) \<Rightarrow> string \<Rightarrow> cfg_backend list
   \<Rightarrow> offerCapacity list \<Rightarrow> (string \<rightharpoonup> backend_client) \<Rightarrow> (offerCapacity list \<times> (string \<rightharpoonup> backend_client)) result" where
  "discover_loop G env load query machineID [] announced table = Inr (announced, table)"
| "discover_loop G env load query machineID (item # items) announced table =
     (if \<not> cb_Enabled item then discover_loop G env load query machineID items announced table
      else and_then (discover_one G env load query machineID item) (\<lambda>(offer, client).
             discover_loop G env load query machineID items (announced @ [offer]) (table(EffectiveOfferID item \<mapsto> client))))"

definition discoverBackends ::
  "eth \<Rightarrow> client_env \<Rightarrow> (string \<Rightarrow> string result) \<Rightarrow> (backend_client \<Rightarrow> backend_model list result) \<Rightarrow> provider_config
   \<Rightarrow> (offerCapacity list \<times> (string \<rightharpoonup> backend_client)) result" where
  "discoverBackends G env load query cfg = discover_loop G env load query (cf_MachineID cfg) (cf_Backends cfg) [] Map.empty"

text \<open>A reload of the changed configuration; \<open>prepare\<close> starts what the platform's backends need.\<close>

definition reloadBackends ::
  "eth \<Rightarrow> client_env \<Rightarrow> (string \<Rightarrow> string result) \<Rightarrow> (backend_client \<Rightarrow> backend_model list result) \<Rightarrow> (provider_config \<Rightarrow> unit result) \<Rightarrow> int
   \<Rightarrow> provider_config \<Rightarrow> ('k, backend_client) daemon \<Rightarrow> unit result \<times> ('k, backend_client) daemon" where
  "reloadBackends G env load query prepare now cfg d =
     (case and_then (prepare cfg) (\<lambda>_. discoverBackends G env load query cfg) of
        Inl e \<Rightarrow> (Inl e, d)
      | Inr (announced, table) \<Rightarrow> UpdateBackends now d announced table)"

text \<open>A tick of the watcher: the time of the last change it has seen, the daemon, and what it prints.\<close>

datatype watch_notice = ReloadFailed go_error | CapacityUpdated

definition watch_tick ::
  "(provider_config \<Rightarrow> 'd \<Rightarrow> unit result \<times> 'd) \<Rightarrow> int result \<Rightarrow> provider_config result \<Rightarrow> int \<times> 'd \<Rightarrow> (int \<times> 'd) \<times> watch_notice option" where
  "watch_tick reload stat load s =
     (case stat of
        Inl _ \<Rightarrow> (s, None)
      | Inr modified \<Rightarrow>
          if modified \<le> fst s then (s, None)
          else case load of
            Inl e \<Rightarrow> ((modified, snd s), Some (ReloadFailed e))
          | Inr cfg \<Rightarrow>
              (case reload cfg (snd s) of
                 (Inl e, d) \<Rightarrow> ((modified, d), Some (ReloadFailed e))
               | (Inr _, d) \<Rightarrow> ((modified, d), Some CapacityUpdated)))"

section \<open>The backend command\<close>

record backend_flags =
  bf_name :: string
  bf_model :: string
  bf_url :: string
  bf_kind :: string
  bf_image :: string
  bf_secret :: string
  bf_priceVersion :: u64
  bf_priceVersionSet :: bool
  bf_replace :: bool

text \<open>Whether the credential store has its operations, and the models of a new client.\<close>

record backend_deps =
  bd_SaveCredential :: bool
  bd_DeleteCredential :: bool
  bd_env :: client_env
  bd_query :: "backend_client \<Rightarrow> unit result"

definition check_native :: "backend_deps \<Rightarrow> string \<Rightarrow> (string \<Rightarrow> unit result) option \<Rightarrow> backend_client \<Rightarrow> backend_flags \<Rightarrow> unit result" where
  "check_native d label new client f =
     (if bf_secret f \<noteq> [] then Inl (ErrText (''native '' @ label @ '' uses the existing '' @ label @ '' CLI login; omit --secret''))
      else case new of
        None \<Rightarrow> Inl (ErrText (''native '' @ label @ '' backend is unavailable''))
      | Some create \<Rightarrow> and_then (create (bf_model f)) (\<lambda>_. bd_query d client))"

definition check_command :: "backend_deps \<Rightarrow> backend_flags \<Rightarrow> unit result" where
  "check_command d f = and_then (command_New (bd_env d) (bf_image f) (bf_kind f) (bf_model f) (bf_secret f)) (\<lambda>_. Inr ())"

definition check_backend :: "backend_deps \<Rightarrow> backend_flags \<Rightarrow> unit result" where
  "check_backend d f =
     (if bf_kind f = ''ollama'' then and_then (ollama_New (ce_Parse (bd_env d)) (bf_url f)) (\<lambda>_. Inr ())
      else if bf_kind f = ''openai'' then and_then (openai_New (ce_Parse (bd_env d)) (bf_url f) (bf_secret f)) (\<lambda>_. Inr ())
      else if bf_kind f = ''codex'' then
        (if bf_image f = [] then check_native d ''Codex'' (ce_Codex (bd_env d)) (NativeCodex (bf_model f)) f
         else if bf_secret f = [] then Inl (ErrText ''--secret is required with a pinned Codex --image'') else check_command d f)
      else if bf_kind f = ''claude'' then
        (if bf_image f = [] then check_native d ''Claude'' (ce_Claude (bd_env d)) (NativeClaude (bf_model f)) f
         else if bf_secret f = [] then Inl (ErrText ''--secret is required with a pinned Claude --image'') else check_command d f)
      else if bf_secret f = [] \<or> bf_image f = [] then Inl (ErrText ''--secret and a pinned --image are required for isolated command agents'')
      else check_command d f)"

definition new_item :: "backend_flags \<Rightarrow> cfg_backend" where
  "new_item f = \<lparr>cb_Name = bf_name f, cb_OfferID = '''', cb_Kind = bf_kind f,
     cb_URL = (if bf_kind f = ''ollama'' \<or> bf_kind f = ''openai'' then bf_url f else ''''), cb_Model = bf_model f,
     cb_PriceVersion = bf_priceVersion f, cb_Enabled = True, cb_Image = bf_image f\<rparr>"

text \<open>The item as it is stored, given the backend it replaces.\<close>

definition replaced_item :: "backend_flags \<Rightarrow> cfg_backend \<Rightarrow> cfg_backend" where
  "replaced_item f previous =
     (let item = new_item f
      in if sameOfferShape previous item
         then item\<lparr>cb_OfferID := cb_OfferID previous,
                   cb_PriceVersion := (if cb_OfferID previous \<noteq> [] \<or> \<not> bf_priceVersionSet f then cb_PriceVersion previous else cb_PriceVersion item)\<rparr>
         else item)"

definition added_backends :: "backend_flags \<Rightarrow> cfg_backend list \<Rightarrow> cfg_backend list" where
  "added_backends f bs =
     (case index_of (\<lambda>b. cb_Name b = bf_name f) bs of Some i \<Rightarrow> bs[i := replaced_item f (bs ! i)] | None \<Rightarrow> bs @ [new_item f])"

definition save_config :: "provider_config \<Rightarrow> cred_state \<Rightarrow> unit result \<times> cred_state" where
  "save_config cfg w =
     (case config_required cfg of
        Inl e \<Rightarrow> (Inl e, w)
      | Inr _ \<Rightarrow> (case cred_step ConfigSave w of (True, w) \<Rightarrow> (Inl (ErrText ''save configuration''), w) | (False, w) \<Rightarrow> (Inr (), w\<lparr>cr_config := Some cfg\<rparr>)))"

definition save_secret :: "string \<Rightarrow> string \<Rightarrow> cred_state \<Rightarrow> unit result \<times> cred_state" where
  "save_secret account secret w =
     (case cred_step CredSave w of
        (True, w) \<Rightarrow> (Inl (ErrText ''store backend credential''), w)
      | (False, w) \<Rightarrow> (Inr (), w\<lparr>cr_secrets := (cr_secrets w)(account \<mapsto> secret)\<rparr>))"

definition delete_secret :: "string \<Rightarrow> cred_state \<Rightarrow> unit result \<times> cred_state" where
  "delete_secret account w =
     (case cred_step CredDelete w of
        (True, w) \<Rightarrow> (Inl (ErrText ''remove backend credential''), w)
      | (False, w) \<Rightarrow> (Inr (), w\<lparr>cr_secrets := (cr_secrets w)(account := None)\<rparr>))"

definition backend_add :: "backend_deps \<Rightarrow> backend_flags \<Rightarrow> provider_config \<Rightarrow> cred_state \<Rightarrow> unit result \<times> cred_state" where
  "backend_add d f cfg w =
     (let existing = index_of (\<lambda>b. cb_Name b = bf_name f) (cf_Backends cfg)
      in if bf_name f = [] \<or> bf_model f = [] then (Inl (ErrText ''--name and --model are required''), w)
         else if bf_kind f \<notin> set [''ollama'', ''openai'', ''codex'', ''claude'', ''kimi''] then (Inl (ErrText ''unsupported backend kind''), w)
         else if existing \<noteq> None \<and> \<not> bf_replace f
         then (Inl (ErrText ''backend name already exists; use --replace to migrate it explicitly''), w)
         else case check_backend d f of
           Inl e \<Rightarrow> (Inl e, w)
         | Inr _ \<Rightarrow>
             (let account = cf_MachineID cfg @ ''/'' @ bf_name f;
                  uses = backendUsesCredential (bf_kind f) (bf_image f);
                  obsolete = (case existing of
                      Some i \<Rightarrow> backendUsesCredential (cb_Kind (cf_Backends cfg ! i)) (cb_Image (cf_Backends cfg ! i)) \<and> \<not> uses
                    | None \<Rightarrow> False)
              in if uses \<and> \<not> bd_SaveCredential d then (Inl (ErrText ''credential store unavailable''), w)
                 else case (if uses then save_secret account (bf_secret f) w else (Inr (), w)) of
                   (Inl e, w) \<Rightarrow> (Inl e, w)
                 | (Inr _, w) \<Rightarrow>
                     (case save_config (cfg\<lparr>cf_Backends := added_backends f (cf_Backends cfg)\<rparr>) w of
                        (Inl e, w) \<Rightarrow> (Inl e, w)
                      | (Inr _, w) \<Rightarrow> if obsolete \<and> bd_DeleteCredential d then delete_secret account w else (Inr (), w))))"

definition backend_remove :: "backend_deps \<Rightarrow> backend_flags \<Rightarrow> provider_config \<Rightarrow> cred_state \<Rightarrow> unit result \<times> cred_state" where
  "backend_remove d f cfg w =
     (if bf_name f = [] then (Inl (ErrText ''--name is required''), w)
      else case index_of (\<lambda>b. cb_Name b = bf_name f) (cf_Backends cfg) of
        None \<Rightarrow> (Inl (ErrText ''backend not found''), w)
      | Some i \<Rightarrow>
          (let removed = cf_Backends cfg ! i; uses = backendUsesCredential (cb_Kind removed) (cb_Image removed)
           in if uses \<and> \<not> bd_DeleteCredential d then (Inl (ErrText ''credential store unavailable''), w)
              else case save_config (cfg\<lparr>cf_Backends := take i (cf_Backends cfg) @ drop (i + 1) (cf_Backends cfg)\<rparr>) w of
                (Inl e, w) \<Rightarrow> (Inl e, w)
              | (Inr _, w) \<Rightarrow> if uses then delete_secret (cf_MachineID cfg @ ''/'' @ cb_Name removed) w else (Inr (), w)))"

text \<open>The commands that change every backend of the name.\<close>

definition backend_change :: "(cfg_backend \<Rightarrow> cfg_backend) \<Rightarrow> string \<Rightarrow> provider_config \<Rightarrow> cred_state \<Rightarrow> unit result \<times> cred_state" where
  "backend_change g name cfg w =
     (if name \<notin> cb_Name ` set (cf_Backends cfg) then (Inl (ErrText ''backend not found''), w)
      else save_config (cfg\<lparr>cf_Backends := map (\<lambda>b. if cb_Name b = name then g b else b) (cf_Backends cfg)\<rparr>) w)"

definition runBackend :: "backend_deps \<Rightarrow> string \<Rightarrow> backend_flags \<Rightarrow> cred_state \<Rightarrow> unit result \<times> cred_state" where
  "runBackend d command f w =
     (case cr_config w of
        None \<Rightarrow> (Inl (ErrText ''file does not exist''), w)
      | Some cfg \<Rightarrow>
          (case config_required cfg of
             Inl e \<Rightarrow> (Inl e, w)
           | Inr _ \<Rightarrow>
               if command = ''add'' then backend_add d f cfg w
               else if command = ''start'' \<or> command = ''stop'' then backend_change (\<lambda>b. b\<lparr>cb_Enabled := (command = ''start'')\<rparr>) (bf_name f) cfg w
               else if command = ''remove'' then backend_remove d f cfg w
               else if command = ''version'' then
                 (if bf_priceVersion f = 0 then (Inl (ErrText ''--price-version must be positive''), w)
                  else backend_change (\<lambda>b. b\<lparr>cb_PriceVersion := bf_priceVersion f\<rparr>) (bf_name f) cfg w)
               else if command = ''list'' then (Inr (), w)
               else (Inl (ErrText (''unknown backend command '' @ command)), w)))"

section \<open>The local model\<close>

text \<open>Reading a credential that is there.\<close>

definition secret_load :: "(string \<rightharpoonup> string) \<Rightarrow> string \<Rightarrow> string result" where
  "secret_load secrets account = (case secrets account of None \<Rightarrow> Inl (ErrText ''secret not found in keyring'') | Some s \<Rightarrow> Inr s)"

fun safe_backend_loop :: "string \<Rightarrow> string \<Rightarrow> string" where
  "safe_backend_loop [] result = result"
| "safe_backend_loop (c # cs) result =
     (if is_letter c \<or> is_digit c then safe_backend_loop cs (result @ [c])
      else if result \<noteq> [] \<and> last result \<noteq> CHR ''-'' then safe_backend_loop cs (result @ ''-'')
      else safe_backend_loop cs result)"

definition safeBackendName :: "string \<Rightarrow> string" where
  "safeBackendName model = trim_dashes (safe_backend_loop (to_lower model) [])"

definition local_item :: "string \<Rightarrow> backend_model \<Rightarrow> cfg_backend" where
  "local_item endpoint m = \<lparr>cb_Name = ''local-'' @ safeBackendName (bm_Name m), cb_OfferID = '''', cb_Kind = ''ollama'', cb_URL = endpoint,
     cb_Model = bm_Name m, cb_PriceVersion = 0, cb_Enabled = True, cb_Image = ''''\<rparr>"

text \<open>The first model in the order of names, or the requested one.\<close>

definition select_model :: "string \<Rightarrow> backend_model list \<Rightarrow> backend_model result" where
  "select_model requested models =
     (if models = [] then Inl (ErrText ''Ollama has no installed models; install one with `ollama pull <model>`'')
      else let ms = sort_key bm_Name models
           in if requested = [] then Inr (hd ms)
              else case find (\<lambda>m. bm_Name m = requested) ms of
                None \<Rightarrow> Inl (ErrText (''model '' @ requested @ '' is not installed in Ollama'')) | Some m \<Rightarrow> Inr m)"

definition place_local :: "string \<Rightarrow> backend_model \<Rightarrow> cfg_backend list \<Rightarrow> cfg_backend list result" where
  "place_local endpoint m bs =
     (let item = local_item endpoint m
      in case index_of (\<lambda>b. cb_Kind b = ''ollama'' \<and> cb_Model b = bm_Name m) bs of
        Some i \<Rightarrow> Inr (bs[i := item\<lparr>cb_Name := cb_Name (bs ! i), cb_OfferID := cb_OfferID (bs ! i), cb_PriceVersion := cb_PriceVersion (bs ! i)\<rparr>])
      | None \<Rightarrow> if cb_Name item \<in> cb_Name ` set bs then Inl (ErrText (''backend name '' @ cb_Name item @ '' already exists''))
                else Inr (bs @ [item]))"

text \<open>\<open>models\<close> answers the query of the client.\<close>

definition configureLocalHost ::
  "client_env \<Rightarrow> string \<Rightarrow> string \<Rightarrow> backend_model list result \<Rightarrow> cred_state \<Rightarrow> backend_model result \<times> cred_state" where
  "configureLocalHost env endpoint requested models w =
     (case and_then (ollama_New (ce_Parse env) endpoint) (\<lambda>_. and_then models (select_model requested)) of
        Inl e \<Rightarrow> (Inl e, w)
      | Inr selected \<Rightarrow>
          (case cr_config w of
             None \<Rightarrow> (Inl (ErrText ''login before hosting''), w)
           | Some cfg \<Rightarrow>
               (case and_then (config_required cfg) (\<lambda>_. place_local endpoint selected (cf_Backends cfg)) of
                  Inl e \<Rightarrow> (Inl e, w)
                | Inr bs \<Rightarrow> (case save_config (cfg\<lparr>cf_Backends := bs\<rparr>) w of (Inl e, w) \<Rightarrow> (Inl e, w) | (Inr _, w) \<Rightarrow> (Inr selected, w)))))"

section \<open>Login and the start of hosting\<close>

record relay_url = web_url +
  ru_Fragment :: string

definition relayURL :: "(string \<Rightarrow> relay_url result) \<Rightarrow> (relay_url \<Rightarrow> string) \<Rightarrow> string \<Rightarrow> string result" where
  "relayURL parse print serverURL =
     (case parse serverURL of
        Inl _ \<Rightarrow> Inl (ErrText ''invalid server URL'')
      | Inr u \<Rightarrow>
          if pu_Host u = [] then Inl (ErrText ''invalid server URL'')
          else if pu_Scheme u = ''https'' \<or> pu_Scheme u = ''http''
          then Inr (print (u\<lparr>pu_Scheme := (if pu_Scheme u = ''https'' then ''wss'' else ''ws''), wu_Path := trim_suffix_slash (wu_Path u) @ ''/relay'',
                 wu_Query := [], ru_Fragment := ''''\<rparr>))
          else Inl (ErrText ''server URL must use http or https''))"

definition parse_host :: "(string \<Rightarrow> relay_url result) \<Rightarrow> string \<Rightarrow> parsed_url result" where
  "parse_host parse v = and_then (parse v) (\<lambda>u. Inr (parsed_url.truncate u))"

record client_authorization =
  dz_DeviceCode :: string
  dz_ChainID :: u64
  dz_ContractAddress :: string

record deviceToken =
  dt_MachineID :: string
  dt_AccountID :: string
  dt_SignerAddress :: string
  dt_Token :: string

text \<open>
  What a login is given: the flags, the hostname, the generated key (its address and its secret), the server's answers, and whether
  the verification address could be printed. \<open>li_exchange code k\<close> and \<open>li_wait k\<close> are the answers of the \<open>k\<close>-th attempt.
\<close>

record login_input =
  li_server :: string
  li_name :: string
  li_hostname :: "string result"
  li_key :: "(string \<times> string) result"
  li_authorize :: "string \<Rightarrow> string \<Rightarrow> client_authorization result"
  li_printed :: "unit result"
  li_exchange :: "string \<Rightarrow> nat \<Rightarrow> deviceToken result"
  li_wait :: "nat \<Rightarrow> unit result"

record login_state =
  ls_host :: cred_state
  ls_signers :: "string \<rightharpoonup> string"
  ls_tokens :: "string \<rightharpoonup> string"

definition login_authorize :: "(string \<Rightarrow> parsed_url result) \<Rightarrow> login_input \<Rightarrow> (client_authorization \<times> string \<times> string) result" where
  "login_authorize parse li =
     and_then (if \<not> blank (li_name li) then Inr (li_name li)
       else case li_hostname li of
         Inl _ \<Rightarrow> Inl (ErrText ''--name is required when the hostname is unavailable'')
       | Inr h \<Rightarrow> if blank h then Inl (ErrText ''--name is required when the hostname is unavailable'') else Inr h) (\<lambda>name.
     and_then (NewClient parse (li_server li)) (\<lambda>_. and_then (li_key li) (\<lambda>(signer, secret).
     and_then (li_authorize li name signer) (\<lambda>a. and_then (li_printed li) (\<lambda>_. Inr (a, signer, secret))))))"

text \<open>The exchange is repeated while the authorization is pending.\<close>

partial_function (option) exchange_loop :: "(nat \<Rightarrow> deviceToken result) \<Rightarrow> (nat \<Rightarrow> unit result) \<Rightarrow> nat \<Rightarrow> deviceToken result option" where
  "exchange_loop exchange wait k =
     (case exchange k of
        Inr t \<Rightarrow> Some (Inr t)
      | Inl e \<Rightarrow>
          if e \<noteq> ErrPending then Some (Inl e)
          else case wait k of Inl e \<Rightarrow> Some (Inl e) | Inr _ \<Rightarrow> exchange_loop exchange wait (Suc k))"

declare exchange_loop.simps [code]

definition save_signer :: "string \<Rightarrow> string \<Rightarrow> login_state \<Rightarrow> bool \<times> login_state" where
  "save_signer machine secret s =
     (case cred_step CredSave (ls_host s) of
        (True, w) \<Rightarrow> (False, s\<lparr>ls_host := w\<rparr>)
      | (False, w) \<Rightarrow> (True, s\<lparr>ls_host := w, ls_signers := (ls_signers s)(machine \<mapsto> secret)\<rparr>))"

definition save_token :: "string \<Rightarrow> string \<Rightarrow> login_state \<Rightarrow> bool \<times> login_state" where
  "save_token machine token s =
     (case cred_step CredSave (ls_host s) of
        (True, w) \<Rightarrow> (False, s\<lparr>ls_host := w\<rparr>)
      | (False, w) \<Rightarrow> (True, s\<lparr>ls_host := w, ls_tokens := (ls_tokens s)(machine \<mapsto> token)\<rparr>))"

definition delete_signer :: "string \<Rightarrow> login_state \<Rightarrow> login_state" where
  "delete_signer machine s =
     (case cred_step CredDelete (ls_host s) of
        (True, w) \<Rightarrow> s\<lparr>ls_host := w\<rparr>
      | (False, w) \<Rightarrow> s\<lparr>ls_host := w, ls_signers := (ls_signers s)(machine := None)\<rparr>)"

definition login_config :: "eth \<Rightarrow> string \<Rightarrow> client_authorization \<Rightarrow> string \<Rightarrow> deviceToken \<Rightarrow> provider_config option \<Rightarrow> provider_config" where
  "login_config G server a signer t previous =
     \<lparr>cf_ServerURL = server, cf_AccountID = dt_AccountID t, cf_MachineID = dt_MachineID t, cf_ChainID = dz_ChainID a,
      cf_ContractAddress = eth_AddressHex G (eth_HexToAddress G (dz_ContractAddress a)), cf_SignerAddress = signer,
      cf_Backends = (case previous of None \<Rightarrow> [] | Some c \<Rightarrow> if is_ok (config_required c) then cf_Backends c else [])\<rparr>"

definition login_store ::
  "eth \<Rightarrow> bool \<Rightarrow> string \<Rightarrow> client_authorization \<Rightarrow> string \<Rightarrow> string \<Rightarrow> deviceToken \<Rightarrow> login_state \<Rightarrow> unit result \<times> login_state" where
  "login_store G canDelete server a signer secret t s =
     (if dt_SignerAddress t \<noteq> [] \<and> \<not> equal_fold (dt_SignerAddress t) signer then (Inl (ErrText ''server returned a different machine signer''), s)
      else case save_signer (dt_MachineID t) secret s of
        (False, s) \<Rightarrow> (Inl (ErrText ''store signer credential''), s)
      | (True, s) \<Rightarrow>
          (case save_token (dt_MachineID t) (dt_Token t) s of
             (False, s) \<Rightarrow> (Inl (ErrText ''store machine credential''), if canDelete then delete_signer (dt_MachineID t) s else s)
           | (True, s) \<Rightarrow>
               if dz_ChainID a = 0 \<or> \<not> eth_IsHexAddress G (dz_ContractAddress a) \<or> eth_HexToAddress G (dz_ContractAddress a) = 0
               then (Inl (ErrText ''server did not provide a valid settlement contract''), s)
               else (case save_config (login_config G server a signer t (cr_config (ls_host s))) (ls_host s) of (r, w) \<Rightarrow> (r, s\<lparr>ls_host := w\<rparr>))))"

definition runLogin :: "eth \<Rightarrow> (string \<Rightarrow> parsed_url result) \<Rightarrow> bool \<Rightarrow> login_input \<Rightarrow> login_state \<Rightarrow> (unit result \<times> login_state) option" where
  "runLogin G parse canDelete li s =
     (case login_authorize parse li of
        Inl e \<Rightarrow> Some (Inl e, s)
      | Inr (a, signer, secret) \<Rightarrow>
          (case exchange_loop (li_exchange li (dz_DeviceCode a)) (li_wait li) 0 of
             None \<Rightarrow> None
           | Some (Inl e) \<Rightarrow> Some (Inl e, s)
           | Some (Inr t) \<Rightarrow> Some (login_store G canDelete (li_server li) a signer secret t s)))"

text \<open>What \<^verbatim>\<open>runServe\<close> reads before it prepares the host: the configuration, the credentials and the relay's address.\<close>

definition serve_prepare ::
  "eth \<Rightarrow> (string \<Rightarrow> relay_url result) \<Rightarrow> (relay_url \<Rightarrow> string) \<Rightarrow> (string \<Rightarrow> 'k result) \<Rightarrow> login_state
   \<Rightarrow> (provider_config \<times> string \<times> 'k \<times> address \<times> string) result" where
  "serve_prepare G parse print key_of s =
     (case cr_config (ls_host s) of
        None \<Rightarrow> Inl (ErrText ''file does not exist'')
      | Some cfg \<Rightarrow>
          and_then (config_required cfg) (\<lambda>_. and_then (secret_load (ls_tokens s) (cf_MachineID cfg)) (\<lambda>token.
          and_then (NewClient (parse_host parse) (cf_ServerURL cfg)) (\<lambda>_. and_then (secret_load (ls_signers s) (cf_MachineID cfg)) (\<lambda>secret.
            case key_of (trim_prefix ''0x'' secret) of
              Inl _ \<Rightarrow> Inl (ErrText ''invalid machine signer or settlement domain'')
            | Inr key \<Rightarrow>
                if cf_ChainID cfg = 0 \<or> \<not> eth_IsHexAddress G (cf_ContractAddress cfg)
                then Inl (ErrText ''invalid machine signer or settlement domain'')
                else and_then (relayURL parse print (cf_ServerURL cfg)) (\<lambda>relay.
                  Inr (cfg, token, key, eth_HexToAddress G (cf_ContractAddress cfg), relay)))))))"

section \<open>Reconnecting\<close>

text \<open>
  What each round of the loop meets: the context after the connection ended, whether the notice was written, and the context while waiting.
\<close>

record reconnect_round =
  rr_stopped :: bool
  rr_written :: "unit result"
  rr_stoppedWaiting :: bool

definition next_delay :: "int \<Rightarrow> int \<Rightarrow> int" where
  "next_delay maximum delay = (if delay < maximum then (if delay * 2 > maximum then maximum else delay * 2) else delay)"

text \<open>The pauses that were begun, and the result unless the rounds given end first.\<close>

fun reconnect_loop :: "int \<Rightarrow> int \<Rightarrow> reconnect_round list \<Rightarrow> int list \<times> unit result option" where
  "reconnect_loop maximum delay [] = ([], None)"
| "reconnect_loop maximum delay (r # rs) =
     (if rr_stopped r then ([], Some (Inr ()))
      else case rr_written r of
        Inl e \<Rightarrow> ([], Some (Inl e))
      | Inr _ \<Rightarrow>
          if rr_stoppedWaiting r then ([delay], Some (Inr ()))
          else (case reconnect_loop maximum (next_delay maximum delay) rs of (ds, res) \<Rightarrow> (delay # ds, res)))"

definition serveWithReconnect :: "int \<Rightarrow> int \<Rightarrow> reconnect_round list \<Rightarrow> int list \<times> unit result option" where
  "serveWithReconnect initialDelay maximumDelay rounds =
     (let initial = (if initialDelay \<le> 0 then 10 ^ 9 else initialDelay);
          maximum = (if maximumDelay < initial then initial else maximumDelay)
      in reconnect_loop maximum initial rounds)"

section \<open>What is announced is what was published\<close>

lemma offerShape_announced:
  "offerShape b = (oc_Capabilities (offerCapacity_of G b m), oc_MeteringMode (offerCapacity_of G b m))"
  by (simp add: offerShape_def offerCapacity_of_def backendUsesWorkspace_def Let_def)

lemma announced_capabilities_sorted:
  "sort (oc_Capabilities (offerCapacity_of G b m)) = oc_Capabilities (offerCapacity_of G b m)"
  "remdups_adj (oc_Capabilities (offerCapacity_of G b m)) = oc_Capabilities (offerCapacity_of G b m)"
  by (simp_all add: offerCapacity_of_def Let_def)

lemma announced_ids:
  "oc_OfferID (offerCapacity_of G b m) = EffectiveOfferID b" "oc_Model (offerCapacity_of G b m) = cb_Model b"
  "oc_PriceVersion (offerCapacity_of G b m) = cb_PriceVersion b"
  "oc_OfferHash (offerCapacity_of G b m) = keccak_hex G (EffectiveOfferID b)" "oc_ModelHash (offerCapacity_of G b m) = keccak_hex G (cb_Model b)"
  "oc_CapabilityHash (offerCapacity_of G b m) = keccak_hex G (join_with (CHR '','' ) (oc_Capabilities (offerCapacity_of G b m)))"
  by (simp_all add: offerCapacity_of_def Let_def split: prod.splits)

lemma announced_metering_trimmed: "trim_space (oc_MeteringMode (offerCapacity_of G b m)) = oc_MeteringMode (offerCapacity_of G b m)"
proof -
  have "trim_space ''compute_only'' = ''compute_only''" "trim_space ''tokens_and_compute'' = ''tokens_and_compute''" by code_simp+
  then show ?thesis by (simp add: offerCapacity_of_def Let_def)
qed

lemma published_offer:
  assumes "publish_request b rates = Inr input" "validateProviderActionInput input = Inr checked"
  shows "\<exists>i out c. pi_Offers checked = [normalize_offer (hd (pi_Offers (publish_input b i out c)))]"
proof -
  obtain i out c where input: "input = publish_input b i out c" using assms(1) by (auto simp: publish_request_def)
  have "trim_space ''publish_offer'' = ''publish_offer''" by code_simp
  then have "pi_Offers checked = [normalize_offer (hd (pi_Offers (publish_input b i out c)))]" using assms(2) unfolding input
    by (auto simp: publish_input_def validateProviderActionInput_def Let_def split: prod.splits if_splits)
  then show ?thesis by blast
qed

lemma announced_offer_hashes: "announced_hashes_ok G (offerCapacity_of G b m)"
  using announced_capabilities_sorted [of G b m] by (simp add: announced_hashes_ok_def announced_ids)


section \<open>Backends that were added can be served\<close>

text \<open>What the constructor of a backend asks of everything but the credential; a credential only has to be present and not blank.\<close>

definition constructor_ok :: "client_env \<Rightarrow> cfg_backend \<Rightarrow> bool" where
  "constructor_ok env b =
     (if cb_Kind b = ''ollama'' then is_ok (ollama_New (ce_Parse env) (cb_URL b))
      else if cb_Kind b = ''openai'' then is_ok (openai_New (ce_Parse env) (cb_URL b) ''secret'')
      else if cb_Kind b = ''codex'' \<and> cb_Image b = [] then (case ce_Codex env of None \<Rightarrow> False | Some create \<Rightarrow> is_ok (create (cb_Model b)))
      else if cb_Kind b = ''claude'' \<and> cb_Image b = [] then (case ce_Claude env of None \<Rightarrow> False | Some create \<Rightarrow> is_ok (create (cb_Model b)))
      else is_ok (command_New env (cb_Image b) (cb_Kind b) (cb_Model b) ''secret''))"

definition secret_ok :: "(string \<rightharpoonup> string) \<Rightarrow> string \<Rightarrow> cfg_backend \<Rightarrow> bool" where
  "secret_ok secrets machine b \<longleftrightarrow> backendUsesCredential (cb_Kind b) (cb_Image b)
     \<longrightarrow> (\<exists>s. secrets (machine @ ''/'' @ cb_Name b) = Some s \<and> \<not> blank s)"

lemma is_ok_and_then_Inr: "is_ok (and_then r (\<lambda>x. Inr (g x))) \<longleftrightarrow> is_ok r"
  by (cases r) simp_all

lemma openai_New_ok:
  "is_ok (openai_New parse url s) \<longleftrightarrow> (\<exists>u. parse url = Inr u \<and> pu_Host u \<noteq> []
     \<and> (pu_Scheme u = ''https'' \<or> pu_Scheme u = ''http'' \<and> loopback (pu_Hostname u))) \<and> \<not> blank s"
  by (cases "parse url") (auto simp: openai_New_def)

lemma command_New_ok:
  "is_ok (command_New env img kind model s) \<longleftrightarrow> (\<exists>docker proxy. ce_Docker env = Some docker \<and> ce_Proxy env = Inr proxy \<and> docker \<noteq> [] \<and> proxy \<noteq> [])
     \<and> pinnedImagePattern img \<and> \<not> blank model \<and> kind \<in> {''codex'', ''claude'', ''kimi''} \<and> \<not> blank s"
proof (cases "ce_Docker env")
  case (Some docker)
  then show ?thesis by (cases "ce_Proxy env") (simp_all add: command_New_def command_newRunner_def two_minutes_def)
qed (simp add: command_New_def)

lemma plain_secret: "\<not> blank ''secret''"
  by code_simp

lemmas constructors_ok = openai_New_ok command_New_ok plain_secret is_ok_and_then_Inr

lemma configuredBackend_ok:
  "is_ok (configuredBackend env (secret_load secrets) machine b) \<longleftrightarrow> constructor_ok env b \<and> secret_ok secrets machine b"
proof -
  let ?a = "machine @ ''/'' @ cb_Name b"
  consider "cb_Kind b = ''ollama''" | "cb_Kind b = ''openai''" | "cb_Kind b = ''codex''" | "cb_Kind b = ''claude''" | "cb_Kind b = ''kimi''"
    | "cb_Kind b \<notin> {''ollama'', ''openai'', ''codex'', ''claude'', ''kimi''}" by blast
  then show ?thesis
    by cases (cases "secrets ?a"; simp add: configuredBackend_def constructor_ok_def secret_ok_def secret_load_def backendUsesCredential_def
      constructors_ok Let_def split: option.splits)+
qed

lemma check_backend_ok:
  assumes "check_backend d f = Inr u" "bf_kind f \<in> set [''ollama'', ''openai'', ''codex'', ''claude'', ''kimi'']"
  shows "constructor_ok (bd_env d) (new_item f)" "backendUsesCredential (bf_kind f) (bf_image f) \<Longrightarrow> \<not> blank (bf_secret f)"
proof -
  have command: "constructor_ok (bd_env d) (new_item f) \<and> \<not> blank (bf_secret f)"
    if "check_command d f = Inr u" "bf_kind f \<in> {''codex'', ''claude'', ''kimi''}" "bf_image f \<noteq> []"
  proof -
    have "is_ok (command_New (bd_env d) (bf_image f) (bf_kind f) (bf_model f) (bf_secret f))" using that(1) by (auto simp: check_command_def)
    then show ?thesis using that(2,3) by (auto simp: constructors_ok constructor_ok_def new_item_def)
  qed
  have openai: "constructor_ok (bd_env d) (new_item f) \<and> \<not> blank (bf_secret f)"
    if "openai_New (ce_Parse (bd_env d)) (bf_url f) (bf_secret f) = Inr x" "bf_kind f = ''openai''" for x
  proof -
    have "is_ok (openai_New (ce_Parse (bd_env d)) (bf_url f) (bf_secret f))" using that(1) by simp
    then show ?thesis using that(2) by (simp add: constructors_ok constructor_ok_def new_item_def)
  qed
  consider "bf_kind f = ''ollama''" | "bf_kind f = ''openai''" | "bf_kind f = ''codex''" "bf_image f = []" | "bf_kind f = ''claude''" "bf_image f = []"
    | "bf_kind f \<in> {''codex'', ''claude'', ''kimi''}" "bf_image f \<noteq> []" | "bf_kind f = ''kimi''" "bf_image f = []"
    using assms(2) by auto
  then have "constructor_ok (bd_env d) (new_item f) \<and> (backendUsesCredential (bf_kind f) (bf_image f) \<longrightarrow> \<not> blank (bf_secret f))"
  proof cases
    case 1
    then show ?thesis using assms(1) by (auto simp: check_backend_def constructor_ok_def new_item_def backendUsesCredential_def)
  next
    case 2
    then show ?thesis using assms(1) openai by (auto simp: check_backend_def)
  next
    case 3
    then show ?thesis using assms(1)
      by (auto simp: check_backend_def check_native_def constructor_ok_def new_item_def backendUsesCredential_def split: if_splits option.splits)
  next
    case 4
    then show ?thesis using assms(1)
      by (auto simp: check_backend_def check_native_def constructor_ok_def new_item_def backendUsesCredential_def split: if_splits option.splits)
  next
    case 5
    then have "check_command d f = Inr u" using assms(1) by (auto simp: check_backend_def split: if_splits)
    then show ?thesis using command 5 by blast
  next
    case 6
    then show ?thesis using assms(1) by (simp add: check_backend_def)
  qed
  then show "constructor_ok (bd_env d) (new_item f)" "backendUsesCredential (bf_kind f) (bf_image f) \<Longrightarrow> \<not> blank (bf_secret f)" by auto
qed

definition servable :: "client_env \<Rightarrow> (string \<rightharpoonup> string) \<Rightarrow> provider_config \<Rightarrow> bool" where
  "servable env secrets cfg \<longleftrightarrow> distinct (map cb_Name (cf_Backends cfg))
     \<and> (\<forall>b \<in> set (cf_Backends cfg). constructor_ok env b \<and> secret_ok secrets (cf_MachineID cfg) b)"

definition host_servable :: "client_env \<Rightarrow> cred_state \<Rightarrow> bool" where
  "host_servable env w \<longleftrightarrow> (case cr_config w of None \<Rightarrow> True | Some cfg \<Rightarrow> servable env (cr_secrets w) cfg)"

lemma save_config_effect:
  "save_config cfg w = (r, w') \<Longrightarrow> cr_secrets w' = cr_secrets w \<and> cr_config w' = (if is_ok r then Some cfg else cr_config w)"
  by (cases "config_required cfg"; cases "cr_fails w ConfigSave (cr_calls w)") (auto simp: save_config_def cred_step_def dest: sym)

lemma save_config_required: "save_config cfg w = (r, w') \<Longrightarrow> is_ok r \<Longrightarrow> is_ok (config_required cfg)"
  by (cases "config_required cfg") (auto simp: save_config_def)

lemma save_secret_effect:
  "save_secret a s w = (r, w') \<Longrightarrow> cr_config w' = cr_config w \<and> cr_secrets w' = (if is_ok r then (cr_secrets w)(a \<mapsto> s) else cr_secrets w)"
  by (auto simp: save_secret_def cred_step_def split: sum.splits if_splits bool.splits)

lemma delete_secret_effect:
  "delete_secret a w = (r, w') \<Longrightarrow> cr_config w' = cr_config w \<and> cr_secrets w' = (if is_ok r then (cr_secrets w)(a := None) else cr_secrets w)"
  by (auto simp: delete_secret_def cred_step_def split: sum.splits if_splits bool.splits)

lemma servable_save: "servable env secrets cfg \<Longrightarrow> \<not> blank s \<Longrightarrow> servable env (secrets(a \<mapsto> s)) cfg"
  by (auto simp: servable_def secret_ok_def)

lemma servable_delete:
  assumes "servable env secrets cfg" and "\<And>b. b \<in> set (cf_Backends cfg) \<Longrightarrow> cb_Name b = n \<Longrightarrow> \<not> backendUsesCredential (cb_Kind b) (cb_Image b)"
  shows "servable env (secrets(cf_MachineID cfg @ ''/'' @ n := None)) cfg"
  using assms by (auto simp: servable_def secret_ok_def)

lemma constructor_ok_same:
  "cb_Kind a = cb_Kind b \<Longrightarrow> cb_URL a = cb_URL b \<Longrightarrow> cb_Model a = cb_Model b \<Longrightarrow> cb_Image a = cb_Image b \<Longrightarrow> constructor_ok env a = constructor_ok env b"
  by (simp add: constructor_ok_def cong: option.case_cong)

lemma replaced_item_fields:
  "cb_Name (replaced_item f p) = bf_name f" "cb_Kind (replaced_item f p) = bf_kind f" "cb_Image (replaced_item f p) = bf_image f"
  by (simp_all add: replaced_item_def new_item_def Let_def)

lemma replaced_item_constructor: "constructor_ok env (replaced_item f p) = constructor_ok env (new_item f)"
  by (rule constructor_ok_same) (simp_all add: replaced_item_def Let_def)

lemma index_of_None: "index_of P xs = None \<longleftrightarrow> (\<forall>x \<in> set xs. \<not> P x)"
  by (induction xs) auto

lemma added_backends_item:
  "x \<in> set (added_backends f bs) \<Longrightarrow> x \<in> set bs \<or> cb_Name x = bf_name f \<and> cb_Kind x = bf_kind f \<and> cb_Image x = bf_image f
     \<and> constructor_ok env x = constructor_ok env (new_item f)"
  by (auto simp: added_backends_def replaced_item_fields replaced_item_constructor split: option.splits dest!: set_update_subset_insert [THEN subsetD])
     (simp_all add: new_item_def)

lemma added_backends_names: "distinct (map cb_Name bs) \<Longrightarrow> distinct (map cb_Name (added_backends f bs))"
  by (auto simp: added_backends_def map_same_change replaced_item_fields index_of_None new_item_def
      split: option.splits dest!: index_of_Some)

lemma added_only:
  assumes "distinct (map cb_Name bs)" "x \<in> set (added_backends f bs)" "cb_Name x = bf_name f"
  shows "cb_Kind x = bf_kind f" "cb_Image x = bf_image f"
proof -
  have "\<exists>y \<in> set (added_backends f bs). cb_Name y = bf_name f \<and> cb_Kind y = bf_kind f \<and> cb_Image y = bf_image f"
  proof (cases "index_of (\<lambda>b. cb_Name b = bf_name f) bs")
    case (Some i)
    then have "replaced_item f (bs ! i) \<in> set (added_backends f bs)" by (simp add: added_backends_def index_of_Some set_update_memI)
    then show ?thesis using replaced_item_fields by blast
  qed (simp add: added_backends_def new_item_def)
  then show "cb_Kind x = bf_kind f" "cb_Image x = bf_image f"
    using assms(2,3) added_backends_names [OF assms(1), of f] by (metis distinct_map inj_onD)+
qed

lemma added_servable:
  assumes "servable env secrets cfg" "constructor_ok env (new_item f)"
    and "backendUsesCredential (bf_kind f) (bf_image f) \<Longrightarrow> \<exists>s. secrets (cf_MachineID cfg @ ''/'' @ bf_name f) = Some s \<and> \<not> blank s"
  shows "servable env secrets (cfg\<lparr>cf_Backends := added_backends f (cf_Backends cfg)\<rparr>)"
proof -
  have "constructor_ok env x \<and> secret_ok secrets (cf_MachineID cfg) x" if "x \<in> set (added_backends f (cf_Backends cfg))" for x
    using added_backends_item [OF that, of env] assms by (auto simp: servable_def secret_ok_def)
  then show ?thesis using assms(1) added_backends_names by (auto simp: servable_def)
qed

lemma backend_add_servable:
  assumes run: "backend_add d f cfg w = (r, w')" and cfg: "cr_config w = Some cfg" and inv: "host_servable (bd_env d) w"
  shows "host_servable (bd_env d) w'"
proof -
  let ?uses = "backendUsesCredential (bf_kind f) (bf_image f)" and ?a = "cf_MachineID cfg @ ''/'' @ bf_name f"
    and ?new = "cfg\<lparr>cf_Backends := added_backends f (cf_Backends cfg)\<rparr>"
  have old: "servable (bd_env d) (cr_secrets w) cfg" using inv cfg by (simp add: host_servable_def)
  consider "w' = w"
    | u w1 r1 where "check_backend d f = Inr u" "bf_kind f \<in> set [''ollama'', ''openai'', ''codex'', ''claude'', ''kimi'']"
        "(if ?uses then save_secret ?a (bf_secret f) w else (Inr (), w)) = (r1, w1)"
        "w' = w1 \<or> (\<exists>r2 w2. is_ok r1 \<and> save_config ?new w1 = (r2, w2) \<and> (w' = w2 \<or> \<not> ?uses \<and> is_ok r2 \<and> (\<exists>r3. delete_secret ?a w2 = (r3, w'))))"
    using run unfolding backend_add_def Let_def by (auto split: if_splits sum.splits prod.splits option.splits)
  then show ?thesis
  proof cases
    case 2
    note checked = check_backend_ok [OF 2(1,2)]
    have w1: "cr_config w1 = Some cfg" "cr_secrets w1 = (if ?uses \<and> is_ok r1 then (cr_secrets w)(?a \<mapsto> bf_secret f) else cr_secrets w)"
      using 2(3) cfg save_secret_effect by (auto split: if_splits)
    then have old1: "servable (bd_env d) (cr_secrets w1) cfg" using old servable_save checked(2) by auto
    have new: "servable (bd_env d) (cr_secrets w1) ?new" if "is_ok r1"
      using added_servable [OF old1 checked(1)] checked(2) w1(2) that by auto
    show ?thesis
    proof (cases "w' = w1")
      case True
      then show ?thesis using old1 w1(1) by (simp add: host_servable_def)
    next
      case False
      then obtain r2 w2 where ok: "is_ok r1" and save: "save_config ?new w1 = (r2, w2)"
        and delete: "w' = w2 \<or> \<not> ?uses \<and> is_ok r2 \<and> (\<exists>r3. delete_secret ?a w2 = (r3, w'))" using 2(4) by blast
      have w2: "host_servable (bd_env d) w2" "is_ok r2 \<Longrightarrow> cr_config w2 = Some ?new"
        using save_config_effect [OF save] old1 new [OF ok] w1(1) by (auto simp: host_servable_def)
      from delete show ?thesis
      proof (elim disjE conjE exE)
        fix r3 assume unused: "\<not> ?uses" "is_ok r2" and "delete_secret ?a w2 = (r3, w')"
        then have w': "cr_config w' = Some ?new" "cr_secrets w' = cr_secrets w2 \<or> cr_secrets w' = (cr_secrets w2)(?a := None)"
          using delete_secret_effect w2(2) by (auto split: if_splits)
        have "servable (bd_env d) (cr_secrets w2) ?new" using w2 unused(2) by (simp add: host_servable_def)
        then have "servable (bd_env d) ((cr_secrets w2)(?a := None)) ?new"
          using servable_delete [of "bd_env d" "cr_secrets w2" ?new "bf_name f"] added_only old unused(1) by (auto simp: servable_def)
        then show ?thesis using w' w2 unused(2) by (auto simp: host_servable_def)
      qed (use w2(1) in simp)
    qed
  qed (use inv in simp)
qed

lemma backend_remove_servable:
  assumes run: "backend_remove d f cfg w = (r, w')" and cfg: "cr_config w = Some cfg" and inv: "host_servable env w"
  shows "host_servable env w'"
proof -
  have old: "servable env (cr_secrets w) cfg" using inv cfg by (simp add: host_servable_def)
  consider "w' = w"
    | i r1 w1 where "i < length (cf_Backends cfg)"
        "save_config (cfg\<lparr>cf_Backends := take i (cf_Backends cfg) @ drop (i + 1) (cf_Backends cfg)\<rparr>) w = (r1, w1)"
        "w' = w1 \<or> is_ok r1 \<and> (\<exists>r2. delete_secret (cf_MachineID cfg @ ''/'' @ cb_Name (cf_Backends cfg ! i)) w1 = (r2, w'))"
    using run unfolding backend_remove_def Let_def by (auto split: if_splits sum.splits prod.splits option.splits dest!: index_of_Some)
  then show ?thesis
  proof cases
    case (2 i r1 w1)
    let ?bs = "cf_Backends cfg" and ?new = "cfg\<lparr>cf_Backends := take i (cf_Backends cfg) @ drop (i + 1) (cf_Backends cfg)\<rparr>"
    have parts: "?bs = take i ?bs @ ?bs ! i # drop (i + 1) ?bs" using 2(1) by (simp add: id_take_nth_drop)
    have names: "distinct (map cb_Name (take i ?bs @ ?bs ! i # drop (i + 1) ?bs))" using old unfolding parts [symmetric] servable_def by blast
    have "set (cf_Backends ?new) \<subseteq> set ?bs" by (auto dest: in_set_takeD in_set_dropD)
    then have new: "servable env (cr_secrets w) ?new" using old names unfolding servable_def by auto
    then have w1: "host_servable env w1" "is_ok r1 \<Longrightarrow> cr_config w1 = Some ?new" "cr_secrets w1 = cr_secrets w"
      using save_config_effect [OF 2(2)] cfg old by (auto simp: host_servable_def)
    have "cb_Name (?bs ! i) \<notin> cb_Name ` set (cf_Backends ?new)" using names by auto
    then have others: "cb_Name b \<noteq> cb_Name (?bs ! i)" if "b \<in> set (cf_Backends ?new)" for b
      using that by (metis image_eqI)
    have "servable env ((cr_secrets w)(cf_MachineID ?new @ ''/'' @ cb_Name (?bs ! i) := None)) ?new"
      by (rule servable_delete [OF new]) (use others in blast)
    then have gone: "servable env ((cr_secrets w)(cf_MachineID cfg @ ''/'' @ cb_Name (?bs ! i) := None)) ?new" by simp
    show ?thesis using 2(3) w1 gone delete_secret_effect new by (fastforce simp: host_servable_def split: if_splits)
  qed (use inv in simp)
qed

lemma backend_change_servable:
  assumes run: "backend_change g n cfg w = (r, w')" and cfg: "cr_config w = Some cfg" and inv: "host_servable env w"
    and g: "\<And>b. cb_Name (g b) = cb_Name b \<and> cb_Kind (g b) = cb_Kind b \<and> cb_Image (g b) = cb_Image b \<and> constructor_ok env (g b) = constructor_ok env b"
  shows "host_servable env w'"
proof -
  let ?h = "\<lambda>b. if cb_Name b = n then g b else b"
  have "cb_Name \<circ> ?h = cb_Name" using g by auto
  then have "servable env (cr_secrets w) (cfg\<lparr>cf_Backends := map ?h (cf_Backends cfg)\<rparr>)"
    using inv cfg g by (auto simp: host_servable_def servable_def secret_ok_def)
  then show ?thesis using run inv cfg save_config_effect by (fastforce simp: backend_change_def host_servable_def split: if_splits)
qed

lemma runBackend_servable:
  assumes "host_servable (bd_env d) w"
  shows "host_servable (bd_env d) (snd (runBackend d command f w))"
proof (cases "cr_config w")
  case (Some cfg)
  obtain r w' where run: "runBackend d command f w = (r, w')" by force
  have same: "constructor_ok (bd_env d) (b\<lparr>cb_Enabled := e\<rparr>) = constructor_ok (bd_env d) b"
    "constructor_ok (bd_env d) (b\<lparr>cb_PriceVersion := v\<rparr>) = constructor_ok (bd_env d) b" for b e v
    by (rule constructor_ok_same; simp)+
  consider "w' = w" | "backend_add d f cfg w = (r, w')" | "backend_remove d f cfg w = (r, w')"
    | e where "backend_change (\<lambda>b. b\<lparr>cb_Enabled := e\<rparr>) (bf_name f) cfg w = (r, w')"
    | v where "backend_change (\<lambda>b. b\<lparr>cb_PriceVersion := v\<rparr>) (bf_name f) cfg w = (r, w')"
    using run Some by (auto simp: runBackend_def split: sum.splits if_splits)
  then have "host_servable (bd_env d) w'"
  proof cases
    case 2
    then show ?thesis using backend_add_servable Some assms by blast
  next
    case 3
    then show ?thesis using backend_remove_servable Some assms by blast
  next
    case 4
    then show ?thesis by (rule backend_change_servable) (use Some assms same in simp_all)
  next
    case 5
    then show ?thesis by (rule backend_change_servable) (use Some assms same in simp_all)
  qed (use assms in simp)
  then show ?thesis by (simp add: run)
qed (use assms in \<open>simp add: runBackend_def\<close>)

lemma place_local_servable:
  assumes "servable env secrets cfg" "is_ok (ollama_New (ce_Parse env) endpoint)" "place_local endpoint m (cf_Backends cfg) = Inr bs"
  shows "servable env secrets (cfg\<lparr>cf_Backends := bs\<rparr>)"
proof -
  have item: "constructor_ok env b \<and> secret_ok secrets (cf_MachineID cfg) b" if "cb_Kind b = ''ollama''" "cb_URL b = endpoint" for b
    using that assms(2) by (simp add: constructor_ok_def secret_ok_def backendUsesCredential_def)
  show ?thesis
  proof (cases "index_of (\<lambda>b. cb_Kind b = ''ollama'' \<and> cb_Model b = bm_Name m) (cf_Backends cfg)")
    case (Some i)
    then show ?thesis using assms(1,3) index_of_Some [OF Some] item
      by (auto simp: place_local_def local_item_def servable_def map_same_change dest!: set_update_subset_insert [THEN subsetD])
  next
    case None
    then show ?thesis using assms(1,3) item by (auto simp: place_local_def local_item_def servable_def Let_def split: if_splits)
  qed
qed

lemma configureLocalHost_servable:
  assumes "host_servable env w"
  shows "host_servable env (snd (configureLocalHost env endpoint requested models w))"
proof -
  obtain r w' where run: "configureLocalHost env endpoint requested models w = (r, w')" by force
  consider "w' = w"
    | cfg m bs r1 where "cr_config w = Some cfg" "is_ok (ollama_New (ce_Parse env) endpoint)" "place_local endpoint m (cf_Backends cfg) = Inr bs"
        "save_config (cfg\<lparr>cf_Backends := bs\<rparr>) w = (r1, w')"
    using run by (auto simp: configureLocalHost_def is_ok_iff split: sum.splits option.splits prod.splits)
  then have "host_servable env w'"
  proof cases
    case 2
    then show ?thesis using place_local_servable [OF _ 2(2,3)] save_config_effect [OF 2(4)] assms by (auto simp: host_servable_def)
  qed (use assms in simp)
  then show ?thesis by (simp add: run)
qed

datatype host_command = BackendCommand backend_deps string backend_flags | LocalCommand string string "backend_model list result"

text \<open>The commands on one host: what constructors find does not change between them.\<close>

fun host_run :: "client_env \<Rightarrow> host_command \<Rightarrow> cred_state \<Rightarrow> cred_state" where
  "host_run env (BackendCommand d command f) w = snd (runBackend (d\<lparr>bd_env := env\<rparr>) command f w)"
| "host_run env (LocalCommand endpoint requested models) w = snd (configureLocalHost env endpoint requested models w)"

lemma host_run_servable: "host_servable env w \<Longrightarrow> host_servable env (host_run env c w)"
  using runBackend_servable [of "d\<lparr>bd_env := env\<rparr>" for d] by (cases c) (auto simp: configureLocalHost_servable)

lemma commands_servable: "host_servable env w \<Longrightarrow> host_servable env (foldl (\<lambda>w c. host_run env c w) w commands)"
  by (induction commands arbitrary: w) (simp_all add: host_run_servable)

text \<open>C33: Whatever \<^verbatim>\<open>backend\<close> commands and configurations of the local model are run, with whatever flags and failures of the credential
  store and of saving the file, in any order: if the client of every configured backend could be constructed before, then the client of every
  backend of the resulting configuration can be constructed from the credentials that are then stored.\<close>

theorem commands_keep_backends_servable:
  assumes "host_servable env w" and "cr_config (foldl (\<lambda>w c. host_run env c w) w commands) = Some cfg" "b \<in> set (cf_Backends cfg)"
  shows "\<exists>client. configuredBackend env (secret_load (cr_secrets (foldl (\<lambda>w c. host_run env c w) w commands))) (cf_MachineID cfg) b = Inr client"
  using commands_servable [OF assms(1), of commands] assms(2,3)
    configuredBackend_ok [of env "cr_secrets (foldl (\<lambda>w c. host_run env c w) w commands)" "cf_MachineID cfg" b]
  by (auto simp: host_servable_def servable_def is_ok_iff)

section \<open>Discovery\<close>

lemma discover_one_ok:
  "discover_one G env load query machine b = Inr (offer, client) \<Longrightarrow>
     cb_PriceVersion b \<noteq> 0 \<and> configuredBackend env load machine b = Inr client
     \<and> (\<exists>models m. query client = Inr models \<and> m \<in> set models \<and> bm_Name m = cb_Model b \<and> offer = offerCapacity_of G b m)"
  by (fastforce simp: discover_one_def find_Some_iff in_set_conv_nth split: if_splits option.splits)

lemma discover_loop_ok:
  assumes "discover_loop G env load query machine bs announced table = Inr (announced', table')"
    and "distinct (map EffectiveOfferID bs)"
  shows "map oc_OfferID announced' = map oc_OfferID announced @ map EffectiveOfferID (filter cb_Enabled bs)
    \<and> (\<forall>b \<in> set bs. cb_Enabled b \<longrightarrow> (\<exists>offer client. discover_one G env load query machine b = Inr (offer, client)
         \<and> offer \<in> set announced' \<and> table' (EffectiveOfferID b) = Some client))
    \<and> (\<forall>i. i \<notin> EffectiveOfferID ` set bs \<longrightarrow> table' i = table i) \<and> set announced \<subseteq> set announced'"
  using assms
proof (induction bs arbitrary: announced table)
  case (Cons b bs)
  show ?case
  proof (cases "cb_Enabled b")
    case False
    then show ?thesis using Cons.prems Cons.IH [of announced table] by simp
  next
    case True
    then obtain offer client where one: "discover_one G env load query machine b = Inr (offer, client)"
      and rest: "discover_loop G env load query machine bs (announced @ [offer]) (table(EffectiveOfferID b \<mapsto> client)) = Inr (announced', table')"
      using Cons.prems(1) by auto
    have id: "oc_OfferID offer = EffectiveOfferID b" using discover_one_ok [OF one] announced_ids by auto
    show ?thesis using Cons.IH [OF rest] Cons.prems(2) True one id by auto
  qed
qed simp

text \<open>A reload of a configuration whose offers are apart is all or nothing: it fails and leaves the daemon as it was, or the daemon afterwards
  announces exactly the offers of the enabled backends, each once and in their order, and for each of them it has the client constructed
  from that backend, an announcement with the backend's published version, which is not zero, and hashes that the broker's check accepts.\<close>

lemma reload_all_or_nothing:
  assumes "reloadBackends G env load query prepare now cfg d = (r, d')" "offers_apart cfg"
  shows "(\<exists>e. r = Inl e) \<and> d' = d
    \<or> r = Inr () \<and> map oc_OfferID (dc_Offers (d_config d')) = map EffectiveOfferID (filter cb_Enabled (cf_Backends cfg))
      \<and> distinct (map oc_OfferID (dc_Offers (d_config d')))
      \<and> (\<forall>b \<in> set (cf_Backends cfg). cb_Enabled b \<longrightarrow> (\<exists>offer client.
           configuredBackend env load (cf_MachineID cfg) b = Inr client \<and> d_backends d' (EffectiveOfferID b) = Some client
           \<and> offer \<in> set (dc_Offers (d_config d')) \<and> oc_OfferID offer = EffectiveOfferID b
           \<and> oc_PriceVersion offer = cb_PriceVersion b \<and> cb_PriceVersion b \<noteq> 0 \<and> announced_hashes_ok G offer))"
proof (cases "is_ok r")
  case False
  then show ?thesis using assms(1) by (auto simp: reloadBackends_def UpdateBackends_def is_ok_iff split: sum.splits prod.splits if_splits)
next
  case True
  have apart: "distinct (map EffectiveOfferID (cf_Backends cfg))" using assms(2) by (simp add: offers_apart_def)
  obtain p where p: "and_then (prepare cfg) (\<lambda>_. discoverBackends G env load query cfg) = Inr p"
    using assms(1) True by (cases "and_then (prepare cfg) (\<lambda>_. discoverBackends G env load query cfg)") (auto simp: reloadBackends_def)
  obtain announced table where pair: "p = (announced, table)" by force
  then have "UpdateBackends now d announced table = (r, d')" using assms(1) p by (simp add: reloadBackends_def)
  then have d': "r = Inr ()" "dc_Offers (d_config d') = announced" "d_backends d' = table"
    using True by (auto simp: UpdateBackends_def is_ok_iff split: sum.splits)
  have found: "discover_loop G env load query (cf_MachineID cfg) (cf_Backends cfg) [] Map.empty = Inr (announced, table)"
    using p pair by (auto simp: discoverBackends_def)
  note loop = discover_loop_ok [OF found apart]
  have ids: "map oc_OfferID announced = map EffectiveOfferID (filter cb_Enabled (cf_Backends cfg))" using loop by simp
  have "\<exists>offer client. configuredBackend env load (cf_MachineID cfg) b = Inr client \<and> table (EffectiveOfferID b) = Some client
      \<and> offer \<in> set announced \<and> oc_OfferID offer = EffectiveOfferID b
      \<and> oc_PriceVersion offer = cb_PriceVersion b \<and> cb_PriceVersion b \<noteq> 0 \<and> announced_hashes_ok G offer"
    if b: "b \<in> set (cf_Backends cfg)" "cb_Enabled b" for b
  proof -
    obtain offer client where one: "discover_one G env load query (cf_MachineID cfg) b = Inr (offer, client)"
      and there: "offer \<in> set announced" "table (EffectiveOfferID b) = Some client" using loop b by blast
    moreover obtain m where "offer = offerCapacity_of G b m" using discover_one_ok [OF one] by blast
    ultimately show ?thesis using discover_one_ok [OF one] announced_offer_hashes [of G b m] announced_ids [of G b m] by auto
  qed
  then show ?thesis using d' ids distinct_map_filter [OF apart, of cb_Enabled] by auto
qed

section \<open>Login\<close>

lemma exchange_returns:
  assumes "exchange k \<noteq> Inl ErrPending" "j \<le> k"
  shows "\<exists>r. exchange_loop exchange wait j = Some r"
  using assms(2)
proof (induction "k - j" arbitrary: j)
  case 0
  then show ?case using assms(1) by (subst exchange_loop.simps) (auto split: sum.splits)
next
  case (Suc n)
  then have "\<exists>r. exchange_loop exchange wait (Suc j) = Some r" by simp
  then show ?case by (subst exchange_loop.simps) (auto split: sum.splits)
qed

lemma login_store_effect:
  assumes "login_store G canDelete server a signer secret t s = (r, s')"
  shows "(is_ok r \<longrightarrow> dz_ChainID a \<noteq> 0 \<and> ls_signers s' (dt_MachineID t) = Some secret \<and> ls_tokens s' (dt_MachineID t) = Some (dt_Token t)
      \<and> is_ok (config_required (login_config G server a signer t (cr_config (ls_host s))))
      \<and> cr_config (ls_host s') = Some (login_config G server a signer t (cr_config (ls_host s))))
    \<and> (\<not> is_ok r \<longrightarrow> cr_config (ls_host s') = cr_config (ls_host s))"
proof -
  let ?cfg = "login_config G server a signer t (cr_config (ls_host s))"
  consider "\<not> is_ok r" "cr_config (ls_host s') = cr_config (ls_host s)"
    | n where "dz_ChainID a \<noteq> 0" "save_config ?cfg (ls_host s\<lparr>cr_calls := n\<rparr>) = (r, ls_host s')"
        "ls_signers s' (dt_MachineID t) = Some secret" "ls_tokens s' (dt_MachineID t) = Some (dt_Token t)"
    using assms unfolding login_store_def save_signer_def save_token_def delete_signer_def cred_step_def
    by (auto split: if_splits bool.splits prod.splits)
  then show ?thesis
    by cases (use save_config_effect save_config_required in \<open>auto split: if_splits\<close>)
qed

lemma relay_of_client: "is_ok (NewClient (parse_host parse) server) \<Longrightarrow> is_ok (relayURL parse print server)"
  by (cases "parse server")
     (auto simp: NewClient_def relayURL_def parse_host_def isLoopbackHTTP_def parsed_url.defs split: if_splits)

lemma serve_after_login:
  assumes "login_store G canDelete server a signer secret t s = (r, s')" "is_ok (NewClient (parse_host parse) server)"
    and "key_of (trim_prefix ''0x'' secret) = Inr key" "\<And>x. eth_IsHexAddress G (eth_AddressHex G x)"
  shows "is_ok r \<longrightarrow> (\<exists>cfg token contract relay. serve_prepare G parse print key_of s' = Inr (cfg, token, key, contract, relay)
    \<and> cf_ServerURL cfg = server \<and> cf_ChainID cfg \<noteq> 0
    \<and> (\<forall>old. cr_config (ls_host s) = Some old \<longrightarrow> is_ok (config_required old) \<longrightarrow> cf_Backends cfg = cf_Backends old))"
proof
  assume "is_ok r"
  then have stored: "dz_ChainID a \<noteq> 0" "ls_signers s' (dt_MachineID t) = Some secret" "ls_tokens s' (dt_MachineID t) = Some (dt_Token t)"
    "is_ok (config_required (login_config G server a signer t (cr_config (ls_host s))))"
    "cr_config (ls_host s') = Some (login_config G server a signer t (cr_config (ls_host s)))"
    using login_store_effect [OF assms(1)] by auto
  moreover obtain relay where "relayURL parse print server = Inr relay" using relay_of_client [OF assms(2), of print] by (auto simp: is_ok_iff)
  moreover obtain client where "NewClient (parse_host parse) server = Inr client" using assms(2) by (auto simp: is_ok_iff)
  moreover obtain u where "config_required (login_config G server a signer t (cr_config (ls_host s))) = Inr u"
    using stored(4) by (auto simp: is_ok_iff)
  ultimately show "\<exists>cfg token contract relay. serve_prepare G parse print key_of s' = Inr (cfg, token, key, contract, relay)
    \<and> cf_ServerURL cfg = server \<and> cf_ChainID cfg \<noteq> 0
    \<and> (\<forall>old. cr_config (ls_host s) = Some old \<longrightarrow> is_ok (config_required old) \<longrightarrow> cf_Backends cfg = cf_Backends old)"
    using assms(3,4) by (simp add: serve_prepare_def secret_load_def login_config_def)
qed


definition toy_host :: client_env where
  "toy_host = \<lparr>ce_Parse = (\<lambda>_. Inr \<lparr>pu_Scheme = ''http'', pu_Hostname = ''localhost'', pu_Host = ''localhost:1''\<rparr>), ce_Docker = Some ''/bin/docker'',
     ce_Proxy = Inr ''/bin/proxy'', ce_Codex = None, ce_Claude = None\<rparr>"

definition toy_backend :: cfg_backend where
  "toy_backend = hd (cf_Backends plain_config)"

definition published_input :: providerActionInput where
  "published_input = publish_input toy_backend ''7'' ''0'' ''0''"

lemma toy_publication:
  "publish_request toy_backend tiny_rates = Inr published_input" "validateProviderActionInput published_input = Inr published_input"
  "trim_space (EffectiveOfferID toy_backend) = EffectiveOfferID toy_backend" "trim_space (cb_Model toy_backend) = cb_Model toy_backend"
  by code_simp+


definition cloud_flags :: backend_flags where
  "cloud_flags = \<lparr>bf_name = ''cloud'', bf_model = ''M1'', bf_url = ''http://localhost:1'', bf_kind = ''openai'', bf_image = '''', bf_secret = ''sk'',
     bf_priceVersion = 0, bf_priceVersionSet = False, bf_replace = False\<rparr>"

definition plain_deps :: backend_deps where
  "plain_deps = \<lparr>bd_SaveCredential = True, bd_DeleteCredential = True, bd_env = toy_host, bd_query = (\<lambda>_. Inr ())\<rparr>"

definition logged_in :: cred_state where
  "logged_in = \<lparr>cr_secrets = Map.empty, cr_config = Some (plain_config\<lparr>cf_Backends := []\<rparr>), cr_fails = (\<lambda>_ _. False), cr_calls = 0\<rparr>"

definition cloud_commands :: "host_command list" where
  "cloud_commands = [BackendCommand plain_deps ''add'' cloud_flags, LocalCommand ''http://localhost:1'' '''' (Inr [\<lparr>bm_Name = ''q'', bm_Digest = ''d''\<rparr>]),
     BackendCommand plain_deps ''stop'' cloud_flags]"

theorem commands_keep_backends_servable_witness:
  "\<exists>cfg. cr_config (foldl (\<lambda>w c. host_run toy_host c w) logged_in cloud_commands) = Some cfg \<and> map cb_Name (cf_Backends cfg) = [''cloud'', ''local-q'']
     \<and> (\<exists>client. configuredBackend toy_host (secret_load (cr_secrets (foldl (\<lambda>w c. host_run toy_host c w) logged_in cloud_commands)))
          (cf_MachineID cfg) (hd (cf_Backends cfg)) = Inr client)"
proof -
  let ?w = "foldl (\<lambda>w c. host_run toy_host c w) logged_in cloud_commands"
  have names: "map_option (\<lambda>cfg. map cb_Name (cf_Backends cfg)) (cr_config ?w) = Some [''cloud'', ''local-q'']" by code_simp
  then obtain cfg where cfg: "cr_config ?w = Some cfg" "map cb_Name (cf_Backends cfg) = [''cloud'', ''local-q'']" by auto
  then have b: "hd (cf_Backends cfg) \<in> set (cf_Backends cfg)" by (cases "cf_Backends cfg") auto
  have start: "host_servable toy_host logged_in" by (simp add: host_servable_def logged_in_def servable_def)
  show ?thesis by (rule exI [of _ cfg]) (intro conjI cfg commands_keep_backends_servable [OF start cfg(1) b])
qed

definition toy_daemon :: "(unit, backend_client) daemon" where
  "toy_daemon = NewDaemon 0 \<lparr>dc_RelayURL = ''wss://s/relay'', dc_Token = ''t'', dc_MachineID = ''m'', dc_Offers = [], dc_HeartbeatInterval = 0,
     dc_DrainTimeout = 0, dc_SignerKey = None, dc_ChainID = 1, dc_Contract = 1\<rparr> Map.empty"

definition toy_reload :: "unit result \<times> (unit, backend_client) daemon" where
  "toy_reload = reloadBackends toy_eth toy_host (\<lambda>_. Inl (ErrText ''none'')) (\<lambda>_. Inr [\<lparr>bm_Name = ''q'', bm_Digest = ''sha256:1''\<rparr>])
     (\<lambda>_. Inr ()) 1 plain_config toy_daemon"

lemma reload_all_or_nothing_witness:
  "fst toy_reload = Inr () \<and> distinct (map oc_OfferID (dc_Offers (d_config (snd toy_reload))))
     \<and> map oc_OfferID (dc_Offers (d_config (snd toy_reload))) = [''o1''] \<and> d_backends (snd toy_reload) ''o1'' \<noteq> None"
proof -
  have ok: "is_ok (fst toy_reload)" by code_simp
  have enabled: "map EffectiveOfferID (filter cb_Enabled (cf_Backends plain_config)) = [''o1'']" by code_simp
  have apart: "offers_apart plain_config" by (simp add: offers_apart_def plain_config_def)
  have b: "toy_backend \<in> set (cf_Backends plain_config)" "cb_Enabled toy_backend" "EffectiveOfferID toy_backend = ''o1''"
    by (simp_all add: toy_backend_def plain_config_def EffectiveOfferID_def)
  obtain r d' where pair: "toy_reload = (r, d')" by force
  have "r = Inr ()" using ok unfolding pair by (cases r) simp_all
  then show ?thesis using reload_all_or_nothing [OF toy_reload_def [symmetric, unfolded pair] apart] b enabled unfolding pair by auto
qed

definition toy_login :: login_input where
  "toy_login = \<lparr>li_server = ''https://s'', li_name = ''box'', li_hostname = Inr ''h'', li_key = Inr (''0xs'', ''ab''),
     li_authorize = (\<lambda>_ _. Inr \<lparr>dz_DeviceCode = ''c'', dz_ChainID = 1, dz_ContractAddress = ''0x1''\<rparr>), li_printed = Inr (),
     li_exchange = (\<lambda>_ k. if k < 2 then Inl ErrPending
       else Inr \<lparr>dt_MachineID = ''m2'', dt_AccountID = ''a'', dt_SignerAddress = ''0xS'', dt_Token = ''tok''\<rparr>),
     li_wait = (\<lambda>_. Inr ())\<rparr>"

definition toy_parse :: "string \<Rightarrow> relay_url result" where
  "toy_parse v = Inr \<lparr>pu_Scheme = ''https'', pu_Hostname = ''s'', pu_Host = ''s'', wu_Path = ''/'', wu_Query = [], ru_Fragment = ''''\<rparr>"

definition logged_out :: login_state where
  "logged_out = \<lparr>ls_host = logged_in, ls_signers = Map.empty, ls_tokens = Map.empty\<rparr>"


section \<open>Pauses, and what a login loses\<close>

lemma reconnect_pauses:
  assumes "0 < delay" "delay \<le> maximum" "k < length (fst (reconnect_loop maximum delay rounds))"
  shows "fst (reconnect_loop maximum delay rounds) ! k = min maximum (delay * 2 ^ k)"
  using assms
proof (induction rounds arbitrary: delay k)
  case (Cons r rs)
  let ?n = "next_delay maximum delay"
  have n: "0 < ?n" "?n \<le> maximum" using Cons.prems(1,2) by (auto simp: next_delay_def)
  have "min maximum (?n * 2 ^ j) = min maximum (delay * 2 ^ Suc j)" for j
  proof -
    have one: "(1::int) \<le> 2 ^ j" by simp
    have grow: "delay * 2 * 1 \<le> delay * 2 * 2 ^ j" "maximum * 1 \<le> maximum * 2 ^ j"
      by (rule mult_left_mono [OF one]; use Cons.prems(1,2) in simp)+
    show ?thesis
    proof (cases "maximum \<le> delay * 2")
      case True
      then have "?n = maximum" using Cons.prems(2) by (auto simp: next_delay_def)
      moreover have "maximum \<le> delay * 2 ^ Suc j" using True grow(1) by (simp only: power_Suc mult.assoc mult_1_right)
      ultimately show ?thesis using grow(2) by (simp only: mult_1_right min_absorb1)
    qed (use Cons.prems(1) in \<open>simp add: next_delay_def mult.assoc\<close>)
  qed
  then show ?case using Cons.IH [OF n] Cons.prems
    by (cases k) (auto split: if_splits sum.splits prod.splits)
qed simp

text \<open>Backends keep their credentials under the machine's name: after a login as another machine they cannot be constructed.\<close>

lemma login_loses_credentials:
  assumes "login_store G canDelete server a signer secret t s = (Inr u, s')" "cr_config (ls_host s) = Some old" "is_ok (config_required old)"
    and "b \<in> set (cf_Backends old)" "backendUsesCredential (cb_Kind b) (cb_Image b)"
    and "cr_secrets (ls_host s) (dt_MachineID t @ ''/'' @ cb_Name b) = None"
  shows "\<exists>cfg. cr_config (ls_host s') = Some cfg \<and> b \<in> set (cf_Backends cfg)
    \<and> \<not> is_ok (configuredBackend env (secret_load (cr_secrets (ls_host s'))) (cf_MachineID cfg) b)"
proof -
  let ?cfg = "login_config G server a signer t (cr_config (ls_host s))"
  have "cr_config (ls_host s') = Some ?cfg" using login_store_effect [OF assms(1)] by simp
  moreover have "cr_secrets (ls_host s') = cr_secrets (ls_host s)" using assms(1)
    unfolding login_store_def save_signer_def save_token_def delete_signer_def cred_step_def
    by (auto split: if_splits bool.splits prod.splits dest!: save_config_effect)
  moreover have "cf_MachineID ?cfg = dt_MachineID t" "b \<in> set (cf_Backends ?cfg)" using assms(2-4) by (simp_all add: login_config_def)
  ultimately show ?thesis using assms(5,6) by (simp add: configuredBackend_ok secret_ok_def)
qed

text \<open>A replacement that cannot be saved has already overwritten the credential of the backend that stays.\<close>

lemma unsaved_replacement_overwrites:
  "fst (runBackend plain_deps ''add'' (cloud_flags\<lparr>bf_replace := True, bf_secret := ''new''\<rparr>)
     ((host_run toy_host (hd cloud_commands) logged_in)\<lparr>cr_fails := (\<lambda>c _. c = ConfigSave)\<rparr>)) \<noteq> Inr ()
   \<and> cr_secrets (snd (runBackend plain_deps ''add'' (cloud_flags\<lparr>bf_replace := True, bf_secret := ''new''\<rparr>)
     ((host_run toy_host (hd cloud_commands) logged_in)\<lparr>cr_fails := (\<lambda>c _. c = ConfigSave)\<rparr>))) ''m/cloud'' = Some ''new''"
  by code_simp

end
