(* ===== verification/WindowsHost.thy ===== *)
theory WindowsHost
  imports HostCommands Recovery
begin

text \<open>
  What a Windows host prepares before its backends are served: Docker Desktop and the images of command agents
  (\<^verbatim>\<open>cli/internal/platform/windows/docker.go\<close>), the models of a local Ollama (\<^verbatim>\<open>ollama.go\<close>), and both for a configuration
  (\<^verbatim>\<open>cli/cmd/myference/platform_windows.go\<close>). Commands are answered by the host: the world holds the commands that were run,
  the latest first, and an answer for each position, so that every behaviour of the host is covered.
\<close>

section \<open>Docker\<close>

record docker_world =
  dw_log :: "string list list"
  dw_answer :: "nat \<Rightarrow> string \<times> go_error option"
  dw_expired :: "nat \<Rightarrow> bool"

record dockerRuntime =
  dk_DockerPath :: string
  dk_DesktopPath :: string

definition runCommand :: "string list \<Rightarrow> docker_world \<Rightarrow> (string \<times> go_error option) \<times> docker_world" where
  "runCommand args w = (dw_answer w (length (dw_log w)), w\<lparr>dw_log := args # dw_log w\<rparr>)"

text \<open>The host's executables, the files that exist and the environment.\<close>

record windows_env =
  we_LookPath :: "string \<Rightarrow> string option"
  we_IsFile :: "string \<Rightarrow> bool"
  we_Getenv :: "string \<Rightarrow> string"
  we_Join :: "string list \<Rightarrow> string"

definition dockerDesktopCandidates :: "windows_env \<Rightarrow> string list" where
  "dockerDesktopCandidates e =
     (if we_Getenv e ''ProgramFiles'' \<noteq> [] then [we_Join e [we_Getenv e ''ProgramFiles'', ''Docker'', ''Docker'', ''Docker Desktop.exe'']] else [])
     @ (if we_Getenv e ''LOCALAPPDATA'' \<noteq> [] then [we_Join e [we_Getenv e ''LOCALAPPDATA'', ''Docker'', ''Docker Desktop.exe'']] else [])"

definition path_or_empty :: "string option \<Rightarrow> string" where
  "path_or_empty p = (case p of None \<Rightarrow> '''' | Some v \<Rightarrow> v)"

definition DiscoverDockerRuntime :: "windows_env \<Rightarrow> dockerRuntime" where
  "DiscoverDockerRuntime e =
     (let exe = path_or_empty (we_LookPath e ''docker.exe'');
          docker = (if exe = [] then path_or_empty (we_LookPath e ''docker'') else exe)
      in \<lparr>dk_DockerPath = docker, dk_DesktopPath = path_or_empty (find (we_IsFile e) (dockerDesktopCandidates e))\<rparr>)"

definition engineOS :: "dockerRuntime \<Rightarrow> docker_world \<Rightarrow> (string \<times> go_error option) \<times> docker_world" where
  "engineOS r w = (case runCommand [dk_DockerPath r, ''info'', ''--format'', ''{{.OSType}}''] w of ((out, err), w) \<Rightarrow> ((to_lower (trim_space out), err), w))"

fun unique_loop :: "string list \<Rightarrow> string list \<Rightarrow> string list" where
  "unique_loop [] result = result"
| "unique_loop (i # imgs) result =
     (let i = trim_space i in if i \<noteq> [] \<and> i \<notin> set result then unique_loop imgs (result @ [i]) else unique_loop imgs result)"

definition uniqueImages :: "string list \<Rightarrow> string list" where
  "uniqueImages imgs = sort (unique_loop imgs [])"

record dockerStatus =
  ds_EngineReady :: bool
  ds_EngineOS :: string
  ds_MissingImages :: "string list"
  ds_Error :: string

definition inspect :: "dockerRuntime \<Rightarrow> string \<Rightarrow> docker_world \<Rightarrow> bool \<times> docker_world" where
  "inspect r i w = (case runCommand [dk_DockerPath r, ''image'', ''inspect'', i] w of ((_, err), w) \<Rightarrow> (err = None, w))"

fun missing_images :: "dockerRuntime \<Rightarrow> string list \<Rightarrow> docker_world \<Rightarrow> string list \<times> docker_world" where
  "missing_images r [] w = ([], w)"
| "missing_images r (i # imgs) w =
     (case inspect r i w of (present, w) \<Rightarrow> (case missing_images r imgs w of (ms, w) \<Rightarrow> (if present then ms else i # ms, w)))"

definition docker_Status :: "dockerRuntime \<Rightarrow> string list \<Rightarrow> docker_world \<Rightarrow> dockerStatus \<times> docker_world" where
  "docker_Status r imgs w =
     (if blank (dk_DockerPath r)
      then (\<lparr>ds_EngineReady = False, ds_EngineOS = '''', ds_MissingImages = [], ds_Error = ''Docker CLI was not found; install Docker Desktop''\<rparr>, w)
      else case engineOS r w of
        ((_, Some _), w) \<Rightarrow> (\<lparr>ds_EngineReady = False, ds_EngineOS = '''', ds_MissingImages = [], ds_Error = ''Docker engine is unavailable''\<rparr>, w)
      | ((os, None), w) \<Rightarrow>
          if os \<noteq> ''linux''
          then (\<lparr>ds_EngineReady = True, ds_EngineOS = os, ds_MissingImages = [],
                 ds_Error = ''Docker Desktop is using Windows containers; switch to Linux containers''\<rparr>, w)
          else (case missing_images r (uniqueImages imgs) w of
                  (ms, w) \<Rightarrow> (\<lparr>ds_EngineReady = True, ds_EngineOS = os, ds_MissingImages = ms, ds_Error = ''''\<rparr>, w)))"

text \<open>Polling a starting engine until it answers or the deadline passes.\<close>

partial_function (option) await_engine :: "dockerRuntime \<Rightarrow> docker_world \<Rightarrow> (string result \<times> docker_world) option" where
  "await_engine r w =
     (case engineOS r w of
        ((os, None), w) \<Rightarrow> Some (Inr os, w)
      | ((_, Some _), w) \<Rightarrow>
          if dw_expired w (length (dw_log w)) then Some (Inl (ErrText ''Docker Desktop did not become ready''), w)
          else await_engine r w)"

declare await_engine.simps [code]

fun prepare_images :: "dockerRuntime \<Rightarrow> string list \<Rightarrow> docker_world \<Rightarrow> unit result \<times> docker_world" where
  "prepare_images r [] w = (Inr (), w)"
| "prepare_images r (i # imgs) w =
     (if \<not> pinnedImagePattern i then (Inl (ErrText (''command-agent image must be digest-pinned: '' @ i)), w)
      else case inspect r i w of
        (True, w) \<Rightarrow> prepare_images r imgs w
      | (False, w) \<Rightarrow>
          (case runCommand [dk_DockerPath r, ''pull'', i] w of
             ((_, Some _), w) \<Rightarrow> (Inl (ErrText (''pull digest-pinned command-agent image '' @ i)), w)
           | ((_, None), w) \<Rightarrow>
               (case inspect r i w of
                  (False, w) \<Rightarrow> (Inl (ErrText (''verify pulled command-agent image '' @ i)), w)
                | (True, w) \<Rightarrow> prepare_images r imgs w)))"

text \<open>\<open>starts\<close> is the result of starting Docker Desktop.\<close>

definition docker_Prepare ::
  "(string \<Rightarrow> unit result) \<Rightarrow> dockerRuntime \<Rightarrow> string list \<Rightarrow> int \<Rightarrow> docker_world \<Rightarrow> (unit result \<times> docker_world) option" where
  "docker_Prepare starts r imgs timeout w =
     (if blank (dk_DockerPath r) then Some (Inl (ErrText ''Docker CLI was not found; install Docker Desktop''), w)
      else if timeout \<le> 0 then Some (Inl (ErrText ''Docker startup timeout must be positive''), w)
      else
        (case (case engineOS r w of
             ((os, None), w) \<Rightarrow> Some (Inr os, w)
           | ((_, Some _), w) \<Rightarrow>
               if blank (dk_DesktopPath r) then Some (Inl (ErrText ''Docker engine is unavailable and Docker Desktop could not be found''), w)
               else case starts (dk_DesktopPath r) of
                 Inl e \<Rightarrow> Some (Inl e, w)
               | Inr _ \<Rightarrow> await_engine r w) of
           None \<Rightarrow> None
         | Some (Inl e, w) \<Rightarrow> Some (Inl e, w)
         | Some (Inr os, w) \<Rightarrow>
             if os \<noteq> ''linux'' then Some (Inl (ErrText (''Docker Desktop is using '' @ os @ '' containers; switch to Linux containers'')), w)
             else Some (prepare_images r (uniqueImages imgs) w)))"

section \<open>Ollama\<close>

record ollama_url = parsed_url +
  ou_User :: bool
  ou_RawQuery :: string
  ou_Fragment :: string

text \<open>The library: the URL parser, whether a host is a loopback address, the client, and the decoders of its two answers.\<close>

record ollama_lib =
  ol_Parse :: "string \<Rightarrow> ollama_url result"
  ol_LoopbackIP :: "string \<Rightarrow> bool"
  ol_Send :: "string \<Rightarrow> string \<Rightarrow> (nat \<times> string) result"
  ol_DecodeModels :: "string \<Rightarrow> string list result"
  ol_DecodeError :: "string \<Rightarrow> string result"

definition isLoopbackHost :: "ollama_lib \<Rightarrow> string \<Rightarrow> bool" where
  "isLoopbackHost L host \<longleftrightarrow> equal_fold host ''localhost'' \<or> ol_LoopbackIP L host"

definition NewOllamaHostClient :: "ollama_lib \<Rightarrow> string \<Rightarrow> string result" where
  "NewOllamaHostClient L baseURL =
     and_then (ol_Parse L baseURL) (\<lambda>u.
       if pu_Scheme u \<noteq> ''http'' \<or> ou_User u \<or> ou_RawQuery u \<noteq> [] \<or> ou_Fragment u \<noteq> [] \<or> \<not> isLoopbackHost L (pu_Hostname u)
       then Inl (ErrText ''Ollama URL must use loopback HTTP'') else Inr (trim_right_slash baseURL))"

definition ollama_answer :: "(nat \<times> string) result \<Rightarrow> string result" where
  "ollama_answer response = and_then response (\<lambda>(status, body). if status \<noteq> 200 then Inl (ErrText ''Ollama returned an error'') else Inr body)"

definition InstalledModels :: "ollama_lib \<Rightarrow> string \<Rightarrow> string list result" where
  "InstalledModels L base =
     and_then (ollama_answer (ol_Send L ''GET'' (base @ ''/api/tags''))) (\<lambda>body.
     and_then (ol_DecodeModels L body) (\<lambda>names. Inr (sort (filter (\<lambda>n. n \<noteq> []) (map trim_space names)))))"

definition Preload :: "ollama_lib \<Rightarrow> string \<Rightarrow> string \<Rightarrow> tuning_config \<Rightarrow> unit result" where
  "Preload L base model c =
     (if blank model then Inl (ErrText ''preload model is required'')
      else and_then (tuning_Validate c) (\<lambda>_. and_then (ollama_answer (ol_Send L ''POST'' (base @ ''/api/generate''))) (\<lambda>body.
        and_then (ol_DecodeError L body) (\<lambda>e. if e \<noteq> [] then Inl (ErrText e) else Inr ()))))"

definition SelectInstalledModel :: "string list \<Rightarrow> string \<Rightarrow> string result" where
  "SelectInstalledModel installed requested =
     (if requested \<noteq> [] then (if requested \<in> set installed then Inr requested else Inl (ErrText (''model '' @ requested @ '' is not installed in Ollama'')))
      else if installed = [] then Inl (ErrText ''Ollama has no installed models; install one with `ollama pull <model>`'')
      else Inr (hd (sort installed)))"

section \<open>The backends of a configuration\<close>

definition agent_backend :: "cfg_backend \<Rightarrow> bool" where
  "agent_backend b \<longleftrightarrow> cb_Enabled b \<and> cb_Kind b \<in> set [''codex'', ''claude'', ''kimi'']"

fun agent_images :: "cfg_backend list \<Rightarrow> string list \<Rightarrow> string list" where
  "agent_images [] imgs = imgs"
| "agent_images (b # bs) imgs =
     (if agent_backend b \<and> cb_Image b \<notin> set imgs then agent_images bs (imgs @ [cb_Image b]) else agent_images bs imgs)"

definition commandAgentImages :: "provider_config \<Rightarrow> string list" where
  "commandAgentImages cfg = agent_images (cf_Backends cfg) []"

fun preload_backends :: "ollama_lib \<Rightarrow> tuning_config \<Rightarrow> cfg_backend list \<Rightarrow> unit result" where
  "preload_backends L c [] = Inr ()"
| "preload_backends L c (b # bs) =
     (if \<not> cb_Enabled b \<or> cb_Kind b \<noteq> ''ollama'' then preload_backends L c bs
      else and_then (NewOllamaHostClient L (cb_URL b)) (\<lambda>base. and_then (InstalledModels L base) (\<lambda>models.
           and_then (SelectInstalledModel models (cb_Model b)) (\<lambda>model. and_then (Preload L base model c) (\<lambda>_. preload_backends L c bs)))))"

definition prepareWindowsBackends ::
  "(string \<Rightarrow> unit result) \<Rightarrow> dockerRuntime \<Rightarrow> ollama_lib \<Rightarrow> tuning_config \<Rightarrow> provider_config \<Rightarrow> docker_world \<Rightarrow> (unit result \<times> docker_world) option" where
  "prepareWindowsBackends starts r L c cfg w =
     (case (if commandAgentImages cfg \<noteq> [] then docker_Prepare starts r (commandAgentImages cfg) two_minutes w else Some (Inr (), w)) of
        None \<Rightarrow> None
      | Some (Inl e, w) \<Rightarrow> Some (Inl e, w)
      | Some (Inr _, w) \<Rightarrow> Some (preload_backends L c (cf_Backends cfg), w))"

section \<open>Only pinned images are pulled, and all are present\<close>

text \<open>A part of the run: which commands it added to the log.\<close>

definition issued :: "(string list \<Rightarrow> bool) \<Rightarrow> docker_world \<Rightarrow> docker_world \<Rightarrow> bool" where
  "issued P w w' \<longleftrightarrow> dw_answer w' = dw_answer w \<and> dw_expired w' = dw_expired w \<and> (\<exists>new. dw_log w' = new @ dw_log w \<and> (\<forall>a \<in> set new. P a))"

definition inspected :: "dockerRuntime \<Rightarrow> string \<Rightarrow> docker_world \<Rightarrow> bool" where
  "inspected r i w \<longleftrightarrow> (\<exists>k < length (dw_log w). rev (dw_log w) ! k = [dk_DockerPath r, ''image'', ''inspect'', i] \<and> snd (dw_answer w k) = None)"

definition pulls_within :: "string set \<Rightarrow> string list \<Rightarrow> bool" where
  "pulls_within imgs a \<longleftrightarrow> (\<forall>d i. a = [d, ''pull'', i] \<longrightarrow> pinnedImagePattern i \<and> i \<in> imgs)"

lemma issued_refl [simp]: "issued P w w"
  by (simp add: issued_def)

lemma issued_trans: "issued P u v \<Longrightarrow> issued P v w \<Longrightarrow> issued P u w"
  unfolding issued_def by fastforce

lemma issued_mono: "issued P w w' \<Longrightarrow> (\<And>a. P a \<Longrightarrow> Q a) \<Longrightarrow> issued Q w w'"
  unfolding issued_def by blast

lemma issued_command: "runCommand a w = (x, w') \<Longrightarrow> P a \<Longrightarrow> issued P w w'"
  by (auto simp: runCommand_def issued_def)

lemma inspected_ran: "inspected r i w \<Longrightarrow> issued P w w' \<Longrightarrow> inspected r i w'"
  by (fastforce simp: inspected_def issued_def nth_append)

lemma inspect_ran: "inspect r i w = (b, w') \<Longrightarrow> issued (pulls_within imgs) w w' \<and> (b \<longrightarrow> inspected r i w')"
  by (auto simp: inspect_def runCommand_def issued_def inspected_def pulls_within_def nth_append split: prod.splits)

lemma engine_ran: "engineOS r w = (x, w') \<Longrightarrow> issued (pulls_within imgs) w w'"
  by (auto simp: engineOS_def pulls_within_def split: prod.splits dest!: issued_command [where P = "pulls_within imgs"])

lemma prepare_images_step:
  assumes "prepare_images r (i # imgs) w = (res, w')"
  shows "\<not> is_ok res \<and> issued (pulls_within (set (i # imgs))) w w'
    \<or> (\<exists>v. pinnedImagePattern i \<and> issued (pulls_within (set (i # imgs))) w v \<and> inspected r i v \<and> prepare_images r imgs v = (res, w'))"
proof (cases "pinnedImagePattern i")
  case True
  let ?P = "pulls_within (set (i # imgs))"
  obtain b v where first: "inspect r i w = (b, v)" by (cases "inspect r i w")
  obtain out err u where pull: "runCommand [dk_DockerPath r, ''pull'', i] v = ((out, err), u)" by (metis surj_pair)
  obtain b' x where again: "inspect r i u = (b', x)" by (cases "inspect r i u")
  have v: "issued ?P w v" "b \<longrightarrow> inspected r i v" using inspect_ran [OF first] by auto
  have u: "issued ?P w u" using issued_trans [OF v(1) issued_command [OF pull]] True by (simp add: pulls_within_def)
  have x: "issued ?P w x" "b' \<longrightarrow> inspected r i x" using inspect_ran [OF again, of "set (i # imgs)"] issued_trans [OF u] by auto
  show ?thesis using assms True first pull again v u x by (auto split: bool.splits option.splits)
next
  case False
  then have "\<not> is_ok res" "w' = w" using assms by auto
  then show ?thesis by simp
qed

lemma prepare_images_ran:
  assumes "prepare_images r imgs w = (res, w')"
  shows "issued (pulls_within (set imgs)) w w' \<and> (is_ok res \<longrightarrow> (\<forall>i \<in> set imgs. pinnedImagePattern i \<and> inspected r i w'))"
  using assms
proof (induction imgs arbitrary: w)
  case (Cons i imgs)
  let ?P = "pulls_within (set (i # imgs))"
  have wider: "issued (pulls_within (set imgs)) u v \<Longrightarrow> issued ?P u v" for u v by (erule issued_mono) (auto simp: pulls_within_def)
  consider "\<not> is_ok res" "issued ?P w w'"
    | v where "pinnedImagePattern i" "issued ?P w v" "inspected r i v" "prepare_images r imgs v = (res, w')"
    using prepare_images_step [OF Cons.prems] by blast
  then show ?case
  proof cases
    case 2
    then show ?thesis using Cons.IH [OF 2(4)] wider issued_trans inspected_ran by (metis list.set_intros set_ConsD)
  qed simp
qed simp

lemma await_returns:
  assumes "\<forall>n \<ge> N. dw_expired w n"
  shows "\<exists>res w'. await_engine r w = Some (res, w') \<and> issued (pulls_within imgs) w w'"
  using assms
proof (induction "N - length (dw_log w)" arbitrary: w rule: less_induct)
  case less
  obtain x v where engine: "engineOS r w = (x, v)" by (cases "engineOS r w")
  obtain os err where x: "x = (os, err)" by (cases x)
  have v: "dw_expired v = dw_expired w" "length (dw_log v) = Suc (length (dw_log w))"
    using engine by (auto simp: engineOS_def runCommand_def split: prod.splits)
  show ?case
  proof (cases "err = None \<or> dw_expired v (length (dw_log v))")
    case True
    then show ?thesis using engine x engine_ran [OF engine] by (subst await_engine.simps) (auto split: option.splits)
  next
    case False
    then have "length (dw_log v) < N" using less.prems v(1) by (metis not_less)
    then have shorter: "N - length (dw_log v) < N - length (dw_log w)" using v(2) by simp
    then obtain res w' where "await_engine r v = Some (res, w')" "issued (pulls_within imgs) v w'"
      using less.hyps [OF shorter] less.prems v(1) by auto
    then show ?thesis using False engine x issued_trans [OF engine_ran [OF engine]] by (subst await_engine.simps) (auto split: option.splits)
  qed
qed

lemma unique_loop_set: "set (unique_loop imgs result) = set result \<union> (trim_space ` set imgs - {[]})"
  by (induction imgs result rule: unique_loop.induct) (auto simp: Let_def)

lemma docker_Prepare_ran:
  assumes "\<forall>n \<ge> N. dw_expired w n"
  shows "\<exists>res w'. docker_Prepare starts r imgs timeout w = Some (res, w') \<and> issued (pulls_within (set (uniqueImages imgs))) w w'
    \<and> (is_ok res \<longrightarrow> (\<forall>i \<in> set (uniqueImages imgs). pinnedImagePattern i \<and> inspected r i w'))"
proof (cases "blank (dk_DockerPath r) \<or> timeout \<le> 0")
  case True
  then show ?thesis by (auto simp: docker_Prepare_def)
next
  case False
  let ?P = "pulls_within (set (uniqueImages imgs))"
  obtain os err v where engine: "engineOS r w = ((os, err), v)" by (metis surj_pair)
  have v: "issued ?P w v" using engine_ran [OF engine] .
  then have "\<forall>n \<ge> N. dw_expired v n" using assms by (simp add: issued_def)
  from await_returns [OF this, of r "set (uniqueImages imgs)"] obtain res1 u where await: "await_engine r v = Some (res1, u)" "issued ?P v u" by blast
  have images: "issued ?P x (snd (prepare_images r (uniqueImages imgs) x))
      \<and> (is_ok (fst (prepare_images r (uniqueImages imgs) x)) \<longrightarrow> (\<forall>i \<in> set (uniqueImages imgs). pinnedImagePattern i
          \<and> inspected r i (snd (prepare_images r (uniqueImages imgs) x))))" for x
    using prepare_images_ran [of r "uniqueImages imgs" x] by (metis prod.collapse)
  show ?thesis
  proof (cases err)
    case None
    then show ?thesis using False engine v images [of v] issued_trans [OF v] by (cases "prepare_images r (uniqueImages imgs) v") (auto simp: docker_Prepare_def)
  next
    case (Some e)
    then show ?thesis using False engine v await images [of u] issued_trans [OF v] issued_trans [OF await(2)]
      by (cases "prepare_images r (uniqueImages imgs) u"; cases res1) (auto simp: docker_Prepare_def split: sum.splits)
  qed
qed

text \<open>However Docker answers, preparing the images of command agents returns once the deadline has passed. It pulls only images that are pinned by
  digest and belong to the configured ones, and when it succeeds, every configured image is pinned by digest and was found by an inspection that
  Docker answered without an error.\<close>

lemma agents_prepared_pinned:
  assumes "\<forall>n \<ge> N. dw_expired w n" "dw_log w = []"
  shows "\<exists>res w'. docker_Prepare starts r imgs timeout w = Some (res, w')
    \<and> (\<forall>d i. [d, ''pull'', i] \<in> set (dw_log w') \<longrightarrow> pinnedImagePattern i \<and> i \<in> trim_space ` set imgs)
    \<and> (is_ok res \<longrightarrow> (\<forall>i \<in> trim_space ` set imgs. i \<noteq> [] \<longrightarrow> pinnedImagePattern i \<and> inspected r i w'))"
proof -
  let ?imgs = "trim_space ` set imgs - {[]}"
  have set: "set (uniqueImages imgs) = ?imgs" by (simp add: uniqueImages_def unique_loop_set)
  obtain res w' where run: "docker_Prepare starts r imgs timeout w = Some (res, w')" and log: "issued (pulls_within ?imgs) w w'"
    and ok: "is_ok res \<longrightarrow> (\<forall>i \<in> ?imgs. pinnedImagePattern i \<and> inspected r i w')"
    using docker_Prepare_ran [OF assms(1), of starts r imgs timeout] set by auto
  have "pulls_within ?imgs a" if "a \<in> set (dw_log w')" for a using log that assms(2) by (auto simp: issued_def)
  then show ?thesis using run ok unfolding pulls_within_def by blast
qed

section \<open>What needs Docker\<close>

text \<open>
  A native Codex or Claude backend has no image, but its empty image is collected: without Docker, preparing such a host fails, and nothing is
  served.
\<close>

lemma agent_images_keep: "set imgs \<subseteq> set (agent_images bs imgs)"
  by (induction bs arbitrary: imgs) (auto, fastforce)

lemma agent_images_collect: "b \<in> set bs \<Longrightarrow> agent_backend b \<Longrightarrow> cb_Image b \<in> set (agent_images bs imgs)"
proof (induction bs arbitrary: imgs)
  case (Cons a bs)
  then show ?case using agent_images_keep [of "imgs @ [cb_Image a]" bs] agent_images_keep [of imgs bs] by auto
qed simp

lemma native_backend_needs_docker:
  assumes "b \<in> set (cf_Backends cfg)" "cb_Enabled b" "cb_Kind b = ''codex''" "cb_Image b = []" "blank (dk_DockerPath r)"
  shows "prepareWindowsBackends starts r L c cfg w = Some (Inl (ErrText ''Docker CLI was not found; install Docker Desktop''), w)"
proof -
  have "commandAgentImages cfg \<noteq> []"
    using agent_images_collect [OF assms(1), of "[]"] assms(2,3) by (auto simp: commandAgentImages_def agent_backend_def)
  then show ?thesis using assms(5) by (simp add: prepareWindowsBackends_def docker_Prepare_def)
qed

section \<open>An example\<close>

definition agent_image :: string where
  "agent_image = ''a/b@sha256:'' @ replicate 64 (CHR ''0'')"

text \<open>The engine answers at the second attempt, and the image has to be pulled.\<close>

definition starting_docker :: docker_world where
  "starting_docker = \<lparr>dw_log = [], dw_answer = (\<lambda>k. if k = 0 then ('''', Some (ErrText ''down'')) else if k = 2 then ('''', Some (ErrText ''missing''))
     else (''linux'', None)), dw_expired = (\<lambda>n. n \<ge> 4)\<rparr>"

definition found_docker :: dockerRuntime where
  "found_docker = \<lparr>dk_DockerPath = ''docker'', dk_DesktopPath = ''desktop''\<rparr>"

lemma agents_prepared_pinned_witness:
  "\<exists>w'. docker_Prepare (\<lambda>_. Inr ()) found_docker [agent_image] 1 starting_docker = Some (Inr (), w')
     \<and> [''docker'', ''pull'', agent_image] \<in> set (dw_log w') \<and> pinnedImagePattern agent_image \<and> inspected found_docker agent_image w'"
proof -
  have deadline: "\<forall>n \<ge> 4. dw_expired starting_docker n" "dw_log starting_docker = []" by (simp_all add: starting_docker_def)
  have run: "map_option (\<lambda>(res, w'). is_ok res \<and> [''docker'', ''pull'', agent_image] \<in> set (dw_log w'))
      (docker_Prepare (\<lambda>_. Inr ()) found_docker [agent_image] 1 starting_docker) = Some True" by code_simp
  have trimmed: "trim_space agent_image = agent_image" "agent_image \<noteq> []" by code_simp+
  obtain res w' where prepared: "docker_Prepare (\<lambda>_. Inr ()) found_docker [agent_image] 1 starting_docker = Some (res, w')"
    and images: "is_ok res \<longrightarrow> (\<forall>i \<in> trim_space ` set [agent_image]. i \<noteq> [] \<longrightarrow> pinnedImagePattern i \<and> inspected found_docker i w')"
    using agents_prepared_pinned [OF deadline, of "\<lambda>_. Inr ()" found_docker "[agent_image]" 1] by blast
  then have "is_ok res" "[''docker'', ''pull'', agent_image] \<in> set (dw_log w')" using run by auto
  moreover from this have "res = Inr ()" by (auto simp: is_ok_iff)
  ultimately show ?thesis using prepared images trimmed by auto
qed

end
