(* ===== verification/ReferencePrice.thy ===== *)
theory ReferencePrice
  imports Prelude Complex_Main
begin

text \<open>
  The reference price of the native token (\<^verbatim>\<open>server/internal/api/price.go\<close>): the answers of two price services, the handler with its cache, and
  requests that are handled at the same time. The handler's lock is taken three times, so that a request is two steps: its start, which
  decides whether it fetches, and its end, with the result of the fetch. Durations and times are in nanoseconds; the JSON decoder, the HTTP
  client and \<^verbatim>\<open>big.Rat\<close>'s parser are parameters.
\<close>

section \<open>Quotes\<close>

record referencePriceConfig =
  rp_Endpoint :: string
  rp_FallbackEndpoint :: string
  rp_CacheTTL :: int
  rp_MaxAge :: int

record referencePrice =
  rq_Symbol :: string
  rq_USDPerMON :: string
  rq_Source :: string
  rq_UpdatedAt :: int

definition second :: int where
  "second = 10 ^ 9"

definition coinGeckoMONPriceURL :: string where
  "coinGeckoMONPriceURL = ''https://api.coingecko.com/api/v3/simple/price?ids=monad&vs_currencies=usd&include_last_updated_at=true''"

definition defiLlamaMONPriceURL :: string where
  "defiLlamaMONPriceURL = ''https://coins.llama.fi/prices/current/coingecko:monad''"

definition NewReferencePrice :: "referencePriceConfig \<Rightarrow> referencePriceConfig" where
  "NewReferencePrice c =
     (let c = (if rp_Endpoint c = [] then c\<lparr>rp_Endpoint := coinGeckoMONPriceURL, rp_FallbackEndpoint := defiLlamaMONPriceURL\<rparr> else c);
          c = (if rp_CacheTTL c \<le> 0 then c\<lparr>rp_CacheTTL := 60 * second\<rparr> else c)
      in if rp_MaxAge c \<le> 0 then c\<lparr>rp_MaxAge := 15 * 60 * second\<rparr> else c)"

definition validateReferencePrice :: "(string \<Rightarrow> rat option) \<Rightarrow> string \<Rightarrow> int \<Rightarrow> string \<Rightarrow> int \<Rightarrow> int \<Rightarrow> referencePrice result" where
  "validateReferencePrice rat_of v timestamp source now maxAge =
     (let updated = timestamp * second
      in if (case rat_of v of None \<Rightarrow> True | Some price \<Rightarrow> price \<le> 0) \<or> timestamp \<le> 0 \<or> updated > now + 60 * second \<or> now - updated > maxAge
         then Inl (ErrText ''invalid or stale price'')
         else Inr \<lparr>rq_Symbol = ''MON'', rq_USDPerMON = v, rq_Source = source, rq_UpdatedAt = updated\<rparr>)"

text \<open>The decoded answers: the number and the time of one, and of the other the entry of the token, empty when there is none.\<close>

record llama_coin =
  lc_Price :: string
  lc_Symbol :: string
  lc_Timestamp :: int
  lc_Confidence :: string

record price_lib =
  pl_rat :: "string \<Rightarrow> rat option"
  pl_decodeCoinGecko :: "string \<Rightarrow> (string \<times> int) result"
  pl_decodeDefiLlama :: "string \<Rightarrow> llama_coin result"

text \<open>\<open>http\<close> answers a request with a status and a body.\<close>

definition price_request :: "(string \<Rightarrow> (nat \<times> string) result) \<Rightarrow> string \<Rightarrow> string result" where
  "price_request http endpoint =
     and_then (http endpoint) (\<lambda>(status, body). if status \<noteq> 200 then Inl (ErrText ''price provider status'') else Inr body)"

definition fetchCoinGecko :: "price_lib \<Rightarrow> referencePriceConfig \<Rightarrow> (string \<Rightarrow> (nat \<times> string) result) \<Rightarrow> int \<Rightarrow> referencePrice result" where
  "fetchCoinGecko L c http now =
     and_then (price_request http (rp_Endpoint c)) (\<lambda>body. and_then (pl_decodeCoinGecko L body) (\<lambda>(usd, updated).
       validateReferencePrice (pl_rat L) (trim_space usd) updated ''CoinGecko'' now (rp_MaxAge c)))"

definition fetchDefiLlama :: "price_lib \<Rightarrow> referencePriceConfig \<Rightarrow> (string \<Rightarrow> (nat \<times> string) result) \<Rightarrow> int \<Rightarrow> referencePrice result" where
  "fetchDefiLlama L c http now =
     and_then (price_request http (rp_FallbackEndpoint c)) (\<lambda>body. and_then (pl_decodeDefiLlama L body) (\<lambda>coin.
       if lc_Symbol coin \<noteq> ''MON'' \<or> (case pl_rat L (lc_Confidence coin) of None \<Rightarrow> True | Some x \<Rightarrow> x < 9 / 10)
       then Inl (ErrText ''invalid price confidence'')
       else validateReferencePrice (pl_rat L) (trim_space (lc_Price coin)) (lc_Timestamp coin) ''DefiLlama'' now (rp_MaxAge c)))"

definition price_fetch :: "price_lib \<Rightarrow> referencePriceConfig \<Rightarrow> (string \<Rightarrow> (nat \<times> string) result) \<Rightarrow> int \<Rightarrow> referencePrice result" where
  "price_fetch L c http now =
     (case fetchCoinGecko L c http now of
        Inr quote \<Rightarrow> Inr quote
      | Inl e \<Rightarrow> if rp_FallbackEndpoint c = [] then Inl e
                 else (case fetchDefiLlama L c http now of Inl _ \<Rightarrow> Inl (ErrText ''primary and fallback'') | Inr quote \<Rightarrow> Inr quote))"

section \<open>The handler\<close>

text \<open>\<open>ph_fetchedAt\<close> is \<^verbatim>\<open>None\<close> before the first fetch, as the zero time.\<close>

record price_handler =
  ph_cached :: "referencePrice option"
  ph_fetchedAt :: "int option"
  ph_refreshing :: bool

definition new_handler :: price_handler where
  "new_handler = \<lparr>ph_cached = None, ph_fetchedAt = None, ph_refreshing = False\<rparr>"

text \<open>The first part, under the lock: the cached quote and whether this request fetches.\<close>

definition price_begin :: "referencePriceConfig \<Rightarrow> int \<Rightarrow> price_handler \<Rightarrow> (referencePrice option \<times> bool) \<times> price_handler" where
  "price_begin c now h =
     (let shouldFetch = (case ph_fetchedAt h of None \<Rightarrow> True | Some t \<Rightarrow> now - t \<ge> rp_CacheTTL c) \<and> \<not> ph_refreshing h
      in ((ph_cached h, shouldFetch), if shouldFetch then h\<lparr>ph_refreshing := True\<rparr> else h))"

text \<open>The second part, of a request that fetched.\<close>

definition price_fetched :: "int \<Rightarrow> referencePrice result \<Rightarrow> price_handler \<Rightarrow> price_handler" where
  "price_fetched now fetched h =
     (case fetched of Inl _ \<Rightarrow> h | Inr quote \<Rightarrow> h\<lparr>ph_cached := Some quote\<rparr>)\<lparr>ph_fetchedAt := Some now, ph_refreshing := False\<rparr>"

datatype price_reply = PriceUnavailable | PriceQuote referencePrice

definition price_reply_of :: "referencePriceConfig \<Rightarrow> int \<Rightarrow> referencePrice option \<Rightarrow> price_reply" where
  "price_reply_of c now quote =
     (case quote of
        None \<Rightarrow> PriceUnavailable
      | Some q \<Rightarrow> if rq_USDPerMON q = [] \<or> now - rq_UpdatedAt q > rp_MaxAge c then PriceUnavailable else PriceQuote q)"

section \<open>Requests at the same time\<close>

text \<open>
  The handler, the requests that are fetching with the time they started and the quote they read, the starts of all fetches with the
  latest first, and the replies with the time of their request.
\<close>

record price_world =
  pw_handler :: price_handler
  pw_fetching :: "(nat \<times> int \<times> referencePrice option) list"
  pw_starts :: "int list"
  pw_replies :: "(int \<times> price_reply) list"

datatype price_event = Arrive nat int | Fetched nat "string \<Rightarrow> (nat \<times> string) result"

definition price_exec :: "price_lib \<Rightarrow> referencePriceConfig \<Rightarrow> price_event \<Rightarrow> price_world \<Rightarrow> price_world" where
  "price_exec L c ev w =
     (case ev of
        Arrive i now \<Rightarrow>
          (case price_begin c now (pw_handler w) of
             ((quote, shouldFetch), h) \<Rightarrow>
               if shouldFetch then w\<lparr>pw_handler := h, pw_fetching := (i, now, quote) # pw_fetching w, pw_starts := now # pw_starts w\<rparr>
               else w\<lparr>pw_handler := h, pw_replies := (now, price_reply_of c now quote) # pw_replies w\<rparr>)
      | Fetched i http \<Rightarrow>
          (case map_of (pw_fetching w) i of
             None \<Rightarrow> w
           | Some (now, quote) \<Rightarrow>
               let fetched = price_fetch L c http now
               in w\<lparr>pw_handler := price_fetched now fetched (pw_handler w),
                    pw_fetching := filter (\<lambda>x. fst x \<noteq> i) (pw_fetching w),
                    pw_replies := (now, price_reply_of c now (case fetched of Inr q \<Rightarrow> Some q | Inl _ \<Rightarrow> quote)) # pw_replies w\<rparr>))"

definition price_start :: price_world where
  "price_start = \<lparr>pw_handler = new_handler, pw_fetching = [], pw_starts = [], pw_replies = []\<rparr>"

inductive price_reachable :: "price_lib \<Rightarrow> referencePriceConfig \<Rightarrow> price_world \<Rightarrow> bool" for L c where
  start: "price_reachable L c price_start"
| step: "price_reachable L c w \<Longrightarrow> price_reachable L c (price_exec L c ev w)"

section \<open>Properties\<close>

definition quote_ok :: "price_lib \<Rightarrow> referencePrice \<Rightarrow> bool" where
  "quote_ok L q \<longleftrightarrow> rq_Symbol q = ''MON'' \<and> (\<exists>p. pl_rat L (rq_USDPerMON q) = Some p \<and> p > 0)"

fun spaced :: "int \<Rightarrow> int list \<Rightarrow> bool" where
  "spaced gap (t # u # ts) \<longleftrightarrow> t - u \<ge> gap \<and> spaced gap (u # ts)"
| "spaced gap _ = True"

lemma validate_ok: "validateReferencePrice (pl_rat L) v t source now maxAge = Inr q \<Longrightarrow> quote_ok L q"
  by (auto simp: validateReferencePrice_def quote_ok_def Let_def split: if_splits option.splits)

lemma price_fetch_ok: "price_fetch L c http now = Inr q \<Longrightarrow> quote_ok L q"
  by (auto simp: price_fetch_def fetchCoinGecko_def fetchDefiLlama_def split: sum.splits if_splits dest: validate_ok)

text \<open>One request fetches while the handler is refreshing, and none otherwise; its start is the latest.\<close>

definition price_inv :: "price_lib \<Rightarrow> referencePriceConfig \<Rightarrow> price_world \<Rightarrow> bool" where
  "price_inv L c w \<longleftrightarrow> (\<forall>q. ph_cached (pw_handler w) = Some q \<longrightarrow> quote_ok L q)
     \<and> (case pw_fetching w of
          [] \<Rightarrow> \<not> ph_refreshing (pw_handler w)
            \<and> ph_fetchedAt (pw_handler w) = (case pw_starts w of [] \<Rightarrow> None | t # _ \<Rightarrow> Some t)
        | x # xs \<Rightarrow> xs = [] \<and> ph_refreshing (pw_handler w) \<and> (\<exists>ts. pw_starts w = fst (snd x) # ts)
            \<and> (\<forall>q. snd (snd x) = Some q \<longrightarrow> quote_ok L q))
     \<and> spaced (rp_CacheTTL c) (pw_starts w)
     \<and> (\<forall>now q. (now, PriceQuote q) \<in> set (pw_replies w) \<longrightarrow> quote_ok L q \<and> now - rq_UpdatedAt q \<le> rp_MaxAge c)"

lemma reply_ok:
  "price_reply_of c now quote = PriceQuote q \<Longrightarrow> \<forall>q. quote = Some q \<longrightarrow> quote_ok L q \<Longrightarrow> quote_ok L q \<and> now - rq_UpdatedAt q \<le> rp_MaxAge c"
  by (auto simp: price_reply_of_def split: option.splits if_splits)

lemma price_inv_arrive: "price_inv L c w \<Longrightarrow> price_inv L c (price_exec L c (Arrive i now) w)"
  by (cases "pw_starts w"; cases "pw_fetching w")
     (auto simp: price_inv_def price_exec_def price_begin_def Let_def dest: reply_ok [OF sym] split: option.splits if_splits)

lemma price_inv_fetched:
  assumes "price_inv L c w"
  shows "price_inv L c (price_exec L c (Fetched i http) w)"
proof (cases "map_of (pw_fetching w) i")
  case None
  then show ?thesis using assms by (simp add: price_exec_def)
next
  case (Some p)
  obtain now quote where p: "p = (now, quote)" by force
  have only: "pw_fetching w = [(i, now, quote)]" using Some p assms by (cases "pw_fetching w") (auto simp: price_inv_def split: if_splits)
  let ?f = "price_fetch L c http now"
  have fetched: "\<forall>q. ?f = Inr q \<longrightarrow> quote_ok L q" by (simp add: price_fetch_ok)
  have read: "\<forall>q. (case ?f of Inr q \<Rightarrow> Some q | Inl _ \<Rightarrow> quote) = Some q \<longrightarrow> quote_ok L q"
    using fetched assms only by (auto simp: price_inv_def split: sum.splits)
  have cached: "\<forall>q. ph_cached (price_fetched now ?f (pw_handler w)) = Some q \<longrightarrow> quote_ok L q"
    using fetched assms by (auto simp: price_inv_def price_fetched_def split: sum.splits)
  show ?thesis using assms only Some p cached reply_ok [OF _ read]
    by (auto simp: price_inv_def price_exec_def price_fetched_def Let_def dest: sym)
qed

lemma price_reachable_inv: "price_reachable L c w \<Longrightarrow> price_inv L c w"
proof (induction rule: price_reachable.induct)
  case start
  then show ?case by (simp add: price_inv_def price_start_def new_handler_def)
next
  case (step w ev)
  then show ?case by (cases ev) (simp_all add: price_inv_arrive price_inv_fetched)
qed

text \<open>However requests for the reference price overlap: at most one of them asks the price services at a time, the starts of two fetches are
  at least the cache's lifetime apart, also when fetches fail, and every quote that is served is for a positive price and is not older than the
  configured age when its request arrived.\<close>

lemma reference_price_fresh:
  assumes "price_reachable L c w"
  shows "length (pw_fetching w) \<le> 1 \<and> spaced (rp_CacheTTL c) (pw_starts w)
    \<and> (\<forall>now q. (now, PriceQuote q) \<in> set (pw_replies w) \<longrightarrow>
         (\<exists>p. pl_rat L (rq_USDPerMON q) = Some p \<and> p > 0) \<and> now - rq_UpdatedAt q \<le> rp_MaxAge c)"
  using price_reachable_inv [OF assms] by (auto simp: price_inv_def quote_ok_def split: list.splits)

definition toy_prices :: price_lib where
  "toy_prices = \<lparr>pl_rat = (\<lambda>v. if v = ''0.5'' then Some (1 / 2) else None), pl_decodeCoinGecko = (\<lambda>_. Inr (''0.5'', 100)),
     pl_decodeDefiLlama = (\<lambda>_. Inl (ErrText ''unused''))\<rparr>"

definition default_config :: referencePriceConfig where
  "default_config = NewReferencePrice \<lparr>rp_Endpoint = '''', rp_FallbackEndpoint = '''', rp_CacheTTL = 0, rp_MaxAge = 0\<rparr>"

text \<open>Two requests overlap; the second does not fetch and finds no price.\<close>

definition overlapping :: price_world where
  "overlapping = fold (price_exec toy_prices default_config)
     [Arrive 1 (100 * second), Arrive 2 (101 * second), Fetched 1 (\<lambda>_. Inr (200, '''')), Arrive 3 (102 * second)] price_start"

definition half_dollar :: price_reply where
  "half_dollar = PriceQuote \<lparr>rq_Symbol = ''MON'', rq_USDPerMON = ''0.5'', rq_Source = ''CoinGecko'', rq_UpdatedAt = 100 * second\<rparr>"

lemma reference_price_fresh_witness:
  "length (pw_fetching overlapping) \<le> 1 \<and> spaced (60 * second) (pw_starts overlapping)
     \<and> map snd (pw_replies overlapping) = [half_dollar, half_dollar, PriceUnavailable]"
proof -
  have reach: "price_reachable toy_prices default_config overlapping"
    unfolding overlapping_def by (simp add: price_reachable.intros)
  have ttl: "rp_CacheTTL default_config = 60 * second" by code_simp
  have "map snd (pw_replies overlapping) = [half_dollar, half_dollar, PriceUnavailable]" by code_simp
  then show ?thesis using reference_price_fresh [OF reach] by (simp add: ttl)
qed

end
